(* ===== verification/Prelude.thy ===== *)
theory Prelude
  imports Main "HOL-Library.AList" "HOL-Library.Sublist" "HOL-Library.Word"
begin

text \<open>
  The part of the development every component shares: the result type of fallible operations,
  64-bit arithmetic as the engine uses it, and generic facts on lists and options that the
  libraries do not provide. The collections that the component proofs use stand where their
  facts are about: \<open>keeps_intros\<close> (Effects), \<open>preserves_intros\<close> (Schema_Props), \<open>safe_intros\<close>
  and \<open>run_intros\<close> (Index_Props), \<open>le_run_intros\<close> and \<open>ends_intros\<close> (Run_Props).
\<close>

section \<open>Results\<close>

text \<open>A Rust \<^verbatim>\<open>Result<T, E>\<close> is a sum: \<open>Inl\<close> is \<^verbatim>\<open>Err\<close>, \<open>Inr\<close> is \<^verbatim>\<open>Ok\<close>.\<close>

type_synonym ('e, 'a) result = "'e + 'a"

abbreviation is_ok :: "('e, 'a) result \<Rightarrow> bool" where
  "is_ok r \<equiv> \<not> isl r"

section \<open>64-bit signed integers\<close>

text \<open>
  \<^verbatim>\<open>i64\<close> values are integers in \<open>i64_min .. i64_max\<close>; the engine combines them with
  \<^verbatim>\<open>saturating_add\<close> and \<^verbatim>\<open>saturating_sub\<close> only, so saturation is written out.
\<close>

definition i64_min :: int where "i64_min = - 9223372036854775808"
definition i64_max :: int where "i64_max = 9223372036854775807"

definition is_i64 :: "int \<Rightarrow> bool" where
  "is_i64 x \<longleftrightarrow> i64_min \<le> x \<and> x \<le> i64_max"

definition i64_saturating_add :: "int \<Rightarrow> int \<Rightarrow> int" where
  "i64_saturating_add a b = max i64_min (min i64_max (a + b))"

lemma is_i64_saturating_add [simp]: "is_i64 (i64_saturating_add a b)"
  by (simp add: is_i64_def i64_saturating_add_def i64_min_def i64_max_def)

lemma i64_saturating_add_exact:
  "is_i64 (a + b) \<Longrightarrow> i64_saturating_add a b = a + b"
  by (simp add: is_i64_def i64_saturating_add_def)

lemma i64_saturating_add_mono:
  "is_i64 a \<Longrightarrow> 0 \<le> b \<Longrightarrow> a \<le> i64_saturating_add a b"
  by (simp add: is_i64_def i64_saturating_add_def)

text \<open>Unsigned counters (\<^verbatim>\<open>u64\<close>, \<^verbatim>\<open>usize\<close>) that the engine bumps with \<^verbatim>\<open>saturating_add\<close>.\<close>

definition u64_max :: nat where "u64_max = 18446744073709551615"

definition u64_saturating_add :: "nat \<Rightarrow> nat \<Rightarrow> nat" where
  "u64_saturating_add a b = min u64_max (a + b)"

definition u64_saturating_mul :: "nat \<Rightarrow> nat \<Rightarrow> nat" where
  "u64_saturating_mul a b = min u64_max (a * b)"

lemma u64_saturating_add_le: "u64_saturating_add a b \<le> u64_max"
  by (simp add: u64_saturating_add_def)

section \<open>Lists\<close>

text \<open>A list filtered twice by predicates that agree on it.\<close>

lemma filter_cong_set: "(\<And>x. x \<in> set xs \<Longrightarrow> P x = Q x) \<Longrightarrow> filter P xs = filter Q xs"
  by (induction xs) auto

lemma dropWhile_idem: "dropWhile P (dropWhile P xs) = dropWhile P xs"
  by (induction xs) auto

lemma set_dropWhile_subset: "set (dropWhile P xs) \<subseteq> set xs"
  by (auto dest: set_dropWhileD)

lemma prefix_full: "prefix b x \<Longrightarrow> length x \<le> length b \<Longrightarrow> b = x"
  by (auto simp: prefix_def)

end
