(* ===== verification/Hash_Map.thy ===== *)
theory Hash_Map
  imports Prelude
begin

text \<open>
  \<^verbatim>\<open>std::collections::HashMap\<close>. The sources look entries up, insert, remove, mutate and
  filter them, and iterate over them; the iteration order of a Rust hash map is unspecified.
  The model is an association list whose order is the (arbitrary) iteration order: what is
  proved of every list holds for every order. The operations clients use and the laws they
  rest on are the locales \<open>hash_map\<close> and \<open>hash_map_iter\<close>, interpreted below on the list
  operations.
\<close>

type_synonym ('k, 'v) hashmap = "('k \<times> 'v) list"

abbreviation hm_get :: "('k, 'v) hashmap \<Rightarrow> 'k \<Rightarrow> 'v option" where
  "hm_get m \<equiv> map_of m"

definition hm_contains :: "('k, 'v) hashmap \<Rightarrow> 'k \<Rightarrow> bool" where
  "hm_contains m k \<longleftrightarrow> hm_get m k \<noteq> None"

definition hm_insert :: "'k \<Rightarrow> 'v \<Rightarrow> ('k, 'v) hashmap \<Rightarrow> ('k, 'v) hashmap" where
  "hm_insert k v m = AList.update k v m"

definition hm_remove :: "'k \<Rightarrow> ('k, 'v) hashmap \<Rightarrow> ('k, 'v) hashmap" where
  "hm_remove k m = filter (\<lambda>(k', _). k' \<noteq> k) m"

text \<open>\<^verbatim>\<open>m.retain(|k, v| ..)\<close>.\<close>

definition hm_retain :: "('k \<Rightarrow> 'v \<Rightarrow> bool) \<Rightarrow> ('k, 'v) hashmap \<Rightarrow> ('k, 'v) hashmap" where
  "hm_retain P m = filter (\<lambda>(k, v). P k v) m"

text \<open>\<^verbatim>\<open>for v in m.values_mut() { .. }\<close>.\<close>

definition hm_map_values :: "('v \<Rightarrow> 'v) \<Rightarrow> ('k, 'v) hashmap \<Rightarrow> ('k, 'v) hashmap" where
  "hm_map_values f m = map (\<lambda>(k, v). (k, f v)) m"

text \<open>\<^verbatim>\<open>if let Some(v) = m.get_mut(k) { .. }\<close>.\<close>

definition hm_modify :: "'k \<Rightarrow> ('v \<Rightarrow> 'v) \<Rightarrow> ('k, 'v) hashmap \<Rightarrow> ('k, 'v) hashmap" where
  "hm_modify k f m = map (\<lambda>(k', v). (k', if k' = k then f v else v)) m"

text \<open>\<^verbatim>\<open>m.entry(k).or_insert(d)\<close>, for its effect on the map.\<close>

definition hm_or_insert :: "'k \<Rightarrow> 'v \<Rightarrow> ('k, 'v) hashmap \<Rightarrow> ('k, 'v) hashmap" where
  "hm_or_insert k d m = (if hm_contains m k then m else hm_insert k d m)"

definition hm_keys :: "('k, 'v) hashmap \<Rightarrow> 'k list" where
  "hm_keys m = map fst m"

definition hm_values :: "('k, 'v) hashmap \<Rightarrow> 'v list" where
  "hm_values m = map snd m"

text \<open>A key occurs once.\<close>

definition hm_wf :: "('k, 'v) hashmap \<Rightarrow> bool" where
  "hm_wf m \<longleftrightarrow> distinct (map fst m)"

text \<open>Every entry satisfies a predicate.\<close>

definition hm_all :: "('k \<Rightarrow> 'v \<Rightarrow> bool) \<Rightarrow> ('k, 'v) hashmap \<Rightarrow> bool" where
  "hm_all P m \<longleftrightarrow> (\<forall>(k, v) \<in> set m. P k v)"

section \<open>Lookups\<close>

lemma hm_get_insert [simp]: "hm_get (hm_insert k v m) k' = (if k' = k then Some v else hm_get m k')"
  by (simp add: hm_insert_def update_conv')

lemma hm_get_remove [simp]: "hm_get (hm_remove k m) k' = (if k' = k then None else hm_get m k')"
  by (induction m) (auto simp: hm_remove_def)

lemma hm_get_map_values [simp]: "hm_get (hm_map_values f m) k = map_option f (hm_get m k)"
  by (induction m) (auto simp: hm_map_values_def)

lemma hm_get_modify [simp]:
  "hm_get (hm_modify k f m) k' = (if k' = k then map_option f (hm_get m k) else hm_get m k')"
  by (induction m) (auto simp: hm_modify_def)

lemma hm_get_or_insert [simp]:
  "hm_get (hm_or_insert k d m) k' =
     (if k' = k then Some (case hm_get m k of Some v \<Rightarrow> v | None \<Rightarrow> d) else hm_get m k')"
  by (auto simp: hm_or_insert_def hm_contains_def)

lemma hm_get_retain [simp]:
  "hm_wf m \<Longrightarrow> hm_get (hm_retain P m) k =
     (case hm_get m k of Some v \<Rightarrow> if P k v then Some v else None | None \<Rightarrow> None)"
proof (induction m)
  case Nil
  then show ?case by (simp add: hm_retain_def)
next
  case (Cons e m)
  obtain k0 v0 where e: "e = (k0, v0)" by (cases e)
  from Cons.prems e have wf: "hm_wf m" and fresh: "k0 \<notin> fst ` set m"
    by (auto simp: hm_wf_def)
  from fresh have "hm_get m k0 = None" by (simp add: map_of_eq_None_iff)
  with Cons.IH [OF wf] e show ?case by (auto simp: hm_retain_def)
qed

lemma hm_get_Nil [simp]: "hm_get [] k = None"
  by simp

lemma hm_contains_insert [simp]: "hm_contains (hm_insert k v m) k' \<longleftrightarrow> k' = k \<or> hm_contains m k'"
  by (simp add: hm_contains_def)

lemma hm_contains_remove [simp]: "hm_contains (hm_remove k m) k' \<longleftrightarrow> k' \<noteq> k \<and> hm_contains m k'"
  by (simp add: hm_contains_def)

lemma hm_contains_modify [simp]: "hm_contains (hm_modify k f m) k' \<longleftrightarrow> hm_contains m k'"
  by (auto simp: hm_contains_def)

lemma hm_contains_map_values [simp]: "hm_contains (hm_map_values f m) k' \<longleftrightarrow> hm_contains m k'"
  by (simp add: hm_contains_def)

lemma hm_contains_or_insert [simp]: "hm_contains (hm_or_insert k d m) k' \<longleftrightarrow> k' = k \<or> hm_contains m k'"
  by (auto simp: hm_contains_def split: option.splits)

lemma hm_contains_keys: "hm_contains m k \<longleftrightarrow> k \<in> set (hm_keys m)"
  by (auto simp: hm_contains_def hm_keys_def map_of_eq_None_iff)

section \<open>Well-formedness and predicates on all entries\<close>

lemma hm_wf_Nil [simp]: "hm_wf []"
  by (simp add: hm_wf_def)

lemma hm_wf_insert [simp]: "hm_wf m \<Longrightarrow> hm_wf (hm_insert k v m)"
  by (simp add: hm_wf_def hm_insert_def distinct_update)

lemma distinct_map_filter': "distinct (map f xs) \<Longrightarrow> distinct (map f (filter P xs))"
  by (induction xs) auto

lemma hm_wf_remove [simp]: "hm_wf m \<Longrightarrow> hm_wf (hm_remove k m)"
  by (simp add: hm_wf_def hm_remove_def distinct_map_filter')

lemma hm_wf_retain [simp]: "hm_wf m \<Longrightarrow> hm_wf (hm_retain P m)"
  by (simp add: hm_wf_def hm_retain_def distinct_map_filter')

lemma fst_hm_modify [simp]: "map fst (hm_modify k f m) = map fst m"
  by (induction m) (auto simp: hm_modify_def)

lemma fst_hm_map_values [simp]: "map fst (hm_map_values f m) = map fst m"
  by (induction m) (auto simp: hm_map_values_def)

lemma hm_wf_modify [simp]: "hm_wf (hm_modify k f m) = hm_wf m"
  by (simp add: hm_wf_def)

lemma hm_wf_map_values [simp]: "hm_wf (hm_map_values f m) = hm_wf m"
  by (simp add: hm_wf_def)

lemma hm_wf_or_insert [simp]: "hm_wf m \<Longrightarrow> hm_wf (hm_or_insert k d m)"
  by (simp add: hm_or_insert_def)

lemma hm_keys_modify [simp]: "hm_keys (hm_modify k f m) = hm_keys m"
  by (simp add: hm_keys_def)

lemma set_hm_insert: "set (hm_insert k v m) \<subseteq> insert (k, v) (set m)"
  by (induction m) (auto simp: hm_insert_def)

lemma hm_all_Nil [simp]: "hm_all P []"
  by (simp add: hm_all_def)

lemma hm_all_insert: "hm_all P m \<Longrightarrow> P k v \<Longrightarrow> hm_all P (hm_insert k v m)"
  using set_hm_insert [of k v m] by (fastforce simp: hm_all_def)

lemma hm_all_remove: "hm_all P m \<Longrightarrow> hm_all P (hm_remove k m)"
  by (auto simp: hm_all_def hm_remove_def)

lemma hm_all_retain: "hm_all P m \<Longrightarrow> hm_all P (hm_retain Q m)"
  by (auto simp: hm_all_def hm_retain_def)

lemma hm_all_modify:
  "hm_all P m \<Longrightarrow> (\<And>v. P k v \<Longrightarrow> P k (f v)) \<Longrightarrow> hm_all P (hm_modify k f m)"
  by (fastforce simp: hm_all_def hm_modify_def)

lemma hm_all_map_values:
  "hm_all P m \<Longrightarrow> (\<And>k v. P k v \<Longrightarrow> P k (f v)) \<Longrightarrow> hm_all P (hm_map_values f m)"
  by (fastforce simp: hm_all_def hm_map_values_def)

lemma hm_all_or_insert: "hm_all P m \<Longrightarrow> P k d \<Longrightarrow> hm_all P (hm_or_insert k d m)"
  by (simp add: hm_or_insert_def hm_all_insert)

lemma hm_all_get: "hm_all P m \<Longrightarrow> hm_get m k = Some v \<Longrightarrow> P k v"
  by (auto simp: hm_all_def dest!: map_of_SomeD)

lemma hm_all_iff: "hm_wf m \<Longrightarrow> hm_all P m \<longleftrightarrow> (\<forall>k v. hm_get m k = Some v \<longrightarrow> P k v)"
  by (auto simp: hm_all_def hm_wf_def)

lemmas hm_all_intros = hm_all_insert hm_all_remove hm_all_retain hm_all_or_insert

section \<open>The interface\<close>

text \<open>What a client of a map may rely on.\<close>

locale hash_map =
  fixes lookup :: "'m \<Rightarrow> 'k \<Rightarrow> 'v option"
    and put :: "'k \<Rightarrow> 'v \<Rightarrow> 'm \<Rightarrow> 'm"
    and del :: "'k \<Rightarrow> 'm \<Rightarrow> 'm"
    and wf :: "'m \<Rightarrow> bool"
  assumes lookup_put: "lookup (put k v m) k' = (if k' = k then Some v else lookup m k')"
    and lookup_del: "lookup (del k m) k' = (if k' = k then None else lookup m k')"
    and wf_put: "wf m \<Longrightarrow> wf (put k v m)"
    and wf_del: "wf m \<Longrightarrow> wf (del k m)"
begin

lemma lookup_put_same: "lookup (put k v m) k = Some v"
  by (simp add: lookup_put)

lemma last_put_wins: "lookup (put k v (put k v' m)) = lookup (put k v m)"
  by (rule ext) (simp add: lookup_put)

lemma put_commute: "k \<noteq> k' \<Longrightarrow> lookup (put k v (put k' v' m)) = lookup (put k' v' (put k v m))"
  by (rule ext) (simp add: lookup_put)

lemma del_undoes_put: "lookup m k = None \<Longrightarrow> lookup (del k (put k v m)) = lookup m"
  by (rule ext) (simp add: lookup_put lookup_del)

text \<open>Moving an entry to a fresh key, as a rename does: the old key goes, the rest stays.\<close>

lemma rename_key:
  assumes "lookup m k = Some v" and "k \<noteq> k'"
  shows "lookup (put k' v (del k m)) j =
     (if j = k' then lookup m k else if j = k then None else lookup m j)"
  using assms by (simp add: lookup_put lookup_del)

end

text \<open>Maps that can also be filtered and iterated over.\<close>

locale hash_map_iter = hash_map lookup put del wf
  for lookup :: "'m \<Rightarrow> 'k \<Rightarrow> 'v option"
    and put :: "'k \<Rightarrow> 'v \<Rightarrow> 'm \<Rightarrow> 'm"
    and del :: "'k \<Rightarrow> 'm \<Rightarrow> 'm"
    and wf :: "'m \<Rightarrow> bool" +
  fixes entries :: "'m \<Rightarrow> ('k \<times> 'v) list"
    and retain :: "('k \<Rightarrow> 'v \<Rightarrow> bool) \<Rightarrow> 'm \<Rightarrow> 'm"
  assumes entries_lookup: "wf m \<Longrightarrow> (k, v) \<in> set (entries m) \<longleftrightarrow> lookup m k = Some v"
    and entries_distinct: "wf m \<Longrightarrow> distinct (map fst (entries m))"
    and wf_retain: "wf m \<Longrightarrow> wf (retain P m)"
    and lookup_retain: "wf m \<Longrightarrow> lookup (retain P m) k =
      (case lookup m k of Some v \<Rightarrow> if P k v then Some v else None | None \<Rightarrow> None)"
begin

lemma retain_entries:
  "wf m \<Longrightarrow> set (entries (retain P m)) = {(k, v). (k, v) \<in> set (entries m) \<and> P k v}"
  by (auto simp: entries_lookup wf_retain lookup_retain split: option.splits if_splits)

lemma retain_none_left:
  "wf m \<Longrightarrow> \<exists>k v. (k, v) \<in> set (entries (retain P m)) \<and> Q k v \<Longrightarrow>
     \<exists>k v. (k, v) \<in> set (entries m) \<and> P k v \<and> Q k v"
  by (auto simp: retain_entries)

lemma put_entries:
  "wf m \<Longrightarrow> set (entries (put k v m)) = insert (k, v) {(k', v') \<in> set (entries m). k' \<noteq> k}"
  by (auto simp: entries_lookup wf_put lookup_put split: if_splits)

lemma del_entries: "wf m \<Longrightarrow> set (entries (del k m)) = {(k', v') \<in> set (entries m). k' \<noteq> k}"
  by (auto simp: entries_lookup wf_del lookup_del split: if_splits)

end

text \<open>The association list provides it.\<close>

lemma hm_get_entry: "hm_wf m \<Longrightarrow> (k, v) \<in> set m \<longleftrightarrow> hm_get m k = Some v"
  by (simp add: hm_wf_def)

interpretation hm: hash_map_iter map_of hm_insert hm_remove hm_wf "\<lambda>m. m" hm_retain
proof (unfold_locales, goal_cases)
  case (5 m k v)
  then show ?case by (rule hm_get_entry)
next
  case (6 m)
  then show ?case by (simp only: hm_wf_def)
qed simp_all

end
