(* ===== verification/Rust_Text.thy ===== *)
theory Rust_Text
  imports Prelude
begin

text \<open>
  The string operations of the Rust standard library that the sources use. A \<^verbatim>\<open>String\<close>
  is the list of its UTF-8 bytes, an Isabelle \<^typ>\<open>string\<close>, whose characters are
  bytes: \<^verbatim>\<open>s.len()\<close> is \<open>length s\<close>, a byte index is a list index and a slice
  \<^verbatim>\<open>s[a..b]\<close> is \<open>take (b - a) (drop a s)\<close>. Operations that look for ASCII delimiters
  read the same on bytes as on characters. Case mapping and white space are those of ASCII:
  on other characters the Unicode tables of the standard library are not modelled.
\<close>

section \<open>Characters\<close>

abbreviation code :: "char \<Rightarrow> nat" where
  "code c \<equiv> of_char c"

definition is_ws :: "char \<Rightarrow> bool" where
  "is_ws c \<longleftrightarrow> (9 \<le> code c \<and> code c \<le> 13) \<or> code c = 32"

definition is_ascii_ws :: "char \<Rightarrow> bool" where
  "is_ascii_ws c \<longleftrightarrow> code c \<in> {9, 10, 12, 13, 32}"

definition is_digit :: "char \<Rightarrow> bool" where
  "is_digit c \<longleftrightarrow> 48 \<le> code c \<and> code c \<le> 57"

definition is_upper :: "char \<Rightarrow> bool" where
  "is_upper c \<longleftrightarrow> 65 \<le> code c \<and> code c \<le> 90"

definition is_lower :: "char \<Rightarrow> bool" where
  "is_lower c \<longleftrightarrow> 97 \<le> code c \<and> code c \<le> 122"

definition is_alnum :: "char \<Rightarrow> bool" where
  "is_alnum c \<longleftrightarrow> is_digit c \<or> is_upper c \<or> is_lower c"

definition up :: "char \<Rightarrow> char" where
  "up c = (if is_lower c then char_of (code c - 32) else c)"

definition low :: "char \<Rightarrow> char" where
  "low c = (if is_upper c then char_of (code c + 32) else c)"

abbreviation quote :: char where "quote \<equiv> CHR 0x27"
abbreviation dquote :: char where "dquote \<equiv> CHR 0x22"

lemma code_up: "code (up c) = (if is_lower c then code c - 32 else code c)"
proof -
  have "code c - 32 < 256" using nat_of_char_less_256 [of c] by linarith
  then show ?thesis by (simp add: up_def)
qed

lemma code_low: "code (low c) = (if is_upper c then code c + 32 else code c)"
  by (simp add: low_def is_upper_def)

lemma not_is_lower_up [simp]: "\<not> is_lower (up c)"
  unfolding is_lower_def code_up by auto

lemma not_is_upper_low [simp]: "\<not> is_upper (low c)"
  unfolding is_upper_def code_low by auto

lemma up_idem [simp]: "up (up c) = up c"
  by (simp add: up_def [of "up c"])

lemma low_idem [simp]: "low (low c) = low c"
  by (simp add: low_def [of "low c"])

lemma is_ws_up [simp]: "is_ws (up c) = is_ws c"
  unfolding is_ws_def code_up by (auto simp: is_lower_def)

section \<open>Case, trimming, splitting\<close>

definition to_uppercase :: "string \<Rightarrow> string" where
  "to_uppercase s = map up s"

definition to_lowercase :: "string \<Rightarrow> string" where
  "to_lowercase s = map low s"

definition eq_ignore_case :: "string \<Rightarrow> string \<Rightarrow> bool" where
  "eq_ignore_case a b \<longleftrightarrow> to_lowercase a = to_lowercase b"

lemma length_to_uppercase [simp]: "length (to_uppercase s) = length s"
  by (simp add: to_uppercase_def)

lemma length_to_lowercase [simp]: "length (to_lowercase s) = length s"
  by (simp add: to_lowercase_def)

lemma to_uppercase_append [simp]: "to_uppercase (a @ b) = to_uppercase a @ to_uppercase b"
  by (simp add: to_uppercase_def)

lemma to_lowercase_append [simp]: "to_lowercase (a @ b) = to_lowercase a @ to_lowercase b"
  by (simp add: to_lowercase_def)

lemma to_uppercase_idem [simp]: "to_uppercase (to_uppercase s) = to_uppercase s"
  by (simp add: to_uppercase_def)

definition trim_start_by :: "(char \<Rightarrow> bool) \<Rightarrow> string \<Rightarrow> string" where
  "trim_start_by P s = dropWhile P s"

definition trim_end_by :: "(char \<Rightarrow> bool) \<Rightarrow> string \<Rightarrow> string" where
  "trim_end_by P s = rev (dropWhile P (rev s))"

definition trim_by :: "(char \<Rightarrow> bool) \<Rightarrow> string \<Rightarrow> string" where
  "trim_by P s = trim_end_by P (trim_start_by P s)"

abbreviation trim :: "string \<Rightarrow> string" where
  "trim \<equiv> trim_by is_ws"

abbreviation trim_start :: "string \<Rightarrow> string" where
  "trim_start \<equiv> trim_start_by is_ws"

abbreviation trim_matches :: "char \<Rightarrow> string \<Rightarrow> string" where
  "trim_matches c \<equiv> trim_by (\<lambda>x. x = c)"

abbreviation trim_end_matches :: "char \<Rightarrow> string \<Rightarrow> string" where
  "trim_end_matches c \<equiv> trim_end_by (\<lambda>x. x = c)"

lemma trim_by_Nil [simp]: "trim_by P [] = []"
  by (simp add: trim_by_def trim_start_by_def trim_end_by_def)

lemma trim_end_by_Nil [simp]: "trim_end_by P [] = []"
  by (simp add: trim_end_by_def)

lemma trim_end_by_append_not:
  "\<not> P c \<Longrightarrow> trim_end_by P (s @ [c]) = s @ [c]"
  by (simp add: trim_end_by_def)

lemma trim_end_by_last: "s \<noteq> [] \<Longrightarrow> \<not> P (last s) \<Longrightarrow> trim_end_by P s = s"
  by (cases s rule: rev_cases) (auto simp: trim_end_by_append_not)

lemma trim_start_by_hd: "s \<noteq> [] \<Longrightarrow> \<not> P (hd s) \<Longrightarrow> trim_start_by P s = s"
  by (cases s) (auto simp: trim_start_by_def)

lemma trim_by_id:
  "s \<noteq> [] \<Longrightarrow> \<not> P (hd s) \<Longrightarrow> \<not> P (last s) \<Longrightarrow> trim_by P s = s"
  by (simp add: trim_by_def trim_start_by_hd trim_end_by_last)

lemma last_trim_end_by: "trim_end_by P s \<noteq> [] \<Longrightarrow> \<not> P (last (trim_end_by P s))"
  by (simp add: trim_end_by_def last_rev hd_dropWhile)

lemma trim_end_by_prefix: "prefix (trim_end_by P s) s"
proof -
  have "suffix (dropWhile P (rev s)) (rev s)"
    by (rule suffix_dropWhile)
  then show ?thesis by (simp add: trim_end_by_def suffix_to_prefix)
qed

lemma hd_trim_by: "trim_by P s \<noteq> [] \<Longrightarrow> \<not> P (hd (trim_by P s))"
proof -
  assume ne: "trim_by P s \<noteq> []"
  let ?d = "dropWhile P s"
  have "prefix (trim_by P s) ?d"
    by (simp add: trim_by_def trim_start_by_def trim_end_by_prefix)
  then obtain zs where zs: "?d = trim_by P s @ zs" by (auto simp: prefix_def)
  with ne have "?d \<noteq> []" by simp
  then have "\<not> P (hd ?d)" by (rule hd_dropWhile)
  moreover have "hd ?d = hd (trim_by P s)" using ne zs by simp
  ultimately show ?thesis by simp
qed

lemma last_trim_by: "trim_by P s \<noteq> [] \<Longrightarrow> \<not> P (last (trim_by P s))"
  by (simp add: trim_by_def last_trim_end_by)

lemma trim_by_idem [simp]: "trim_by P (trim_by P s) = trim_by P s"
  by (cases "trim_by P s = []") (simp_all add: trim_by_id hd_trim_by last_trim_by)

lemma trim_by_all: "(\<And>c. c \<in> set s \<Longrightarrow> P c) \<Longrightarrow> trim_by P s = []"
proof -
  assume "\<And>c. c \<in> set s \<Longrightarrow> P c"
  then have "dropWhile P s = []" by (simp add: dropWhile_eq_Nil_conv)
  then show ?thesis by (simp only: trim_by_def trim_start_by_def trim_end_by_Nil)
qed

text \<open>\<^verbatim>\<open>split_whitespace\<close>: the maximal runs of non-space characters, in order.\<close>

function split_whitespace :: "string \<Rightarrow> string list" where
  "split_whitespace s =
     (let t = dropWhile is_ws s in
      if t = [] then []
      else takeWhile (\<lambda>c. \<not> is_ws c) t # split_whitespace (dropWhile (\<lambda>c. \<not> is_ws c) t))"
  by pat_completeness auto
termination
proof (relation "measure length")
  show "wf (measure length)" by simp
next
  fix s t :: string
  assume t: "t = dropWhile is_ws s" and ne: "t \<noteq> []"
  from ne obtain c cs where tc: "t = c # cs" by (cases t) blast+
  have "\<not> is_ws (hd t)" using t ne hd_dropWhile by blast
  with tc have "length (dropWhile (\<lambda>c. \<not> is_ws c) t) < length t"
    by (simp add: length_dropWhile_le le_imp_less_Suc)
  also have "length t \<le> length s" using t by (simp add: length_dropWhile_le)
  finally show "(dropWhile (\<lambda>c. \<not> is_ws c) t, s) \<in> measure length" by simp
qed

declare split_whitespace.simps [simp del]

lemma split_whitespace_word:
  assumes "w \<noteq> []" and "\<And>c. c \<in> set w \<Longrightarrow> \<not> is_ws c" and "is_ws b"
  shows "split_whitespace (w @ b # s) = w # split_whitespace s"
proof -
  obtain c cs where w: "w = c # cs" using assms(1) by (cases w) auto
  have c: "\<not> is_ws c" using assms(2) w by simp
  have dw: "dropWhile is_ws (w @ b # s) = w @ b # s" using w c by simp
  have tw: "takeWhile (\<lambda>c. \<not> is_ws c) (w @ b # s) = w"
    using assms(2,3) by (simp add: takeWhile_append2)
  have dd: "dropWhile (\<lambda>c. \<not> is_ws c) (w @ b # s) = b # s"
    using assms(2,3) by (simp add: dropWhile_append2)
  have tail: "split_whitespace (b # s) = split_whitespace s"
    using assms(3) by (simp add: split_whitespace.simps [of "b # s"] split_whitespace.simps [of s])
  show ?thesis
    by (subst split_whitespace.simps) (simp only: dw tw dd tail Let_def, simp add: w)
qed

lemma split_whitespace_last:
  assumes "w \<noteq> []" and "\<And>c. c \<in> set w \<Longrightarrow> \<not> is_ws c"
  shows "split_whitespace w = [w]"
proof -
  have dw: "dropWhile is_ws w = w" using assms by (cases w) auto
  have tw: "takeWhile (\<lambda>c. \<not> is_ws c) w = w" and dd: "dropWhile (\<lambda>c. \<not> is_ws c) w = []"
    using assms(2) by (simp_all add: takeWhile_eq_all_conv)
  show ?thesis
    by (subst split_whitespace.simps)
      (simp only: dw tw dd Let_def, simp add: assms(1) split_whitespace.simps [of "[]"])
qed

section \<open>Searching\<close>

definition starts_with :: "string \<Rightarrow> string \<Rightarrow> bool" where
  "starts_with p s \<longleftrightarrow> take (length p) s = p"

definition strip_prefix :: "string \<Rightarrow> string \<Rightarrow> string option" where
  "strip_prefix p s = (if starts_with p s then Some (drop (length p) s) else None)"

definition strip_suffix :: "string \<Rightarrow> string \<Rightarrow> string option" where
  "strip_suffix p s =
     (if length p \<le> length s \<and> drop (length s - length p) s = p
      then Some (take (length s - length p) s) else None)"

lemma starts_with_append [simp]: "starts_with p (p @ s)"
  by (simp add: starts_with_def)

lemma starts_with_iff: "starts_with p s \<longleftrightarrow> (\<exists>r. s = p @ r)"
proof
  assume "starts_with p s"
  then have "s = p @ drop (length p) s"
    unfolding starts_with_def by (metis append_take_drop_id)
  then show "\<exists>r. s = p @ r" ..
qed auto

text \<open>\<^verbatim>\<open>haystack.find(needle)\<close>: the least byte index at which the needle occurs.\<close>

fun find_from :: "nat \<Rightarrow> string \<Rightarrow> string \<Rightarrow> nat option" where
  "find_from i p s =
     (if starts_with p s then Some i
      else case s of [] \<Rightarrow> None | _ # r \<Rightarrow> find_from (Suc i) p r)"

declare find_from.simps [simp del]

definition find_str :: "string \<Rightarrow> string \<Rightarrow> nat option" where
  "find_str p s = find_from 0 p s"

definition contains_str :: "string \<Rightarrow> string \<Rightarrow> bool" where
  "contains_str p s \<longleftrightarrow> find_str p s \<noteq> None"

text \<open>\<^verbatim>\<open>s.find(|c| ..)\<close> and \<^verbatim>\<open>s.find('c')\<close>.\<close>

fun find_char :: "(char \<Rightarrow> bool) \<Rightarrow> string \<Rightarrow> nat option" where
  "find_char P [] = None"
| "find_char P (c # s) = (if P c then Some 0 else map_option Suc (find_char P s))"

lemma find_from_Some:
  "find_from i p s = Some k \<Longrightarrow>
     i \<le> k \<and> k \<le> i + length s \<and> starts_with p (drop (k - i) s) \<and>
     (\<forall>j < k - i. \<not> starts_with p (drop j s))"
proof (induction i p s rule: find_from.induct)
  case (1 i p s)
  show ?case
  proof (cases "starts_with p s")
    case True
    with "1.prems" show ?thesis by (subst (asm) find_from.simps) auto
  next
    case False
    with "1.prems" obtain c r where s: "s = c # r" and r: "find_from (Suc i) p r = Some k"
      by (subst (asm) find_from.simps) (auto split: list.splits)
    have IH: "Suc i \<le> k \<and> k \<le> Suc i + length r \<and> starts_with p (drop (k - Suc i) r) \<and>
        (\<forall>j < k - Suc i. \<not> starts_with p (drop j r))"
      using "1.IH" [OF False s r] .
    have "\<not> starts_with p (drop j s)" if "j < k - i" for j
      using that IH False s by (cases j) auto
    moreover have "drop (k - i) s = drop (k - Suc i) r"
      using IH s by (metis Suc_diff_Suc Suc_le_lessD drop_Suc_Cons)
    ultimately show ?thesis using IH s by simp
  qed
qed

lemma find_from_None:
  "find_from i p s = None \<Longrightarrow> \<not> starts_with p (drop j s)"
proof (induction i p s arbitrary: j rule: find_from.induct)
  case (1 i p s)
  from "1.prems" have np: "\<not> starts_with p s"
    by (subst (asm) find_from.simps) (auto split: if_splits)
  show ?case
  proof (cases s)
    case Nil
    with np show ?thesis by simp
  next
    case (Cons c r)
    with "1.prems" np have "find_from (Suc i) p r = None"
      by (subst (asm) find_from.simps) simp
    then have "\<not> starts_with p (drop j' r)" for j'
      using "1.IH" [OF np Cons] by blast
    with np Cons show ?thesis by (cases j) auto
  qed
qed

lemma find_str_Some:
  assumes "find_str p s = Some k"
  shows "k + length p \<le> length s" and "take (length p) (drop k s) = p"
    and "\<And>j. j < k \<Longrightarrow> take (length p) (drop j s) \<noteq> p"
proof -
  from find_from_Some [OF assms [unfolded find_str_def]]
  have k: "k \<le> length s" and at: "take (length p) (drop k s) = p"
    and before: "\<forall>j < k. \<not> starts_with p (drop j s)"
    by (auto simp: starts_with_def)
  from at have "length (take (length p) (drop k s)) = length p" by simp
  with k show "k + length p \<le> length s" by simp
  from at show "take (length p) (drop k s) = p" .
  from before show "\<And>j. j < k \<Longrightarrow> take (length p) (drop j s) \<noteq> p"
    by (simp add: starts_with_def)
qed

lemma find_str_None: "find_str p s = None \<Longrightarrow> take (length p) (drop j s) \<noteq> p"
  using find_from_None [of 0 p s j] by (simp add: find_str_def starts_with_def)

lemma find_str_split:
  assumes "find_str p s = Some k"
  shows "s = take k s @ p @ drop (k + length p) s"
proof -
  have "drop k s = p @ drop (k + length p) s"
    using find_str_Some(2) [OF assms]
    by (metis append_take_drop_id drop_drop add.commute)
  then show ?thesis by (metis append_take_drop_id)
qed

lemma find_char_Some:
  "find_char P s = Some k \<Longrightarrow>
     k < length s \<and> P (s ! k) \<and> (\<forall>c \<in> set (take k s). \<not> P c)"
  by (induction s arbitrary: k) (auto split: if_splits)

lemma find_char_None: "find_char P s = None \<longleftrightarrow> (\<forall>c \<in> set s. \<not> P c)"
  by (induction s) auto

lemma find_char_append:
  "(\<And>c. c \<in> set a \<Longrightarrow> \<not> P c) \<Longrightarrow> P x \<Longrightarrow> find_char P (a @ x # b) = Some (length a)"
  by (induction a) auto

section \<open>Numbers\<close>

definition digit_val :: "char \<Rightarrow> nat" where
  "digit_val c = code c - 48"

definition digits_val :: "string \<Rightarrow> nat" where
  "digits_val s = foldl (\<lambda>n c. 10 * n + digit_val c) 0 s"

text \<open>
  \<^verbatim>\<open>s.parse::<uN>()\<close>: an optional plus sign, then at least one digit and nothing else, and
  the value must fit.
\<close>

definition parse_unsigned :: "nat \<Rightarrow> string \<Rightarrow> nat option" where
  "parse_unsigned mx s =
     (let d = (case s of c # r \<Rightarrow> if c = CHR ''+'' then r else s | [] \<Rightarrow> s) in
      if d \<noteq> [] \<and> list_all is_digit d \<and> digits_val d \<le> mx then Some (digits_val d) else None)"

abbreviation parse_u64 :: "string \<Rightarrow> nat option" where
  "parse_u64 \<equiv> parse_unsigned u64_max"

definition parse_i64 :: "string \<Rightarrow> int option" where
  "parse_i64 s =
     (case s of
        [] \<Rightarrow> None
      | c # r \<Rightarrow>
          let neg = (c = CHR ''-'');
              d = (if neg \<or> c = CHR ''+'' then r else s);
              v = (if neg then - int (digits_val d) else int (digits_val d))
          in if d \<noteq> [] \<and> list_all is_digit d \<and> is_i64 v then Some v else None)"

text \<open>\<^verbatim>\<open>n.to_string()\<close> for an unsigned and a signed integer.\<close>

fun show_nat :: "nat \<Rightarrow> string" where
  "show_nat n =
     (if n < 10 then [char_of (48 + n)] else show_nat (n div 10) @ [char_of (48 + n mod 10)])"

declare show_nat.simps [simp del]

definition show_int :: "int \<Rightarrow> string" where
  "show_int i = (if i < 0 then CHR ''-'' # show_nat (nat (- i)) else show_nat (nat i))"

lemma digits_val_snoc [simp]: "digits_val (s @ [c]) = 10 * digits_val s + digit_val c"
  by (simp add: digits_val_def)

lemma digit_val_char_of [simp]: "(d::nat) < 10 \<Longrightarrow> digit_val (char_of (48 + d)) = d"
  by (simp add: digit_val_def)

lemma is_digit_char_of [simp]: "(d::nat) < 10 \<Longrightarrow> is_digit (char_of (48 + d))"
  by (simp add: is_digit_def)

lemma show_nat_digits: "list_all is_digit (show_nat n) \<and> show_nat n \<noteq> []"
proof (induction n rule: show_nat.induct)
  case (1 n)
  then show ?case by (subst (1 2) show_nat.simps) auto
qed

lemma digits_val_show_nat [simp]: "digits_val (show_nat n) = n"
proof (induction n rule: show_nat.induct)
  case (1 n)
  show ?case
  proof (cases "n < 10")
    case True
    then show ?thesis by (subst show_nat.simps) (simp add: digits_val_def)
  next
    case False
    with "1.IH" show ?thesis by (subst show_nat.simps) simp
  qed
qed

lemma not_digit_signs: "\<not> is_digit (CHR ''+'')" "\<not> is_digit (CHR ''-'')"
  by (simp_all add: is_digit_def)

lemma show_nat_head: "show_nat n = c # r \<Longrightarrow> c \<noteq> CHR ''+'' \<and> c \<noteq> CHR ''-''"
  using show_nat_digits [of n] not_digit_signs by auto

text \<open>Printing and reading back is the identity on the values of the type.\<close>

lemma parse_unsigned_show:
  assumes "n \<le> mx"
  shows "parse_unsigned mx (show_nat n) = Some n"
proof -
  obtain c r where c: "show_nat n = c # r"
    using show_nat_digits [of n] by (cases "show_nat n") auto
  have "list_all is_digit (c # r)" using show_nat_digits [of n] c by simp
  moreover have "digits_val (c # r) = n" using digits_val_show_nat [of n] c by simp
  ultimately show ?thesis
    using show_nat_head [OF c] assms by (simp add: parse_unsigned_def Let_def c)
qed

lemma parse_i64_show:
  assumes "is_i64 i"
  shows "parse_i64 (show_int i) = Some i"
proof (cases "i < 0")
  case True
  have "digits_val (show_nat (nat (- i))) = nat (- i)" by simp
  with True assms show ?thesis
    using show_nat_digits [of "nat (- i)"] by (simp add: parse_i64_def show_int_def)
next
  case False
  obtain c r where c: "show_nat (nat i) = c # r"
    using show_nat_digits [of "nat i"] by (cases "show_nat (nat i)") auto
  have "list_all is_digit (c # r)" using show_nat_digits [of "nat i"] c by simp
  moreover have "digits_val (c # r) = nat i" using digits_val_show_nat [of "nat i"] c by simp
  ultimately show ?thesis
    using show_nat_head [OF c] assms False
    by (simp add: parse_i64_def show_int_def Let_def c)
qed

section \<open>Slices, pieces and replacement\<close>

definition slice :: "string \<Rightarrow> nat \<Rightarrow> nat \<Rightarrow> string" where
  "slice s a b = take (b - a) (drop a s)"

text \<open>\<^verbatim>\<open>s.split(c)\<close>: always at least one piece.\<close>

fun split_char :: "char \<Rightarrow> string \<Rightarrow> string list" where
  "split_char c [] = [[]]"
| "split_char c (x # s) =
     (if x = c then [] # split_char c s
      else case split_char c s of p # ps \<Rightarrow> (x # p) # ps | [] \<Rightarrow> [[x]])"

text \<open>\<^verbatim>\<open>s.replace(p, r)\<close>; the empty pattern matches before, between and behind the characters.\<close>

function replace_matches :: "string \<Rightarrow> string \<Rightarrow> string \<Rightarrow> string" where
  "replace_matches p r s =
     (if s = [] \<or> p = [] then s
      else if starts_with p s then r @ replace_matches p r (drop (length p) s)
      else hd s # replace_matches p r (tl s))"
  by pat_completeness auto
termination by (relation "measure (\<lambda>(p, r, s). length s)") auto

declare replace_matches.simps [simp del]

definition replace_str :: "string \<Rightarrow> string \<Rightarrow> string \<Rightarrow> string" where
  "replace_str p r s =
     (if p = [] then r @ concat (map (\<lambda>c. c # r) s) else replace_matches p r s)"

text \<open>\<^verbatim>\<open>s.replacen(p, r, 1)\<close> for a pattern that is not empty.\<close>

definition replace_first :: "string \<Rightarrow> string \<Rightarrow> string \<Rightarrow> string" where
  "replace_first p r s =
     (case find_str p s of
        None \<Rightarrow> s
      | Some k \<Rightarrow> take k s @ r @ drop (k + length p) s)"

text \<open>\<^verbatim>\<open>Vec::join\<close>.\<close>

fun join :: "string \<Rightarrow> string list \<Rightarrow> string" where
  "join sep [] = []"
| "join sep [a] = a"
| "join sep (a # b # as) = a @ sep @ join sep (b # as)"

text \<open>\<^verbatim>\<open>s.rfind('c')\<close>, \<^verbatim>\<open>s.split(|c| ..)\<close> and \<^verbatim>\<open>s.split_once(|c| ..)\<close>.\<close>

definition rfind_char :: "(char \<Rightarrow> bool) \<Rightarrow> string \<Rightarrow> nat option" where
  "rfind_char P s = map_option (\<lambda>k. length s - 1 - k) (find_char P (rev s))"

fun split_by :: "(char \<Rightarrow> bool) \<Rightarrow> string \<Rightarrow> string list" where
  "split_by P [] = [[]]"
| "split_by P (c # s) =
     (if P c then [] # split_by P s
      else case split_by P s of [] \<Rightarrow> [[c]] | w # ws \<Rightarrow> (c # w) # ws)"

definition split_once :: "(char \<Rightarrow> bool) \<Rightarrow> string \<Rightarrow> (string \<times> string) option" where
  "split_once P s = map_option (\<lambda>k. (take k s, drop (k + 1) s)) (find_char P s)"

text \<open>A byte read as a character (\<^verbatim>\<open>b as char\<close>) and pushed on a string, in UTF-8.\<close>

definition push_latin1 :: "char \<Rightarrow> string" where
  "push_latin1 c =
     (if code c < 128 then [c] else [char_of (192 + code c div 64), char_of (128 + code c mod 64)])"

lemma push_latin1_ascii [simp]: "code c < 128 \<Longrightarrow> push_latin1 c = [c]"
  by (simp add: push_latin1_def)

lemma length_push_latin1: "1 \<le> length (push_latin1 c) \<and> (code c \<ge> 128 \<longrightarrow> length (push_latin1 c) = 2)"
  by (simp add: push_latin1_def)

abbreviation newline :: char where "newline \<equiv> CHR 10"

text \<open>\<^verbatim>\<open>str::lines\<close>: the last line break ends a line, and a carriage return before one goes.\<close>

definition strip_cr :: "string \<Rightarrow> string" where
  "strip_cr l = (if l \<noteq> [] \<and> last l = CHR 13 then butlast l else l)"

definition str_lines :: "string \<Rightarrow> string list" where
  "str_lines s =
     (let ls = split_char newline s in map strip_cr (butlast ls) @ (if last ls = [] then [] else [last ls]))"

text \<open>Splitting text that is put together from lines.\<close>

lemma split_char_not_Nil [simp]: "split_char c s \<noteq> []"
  by (cases s) (auto split: list.splits)

lemma split_char_append: "split_char c (s @ c # t) = split_char c s @ split_char c t"
proof (induction s)
  case (Cons x s)
  then show ?case by (cases "split_char c s") simp_all
qed simp

lemma split_line: "c \<notin> set l \<Longrightarrow> split_char c l = [l]"
  by (induction l) auto

lemma split_lines:
  "\<forall>l \<in> set ls. c \<notin> set l \<Longrightarrow> split_char c (concat (map (\<lambda>l. l @ [c]) ls)) = ls @ [[]]"
  by (induction ls) (simp_all add: split_char_append split_line)

lemma str_lines_append:
  assumes "s = [] \<or> last s = newline" and "newline \<notin> set l" and "l \<noteq> [] \<Longrightarrow> last l \<noteq> CHR 13"
  shows "str_lines (s @ l @ [newline]) = str_lines s @ [l]"
proof (cases "s = []")
  case True
  then show ?thesis using assms by (auto simp: str_lines_def split_char_append split_line strip_cr_def)
next
  case False
  then obtain s' where "s = s' @ [newline]" using assms(1) by (metis append_butlast_last_id)
  then show ?thesis using assms by (auto simp: str_lines_def split_char_append split_line strip_cr_def butlast_append)
qed

end
