(* ===== verification/Catalog.thy ===== *)
theory Catalog
  imports Hash_Map Rust_Text
begin

text \<open>
  \<^verbatim>\<open>crates/catalog/src/lib.rs\<close>: the persistent catalog. The structures of the crate as
  records and datatypes with the source's fields (a \<^verbatim>\<open>u64\<close> is a natural number, an
  \<^verbatim>\<open>i64\<close> an integer), every operation of \<^verbatim>\<open>impl Catalog\<close>, and a datatype of the
  mutating operations with the function that runs them.

  The object store and the JSON codec are not under \<^verbatim>\<open>src/\<close>: they are the parameters
  \<open>object_store\<close> and \<open>json_codec\<close> of the operations that use them.
\<close>

section \<open>Metadata\<close>

record column_def =
  cd_name :: string
  cd_type :: string
  cd_nullable :: bool

record column_statistics =
  cs_null_count :: nat
  cs_distinct_count :: "nat option"
  cs_min_value :: "string option"
  cs_max_value :: "string option"

record table_statistics =
  ts_row_count :: nat
  ts_columns :: "(string, column_statistics) hashmap"

record file_stats =
  fs_path :: string
  fs_row_count :: "nat option"
  fs_min_values :: "(string, string) hashmap"
  fs_max_values :: "(string, string) hashmap"
  fs_size_bytes :: nat
  fs_created_at :: "int option"

datatype table_constraint =
    PrimaryKey "string list"
  | Unique string "string list"
  | Check string string
  | ForeignKey string "string list" string "string list" "string option" "string option"

record deletion_entry =
  de_file_path :: string
  de_deleted_row_indices :: "nat list"
  de_timestamp_ms :: int

record table_meta =
  tm_name :: string
  tm_columns :: "column_def list"
  tm_path :: string
  tm_partition_columns :: "string list"
  tm_statistics :: "table_statistics option"
  tm_retention_seconds :: "nat option"
  tm_constraints :: "table_constraint list"
  tm_file_stats :: "file_stats list"
  tm_deletion_vectors :: "deletion_entry list"

record index_column =
  ic_name :: string
  ic_ascending :: bool

record index_def =
  ix_name :: string
  ix_table :: string
  ix_columns :: "index_column list"
  ix_logical_only :: bool
  ix_primary :: bool

record view_def =
  vw_name :: string
  vw_sql :: string
  vw_materialized :: bool
  vw_backing_table :: "string option"

record sequence_def =
  sq_name :: string
  sq_current :: int
  sq_increment :: int
  sq_min :: "int option"
  sq_max :: "int option"

record udf_def =
  uf_name :: string
  uf_args :: "string list"
  uf_return_type :: string
  uf_body :: string

record privilege =
  pv_kind :: string
  pv_table :: "string option"

record user_def =
  us_name :: string
  us_password :: string

record role_def =
  rl_name :: string
  rl_privileges :: "privilege list"

record trigger_def =
  tr_name :: string
  tr_table :: string
  tr_event :: string
  tr_timing :: string
  tr_body :: string

record migration_record =
  mg_version :: nat
  mg_description :: string
  mg_sql :: string
  mg_applied_at_ms :: int

section \<open>The catalog\<close>

text \<open>\<^verbatim>\<open>CatalogData\<close> and \<^verbatim>\<open>CatalogSnapshot\<close> have the same fields.\<close>

record catalog_data =
  cat_tables :: "(string, table_meta) hashmap"
  cat_indexes :: "(string, index_def) hashmap"
  cat_views :: "(string, view_def) hashmap"
  cat_sequences :: "(string, sequence_def) hashmap"
  cat_udfs :: "(string, udf_def) hashmap"
  cat_users :: "(string, user_def) hashmap"
  cat_roles :: "(string, role_def) hashmap"
  cat_user_roles :: "(string, string list) hashmap"
  cat_triggers :: "(string, trigger_def) hashmap"
  cat_schema_version :: nat
  cat_migrations :: "migration_record list"

type_synonym catalog_snapshot = catalog_data

text \<open>The catalog adds where it is stored and the two persistence flags.\<close>

record catalog = catalog_data +
  cat_path :: string
  in_transaction :: bool
  dirty :: bool

datatype store_error = NotFound | StoreFailure string

datatype catalog_error =
    StoreError store_error
  | JsonError string
  | SequenceMissing string
  | SequenceAtMinimum string
  | SequenceAtMaximum string

record ('s, 'b) object_store =
  os_get :: "'s \<Rightarrow> string \<Rightarrow> (store_error, 'b) result"
  os_put :: "'s \<Rightarrow> string \<Rightarrow> 'b \<Rightarrow> (store_error, 's) result"

record 'b json_codec =
  to_json :: "catalog_data \<Rightarrow> (string, 'b) result"
  from_json :: "'b \<Rightarrow> (string, catalog_data) result"
  from_json_tables :: "'b \<Rightarrow> (string, (string, table_meta) hashmap) result"

text \<open>What the catalog relies on: a read returns what was written, decoding inverts encoding.\<close>

definition store_reads_back :: "('s, 'b) object_store \<Rightarrow> bool" where
  "store_reads_back os \<longleftrightarrow>
     (\<forall>s p b s'. os_put os s p b = Inr s' \<longrightarrow> os_get os s' p = Inr b)"

definition codec_inverts :: "'b json_codec \<Rightarrow> bool" where
  "codec_inverts js \<longleftrightarrow> (\<forall>d b. to_json js d = Inr b \<longrightarrow> from_json js b = Inr d)"

section \<open>Loading and saving\<close>

definition with_data :: "catalog_data \<Rightarrow> string \<Rightarrow> catalog" where
  "with_data d p =
     \<lparr>cat_tables = cat_tables d, cat_indexes = cat_indexes d, cat_views = cat_views d,
      cat_sequences = cat_sequences d, cat_udfs = cat_udfs d, cat_users = cat_users d,
      cat_roles = cat_roles d, cat_user_roles = cat_user_roles d, cat_triggers = cat_triggers d,
      cat_schema_version = cat_schema_version d, cat_migrations = cat_migrations d,
      cat_path = p, in_transaction = False, dirty = False\<rparr>"

definition empty_data :: catalog_data where
  "empty_data =
     \<lparr>cat_tables = [], cat_indexes = [], cat_views = [], cat_sequences = [], cat_udfs = [],
      cat_users = [], cat_roles = [], cat_user_roles = [], cat_triggers = [],
      cat_schema_version = 0, cat_migrations = []\<rparr>"

definition catalog_load ::
  "('s, 'b) object_store \<Rightarrow> 'b json_codec \<Rightarrow> 's \<Rightarrow> string \<Rightarrow> (catalog_error, catalog) result"
where
  "catalog_load os js s p =
     (case os_get os s p of
        Inr bytes \<Rightarrow>
          (case from_json js bytes of
             Inr d \<Rightarrow> Inr (with_data d p)
           | Inl _ \<Rightarrow>
               (case from_json_tables js bytes of
                  Inr ts \<Rightarrow> Inr (with_data (empty_data\<lparr>cat_tables := ts\<rparr>) p)
                | Inl e \<Rightarrow> Inl (JsonError e)))
      | Inl NotFound \<Rightarrow> Inr (with_data empty_data p)
      | Inl e \<Rightarrow> Inl (StoreError e))"

definition catalog_snapshot :: "catalog \<Rightarrow> catalog_snapshot" where
  "catalog_snapshot c =
     \<lparr>cat_tables = cat_tables c, cat_indexes = cat_indexes c, cat_views = cat_views c,
      cat_sequences = cat_sequences c, cat_udfs = cat_udfs c, cat_users = cat_users c,
      cat_roles = cat_roles c, cat_user_roles = cat_user_roles c, cat_triggers = cat_triggers c,
      cat_schema_version = cat_schema_version c, cat_migrations = cat_migrations c\<rparr>"

definition catalog_restore :: "catalog_snapshot \<Rightarrow> catalog \<Rightarrow> catalog" where
  "catalog_restore snap c =
     c\<lparr>cat_tables := cat_tables snap, cat_indexes := cat_indexes snap, cat_views := cat_views snap,
       cat_sequences := cat_sequences snap, cat_udfs := cat_udfs snap, cat_users := cat_users snap,
       cat_roles := cat_roles snap, cat_user_roles := cat_user_roles snap,
       cat_triggers := cat_triggers snap, cat_schema_version := cat_schema_version snap,
       cat_migrations := cat_migrations snap\<rparr>"

definition set_in_transaction :: "bool \<Rightarrow> catalog \<Rightarrow> catalog" where
  "set_in_transaction active c = c\<lparr>in_transaction := active\<rparr>"

text \<open>\<^verbatim>\<open>save\<close> cannot fail; it only marks the catalog, and not even that in a transaction.\<close>

definition catalog_save :: "catalog \<Rightarrow> catalog" where
  "catalog_save c = (if in_transaction c then c else c\<lparr>dirty := True\<rparr>)"

definition write_to_store ::
  "('s, 'b) object_store \<Rightarrow> 'b json_codec \<Rightarrow> catalog \<Rightarrow> 's \<Rightarrow> (catalog_error, 's) result"
where
  "write_to_store os js c s =
     (case to_json js (catalog_snapshot c) of
        Inl e \<Rightarrow> Inl (JsonError e)
      | Inr payload \<Rightarrow>
          (case os_put os s (cat_path c) payload of
             Inl e \<Rightarrow> Inl (StoreError e)
           | Inr s' \<Rightarrow> Inr s'))"

text \<open>
  The writing operations take the catalog and the store and return the outcome, the catalog
  and the store. The flag is cleared before the write is attempted.
\<close>

definition force_save ::
  "('s, 'b) object_store \<Rightarrow> 'b json_codec \<Rightarrow> catalog \<Rightarrow> 's \<Rightarrow>
     (catalog_error, unit) result \<times> catalog \<times> 's"
where
  "force_save os js c s =
     (let c' = c\<lparr>dirty := False\<rparr> in
      case write_to_store os js c' s of
        Inl e \<Rightarrow> (Inl e, c', s)
      | Inr s' \<Rightarrow> (Inr (), c', s'))"

definition flush_if_dirty ::
  "('s, 'b) object_store \<Rightarrow> 'b json_codec \<Rightarrow> catalog \<Rightarrow> 's \<Rightarrow>
     (catalog_error, unit) result \<times> catalog \<times> 's"
where
  "flush_if_dirty os js c s =
     (if \<not> dirty c then (Inr (), c, s)
      else let c' = c\<lparr>dirty := False\<rparr> in
           case write_to_store os js c' s of
             Inl e \<Rightarrow> (Inl e, c', s)
           | Inr s' \<Rightarrow> (Inr (), c', s'))"

section \<open>Operations\<close>

definition add_table :: "table_meta \<Rightarrow> catalog \<Rightarrow> catalog" where
  "add_table meta c =
     catalog_save (c\<lparr>cat_tables := hm_insert (tm_name meta) meta (cat_tables c)\<rparr>)"

definition remove_table :: "string \<Rightarrow> catalog \<Rightarrow> table_meta option \<times> catalog" where
  "remove_table nm c =
     (hm_get (cat_tables c) nm,
      catalog_save
        (c\<lparr>cat_tables := hm_remove nm (cat_tables c),
           cat_indexes := hm_retain (\<lambda>_ idx. ix_table idx \<noteq> nm) (cat_indexes c)\<rparr>))"

definition add_index :: "index_def \<Rightarrow> catalog \<Rightarrow> catalog" where
  "add_index d c = catalog_save (c\<lparr>cat_indexes := hm_insert (ix_name d) d (cat_indexes c)\<rparr>)"

definition remove_index :: "string \<Rightarrow> catalog \<Rightarrow> index_def option \<times> catalog" where
  "remove_index nm c =
     (hm_get (cat_indexes c) nm, catalog_save (c\<lparr>cat_indexes := hm_remove nm (cat_indexes c)\<rparr>))"

definition indexes_for_table :: "string \<Rightarrow> catalog \<Rightarrow> index_def list" where
  "indexes_for_table nm c = filter (\<lambda>idx. ix_table idx = nm) (hm_values (cat_indexes c))"

definition add_view :: "view_def \<Rightarrow> catalog \<Rightarrow> catalog" where
  "add_view d c = catalog_save (c\<lparr>cat_views := hm_insert (vw_name d) d (cat_views c)\<rparr>)"

definition remove_view :: "string \<Rightarrow> catalog \<Rightarrow> view_def option \<times> catalog" where
  "remove_view nm c =
     (hm_get (cat_views c) nm, catalog_save (c\<lparr>cat_views := hm_remove nm (cat_views c)\<rparr>))"

definition set_statistics :: "string \<Rightarrow> table_statistics \<Rightarrow> catalog \<Rightarrow> catalog" where
  "set_statistics nm stats c =
     (if hm_contains (cat_tables c) nm
      then catalog_save
        (c\<lparr>cat_tables := hm_modify nm (\<lambda>m. m\<lparr>tm_statistics := Some stats\<rparr>) (cat_tables c)\<rparr>)
      else c)"

definition set_file_stats :: "string \<Rightarrow> file_stats list \<Rightarrow> catalog \<Rightarrow> catalog" where
  "set_file_stats nm fs c =
     (if hm_contains (cat_tables c) nm
      then catalog_save
        (c\<lparr>cat_tables := hm_modify nm (\<lambda>m. m\<lparr>tm_file_stats := fs\<rparr>) (cat_tables c)\<rparr>)
      else c)"

definition add_sequence :: "sequence_def \<Rightarrow> catalog \<Rightarrow> catalog" where
  "add_sequence d c =
     catalog_save (c\<lparr>cat_sequences := hm_insert (sq_name d) d (cat_sequences c)\<rparr>)"

definition add_udf :: "udf_def \<Rightarrow> catalog \<Rightarrow> catalog" where
  "add_udf d c = catalog_save (c\<lparr>cat_udfs := hm_insert (uf_name d) d (cat_udfs c)\<rparr>)"

definition remove_udf :: "string \<Rightarrow> catalog \<Rightarrow> udf_def option \<times> catalog" where
  "remove_udf nm c =
     (hm_get (cat_udfs c) nm, catalog_save (c\<lparr>cat_udfs := hm_remove nm (cat_udfs c)\<rparr>))"

definition remove_sequence :: "string \<Rightarrow> catalog \<Rightarrow> sequence_def option \<times> catalog" where
  "remove_sequence nm c =
     (hm_get (cat_sequences c) nm,
      catalog_save (c\<lparr>cat_sequences := hm_remove nm (cat_sequences c)\<rparr>))"

text \<open>
  The bound checks are made on the advanced value, before the current one is handed out;
  on an error the catalog is as it was.
\<close>

definition next_sequence_value ::
  "string \<Rightarrow> catalog \<Rightarrow> (catalog_error, int) result \<times> catalog"
where
  "next_sequence_value nm c =
     (case hm_get (cat_sequences c) nm of
        None \<Rightarrow> (Inl (SequenceMissing nm), c)
      | Some sq \<Rightarrow>
          let nxt = sq_current sq;
              advanced = i64_saturating_add (sq_current sq) (sq_increment sq)
          in if (case sq_min sq of Some mn \<Rightarrow> advanced < mn | None \<Rightarrow> False)
             then (Inl (SequenceAtMinimum nm), c)
             else if (case sq_max sq of Some mx \<Rightarrow> advanced > mx | None \<Rightarrow> False)
             then (Inl (SequenceAtMaximum nm), c)
             else (Inr nxt,
                   catalog_save
                     (c\<lparr>cat_sequences :=
                          hm_modify nm (\<lambda>q. q\<lparr>sq_current := advanced\<rparr>) (cat_sequences c)\<rparr>)))"

text \<open>The mutating operations as data, and their effect on the catalog.\<close>

datatype catalog_op =
    AddTable table_meta | RemoveTable string
  | AddIndex index_def | RemoveIndex string
  | AddView view_def | RemoveView string
  | SetStatistics string table_statistics | SetFileStats string "file_stats list"
  | AddSequence sequence_def | RemoveSequence string | NextValue string
  | AddUdf udf_def | RemoveUdf string

fun catalog_step :: "catalog_op \<Rightarrow> catalog \<Rightarrow> catalog" where
  "catalog_step (AddTable m) c = add_table m c"
| "catalog_step (RemoveTable n) c = snd (remove_table n c)"
| "catalog_step (AddIndex d) c = add_index d c"
| "catalog_step (RemoveIndex n) c = snd (remove_index n c)"
| "catalog_step (AddView d) c = add_view d c"
| "catalog_step (RemoveView n) c = snd (remove_view n c)"
| "catalog_step (SetStatistics n s) c = set_statistics n s c"
| "catalog_step (SetFileStats n s) c = set_file_stats n s c"
| "catalog_step (AddSequence d) c = add_sequence d c"
| "catalog_step (RemoveSequence n) c = snd (remove_sequence n c)"
| "catalog_step (NextValue n) c = snd (next_sequence_value n c)"
| "catalog_step (AddUdf d) c = add_udf d c"
| "catalog_step (RemoveUdf n) c = snd (remove_udf n c)"

abbreviation catalog_run :: "catalog_op list \<Rightarrow> catalog \<Rightarrow> catalog" where
  "catalog_run ops c \<equiv> fold catalog_step ops c"

section \<open>Frame lemmas\<close>

text \<open>\<open>save\<close> touches the dirty flag only.\<close>

lemma catalog_save_fields [simp]:
  "cat_tables (catalog_save c) = cat_tables c" "cat_indexes (catalog_save c) = cat_indexes c"
  "cat_views (catalog_save c) = cat_views c" "cat_sequences (catalog_save c) = cat_sequences c"
  "cat_udfs (catalog_save c) = cat_udfs c" "cat_users (catalog_save c) = cat_users c"
  "cat_roles (catalog_save c) = cat_roles c" "cat_user_roles (catalog_save c) = cat_user_roles c"
  "cat_triggers (catalog_save c) = cat_triggers c"
  "cat_schema_version (catalog_save c) = cat_schema_version c"
  "cat_migrations (catalog_save c) = cat_migrations c"
  "cat_path (catalog_save c) = cat_path c" "in_transaction (catalog_save c) = in_transaction c"
  by (simp_all add: catalog_save_def)

lemma dirty_catalog_save [simp]: "dirty (catalog_save c) \<longleftrightarrow> dirty c \<or> \<not> in_transaction c"
  by (simp add: catalog_save_def)

lemma catalog_snapshot_save [simp]: "catalog_snapshot (catalog_save c) = catalog_snapshot c"
  by (simp add: catalog_snapshot_def)

lemma with_data_fields [simp]:
  "cat_path (with_data d p) = p" "in_transaction (with_data d p) = False" "dirty (with_data d p) = False"
  by (simp_all add: with_data_def)

lemma catalog_snapshot_with_data [simp]: "catalog_snapshot (with_data d p) = d"
  by (simp add: catalog_snapshot_def with_data_def)

lemma with_data_snapshot:
  "with_data (catalog_snapshot c) (cat_path c) = c\<lparr>in_transaction := False, dirty := False\<rparr>"
  by (simp add: catalog_snapshot_def with_data_def)

lemma catalog_snapshot_flags [simp]:
  "catalog_snapshot (c\<lparr>dirty := b\<rparr>) = catalog_snapshot c"
  "catalog_snapshot (c\<lparr>in_transaction := b\<rparr>) = catalog_snapshot c"
  "catalog_snapshot (set_in_transaction b c) = catalog_snapshot c"
  by (simp_all add: catalog_snapshot_def set_in_transaction_def)

lemma catalog_snapshot_restore [simp]: "catalog_snapshot (catalog_restore snap c) = snap"
  by (simp add: catalog_snapshot_def catalog_restore_def)

lemma catalog_restore_flags [simp]:
  "cat_path (catalog_restore snap c) = cat_path c"
  "in_transaction (catalog_restore snap c) = in_transaction c"
  "dirty (catalog_restore snap c) = dirty c"
  by (simp_all add: catalog_restore_def)

lemma set_in_transaction_flags [simp]:
  "in_transaction (set_in_transaction b c) = b" "dirty (set_in_transaction b c) = dirty c"
  "cat_path (set_in_transaction b c) = cat_path c"
  by (simp_all add: set_in_transaction_def)

text \<open>A catalog is its data, its path and its two flags.\<close>

lemma catalog_eqI:
  "catalog_snapshot c = catalog_snapshot c' \<Longrightarrow> cat_path c = cat_path c' \<Longrightarrow>
     in_transaction c = in_transaction c' \<Longrightarrow> dirty c = dirty c' \<Longrightarrow> c = c'"
  by (cases c; cases c') (simp add: catalog_snapshot_def)

lemmas catalog_op_defs =
  add_table_def remove_table_def add_index_def remove_index_def add_view_def remove_view_def
  set_statistics_def set_file_stats_def add_sequence_def remove_sequence_def
  add_udf_def remove_udf_def next_sequence_value_def

lemma catalog_step_flags [simp]:
  "in_transaction (catalog_step p c) = in_transaction c"
  "cat_path (catalog_step p c) = cat_path c"
  by (cases p; simp add: catalog_op_defs Let_def split: option.splits)+

lemma catalog_step_dirty_in_txn:
  "in_transaction c \<Longrightarrow> dirty (catalog_step p c) = dirty c"
  by (cases p; simp add: catalog_op_defs Let_def split: option.splits)

text \<open>Outside a transaction, an operation marks the catalog or changes nothing.\<close>

lemma catalog_step_marks:
  "\<not> in_transaction c \<Longrightarrow> dirty (catalog_step p c) \<or> catalog_step p c = c"
  by (cases p; simp add: catalog_op_defs Let_def split: option.splits)

lemma catalog_run_flags [simp]:
  "in_transaction (catalog_run ops c) = in_transaction c"
  "cat_path (catalog_run ops c) = cat_path c"
  by (induction ops arbitrary: c) auto

lemma catalog_run_dirty_in_txn:
  "in_transaction c \<Longrightarrow> dirty (catalog_run ops c) = dirty c"
  by (induction ops arbitrary: c) (auto simp: catalog_step_dirty_in_txn)

section \<open>The invariant\<close>

text \<open>Every map has one entry per key, and an entry is stored under its own name.\<close>

definition keyed :: "('v \<Rightarrow> string) \<Rightarrow> (string, 'v) hashmap \<Rightarrow> bool" where
  "keyed nm m \<longleftrightarrow> hm_wf m \<and> hm_all (\<lambda>k v. nm v = k) m"

definition catalog_wf :: "'a catalog_data_scheme \<Rightarrow> bool" where
  "catalog_wf c \<longleftrightarrow>
     keyed tm_name (cat_tables c) \<and> keyed ix_name (cat_indexes c) \<and> keyed vw_name (cat_views c) \<and>
     keyed sq_name (cat_sequences c) \<and> keyed uf_name (cat_udfs c) \<and> keyed us_name (cat_users c) \<and>
     keyed rl_name (cat_roles c) \<and> hm_wf (cat_user_roles c) \<and> keyed tr_name (cat_triggers c)"

lemma keyed_Nil [simp]: "keyed nm []"
  by (simp add: keyed_def)

lemma keyed_insert [simp]: "keyed nm m \<Longrightarrow> nm v = k \<Longrightarrow> keyed nm (hm_insert k v m)"
  by (simp add: keyed_def hm_all_insert)

lemma keyed_remove [simp]: "keyed nm m \<Longrightarrow> keyed nm (hm_remove k m)"
  by (simp add: keyed_def hm_all_remove)

lemma keyed_retain [simp]: "keyed nm m \<Longrightarrow> keyed nm (hm_retain P m)"
  by (simp add: keyed_def hm_all_retain)

lemma keyed_modify [simp]: "keyed nm m \<Longrightarrow> (\<And>v. nm (f v) = nm v) \<Longrightarrow> keyed nm (hm_modify k f m)"
  by (simp add: keyed_def hm_all_modify)

lemma keyed_map_values [simp]: "keyed nm m \<Longrightarrow> (\<And>v. nm (f v) = nm v) \<Longrightarrow> keyed nm (hm_map_values f m)"
  by (simp add: keyed_def hm_all_map_values)

lemma keyed_or_insert [simp]: "keyed nm m \<Longrightarrow> nm d = k \<Longrightarrow> keyed nm (hm_or_insert k d m)"
  by (simp add: keyed_def hm_all_or_insert)

lemma keyed_get: "keyed nm m \<Longrightarrow> hm_get m k = Some v \<Longrightarrow> nm v = k"
  by (auto simp: keyed_def dest: hm_all_get)

lemma keyed_wf: "keyed nm m \<Longrightarrow> hm_wf m"
  by (simp add: keyed_def)

lemma catalog_wf_save [simp]: "catalog_wf (catalog_save c) = catalog_wf c"
  by (simp add: catalog_wf_def)

lemma catalog_wf_step: "catalog_wf c \<Longrightarrow> catalog_wf (catalog_step p c)"
  by (cases p; simp add: catalog_op_defs Let_def catalog_wf_def split: option.splits)

lemma catalog_wf_run: "catalog_wf c \<Longrightarrow> catalog_wf (catalog_run ops c)"
  by (induction ops arbitrary: c) (auto simp: catalog_wf_step)

section \<open>Snapshots as an interface\<close>

text \<open>
  What transaction control relies on: a snapshot taken from a state is what the state's data
  is after it has been restored, whatever happened in between.
\<close>

locale snapshot_store =
  fixes take_snapshot :: "'c \<Rightarrow> 'd"
    and restore :: "'d \<Rightarrow> 'c \<Rightarrow> 'c"
    and step :: "'op \<Rightarrow> 'c \<Rightarrow> 'c"
  assumes snapshot_restore: "take_snapshot (restore d c) = d"
begin

lemma restore_after_steps: "take_snapshot (restore (take_snapshot c) (fold step ops c)) = take_snapshot c"
  by (rule snapshot_restore)

text \<open>Restoring the inner and then the outer of two snapshots gives the outer.\<close>

lemma restore_nested:
  "take_snapshot (restore (take_snapshot c)
      (fold step ops' (restore (take_snapshot (fold step ops c)) c'))) = take_snapshot c"
  by (rule snapshot_restore)

lemma restore_twice:
  "take_snapshot (restore d (restore d' c)) = take_snapshot (restore d c)"
  by (simp add: snapshot_restore)

end

interpretation snap: snapshot_store catalog_snapshot catalog_restore catalog_step
  by unfold_locales simp

section \<open>Writing and reading back\<close>

lemma write_to_store_reads_back:
  assumes "store_reads_back os" and "codec_inverts js" and "write_to_store os js c s = Inr s'"
  shows "catalog_load os js s' (cat_path c) = Inr (c\<lparr>in_transaction := False, dirty := False\<rparr>)"
proof -
  obtain b where b: "to_json js (catalog_snapshot c) = Inr b"
    and put: "os_put os s (cat_path c) b = Inr s'"
    using assms(3) by (auto simp: write_to_store_def split: sum.splits)
  have "os_get os s' (cat_path c) = Inr b"
    using assms(1) put by (auto simp: store_reads_back_def)
  moreover have "from_json js b = Inr (catalog_snapshot c)"
    using assms(2) b by (auto simp: codec_inverts_def)
  ultimately show ?thesis by (simp add: catalog_load_def with_data_snapshot)
qed

lemma force_save_ok:
  "force_save os js c s = (Inr u, c', s') \<Longrightarrow>
     c' = c\<lparr>dirty := False\<rparr> \<and> write_to_store os js c s = Inr s'"
  by (auto simp: force_save_def Let_def write_to_store_def split: sum.splits)

lemma flush_if_dirty_ok:
  "flush_if_dirty os js c s = (Inr u, c', s') \<Longrightarrow> dirty c \<Longrightarrow>
     c' = c\<lparr>dirty := False\<rparr> \<and> write_to_store os js c s = Inr s'"
  by (auto simp: flush_if_dirty_def Let_def write_to_store_def split: sum.splits)

lemma flush_if_dirty_clean [simp]: "\<not> dirty c \<Longrightarrow> flush_if_dirty os js c s = (Inr (), c, s)"
  by (simp add: flush_if_dirty_def)

end
