(* ===== verification/Catalog_Props.thy ===== *)
theory Catalog_Props
  imports Catalog
begin

text \<open>
  The properties of the catalog: what a reload sees, isolation of the stored catalog from an
  open transaction, rollback, cascading removal, and the values a sequence hands out.
\<close>

section \<open>Histories of operations and flushes\<close>

datatype catalog_event = Op catalog_op | Flush | ForceSave

text \<open>A history stops counting as successful at the first write that fails.\<close>

fun event_step ::
  "('s, 'b) object_store \<Rightarrow> 'b json_codec \<Rightarrow> catalog_event \<Rightarrow>
     bool \<times> catalog \<times> 's \<Rightarrow> bool \<times> catalog \<times> 's"
where
  "event_step os js (Op p) (ok, c, s) = (ok, catalog_step p c, s)"
| "event_step os js Flush (ok, c, s) =
     (case flush_if_dirty os js c s of (r, c', s') \<Rightarrow> (ok \<and> is_ok r, c', s'))"
| "event_step os js ForceSave (ok, c, s) =
     (case force_save os js c s of (r, c', s') \<Rightarrow> (ok \<and> is_ok r, c', s'))"

abbreviation event_run ::
  "('s, 'b) object_store \<Rightarrow> 'b json_codec \<Rightarrow> catalog_event list \<Rightarrow>
     bool \<times> catalog \<times> 's \<Rightarrow> bool \<times> catalog \<times> 's"
where
  "event_run os js evs st \<equiv> fold (event_step os js) evs st"

text \<open>A concrete store (a map from paths to catalog values) and codec, for the witnesses.\<close>

definition map_store :: "(string \<Rightarrow> catalog_data option, catalog_data) object_store" where
  "map_store =
     \<lparr>os_get = (\<lambda>s p. case s p of Some b \<Rightarrow> Inr b | None \<Rightarrow> Inl NotFound),
      os_put = (\<lambda>s p b. Inr (s(p := Some b)))\<rparr>"

definition plain_codec :: "catalog_data json_codec" where
  "plain_codec =
     \<lparr>to_json = (\<lambda>d. Inr d), from_json = (\<lambda>b. Inr b), from_json_tables = (\<lambda>_. Inl ''legacy'')\<rparr>"

definition broken_store :: "(string \<Rightarrow> catalog_data option, catalog_data) object_store" where
  "broken_store = map_store\<lparr>os_put := (\<lambda>_ _ _. Inl (StoreFailure ''disk full''))\<rparr>"

definition a_sequence :: "string \<Rightarrow> int \<Rightarrow> int \<Rightarrow> int option \<Rightarrow> sequence_def" where
  "a_sequence nm start inc mx =
     \<lparr>sq_name = nm, sq_current = start, sq_increment = inc, sq_min = None, sq_max = mx\<rparr>"

lemma map_store_reads_back: "store_reads_back map_store"
  by (simp add: store_reads_back_def map_store_def)

lemma plain_codec_inverts: "codec_inverts plain_codec"
  by (simp add: codec_inverts_def plain_codec_def)

section \<open>Persistence\<close>

lemma event_step_flags:
  "event_step os js e (ok, c, s) = (ok', c', s') \<Longrightarrow>
     cat_path c' = cat_path c \<and> in_transaction c' = in_transaction c \<and> (ok' \<longrightarrow> ok)"
  by (cases e)
    (auto simp: flush_if_dirty_def force_save_def Let_def split: prod.splits sum.splits if_splits)

text \<open>A clean catalog outside a transaction is the stored one.\<close>

definition synced :: "('s, 'b) object_store \<Rightarrow> 'b json_codec \<Rightarrow> catalog \<Rightarrow> 's \<Rightarrow> bool" where
  "synced os js c s \<longleftrightarrow>
     \<not> in_transaction c \<and> (dirty c \<or> catalog_load os js s (cat_path c) = Inr c)"

lemma synced_step:
  assumes laws: "store_reads_back os" "codec_inverts js"
    and sync: "synced os js c s"
    and step: "event_step os js e (ok, c, s) = (True, c', s')"
  shows "synced os js c' s'"
proof (cases e)
  case (Op p)
  then show ?thesis
    using sync step catalog_step_marks [of c p] by (auto simp: synced_def)
next
  case Flush
  obtain r c1 s1 where f: "flush_if_dirty os js c s = (r, c1, s1)"
    by (cases "flush_if_dirty os js c s") auto
  with Flush step have r: "is_ok r" "c' = c1" "s' = s1" by auto
  then obtain u where u: "r = Inr u" by (cases r) auto
  show ?thesis
  proof (cases "dirty c")
    case True
    with flush_if_dirty_ok [of os js c s u c1 s1] f u
    have "c1 = c\<lparr>dirty := False\<rparr>" "write_to_store os js c s = Inr s1" by auto
    with write_to_store_reads_back [OF laws] sync r show ?thesis by (auto simp: synced_def)
  next
    case False
    with f r sync show ?thesis by simp
  qed
next
  case ForceSave
  obtain r c1 s1 where f: "force_save os js c s = (r, c1, s1)"
    by (cases "force_save os js c s") auto
  with ForceSave step have r: "is_ok r" "c' = c1" "s' = s1" by auto
  then obtain u where u: "r = Inr u" by (cases r) auto
  with force_save_ok [of os js c s u c1 s1] f
  have "c1 = c\<lparr>dirty := False\<rparr>" "write_to_store os js c s = Inr s1" by auto
  with write_to_store_reads_back [OF laws] sync r show ?thesis by (auto simp: synced_def)
qed

lemma event_run_ok_mono: "event_run os js evs (ok, c, s) = (True, c', s') \<Longrightarrow> ok"
proof (induction evs arbitrary: ok c s)
  case (Cons e evs)
  obtain ok1 c1 s1 where st: "event_step os js e (ok, c, s) = (ok1, c1, s1)"
    by (cases "event_step os js e (ok, c, s)") auto
  with Cons.prems Cons.IH have ok1 by auto
  with event_step_flags [OF st] show ?case by simp
qed simp

lemma synced_run:
  assumes laws: "store_reads_back os" "codec_inverts js"
  shows "synced os js c s \<Longrightarrow> event_run os js evs (ok, c, s) = (True, c', s') \<Longrightarrow> synced os js c' s'"
proof (induction evs arbitrary: ok c s)
  case (Cons e evs)
  obtain ok1 c1 s1 where st: "event_step os js e (ok, c, s) = (ok1, c1, s1)"
    by (cases "event_step os js e (ok, c, s)") auto
  with Cons.prems have run: "event_run os js evs (ok1, c1, s1) = (True, c', s')" by simp
  then have ok1 by (rule event_run_ok_mono)
  with st synced_step [OF laws Cons.prems(1)] have "synced os js c1 s1" by auto
  then show ?case using run by (rule Cons.IH)
qed simp

lemma loaded_flags:
  "catalog_load os js s p = Inr c \<Longrightarrow> cat_path c = p \<and> \<not> in_transaction c \<and> \<not> dirty c"
  by (auto simp: catalog_load_def split: sum.splits store_error.splits)

text \<open>
  C22. Persistence of the catalog. Start from a catalog loaded from the store and apply any
  history of catalog operations, end-of-statement flushes and forced saves, none of whose writes failed. If the
  catalog is then clean, loading it again from the store gives exactly the catalog in memory,
  whatever the store and codec, as long as the store reads back what was written and
  decoding inverts encoding.
\<close>

theorem clean_catalog_is_stored:
  assumes "store_reads_back os" and "codec_inverts js"
    and "catalog_load os js s0 p = Inr c0"
    and "event_run os js evs (True, c0, s0) = (True, c, s)"
    and "\<not> dirty c"
  shows "catalog_load os js s p = Inr c"
proof -
  from loaded_flags [OF assms(3)] assms(3) have "synced os js c0 s0" by (simp add: synced_def)
  then have "synced os js c s" by (rule synced_run [OF assms(1,2) _ assms(4)])
  moreover have "cat_path c = p"
    using assms(4) loaded_flags [OF assms(3)]
  proof (induction evs arbitrary: c s rule: rev_induct)
    case (snoc e evs)
    obtain ok1 c1 s1 where r: "event_run os js evs (True, c0, s0) = (ok1, c1, s1)"
      by (cases "event_run os js evs (True, c0, s0)") auto
    with snoc.prems have st: "event_step os js e (ok1, c1, s1) = (True, c, s)" by simp
    from event_step_flags [OF st] have ok1: "ok1" and pc: "cat_path c = cat_path c1" by auto
    from snoc.IH [of c1 s1] r ok1 snoc.prems(2) pc show ?case by simp
  qed simp
  ultimately show ?thesis using assms(5) by (simp add: synced_def)
qed

definition demo_events :: "catalog_event list" where
  "demo_events = [Op (AddSequence (a_sequence ''s'' 1 1 None)), Op (NextValue ''s''), Flush]"

lemma demo_run:
  "event_run map_store plain_codec demo_events (True, with_data empty_data ''catalog.json'', Map.empty) =
     (True,
      with_data (empty_data\<lparr>cat_sequences := [(''s'', a_sequence ''s'' 2 1 None)]\<rparr>) ''catalog.json'',
      [''catalog.json'' \<mapsto> empty_data\<lparr>cat_sequences := [(''s'', a_sequence ''s'' 2 1 None)]\<rparr>])"
  by (simp add: demo_events_def catalog_op_defs a_sequence_def hm_insert_def hm_modify_def
      with_data_def empty_data_def catalog_save_def i64_saturating_add_def i64_min_def i64_max_def
      flush_if_dirty_def write_to_store_def map_store_def plain_codec_def catalog_snapshot_def Let_def)

theorem clean_catalog_is_stored_witness:
  "catalog_load map_store plain_codec
     [''catalog.json'' \<mapsto> empty_data\<lparr>cat_sequences := [(''s'', a_sequence ''s'' 2 1 None)]\<rparr>] ''catalog.json'' =
   Inr (with_data (empty_data\<lparr>cat_sequences := [(''s'', a_sequence ''s'' 2 1 None)]\<rparr>) ''catalog.json'')"
proof -
  have "catalog_load map_store plain_codec Map.empty ''catalog.json'' =
      Inr (with_data empty_data ''catalog.json'')"
    by (simp add: catalog_load_def map_store_def)
  from clean_catalog_is_stored [OF map_store_reads_back plain_codec_inverts this demo_run]
  show ?thesis by simp
qed

section \<open>Transactions\<close>

text \<open>
  C23. Isolation. While the catalog is in a transaction, and provided that it had no unsaved
  changes when the transaction began, no sequence of operations and end-of-statement flushes writes to the store: the
  stored catalog stays the one before the transaction, and every flush succeeds.
\<close>

theorem open_transaction_not_stored:
  assumes "in_transaction c" and "\<not> dirty c" and "ForceSave \<notin> set evs"
  shows "\<exists>c'. event_run os js evs (True, c, s) = (True, c', s) \<and> in_transaction c' \<and> \<not> dirty c'"
  using assms
proof (induction evs arbitrary: c)
  case (Cons e evs)
  show ?case
  proof (cases e)
    case (Op p)
    then show ?thesis
      using Cons.prems Cons.IH [of "catalog_step p c"] by (simp add: catalog_step_dirty_in_txn)
  next
    case Flush
    then show ?thesis using Cons.prems Cons.IH [of c] by simp
  next
    case ForceSave
    with Cons.prems show ?thesis by simp
  qed
qed simp

theorem open_transaction_not_stored_witness:
  "\<exists>c'. event_run map_store plain_codec [Op (RemoveTable ''t''), Flush, Op (NextValue ''s''), Flush]
      (True, set_in_transaction True (with_data empty_data ''c''), Map.empty) = (True, c', Map.empty)
    \<and> in_transaction c' \<and> \<not> dirty c'"
  by (rule open_transaction_not_stored) simp_all

text \<open>
  A catalog that was changed but not yet saved when the transaction began is different: the next
  flush inside the transaction stores it, with what the transaction has changed until then.
\<close>

lemma dirty_catalog_is_stored_in_transaction:
  assumes "in_transaction c" and "dirty c"
    and "write_to_store os js ((catalog_run ops c)\<lparr>dirty := False\<rparr>) s = Inr s'"
  shows "event_run os js (map Op ops @ [Flush]) (True, c, s) = (True, (catalog_run ops c)\<lparr>dirty := False\<rparr>, s')"
  using assms
proof (induction ops arbitrary: c)
  case (Cons p ops)
  have "in_transaction (catalog_step p c)" "dirty (catalog_step p c)"
    using Cons.prems by (cases p; auto simp: catalog_op_defs catalog_save_def Let_def split: option.splits)+
  then show ?case using Cons by simp
qed (simp add: flush_if_dirty_def Let_def)

text \<open>
  C24. Rollback. A snapshot of a catalog, any operations on it, the restore and a forced save
  outside the transaction leave a store from which loading gives back the catalog as it was
  when the snapshot was taken.
\<close>

theorem rollback_restores_stored_catalog:
  assumes "store_reads_back os" and "codec_inverts js"
    and "c1 = catalog_restore (catalog_snapshot c)
                (set_in_transaction False (catalog_run ops (set_in_transaction True c)))"
    and "force_save os js c1 s = (Inr (), c', s')"
  shows "catalog_load os js s' (cat_path c) = Inr (c\<lparr>in_transaction := False, dirty := False\<rparr>)"
proof -
  from force_save_ok [OF assms(4)] have "write_to_store os js c1 s = Inr s'" by simp
  from write_to_store_reads_back [OF assms(1,2) this]
  have "catalog_load os js s' (cat_path c1) = Inr (c1\<lparr>in_transaction := False, dirty := False\<rparr>)" .
  moreover have "cat_path c1 = cat_path c" using assms(3) by simp
  moreover have "c1\<lparr>in_transaction := False, dirty := False\<rparr> = c\<lparr>in_transaction := False, dirty := False\<rparr>"
    by (rule catalog_eqI) (simp_all add: assms(3) snap.snapshot_restore)
  ultimately show ?thesis by simp
qed

theorem rollback_restores_stored_catalog_witness:
  "catalog_load map_store plain_codec [''c'' \<mapsto> empty_data] ''c'' = Inr (with_data empty_data ''c'')"
proof -
  let ?c = "with_data empty_data ''c''"
  let ?c1 = "catalog_restore (catalog_snapshot ?c)
      (set_in_transaction False (catalog_run [AddSequence (a_sequence ''s'' 1 1 None)] (set_in_transaction True ?c)))"
  have c1: "?c1 = ?c" by (rule catalog_eqI) (simp_all add: add_sequence_def)
  have "force_save map_store plain_codec ?c Map.empty = (Inr (), ?c, [''c'' \<mapsto> empty_data])"
    by (simp add: force_save_def Let_def write_to_store_def map_store_def plain_codec_def with_data_def
        catalog_snapshot_def empty_data_def)
  then have "force_save map_store plain_codec ?c1 Map.empty = (Inr (), ?c, [''c'' \<mapsto> empty_data])"
    by (simp only: c1)
  from rollback_restores_stored_catalog [OF map_store_reads_back plain_codec_inverts refl this]
  show ?thesis by (simp add: with_data_def)
qed

text \<open>
  A failed write is forgotten. If the write of an end-of-statement flush fails, the
  catalog is marked clean all the same, and the next flush reports success without writing:
  the change is in memory only until some later operation marks the catalog again.
\<close>

theorem failed_flush_is_not_retried:
  assumes "dirty c" and "write_to_store os js (c\<lparr>dirty := False\<rparr>) s = Inl e"
  shows "\<exists>c'. flush_if_dirty os js c s = (Inl e, c', s) \<and> catalog_snapshot c' = catalog_snapshot c \<and>
     (\<forall>n. event_run os' js' (replicate n Flush) (True, c', s') = (True, c', s'))"
proof (intro exI conjI allI)
  show "flush_if_dirty os js c s = (Inl e, c\<lparr>dirty := False\<rparr>, s)"
    using assms by (simp add: flush_if_dirty_def)
  show "catalog_snapshot (c\<lparr>dirty := False\<rparr>) = catalog_snapshot c"
    by (simp add: catalog_snapshot_def)
  show "event_run os' js' (replicate n Flush) (True, c\<lparr>dirty := False\<rparr>, s') =
      (True, c\<lparr>dirty := False\<rparr>, s')" for n
    by (induction n) (simp_all add: flush_if_dirty_def)
qed

text \<open>The store works again for the later flushes; the view never reaches it.\<close>

definition demo_view :: view_def where
  "demo_view = \<lparr>vw_name = ''v'', vw_sql = ''SELECT 1'', vw_materialized = False, vw_backing_table = None\<rparr>"

theorem failed_flush_is_not_retried_witness:
  "\<exists>c'. flush_if_dirty broken_store plain_codec (add_view demo_view (with_data empty_data ''c'')) Map.empty =
       (Inl (StoreError (StoreFailure ''disk full'')), c', Map.empty) \<and>
     hm_contains (cat_views c') ''v'' \<and>
     event_run map_store plain_codec (replicate 3 Flush) (True, c', Map.empty) = (True, c', Map.empty) \<and>
     catalog_load map_store plain_codec Map.empty ''c'' = Inr (with_data empty_data ''c'')"
proof -
  let ?c = "add_view demo_view (with_data empty_data ''c'')"
  have "write_to_store broken_store plain_codec (?c\<lparr>dirty := False\<rparr>) Map.empty =
      Inl (StoreError (StoreFailure ''disk full''))"
    by (simp add: write_to_store_def broken_store_def plain_codec_def)
  from failed_flush_is_not_retried [OF _ this, of map_store plain_codec Map.empty] obtain c' where
    c': "flush_if_dirty broken_store plain_codec ?c Map.empty =
      (Inl (StoreError (StoreFailure ''disk full'')), c', Map.empty)"
    "catalog_snapshot c' = catalog_snapshot ?c"
    "event_run map_store plain_codec (replicate 3 Flush) (True, c', Map.empty) = (True, c', Map.empty)"
    by (force simp: add_view_def catalog_save_def with_data_def)
  from c'(2) have "cat_views c' = cat_views ?c"
    by (metis catalog_data.ext_inject catalog_snapshot_def)
  then have "hm_contains (cat_views c') ''v''"
    by (simp add: add_view_def catalog_save_def hm_contains_def demo_view_def with_data_def)
  with c' show ?thesis by (simp add: catalog_load_def map_store_def)
qed

section \<open>Tables and their indexes\<close>

text \<open>
  Dropping a table from a well-formed catalog returns the table, leaves no entry under its
  name and no index on it, keeps every index of other tables and every other table, and
  keeps the catalog well-formed.
\<close>

theorem remove_table_cascades:
  assumes "catalog_wf c" and "remove_table nm c = (r, c')"
  shows "r = hm_get (cat_tables c) nm \<and> catalog_wf c' \<and>
         indexes_for_table nm c' = [] \<and>
         (\<forall>t. hm_get (cat_tables c') t = (if t = nm then None else hm_get (cat_tables c) t)) \<and>
         (\<forall>i. hm_get (cat_indexes c') i =
            (case hm_get (cat_indexes c) i of
               Some d \<Rightarrow> if ix_table d = nm then None else Some d | None \<Rightarrow> None))"
proof -
  have c': "c' = catalog_step (RemoveTable nm) c" and r: "r = hm_get (cat_tables c) nm"
    using assms(2) by (auto simp: remove_table_def)
  have wf: "catalog_wf c'" unfolding c' by (rule catalog_wf_step [OF assms(1)])
  have ixwf: "hm_wf (cat_indexes c)" using assms(1) by (auto simp: catalog_wf_def intro: keyed_wf)
  have "indexes_for_table nm c' = []"
    by (auto simp: c' remove_table_def indexes_for_table_def hm_values_def hm_retain_def filter_empty_conv)
  moreover have "hm_get (cat_tables c') t = (if t = nm then None else hm_get (cat_tables c) t)" for t
    unfolding c' catalog_step.simps remove_table_def by (simp add: hm.lookup_del)
  moreover have "hm_get (cat_indexes c') i =
      (case hm_get (cat_indexes c) i of
         Some d \<Rightarrow> if ix_table d = nm then None else Some d | None \<Rightarrow> None)" for i
    using hm.lookup_retain [OF ixwf]
    by (auto simp: c' remove_table_def split: option.splits)
  ultimately show ?thesis using r wf by blast
qed

definition demo_index :: "string \<Rightarrow> string \<Rightarrow> index_def" where
  "demo_index nm t =
     \<lparr>ix_name = nm, ix_table = t, ix_columns = [], ix_logical_only = False, ix_primary = True\<rparr>"

theorem remove_table_cascades_witness:
  "indexes_for_table ''t''
     (snd (remove_table ''t'' (add_index (demo_index ''i'' ''t'') (with_data empty_data ''c'')))) = []"
proof -
  have "catalog_wf (catalog_run [AddIndex (demo_index ''i'' ''t'')] (with_data empty_data ''c''))"
    by (rule catalog_wf_run) (simp add: catalog_wf_def with_data_def empty_data_def)
  then have "catalog_wf (add_index (demo_index ''i'' ''t'') (with_data empty_data ''c''))" by simp
  from remove_table_cascades [OF this surjective_pairing] show ?thesis by blast
qed

text \<open>
  C34. Well-formedness. From a well-formed catalog every sequence of operations leads to a
  well-formed catalog (one entry per name, each under its own name), and a table is found
  under the name it was last added with as long as it is not removed.
\<close>

theorem catalog_run_wellformed:
  assumes "catalog_wf c" and "RemoveTable (tm_name m) \<notin> set ops"
  shows "catalog_wf (catalog_run ops (add_table m c)) \<and>
         (\<exists>m'. hm_get (cat_tables (catalog_run ops (add_table m c))) (tm_name m) = Some m' \<and>
               tm_name m' = tm_name m)"
proof -
  have wf: "catalog_wf (catalog_run ops (catalog_step (AddTable m) c))"
    by (intro catalog_wf_run catalog_wf_step assms(1))
  have keep: "hm_contains (cat_tables (catalog_step p d)) (tm_name m)"
    if "hm_contains (cat_tables d) (tm_name m)" "p \<noteq> RemoveTable (tm_name m)" for p d
    using that by (cases p) (auto simp: catalog_op_defs Let_def split: option.splits)
  have "hm_contains (cat_tables (catalog_run ops d)) (tm_name m)"
    if "hm_contains (cat_tables d) (tm_name m)" for d
    using that assms(2) by (induction ops arbitrary: d) (auto simp: keep)
  from this [of "add_table m c"]
  obtain m' where "hm_get (cat_tables (catalog_run ops (add_table m c))) (tm_name m) = Some m'"
    by (auto simp: add_table_def hm_contains_def)
  moreover from this wf have "tm_name m' = tm_name m"
    by (auto simp: catalog_wf_def dest: keyed_get)
  ultimately show ?thesis using wf by auto
qed

definition demo_table :: "string \<Rightarrow> table_meta" where
  "demo_table nm =
     \<lparr>tm_name = nm, tm_columns = [], tm_path = [], tm_partition_columns = [], tm_statistics = None,
      tm_retention_seconds = None, tm_constraints = [], tm_file_stats = [], tm_deletion_vectors = []\<rparr>"

theorem catalog_run_wellformed_witness:
  "catalog_wf (catalog_run [RemoveTable ''u'', SetFileStats ''t'' []]
     (add_table (demo_table ''t'') (with_data empty_data ''c'')))"
  by (rule catalog_run_wellformed [THEN conjunct1])
    (simp_all add: catalog_wf_def with_data_def empty_data_def demo_table_def)

section \<open>Sequences\<close>

text \<open>Repeated calls, as \<^verbatim>\<open>nextval\<close> makes them.\<close>

fun draw :: "nat \<Rightarrow> string \<Rightarrow> catalog \<Rightarrow> (catalog_error, int) result list" where
  "draw 0 nm c = []"
| "draw (Suc n) nm c = (case next_sequence_value nm c of (r, c') \<Rightarrow> r # draw n nm c')"

definition in_bounds :: "sequence_def \<Rightarrow> int \<Rightarrow> bool" where
  "in_bounds q v \<longleftrightarrow>
     (case sq_min q of Some mn \<Rightarrow> mn \<le> v | None \<Rightarrow> True) \<and>
     (case sq_max q of Some mx \<Rightarrow> v \<le> mx | None \<Rightarrow> True)"

lemma next_sequence_value_ok:
  assumes "hm_get (cat_sequences c) nm = Some q"
    and "in_bounds q (i64_saturating_add (sq_current q) (sq_increment q))"
  shows "\<exists>c'. next_sequence_value nm c = (Inr (sq_current q), c') \<and>
     hm_get (cat_sequences c') nm =
       Some (q\<lparr>sq_current := i64_saturating_add (sq_current q) (sq_increment q)\<rparr>)"
  using assms
  by (auto simp: next_sequence_value_def Let_def in_bounds_def split: option.splits)

lemma next_sequence_value_inv:
  assumes "next_sequence_value nm c = (Inr v, c')"
  shows "\<exists>q. hm_get (cat_sequences c) nm = Some q \<and> v = sq_current q \<and>
     in_bounds q (i64_saturating_add (sq_current q) (sq_increment q))"
  using assms
  by (auto simp: next_sequence_value_def Let_def in_bounds_def split: option.splits if_splits)

text \<open>
  The values of a sequence. As long as the advanced values stay in the sequence's bounds
  and within 64 bits, the first \<open>n\<close> calls succeed and return the start value and its
  successors by the increment, so no value is handed out twice.
\<close>

theorem draw_arithmetic_progression:
  assumes "hm_get (cat_sequences c) nm = Some q"
    and "\<forall>k \<in> {1..n}. in_bounds q (sq_current q + int k * sq_increment q) \<and>
                       is_i64 (sq_current q + int k * sq_increment q)"
  shows "draw n nm c = map (\<lambda>k. Inr (sq_current q + int k * sq_increment q)) [0..<n]"
  using assms
proof (induction n arbitrary: c q)
  case (Suc n)
  let ?v = "sq_current q" and ?i = "sq_increment q"
  have "in_bounds q (?v + ?i)" and i64: "is_i64 (?v + ?i)"
    using Suc.prems(2) [rule_format, of 1] by auto
  then have sat: "i64_saturating_add ?v ?i = ?v + ?i" by (simp add: i64_saturating_add_exact)
  with next_sequence_value_ok [OF Suc.prems(1)] \<open>in_bounds q (?v + ?i)\<close>
  obtain c' where nx: "next_sequence_value nm c = (Inr ?v, c')"
    and q': "hm_get (cat_sequences c') nm = Some (q\<lparr>sq_current := ?v + ?i\<rparr>)"
    by auto
  have "\<forall>k \<in> {1..n}. in_bounds (q\<lparr>sq_current := ?v + ?i\<rparr>) (?v + ?i + int k * ?i) \<and>
      is_i64 (?v + ?i + int k * ?i)"
  proof
    fix k assume "k \<in> {1..n}"
    then have "Suc k \<in> {1..Suc n}" by simp
    from Suc.prems(2) [rule_format, OF this]
    show "in_bounds (q\<lparr>sq_current := ?v + ?i\<rparr>) (?v + ?i + int k * ?i) \<and> is_i64 (?v + ?i + int k * ?i)"
      by (simp add: in_bounds_def algebra_simps)
  qed
  with Suc.IH [OF q'] have "draw n nm c' = map (\<lambda>k. Inr (?v + ?i + int k * ?i)) [0..<n]" by simp
  moreover have "(map (\<lambda>k. Inr (?v + int k * ?i)) [0..<Suc n] :: (catalog_error, int) result list) =
      Inr ?v # map (\<lambda>k. Inr (?v + ?i + int k * ?i)) [0..<n]"
    by (simp add: upt_conv_Cons map_Suc_upt [symmetric] algebra_simps del: upt_Suc)
  ultimately show ?case using nx by (simp del: upt_Suc)
qed simp

theorem draw_arithmetic_progression_witness:
  "draw 3 ''s'' (add_sequence (a_sequence ''s'' 5 2 (Some 11)) (with_data empty_data ''c'')) =
     [Inr 5, Inr 7, Inr 9]"
proof -
  let ?c = "add_sequence (a_sequence ''s'' 5 2 (Some 11)) (with_data empty_data ''c'')"
  have q: "hm_get (cat_sequences ?c) ''s'' = Some (a_sequence ''s'' 5 2 (Some 11))"
    by (simp add: add_sequence_def a_sequence_def)
  have b: "\<forall>k \<in> {1..3}. in_bounds (a_sequence ''s'' 5 2 (Some 11)) (5 + int k * 2) \<and> is_i64 (5 + int k * 2)"
    by (auto simp: in_bounds_def a_sequence_def is_i64_def i64_min_def i64_max_def)
  show ?thesis
    using draw_arithmetic_progression [OF q, of 3] b
    by (simp add: a_sequence_def upt_conv_Cons)
qed

lemma past_maximum:
  assumes "mx < i64_max" and "is_i64 v" and "0 < i"
  shows "mx < i64_saturating_add v i \<longleftrightarrow> mx < v + i"
  using assms by (auto simp: i64_saturating_add_def is_i64_def i64_min_def)

text \<open>
  C35. A sequence with a maximum below the largest 64-bit integer and a positive increment, started
  at or above its minimum: the calls hand out the start value and its successors by the
  increment as long as the successor of the value is not beyond the maximum, and from then on
  all fail. So the last value that would fit is never handed out, the maximum itself included.
\<close>

theorem bounded_sequence_values:
  assumes "hm_get (cat_sequences c) nm = Some q" and "sq_max q = Some mx" and "mx < i64_max"
    and "0 < sq_increment q" and "is_i64 (sq_current q)" and "\<forall>mn. sq_min q = Some mn \<longrightarrow> mn \<le> sq_current q"
  shows "draw n nm c =
     map (\<lambda>k. if sq_current q + (int k + 1) * sq_increment q \<le> mx
              then Inr (sq_current q + int k * sq_increment q) else Inl (SequenceAtMaximum nm)) [0..<n]"
  using assms
proof (induction n arbitrary: c q)
  case (Suc n)
  let ?v = "sq_current q" and ?i = "sq_increment q"
  have adv: "mx < i64_saturating_add ?v ?i \<longleftrightarrow> mx < ?v + ?i" using Suc.prems(3-5) by (intro past_maximum)
  have low: "?v \<le> i64_saturating_add ?v ?i" using Suc.prems(4,5) by (intro i64_saturating_add_mono) simp_all
  have low': "\<not> (case sq_min q of None \<Rightarrow> False | Some mn \<Rightarrow> i64_saturating_add ?v ?i < mn)"
    using low Suc.prems(6) by (cases "sq_min q") auto
  show ?case
  proof (cases "?v + ?i \<le> mx")
    case True
    then have sat: "i64_saturating_add ?v ?i = ?v + ?i"
      using Suc.prems(3-5) by (intro i64_saturating_add_exact) (simp add: is_i64_def)
    have "in_bounds q (?v + ?i)"
      using low low' True Suc.prems(2) sat by (auto simp: in_bounds_def split: option.splits)
    with next_sequence_value_ok [OF Suc.prems(1)] sat obtain c' where
      nx: "next_sequence_value nm c = (Inr ?v, c')"
      and q': "hm_get (cat_sequences c') nm = Some (q\<lparr>sq_current := ?v + ?i\<rparr>)" by auto
    have "is_i64 (?v + ?i)" using is_i64_saturating_add [of ?v ?i] sat by simp
    moreover have "\<forall>mn. sq_min q = Some mn \<longrightarrow> mn \<le> ?v + ?i" using Suc.prems(4,6) by fastforce
    ultimately have "draw n nm c' = map (\<lambda>k. if ?v + ?i + (int k + 1) * ?i \<le> mx
        then Inr (?v + ?i + int k * ?i) else Inl (SequenceAtMaximum nm)) [0..<n]"
      using Suc.IH [OF q'] Suc.prems by auto
    then show ?thesis
      using nx True by (simp add: upt_conv_Cons map_Suc_upt [symmetric] algebra_simps del: upt_Suc)
  next
    case False
    then have fail: "next_sequence_value nm c = (Inl (SequenceAtMaximum nm), c)"
      using Suc.prems(1,2) adv low' by (simp add: next_sequence_value_def Let_def)
    have over: "(?v + (int k + 1) * ?i \<le> mx) = False" for k
    proof -
      have "0 \<le> int k * ?i" using Suc.prems(4) by simp
      then show ?thesis using False by (simp add: algebra_simps)
    qed
    have all: "map (\<lambda>k. if ?v + (int k + 1) * ?i \<le> mx then Inr (?v + int k * ?i)
        else Inl (SequenceAtMaximum nm)) [0..<m] = replicate m (Inl (SequenceAtMaximum nm))" for m
      unfolding over if_False by (simp add: map_replicate_const)
    show ?thesis unfolding all using fail Suc.IH [OF Suc.prems] unfolding all by simp
  qed
qed simp

theorem bounded_sequence_values_witness:
  "draw 4 ''s'' (add_sequence (a_sequence ''s'' 1 2 (Some 6)) (with_data empty_data ''c'')) =
     [Inr 1, Inr 3, Inl (SequenceAtMaximum ''s''), Inl (SequenceAtMaximum ''s'')]"
proof -
  let ?c = "add_sequence (a_sequence ''s'' 1 2 (Some 6)) (with_data empty_data ''c'')"
  have q: "hm_get (cat_sequences ?c) ''s'' = Some (a_sequence ''s'' 1 2 (Some 6))"
    by (simp add: add_sequence_def a_sequence_def)
  show ?thesis
    using bounded_sequence_values [OF q, of 6 4]
    by (simp add: a_sequence_def i64_max_def i64_min_def is_i64_def upt_conv_Cons)
qed

end
