(* ===== verification/Utf8.thy ===== *)
theory Utf8
  imports Rust_Text
begin

text \<open>
  \<^verbatim>\<open>String::from_utf8_lossy\<close>, and which byte lists are the contents of a \<^verbatim>\<open>String\<close>. The
  decoder of the standard library reads one unit at a time: a well-formed UTF-8 sequence is
  kept, and a maximal ill-formed prefix is replaced by U+FFFD.
\<close>

definition in_range :: "nat \<Rightarrow> nat \<Rightarrow> char \<Rightarrow> bool" where
  "in_range a b c \<longleftrightarrow> a \<le> code c \<and> code c \<le> b"

abbreviation cont :: "char \<Rightarrow> bool" where "cont \<equiv> in_range 128 191"

text \<open>The byte that may follow the first byte of a three- and a four-byte sequence.\<close>

definition second3 :: "char \<Rightarrow> char \<Rightarrow> bool" where
  "second3 b c \<longleftrightarrow>
     (code b = 224 \<and> in_range 160 191 c) \<or> (in_range 225 236 b \<and> cont c) \<or>
     (code b = 237 \<and> in_range 128 159 c) \<or> (in_range 238 239 b \<and> cont c)"

definition second4 :: "char \<Rightarrow> char \<Rightarrow> bool" where
  "second4 b c \<longleftrightarrow>
     (code b = 240 \<and> in_range 144 191 c) \<or> (in_range 241 243 b \<and> cont c) \<or>
     (code b = 244 \<and> in_range 128 143 c)"

text \<open>
  The unit at the head of \<open>b # s\<close>: whether it is well-formed, and how many bytes of \<open>s\<close>
  it takes besides \<open>b\<close>.
\<close>

definition utf8_unit :: "char \<Rightarrow> string \<Rightarrow> bool \<times> nat" where
  "utf8_unit b s =
     (let sat = (\<lambda>i P. i < length s \<and> P (s ! i)) in
      if code b < 128 then (True, 0)
      else if in_range 194 223 b then (if sat 0 cont then (True, 1) else (False, 0))
      else if in_range 224 239 b then
        (if \<not> sat 0 (second3 b) then (False, 0)
         else if \<not> sat 1 cont then (False, 1) else (True, 2))
      else if in_range 240 244 b then
        (if \<not> sat 0 (second4 b) then (False, 0)
         else if \<not> sat 1 cont then (False, 1)
         else if \<not> sat 2 cont then (False, 2) else (True, 3))
      else (False, 0))"

definition replacement :: string where
  "replacement = [CHR 0xEF, CHR 0xBF, CHR 0xBD]"

function utf8_lossy :: "string \<Rightarrow> string" where
  "utf8_lossy [] = []"
| "utf8_lossy (b # s) =
     (case utf8_unit b s of (ok, n) \<Rightarrow>
        (if ok then b # take n s else replacement) @ utf8_lossy (drop n s))"
  by pat_completeness auto
termination by (relation "measure length") auto

function valid_utf8 :: "string \<Rightarrow> bool" where
  "valid_utf8 [] = True"
| "valid_utf8 (b # s) = (case utf8_unit b s of (ok, n) \<Rightarrow> ok \<and> valid_utf8 (drop n s))"
  by pat_completeness auto
termination by (relation "measure length") auto

lemma utf8_lossy_valid [simp]: "valid_utf8 s \<Longrightarrow> utf8_lossy s = s"
proof (induction s rule: utf8_lossy.induct)
  case (2 b s)
  obtain ok n where u: "utf8_unit b s = (ok, n)" by (cases "utf8_unit b s")
  with "2.prems" have ok: "ok" and v: "valid_utf8 (drop n s)" by auto
  have "utf8_lossy (drop n s) = drop n s" by (rule "2.IH" [OF u [symmetric] v])
  with u ok show ?case by simp
qed simp

lemma utf8_unit_ascii [simp]: "code c < 128 \<Longrightarrow> utf8_unit c s = (True, 0)"
  by (simp add: utf8_unit_def Let_def)

lemma valid_utf8_ascii: "(\<And>c. c \<in> set s \<Longrightarrow> code c < 128) \<Longrightarrow> valid_utf8 s"
  by (induction s) auto

end
