(* ===== verification/Wal.thy ===== *)
theory Wal
  imports Utf8
begin

text \<open>
  \<^verbatim>\<open>crates/wal/src/lib.rs\<close>: the write-ahead log, down to its bytes. The file is a list of
  bytes; \<open>wl_synced\<close> counts the leading bytes that \<^verbatim>\<open>sync_data\<close> has made durable. The
  checksum of \<^verbatim>\<open>crc32fast\<close>, a third-party crate, is the parameter \<open>crc\<close>: a function of
  the hashed bytes, about which nothing is assumed.
\<close>

section \<open>Little-endian numbers\<close>

definition le_bytes :: "nat \<Rightarrow> nat \<Rightarrow> string" where
  "le_bytes n v = map (\<lambda>i. char_of (v div 256 ^ i)) [0..<n]"

fun le_val :: "string \<Rightarrow> nat" where
  "le_val [] = 0"
| "le_val (c # s) = code c + 256 * le_val s"

lemma length_le_bytes [simp]: "length (le_bytes n v) = n"
  by (simp add: le_bytes_def)

lemma le_bytes_Suc: "le_bytes (Suc n) v = char_of v # le_bytes n (v div 256)"
  by (simp add: le_bytes_def upt_conv_Cons map_Suc_upt [symmetric] div_mult2_eq del: upt_Suc)

lemma le_val_le_bytes: "le_val (le_bytes n v) = v mod 256 ^ n"
proof (induction n arbitrary: v)
  case 0
  then show ?case by (simp add: le_bytes_def)
next
  case (Suc n)
  have "le_val (le_bytes (Suc n) v) = v mod 256 + 256 * (v div 256 mod 256 ^ n)"
    by (simp add: le_bytes_Suc Suc.IH)
  also have "\<dots> = v mod (256 * 256 ^ n)" by (simp add: mod_mult2_eq)
  finally show ?case by simp
qed

definition word_bytes :: "nat \<Rightarrow> 'a::len word \<Rightarrow> string" where
  "word_bytes n w = le_bytes n (unat w)"

lemma length_word_bytes [simp]: "length (word_bytes n w) = n"
  by (simp add: word_bytes_def)

lemma le_val_word_bytes:
  "LENGTH('a) = 8 * n \<Longrightarrow> le_val (word_bytes n (w :: 'a::len word)) = unat w"
proof -
  assume len: "LENGTH('a) = 8 * n"
  have "unat w < 2 ^ LENGTH('a)" by (rule unsigned_less)
  also have "(2::nat) ^ LENGTH('a) = 256 ^ n" by (simp add: len power_mult)
  finally show ?thesis by (simp add: word_bytes_def le_val_le_bytes)
qed

section \<open>Entries\<close>

datatype entry_status = Pending | Committed | Aborted

fun status_byte :: "entry_status \<Rightarrow> nat" where
  "status_byte Pending = 0"
| "status_byte Committed = 1"
| "status_byte Aborted = 2"

datatype wal_error = InvalidStatus nat

definition status_try_from :: "nat \<Rightarrow> (wal_error, entry_status) result" where
  "status_try_from v =
     (if v = 0 then Inr Pending else if v = 1 then Inr Committed
      else if v = 2 then Inr Aborted else Inl (InvalidStatus v))"

record wal_entry =
  we_txn :: "64 word"
  we_status :: entry_status
  we_sql :: string

lemma status_try_from_byte [simp]: "status_try_from (status_byte st) = Inr st"
  by (cases st) (simp_all add: status_try_from_def)

lemma status_byte_less [simp]: "status_byte st < 3"
  by (cases st) simp_all

section \<open>Writing\<close>

record wal =
  wl_bytes :: string
  wl_synced :: nat

definition payload :: "wal_entry \<Rightarrow> string" where
  "payload e = word_bytes 8 (we_txn e) @ [char_of (status_byte (we_status e))] @ we_sql e"

text \<open>\<^verbatim>\<open>write_entry\<close>: the length field is a truncating cast to 32 bits.\<close>

definition encode_entry :: "(string \<Rightarrow> 32 word) \<Rightarrow> wal_entry \<Rightarrow> string" where
  "encode_entry crc e =
     (let payload_len = 8 + 1 + length (we_sql e);
          total_len = (word_of_nat (4 + payload_len) :: 32 word)
      in word_bytes 4 total_len @ word_bytes 4 (crc (payload e)) @ payload e)"

definition wal_open :: "string option \<Rightarrow> wal" where
  "wal_open content =
     (case content of
        None \<Rightarrow> \<lparr>wl_bytes = [], wl_synced = 0\<rparr>
      | Some b \<Rightarrow> \<lparr>wl_bytes = b, wl_synced = length b\<rparr>)"

definition append_no_sync :: "(string \<Rightarrow> 32 word) \<Rightarrow> wal_entry \<Rightarrow> wal \<Rightarrow> wal" where
  "append_no_sync crc e w = w\<lparr>wl_bytes := wl_bytes w @ encode_entry crc e\<rparr>"

definition wal_append :: "(string \<Rightarrow> 32 word) \<Rightarrow> wal_entry \<Rightarrow> wal \<Rightarrow> wal" where
  "wal_append crc e w =
     (let b = wl_bytes w @ encode_entry crc e in \<lparr>wl_bytes = b, wl_synced = length b\<rparr>)"

definition commit_no_checkpoint :: "(string \<Rightarrow> 32 word) \<Rightarrow> 64 word \<Rightarrow> wal \<Rightarrow> wal" where
  "commit_no_checkpoint crc txn w =
     wal_append crc \<lparr>we_txn = txn, we_status = Committed, we_sql = []\<rparr> w"

definition wal_commit :: "(string \<Rightarrow> 32 word) \<Rightarrow> 64 word \<Rightarrow> wal \<Rightarrow> wal" where
  "wal_commit crc txn w = commit_no_checkpoint crc txn w"

definition wal_abort :: "(string \<Rightarrow> 32 word) \<Rightarrow> 64 word \<Rightarrow> wal \<Rightarrow> wal" where
  "wal_abort crc txn w = wal_append crc \<lparr>we_txn = txn, we_status = Aborted, we_sql = []\<rparr> w"

definition wal_checkpoint :: "wal \<Rightarrow> wal" where
  "wal_checkpoint w = \<lparr>wl_bytes = [], wl_synced = 0\<rparr>"

definition maybe_checkpoint :: "nat \<Rightarrow> wal \<Rightarrow> bool \<times> wal" where
  "maybe_checkpoint threshold w =
     (if threshold = 0 \<or> length (wl_bytes w) \<ge> threshold then (True, wal_checkpoint w)
      else (False, w))"

section \<open>Recovery\<close>

text \<open>
  The reading loop. It stops quietly at the end of the file, at a length below 13, at a
  record cut short and at a checksum mismatch; an unknown status byte is an error.
\<close>

function read_entries :: "(string \<Rightarrow> 32 word) \<Rightarrow> string \<Rightarrow> (wal_error, wal_entry list) result" where
  "read_entries crc s =
     (if length s < 4 then Inr []
      else
        let total_len = le_val (take 4 s); rest = drop 4 s in
        if total_len < 13 then Inr []
        else if length rest < total_len then Inr []
        else
          let buf = take total_len rest; body = drop 4 buf in
          if word_of_nat (le_val (take 4 buf)) \<noteq> crc body then Inr []
          else
            case status_try_from (code (body ! 8)) of
              Inl e \<Rightarrow> Inl e
            | Inr st \<Rightarrow>
                (case read_entries crc (drop total_len rest) of
                   Inl e \<Rightarrow> Inl e
                 | Inr es \<Rightarrow>
                     Inr (\<lparr>we_txn = word_of_nat (le_val (take 8 body)), we_status = st,
                           we_sql = utf8_lossy (drop 9 body)\<rparr> # es)))"
  by pat_completeness auto
termination by (relation "measure (\<lambda>(crc, s). length s)") auto

declare read_entries.simps [simp del]

definition replay_entries :: "wal_entry list \<Rightarrow> wal_entry list" where
  "replay_entries es =
     (let committed = (\<lambda>t. list_ex (\<lambda>e. we_status e = Committed \<and> we_txn e = t) es);
          aborted = (\<lambda>t. list_ex (\<lambda>e. we_status e = Aborted \<and> we_txn e = t) es)
      in filter (\<lambda>e. we_status e = Pending \<and> we_sql e \<noteq> [] \<and>
                     (we_txn e = 0 \<or> committed (we_txn e)) \<and> \<not> aborted (we_txn e)) es)"

definition wal_recover ::
  "(string \<Rightarrow> 32 word) \<Rightarrow> string option \<Rightarrow> (wal_error, wal_entry list) result"
where
  "wal_recover crc content =
     (case content of
        None \<Rightarrow> Inr []
      | Some s \<Rightarrow> (case read_entries crc s of Inl e \<Rightarrow> Inl e | Inr es \<Rightarrow> Inr (replay_entries es)))"

text \<open>
  A crash keeps at least the synced bytes and loses some of the bytes written after them.
\<close>

definition crash_states :: "wal \<Rightarrow> string set" where
  "crash_states w = {b. prefix b (wl_bytes w) \<and> wl_synced w \<le> length b}"

section \<open>Reading back one entry\<close>

text \<open>An entry whose length field does not overflow and whose statement is a Rust string.\<close>

definition entry_ok :: "wal_entry \<Rightarrow> bool" where
  "entry_ok e \<longleftrightarrow> 13 + length (we_sql e) < 2 ^ 32 \<and> valid_utf8 (we_sql e)"

lemma length_payload [simp]: "length (payload e) = 9 + length (we_sql e)"
  by (simp add: payload_def)

lemma length_encode_entry [simp]: "length (encode_entry crc e) = 17 + length (we_sql e)"
  by (simp add: encode_entry_def Let_def)

lemma payload_status: "payload e ! 8 = char_of (status_byte (we_status e))"
  by (simp add: payload_def nth_append)

lemma take_payload: "take 8 (payload e) = word_bytes 8 (we_txn e)"
  by (simp add: payload_def)

lemma drop_payload: "drop 9 (payload e) = we_sql e"
  by (simp add: payload_def)

lemma unat_word_of_nat_small: "n < 2 ^ 32 \<Longrightarrow> unat (word_of_nat n :: 32 word) = n"
  by (simp add: unsigned_of_nat take_bit_eq_mod)

lemma encode_header:
  assumes "entry_ok e"
  shows "le_val (take 4 (encode_entry crc e @ s)) = 13 + length (we_sql e)"
    and "drop 4 (encode_entry crc e @ s) = word_bytes 4 (crc (payload e)) @ payload e @ s"
proof -
  have "take 4 (encode_entry crc e @ s) = word_bytes 4 (word_of_nat (13 + length (we_sql e)) :: 32 word)"
    by (simp add: encode_entry_def Let_def)
  moreover have "unat (word_of_nat (13 + length (we_sql e)) :: 32 word) = 13 + length (we_sql e)"
    by (rule unat_word_of_nat_small) (use assms in \<open>simp add: entry_ok_def\<close>)
  ultimately show "le_val (take 4 (encode_entry crc e @ s)) = 13 + length (we_sql e)"
    by (simp add: le_val_word_bytes)
  show "drop 4 (encode_entry crc e @ s) = word_bytes 4 (crc (payload e)) @ payload e @ s"
    by (simp add: encode_entry_def Let_def)
qed

text \<open>A whole entry at the head of the file is read, and the loop goes on behind it.\<close>

lemma read_encode_append:
  assumes ok: "entry_ok e"
  shows "read_entries crc (encode_entry crc e @ s) =
     (case read_entries crc s of Inl err \<Rightarrow> Inl err | Inr es \<Rightarrow> Inr (e # es))"
proof -
  note hd = encode_header [OF ok, of crc s]
  let ?c = "word_bytes 4 (crc (payload e))"
  have buf: "take (13 + length (we_sql e)) (?c @ payload e @ s) = ?c @ payload e"
    and rest: "drop (13 + length (we_sql e)) (?c @ payload e @ s) = s"
    by simp_all
  have "code (char_of (status_byte (we_status e))) = status_byte (we_status e)"
    by (cases "we_status e") simp_all
  then have st: "status_try_from (code (payload e ! 8)) = Inr (we_status e)"
    by (simp add: payload_status)
  have e: "\<lparr>we_txn = word_of_nat (le_val (take 8 (payload e))), we_status = we_status e,
      we_sql = utf8_lossy (drop 9 (payload e))\<rparr> = e"
    using ok by (simp add: take_payload drop_payload le_val_word_bytes entry_ok_def)
  show ?thesis
    by (subst read_entries.simps)
      (simp only: hd Let_def buf rest, simp add: le_val_word_bytes st e [simplified] split: sum.splits)
qed

lemma read_too_short: "length s < 4 \<Longrightarrow> read_entries crc s = Inr []"
  by (subst read_entries.simps) simp

text \<open>A proper prefix of an entry is not read.\<close>

lemma read_torn_entry:
  assumes "entry_ok e" and "prefix b (encode_entry crc e)" and "b \<noteq> encode_entry crc e"
  shows "read_entries crc b = Inr []"
proof (cases "length b < 4")
  case True
  then show ?thesis by (rule read_too_short)
next
  case False
  obtain r where r: "encode_entry crc e = b @ r" using assms(2) by (auto simp: prefix_def)
  with assms(3) have "r \<noteq> []" by auto
  with r have len: "length b < 17 + length (we_sql e)"
    using length_encode_entry [of crc e] by (metis length_append length_greater_0_conv less_add_same_cancel1)
  have "take 4 b = take 4 (encode_entry crc e @ [])" using False r by simp
  then have "le_val (take 4 b) = 13 + length (we_sql e)"
    using encode_header(1) [OF assms(1), of crc "[]"] by simp
  moreover have "length (drop 4 b) < 13 + length (we_sql e)" using len False by simp
  ultimately show ?thesis by (subst read_entries.simps) (simp add: Let_def)
qed

definition encode_log :: "(string \<Rightarrow> 32 word) \<Rightarrow> wal_entry list \<Rightarrow> string" where
  "encode_log crc es = concat (map (encode_entry crc) es)"

lemma encode_log_simps [simp]:
  "encode_log crc [] = []"
  "encode_log crc (e # es) = encode_entry crc e @ encode_log crc es"
  "encode_log crc (es @ fs) = encode_log crc es @ encode_log crc fs"
  by (simp_all add: encode_log_def)

lemma read_log_append:
  "list_all entry_ok es \<Longrightarrow> read_entries crc (encode_log crc es @ s) =
     (case read_entries crc s of Inl err \<Rightarrow> Inl err | Inr fs \<Rightarrow> Inr (es @ fs))"
  by (induction es) (auto simp: read_encode_append split: sum.splits)

lemma read_log: "list_all entry_ok es \<Longrightarrow> read_entries crc (encode_log crc es) = Inr es"
  using read_log_append [of es crc "[]"] by (simp add: read_too_short)

section \<open>The log as an interface\<close>

text \<open>The entries a log holds, and the logs that hold whole entries only.\<close>

definition wal_log :: "(string \<Rightarrow> 32 word) \<Rightarrow> wal \<Rightarrow> wal_entry list" where
  "wal_log crc w = (case read_entries crc (wl_bytes w) of Inr es \<Rightarrow> es | Inl _ \<Rightarrow> [])"

definition wal_inv :: "(string \<Rightarrow> 32 word) \<Rightarrow> wal \<Rightarrow> bool" where
  "wal_inv crc w \<longleftrightarrow>
     wl_synced w \<le> length (wl_bytes w) \<and>
     (case read_entries crc (wl_bytes w) of
        Inr es \<Rightarrow> list_all entry_ok es \<and> encode_log crc es = wl_bytes w | Inl _ \<Rightarrow> False)"

lemma wal_invI:
  "list_all entry_ok es \<Longrightarrow> wl_bytes w = encode_log crc es \<Longrightarrow> wl_synced w \<le> length (wl_bytes w) \<Longrightarrow>
     wal_inv crc w \<and> wal_log crc w = es"
  by (simp add: wal_inv_def wal_log_def read_log)

lemma wal_invD:
  "wal_inv crc w \<Longrightarrow>
     list_all entry_ok (wal_log crc w) \<and> wl_bytes w = encode_log crc (wal_log crc w) \<and>
     wl_synced w \<le> length (wl_bytes w)"
  by (auto simp: wal_inv_def wal_log_def split: sum.splits)

text \<open>What the engine relies on: entries come back in the order written, truncation forgets them.\<close>

locale journal =
  fixes log :: "'w \<Rightarrow> 'e list"
    and inv :: "'w \<Rightarrow> bool"
    and good :: "'e \<Rightarrow> bool"
    and app :: "'e \<Rightarrow> 'w \<Rightarrow> 'w"
    and trunc :: "'w \<Rightarrow> 'w"
  assumes log_app: "inv w \<Longrightarrow> good e \<Longrightarrow> log (app e w) = log w @ [e]"
    and inv_app: "inv w \<Longrightarrow> good e \<Longrightarrow> inv (app e w)"
    and log_trunc: "log (trunc w) = []"
    and inv_trunc: "inv (trunc w)"
begin

lemma log_app_all:
  "inv w \<Longrightarrow> list_all good es \<Longrightarrow> inv (fold app es w) \<and> log (fold app es w) = log w @ es"
  by (induction es arbitrary: w) (auto simp: log_app inv_app)

lemma log_after_trunc: "list_all good es \<Longrightarrow> log (fold app es (trunc w)) = es"
  using log_app_all [OF inv_trunc] by (simp add: log_trunc)

end

lemma wal_append_log:
  assumes "wal_inv crc w" and "entry_ok e"
  shows "wal_inv crc (wal_append crc e w) \<and> wal_log crc (wal_append crc e w) = wal_log crc w @ [e]"
proof (rule wal_invI)
  from wal_invD [OF assms(1)] assms(2) show "list_all entry_ok (wal_log crc w @ [e])" by simp
qed (use wal_invD [OF assms(1)] in \<open>simp_all add: wal_append_def Let_def\<close>)

lemma append_no_sync_log:
  assumes "wal_inv crc w" and "entry_ok e"
  shows "wal_inv crc (append_no_sync crc e w) \<and> wal_log crc (append_no_sync crc e w) = wal_log crc w @ [e]"
proof (rule wal_invI)
  from wal_invD [OF assms(1)] assms(2) show "list_all entry_ok (wal_log crc w @ [e])" by simp
qed (use wal_invD [OF assms(1)] in \<open>auto simp: append_no_sync_def\<close>)

lemma wal_checkpoint_log: "wal_inv crc (wal_checkpoint w) \<and> wal_log crc (wal_checkpoint w) = []"
  by (rule wal_invI) (simp_all add: wal_checkpoint_def)

interpretation synced_log: journal "wal_log crc" "wal_inv crc" entry_ok "wal_append crc" wal_checkpoint
  for crc
  by unfold_locales (simp_all add: wal_append_log wal_checkpoint_log)

interpretation unsynced_log: journal "wal_log crc" "wal_inv crc" entry_ok "append_no_sync crc" wal_checkpoint
  for crc
  by unfold_locales (simp_all add: append_no_sync_log wal_checkpoint_log)

lemma wal_recover_log:
  assumes "wal_inv crc w"
  shows "wal_recover crc (Some (wl_bytes w)) = Inr (replay_entries (wal_log crc w))"
proof -
  from wal_invD [OF assms]
  have "read_entries crc (wl_bytes w) = Inr (wal_log crc w)"
    using read_log [of "wal_log crc w" crc] by simp
  then show ?thesis by (simp add: wal_recover_def)
qed

section \<open>Torn and damaged logs\<close>

lemma read_torn_log:
  assumes "list_all entry_ok es" and "prefix b (encode_log crc es)"
  shows "\<exists>k \<le> length es. read_entries crc b = Inr (take k es) \<and>
     length (encode_log crc (take k es)) \<le> length b \<and>
     (k < length es \<longrightarrow> length b < length (encode_log crc (take (Suc k) es)))"
  using assms
proof (induction es arbitrary: b)
  case Nil
  then show ?case by (simp add: read_too_short)
next
  case (Cons e es)
  then have ok: "entry_ok e" and oks: "list_all entry_ok es" by auto
  from Cons.prems(2) consider (tail) us where "b = encode_entry crc e @ us" "prefix us (encode_log crc es)"
    | (torn) "prefix b (encode_entry crc e)" "b \<noteq> encode_entry crc e"
    by (cases "b = encode_entry crc e") (auto simp: prefix_append)
  then show ?case
  proof cases
    case tail
    from Cons.IH [OF oks tail(2)] obtain k where k: "k \<le> length es"
      "read_entries crc us = Inr (take k es)" "length (encode_log crc (take k es)) \<le> length us"
      "k < length es \<longrightarrow> length us < length (encode_log crc (take (Suc k) es))" by blast
    then show ?thesis
      by (intro exI [of _ "Suc k"]) (simp add: tail(1) read_encode_append [OF ok])
  next
    case torn
    then have "length b < length (encode_entry crc e)"
      by (intro prefix_length_less) (simp add: strict_prefix_def)
    with read_torn_entry [OF ok torn] show ?thesis by (intro exI [of _ 0]) simp
  qed
qed

text \<open>Bytes at which the reading loop stops.\<close>

definition unreadable :: "(string \<Rightarrow> 32 word) \<Rightarrow> string \<Rightarrow> bool" where
  "unreadable crc s \<longleftrightarrow>
     length s < 4 \<or> le_val (take 4 s) < 13 \<or> length s < 4 + le_val (take 4 s) \<or>
     word_of_nat (le_val (take 4 (drop 4 s))) \<noteq> crc (take (le_val (take 4 s) - 4) (drop 8 s))"

lemma read_unreadable:
  assumes "unreadable crc s"
  shows "read_entries crc s = Inr []"
proof (cases "length s < 4 \<or> le_val (take 4 s) < 13 \<or> length s < 4 + le_val (take 4 s)")
  case True
  then show ?thesis by (subst read_entries.simps) (auto simp: Let_def)
next
  case False
  let ?n = "le_val (take 4 s)"
  have "take 4 (take ?n (drop 4 s)) = take 4 (drop 4 s)" using False by (simp add: min_def)
  moreover have "drop 4 (take ?n (drop 4 s)) = take (?n - 4) (drop 8 s)" by (simp add: drop_take)
  moreover have "word_of_nat (le_val (take 4 (drop 4 s))) \<noteq> crc (take (?n - 4) (drop 8 s))"
    using False assms by (simp add: unreadable_def)
  ultimately show ?thesis by (subst read_entries.simps) (simp only: Let_def, simp)
qed

end
