(* ===== verification/Sql_Scan.thy ===== *)
theory Sql_Scan
  imports Rust_Text
begin

text \<open>
  The character-level scanners of \<^verbatim>\<open>crates/engine/src/lib.rs\<close>: \<^verbatim>\<open>split_sql_statements\<close>
  (scripts), \<^verbatim>\<open>split_top_level_csv\<close> and \<^verbatim>\<open>find_matching_paren\<close> (function calls). The
  loops over a peekable iterator are recursions on the characters left.
\<close>

section \<open>String literals\<close>

text \<open>
  The inner loop that both scanners run after an opening quote: the characters consumed,
  the closing quote included, and the rest. A doubled quote stays in the literal.
\<close>

fun take_literal :: "string \<Rightarrow> string \<times> string" where
  "take_literal [] = ([], [])"
| "take_literal (c # s) =
     (if c = quote
      then (case s of
              d # s' \<Rightarrow>
                if d = quote then (case take_literal s' of (lit, r) \<Rightarrow> (quote # quote # lit, r))
                else ([quote], s)
            | [] \<Rightarrow> ([quote], []))
      else (case take_literal s of (lit, r) \<Rightarrow> (c # lit, r)))"

lemma take_literal_append: "take_literal s = (lit, r) \<Longrightarrow> s = lit @ r"
  by (induction s arbitrary: lit r rule: take_literal.induct)
    (auto split: if_splits list.splits prod.splits)

lemma take_literal_length [termination_simp]:
  "(lit, r) = take_literal s \<Longrightarrow> length r \<le> length s"
  using take_literal_append [of s lit r] by simp

lemma take_literal_snd_length [termination_simp]: "length (snd (take_literal s)) \<le> length s"
  using take_literal_length [of "fst (take_literal s)" "snd (take_literal s)" s] by simp

section \<open>Statements of a script\<close>

text \<open>A line comment counts as a space, except at the end of the script.\<close>

fun line_comment :: "string \<Rightarrow> string \<times> string" where
  "line_comment [] = ([], [])"
| "line_comment (c # s) = (if c = CHR 0x0A then ('' '', s) else line_comment s)"

text \<open>Block comments nest; the first argument is the depth.\<close>

fun block_comment :: "nat \<Rightarrow> string \<Rightarrow> string" where
  "block_comment 0 s = s"
| "block_comment (Suc d) [] = []"
| "block_comment (Suc d) [c] = []"
| "block_comment (Suc d) (c # e # s) =
     (if c = CHR ''*'' \<and> e = CHR ''/'' then block_comment d s
      else if c = CHR ''/'' \<and> e = CHR ''*'' then block_comment (Suc (Suc d)) s
      else block_comment (Suc d) (e # s))"

lemma line_comment_length [termination_simp]: "length (snd (line_comment s)) \<le> length s"
  by (induction s) auto

lemma block_comment_length [termination_simp]: "length (block_comment d s) \<le> length s"
proof (induction d s rule: block_comment.induct)
  case (4 d c e s)
  then show ?case
    by (cases "c = CHR ''*'' \<and> e = CHR ''/''"; cases "c = CHR ''/'' \<and> e = CHR ''*''") auto
qed simp_all

text \<open>
  \<open>split_from cur s\<close> is the rest of the run with the characters \<open>cur\<close> collected for the
  current statement and \<open>s\<close> left to read.
\<close>

definition last_statement :: "string \<Rightarrow> string list" where
  "last_statement cur = (if trim cur = [] then [] else [trim cur])"

definition end_statement :: "string \<Rightarrow> string list" where
  "end_statement cur = (if trim cur = [] then [] else [trim cur @ '';''])"

function split_from :: "string \<Rightarrow> string \<Rightarrow> string list" where
  "split_from cur [] = last_statement cur"
| "split_from cur (c # s) =
     (if c = quote
      then split_from (cur @ c # fst (take_literal s)) (snd (take_literal s))
      else if c = CHR ''-''
      then (case s of
              d # s' \<Rightarrow>
                if d = CHR ''-'' then split_from (cur @ fst (line_comment s')) (snd (line_comment s'))
                else split_from (cur @ [c]) s
            | [] \<Rightarrow> split_from (cur @ [c]) s)
      else if c = CHR ''/''
      then (case s of
              d # s' \<Rightarrow>
                if d = CHR ''*'' then split_from (cur @ '' '') (block_comment 1 s')
                else split_from (cur @ [c]) s
            | [] \<Rightarrow> split_from (cur @ [c]) s)
      else if c = CHR '';''
      then end_statement cur @ split_from [] s
      else split_from (cur @ [c]) s)"
  by pat_completeness auto
termination
  by (relation "measure (\<lambda>(cur, s). length s)")
    (auto simp: termination_simp le_imp_less_Suc intro: le_less_trans [OF line_comment_length]
      le_less_trans [OF block_comment_length])

definition split_sql_statements :: "string \<Rightarrow> string list" where
  "split_sql_statements sql = split_from [] sql"

section \<open>Arguments of a call\<close>

text \<open>The accumulator \<open>cur\<close> holds the current item, \<open>depth\<close> the open parentheses.\<close>

definition csv_item :: "string \<Rightarrow> string list" where
  "csv_item cur = (if trim cur = [] then [] else [trim cur])"

function csv_from :: "string \<Rightarrow> nat \<Rightarrow> string \<Rightarrow> string list" where
  "csv_from cur depth [] = csv_item cur"
| "csv_from cur depth (c # s) =
     (if c = quote
      then csv_from (cur @ c # fst (take_literal s)) depth (snd (take_literal s))
      else if c = CHR ''('' then csv_from (cur @ [c]) (Suc depth) s
      else if c = CHR '')'' then csv_from (cur @ [c]) (depth - 1) s
      else if c = CHR '','' \<and> depth = 0 then csv_item cur @ csv_from [] depth s
      else csv_from (cur @ [c]) depth s)"
  by pat_completeness auto
termination
  by (relation "measure (\<lambda>(cur, depth, s). length s)") (auto simp: termination_simp le_imp_less_Suc)

definition split_top_level_csv :: "string \<Rightarrow> string list" where
  "split_top_level_csv input = csv_from [] 0 input"

text \<open>The loop of \<^verbatim>\<open>find_matching_paren\<close> from index \<open>i\<close>.\<close>

fun match_from :: "nat \<Rightarrow> nat \<Rightarrow> bool \<Rightarrow> string \<Rightarrow> nat option" where
  "match_from i depth in_q [] = None"
| "match_from i depth in_q (c # s) =
     (if c = quote then match_from (Suc i) depth (\<not> in_q) s
      else if in_q then match_from (Suc i) depth in_q s
      else if c = CHR ''('' then match_from (Suc i) (Suc depth) in_q s
      else if c = CHR '')''
      then (if depth - 1 = 0 then Some i else match_from (Suc i) (depth - 1) in_q s)
      else match_from (Suc i) depth in_q s)"

definition find_matching_paren :: "string \<Rightarrow> nat \<Rightarrow> nat option" where
  "find_matching_paren s open_idx =
     (if open_idx < length s \<and> s ! open_idx = CHR ''(''
      then match_from open_idx 0 False (drop open_idx s) else None)"

section \<open>Literals followed by more text\<close>

text \<open>Whether the literal opened before \<open>s\<close> is closed in \<open>s\<close>.\<close>

fun lit_closed :: "string \<Rightarrow> bool" where
  "lit_closed [] = False"
| "lit_closed (c # s) =
     (if c = quote then (case s of d # s' \<Rightarrow> if d = quote then lit_closed s' else True | [] \<Rightarrow> True)
      else lit_closed s)"

lemma literal_simps:
  "take_literal [quote] = ([quote], [])"
  "take_literal (quote # quote # s) =
     (quote # quote # fst (take_literal s), snd (take_literal s))"
  "d \<noteq> quote \<Longrightarrow> take_literal (quote # d # s) = ([quote], d # s)"
  "c \<noteq> quote \<Longrightarrow> take_literal (c # s) = (c # fst (take_literal s), snd (take_literal s))"
  "lit_closed [quote]"
  "lit_closed (quote # quote # s) = lit_closed s"
  "d \<noteq> quote \<Longrightarrow> lit_closed (quote # d # s)"
  "c \<noteq> quote \<Longrightarrow> lit_closed (c # s) = lit_closed s"
  by (simp_all split: prod.splits)

lemma literal_induct [case_names Nil closing_end doubled closing other]:
  assumes "P []" and "P [quote]" and "\<And>s. P s \<Longrightarrow> P (quote # quote # s)"
    and "\<And>d s. d \<noteq> quote \<Longrightarrow> P (quote # d # s)"
    and "\<And>c s. c \<noteq> quote \<Longrightarrow> P s \<Longrightarrow> P (c # s)"
  shows "P s"
proof (induction s rule: lit_closed.induct)
  case (2 c s)
  then show ?case using assms by (cases s) metis+
qed (rule assms(1))

declare take_literal.simps(2) [simp del] lit_closed.simps(2) [simp del] literal_simps [simp]

lemma take_literal_closed:
  "lit_closed s \<Longrightarrow> snd (take_literal s) = [] \<longrightarrow> t = [] \<or> hd t \<noteq> quote \<Longrightarrow>
     take_literal (s @ t) = (fst (take_literal s), snd (take_literal s) @ t) \<and> lit_closed (s @ t)"
  by (induction s rule: literal_induct; cases t) auto

lemma take_literal_unclosed: "\<not> lit_closed s \<Longrightarrow> take_literal s = (s, [])"
  by (induction s rule: literal_induct) auto

lemma take_literal_whole:
  "lit_closed s \<Longrightarrow> lit_closed (fst (take_literal s)) \<and>
     take_literal (fst (take_literal s)) = (fst (take_literal s), [])"
  by (induction s rule: literal_induct) auto

lemma take_literal_rest:
  "lit_closed s \<Longrightarrow> last (fst (take_literal s)) = quote \<and> fst (take_literal s) \<noteq> [] \<and>
     (snd (take_literal s) \<noteq> [] \<longrightarrow> hd (snd (take_literal s)) \<noteq> quote)"
  by (induction s rule: literal_induct) auto

lemma lit_closed_snoc: "w \<noteq> quote \<Longrightarrow> lit_closed (s @ [w]) = lit_closed s"
  by (induction s rule: literal_induct) auto

lemma take_literal_concat: "fst (take_literal s) @ snd (take_literal s) = s"
  using take_literal_append [of s "fst (take_literal s)" "snd (take_literal s)"] by simp

section \<open>Texts without a comment or a terminator\<close>

text \<open>
  A statement text that the scanner copies as it is: literals closed, no comment, no
  semicolon outside a literal.
\<close>

function plain_sql :: "string \<Rightarrow> bool" where
  "plain_sql [] = True"
| "plain_sql (c # s) =
     (if c = quote then lit_closed s \<and> plain_sql (snd (take_literal s))
      else c \<noteq> CHR '';'' \<and> plain_sql s \<and>
        (c = CHR ''-'' \<longrightarrow> s = [] \<or> hd s \<noteq> CHR ''-'') \<and>
        (c = CHR ''/'' \<longrightarrow> s = [] \<or> hd s \<noteq> CHR ''*''))"
  by pat_completeness auto
termination by (relation "measure length") (auto simp: termination_simp le_imp_less_Suc)

text \<open>No token arises where two texts meet.\<close>

definition joinable :: "string \<Rightarrow> string \<Rightarrow> bool" where
  "joinable a b \<longleftrightarrow>
     a = [] \<or> b = [] \<or>
     (last a, hd b) \<notin> {(CHR ''-'', CHR ''-''), (CHR ''/'', CHR ''*''), (quote, quote)}"

lemma joinable_Nil [simp]: "joinable [] b" "joinable a []"
  by (simp_all add: joinable_def)

lemma joinable_semicolon [simp]: "joinable a (CHR '';'' # s)"
  by (simp add: joinable_def)

lemma joinable_space [simp]: "joinable a (CHR '' '' # s)"
  by (simp add: joinable_def)

lemma joinable_suffix: "joinable (a @ b) t \<Longrightarrow> joinable b t"
  by (auto simp: joinable_def)

lemma joinable_literal:
  assumes "joinable (quote # s) t" and "lit_closed s" and "snd (take_literal s) = []"
  shows "t = [] \<or> hd t \<noteq> quote"
proof -
  from assms(3) take_literal_concat [of s] have "fst (take_literal s) = s" by simp
  with take_literal_rest [OF assms(2)] have "last (quote # s) = quote" by auto
  with assms(1) show ?thesis by (auto simp: joinable_def)
qed

lemma joinable_rest:
  assumes "joinable (quote # s) t"
  shows "joinable (snd (take_literal s)) t"
  by (rule joinable_suffix [of "quote # fst (take_literal s)"])
    (simp add: take_literal_concat assms)

lemma split_plain:
  "plain_sql s \<Longrightarrow> joinable s t \<Longrightarrow> split_from acc (s @ t) = split_from (acc @ s) t"
proof (induction s arbitrary: acc rule: plain_sql.induct)
  case (2 c s)
  show ?case
  proof (cases "c = quote")
    case True
    with 2 have cl: "lit_closed s" and pl: "plain_sql (snd (take_literal s))" by simp_all
    have tl: "take_literal (s @ t) = (fst (take_literal s), snd (take_literal s) @ t)"
      using take_literal_closed [OF cl] joinable_literal [OF _ cl] 2 True by blast
    have "joinable (snd (take_literal s)) t"
      using 2 True by (intro joinable_rest) simp
    from 2(1) [OF True pl this, of "acc @ c # fst (take_literal s)"] show ?thesis
      using True by (simp add: tl take_literal_concat)
  next
    case False
    with 2 have "plain_sql s" "joinable s t" "c \<noteq> CHR '';''"
      using joinable_suffix [of "[c]" s t] by simp_all
    then have IH: "split_from (acc @ [c]) (s @ t) = split_from (acc @ c # s) t"
      using 2(2) [OF False, of "acc @ [c]"] by simp
    have "s @ t \<noteq> [] \<Longrightarrow> c = CHR ''-'' \<Longrightarrow> hd (s @ t) \<noteq> CHR ''-''"
      "s @ t \<noteq> [] \<Longrightarrow> c = CHR ''/'' \<Longrightarrow> hd (s @ t) \<noteq> CHR ''*''"
      using 2(3,4) False by (cases s; auto simp: joinable_def)+
    with IH False \<open>c \<noteq> CHR '';''\<close> show ?thesis
      by (cases "s @ t") auto
  qed
qed simp

lemma plain_append:
  "plain_sql a \<Longrightarrow> plain_sql b \<Longrightarrow> joinable a b \<Longrightarrow> plain_sql (a @ b)"
proof (induction a rule: plain_sql.induct)
  case (2 c s)
  show ?case
  proof (cases "c = quote")
    case True
    with 2 have cl: "lit_closed s" and pl: "plain_sql (snd (take_literal s))" by simp_all
    have tl: "take_literal (s @ b) = (fst (take_literal s), snd (take_literal s) @ b) \<and> lit_closed (s @ b)"
      using take_literal_closed [OF cl] joinable_literal [OF _ cl] 2 True by blast
    have "joinable (snd (take_literal s)) b"
      using 2 True by (intro joinable_rest) simp
    from 2(1) [OF True pl _ this] 2 True tl show ?thesis by simp
  next
    case False
    have "joinable s b" using 2(5) joinable_suffix [of "[c]" s b] by simp
    with 2 False show ?thesis by (cases s) (auto simp: joinable_def)
  qed
qed simp

lemma plain_literal: "lit_closed s \<Longrightarrow> plain_sql (quote # fst (take_literal s))"
  by (simp add: take_literal_whole)

lemma ws_not_special:
  "is_ws c \<Longrightarrow> c \<noteq> quote \<and> c \<noteq> CHR ''-'' \<and> c \<noteq> CHR ''/'' \<and> c \<noteq> CHR '';'' \<and> c \<noteq> CHR ''*''"
  by (auto simp: is_ws_def)

lemma plain_trim_start: "plain_sql s \<Longrightarrow> plain_sql (trim_start s)"
  unfolding trim_start_by_def by (induction s) (auto dest: ws_not_special)

lemma plain_snoc: "plain_sql (s @ [w]) \<Longrightarrow> is_ws w \<Longrightarrow> plain_sql s"
proof (induction s rule: plain_sql.induct)
  case (2 c s)
  from ws_not_special [OF 2(4)] have w: "w \<noteq> quote" by simp
  show ?case
  proof (cases "c = quote")
    case True
    with 2 w have cl: "lit_closed s" by (simp add: lit_closed_snoc)
    have "take_literal (s @ [w]) = (fst (take_literal s), snd (take_literal s) @ [w])"
      using take_literal_closed [OF cl, of "[w]"] w by simp
    with 2 True cl show ?thesis by simp
  next
    case False
    with 2 show ?thesis by (cases s) auto
  qed
qed simp

lemma trim_end_induct:
  assumes "\<And>s w. P (s @ [w]) \<Longrightarrow> is_ws w \<Longrightarrow> P s" and "P s"
  shows "P (trim_end_by is_ws s)"
  using assms(2)
proof (induction s rule: rev_induct)
  case (snoc w s)
  then show ?case
    using assms(1) by (cases "is_ws w") (auto simp: trim_end_by_def)
qed (simp add: trim_end_by_def)

lemma plain_trim: "plain_sql s \<Longrightarrow> plain_sql (trim s)"
  unfolding trim_by_def by (rule trim_end_induct) (auto intro: plain_snoc plain_trim_start)

section \<open>Every statement found is a statement\<close>

text \<open>A text that ends inside a literal.\<close>

definition open_sql :: "string \<Rightarrow> bool" where
  "open_sql u \<longleftrightarrow>
     (\<exists>a l. u = a @ quote # l \<and> plain_sql a \<and> joinable a [quote] \<and> \<not> lit_closed l)"

lemma joinable_hd: "joinable a (c # s) = joinable a [c]"
  by (simp add: joinable_def)

lemma split_open:
  assumes "open_sql u"
  shows "split_from [] u = last_statement u"
proof -
  from assms obtain a l where al: "u = a @ quote # l" "plain_sql a" "joinable a [quote]" "\<not> lit_closed l"
    unfolding open_sql_def by blast
  then have "joinable a (quote # l)" using joinable_hd [of a quote l] by simp
  from split_plain [OF al(2) this, of "[]"] al show ?thesis
    by (simp add: take_literal_unclosed)
qed

lemma trim_start_before_quote: "trim_start (a @ quote # l) = trim_start a @ quote # l"
  using ws_not_special [of quote] by (induction a) (auto simp: trim_start_by_def)

lemma open_trim: "open_sql u \<Longrightarrow> open_sql (trim u)"
  unfolding trim_by_def
proof (rule trim_end_induct)
  fix s w
  assume "open_sql (s @ [w])" and ws: "is_ws w"
  then obtain a l where al: "s @ [w] = a @ quote # l" "plain_sql a" "joinable a [quote]"
    "\<not> lit_closed l"
    unfolding open_sql_def by blast
  from ws_not_special [OF ws] have w: "w \<noteq> quote" by simp
  with al(1) obtain l' where "l = l' @ [w]"
    by (cases l rule: rev_cases) auto
  with al w show "open_sql s" by (auto simp: open_sql_def lit_closed_snoc)
next
  assume "open_sql u"
  then obtain a l where al: "u = a @ quote # l" "plain_sql a" "joinable a [quote]" "\<not> lit_closed l"
    unfolding open_sql_def by blast
  have "trim_start (a @ quote # l) = trim_start a @ quote # l"
    by (rule trim_start_before_quote)
  moreover have "joinable (trim_start a) [quote]"
    using al(3) joinable_suffix [of "takeWhile is_ws a" "trim_start a"]
    by (simp add: trim_start_by_def)
  ultimately show "open_sql (trim_start u)"
    using al plain_trim_start unfolding open_sql_def by blast
qed

definition rescans :: "string \<Rightarrow> bool" where
  "rescans st \<longleftrightarrow> split_sql_statements st = [st]"

lemma rescans_last:
  assumes "plain_sql cur \<or> open_sql cur" and "st \<in> set (last_statement cur)"
  shows "rescans st"
proof -
  from assms(2) have st: "st = trim cur" "trim cur \<noteq> []"
    by (auto simp: last_statement_def split: if_splits)
  from assms(1) have "split_from [] (trim cur) = last_statement (trim cur)"
    using split_plain [of "trim cur" "[]" "[]"] split_open [of "trim cur"] plain_trim open_trim
    by auto
  with st show ?thesis by (simp add: rescans_def split_sql_statements_def last_statement_def)
qed

lemma rescans_end:
  assumes "plain_sql cur" and "st \<in> set (end_statement cur)"
  shows "rescans st"
proof -
  from assms(2) have st: "st = trim cur @ '';''" "trim cur \<noteq> []"
    by (auto simp: end_statement_def split: if_splits)
  from split_plain [OF plain_trim [OF assms(1)], of "'';''" "[]"] st show ?thesis
    by (simp add: rescans_def split_sql_statements_def end_statement_def last_statement_def)
qed

lemma joinable_snoc:
  "c \<noteq> quote \<Longrightarrow> c \<noteq> CHR ''-'' \<Longrightarrow> c \<noteq> CHR ''/'' \<Longrightarrow> joinable (a @ [c]) s"
  by (simp add: joinable_def)

lemma split_from_rescans:
  "plain_sql cur \<Longrightarrow> joinable cur s \<Longrightarrow> st \<in> set (split_from cur s) \<Longrightarrow> rescans st"
proof (induction "length s" arbitrary: cur s rule: less_induct)
  case less
  note pl = less(2) and jo = less(3) and mem = less(4)
  show ?case
  proof (cases s)
    case Nil
    with mem have "st \<in> set (last_statement cur)" by simp
    with pl show ?thesis by (intro rescans_last [of cur]) simp_all
  next
    case (Cons c r)
    have jc: "joinable cur [c]" using jo Cons joinable_hd [of cur c r] by simp
    have plain1: "plain_sql (cur @ [c])" if "c \<noteq> quote" "c \<noteq> CHR '';''"
      using plain_append [OF pl _ jc] that by simp
    have plain_sp: "plain_sql (cur @ '' '')"
      using plain_append [OF pl, of "'' ''"] by simp
    have step: "rescans st" if "length s' \<le> length r" "plain_sql cur'" "joinable cur' s'"
      "st \<in> set (split_from cur' s')" for cur' s'
      using less(1) [of s' cur'] that Cons by simp
    consider (lit) "c = quote" | (dash) "c = CHR ''-''" | (slash) "c = CHR ''/''"
      | (semi) "c = CHR '';''"
      | (other) "c \<noteq> quote" "c \<noteq> CHR ''-''" "c \<noteq> CHR ''/''" "c \<noteq> CHR '';''" by blast
    then show ?thesis
    proof cases
      case lit
      show ?thesis
      proof (cases "lit_closed r")
        case True
        have "plain_sql (cur @ c # fst (take_literal r))"
          using plain_append [OF pl plain_literal [OF True]] jc lit joinable_hd [of cur quote] by simp
        moreover have "joinable (cur @ c # fst (take_literal r)) (snd (take_literal r))"
          using take_literal_rest [OF True] by (auto simp: joinable_def)
        ultimately show ?thesis
          using step [OF take_literal_snd_length] mem lit Cons by simp
      next
        case False
        then have "open_sql (cur @ c # r)" using lit pl jc by (auto simp: open_sql_def)
        with mem lit False Cons show ?thesis
          by (intro rescans_last [of "cur @ c # r"]) (simp_all add: take_literal_unclosed)
      qed
    next
      case dash
      show ?thesis
      proof (cases "\<exists>s'. r = CHR ''-'' # s'")
        case True
        then obtain s' where s': "r = CHR ''-'' # s'" by blast
        have "fst (line_comment s') = '' '' \<or> fst (line_comment s') = [] \<and> snd (line_comment s') = []"
          by (induction s') auto
        then have "plain_sql (cur @ fst (line_comment s'))"
          "joinable (cur @ fst (line_comment s')) (snd (line_comment s'))"
          using plain_sp pl by (auto intro: joinable_snoc)
        then show ?thesis using step [of "snd (line_comment s')"] line_comment_length [of s'] mem Cons dash s'
          by simp
      next
        case False
        then have "joinable (cur @ [c]) r" "split_from cur s = split_from (cur @ [c]) r"
          using dash Cons by (cases r; auto simp: joinable_def)+
        then show ?thesis using step [of r "cur @ [c]"] mem plain1 dash by simp
      qed
    next
      case slash
      show ?thesis
      proof (cases "\<exists>s'. r = CHR ''*'' # s'")
        case True
        then obtain s' where s': "r = CHR ''*'' # s'" by blast
        have "joinable (cur @ '' '') (block_comment 1 s')" by (rule joinable_snoc) simp_all
        then show ?thesis
          using step [of "block_comment 1 s'"] block_comment_length [of 1 s'] mem Cons slash s' plain_sp
          by simp
      next
        case False
        then have "joinable (cur @ [c]) r" "split_from cur s = split_from (cur @ [c]) r"
          using slash Cons by (cases r; auto simp: joinable_def)+
        then show ?thesis using step [of r "cur @ [c]"] mem plain1 slash by simp
      qed
    next
      case semi
      then show ?thesis
        using mem Cons rescans_end [OF pl] step [of r "[]"] by auto
    next
      case other
      then show ?thesis
        using mem Cons step [of r "cur @ [c]"] plain1 joinable_snoc [of c cur r] by simp
    qed
  qed
qed

section \<open>Arguments that the call scanners read back\<close>

text \<open>
  A text at parenthesis depth \<open>d\<close> that closes what it opens, without a top-level comma.
\<close>

function balanced :: "nat \<Rightarrow> string \<Rightarrow> bool" where
  "balanced d [] \<longleftrightarrow> d = 0"
| "balanced d (c # s) \<longleftrightarrow>
     (if c = quote then lit_closed s \<and> balanced d (snd (take_literal s))
      else if c = CHR ''('' then balanced (Suc d) s
      else if c = CHR '')'' then d > 0 \<and> balanced (d - 1) s
      else if c = CHR '','' then d > 0 \<and> balanced d s
      else balanced d s)"
  by pat_completeness auto
termination
  by (relation "measure (\<lambda>(d, s). length s)") (auto simp: termination_simp le_imp_less_Suc)

definition is_arg :: "string \<Rightarrow> bool" where
  "is_arg a \<longleftrightarrow> balanced 0 a \<and> a \<noteq> [] \<and> trim a = a"

lemma csv_balanced:
  "balanced d s \<Longrightarrow> t = [] \<or> hd t \<noteq> quote \<Longrightarrow>
     csv_from cur d (s @ t) = csv_from (cur @ s) 0 t"
proof (induction d s arbitrary: cur rule: balanced.induct)
  case (2 d c s)
  show ?case
  proof (cases "c = quote")
    case True
    with 2 have cl: "lit_closed s" by simp
    from take_literal_closed [OF cl, of t] 2(7)
    have "take_literal (s @ t) = (fst (take_literal s), snd (take_literal s) @ t)" by blast
    with 2(1) [OF True, of "cur @ c # fst (take_literal s)"] 2(6,7) True show ?thesis
      by (simp add: take_literal_concat)
  next
    case False
    with 2 show ?thesis by (auto split: if_splits)
  qed
qed simp

lemma csv_join:
  "list_all is_arg as \<Longrightarrow> csv_from [] 0 (join '','' as) = as"
proof (induction as rule: induct_list012)
  case (2 a)
  then show ?case using csv_balanced [of 0 a "[]" "[]"] by (simp add: is_arg_def csv_item_def)
next
  case (3 a b as)
  then show ?case
    using csv_balanced [of 0 a "CHR '','' # join '','' (b # as)" "[]"] by (simp add: is_arg_def csv_item_def)
qed (simp add: csv_item_def)

lemma match_literal:
  "lit_closed s \<Longrightarrow> snd (take_literal s) = [] \<longrightarrow> t = [] \<or> hd t \<noteq> quote \<Longrightarrow>
     match_from i d True (s @ t) = match_from (i + length (fst (take_literal s))) d False (snd (take_literal s) @ t)"
  by (induction s arbitrary: i rule: literal_induct; cases t) (auto simp: algebra_simps)

text \<open>Inside a call, at depth \<open>Suc d\<close>, the arguments are passed over up to the closing parenthesis.\<close>

function arguments :: "nat \<Rightarrow> string \<Rightarrow> bool" where
  "arguments d [] \<longleftrightarrow> d = 0"
| "arguments d (c # s) \<longleftrightarrow>
     (if c = quote then lit_closed s \<and> arguments d (snd (take_literal s))
      else if c = CHR ''('' then arguments (Suc d) s
      else if c = CHR '')'' then d > 0 \<and> arguments (d - 1) s
      else arguments d s)"
  by pat_completeness auto
termination
  by (relation "measure (\<lambda>(d, s). length s)") (auto simp: termination_simp le_imp_less_Suc)

lemma match_arguments:
  "arguments d s \<Longrightarrow>
     match_from i (Suc d) False (s @ CHR '')'' # t) = Some (i + length s)"
proof (induction d s arbitrary: i rule: arguments.induct)
  case (2 d c s)
  show ?case
  proof (cases "c = quote")
    case True
    with 2 have cl: "lit_closed s" by simp
    have "length s = length (fst (take_literal s)) + length (snd (take_literal s))"
      using take_literal_concat [of s] by (metis length_append)
    with match_literal [OF cl, of "CHR '')'' # t" "Suc i" "Suc d"] 2(1) [OF True] 2(5) True
    show ?thesis by simp
  next
    case False
    with 2 show ?thesis by (auto split: if_splits)
  qed
qed simp

lemma arguments_append:
  "balanced d a \<Longrightarrow> b = [] \<or> hd b \<noteq> quote \<Longrightarrow> arguments 0 b \<Longrightarrow> arguments d (a @ b)"
proof (induction d a rule: balanced.induct)
  case (2 d c s)
  show ?case
  proof (cases "c = quote")
    case True
    with 2 have cl: "lit_closed s" by simp
    from take_literal_closed [OF cl, of b] 2(7)
    have "take_literal (s @ b) = (fst (take_literal s), snd (take_literal s) @ b) \<and> lit_closed (s @ b)"
      by blast
    with 2(1) [OF True] 2(6-8) True show ?thesis by simp
  next
    case False
    with 2 show ?thesis by (auto split: if_splits)
  qed
qed simp

lemma arguments_join: "list_all is_arg as \<Longrightarrow> arguments 0 (join '','' as)"
proof (induction as rule: induct_list012)
  case (2 a)
  then show ?case using arguments_append [of 0 a "[]"] by (simp add: is_arg_def)
next
  case (3 a b as)
  then show ?case
    using arguments_append [of 0 a "CHR '','' # join '','' (b # as)"] by (simp add: is_arg_def)
qed simp

lemma find_matching_paren_call:
  assumes "list_all is_arg as"
  shows "find_matching_paren (f @ CHR ''('' # join '','' as @ CHR '')'' # rest) (length f) =
     Some (Suc (length f + length (join '','' as)))"
  using match_arguments [OF arguments_join [OF assms], of "Suc (length f)" rest]
  by (simp add: find_matching_paren_def nth_append)

end
