(* ===== verification/Sql_Text.thy ===== *)
theory Sql_Text
  imports Sql_Scan Catalog
begin

text \<open>
  The text-level helpers of the engine: \<^verbatim>\<open>crates/engine/src/sql_helpers.rs\<close> and the
  parsing and rewriting functions of \<^verbatim>\<open>crates/engine/src/lib.rs\<close> that work on the SQL
  text. A \<^verbatim>\<open>BoxError\<close> is its message. The date parsers of \<^verbatim>\<open>chrono\<close> are parameters.
\<close>

section \<open>Recognising statements (sql_helpers.rs)\<close>

text \<open>\<^verbatim>\<open>split_whitespace().next().unwrap_or("")\<close>.\<close>

definition first_word :: "string \<Rightarrow> string" where
  "first_word s = (case split_whitespace s of w # _ \<Rightarrow> w | [] \<Rightarrow> [])"

definition normalize_explain_sql :: "string \<Rightarrow> string" where
  "normalize_explain_sql sql =
     (let trimmed = trim sql; upper = to_uppercase trimmed in
      if starts_with ''EXPLAIN ('' upper
      then case (find_str ''('' trimmed, find_str '')'' trimmed) of
             (Some op, Some cl) \<Rightarrow>
               (if cl > op
                then let opts = trim (slice upper (op + 1) cl);
                         has_analyze = list_ex (\<lambda>x. trim x = ''ANALYZE'') (split_char (CHR '','') opts);
                         rest = trim (drop (cl + 1) trimmed)
                     in if rest \<noteq> []
                        then (if has_analyze then ''EXPLAIN ANALYZE '' @ rest else ''EXPLAIN '' @ rest)
                        else trimmed
                else trimmed)
           | _ \<Rightarrow> trimmed
      else trimmed)"

definition is_read_only_sql :: "string \<Rightarrow> bool" where
  "is_read_only_sql sql \<longleftrightarrow>
     to_uppercase (first_word sql) \<in> {''SELECT'', ''WITH'', ''SHOW'', ''DESCRIBE'', ''EXPLAIN''}"

abbreviation as_of_marker :: string where
  "as_of_marker \<equiv> '' AS OF TIMESTAMP ''"

definition strip_as_of_timestamp :: "string \<Rightarrow> string" where
  "strip_as_of_timestamp sql =
     (case find_str as_of_marker (to_uppercase sql) of
        None \<Rightarrow> sql
      | Some idx \<Rightarrow>
          let after = drop (idx + length as_of_marker) sql;
              skip = (case strip_prefix [quote] after of
                        Some stripped \<Rightarrow>
                          (case find_str [quote] stripped of Some e \<Rightarrow> 1 + e + 1 | None \<Rightarrow> 0)
                      | None \<Rightarrow> (case find_str '' '' after of Some k \<Rightarrow> k | None \<Rightarrow> length after))
          in take idx sql @ drop skip after)"

text \<open>\<open>rfc3339\<close> and \<open>naive\<close> are the two date parsers of \<^verbatim>\<open>chrono\<close>, in milliseconds.\<close>

definition parse_as_of_timestamp ::
  "(string \<Rightarrow> int option) \<Rightarrow> (string \<Rightarrow> int option) \<Rightarrow> string \<Rightarrow> int option"
where
  "parse_as_of_timestamp rfc3339 naive sql =
     (case find_str as_of_marker (to_uppercase sql) of
        None \<Rightarrow> None
      | Some idx \<Rightarrow>
          let after = trim_start (drop (idx + length as_of_marker) sql) in
          case (case strip_prefix [quote] after of
                  Some stripped \<Rightarrow>
                    (case find_str [quote] stripped of Some e \<Rightarrow> Some (take e stripped) | None \<Rightarrow> None)
                | None \<Rightarrow> Some (trim_end_matches (CHR '';'') (first_word after))) of
            None \<Rightarrow> None
          | Some token \<Rightarrow>
              if token = [] then None
              else case rfc3339 token of
                     Some ms \<Rightarrow> Some ms
                   | None \<Rightarrow> (case naive token of Some ms \<Rightarrow> Some ms | None \<Rightarrow> parse_i64 token))"

section \<open>Substitution of parameters and variables\<close>

text \<open>
  The loop of \<^verbatim>\<open>substitute_parameters\<close>; bytes that are not replaced are pushed one by one
  as characters.
\<close>

function substitute_from :: "string list \<Rightarrow> string \<Rightarrow> string" where
  "substitute_from ps [] = []"
| "substitute_from ps (c # s) =
     (let ds = takeWhile is_digit s;
          idx = (if c = CHR ''$'' \<and> ds \<noteq> [] then parse_u64 ds else None)
      in case idx of
           Some n \<Rightarrow>
             (if 1 \<le> n \<and> n \<le> length ps then ps ! (n - 1) @ substitute_from ps (dropWhile is_digit s)
              else push_latin1 c @ substitute_from ps s)
         | None \<Rightarrow> push_latin1 c @ substitute_from ps s)"
  by pat_completeness auto
termination
  by (relation "measure (\<lambda>(ps, s). length s)")
    (auto simp: le_imp_less_Suc length_dropWhile_le)

declare substitute_from.simps(2) [simp del]

definition substitute_parameters :: "string \<Rightarrow> string list \<Rightarrow> string" where
  "substitute_parameters tmpl ps = (if ps = [] then tmpl else substitute_from ps tmpl)"

definition is_plpgsql_identifier_char :: "char \<Rightarrow> bool" where
  "is_plpgsql_identifier_char c \<longleftrightarrow> is_alnum c \<or> c = CHR ''_''"

text \<open>The loop of \<^verbatim>\<open>substitute_plpgsql_var\<close>; \<open>prev\<close> is the byte before the position.\<close>

function plpgsql_from :: "string \<Rightarrow> string \<Rightarrow> char option \<Rightarrow> string \<Rightarrow> string" where
  "plpgsql_from var val prev s =
     (case s of
        [] \<Rightarrow> []
      | c # r \<Rightarrow>
          let n = length var;
              hit = var \<noteq> [] \<and> n \<le> length s \<and> to_lowercase (take n s) = to_lowercase var;
              prev_ok = (case prev of None \<Rightarrow> True | Some p \<Rightarrow> \<not> is_plpgsql_identifier_char p);
              next_ok = (case drop n s of [] \<Rightarrow> True | d # _ \<Rightarrow> \<not> is_plpgsql_identifier_char d)
          in if hit \<and> prev_ok \<and> next_ok
             then val @ plpgsql_from var val (Some (s ! (n - 1))) (drop n s)
             else push_latin1 c @ plpgsql_from var val (Some c) r)"
  by pat_completeness auto
termination
  by (relation "measure (\<lambda>(var, val, prev, s). length s)") (auto simp: length_greater_0_conv [symmetric] simp del: length_greater_0_conv)

declare plpgsql_from.simps [simp del]

definition substitute_plpgsql_var :: "string \<Rightarrow> string \<Rightarrow> string \<Rightarrow> string" where
  "substitute_plpgsql_var sql var val = (if var = [] then sql else plpgsql_from var val None sql)"

section \<open>Clauses\<close>

definition find_ci :: "string \<Rightarrow> string \<Rightarrow> nat option" where
  "find_ci haystack needle = find_str (to_uppercase needle) (to_uppercase haystack)"

definition extract_dollar_quoted_body :: "string \<Rightarrow> string option" where
  "extract_dollar_quoted_body sql =
     (case find_str ''$$'' sql of
        None \<Rightarrow> None
      | Some start \<Rightarrow>
          let tail = drop (start + 2) sql in
          case find_str ''$$'' tail of None \<Rightarrow> None | Some e \<Rightarrow> Some (take e tail))"

definition extract_returning_clause :: "string \<Rightarrow> string option" where
  "extract_returning_clause sql =
     (case find_str '' RETURNING '' (to_uppercase sql) of
        None \<Rightarrow> None
      | Some idx \<Rightarrow>
          let clause = trim_end_matches (CHR '';'') (trim (drop (idx + length '' RETURNING '') sql))
          in if clause = [] then None else Some clause)"

definition parse_alter_table_rename :: "string \<Rightarrow> (string \<times> string) option" where
  "parse_alter_table_rename sql =
     (let tokens = split_whitespace sql in
      if length tokens < 6 then None
      else if \<not> eq_ignore_case (tokens ! 0) ''ALTER'' \<or> \<not> eq_ignore_case (tokens ! 1) ''TABLE'' \<or>
              \<not> eq_ignore_case (tokens ! 3) ''RENAME'' \<or> \<not> eq_ignore_case (tokens ! 4) ''TO''
      then None
      else let old_name = trim_matches dquote (tokens ! 2);
               new_name = trim_end_matches (CHR '';'') (trim_matches dquote (tokens ! 5))
           in if old_name = [] \<or> new_name = [] then None else Some (old_name, new_name))"

text \<open>\<open>Some None\<close> clears the retention, \<open>Some (Some n)\<close> sets it to \<open>n\<close> seconds.\<close>

definition parse_retention_setting :: "string \<Rightarrow> nat option option" where
  "parse_retention_setting sql =
     (let lower = to_lowercase sql in
      if \<not> starts_with ''alter table'' lower \<or> \<not> contains_str ''retention'' lower then None
      else if contains_str ''retention = null'' lower then Some None
      else case find_str [quote] sql of
             None \<Rightarrow> None
           | Some q1 \<Rightarrow>
               let rest = drop (q1 + 1) sql in
               case find_str [quote] rest of
                 None \<Rightarrow> None
               | Some q2 \<Rightarrow>
                   case split_whitespace (take q2 rest) of
                     [] \<Rightarrow> None
                   | p # ps \<Rightarrow>
                       case parse_u64 p of
                         None \<Rightarrow> None
                       | Some amount \<Rightarrow>
                           let unit = to_lowercase (case ps of u # _ \<Rightarrow> u | [] \<Rightarrow> ''seconds'')
                           in Some (Some
                               (if unit \<in> {''day'', ''days''} then u64_saturating_mul amount (24 * 60 * 60)
                                else if unit \<in> {''hour'', ''hours''} then u64_saturating_mul amount (60 * 60)
                                else if unit \<in> {''minute'', ''minutes''} then u64_saturating_mul amount 60
                                else amount)))"

end
