(* ===== verification/Sql_Functions.thy ===== *)
theory Sql_Functions
  imports Sql_Text
begin

text \<open>
  SQL function macros (\<^verbatim>\<open>parse_create_function\<close>, \<^verbatim>\<open>parse_drop_function\<close>,
  \<^verbatim>\<open>expand_user_defined_functions\<close>) and the expansion of \<^verbatim>\<open>nextval\<close> calls, the first
  two rewritings \<^verbatim>\<open>execute\<close> applies to a statement.
\<close>

section \<open>Definitions of functions\<close>

definition strip_statement :: "string \<Rightarrow> string" where
  "strip_statement sql = trim_end_matches (CHR '';'') (trim sql)"

definition udf_argument :: "string \<Rightarrow> string option" where
  "udf_argument arg =
     (let token = trim arg in
      if token = [] then None else Some (trim_matches dquote (first_word token)))"

definition parse_create_function :: "string \<Rightarrow> (string, udf_def) result" where
  "parse_create_function sql =
     (let trimmed = trim (strip_statement sql) in
      if \<not> starts_with ''CREATE FUNCTION'' (to_uppercase trimmed)
      then Inl ''Expected CREATE FUNCTION''
      else let rest = trim_start (drop (length ''CREATE FUNCTION'') trimmed) in
      case find_str ''('' rest of
        None \<Rightarrow> Inl ''CREATE FUNCTION requires an argument list''
      | Some open_paren \<Rightarrow>
          let nm = trim_matches dquote (trim (take open_paren rest)) in
          if nm = [] then Inl ''CREATE FUNCTION requires a function name''
          else case find_matching_paren rest open_paren of
            None \<Rightarrow> Inl ''Unclosed function argument list''
          | Some close_paren \<Rightarrow>
              let args = List.map_filter udf_argument
                    (split_top_level_csv (slice rest (open_paren + 1) close_paren));
                  tail = trim (drop (close_paren + 1) rest)
              in case find_ci tail ''RETURNS'' of
                   None \<Rightarrow> Inl ''CREATE FUNCTION requires RETURNS''
                 | Some r \<Rightarrow>
                     let after_returns = trim_start (drop (r + length ''RETURNS'') tail) in
                     case find_ci after_returns '' AS '' of
                       None \<Rightarrow> Inl (''CREATE FUNCTION requires AS '' @ quote # ''body'' @ [quote])
                     | Some a \<Rightarrow>
                         let return_type = trim (take a after_returns);
                             body_raw = trim (drop (a + length '' AS '') after_returns);
                             body = trim (trim_matches dquote (trim_matches quote body_raw))
                         in if body = [] then Inl ''CREATE FUNCTION requires a non-empty body''
                            else Inr \<lparr>uf_name = nm, uf_args = args, uf_return_type = return_type,
                                      uf_body = body\<rparr>)"

definition parse_drop_function :: "string \<Rightarrow> (string, bool \<times> string) result" where
  "parse_drop_function sql =
     (let tokens = split_whitespace (strip_statement sql) in
      if length tokens < 3 then Inl ''DROP FUNCTION requires a name''
      else if \<not> eq_ignore_case (tokens ! 0) ''DROP'' \<or> \<not> eq_ignore_case (tokens ! 1) ''FUNCTION''
      then Inl ''Expected DROP FUNCTION''
      else let (if_exists, name_idx) =
             (if length tokens \<ge> 5 \<and> eq_ignore_case (tokens ! 2) ''IF'' \<and>
                 eq_ignore_case (tokens ! 3) ''EXISTS'' then (True, 4) else (False, 2))
           in Inr (if_exists, trim_matches dquote (tokens ! name_idx)))"

section \<open>Expansion of calls\<close>

text \<open>The arguments are numbered from 1 and replaced one after the other, in the text so far.\<close>

fun replace_numbered :: "nat \<Rightarrow> string list \<Rightarrow> string \<Rightarrow> string" where
  "replace_numbered k [] body = body"
| "replace_numbered k (a # as) body =
     replace_numbered (Suc k) as (replace_str (CHR ''$'' # show_nat k) (trim a) body)"

fun replace_named :: "(string \<times> string) list \<Rightarrow> string \<Rightarrow> string" where
  "replace_named [] body = body"
| "replace_named ((nm, a) # as) body = replace_named as (replace_str nm (trim a) body)"

definition expand_body :: "udf_def \<Rightarrow> string list \<Rightarrow> string" where
  "expand_body d args = replace_named (zip (uf_args d) args) (replace_numbered 1 args (uf_body d))"

text \<open>
  The loop of \<^verbatim>\<open>expand_single_udf_call\<close>: \<open>prev\<close> is the character before the position
  (the test for an identifier that continues to the left), \<open>s\<close> what is left of the text.
\<close>

definition udf_needle :: "udf_def \<Rightarrow> string" where
  "udf_needle d = to_lowercase (uf_name d) @ ''(''"

definition ident_char :: "char \<Rightarrow> bool" where
  "ident_char c \<longleftrightarrow> is_alnum c \<or> c = CHR ''_''"

definition last_char :: "char option \<Rightarrow> string \<Rightarrow> char option" where
  "last_char prev s = (if s = [] then prev else Some (last s))"

lemma find_str_nonempty: "find_str p s = Some k \<Longrightarrow> p \<noteq> [] \<Longrightarrow> k < length s"
  using find_str_Some(1) [of p s k] by (cases p) auto

function expand_from :: "udf_def \<Rightarrow> char option \<Rightarrow> string \<Rightarrow> (string, string) result" where
  "expand_from d prev s =
     (case find_str (udf_needle d) (to_lowercase s) of
        None \<Rightarrow> Inr s
      | Some k \<Rightarrow>
          if (case last_char prev (take k s) of Some c \<Rightarrow> ident_char c | None \<Rightarrow> False)
          then let n = k + length (udf_needle d) in
               (case expand_from d (last_char prev (take n s)) (drop n s) of
                  Inl e \<Rightarrow> Inl e
                | Inr out \<Rightarrow> Inr (take n s @ out))
          else case find_matching_paren s (k + length (uf_name d)) of
                 None \<Rightarrow> Inl ''Unclosed function call''
               | Some cl \<Rightarrow>
                   let args = split_top_level_csv (slice s (k + length (uf_name d) + 1) cl);
                       new = (if length args = length (uf_args d)
                              then ''('' @ expand_body d args @ '')'' else slice s k (cl + 1))
                   in (case expand_from d (last_char prev (take (cl + 1) s)) (drop (cl + 1) s) of
                         Inl e \<Rightarrow> Inl e
                       | Inr out \<Rightarrow> Inr (take k s @ new @ out)))"
  by pat_completeness auto

termination
proof (relation "measure (\<lambda>(d, prev, s). length s)", goal_cases)
  case 1
  then show ?case by simp
next
  case (2 d prev s k n)
  from find_str_nonempty [OF 2(1)] have "k < length s" by (simp add: udf_needle_def)
  with 2 show ?case by (simp add: udf_needle_def)
next
  case (3 d prev s k cl)
  from find_str_nonempty [OF 3(1)] have "k < length s" by (simp add: udf_needle_def)
  with 3 show ?case by simp
qed

declare expand_from.simps [simp del]

definition expand_single_udf_call :: "string \<Rightarrow> udf_def \<Rightarrow> (string, string) result" where
  "expand_single_udf_call sql d = expand_from d None sql"

text \<open>The functions in order of decreasing name length, the iteration order of the map among equals.\<close>

fun expand_all :: "udf_def list \<Rightarrow> string \<Rightarrow> (string, string) result" where
  "expand_all [] sql = Inr sql"
| "expand_all (d # ds) sql =
     (case expand_single_udf_call sql d of Inl e \<Rightarrow> Inl e | Inr out \<Rightarrow> expand_all ds out)"

definition expand_user_defined_functions ::
  "string \<Rightarrow> (string, udf_def) hashmap \<Rightarrow> (string, string) result"
where
  "expand_user_defined_functions sql udfs =
     expand_all (sort_key (\<lambda>d. - int (length (uf_name d))) (hm_values udfs)) sql"

section \<open>Sequence calls\<close>

text \<open>
  The loop of \<^verbatim>\<open>expand_nextval_calls\<close> on the text behind \<^verbatim>\<open>search_from\<close>. Each call
  draws from the catalog at once, so an error leaves the values drawn before it drawn.
\<close>

abbreviation nextval_open :: string where
  "nextval_open \<equiv> ''nextval('' @ [quote]"

abbreviation nextval_close :: string where
  "nextval_close \<equiv> [quote] @ '')''"

function nextval_from :: "string \<Rightarrow> catalog \<Rightarrow> (catalog_error, string) result \<times> catalog" where
  "nextval_from s c =
     (case find_str nextval_open (to_lowercase s) of
        None \<Rightarrow> (Inr s, c)
      | Some start \<Rightarrow>
          let after = drop (start + length nextval_open) s in
          case find_str nextval_close (to_lowercase after) of
            None \<Rightarrow> (Inr s, c)
          | Some e \<Rightarrow>
              case next_sequence_value (take e after) c of
                (Inl err, c') \<Rightarrow> (Inl err, c')
              | (Inr v, c') \<Rightarrow>
                  case nextval_from (drop (e + 2) after) c' of
                    (Inl err, c'') \<Rightarrow> (Inl err, c'')
                  | (Inr out, c'') \<Rightarrow> (Inr (take start s @ show_int v @ out), c''))"
  by pat_completeness auto
termination
proof (relation "measure (\<lambda>(s, c). length s)", goal_cases)
  case 1
  then show ?case by simp
next
  case (2 s c start)
  from find_str_nonempty [OF 2(1)] have "start < length s" by simp
  with 2 show ?case by simp
qed

declare nextval_from.simps [simp del]

definition expand_nextval_calls :: "string \<Rightarrow> catalog \<Rightarrow> (catalog_error, string) result \<times> catalog" where
  "expand_nextval_calls sql c =
     (if \<not> contains_str nextval_open (to_lowercase sql) then (Inr sql, c) else nextval_from sql c)"

end
