(* ===== verification/Sql_Props.thy ===== *)
theory Sql_Props
  imports Sql_Functions
begin

text \<open>
  The properties of the text-level stages every statement goes through: splitting a script,
  parameters of prepared statements, SQL functions and sequence calls.
\<close>

section \<open>Scripts\<close>

text \<open>A statement of a script as it is written: SQL text with comments in between.\<close>

datatype piece = Code string | LineComment string | BlockComment string

fun written :: "piece \<Rightarrow> string" where
  "written (Code s) = s"
| "written (LineComment s) = ''--'' @ s @ [CHR 0x0A]"
| "written (BlockComment s) = ''/*'' @ s @ ''*/''"

text \<open>What belongs to the statement: of a comment, a space.\<close>

fun statement_part :: "piece \<Rightarrow> string" where
  "statement_part (Code s) = s"
| "statement_part _ = '' ''"

abbreviation written_all :: "piece list \<Rightarrow> string" where
  "written_all ps \<equiv> concat (map written ps)"

abbreviation statement_of_pieces :: "piece list \<Rightarrow> string" where
  "statement_of_pieces ps \<equiv> trim (concat (map statement_part ps))"

text \<open>A text between comment brackets that opens and closes no comment itself.\<close>

fun comment_body :: "string \<Rightarrow> bool" where
  "comment_body [] = True"
| "comment_body [c] = (c \<noteq> CHR ''/'')"
| "comment_body (c # e # s) =
     (\<not> (c = CHR ''*'' \<and> e = CHR ''/'') \<and> \<not> (c = CHR ''/'' \<and> e = CHR ''*'') \<and> comment_body (e # s))"

text \<open>
  SQL text has its literals closed and no semicolon outside of a literal in single quotes; no
  comment arises where pieces meet.
\<close>

fun pieces_ok :: "piece list \<Rightarrow> bool" where
  "pieces_ok [] = True"
| "pieces_ok (Code s # ps) \<longleftrightarrow> plain_sql s \<and> joinable s (written_all ps) \<and> pieces_ok ps"
| "pieces_ok (LineComment s # ps) \<longleftrightarrow> CHR 0x0A \<notin> set s \<and> pieces_ok ps"
| "pieces_ok (BlockComment s # ps) \<longleftrightarrow> comment_body s \<and> pieces_ok ps"

lemma line_comment_end: "CHR 0x0A \<notin> set s \<Longrightarrow> line_comment (s @ CHR 0x0A # t) = ('' '', t)"
  by (induction s) auto

lemma block_comment_end: "comment_body s \<Longrightarrow> block_comment (Suc 0) (s @ CHR ''*'' # CHR ''/'' # t) = t"
proof (induction s rule: comment_body.induct)
  case (2 c)
  then show ?case by (cases "c = CHR ''*''") auto
qed auto

lemma joinable_before_semicolon: "joinable s w \<Longrightarrow> joinable s (w @ CHR '';'' # t)"
  by (cases w) (auto simp: joinable_def)

lemma split_pieces:
  "pieces_ok ps \<Longrightarrow>
     split_from acc (written_all ps @ CHR '';'' # t) = split_from (acc @ concat (map statement_part ps)) (CHR '';'' # t)"
proof (induction ps arbitrary: acc rule: pieces_ok.induct)
  case (2 s ps)
  then have "joinable s (written_all ps @ CHR '';'' # t)" by (intro joinable_before_semicolon) simp
  with 2 show ?case using split_plain [of s "written_all ps @ CHR '';'' # t" acc] by simp
next
  case (3 s ps)
  then show ?case using line_comment_end [of s "written_all ps @ CHR '';'' # t"] by (simp del: split_from.simps(1))
next
  case (4 s ps)
  then show ?case using block_comment_end [of s "written_all ps @ CHR '';'' # t"] by simp
qed simp


definition commented_script :: "piece list list" where
  "commented_script =
     [[Code ''SELECT '', BlockComment '' one; two '', Code ([quote] @ ''a;--'' @ [quote, quote] @ ''b'' @ [quote])],
      [LineComment '' the end;'', Code ''COMMIT'']]"


text \<open>A procedure's body between dollar signs is cut at its first semicolon.\<close>

lemma dollar_quoted_body_is_cut:
  "split_sql_statements ''CREATE PROCEDURE p() AS $$ DELETE FROM a; DELETE FROM b; $$;'' =
     [''CREATE PROCEDURE p() AS $$ DELETE FROM a;'', ''DELETE FROM b;'', ''$$;'']"
  by code_simp

text \<open>
  Every statement that \<^verbatim>\<open>split_sql_statements\<close> finds in any text, well-formed or not, is
  a single statement: splitting it again returns it alone and unchanged. So a stored
  procedure or migration body that is split twice runs the same statements.
\<close>

theorem split_statement_is_single:
  assumes "st \<in> set (split_sql_statements sql)"
  shows "split_sql_statements st = [st]"
  using split_from_rescans [of "[]" sql st] assms
  by (simp add: split_sql_statements_def rescans_def)

theorem split_statement_is_single_witness:
  "split_sql_statements (''a '' @ [quote] @ ''x;y'') = [''a '' @ [quote] @ ''x;y'']"
proof -
  have "''a '' @ [quote] @ ''x;y'' \<in> set (split_sql_statements (''a/*;*/'' @ [quote] @ ''x;y''))"
    by (simp add: split_sql_statements_def last_statement_def trim_by_id is_ws_def
        numeral_eq_Suc)
  then show ?thesis by (rule split_statement_is_single)
qed

section \<open>Parameters\<close>

lemma substitute_copy:
  "CHR ''$'' \<notin> set pre \<Longrightarrow>
     substitute_from ps (pre @ s) = concat (map push_latin1 pre) @ substitute_from ps s"
  by (induction pre) (auto simp: substitute_from.simps(2) Let_def)

lemma concat_push_ascii: "\<forall>c \<in> set s. code c < 128 \<Longrightarrow> concat (map push_latin1 s) = s"
  by (induction s) auto

lemma substitute_placeholder:
  assumes "1 \<le> n" and "n \<le> length ps" and "n \<le> u64_max" and "post = [] \<or> \<not> is_digit (hd post)"
  shows "substitute_from ps (CHR ''$'' # show_nat n @ post) = ps ! (n - 1) @ substitute_from ps post"
proof -
  have d: "\<And>c. c \<in> set (show_nat n) \<Longrightarrow> is_digit c" and ne: "show_nat n \<noteq> []"
    using show_nat_digits [of n] by (auto simp: list_all_iff)
  have "takeWhile is_digit (show_nat n @ post) = show_nat n"
    "dropWhile is_digit (show_nat n @ post) = post"
    using d assms(4) by (cases post; simp add: takeWhile_append2 dropWhile_append2)+
  with assms ne show ?thesis
    by (simp add: substitute_from.simps(2) parse_unsigned_show)
qed

text \<open>
  Parameters. In a template, a placeholder \<open>$n\<close> of a supplied parameter, with any number
  of digits, is replaced by that parameter's text as a whole, and the parameter's own text
  is not scanned again: substitution goes on behind the placeholder.
\<close>

theorem placeholder_replaced_once:
  assumes "CHR ''$'' \<notin> set pre" and "\<forall>c \<in> set pre. code c < 128"
    and "1 \<le> n" and "n \<le> length ps" and "n \<le> u64_max" and "post = [] \<or> \<not> is_digit (hd post)"
  shows "substitute_parameters (pre @ CHR ''$'' # show_nat n @ post) ps =
     pre @ ps ! (n - 1) @ substitute_parameters post ps"
proof -
  from assms(3,4) have "ps \<noteq> []" by auto
  then show ?thesis
    using substitute_copy [OF assms(1)] substitute_placeholder [OF assms(3-6)] concat_push_ascii [OF assms(2)]
    by (simp add: substitute_parameters_def)
qed

theorem placeholder_replaced_once_witness:
  "substitute_parameters ''a=$1,$2'' [''$2'', ''7''] = ''a=$2,7''"
proof -
  have one: "show_nat 1 = ''1''" "show_nat 2 = ''2''"
    by code_simp+
  have "substitute_parameters (''a='' @ CHR ''$'' # show_nat 1 @ '','' @ CHR ''$'' # show_nat 2 @ [])
      [''$2'', ''7''] = ''a='' @ ''$2'' @ substitute_parameters ('','' @ CHR ''$'' # show_nat 2 @ []) [''$2'', ''7'']"
    by (subst placeholder_replaced_once) (simp_all add: is_digit_def u64_max_def)
  also have "substitute_parameters ('','' @ CHR ''$'' # show_nat 2 @ []) [''$2'', ''7''] =
      '','' @ ''7'' @ substitute_parameters [] [''$2'', ''7'']"
    by (subst placeholder_replaced_once) (simp_all add: is_digit_def u64_max_def)
  finally show ?thesis by (simp only: one) (simp add: substitute_parameters_def)
qed

lemma length_concat_push: "length (concat (map push_latin1 s)) \<ge> length s"
proof (induction s)
  case (Cons c s)
  with length_push_latin1 [of c] show ?case by simp
qed simp

text \<open>
  Text outside ASCII. A template without any placeholder, executed with at least one
  parameter, is left as it is exactly when it is ASCII: every other byte is pushed as a
  character of its own and becomes two bytes, so the text of the statement changes.
\<close>

theorem non_ascii_template_is_changed:
  assumes "ps \<noteq> []" and "CHR ''$'' \<notin> set tmpl"
  shows "substitute_parameters tmpl ps = tmpl \<longleftrightarrow> (\<forall>c \<in> set tmpl. code c < 128)"
proof -
  have sub: "substitute_parameters tmpl ps = concat (map push_latin1 tmpl)"
    using substitute_copy [OF assms(2), of ps "[]"] assms(1) by (simp add: substitute_parameters_def)
  have "concat (map push_latin1 tmpl) = tmpl \<Longrightarrow> \<forall>c \<in> set tmpl. code c < 128"
  proof (rule ccontr)
    assume eq: "concat (map push_latin1 tmpl) = tmpl" and "\<not> (\<forall>c \<in> set tmpl. code c < 128)"
    then obtain c a b where c: "tmpl = a @ c # b" "128 \<le> code c"
      by (meson linorder_not_less split_list)
    have "length (concat (map push_latin1 tmpl)) \<ge> length a + 2 + length b"
      using length_concat_push [of a] length_concat_push [of b] length_push_latin1 [of c] c by simp
    with eq c show False by simp
  qed
  with sub concat_push_ascii [of tmpl] show ?thesis by auto
qed

theorem non_ascii_template_is_changed_witness:
  "substitute_parameters [CHR 0xC3, CHR 0xA9] [''1''] \<noteq> [CHR 0xC3, CHR 0xA9]"
  using non_ascii_template_is_changed [of "[''1'']" "[CHR 0xC3, CHR 0xA9]"] by simp

section \<open>SQL functions\<close>

lemma last_char_take: "s \<noteq> [] \<Longrightarrow> 0 < n \<Longrightarrow> last_char prev (take n s) = Some (last (take n s))"
  by (simp add: last_char_def)

lemma expand_prev:
  assumes "\<not> ident_char p"
  shows "expand_from d (Some p) s = expand_from d None s"
proof (cases "find_str (udf_needle d) (to_lowercase s)")
  case None
  then show ?thesis by (simp add: expand_from.simps)
next
  case (Some k)
  from find_str_nonempty [OF this] have s: "s \<noteq> []" by (auto simp: udf_needle_def)
  have "udf_needle d \<noteq> []" by (simp add: udf_needle_def)
  then have n: "last_char prev (take (k + length (udf_needle d)) s) = Some (last (take (k + length (udf_needle d)) s))"
    "last_char prev (take (cl + 1) s) = Some (last (take (cl + 1) s))" for prev cl
    by (intro last_char_take [OF s]; simp)+
  have "(case last_char (Some p) (take k s) of None \<Rightarrow> False | Some c \<Rightarrow> ident_char c) =
      (case last_char None (take k s) of None \<Rightarrow> False | Some c \<Rightarrow> ident_char c)"
    using assms by (simp add: last_char_def)
  then show ?thesis
    by (subst (1 2) expand_from.simps) (simp only: Some option.case Let_def n)
qed

text \<open>
  Function calls. The first call of a function in a text, with as many arguments as the
  function has and a name not preceded by an identifier character, is replaced by the body
  with its arguments in parentheses, and the expansion goes on behind the call. The
  arguments may be nested calls, lists in parentheses and literals.
\<close>

theorem function_call_is_expanded:
  assumes "find_str (udf_needle d) (to_lowercase (pre @ nm @ ''('' @ join '','' args @ '')'' @ post)) =
      Some (length pre)"
    and "to_lowercase nm = to_lowercase (uf_name d)"
    and "pre = [] \<or> \<not> ident_char (last pre)"
    and "list_all is_arg args" and "length args = length (uf_args d)"
  shows "expand_single_udf_call (pre @ nm @ ''('' @ join '','' args @ '')'' @ post) d =
     (case expand_single_udf_call post d of
        Inl e \<Rightarrow> Inl e
      | Inr out \<Rightarrow> Inr (pre @ ''('' @ expand_body d args @ '')'' @ out))"
proof -
  let ?s = "pre @ nm @ ''('' @ join '','' args @ '')'' @ post"
  let ?open = "length pre + length (uf_name d)"
  let ?close = "Suc (?open + length (join '','' args))"
  have len: "length nm = length (uf_name d)"
    using assms(2) by (metis length_to_lowercase)
  have close: "find_matching_paren ?s ?open = Some ?close"
    using find_matching_paren_call [OF assms(4), of "pre @ nm" post] len by simp
  have args: "slice ?s (?open + 1) ?close = join '','' args"
    using len by (simp add: slice_def)
  have csv: "split_top_level_csv (join '','' args) = args"
    using csv_join [OF assms(4)] by (simp add: split_top_level_csv_def)
  have rest: "drop (?close + 1) ?s = post" "take (length pre) ?s = pre"
    using len by simp_all
  have last: "last_char None (take (?close + 1) ?s) = Some (CHR '')'')"
    using len by (simp add: last_char_def)
  have "\<not> ident_char (CHR '')'')"
    by (simp add: ident_char_def is_alnum_def is_digit_def is_upper_def is_lower_def)
  from expand_prev [OF this, of d post]
  have prev: "expand_from d (last_char None (take (?close + 1) ?s)) post = expand_single_udf_call post d"
    by (simp only: last expand_single_udf_call_def)
  have guard: "(case last_char None pre of Some c \<Rightarrow> ident_char c | None \<Rightarrow> False) = False"
    using assms(3) by (auto simp: last_char_def)
  have "expand_single_udf_call ?s d =
      (case expand_single_udf_call post d of
         Inl e \<Rightarrow> Inl e
       | Inr out \<Rightarrow> Inr (pre @ (''('' @ expand_body d args @ '')'') @ out))"
    unfolding expand_single_udf_call_def [of ?s]
    by (subst expand_from.simps)
      (simp only: assms(1,5) option.case rest guard if_False if_True close Let_def args csv prev simp_thms)
  then show ?thesis by (simp only: append_assoc)
qed

definition demo_udf :: udf_def where
  "demo_udf = \<lparr>uf_name = ''Add'', uf_args = [''x'', ''y''], uf_return_type = ''INT'', uf_body = ''$1+$2''\<rparr>"

theorem function_call_is_expanded_witness:
  "expand_single_udf_call (''1-'' @ ''add'' @ ''('' @ join '','' [''(1,2)'', ''3''] @ '')'' @ ''-1'') demo_udf =
     Inr ''1-((1,2)+3)-1''"
proof -
  have f: "find_str (udf_needle demo_udf)
      (to_lowercase (''1-'' @ ''add'' @ ''('' @ join '','' [''(1,2)'', ''3''] @ '')'' @ ''-1'')) =
      Some (length ''1-'')"
    by code_simp
  have rest: "expand_single_udf_call ''-1'' demo_udf = Inr ''-1''"
    by code_simp
  have body: "expand_body demo_udf [''(1,2)'', ''3''] = ''(1,2)+3''"
    by code_simp
  have "list_all is_arg [''(1,2)'', ''3'']" "to_lowercase ''add'' = to_lowercase (uf_name demo_udf)"
    "\<not> ident_char (last ''1-'')" "length [''(1,2)'', ''3''] = length (uf_args demo_udf)"
    by code_simp+
  from function_call_is_expanded [OF f this(2) disjI2 [OF this(3)] this(1,4)] show ?thesis
    by (simp only: rest body) simp
qed

section \<open>Sequence calls\<close>

text \<open>
  Sequence calls. The first \<^verbatim>\<open>nextval\<close> call of a statement draws the next value of the
  named sequence from the catalog and is replaced by its digits; the later calls see the
  advanced sequence. An error of a draw is the result, with the earlier draws kept.
\<close>

theorem nextval_draws_in_order:
  assumes "find_str nextval_open (to_lowercase (pre @ kw @ nm @ nextval_close @ post)) = Some (length pre)"
    and "to_lowercase kw = nextval_open"
    and "find_str nextval_close (to_lowercase (nm @ nextval_close @ post)) = Some (length nm)"
  shows "expand_nextval_calls (pre @ kw @ nm @ nextval_close @ post) c =
     (case next_sequence_value nm c of
        (Inl err, c') \<Rightarrow> (Inl err, c')
      | (Inr v, c') \<Rightarrow>
          (case expand_nextval_calls post c' of
             (Inl err, c'') \<Rightarrow> (Inl err, c'')
           | (Inr out, c'') \<Rightarrow> (Inr (pre @ show_int v @ out), c'')))"
proof -
  have len: "length kw = length nextval_open"
    using assms(2) by (metis length_to_lowercase)
  have none: "expand_nextval_calls post c' = nextval_from post c'" for c'
    by (auto simp: expand_nextval_calls_def contains_str_def nextval_from.simps)
  have eq: "expand_nextval_calls (pre @ kw @ nm @ nextval_close @ post) c =
      nextval_from (pre @ kw @ nm @ nextval_close @ post) c"
    using assms(1) by (simp add: expand_nextval_calls_def contains_str_def)
  show ?thesis
    unfolding eq none
    by (subst nextval_from.simps)
      (use assms(1,3) len in \<open>simp split: prod.splits sum.splits\<close>)
qed

definition demo_catalog :: catalog where
  "demo_catalog =
     add_sequence \<lparr>sq_name = ''s'', sq_current = 5, sq_increment = 2, sq_min = None, sq_max = None\<rparr>
       (with_data empty_data ''c'')"

theorem nextval_draws_in_order_witness:
  "fst (expand_nextval_calls (''VALUES ('' @ ''NextVal('' @ [quote] @ ''s'' @ nextval_close @ '')'') demo_catalog) =
     Inr ''VALUES (5)''"
proof -
  let ?kw = "''NextVal('' @ [quote]"
  have f: "find_str nextval_open (to_lowercase (''VALUES ('' @ ?kw @ ''s'' @ nextval_close @ '')'')) =
      Some (length ''VALUES ('')"
    by code_simp
  have k: "to_lowercase ?kw = nextval_open" by code_simp
  have n: "find_str nextval_close (to_lowercase (''s'' @ nextval_close @ '')'')) = Some (length ''s'')"
    by code_simp
  have d: "fst (next_sequence_value ''s'' demo_catalog) = Inr 5" and i: "show_int 5 = ''5''" by code_simp+
  have "contains_str nextval_open (to_lowercase '')'') = False" by code_simp
  then have r: "expand_nextval_calls '')'' c = (Inr '')'', c)" for c
    by (simp add: expand_nextval_calls_def)
  from nextval_draws_in_order [OF f k n, of demo_catalog] d show ?thesis
    by (cases "next_sequence_value ''s'' demo_catalog") (simp add: r i)
qed

end
