(* ===== verification/Arrow_Values.thy ===== *)
theory Arrow_Values
  imports Rust_Text
begin

text \<open>
  The values of Arrow arrays at the granularity at which the engine reads them, with the two
  functions of \<^verbatim>\<open>crates/engine/src/lib.rs\<close> that print a value: as an SQL literal and as
  plain text. A literal determines the value it was printed from.
\<close>

section \<open>Arrow values\<close>

text \<open>
  A cell of an Arrow array by the array types the engine tells apart. Floating-point numbers
  and values of other types carry the text that Rust's formatting gives for them.
\<close>

datatype cell =
    CNull
  | CInt int
  | CFloat string
  | CBool bool
  | CText string
  | CUuid string
  | COther string

record record_batch =
  rb_fields :: "string list"
  rb_rows :: "cell list list"

definition num_rows :: "record_batch \<Rightarrow> nat" where
  "num_rows b = length (rb_rows b)"

definition total_rows :: "record_batch list \<Rightarrow> nat" where
  "total_rows bs = sum_list (map num_rows bs)"

text \<open>\<^verbatim>\<open>batch.column(i)\<close> at a row.\<close>

definition cell_at :: "cell list \<Rightarrow> nat \<Rightarrow> cell" where
  "cell_at row i = row ! i"

definition hex_digit :: "nat \<Rightarrow> char" where
  "hex_digit n = (if n < 10 then char_of (48 + n) else char_of (87 + n))"

definition hex2 :: "char \<Rightarrow> string" where
  "hex2 c = [hex_digit (code c div 16), hex_digit (code c mod 16)]"

definition hex_bytes :: "string \<Rightarrow> string" where
  "hex_bytes s = concat (map hex2 s)"

definition uuid_text :: "string \<Rightarrow> string" where
  "uuid_text b =
     hex_bytes (slice b 0 4) @ ''-'' @ hex_bytes (slice b 4 6) @ ''-'' @ hex_bytes (slice b 6 8) @ ''-'' @
     hex_bytes (slice b 8 10) @ ''-'' @ hex_bytes (slice b 10 16)"

text \<open>\<^verbatim>\<open>s.replace('\'', "''")\<close>.\<close>

definition double_quotes :: "string \<Rightarrow> string" where
  "double_quotes s = concat (map (\<lambda>c. if c = quote then [quote, quote] else [c]) s)"

definition quoted :: "string \<Rightarrow> string" where
  "quoted s = quote # double_quotes s @ [quote]"

fun array_value_to_sql_literal :: "cell \<Rightarrow> string" where
  "array_value_to_sql_literal CNull = ''NULL''"
| "array_value_to_sql_literal (CInt i) = show_int i"
| "array_value_to_sql_literal (CFloat t) = t"
| "array_value_to_sql_literal (CBool b) = (if b then ''TRUE'' else ''FALSE'')"
| "array_value_to_sql_literal (CText s) = quoted s"
| "array_value_to_sql_literal (CUuid b) = quote # uuid_text b @ [quote]"
| "array_value_to_sql_literal (COther dbg) = quoted dbg"

fun array_value_to_string :: "cell \<Rightarrow> string" where
  "array_value_to_string CNull = []"
| "array_value_to_string (CInt i) = show_int i"
| "array_value_to_string (CFloat t) = t"
| "array_value_to_string (CBool b) = (if b then ''true'' else ''false'')"
| "array_value_to_string (CText s) = s"
| "array_value_to_string (CUuid b) = []"
| "array_value_to_string (COther dbg) = []"

text \<open>The sum of the integers of the first column; columns of other types count nothing.\<close>

fun int_value :: "cell \<Rightarrow> int" where
  "int_value (CInt i) = i"
| "int_value _ = 0"

definition scalar_count :: "record_batch list \<Rightarrow> int" where
  "scalar_count bs = sum_list (map (\<lambda>b. sum_list (map (\<lambda>row. int_value (cell_at row 0)) (rb_rows b))) bs)"

section \<open>Literals determine the cells\<close>

text \<open>
  The texts a cell of one column can have: a column has one array type, so two cells of a
  column are of the same kind or null.
\<close>

fun same_kind :: "cell \<Rightarrow> cell \<Rightarrow> bool" where
  "same_kind CNull _ = True"
| "same_kind _ CNull = True"
| "same_kind (CInt _) (CInt _) = True"
| "same_kind (CFloat _) (CFloat _) = True"
| "same_kind (CBool _) (CBool _) = True"
| "same_kind (CText _) (CText _) = True"
| "same_kind (CUuid _) (CUuid _) = True"
| "same_kind (COther _) (COther _) = True"
| "same_kind _ _ = False"

lemma double_quotes_simps [simp]:
  "double_quotes [] = []"
  "double_quotes (c # s) = (if c = quote then quote # quote # double_quotes s else c # double_quotes s)"
  by (simp_all add: double_quotes_def)

lemma double_quotes_inj: "double_quotes a = double_quotes b \<Longrightarrow> a = b"
proof (induction a arbitrary: b)
  case Nil
  then show ?case by (cases b) (auto split: if_splits)
next
  case (Cons c a)
  then show ?case by (cases b) (auto split: if_splits)
qed

lemma quoted_inj: "quoted a = quoted b \<longleftrightarrow> a = b"
  by (auto simp: quoted_def dest: double_quotes_inj)

text \<open>A quoted text is read back from the front of a longer text.\<close>

lemma double_quotes_cut:
  "double_quotes a @ quote # u = double_quotes b @ quote # v \<Longrightarrow>
     u = [] \<or> hd u \<noteq> quote \<Longrightarrow> v = [] \<or> hd v \<noteq> quote \<Longrightarrow> a = b \<and> u = v"
proof (induction a arbitrary: b)
  case Nil
  then show ?case by (cases b) (auto split: if_splits)
next
  case (Cons c a)
  then show ?case by (cases b) (auto split: if_splits)
qed

lemma quoted_cut:
  "quoted a @ u = quoted b @ v \<Longrightarrow> u = [] \<or> hd u \<noteq> quote \<Longrightarrow> v = [] \<or> hd v \<noteq> quote \<Longrightarrow>
     a = b \<and> u = v"
  using double_quotes_cut [of a u b v] by (simp add: quoted_def)

end
