(* ===== verification/Arrow_Wal.thy ===== *)
theory Arrow_Wal
  imports Arrow_Values Hash_Map "HOL-Library.List_Lexorder" "HOL-Library.Char_ord"
begin

text \<open>
  \<^verbatim>\<open>crates/wal/src/arrow_wal.rs\<close>: the log of inserted batches, one numbered file per append
  in one directory per table. The directory is a map from tables to maps from file names to
  files; a file is its bytes and whether \<^verbatim>\<open>sync_data\<close> was called on it. The Arrow IPC
  writer and reader are the parameter \<open>ipc\<close>, the clock is the argument \<open>now\<close>.
\<close>

section \<open>The state\<close>

datatype sync_policy = Always | EveryNAppends nat | EveryInterval nat | Never

record arrow_wal_config =
  ac_policy :: sync_policy
  ac_scratch :: nat

record arrow_file =
  af_bytes :: string
  af_synced :: bool

type_synonym arrow_dirs = "(string, (string, arrow_file) hashmap) hashmap"

record arrow_wal =
  aw_dirs :: arrow_dirs
  aw_seq :: nat
  aw_known :: "string list"
  aw_cfg :: arrow_wal_config
  aw_since_sync :: nat
  aw_last_sync :: nat

record ipc =
  ipc_write :: "record_batch list \<Rightarrow> (string, string) result"
  ipc_read :: "string \<Rightarrow> (string, record_batch list) result"

text \<open>What the log relies on: reading returns the batches written.\<close>

definition ipc_inverts :: "ipc \<Rightarrow> bool" where
  "ipc_inverts ip \<longleftrightarrow> (\<forall>bs b. ipc_write ip bs = Inr b \<longrightarrow> ipc_read ip b = Inr bs)"

definition default_config :: arrow_wal_config where
  "default_config = \<lparr>ac_policy = Always, ac_scratch = 4 * 1024 * 1024\<rparr>"

section \<open>File names\<close>

text \<open>\<^verbatim>\<open>format!("{:06}.arrow", seq)\<close>.\<close>

definition pad6 :: "nat \<Rightarrow> string" where
  "pad6 n = replicate (6 - length (show_nat n)) (CHR ''0'') @ show_nat n"

definition arrow_name :: "nat \<Rightarrow> string" where
  "arrow_name n = pad6 n @ ''.arrow''"

text \<open>\<^verbatim>\<open>Path::file_stem\<close> and \<^verbatim>\<open>Path::extension\<close> of a file name.\<close>

definition file_stem :: "string \<Rightarrow> string" where
  "file_stem s =
     (let r = dropWhile (\<lambda>c. c \<noteq> CHR ''.'') (rev s)
      in if r = [] \<or> tl r = [] then s else rev (tl r))"

definition extension :: "string \<Rightarrow> string option" where
  "extension s =
     (let r = dropWhile (\<lambda>c. c \<noteq> CHR ''.'') (rev s)
      in if r = [] \<or> tl r = [] then None else Some (rev (takeWhile (\<lambda>c. c \<noteq> CHR ''.'') (rev s))))"

section \<open>Operations\<close>

definition max_existing_seq :: "arrow_dirs \<Rightarrow> nat option" where
  "max_existing_seq ds =
     (case List.map_filter (\<lambda>(nm, f). parse_u64 (file_stem nm)) (concat (hm_values ds)) of
        [] \<Rightarrow> None
      | n # ns \<Rightarrow> Some (fold max ns n))"

definition open_with_config :: "arrow_dirs \<Rightarrow> arrow_wal_config \<Rightarrow> nat \<Rightarrow> arrow_wal" where
  "open_with_config ds cfg now =
     \<lparr>aw_dirs = ds, aw_seq = (case max_existing_seq ds of Some n \<Rightarrow> n | None \<Rightarrow> 0), aw_known = [],
      aw_cfg = cfg, aw_since_sync = 0, aw_last_sync = now\<rparr>"

definition should_sync :: "sync_policy \<Rightarrow> nat \<Rightarrow> nat \<Rightarrow> bool" where
  "should_sync pol since elapsed =
     (case pol of
        Always \<Rightarrow> True
      | EveryNAppends n \<Rightarrow> n > 0 \<and> since mod n = 0
      | EveryInterval d \<Rightarrow> d = 0 \<or> elapsed \<ge> d
      | Never \<Rightarrow> False)"

text \<open>
  A failed encoding leaves the sequence number and the directory advanced; the synced flag
  is set on the file of this append only.
\<close>

definition awal_append ::
  "ipc \<Rightarrow> string \<Rightarrow> record_batch list \<Rightarrow> nat \<Rightarrow> arrow_wal \<Rightarrow> (string, unit) result \<times> arrow_wal"
where
  "awal_append ip tbl batches now w =
     (if batches = [] then (Inr (), w)
      else
        let w1 = (if tbl \<in> set (aw_known w) then w
                  else w\<lparr>aw_known := tbl # aw_known w, aw_dirs := hm_or_insert tbl [] (aw_dirs w)\<rparr>);
            w2 = w1\<lparr>aw_seq := aw_seq w1 + 1\<rparr>
        in case ipc_write ip batches of
             Inl err \<Rightarrow> (Inl err, w2)
           | Inr bytes \<Rightarrow>
               (if \<not> hm_contains (aw_dirs w2) tbl then (Inl ''No such file or directory'', w2)
                else
                  let since = u64_saturating_add (aw_since_sync w2) 1;
                      sync = should_sync (ac_policy (aw_cfg w2)) since (now - aw_last_sync w2);
                      f = \<lparr>af_bytes = bytes, af_synced = sync\<rparr>;
                      w3 = w2\<lparr>aw_dirs := hm_modify tbl (hm_insert (arrow_name (aw_seq w2)) f) (aw_dirs w2),
                              aw_since_sync := since\<rparr>
                  in (Inr (), if sync then w3\<lparr>aw_last_sync := now, aw_since_sync := 0\<rparr> else w3)))"

text \<open>Reading the files of a table stops at the first that is not a readable IPC file.\<close>

fun read_files :: "ipc \<Rightarrow> (string \<times> arrow_file) list \<Rightarrow> (string, record_batch list) result" where
  "read_files ip [] = Inr []"
| "read_files ip ((nm, f) # fs) =
     (case ipc_read ip (af_bytes f) of
        Inl err \<Rightarrow> Inl (''Arrow IPC read '' @ nm @ '': '' @ err)
      | Inr bs \<Rightarrow> (case read_files ip fs of Inl err \<Rightarrow> Inl err | Inr cs \<Rightarrow> Inr (bs @ cs)))"

definition arrow_files :: "(string, arrow_file) hashmap \<Rightarrow> (string \<times> arrow_file) list" where
  "arrow_files fs = sort_key fst (filter (\<lambda>(nm, f). extension nm = Some ''arrow'') fs)"

fun read_tables ::
  "ipc \<Rightarrow> (string \<times> (string, arrow_file) hashmap) list \<Rightarrow>
     (string, (string, record_batch list) hashmap) result"
where
  "read_tables ip [] = Inr []"
| "read_tables ip ((tbl, fs) # ts) =
     (case read_files ip (arrow_files fs) of
        Inl err \<Rightarrow> Inl err
      | Inr bs \<Rightarrow> (case read_tables ip ts of Inl err \<Rightarrow> Inl err | Inr m \<Rightarrow> Inr ((tbl, bs) # m)))"

definition awal_recover :: "ipc \<Rightarrow> arrow_dirs \<Rightarrow> (string, (string, record_batch list) hashmap) result" where
  "awal_recover ip ds = read_tables ip (sort_key fst ds)"

definition checkpoint_table :: "string \<Rightarrow> arrow_wal \<Rightarrow> arrow_wal" where
  "checkpoint_table tbl w =
     w\<lparr>aw_dirs := hm_remove tbl (aw_dirs w), aw_known := removeAll tbl (aw_known w)\<rparr>"

definition checkpoint_all :: "arrow_wal \<Rightarrow> arrow_wal" where
  "checkpoint_all w = w\<lparr>aw_dirs := [], aw_known := []\<rparr>"

text \<open>A crash keeps the synced files; of another file a prefix is left, or nothing.\<close>

definition crash_file :: "arrow_file \<Rightarrow> arrow_file option \<Rightarrow> bool" where
  "crash_file f g \<longleftrightarrow>
     (if af_synced f then g = Some f
      else case g of None \<Rightarrow> True | Some f' \<Rightarrow> prefix (af_bytes f') (af_bytes f))"

section \<open>Names in order\<close>

lemma digits_val_Cons:
  "digits_val (c # s) = digit_val c * 10 ^ length s + digits_val s"
proof (induction s rule: rev_induct)
  case (snoc d s)
  have "digits_val (c # s @ [d]) = 10 * digits_val (c # s) + digit_val d"
    using digits_val_snoc [of "c # s" d] by simp
  with snoc show ?case by (simp add: algebra_simps)
qed (simp add: digits_val_def)

lemma digits_val_less: "list_all is_digit s \<Longrightarrow> digits_val s < 10 ^ length s"
proof (induction s)
  case (Cons c s)
  then have "digit_val c \<le> 9" by (auto simp: digit_val_def is_digit_def)
  then have "digit_val c * 10 ^ length s \<le> 9 * 10 ^ length s" by (rule mult_le_mono1)
  moreover have "digits_val s < 10 ^ length s" using Cons by simp
  ultimately have "digit_val c * 10 ^ length s + digits_val s < 10 * 10 ^ length s" by linarith
  then show ?case by (simp add: digits_val_Cons)
qed (simp add: digits_val_def)

lemma digit_char_order:
  "is_digit c \<Longrightarrow> is_digit d \<Longrightarrow> c < d \<longleftrightarrow> digit_val c < digit_val d"
  by (auto simp: less_char_def digit_val_def is_digit_def)

lemma digit_val_inj: "is_digit c \<Longrightarrow> is_digit d \<Longrightarrow> digit_val c = digit_val d \<Longrightarrow> c = d"
  using digit_char_order [of c d] digit_char_order [of d c] by (cases c d rule: linorder_cases) auto

text \<open>Texts of digits of one length are ordered as their numbers.\<close>

lemma digits_order:
  "length s = length t \<Longrightarrow> list_all is_digit s \<Longrightarrow> list_all is_digit t \<Longrightarrow>
     digits_val s < digits_val t \<Longrightarrow> s < t"
proof (induction s t rule: list_induct2)
  case (Cons c s d t)
  consider "digit_val c < digit_val d" | "c = d" | "digit_val d < digit_val c"
    using digit_val_inj [of c d] Cons.prems(1,2) by fastforce
  then show ?case
  proof cases
    case 1
    with Cons.prems show ?thesis by (simp add: digit_char_order)
  next
    case 2
    with Cons show ?thesis by (simp add: digits_val_Cons)
  next
    case 3
    then have "Suc (digit_val d) * 10 ^ length t \<le> digit_val c * 10 ^ length t"
      by (intro mult_le_mono1) simp
    with Cons.prems(2,3) digits_val_less [of t] Cons.hyps show ?thesis by (simp add: digits_val_Cons)
  qed
qed (simp add: digits_val_def)

lemma append_order: "length s = length t \<Longrightarrow> s < t \<Longrightarrow> s @ u < t @ (u :: string)"
  by (induction s t rule: list_induct2) auto

lemma length_show_nat: "n < 10 ^ Suc k \<Longrightarrow> length (show_nat n) \<le> Suc k"
proof (induction k arbitrary: n)
  case 0
  then show ?case by (subst show_nat.simps) simp
next
  case (Suc k)
  show ?case
  proof (cases "n < 10")
    case True
    then show ?thesis by (subst show_nat.simps) simp
  next
    case False
    from Suc.prems have "n div 10 < 10 ^ Suc k" by simp
    from Suc.IH [OF this] False show ?thesis by (subst show_nat.simps) simp
  qed
qed

lemma digits_val_zeros: "digits_val (replicate k (CHR ''0'') @ s) = digits_val s"
  by (induction k) (simp_all add: digits_val_Cons digit_val_def)

lemma pad6_digits: "list_all is_digit (pad6 n) \<and> digits_val (pad6 n) = n \<and> pad6 n \<noteq> []"
  using show_nat_digits [of n]
  by (auto simp: pad6_def digits_val_zeros list_all_iff is_digit_def)

lemma length_pad6: "n < 10 ^ 6 \<Longrightarrow> length (pad6 n) = 6"
  using length_show_nat [of n 5] by (simp add: pad6_def)

lemma arrow_name_order:
  assumes "m < n" and "n < 10 ^ 6"
  shows "arrow_name m < arrow_name n"
  unfolding arrow_name_def
  by (intro append_order digits_order) (use assms pad6_digits length_pad6 in auto)

lemma arrow_name_parts:
  "file_stem (arrow_name n) = pad6 n" "extension (arrow_name n) = Some ''arrow''"
  using pad6_digits [of n]
  by (simp_all add: file_stem_def extension_def arrow_name_def Let_def)

end
