(* ===== verification/Engine.thy ===== *)
theory Engine
  imports Sql_Functions Wal Arrow_Wal
begin

text \<open>
  The state of \<^verbatim>\<open>PotatoDB\<close> (\<^verbatim>\<open>crates/engine/src/lib.rs\<close>) as a record with the fields
  of the source that the modelled handlers read or write and the structures it holds.

  An \<^verbatim>\<open>Instant\<close> and a \<^verbatim>\<open>Duration\<close> are numbers of nanoseconds.
\<close>

section \<open>The engine's structures\<close>

datatype query_result = Records "record_batch list" | Message string

text \<open>A prepared statement; its plan, when there is one, is the plan of its template.\<close>

record prepared_statement =
  pr_template :: string
  pr_planned :: bool

record query_log_entry =
  ql_sql :: string
  ql_duration :: nat
  ql_rows :: nat

record cdc_event =
  ev_table :: string
  ev_op :: string
  ev_timestamp_ms :: int
  ev_rows :: nat

record fulltext_index_def =
  ft_table :: string
  ft_columns :: "string list"

text \<open>The postings of the inverted index: token to documents (table, row).\<close>

type_synonym inverted_index = "(string, (string \<times> nat) list) hashmap"

record db_snapshot =
  ss_timestamp_ms :: int
  ss_tables :: "(string, record_batch list) hashmap"

record savepoint =
  sp_name :: string
  sp_catalog :: catalog_snapshot
  sp_files :: "(string, string list) hashmap"
  sp_backups :: "(string, record_batch list) hashmap"

record transaction =
  tx_catalog :: catalog_snapshot
  tx_files :: "(string, string list) hashmap"
  tx_deferred :: "table_meta list"
  tx_wal_id :: nat
  tx_backups :: "(string, record_batch list) hashmap"
  tx_savepoints :: "savepoint list"

record buffered_insert =
  bi_columns :: "string list option"
  bi_batches :: "record_batch list"
  bi_rows :: nat
  bi_bytes :: nat
  bi_first_at :: nat

datatype data_location = LocalDisk | S3 | InMemory

record engine =
  en_catalog :: catalog
  en_location :: data_location
  en_prefix :: string
  en_txn :: "transaction option"
  en_wal :: "wal option"
  en_arrow_wal :: "arrow_wal option"
  en_txn_counter :: nat
  en_replaying :: bool
  en_query_log :: "query_log_entry list"
  en_max_query_log :: nat
  en_ckpt_bytes :: nat
  en_ckpt_commits :: nat
  en_ckpt_interval :: nat
  en_commits_since :: nat
  en_last_ckpt :: nat
  en_buffer :: "(string, buffered_insert) hashmap"
  en_buffer_rows :: nat
  en_buffer_bytes :: nat
  en_buffer_age :: nat
  en_temp_counter :: nat
  en_rows_since_analyze :: "(string, nat) hashmap"
  en_analyze_rows :: nat
  en_pending_analyze :: "string list"
  en_procedures :: "(string, string) hashmap"
  en_fulltext :: "(string, fulltext_index_def) hashmap"
  en_inverted :: "(string, inverted_index) hashmap"
  en_queues :: "(string, string list) hashmap"
  en_cdc_log :: "cdc_event list"
  en_cdc_capacity :: nat
  en_user :: string
  en_snapshots :: "db_snapshot list"
  en_retention_ms :: int
  en_snapshots_on :: bool
  en_replicas :: "string list"
  en_uniqueness :: "(string, string list) hashmap"
  en_compact_files :: nat
  en_plan_cache :: "string list"
  en_plan_hits :: nat
  en_data_url :: string
  en_prepared :: "(string, prepared_statement) hashmap"

definition in_txn :: "engine \<Rightarrow> bool" where
  "in_txn e \<longleftrightarrow> en_txn e \<noteq> None"

definition is_local_disk :: "engine \<Rightarrow> bool" where
  "is_local_disk e \<longleftrightarrow> en_location e = LocalDisk"

abbreviation with_catalog :: "catalog \<Rightarrow> engine \<Rightarrow> engine" where
  "with_catalog c e \<equiv> e\<lparr>en_catalog := c\<rparr>"

section \<open>A new engine\<close>

text \<open>
  The settings that \<^verbatim>\<open>PotatoDB::new\<close> reads from the environment (the parameter \<open>env\<close>), the
  administrator it creates in a catalog without users, and the state before recovery.
\<close>

definition env_u64 :: "(string \<Rightarrow> string option) \<Rightarrow> string \<Rightarrow> nat \<Rightarrow> nat" where
  "env_u64 env nm dflt =
     (case env nm of None \<Rightarrow> dflt | Some v \<Rightarrow> (case parse_u64 v of None \<Rightarrow> dflt | Some n \<Rightarrow> n))"

definition env_i64 :: "(string \<Rightarrow> string option) \<Rightarrow> string \<Rightarrow> int \<Rightarrow> int" where
  "env_i64 env nm dflt =
     (case env nm of None \<Rightarrow> dflt | Some v \<Rightarrow> (case parse_i64 v of None \<Rightarrow> dflt | Some n \<Rightarrow> n))"

definition bootstrap_users :: "string \<Rightarrow> catalog \<Rightarrow> catalog" where
  "bootstrap_users user c =
     (if cat_users c = []
      then c\<lparr>cat_users := hm_insert user \<lparr>us_name = user, us_password = []\<rparr> (cat_users c),
             cat_roles := hm_insert ''admin''
               \<lparr>rl_name = ''admin'', rl_privileges = [\<lparr>pv_kind = ''ALL'', pv_table = None\<rparr>]\<rparr> (cat_roles c),
             cat_user_roles := hm_insert user [''admin''] (cat_user_roles c)\<rparr>
      else c)"

definition engine_new ::
  "(string \<Rightarrow> string option) \<Rightarrow> nat \<Rightarrow> data_location \<Rightarrow> string \<Rightarrow> string \<Rightarrow> wal option \<Rightarrow> arrow_wal option \<Rightarrow>
     catalog \<Rightarrow> engine"
where
  "engine_new env now loc url pre wal awal c =
     (let user = (case env ''POTATODB_USER'' of Some u \<Rightarrow> u | None \<Rightarrow> ''potatodb'') in
      \<lparr>en_catalog = bootstrap_users user c,
       en_location = loc,
       en_prefix = pre,
       en_txn = None,
       en_wal = wal,
       en_arrow_wal = awal,
       en_txn_counter = 1,
       en_replaying = False,
       en_query_log = [],
       en_max_query_log = env_u64 env ''POTATODB_QUERY_LOG_MAX'' 200,
       en_ckpt_bytes = env_u64 env ''POTATODB_WAL_CHECKPOINT_BYTES'' (4 * 1024 * 1024 * 1024),
       en_ckpt_commits = env_u64 env ''POTATODB_WAL_CHECKPOINT_COMMITS'' 0,
       en_ckpt_interval = 1000000 * env_u64 env ''POTATODB_WAL_CHECKPOINT_MS'' 0,
       en_commits_since = 0,
       en_last_ckpt = now,
       en_buffer = [],
       en_buffer_rows = env_u64 env ''POTATODB_WRITE_BUFFER_ROWS'' 10000,
       en_buffer_bytes = env_u64 env ''POTATODB_WRITE_BUFFER_BYTES'' (64 * 1024 * 1024),
       en_buffer_age = 1000000 * env_u64 env ''POTATODB_WRITE_BUFFER_MS'' 360000,
       en_temp_counter = 0,
       en_rows_since_analyze = [],
       en_analyze_rows = env_u64 env ''POTATODB_AUTO_ANALYZE_ROWS'' 10000,
       en_pending_analyze = [],
       en_procedures = [],
       en_fulltext = [],
       en_inverted = [],
       en_queues = [],
       en_cdc_log = [],
       en_cdc_capacity = env_u64 env ''POTATODB_CDC_CAPACITY'' 2000,
       en_user = user,
       en_snapshots = [],
       en_retention_ms = env_i64 env ''POTATODB_SNAPSHOT_RETENTION_MS'' (24 * 60 * 60 * 1000),
       en_snapshots_on = False,
       en_replicas = [],
       en_uniqueness = [],
       en_compact_files = 64,
       en_plan_cache = [],
       en_plan_hits = 0,
       en_data_url = url,
       en_prepared = []\<rparr>)"

end
