(* ===== verification/Statements.thy ===== *)
theory Statements
  imports Rust_Text
begin

text \<open>
  Parsed statements, as the handlers of \<^verbatim>\<open>crates/engine/src/lib.rs\<close> read them. The trees are
  those of the sqlparser crate, which is not under \<^verbatim>\<open>src/\<close>: of each node the model has the
  parts the handlers look at, with the text the crate prints for the parts the handlers only
  print (\<open>*_text\<close>, expressions, queries, types). Parsing is a parameter.
\<close>

section \<open>Tables and constraints\<close>

record column_ast =
  ca_name :: string
  ca_type :: string
  ca_not_null :: bool

datatype constraint_ast =
    AstPrimaryKey "string list"
  | AstUnique "string option" "string list"
  | AstCheck "string option" string
  | AstForeignKey "string option" "string list" string "string list" "string option" "string option"
  | AstOtherConstraint

record create_table_ast =
  ct_text :: string
  ct_name :: string
  ct_if_not_exists :: bool
  ct_partition_by :: "string option"
  ct_query :: "string option"
  ct_columns :: "column_ast list"
  ct_constraints :: "constraint_ast list"

text \<open>A column of CREATE INDEX with its ASC or DESC.\<close>

record create_index_ast =
  ci_text :: string
  ci_name :: "string option"
  ci_table :: string
  ci_columns :: "(string \<times> bool option) list"
  ci_if_not_exists :: bool

datatype sequence_option =
    StartWith string
  | IncrementBy string
  | MinValue "string option"
  | MaxValue "string option"
  | OtherSequenceOption

datatype alter_operation =
    AddColumn column_ast bool
  | DropColumn "string list" bool
  | RenameColumn string string
  | OtherOperation string

section \<open>Changing rows\<close>

datatype assignment_target = ColumnTarget string | TupleTarget "string list"

record assignment =
  as_target :: assignment_target
  as_target_text :: string
  as_value :: string

record delete_ast =
  dl_text :: string
  dl_from :: "string option"
  dl_selection :: "string option"

datatype conflict_target = ConflictColumns "string list" | OnConstraint string

datatype conflict_action = DoNothing | DoUpdate "assignment list" "string option"

record on_conflict =
  oc_target :: "conflict_target option"
  oc_action :: conflict_action

datatype on_insert = OnConflict on_conflict | OnOther

record insert_ast =
  is_text :: string
  is_table :: string
  is_columns :: "string list"
  is_source :: "string option"
  is_on :: "on_insert option"

text \<open>A table of MERGE: its name or its subquery, with the alias; anything else by its text.\<close>

datatype table_factor =
    TableFactor string "string option"
  | DerivedFactor string "string option"
  | OtherFactor string

datatype merge_kind = Matched | NotMatched | NotMatchedByTarget | NotMatchedBySource

datatype merge_action =
    MergeUpdate "assignment list"
  | MergeDelete
  | MergeInsert "string list" "string list list option"

record merge_clause =
  mc_kind :: merge_kind
  mc_predicate :: "string option"
  mc_action :: merge_action

section \<open>Statements\<close>

datatype object_kind = TableObject | IndexObject | ViewObject | SequenceObject | OtherObject

datatype stmt =
    StartTransaction
  | Commit
  | Rollback
  | CreateTable create_table_ast
  | CreateIndex create_index_ast
  | CreateSequence string bool "sequence_option list"
  | DropObject object_kind "string list" bool
  | Delete delete_ast
  | Update string "assignment list" "string option"
  | Insert insert_ast
  | Merge table_factor table_factor string "merge_clause list"
  | AlterTable string "alter_operation list" bool
  | CreateView string string bool bool
  | Prepare string string
  | Execute "string option" "string list"
  | Copy
  | Explain
  | Analyze string
  | Vacuum "string option"
  | Query string
  | Truncate "string list"
  | OtherStatement

text \<open>\<^verbatim>\<open>extract_mutated_table\<close>.\<close>

fun extract_mutated_table :: "stmt \<Rightarrow> string option" where
  "extract_mutated_table (Insert i) = Some (is_table i)"
| "extract_mutated_table (Update tbl _ _) = Some tbl"
| "extract_mutated_table (Merge (TableFactor nm _) _ _ _) = Some (trim_matches dquote nm)"
| "extract_mutated_table (Merge (DerivedFactor txt _) _ _ _) = Some txt"
| "extract_mutated_table (Merge (OtherFactor txt) _ _ _) = Some txt"
| "extract_mutated_table (Delete d) = dl_from d"
| "extract_mutated_table (DropObject _ nms _) = (case nms of [] \<Rightarrow> None | nm # _ \<Rightarrow> Some nm)"
| "extract_mutated_table (Truncate nms) = (case nms of [] \<Rightarrow> None | nm # _ \<Rightarrow> Some nm)"
| "extract_mutated_table (AlterTable nm _ _) = Some nm"
| "extract_mutated_table _ = None"

text \<open>The statements that evict cached plans and end an autocommit, and those that force a checkpoint.\<close>

fun dropped_with_data :: "object_kind \<Rightarrow> bool" where
  "dropped_with_data OtherObject = False"
| "dropped_with_data _ = True"

fun is_mutating :: "stmt \<Rightarrow> bool" where
  "is_mutating (CreateTable _) = True"
| "is_mutating (CreateIndex _) = True"
| "is_mutating (CreateSequence _ _ _) = True"
| "is_mutating (Insert _) = True"
| "is_mutating (Delete _) = True"
| "is_mutating (Update _ _ _) = True"
| "is_mutating (Merge _ _ _ _) = True"
| "is_mutating (AlterTable _ _ _) = True"
| "is_mutating (CreateView _ _ _ _) = True"
| "is_mutating (DropObject k _ _) = dropped_with_data k"
| "is_mutating Copy = True"
| "is_mutating _ = False"

fun forces_checkpoint :: "stmt \<Rightarrow> bool" where
  "forces_checkpoint (CreateTable _) = True"
| "forces_checkpoint (CreateIndex _) = True"
| "forces_checkpoint (CreateSequence _ _ _) = True"
| "forces_checkpoint (Merge _ _ _ _) = True"
| "forces_checkpoint (AlterTable _ _ _) = True"
| "forces_checkpoint (CreateView _ _ _ _) = True"
| "forces_checkpoint (DropObject k _ _) = dropped_with_data k"
| "forces_checkpoint _ = False"

text \<open>The parser, and what else of sqlparser the engine asks for.\<close>

type_synonym sql_parser = "string \<Rightarrow> (string, stmt list) result"

end
