(* ===== verification/Query_Trees.thy ===== *)
theory Query_Trees
  imports Rust_Text
begin

text \<open>
  The two functions of \<^verbatim>\<open>crates/engine/src/lib.rs\<close> that walk sqlparser's trees of queries:
  \<^verbatim>\<open>extract_table_names_from_readonly_sql\<close> and \<^verbatim>\<open>rewrite_date_subtraction_sql\<close>. The crate is not
  under \<^verbatim>\<open>src/\<close>: of each node the model has the parts the functions look at, and one text for
  all that they pass over or keep. Parsing and printing are parameters.
\<close>

section \<open>Trees\<close>

datatype binary_operator = OpMinus | OpDivide | OpOther string

datatype literal = QuotedText string | Numeral string

text \<open>The arguments of a function that are not a plain list are among \<open>ExOther\<close>, with the function.\<close>

datatype sql_expr =
    ExNested sql_expr
  | ExUnary string sql_expr
  | ExBinary sql_expr binary_operator sql_expr
  | ExCast string sql_expr string
  | ExCase "sql_expr option" "(sql_expr \<times> sql_expr) list" "sql_expr option"
  | ExBetween bool sql_expr sql_expr sql_expr
  | ExFunction string string "function_arg list"
  | ExSubquery query_tree
  | ExLiteral literal
  | ExOther string
and function_arg =
    ArgUnnamed sql_expr
  | ArgNamed string sql_expr
  | ArgOther string
and query_tree = QueryTree "(string \<times> query_tree) list" set_expr string
and set_expr =
    SetSelect "select_item list" "from_item list" string
  | SetQuery query_tree
  | SetOperation string set_expr set_expr
  | SetOther string
and select_item =
    ItemUnnamed sql_expr
  | ItemAlias sql_expr string
  | ItemOther string
and from_item = FromItem from_factor "(string \<times> from_factor) list"
and from_factor =
    FactorTable string string
  | FactorDerived query_tree string
  | FactorJoin from_item string
  | FactorWrapped from_factor string
  | FactorOther string

datatype tree_statement =
    TreeQuery query_tree
  | TreeExplain string tree_statement
  | TreeOther string

section \<open>The tables of a query\<close>

fun tables_of_query :: "query_tree \<Rightarrow> string list"
  and tables_of_set :: "set_expr \<Rightarrow> string list"
  and tables_of_item :: "from_item \<Rightarrow> string list"
  and tables_of_factor :: "from_factor \<Rightarrow> string list"
where
  "tables_of_query (QueryTree ctes body rest) = tables_of_set body"
| "tables_of_set (SetSelect items froms rest) = concat (map tables_of_item froms)"
| "tables_of_set (SetQuery q) = tables_of_query q"
| "tables_of_set (SetOperation kind l r) = tables_of_set l @ tables_of_set r"
| "tables_of_set (SetOther txt) = []"
| "tables_of_item (FromItem fac joins) =
     tables_of_factor fac @ concat (map (\<lambda>(txt, joined). tables_of_factor joined) joins)"
| "tables_of_factor (FactorTable nm rest) = [trim_matches dquote nm]"
| "tables_of_factor (FactorDerived q rest) = tables_of_query q"
| "tables_of_factor (FactorJoin it rest) = tables_of_item it"
| "tables_of_factor (FactorWrapped fac rest) = tables_of_factor fac"
| "tables_of_factor (FactorOther txt) = []"

definition readonly_query :: "tree_statement list \<Rightarrow> query_tree option" where
  "readonly_query sts =
     (case sts of
        TreeQuery q # _ \<Rightarrow> Some q
      | TreeExplain _ (TreeQuery q) # _ \<Rightarrow> Some q
      | _ \<Rightarrow> None)"

definition extract_table_names_from_readonly_sql :: "(string \<Rightarrow> tree_statement list option) \<Rightarrow> string \<Rightarrow> string list" where
  "extract_table_names_from_readonly_sql parse sql =
     (case parse sql of
        None \<Rightarrow> []
      | Some sts \<Rightarrow> (case readonly_query sts of None \<Rightarrow> [] | Some q \<Rightarrow> tables_of_query q))"

section \<open>Differences of dates\<close>

text \<open>\<^verbatim>\<open>CAST((date_part('epoch', (a - b)) / 86400) AS BIGINT)\<close>, without OVER, FILTER and the like.\<close>

definition days_of :: "sql_expr \<Rightarrow> sql_expr" where
  "days_of e =
     ExCast ''BIGINT''
       (ExNested (ExBinary
          (ExFunction ''date_part'' [] [ArgUnnamed (ExLiteral (QuotedText ''epoch'')), ArgUnnamed (ExNested e)])
          OpDivide (ExLiteral (Numeral ''86400''))))
       []"

fun rewrite_expr :: "sql_expr \<Rightarrow> sql_expr"
  and rewrite_arg :: "function_arg \<Rightarrow> function_arg"
  and rewrite_query :: "query_tree \<Rightarrow> query_tree"
  and rewrite_set :: "set_expr \<Rightarrow> set_expr"
  and rewrite_select_item :: "select_item \<Rightarrow> select_item"
where
  "rewrite_expr (ExBinary l op r) =
     (if op = OpMinus then days_of (ExBinary l op r) else ExBinary (rewrite_expr l) op (rewrite_expr r))"
| "rewrite_expr (ExNested e) = ExNested (rewrite_expr e)"
| "rewrite_expr (ExUnary op e) = ExUnary op (rewrite_expr e)"
| "rewrite_expr (ExCast ty e rest) = ExCast ty (rewrite_expr e) rest"
| "rewrite_expr (ExCase operand whens els) =
     ExCase (map_option rewrite_expr operand)
       (map (\<lambda>(c, v). (rewrite_expr c, rewrite_expr v)) whens) (map_option rewrite_expr els)"
| "rewrite_expr (ExBetween neg e lo hi) =
     ExBetween neg (rewrite_expr e) (rewrite_expr lo) (rewrite_expr hi)"
| "rewrite_expr (ExFunction nm rest args) = ExFunction nm rest (map rewrite_arg args)"
| "rewrite_expr (ExSubquery q) = ExSubquery (rewrite_query q)"
| "rewrite_expr (ExLiteral x) = ExLiteral x"
| "rewrite_expr (ExOther txt) = ExOther txt"
| "rewrite_arg (ArgUnnamed e) = ArgUnnamed (rewrite_expr e)"
| "rewrite_arg (ArgNamed nm e) = ArgNamed nm (rewrite_expr e)"
| "rewrite_arg (ArgOther txt) = ArgOther txt"
| "rewrite_query (QueryTree ctes body rest) =
     QueryTree (map (\<lambda>(nm, q). (nm, rewrite_query q)) ctes) (rewrite_set body) rest"
| "rewrite_set (SetSelect items froms rest) = SetSelect (map rewrite_select_item items) froms rest"
| "rewrite_set (SetQuery q) = SetQuery (rewrite_query q)"
| "rewrite_set (SetOperation kind l r) = SetOperation kind (rewrite_set l) (rewrite_set r)"
| "rewrite_set (SetOther txt) = SetOther txt"
| "rewrite_select_item (ItemUnnamed e) = ItemUnnamed (rewrite_expr e)"
| "rewrite_select_item (ItemAlias e nm) = ItemAlias (rewrite_expr e) nm"
| "rewrite_select_item (ItemOther txt) = ItemOther txt"

text \<open>The text of the first statement after the rewriting; an EXPLAIN of something else is kept.\<close>

definition rewrite_tree :: "tree_statement \<Rightarrow> tree_statement option" where
  "rewrite_tree st =
     (case st of
        TreeQuery q \<Rightarrow> Some (TreeQuery (rewrite_query q))
      | TreeExplain txt (TreeQuery q) \<Rightarrow> Some (TreeExplain txt (TreeQuery (rewrite_query q)))
      | TreeExplain txt st' \<Rightarrow> Some (TreeExplain txt st')
      | TreeOther txt \<Rightarrow> None)"

definition rewrite_date_subtraction_sql ::
  "(string \<Rightarrow> tree_statement list option) \<Rightarrow> (tree_statement \<Rightarrow> string) \<Rightarrow> string \<Rightarrow> string option"
where
  "rewrite_date_subtraction_sql parse print sql =
     (case parse sql of
        Some (st # _) \<Rightarrow> map_option print (rewrite_tree st)
      | _ \<Rightarrow> None)"


section \<open>What the rewriting changes\<close>

text \<open>A query subtracts when the rewriting meets a subtraction in it.\<close>

fun subtracts :: "sql_expr \<Rightarrow> bool"
  and subtracts_arg :: "function_arg \<Rightarrow> bool"
  and subtracts_query :: "query_tree \<Rightarrow> bool"
  and subtracts_set :: "set_expr \<Rightarrow> bool"
  and subtracts_item :: "select_item \<Rightarrow> bool"
where
  "subtracts (ExBinary l op r) \<longleftrightarrow> op = OpMinus \<or> subtracts l \<or> subtracts r"
| "subtracts (ExNested e) \<longleftrightarrow> subtracts e"
| "subtracts (ExUnary op e) \<longleftrightarrow> subtracts e"
| "subtracts (ExCast ty e rest) \<longleftrightarrow> subtracts e"
| "subtracts (ExCase operand whens els) \<longleftrightarrow>
     (\<exists>e \<in> set_option operand. subtracts e) \<or> (\<exists>(c, v) \<in> set whens. subtracts c \<or> subtracts v) \<or>
     (\<exists>e \<in> set_option els. subtracts e)"
| "subtracts (ExBetween neg e lo hi) \<longleftrightarrow> subtracts e \<or> subtracts lo \<or> subtracts hi"
| "subtracts (ExFunction nm rest args) \<longleftrightarrow> (\<exists>a \<in> set args. subtracts_arg a)"
| "subtracts (ExSubquery q) \<longleftrightarrow> subtracts_query q"
| "subtracts (ExLiteral x) \<longleftrightarrow> False"
| "subtracts (ExOther txt) \<longleftrightarrow> False"
| "subtracts_arg (ArgUnnamed e) \<longleftrightarrow> subtracts e"
| "subtracts_arg (ArgNamed nm e) \<longleftrightarrow> subtracts e"
| "subtracts_arg (ArgOther txt) \<longleftrightarrow> False"
| "subtracts_query (QueryTree ctes body rest) \<longleftrightarrow> (\<exists>(nm, q) \<in> set ctes. subtracts_query q) \<or> subtracts_set body"
| "subtracts_set (SetSelect items froms rest) \<longleftrightarrow> (\<exists>it \<in> set items. subtracts_item it)"
| "subtracts_set (SetQuery q) \<longleftrightarrow> subtracts_query q"
| "subtracts_set (SetOperation kind l r) \<longleftrightarrow> subtracts_set l \<or> subtracts_set r"
| "subtracts_set (SetOther txt) \<longleftrightarrow> False"
| "subtracts_item (ItemUnnamed e) \<longleftrightarrow> subtracts e"
| "subtracts_item (ItemAlias e nm) \<longleftrightarrow> subtracts e"
| "subtracts_item (ItemOther txt) \<longleftrightarrow> False"

lemma map_option_fixed: "map_option f x = x \<longleftrightarrow> (\<forall>y \<in> set_option x. f y = y)"
  by (cases x) auto

lemma map_fixed: "map f xs = xs \<longleftrightarrow> (\<forall>x \<in> set xs. f x = x)"
  by (induction xs) auto

lemma days_of_changes: "days_of (ExBinary l op r) \<noteq> ExBinary l' op' r'"
  by (simp add: days_of_def)

lemma rewrite_fixed_iff:
  "rewrite_expr e = e \<longleftrightarrow> \<not> subtracts e"
  "rewrite_arg a = a \<longleftrightarrow> \<not> subtracts_arg a"
  "rewrite_query q = q \<longleftrightarrow> \<not> subtracts_query q"
  "rewrite_set t = t \<longleftrightarrow> \<not> subtracts_set t"
  "rewrite_select_item it = it \<longleftrightarrow> \<not> subtracts_item it"
  by (induction e and a and q and t and it
      rule: rewrite_expr_rewrite_arg_rewrite_query_rewrite_set_rewrite_select_item.induct)
    (auto simp: map_fixed map_option_fixed days_of_changes split: prod.splits)

lemma rewriting_keeps_tables:
  "tables_of_query (rewrite_query q) = tables_of_query q"
  "tables_of_set (rewrite_set t) = tables_of_set t"
  by (induction q and t rule: tables_of_query_tables_of_set_tables_of_item_tables_of_factor.induct(1,2)) auto

lemma rewrite_tree_keeps_query:
  assumes "rewrite_tree st = Some st'"
  shows "map_option tables_of_query (readonly_query [st']) = map_option tables_of_query (readonly_query [st])"
    and "st' = st \<longleftrightarrow> \<not> (\<exists>q. readonly_query [st] = Some q \<and> subtracts_query q)"
  using assms
  by (auto simp: rewrite_tree_def readonly_query_def rewriting_keeps_tables rewrite_fixed_iff
      split: tree_statement.splits)

text \<open>
  The text that a query with a difference of dates is retried as reads the same tables, and is
  another query exactly when the rewriting met a subtraction. That sqlparser reads the new text
  back as the tree it was printed from is assumed of this tree only.
\<close>

theorem date_retry_reads_same_tables:
  assumes parsed: "parse sql = Some [st]"
    and retried: "rewrite_date_subtraction_sql parse print sql = Some sql'"
    and printed: "\<forall>st'. rewrite_tree st = Some st' \<longrightarrow> parse (print st') = Some [st']"
  shows "extract_table_names_from_readonly_sql parse sql' = extract_table_names_from_readonly_sql parse sql \<and>
    (parse sql' = parse sql \<longleftrightarrow> \<not> (\<exists>q. readonly_query [st] = Some q \<and> subtracts_query q))"
proof -
  obtain st' where st': "rewrite_tree st = Some st'" "sql' = print st'"
    using parsed retried by (auto simp: rewrite_date_subtraction_sql_def)
  have "extract_table_names_from_readonly_sql parse sql' = extract_table_names_from_readonly_sql parse sql"
    using rewrite_tree_keeps_query(1) [OF st'(1)] parsed printed st'
    by (auto simp: extract_table_names_from_readonly_sql_def split: option.splits)
  then show ?thesis
    using rewrite_tree_keeps_query(2) [OF st'(1)] parsed printed st' by auto
qed

text \<open>Two trees, their texts, and a parser that knows these texts.\<close>

definition some_difference :: sql_expr where
  "some_difference = ExBinary (ExOther ''a'') OpMinus (ExOther ''b'')"

definition some_query :: "sql_expr \<Rightarrow> tree_statement" where
  "some_query e =
     TreeQuery (QueryTree [] (SetSelect [ItemAlias e ''days''] [FromItem (FactorTable ''t'' []) []] []) [])"

definition some_print :: "tree_statement \<Rightarrow> string" where
  "some_print st = (if st = some_query some_difference then ''old'' else ''new'')"

definition some_parse :: "string \<Rightarrow> tree_statement list option" where
  "some_parse sql =
     (if sql = ''old'' then Some [some_query some_difference]
      else if sql = ''new'' then Some [some_query (days_of some_difference)] else None)"

lemma some_query_rewritten:
  "rewrite_tree (some_query some_difference) = Some (some_query (days_of some_difference))"
  "some_print (some_query (days_of some_difference)) = ''new''"
  by (simp_all add: rewrite_tree_def some_query_def some_difference_def some_print_def days_of_def)

lemma date_retry_reads_same_tables_witness:
  "extract_table_names_from_readonly_sql some_parse ''new'' =
     extract_table_names_from_readonly_sql some_parse ''old'' \<and>
   some_parse ''new'' \<noteq> some_parse ''old''"
  using date_retry_reads_same_tables
      [of some_parse "''old''" "some_query some_difference" some_print "''new''"]
  by (simp add: some_query_rewritten rewrite_date_subtraction_sql_def some_parse_def)
    (simp add: some_query_def some_difference_def readonly_query_def)

end
