(* ===== verification/Json.thy ===== *)
theory Json
  imports Rust_Text
begin

text \<open>
  The values of the JSON crate (\<^verbatim>\<open>serde_json::Value\<close>), as far as the engine looks into them: the
  members of an object, texts, and the numbers that are integers. Reading and printing them are
  parameters of the definitions that do so.
\<close>

datatype json =
    JNull
  | JBool bool
  | JInteger int
  | JFraction string
  | JText string
  | JArray "json list"
  | JObject "(string \<times> json) list"

text \<open>Indexing by a name: what is not there is null.\<close>

definition json_member :: "json \<Rightarrow> string \<Rightarrow> json" where
  "json_member v k =
     (case v of JObject ms \<Rightarrow> (case map_of ms k of None \<Rightarrow> JNull | Some x \<Rightarrow> x) | _ \<Rightarrow> JNull)"

definition json_str :: "json \<Rightarrow> string option" where
  "json_str v = (case v of JText t \<Rightarrow> Some t | _ \<Rightarrow> None)"

definition json_i64 :: "json \<Rightarrow> int option" where
  "json_i64 v = (case v of JInteger i \<Rightarrow> if is_i64 i then Some i else None | _ \<Rightarrow> None)"

definition json_u64 :: "json \<Rightarrow> nat option" where
  "json_u64 v = (case v of JInteger i \<Rightarrow> if 0 \<le> i \<and> nat i \<le> u64_max then Some (nat i) else None | _ \<Rightarrow> None)"

definition unwrap_or :: "'a option \<Rightarrow> 'a \<Rightarrow> 'a" where
  "unwrap_or x d = (case x of None \<Rightarrow> d | Some y \<Rightarrow> y)"

end
