(* ===== verification/Effects.thy ===== *)
theory Effects
  imports Engine Statements Query_Trees Json "HOL-Library.Product_Lexorder"
begin

text \<open>
  How the asynchronous methods of \<^verbatim>\<open>PotatoDB\<close> are modelled: as actions on the engine and on
  the state of what lies outside \<^verbatim>\<open>src/\<close>. The operations of the outside (DataFusion's session
  and its SQL execution, the object store, the file system, the clock) are the parameter
  \<open>world\<close>. An action stops at the first error, as \<^verbatim>\<open>?\<close> does, and keeps the state it reached.
\<close>

section \<open>What lies outside\<close>

text \<open>
  DataFusion tells planning a statement (\<^verbatim>\<open>ctx.sql\<close>) from running it (\<^verbatim>\<open>collect\<close>).
\<close>

datatype sql_error = PlanError string | ExecError string

fun sql_message :: "sql_error \<Rightarrow> string" where
  "sql_message (PlanError m) = m"
| "sql_message (ExecError m) = m"

text \<open>An entry of the object store's listing, and what a listing table is registered with.\<close>

record object_meta =
  ob_location :: string
  ob_size :: nat
  ob_modified :: int

text \<open>
  The Arrow types, those of times with their units and zones, and a column of a query's schema. Of a Parquet file's footer the engine reads
  the number of rows and the bounds of each row group's columns.
\<close>

datatype time_unit = Second | Millisecond | Microsecond | Nanosecond

datatype arrow_type =
    ABoolean | AInt8 | AInt16 | AInt32 | AInt64 | AUInt8 | AUInt16 | AUInt32 | AUInt64
  | AFloat16 | AFloat32 | AFloat64 | ADate32 | ADate64 | ATimestamp time_unit "string option"
  | ADuration time_unit
  | AFixedSizeBinary nat | AList arrow_type | ALargeList arrow_type | ADecimal128 nat int
  | ADecimal256 nat int | ABinary | ALargeBinary | AUtf8 | ALargeUtf8 | ATime | ANull | AOtherType

record schema_field =
  sf_name :: string
  sf_type :: arrow_type
  sf_nullable :: bool

record parquet_footer =
  pf_rows :: nat
  pf_columns :: "(string \<times> (string \<times> string) option) list"

record listing_spec =
  ls_url :: string
  ls_columns :: "column_def list"
  ls_order :: "(string \<times> bool \<times> bool) list list"
  ls_partitions :: "string list"
  ls_statistics :: "table_statistics option"
  ls_file_stats :: "file_stats list"

record 's world =
  w_sql :: "string \<Rightarrow> 's \<Rightarrow> (sql_error, record_batch list) result \<times> 's"
  w_run_plan :: "string \<Rightarrow> 's \<Rightarrow> (sql_error, record_batch list) result \<times> 's"
  w_plan :: "string \<Rightarrow> 's \<Rightarrow> (string, unit) result \<times> 's"
  w_schema :: "string \<Rightarrow> 's \<Rightarrow> (string, schema_field list) result"
  w_parse :: sql_parser
  w_trees :: "string \<Rightarrow> tree_statement list option"
  w_tree_text :: "tree_statement \<Rightarrow> string"
  w_register :: "string \<Rightarrow> record_batch list \<Rightarrow> 's \<Rightarrow> (string, unit) result \<times> 's"
  w_register_table :: "string \<Rightarrow> listing_spec \<Rightarrow> 's \<Rightarrow> (string, unit) result \<times> 's"
  w_deregister :: "string \<Rightarrow> 's \<Rightarrow> (string, unit) result \<times> 's"
  w_list :: "string \<Rightarrow> 's \<Rightarrow> (string, object_meta list) result"
  w_delete :: "string \<Rightarrow> 's \<Rightarrow> (string, unit) result \<times> 's"
  w_create_dir :: "string \<Rightarrow> 's \<Rightarrow> (string, unit) result \<times> 's"
  w_remove_dir :: "string \<Rightarrow> 's \<Rightarrow> (string, unit) result \<times> 's"
  w_store :: "('s, string) object_store"
  w_json :: "string json_codec"
  w_json_value :: "string \<Rightarrow> json option"
  w_json_text :: "json \<Rightarrow> string"
  w_text_file :: "string \<Rightarrow> 's \<Rightarrow> string option"
  w_append :: "string \<Rightarrow> string \<Rightarrow> 's \<Rightarrow> 's"
  w_ipc :: ipc
  w_crc :: "string \<Rightarrow> 32 word"
  w_arrow_type :: "string \<Rightarrow> (string, unit) result"
  w_footer :: "string \<Rightarrow> 's \<Rightarrow> parquet_footer option"
  w_read_dir :: "string \<Rightarrow> 's \<Rightarrow> (string, (string \<times> int) list) result option"
  w_remove_file :: "string \<Rightarrow> 's \<Rightarrow> (string, unit) result \<times> 's"
  w_read_file :: "string \<Rightarrow> string \<Rightarrow> 's \<Rightarrow> (string, record_batch list) result"
  w_write_file :: "string \<Rightarrow> string \<Rightarrow> record_batch list \<Rightarrow> 's \<Rightarrow> (string, unit) result \<times> 's"
  w_tar :: "string list \<Rightarrow> 's \<Rightarrow> (string, bool) result \<times> 's"
  w_dir_exists :: "string \<Rightarrow> 's \<Rightarrow> bool"
  w_script :: "string \<Rightarrow> 's \<Rightarrow> (string, string) result"
  w_rfc3339 :: "string \<Rightarrow> int option"
  w_naive_time :: "string \<Rightarrow> int option"
  w_column_bytes :: "record_batch \<Rightarrow> nat \<Rightarrow> nat"
  w_clock :: "'s \<Rightarrow> nat"
  w_utc_ms :: "'s \<Rightarrow> int"

section \<open>Actions\<close>

type_synonym ('a, 's) action = "engine \<Rightarrow> 's \<Rightarrow> (string, 'a) result \<times> engine \<times> 's"

definition ok :: "'a \<Rightarrow> ('a, 's) action" where
  "ok a e s = (Inr a, e, s)"

definition fail :: "string \<Rightarrow> ('a, 's) action" where
  "fail msg e s = (Inl msg, e, s)"

definition andThen :: "('a, 's) action \<Rightarrow> ('a \<Rightarrow> ('b, 's) action) \<Rightarrow> ('b, 's) action" where
  "andThen m f e s =
     (case m e s of
        (Inl msg, e', s') \<Rightarrow> (Inl msg, e', s')
      | (Inr a, e', s') \<Rightarrow> f a e' s')"

text \<open>Reading and changing the engine.\<close>

definition asks :: "(engine \<Rightarrow> 'a) \<Rightarrow> ('a, 's) action" where
  "asks f e s = (Inr (f e), e, s)"

definition change :: "(engine \<Rightarrow> engine) \<Rightarrow> (unit, 's) action" where
  "change f e s = (Inr (), f e, s)"

text \<open>An operation of the outside that changes its state, and one that only reads it.\<close>

definition outside :: "('s \<Rightarrow> (string, 'a) result \<times> 's) \<Rightarrow> ('a, 's) action" where
  "outside f e s = (case f s of (r, s') \<Rightarrow> (r, e, s'))"

definition look :: "('s \<Rightarrow> (string, 'a) result) \<Rightarrow> ('a, 's) action" where
  "look f e s = (f s, e, s)"

text \<open>\<^verbatim>\<open>let _ = m\<close>.\<close>

definition attempt :: "('a, 's) action \<Rightarrow> (unit, 's) action" where
  "attempt m e s = (case m e s of (r, e', s') \<Rightarrow> (Inr (), e', s'))"

text \<open>A loop over a list, with the error of the first step that fails.\<close>

fun each :: "('b \<Rightarrow> (unit, 's) action) \<Rightarrow> 'b list \<Rightarrow> (unit, 's) action" where
  "each f [] = ok ()"
| "each f (x # xs) = andThen (f x) (\<lambda>_. each f xs)"

lemma andThen_Inr:
  "andThen m f e s = (Inr b, e'', s'') \<longleftrightarrow>
     (\<exists>a e' s'. m e s = (Inr a, e', s') \<and> f a e' s' = (Inr b, e'', s''))"
  by (auto simp: andThen_def split: prod.splits sum.splits)

lemma andThen_step [simp]: "m e s = (Inr a, e', s') \<Longrightarrow> andThen m f e s = f a e' s'"
  by (simp add: andThen_def)

lemma andThen_stop [simp]: "m e s = (Inl msg, e', s') \<Longrightarrow> andThen m f e s = (Inl msg, e', s')"
  by (simp add: andThen_def)

lemma action_simps [simp]:
  "ok a e s = (Inr a, e, s)" "fail msg e s = (Inl msg, e, s)" "asks g e s = (Inr (g e), e, s)"
  "change h e s = (Inr (), h e, s)"
  by (simp_all add: ok_def fail_def asks_def change_def)

section \<open>Frames\<close>

text \<open>An action keeps a part of the engine, however it ends.\<close>

definition keeps :: "(engine \<Rightarrow> 'p) \<Rightarrow> ('a, 's) action \<Rightarrow> bool" where
  "keeps g m \<longleftrightarrow> (\<forall>e s. g (fst (snd (m e s))) = g e)"

named_theorems keeps_intros \<open>which actions keep which parts of the engine\<close>

lemma keepsD: "keeps g m \<Longrightarrow> m e s = (r, e', s') \<Longrightarrow> g e' = g e"
  by (metis fst_conv keeps_def snd_conv)

lemma keepsI: "(\<And>e s r e' s'. m e s = (r, e', s') \<Longrightarrow> g e' = g e) \<Longrightarrow> keeps g m"
  unfolding keeps_def by (metis fst_conv snd_conv surj_pair)

lemma keeps_basic [keeps_intros]:
  "keeps g (ok a)" "keeps g (fail msg)" "keeps g (asks h)" "keeps g (outside k)" "keeps g (look l)"
  by (simp_all add: keeps_def outside_def look_def split_beta)

lemma keeps_change [keeps_intros]: "(\<And>e. g (h e) = g e) \<Longrightarrow> keeps g (change h)"
  by (simp add: keeps_def)

lemma keeps_andThen [keeps_intros]: "keeps g m \<Longrightarrow> (\<And>a. keeps g (f a)) \<Longrightarrow> keeps g (andThen m f)"
  unfolding keeps_def andThen_def by (simp split: prod.splits sum.splits) (metis fst_conv snd_conv)

lemma keeps_attempt [keeps_intros]: "keeps g m \<Longrightarrow> keeps g (attempt m)"
  by (simp add: keeps_def attempt_def split_beta)

lemma keeps_each [keeps_intros]: "(\<And>x. keeps g (f x)) \<Longrightarrow> keeps g (each f xs)"
proof (induction xs)
  case Nil
  show ?case unfolding each.simps by (rule keeps_basic)
next
  case (Cons x xs)
  show ?case unfolding each.simps by (rule keeps_andThen) (rule Cons)+
qed

lemma keeps_if [keeps_intros]: "(P \<Longrightarrow> keeps g m) \<Longrightarrow> (\<not> P \<Longrightarrow> keeps g n) \<Longrightarrow> keeps g (if P then m else n)"
  by simp

lemma keeps_case_option [keeps_intros]:
  "keeps g m \<Longrightarrow> (\<And>x. keeps g (f x)) \<Longrightarrow> keeps g (case opt of None \<Rightarrow> m | Some x \<Rightarrow> f x)"
  by (cases opt) simp_all

section \<open>An idle outside\<close>

text \<open>Every operation succeeds and returns nothing: the base of the examples.\<close>

definition idle_world :: "'s world" where
  "idle_world =
     \<lparr>w_sql = (\<lambda>_ s. (Inr [], s)), w_run_plan = (\<lambda>_ s. (Inr [], s)),
      w_plan = (\<lambda>_ s. (Inr (), s)), w_schema = (\<lambda>_ _. Inr []), w_parse = (\<lambda>_. Inr []), w_trees = (\<lambda>_. None), w_tree_text = (\<lambda>_. []),
      w_register = (\<lambda>_ _ s. (Inr (), s)),
      w_register_table = (\<lambda>_ _ s. (Inr (), s)), w_deregister = (\<lambda>_ s. (Inr (), s)),
      w_list = (\<lambda>_ _. Inr []), w_delete = (\<lambda>_ s. (Inr (), s)), w_create_dir = (\<lambda>_ s. (Inr (), s)),
      w_remove_dir = (\<lambda>_ s. (Inr (), s)),
      w_store = \<lparr>os_get = (\<lambda>_ _. Inl NotFound), os_put = (\<lambda>s _ _. Inr s)\<rparr>,
      w_json = \<lparr>to_json = (\<lambda>_. Inr []), from_json = (\<lambda>_. Inl []), from_json_tables = (\<lambda>_. Inl [])\<rparr>,
      w_json_value = (\<lambda>_. None), w_json_text = (\<lambda>_. []), w_text_file = (\<lambda>_ _. None), w_append = (\<lambda>_ _ s. s),
      w_ipc = \<lparr>ipc_write = (\<lambda>_. Inr []), ipc_read = (\<lambda>_. Inr [])\<rparr>, w_crc = (\<lambda>_. 0),
      w_arrow_type = (\<lambda>_. Inr ()), w_footer = (\<lambda>_ _. None), w_read_dir = (\<lambda>_ _. None),
      w_remove_file = (\<lambda>_ s. (Inr (), s)),
      w_read_file = (\<lambda>_ _ _. Inr []), w_write_file = (\<lambda>_ _ _ s. (Inr (), s)),
      w_tar = (\<lambda>_ s. (Inr True, s)), w_dir_exists = (\<lambda>_ _. True),
      w_script = (\<lambda>_ _. Inr []), w_rfc3339 = (\<lambda>_. None), w_naive_time = (\<lambda>_. None), w_column_bytes = (\<lambda>_ _. 0), w_clock = (\<lambda>_. 0), w_utc_ms = (\<lambda>_. 0)\<rparr>"

end
