(* ===== verification/Constraints.thy ===== *)
theory Constraints
  imports Effects
begin

text \<open>
  Constraint validation (\<^verbatim>\<open>validate_constraints_batch\<close> and the functions it uses in
  \<^verbatim>\<open>crates/engine/src/lib.rs\<close>): NOT NULL on the positions of an INSERT, the lazily loaded
  cache of primary-key and unique keys, CHECK by a temporary table, FOREIGN KEY and the
  whole-table checks by queries. The texts of the queries are those of the source; running
  them is the parameter \<open>W\<close>. A panic of the source (an array index out of range) is the
  error \<open>panic\<close>.
\<close>

section \<open>Queries\<close>

definition us :: string where
  "us = [CHR 0x1F]"

definition ident :: "string \<Rightarrow> string" where
  "ident s = dquote # s @ [dquote]"

definition in_quotes :: "string \<Rightarrow> string" where
  "in_quotes s = quote # s @ [quote]"

definition idents :: "string list \<Rightarrow> string" where
  "idents cs = join '', '' (map ident cs)"

definition run_sql :: "'s world \<Rightarrow> string \<Rightarrow> 's \<Rightarrow> (string, record_batch list) result \<times> 's" where
  "run_sql W sql s =
     (case w_sql W sql s of
        (Inl err, s') \<Rightarrow> (Inl (sql_message err), s')
      | (Inr bs, s') \<Rightarrow> (Inr bs, s'))"

definition panic :: string where
  "panic = ''panic''"

section \<open>NOT NULL\<close>

definition not_null_failed :: "string \<Rightarrow> string \<Rightarrow> string" where
  "not_null_failed tbl c = ''NOT NULL constraint failed: '' @ in_quotes (tbl @ ''.'' @ c)"

definition non_nullable :: "table_meta \<Rightarrow> string \<Rightarrow> bool" where
  "non_nullable m nm \<longleftrightarrow> list_ex (\<lambda>c. cd_name c = nm \<and> \<not> cd_nullable c) (tm_columns m)"

definition has_null :: "record_batch \<Rightarrow> nat \<Rightarrow> bool" where
  "has_null b i \<longleftrightarrow> list_ex (\<lambda>row. cell_at row i = CNull) (rb_rows b)"

text \<open>The first violation in the order of the loops: batches outside, columns inside.\<close>

definition validate_not_null_positional ::
  "engine \<Rightarrow> string \<Rightarrow> string list \<Rightarrow> record_batch list \<Rightarrow> (string, unit) result"
where
  "validate_not_null_positional e tbl target batches =
     (case hm_get (cat_tables (en_catalog e)) tbl of
        None \<Rightarrow> Inr ()
      | Some m \<Rightarrow>
          let cols = filter (\<lambda>(i, nm). non_nullable m nm) (zip [0..<length target] target) in
          case filter (\<lambda>(b, i, nm). i < length (rb_fields b) \<and> has_null b i)
                 (concat (map (\<lambda>b. map (\<lambda>c. (b, c)) cols) batches)) of
            (b, i, nm) # _ \<Rightarrow> Inl (not_null_failed tbl nm)
          | [] \<Rightarrow> Inr ())"

text \<open>The same by the names of the columns, those that a batch lacks left out; nothing calls it.\<close>

definition validate_not_null_batches :: "engine \<Rightarrow> string \<Rightarrow> record_batch list \<Rightarrow> (string, unit) result" where
  "validate_not_null_batches e tbl batches =
     (case hm_get (cat_tables (en_catalog e)) tbl of
        None \<Rightarrow> Inr ()
      | Some m \<Rightarrow>
          let cols = map cd_name (filter (\<lambda>c. \<not> cd_nullable c) (tm_columns m)) in
          case filter (\<lambda>(b, nm). case map_of (zip (rb_fields b) [0..<length (rb_fields b)]) nm of
                                   None \<Rightarrow> False | Some i \<Rightarrow> has_null b i)
                 (concat (map (\<lambda>b. map (\<lambda>nm. (b, nm)) cols) batches)) of
            (b, nm) # _ \<Rightarrow> Inl (not_null_failed tbl nm)
          | [] \<Rightarrow> Inr ())"

section \<open>The cache of unique keys\<close>

definition uniqueness_cache_key_pk :: "string \<Rightarrow> string list \<Rightarrow> string" where
  "uniqueness_cache_key_pk tbl cols = ''pk'' @ us @ tbl @ us @ join us cols"

definition uniqueness_cache_key_unique :: "string \<Rightarrow> string \<Rightarrow> string" where
  "uniqueness_cache_key_unique tbl nm = ''uq'' @ us @ tbl @ us @ nm"

definition invalidate_uniqueness_cache_for_table :: "string \<Rightarrow> engine \<Rightarrow> engine" where
  "invalidate_uniqueness_cache_for_table tbl e =
     e\<lparr>en_uniqueness :=
         hm_retain (\<lambda>k _. \<not> starts_with (''pk'' @ us @ tbl @ us) k \<and>
                          \<not> starts_with (''uq'' @ us @ tbl @ us) k) (en_uniqueness e)\<rparr>"

text \<open>The key of a row over columns: the literals joined by the unit separator.\<close>

definition row_key :: "string list \<Rightarrow> string" where
  "row_key tuple = join us tuple"

definition loaded_keys :: "nat \<Rightarrow> bool \<Rightarrow> record_batch list \<Rightarrow> string list" where
  "loaded_keys n skip_null batches =
     remdups (map row_key
       (filter (\<lambda>t. \<not> (skip_null \<and> ''NULL'' \<in> set t))
         (map (\<lambda>row. map (\<lambda>i. array_value_to_sql_literal (cell_at row i)) [0..<n])
           (concat (map rb_rows batches)))))"

definition ensure_uniqueness_loaded ::
  "'s world \<Rightarrow> string \<Rightarrow> string \<Rightarrow> string list \<Rightarrow> bool \<Rightarrow> engine \<Rightarrow> 's \<Rightarrow>
     (string, unit) result \<times> engine \<times> 's"
where
  "ensure_uniqueness_loaded W ck tbl cols skip_null e s =
     (if hm_contains (en_uniqueness e) ck then (Inr (), e, s)
      else case run_sql W (''SELECT '' @ idents cols @ '' FROM '' @ ident tbl) s of
             (Inl err, s') \<Rightarrow> (Inl err, e, s')
           | (Inr batches, s') \<Rightarrow>
               (Inr (),
                e\<lparr>en_uniqueness :=
                    hm_insert ck (loaded_keys (length cols) skip_null batches) (en_uniqueness e)\<rparr>, s'))"

definition cached_keys :: "engine \<Rightarrow> string \<Rightarrow> string list" where
  "cached_keys e ck = (case hm_get (en_uniqueness e) ck of Some ks \<Rightarrow> ks | None \<Rightarrow> [])"

definition merge_uniqueness_keys :: "string \<Rightarrow> string list list \<Rightarrow> engine \<Rightarrow> engine" where
  "merge_uniqueness_keys ck values e =
     e\<lparr>en_uniqueness :=
         hm_insert ck (fold (\<lambda>v ks. List.insert (row_key v) ks) values (cached_keys e ck))
           (en_uniqueness e)\<rparr>"

definition check_uniqueness_against_table_cached ::
  "'s world \<Rightarrow> string \<Rightarrow> string \<Rightarrow> string list \<Rightarrow> string list list \<Rightarrow> bool \<Rightarrow> string \<Rightarrow> engine \<Rightarrow> 's \<Rightarrow>
     (string, unit) result \<times> engine \<times> 's"
where
  "check_uniqueness_against_table_cached W ck tbl cols values skip_null err_msg e s =
     (case ensure_uniqueness_loaded W ck tbl cols skip_null e s of
        (Inl err, e', s') \<Rightarrow> (Inl err, e', s')
      | (Inr _, e', s') \<Rightarrow>
          (if list_ex (\<lambda>v. row_key v \<in> set (cached_keys e' ck)) values then (Inl err_msg, e', s')
           else (Inr (), e', s')))"

section \<open>Whole-table checks\<close>

definition count_query :: "'s world \<Rightarrow> string \<Rightarrow> 's \<Rightarrow> (string, int) result \<times> 's" where
  "count_query W sql s =
     (case run_sql W sql s of
        (Inl err, s') \<Rightarrow> (Inl err, s')
      | (Inr bs, s') \<Rightarrow> (Inr (scalar_count bs), s'))"

text \<open>A query that counts violations, and the error when there are any.\<close>

definition no_violation :: "'s world \<Rightarrow> string \<Rightarrow> (int \<Rightarrow> string) \<Rightarrow> 's \<Rightarrow> (string, unit) result \<times> 's" where
  "no_violation W sql msg s =
     (case count_query W sql s of
        (Inl err, s') \<Rightarrow> (Inl err, s')
      | (Inr n, s') \<Rightarrow> (if n > 0 then (Inl (msg n), s') else (Inr (), s')))"

definition pk_violation :: "string \<Rightarrow> string list \<Rightarrow> string" where
  "pk_violation tbl cols =
     ''PRIMARY KEY violation on '' @ in_quotes tbl @ '' for ('' @ join '', '' cols @ '')''"

definition unique_violation :: "string \<Rightarrow> string \<Rightarrow> string" where
  "unique_violation nm tbl =
     ''UNIQUE constraint violation '' @ in_quotes nm @ '' on '' @ in_quotes tbl"

definition check_violation :: "string \<Rightarrow> string \<Rightarrow> int \<Rightarrow> string" where
  "check_violation nm tbl n =
     ''CHECK constraint violation '' @ in_quotes nm @ '' on '' @ in_quotes tbl @ '' ('' @ show_int n @
     '' row(s))''"

definition dup_sql :: "string \<Rightarrow> string list \<Rightarrow> string" where
  "dup_sql tbl cols =
     ''SELECT COUNT(*) AS c FROM (SELECT '' @ idents cols @ '' FROM '' @ ident tbl @ '' GROUP BY '' @
     idents cols @ '' HAVING COUNT(*) > 1) AS dup''"

definition fk_sql :: "string \<Rightarrow> string list \<Rightarrow> string \<Rightarrow> string list \<Rightarrow> string" where
  "fk_sql tbl cols ref_tbl ref_cols =
     (let predicates = join '' AND ''
            (map (\<lambda>(c, rc). ''child.'' @ ident c @ '' = parent.'' @ ident rc) (zip cols ref_cols));
          non_null = join '' AND '' (map (\<lambda>c. ''child.'' @ ident c @ '' IS NOT NULL'') cols);
          null_ref = join '' OR '' (map (\<lambda>rc. ''parent.'' @ ident rc @ '' IS NULL'') ref_cols)
      in ''SELECT COUNT(*) AS c FROM '' @ ident tbl @ '' child LEFT JOIN '' @ ident ref_tbl @
         '' parent ON '' @ predicates @ '' WHERE ('' @ non_null @ '') AND ('' @ null_ref @ '')'')"

text \<open>The FOREIGN KEY branch, which both validations share.\<close>

definition check_foreign_key ::
  "'s world \<Rightarrow> string \<Rightarrow> string \<Rightarrow> string list \<Rightarrow> string \<Rightarrow> string list \<Rightarrow> 's \<Rightarrow> (string, unit) result \<times> 's"
where
  "check_foreign_key W tbl nm cols ref_tbl ref_cols s =
     (if length cols \<noteq> length ref_cols \<or> cols = []
      then (Inl (''FOREIGN KEY '' @ in_quotes nm @ '' on '' @ in_quotes tbl @ '' has invalid column mapping''), s)
      else no_violation W (fk_sql tbl cols ref_tbl ref_cols)
             (\<lambda>_. ''FOREIGN KEY violation '' @ in_quotes nm @ '' on '' @ in_quotes tbl @ '' referencing '' @
                  in_quotes ref_tbl) s)"

fun no_null_columns :: "'s world \<Rightarrow> string \<Rightarrow> string list \<Rightarrow> 's \<Rightarrow> (string, unit) result \<times> 's" where
  "no_null_columns W tbl [] s = (Inr (), s)"
| "no_null_columns W tbl (c # cs) s =
     (case no_violation W (''SELECT COUNT(*) AS c FROM '' @ ident tbl @ '' WHERE '' @ ident c @ '' IS NULL'')
             (\<lambda>_. ''PRIMARY KEY violation on '' @ in_quotes tbl @ '': column '' @ in_quotes c @ '' contains NULL'') s of
        (Inl err, s') \<Rightarrow> (Inl err, s')
      | (Inr _, s') \<Rightarrow> no_null_columns W tbl cs s')"

fun check_table_constraint :: "'s world \<Rightarrow> string \<Rightarrow> table_constraint \<Rightarrow> 's \<Rightarrow> (string, unit) result \<times> 's" where
  "check_table_constraint W tbl (PrimaryKey cols) s =
     (case no_null_columns W tbl cols s of
        (Inl err, s') \<Rightarrow> (Inl err, s')
      | (Inr _, s') \<Rightarrow> no_violation W (dup_sql tbl cols) (\<lambda>_. pk_violation tbl cols) s')"
| "check_table_constraint W tbl (Unique nm cols) s =
     no_violation W (dup_sql tbl cols) (\<lambda>_. unique_violation nm tbl) s"
| "check_table_constraint W tbl (Check nm ex) s = (Inr (), s)"
| "check_table_constraint W tbl (ForeignKey nm cols rt rcs od ou) s = check_foreign_key W tbl nm cols rt rcs s"

fun check_all :: "('c \<Rightarrow> 's \<Rightarrow> (string, unit) result \<times> 's) \<Rightarrow> 'c list \<Rightarrow> 's \<Rightarrow> (string, unit) result \<times> 's" where
  "check_all f [] s = (Inr (), s)"
| "check_all f (c # cs) s =
     (case f c s of (Inl err, s') \<Rightarrow> (Inl err, s') | (Inr _, s') \<Rightarrow> check_all f cs s')"

definition constraints_of :: "engine \<Rightarrow> string \<Rightarrow> table_constraint list" where
  "constraints_of e tbl =
     (case hm_get (cat_tables (en_catalog e)) tbl of None \<Rightarrow> [] | Some m \<Rightarrow> tm_constraints m)"

definition validate_table_constraints ::
  "'s world \<Rightarrow> string \<Rightarrow> engine \<Rightarrow> 's \<Rightarrow> (string, unit) result \<times> 's"
where
  "validate_table_constraints W tbl e s = check_all (check_table_constraint W tbl) (constraints_of e tbl) s"

fun check_expression :: "'s world \<Rightarrow> string \<Rightarrow> table_constraint \<Rightarrow> 's \<Rightarrow> (string, unit) result \<times> 's" where
  "check_expression W tbl (Check nm ex) s =
     no_violation W (''SELECT COUNT(*) AS c FROM '' @ ident tbl @ '' WHERE NOT ('' @ ex @ '')'')
       (check_violation nm tbl) s"
| "check_expression W tbl _ s = (Inr (), s)"

definition validate_check_constraints ::
  "'s world \<Rightarrow> string \<Rightarrow> engine \<Rightarrow> 's \<Rightarrow> (string, unit) result \<times> 's"
where
  "validate_check_constraints W tbl e s = check_all (check_expression W tbl) (constraints_of e tbl) s"

definition validate_not_null_table :: "'s world \<Rightarrow> string \<Rightarrow> engine \<Rightarrow> 's \<Rightarrow> (string, unit) result \<times> 's" where
  "validate_not_null_table W tbl e s =
     (case hm_get (cat_tables (en_catalog e)) tbl of
        None \<Rightarrow> (Inr (), s)
      | Some m \<Rightarrow>
          let checks = map (\<lambda>c. ident (cd_name c) @ '' IS NULL'') (filter (\<lambda>c. \<not> cd_nullable c) (tm_columns m))
          in if checks = [] then (Inr (), s)
             else no_violation W (''SELECT COUNT(*) AS c FROM '' @ ident tbl @ '' WHERE '' @ join '' OR '' checks)
                    (\<lambda>n. ''NOT NULL constraint failed for table '' @ in_quotes tbl @ '' ('' @ show_int n @
                         '' violating row(s))'') s)"

section \<open>Validation of a batch\<close>

datatype phase = BeforeInsert | AfterInsert

type_synonym merges = "(string \<times> string list list) list"

text \<open>Going on with the next constraint, or returning from the validation.\<close>

datatype outcome = Go merges | Return "(string, merges) result"

text \<open>A repeated column name takes its last position, as collecting into a map does.\<close>

definition column_position :: "string list \<Rightarrow> string \<Rightarrow> nat option" where
  "column_position target c = map_of (rev (zip target [0..<length target])) c"

definition positions :: "string list \<Rightarrow> string list \<Rightarrow> nat list" where
  "positions target cols = List.map_filter (column_position target) cols"

definition key_tuple :: "nat list \<Rightarrow> cell list \<Rightarrow> string list" where
  "key_tuple is row = map (\<lambda>i. array_value_to_sql_literal (cell_at row i)) is"

text \<open>
  The loop over the rows of the batches; with \<open>skip_null\<close> a row with a null key is passed
  over (UNIQUE), without it is a violation (PRIMARY KEY).
\<close>

fun scan_keys ::
  "bool \<Rightarrow> string \<Rightarrow> nat list \<Rightarrow> string list \<Rightarrow> cell list list \<Rightarrow> (string, string list list) result"
where
  "scan_keys skip_null err is seen [] = Inr []"
| "scan_keys skip_null err is seen (row # rows) =
     (if \<not> list_all (\<lambda>i. i < length row) is then Inl panic
      else let tuple = key_tuple is row in
           if ''NULL'' \<in> set tuple
           then (if skip_null then scan_keys skip_null err is seen rows else Inl err)
           else if row_key tuple \<in> set seen then Inl err
           else case scan_keys skip_null err is (row_key tuple # seen) rows of
                  Inl x \<Rightarrow> Inl x
                | Inr ts \<Rightarrow> Inr (tuple # ts))"

definition batch_rows :: "record_batch list \<Rightarrow> cell list list" where
  "batch_rows batches = concat (map rb_rows batches)"

text \<open>The PRIMARY KEY and UNIQUE branches differ in \<open>skip_null\<close>, the cache key and the message.\<close>

definition validate_key ::
  "'s world \<Rightarrow> string \<Rightarrow> string list \<Rightarrow> record_batch list \<Rightarrow> bool \<Rightarrow> string \<Rightarrow> string \<Rightarrow> string list \<Rightarrow>
     merges \<Rightarrow> engine \<Rightarrow> 's \<Rightarrow> outcome \<times> engine \<times> 's"
where
  "validate_key W tbl target batches skip_null ck err cols ms e s =
     (if list_ex (\<lambda>c. column_position target c = None) cols
      then (case validate_table_constraints W tbl e s of
              (Inl x, s') \<Rightarrow> (Return (Inl x), e, s')
            | (Inr _, s') \<Rightarrow> (Return (Inr []), e, s'))
      else case scan_keys skip_null err (positions target cols) [] (batch_rows batches) of
             Inl x \<Rightarrow> (Return (Inl x), e, s)
           | Inr values \<Rightarrow>
               (if values = [] then (Go ms, e, s)
                else case check_uniqueness_against_table_cached W ck tbl cols values skip_null err e s of
                       (Inl x, e', s') \<Rightarrow> (Return (Inl x), e', s')
                     | (Inr _, e', s') \<Rightarrow> (Go (ms @ [(ck, values)]), e', s')))"

text \<open>The CHECK branch; \<open>now\<close> is the clock the temporary table is named after.\<close>

definition check_sql :: "string \<Rightarrow> string list \<Rightarrow> string list \<Rightarrow> string \<Rightarrow> string" where
  "check_sql tmp flds target ex =
     ''SELECT COUNT(*) AS c FROM (SELECT '' @
     join '', '' (map (\<lambda>(f, t). ident f @ '' AS '' @ ident t) (zip flds target)) @
     '' FROM '' @ ident tmp @ '') AS __potato_chk WHERE NOT ('' @ ex @ '')''"

definition validate_check ::
  "'s world \<Rightarrow> string \<Rightarrow> string list \<Rightarrow> record_batch list \<Rightarrow> nat \<Rightarrow> string \<Rightarrow> string \<Rightarrow>
     merges \<Rightarrow> engine \<Rightarrow> 's \<Rightarrow> outcome \<times> engine \<times> 's"
where
  "validate_check W tbl target batches now nm ex ms e s =
     (case filter (\<lambda>b. num_rows b > 0) batches of
        [] \<Rightarrow> (Go ms, e, s)
      | b # bs \<Rightarrow>
          let fallback = (\<lambda>s. case validate_check_constraints W tbl e s of
                (Inl x, s') \<Rightarrow> (Return (Inl x), e, s')
              | (Inr _, s') \<Rightarrow> (Return (Inr []), e, s'))
          in if length (rb_fields b) \<noteq> length target then fallback s
             else let tmp = ''__potato_check_tmp_'' @ show_nat now in
               case w_register W tmp (b # bs) s of
                 (Inl x, s1) \<Rightarrow> (Return (Inl x), e, s1)
               | (Inr _, s1) \<Rightarrow>
                   (case w_sql W (check_sql tmp (rb_fields b) target ex) s1 of
                      (Inl (PlanError _), s2) \<Rightarrow> fallback (snd (w_deregister W tmp s2))
                    | (Inl (ExecError x), s2) \<Rightarrow> (Return (Inl x), e, s2)
                    | (Inr out, s2) \<Rightarrow>
                        let s3 = snd (w_deregister W tmp s2); violating = scalar_count out in
                        if violating > 0 then (Return (Inl (check_violation nm tbl violating)), e, s3)
                        else (Go ms, e, s3)))"

fun validate_one ::
  "'s world \<Rightarrow> string \<Rightarrow> string list \<Rightarrow> record_batch list \<Rightarrow> phase \<Rightarrow> nat \<Rightarrow> table_constraint \<Rightarrow>
     merges \<Rightarrow> engine \<Rightarrow> 's \<Rightarrow> outcome \<times> engine \<times> 's"
where
  "validate_one W tbl target batches ph now (PrimaryKey cols) ms e s =
     (if ph = BeforeInsert
      then validate_key W tbl target batches False (uniqueness_cache_key_pk tbl cols)
             (pk_violation tbl cols) cols ms e s
      else (Go ms, e, s))"
| "validate_one W tbl target batches ph now (Unique nm cols) ms e s =
     (if ph = BeforeInsert
      then validate_key W tbl target batches True (uniqueness_cache_key_unique tbl nm)
             (unique_violation nm tbl) cols ms e s
      else (Go ms, e, s))"
| "validate_one W tbl target batches ph now (Check nm ex) ms e s =
     (if ph = BeforeInsert then validate_check W tbl target batches now nm ex ms e s
      else (Go ms, e, s))"
| "validate_one W tbl target batches ph now (ForeignKey nm cols rt rcs od ou) ms e s =
     (if ph = AfterInsert
      then (case check_foreign_key W tbl nm cols rt rcs s of
              (Inl x, s') \<Rightarrow> (Return (Inl x), e, s')
            | (Inr _, s') \<Rightarrow> (Go ms, e, s'))
      else (Go ms, e, s))"

fun validate_each ::
  "'s world \<Rightarrow> string \<Rightarrow> string list \<Rightarrow> record_batch list \<Rightarrow> phase \<Rightarrow> nat \<Rightarrow> table_constraint list \<Rightarrow>
     merges \<Rightarrow> engine \<Rightarrow> 's \<Rightarrow> (string, merges) result \<times> engine \<times> 's"
where
  "validate_each W tbl target batches ph now [] ms e s = (Inr ms, e, s)"
| "validate_each W tbl target batches ph now (c # cs) ms e s =
     (case validate_one W tbl target batches ph now c ms e s of
        (Return r, e', s') \<Rightarrow> (r, e', s')
      | (Go ms', e', s') \<Rightarrow> validate_each W tbl target batches ph now cs ms' e' s')"

definition validate_constraints_batch ::
  "'s world \<Rightarrow> string \<Rightarrow> string list \<Rightarrow> record_batch list \<Rightarrow> phase \<Rightarrow> nat \<Rightarrow> engine \<Rightarrow> 's \<Rightarrow>
     (string, merges) result \<times> engine \<times> 's"
where
  "validate_constraints_batch W tbl target batches ph now e s =
     (if batches = [] \<and> ph = BeforeInsert then (Inr [], e, s)
      else validate_each W tbl target batches ph now (constraints_of e tbl) [] e s)"

text \<open>After the rows are written, the keys found are added to the cache, one constraint at a time.\<close>

definition apply_merges :: "merges \<Rightarrow> engine \<Rightarrow> engine" where
  "apply_merges ms e = fold (\<lambda>(ck, vs). merge_uniqueness_keys ck vs) ms e"

end
