(* ===== verification/Constraint_Props.thy ===== *)
theory Constraint_Props
  imports Constraints
begin

text \<open>
  The properties of constraint validation: the cached key of a row determines its values,
  validation keeps a primary key unique and the cache exact, and what is not checked.
\<close>

section \<open>Keys\<close>

text \<open>A literal as the engine prints it: a quoted text, or a text without quote and separator.\<close>

definition is_literal :: "string \<Rightarrow> bool" where
  "is_literal t \<longleftrightarrow> (\<exists>s. t = quoted s) \<or> (quote \<notin> set t \<and> CHR 0x1F \<notin> set t)"

lemma us_quote: "CHR 0x1F \<noteq> quote"
  by simp

lemma cut_at:
  "x \<notin> set t \<Longrightarrow> x \<notin> set t' \<Longrightarrow> t @ x # u = t' @ x # v \<Longrightarrow> t = t' \<and> u = v"
proof (induction t arbitrary: t')
  case Nil
  then show ?case by (cases t') auto
next
  case (Cons c t)
  then show ?case by (cases t') auto
qed

lemma literal_cut:
  assumes "is_literal t" "is_literal t'" and "t @ CHR 0x1F # u = t' @ CHR 0x1F # v"
  shows "t = t' \<and> u = v"
proof -
  consider (q) s s' where "t = quoted s" "t' = quoted s'"
    | (p) "CHR 0x1F \<notin> set t" "CHR 0x1F \<notin> set t'"
    | (qp) s where "t = quoted s" "quote \<notin> set t'"
    | (pq) s' where "quote \<notin> set t" "t' = quoted s'"
    using assms(1,2) unfolding is_literal_def by blast
  then show ?thesis
  proof cases
    case q
    with quoted_cut [of s "CHR 0x1F # u" s' "CHR 0x1F # v"] assms(3) show ?thesis by simp
  next
    case p
    from cut_at [OF p assms(3)] show ?thesis .
  next
    case qp
    with assms(3) show ?thesis by (cases t') (auto simp: quoted_def)
  next
    case pq
    with assms(3) show ?thesis by (cases t) (auto simp: quoted_def)
  qed
qed

lemma row_key_inj:
  assumes "list_all is_literal ts" "list_all is_literal ws" "length ts = length ws"
    and "row_key ts = row_key ws"
  shows "ts = ws"
  using assms
proof (induction ts arbitrary: ws rule: induct_list012)
  case 1
  then show ?case by simp
next
  case (2 t)
  then show ?case by (cases ws) (auto simp: row_key_def)
next
  case (3 t t' ts)
  then obtain u u' ws' where ws: "ws = u # u' # ws'" by (cases ws; cases "tl ws") auto
  with 3(3,4) have lit: "is_literal t" "is_literal u" by simp_all
  from 3 ws have "t @ CHR 0x1F # row_key (t' # ts) = u @ CHR 0x1F # row_key (u' # ws')"
    by (simp add: row_key_def us_def)
  from literal_cut [OF lit this] have "t = u" "row_key (t' # ts) = row_key (u' # ws')"
    by auto
  with 3(2) [of "u' # ws'"] 3(3-5) ws show ?case by simp
qed

lemma show_nat_chars: "c \<in> set (show_nat n) \<Longrightarrow> is_digit c"
  using show_nat_digits [of n] by (auto simp: list_all_iff)

lemma is_literal_int: "is_literal (show_int i)"
proof -
  have "quote \<notin> set (show_nat n)" "CHR 0x1F \<notin> set (show_nat n)" for n
    using show_nat_chars [of quote n] show_nat_chars [of "CHR 0x1F" n] by (auto simp: is_digit_def)
  then show ?thesis by (auto simp: is_literal_def show_int_def)
qed

lemma show_nat_inj: "show_nat m = show_nat n \<Longrightarrow> m = n"
  by (metis digits_val_show_nat)

lemma show_int_inj: "show_int i = show_int j \<Longrightarrow> i = j"
  using show_nat_head by (auto simp: show_int_def dest!: show_nat_inj split: if_splits) metis+

lemma hex_digit_inj: "m < 16 \<Longrightarrow> n < 16 \<Longrightarrow> hex_digit m = hex_digit n \<Longrightarrow> m = n"
  by (auto simp: hex_digit_def char_of_eq_iff take_bit_eq_mod split: if_splits)

lemma hex2_inj: "hex2 c = hex2 d \<Longrightarrow> c = d"
proof -
  assume "hex2 c = hex2 d"
  moreover have "code c div 16 < 16" "code d div 16 < 16"
    using nat_of_char_less_256 [of c] nat_of_char_less_256 [of d] by (auto intro: less_mult_imp_div_less)
  ultimately have "code c div 16 = code d div 16" "code c mod 16 = code d mod 16"
    using hex_digit_inj by (auto simp: hex2_def)
  then have "code c = code d" by (metis div_mult_mod_eq)
  then show ?thesis by simp
qed

lemma length_hex_bytes: "length (hex_bytes s) = 2 * length s"
  by (induction s) (auto simp: hex_bytes_def hex2_def)

lemma hex_bytes_inj: "hex_bytes a = hex_bytes b \<Longrightarrow> a = b"
proof (induction a arbitrary: b)
  case Nil
  then show ?case by (cases b) (auto simp: hex_bytes_def hex2_def)
next
  case (Cons c a)
  then show ?case
    by (cases b) (auto simp: hex_bytes_def hex2_def [of c] intro: hex2_inj simp: hex2_def)
qed

lemma uuid_text_inj:
  assumes "length a = 16" "length b = 16" "uuid_text a = uuid_text b"
  shows "a = b"
proof -
  have len: "length (hex_bytes (slice a i j)) = length (hex_bytes (slice b i j))" for i j
    using assms by (simp add: length_hex_bytes slice_def)
  have "hex_bytes (slice a 0 4) = hex_bytes (slice b 0 4)" "hex_bytes (slice a 4 6) = hex_bytes (slice b 4 6)"
    "hex_bytes (slice a 6 8) = hex_bytes (slice b 6 8)" "hex_bytes (slice a 8 10) = hex_bytes (slice b 8 10)"
    "hex_bytes (slice a 10 16) = hex_bytes (slice b 10 16)"
    using assms(3) len by (auto simp: uuid_text_def)
  then have "slice a 0 4 = slice b 0 4" "slice a 4 6 = slice b 4 6" "slice a 6 8 = slice b 6 8"
    "slice a 8 10 = slice b 8 10" "slice a 10 16 = slice b 10 16"
    by (auto dest: hex_bytes_inj)
  moreover have "x = slice x 0 4 @ slice x 4 6 @ slice x 6 8 @ slice x 8 10 @ slice x 10 16"
    if "length x = 16" for x
    using that by (intro nth_equalityI) (auto simp: slice_def nth_append min_def)
  ultimately show ?thesis using assms(1,2) by metis
qed

text \<open>
  The cells a column can hold as the engine reads them: 16 bytes for a UUID, and for a
  floating-point number a text of Rust's formatting, which is not NULL and holds neither a
  quote nor the separator.
\<close>

fun proper_cell :: "cell \<Rightarrow> bool" where
  "proper_cell (CUuid b) = (length b = 16)"
| "proper_cell (CFloat t) = (quote \<notin> set t \<and> CHR 0x1F \<notin> set t \<and> t \<noteq> ''NULL'')"
| "proper_cell _ = True"

lemma hex_digit_plain: "n < 16 \<Longrightarrow> hex_digit n \<noteq> quote"
  by (auto simp: hex_digit_def char_of_eq_iff take_bit_eq_mod)

lemma uuid_text_plain: "quote \<notin> set (uuid_text b)"
proof -
  have "quote \<notin> set (hex_bytes x)" for x
  proof (induction x)
    case (Cons c x)
    have "code c div 16 < 16" using nat_of_char_less_256 [of c] by (auto intro: less_mult_imp_div_less)
    with Cons show ?case
      using hex_digit_plain [of "code c div 16"] hex_digit_plain [of "code c mod 16"]
      by (auto simp: hex_bytes_def hex2_def)
  qed (simp add: hex_bytes_def)
  then show ?thesis by (auto simp: uuid_text_def)
qed

lemma double_quotes_plain: "quote \<notin> set s \<Longrightarrow> double_quotes s = s"
  by (induction s) auto

lemma literal_uuid: "array_value_to_sql_literal (CUuid b) = quoted (uuid_text b)"
  by (simp add: quoted_def double_quotes_plain uuid_text_plain)

lemma is_literal_quoted: "is_literal (quoted s)"
  unfolding is_literal_def by blast

lemma is_literal_plain: "quote \<notin> set t \<Longrightarrow> CHR 0x1F \<notin> set t \<Longrightarrow> is_literal t"
  unfolding is_literal_def by blast

lemma lit_words: "is_literal ''NULL''" "is_literal ''TRUE''" "is_literal ''FALSE''"
  by (rule is_literal_plain; simp)+

lemma is_literal_cell:
  assumes "proper_cell c"
  shows "is_literal (array_value_to_sql_literal c)"
proof (cases c)
  case (CUuid b)
  then show ?thesis by (simp only: literal_uuid is_literal_quoted)
next
  case (CFloat t)
  then show ?thesis using assms is_literal_plain by simp
qed (simp_all add: is_literal_int is_literal_quoted lit_words)

lemma show_int_head: "show_int i = c # r \<Longrightarrow> c = CHR ''-'' \<or> is_digit c"
  using show_nat_chars [of c "nat i"] by (auto simp: show_int_def split: if_splits)

lemma show_int_not_null: "show_int i \<noteq> ''NULL''"
  using show_int_head [of i "CHR ''N''" "''ULL''"] by (auto simp: is_digit_def)

lemma quoted_not_null: "quoted s \<noteq> ''NULL''"
  by (simp add: quoted_def)

lemma literal_null: "proper_cell c \<Longrightarrow> array_value_to_sql_literal c = ''NULL'' \<longleftrightarrow> c = CNull"
proof (cases c)
  case (CUuid b)
  then show ?thesis by (simp only: literal_uuid quoted_not_null) simp
qed (simp_all add: show_int_not_null quoted_not_null)

lemma literal_cell_inj:
  assumes "same_kind a b" "proper_cell a" "proper_cell b"
    and eq: "array_value_to_sql_literal a = array_value_to_sql_literal b"
  shows "a = b"
proof (cases "a = CNull \<or> b = CNull")
  case True
  then show ?thesis using literal_null assms by (metis array_value_to_sql_literal.simps(1))
next
  case False
  from assms(1) False consider (i) i j where "a = CInt i" "b = CInt j" | (f) x y where "a = CFloat x" "b = CFloat y"
    | (b) x y where "a = CBool x" "b = CBool y" | (t) x y where "a = CText x" "b = CText y"
    | (u) x y where "a = CUuid x" "b = CUuid y" | (d) x y where "a = COther x" "b = COther y"
    by (cases a; cases b) auto
  then show ?thesis
  proof cases
    case u
    with assms(2,3) eq show ?thesis by (simp only: literal_uuid quoted_inj) (simp add: uuid_text_inj)
  next
    case i
    with eq show ?thesis using show_int_inj by simp
  qed (use eq in \<open>simp_all add: quoted_inj split: if_splits\<close>)
qed

section \<open>The scan of a batch\<close>

lemma scan_keys_ok:
  "scan_keys sk err is seen rows = Inr ts \<Longrightarrow>
     distinct (map row_key ts) \<and> set (map row_key ts) \<inter> set seen = {} \<and>
     ts = filter (\<lambda>t. ''NULL'' \<notin> set t) (map (key_tuple is) rows) \<and>
     (\<forall>row \<in> set rows. list_all (\<lambda>i. i < length row) is) \<and>
     (\<not> sk \<longrightarrow> (\<forall>row \<in> set rows. ''NULL'' \<notin> set (key_tuple is row)))"
proof (induction rows arbitrary: seen ts)
  case (Cons row rows)
  let ?t = "key_tuple is row"
  from Cons.prems have fit: "list_all (\<lambda>i. i < length row) is"
    by (auto split: if_splits)
  show ?case
  proof (cases "''NULL'' \<in> set ?t")
    case True
    with Cons.prems fit have "sk" "scan_keys sk err is seen rows = Inr ts"
      by (auto simp: Let_def split: if_splits)
    with Cons.IH [OF this(2)] True fit show ?thesis by (auto simp: disjoint_iff)
  next
    case False
    with Cons.prems fit have "row_key ?t \<notin> set seen"
      "\<exists>us. scan_keys sk err is (row_key ?t # seen) rows = Inr us \<and> ts = ?t # us"
      by (auto simp: Let_def split: if_splits sum.splits)
    then obtain us where us: "scan_keys sk err is (row_key ?t # seen) rows = Inr us" "ts = ?t # us"
      by blast
    from Cons.IH [OF us(1)] have IH: "distinct (map row_key us)"
      "set (map row_key us) \<inter> set (row_key ?t # seen) = {}"
      "us = filter (\<lambda>t. ''NULL'' \<notin> set t) (map (key_tuple is) rows)"
      "\<forall>row \<in> set rows. list_all (\<lambda>i. i < length row) is"
      "\<not> sk \<longrightarrow> (\<forall>row \<in> set rows. ''NULL'' \<notin> set (key_tuple is row))" by blast+
    show ?thesis
    proof (intro conjI)
      show "distinct (map row_key ts)" "set (map row_key ts) \<inter> set seen = {}"
        using IH(1,2) \<open>row_key ?t \<notin> set seen\<close> us(2) by auto
    qed (use IH(3-5) us(2) False fit in simp_all)
  qed
qed simp

lemma scan_keys_complete:
  assumes "\<forall>row \<in> set rows. list_all (\<lambda>i. i < length row) is"
    and "\<forall>row \<in> set rows. ''NULL'' \<notin> set (key_tuple is row)"
    and "distinct (map (row_key \<circ> key_tuple is) rows)"
    and "set (map (row_key \<circ> key_tuple is) rows) \<inter> set seen = {}"
  shows "scan_keys sk err is seen rows = Inr (map (key_tuple is) rows)"
  using assms
proof (induction rows arbitrary: seen)
  case (Cons row rows)
  then have "scan_keys sk err is (row_key (key_tuple is row) # seen) rows = Inr (map (key_tuple is) rows)"
    by (intro Cons.IH) auto
  with Cons.prems show ?case by (simp add: Let_def)
qed simp

section \<open>One key constraint\<close>

lemma cached_after_check:
  assumes "check_uniqueness_against_table_cached W ck tbl cols values sk err e s = (Inr u, e', s')"
  shows "\<exists>ks. hm_get (en_uniqueness e') ck = Some ks \<and> (\<forall>v \<in> set values. row_key v \<notin> set ks) \<and>
     (hm_get (en_uniqueness e) ck = Some ks \<or>
      (\<exists>bs. run_sql W (''SELECT '' @ idents cols @ '' FROM '' @ ident tbl) s = (Inr bs, s') \<and>
         hm_get (en_uniqueness e) ck = None \<and> ks = loaded_keys (length cols) sk bs))"
  using assms
  by (auto simp: check_uniqueness_against_table_cached_def ensure_uniqueness_loaded_def cached_keys_def
      hm_contains_def list_ex_iff split: if_splits prod.splits sum.splits option.splits)

text \<open>What validation of a constraint may change: only the cache, and only at its own key.\<close>

definition cache_frame :: "string \<Rightarrow> engine \<Rightarrow> engine \<Rightarrow> bool" where
  "cache_frame ck e e' \<longleftrightarrow>
     e'\<lparr>en_uniqueness := en_uniqueness e\<rparr> = e \<and>
     (\<forall>k. k \<noteq> ck \<longrightarrow> hm_get (en_uniqueness e') k = hm_get (en_uniqueness e) k)"

lemma cache_frame_refl [simp]: "cache_frame ck e e"
  by (simp add: cache_frame_def)

lemma ensure_frame:
  "ensure_uniqueness_loaded W ck tbl cols sk e s = (r, e', s') \<Longrightarrow> cache_frame ck e e'"
  by (auto simp: ensure_uniqueness_loaded_def cache_frame_def split: if_splits prod.splits sum.splits)

lemma check_frame:
  "check_uniqueness_against_table_cached W ck tbl cols values sk err e s = (r, e', s') \<Longrightarrow>
     cache_frame ck e e'"
  using ensure_frame
  by (fastforce simp: check_uniqueness_against_table_cached_def split: if_splits prod.splits sum.splits)

lemma validate_key_frame:
  "validate_key W tbl target batches sk ck err cols ms e s = (r, e', s') \<Longrightarrow> cache_frame ck e e'"
  by (auto simp: validate_key_def split: if_splits prod.splits sum.splits dest: check_frame)

lemma validate_key_Go:
  assumes "validate_key W tbl target batches sk ck err cols ms e s = (Go ms', e', s')"
  shows "\<exists>ts. scan_keys sk err (positions target cols) [] (batch_rows batches) = Inr ts \<and>
     (if ts = [] then ms' = ms \<and> e' = e
      else ms' = ms @ [(ck, ts)] \<and>
        check_uniqueness_against_table_cached W ck tbl cols ts sk err e s = (Inr (), e', s'))"
  using assms by (auto simp: validate_key_def split: if_splits prod.splits sum.splits)

fun constraint_cache_key :: "string \<Rightarrow> table_constraint \<Rightarrow> string option" where
  "constraint_cache_key tbl (PrimaryKey cols) = Some (uniqueness_cache_key_pk tbl cols)"
| "constraint_cache_key tbl (Unique nm cols) = Some (uniqueness_cache_key_unique tbl nm)"
| "constraint_cache_key tbl _ = None"

lemma validate_check_engine:
  "validate_check W tbl target batches now nm ex ms e s = (r, e', s') \<Longrightarrow> e' = e"
  by (auto simp: validate_check_def Let_def split: list.splits if_splits prod.splits sum.splits sql_error.splits)

lemma validate_one_frame:
  assumes "validate_one W tbl target batches ph now c ms e s = (r, e', s')"
    and "constraint_cache_key tbl c \<noteq> Some ck"
  shows "hm_get (en_uniqueness e') ck = hm_get (en_uniqueness e) ck"
  using assms
  by (cases c)
    (auto dest!: validate_key_frame validate_check_engine simp: cache_frame_def
      split: if_splits prod.splits sum.splits)

section \<open>All constraints\<close>

text \<open>
  Constraints whose validation does not end the whole validation early: key columns that the
  statement supplies, and CHECK conditions on a batch as wide as the list of columns that the engine can plan.
\<close>

fun fully_checked :: "'s world \<Rightarrow> nat \<Rightarrow> string list \<Rightarrow> record_batch list \<Rightarrow> table_constraint \<Rightarrow> bool" where
  "fully_checked W now target batches (PrimaryKey cols) = list_all (\<lambda>c. c \<in> set target) cols"
| "fully_checked W now target batches (Unique nm cols) = list_all (\<lambda>c. c \<in> set target) cols"
| "fully_checked W now target batches (Check nm ex) =
     (case filter (\<lambda>b. num_rows b > 0) batches of
        [] \<Rightarrow> True
      | b # bs \<Rightarrow> length (rb_fields b) = length target \<and>
          (\<forall>s m. fst (w_sql W (check_sql (''__potato_check_tmp_'' @ show_nat now) (rb_fields b) target ex) s) \<noteq>
             Inl (PlanError m)))"
| "fully_checked W now target batches (ForeignKey nm cols rt rcs od ou) = True"

lemma column_position_None: "column_position target c = None \<longleftrightarrow> c \<notin> set target"
  by (simp add: column_position_def map_of_eq_None_iff set_zip in_set_conv_nth image_iff)
    (metis in_set_conv_nth)

lemma validate_one_Return:
  assumes "validate_one W tbl target batches ph now c ms e s = (Return r, e', s')" and "fully_checked W now target batches c"
  shows "\<exists>x. r = Inl x"
proof -
  have "\<exists>x. r = Inl x" if "validate_key W tbl target batches sk ck err cols ms e s = (Return r, e', s')"
    "list_all (\<lambda>c. c \<in> set target) cols" for sk ck err cols
  proof -
    have "\<not> list_ex (\<lambda>c. column_position target c = None) cols"
      using that(2) by (simp add: list_ex_iff list_all_iff column_position_None)
    with that(1) show ?thesis
      by (auto simp: validate_key_def split: if_splits prod.splits sum.splits)
  qed
  moreover have "\<exists>x. r = Inl x" if "c = Check nm ex" for nm ex
  proof (cases "filter (\<lambda>b. num_rows b > 0) batches")
    case Nil
    with that assms(1) show ?thesis by (auto simp: validate_check_def split: if_splits)
  next
    case (Cons b bs)
    let ?tmp = "''__potato_check_tmp_'' @ show_nat now"
    have width: "length (rb_fields b) = length target" using that assms(2) Cons by simp
    have planned: "fst (w_sql W (check_sql ?tmp (rb_fields b) target ex) t) \<noteq> Inl (PlanError m)" for t m
      using that assms(2) Cons by simp
    obtain q1 s1 where reg: "w_register W ?tmp (b # bs) s = (q1, s1)" by (metis surj_pair)
    obtain q2 s2 where run: "w_sql W (check_sql ?tmp (rb_fields b) target ex) s1 = (q2, s2)" by (metis surj_pair)
    have ret: "validate_check W tbl target batches now nm ex ms e s = (Return r, e', s')"
      using that assms(1) by (simp split: if_splits)
    show ?thesis
    proof (cases q1)
      case (Inl m)
      with ret Cons reg width show ?thesis by (auto simp: validate_check_def Let_def)
    next
      case ok: (Inr u)
      show ?thesis
      proof (cases q2)
        case (Inl err)
        then show ?thesis
          using ret Cons reg width run ok planned [of s1] by (cases err) (auto simp: validate_check_def Let_def)
      next
        case (Inr out)
        with ret Cons reg width run ok show ?thesis by (auto simp: validate_check_def Let_def split: if_splits)
      qed
    qed
  qed
  moreover have "\<exists>x. r = Inl x" if "c = ForeignKey nm cols rt rcs od ou" for nm cols rt rcs od ou
    using assms(1) that by (auto split: if_splits prod.splits sum.splits)
  moreover have "\<exists>x. r = Inl x" if "c = PrimaryKey cols" for cols
    using assms that calculation(1) by (auto split: if_splits)
  moreover have "\<exists>x. r = Inl x" if "c = Unique nm cols" for nm cols
    using assms that calculation(1) by (auto split: if_splits)
  ultimately show ?thesis by (cases c) blast+
qed

lemma validate_one_Go:
  assumes "validate_one W tbl target batches ph now c ms e s = (Go ms', e', s')"
    and "constraint_cache_key tbl c \<noteq> Some ck"
  shows "\<exists>ex. ms' = ms @ ex \<and> ck \<notin> fst ` set ex"
  using assms
  by (cases c)
    (auto dest!: validate_key_Go simp: validate_check_def Let_def
      split: if_splits prod.splits sum.splits list.splits sql_error.splits)

lemma validate_each_others:
  assumes "validate_each W tbl target batches ph now cs ms e s = (Inr ms', e', s')"
    and "\<forall>c \<in> set cs. fully_checked W now target batches c \<and> constraint_cache_key tbl c \<noteq> Some ck"
  shows "\<exists>ex. ms' = ms @ ex \<and> ck \<notin> fst ` set ex \<and>
     hm_get (en_uniqueness e') ck = hm_get (en_uniqueness e) ck"
  using assms
proof (induction cs arbitrary: ms e s)
  case (Cons c cs)
  obtain out e1 s1 where one: "validate_one W tbl target batches ph now c ms e s = (out, e1, s1)"
    by (metis prod_cases3)
  show ?case
  proof (cases out)
    case (Go ms1)
    with one Cons.prems have "validate_each W tbl target batches ph now cs ms1 e1 s1 = (Inr ms', e', s')"
      by simp
    from Cons.IH [OF this] Cons.prems(2) obtain ex where
      ex: "ms' = ms1 @ ex" "ck \<notin> fst ` set ex" "hm_get (en_uniqueness e') ck = hm_get (en_uniqueness e1) ck"
      by auto
    from validate_one_Go [OF one [unfolded Go], of ck] Cons.prems(2) obtain ex1 where
      "ms1 = ms @ ex1" "ck \<notin> fst ` set ex1" by auto
    moreover have "hm_get (en_uniqueness e1) ck = hm_get (en_uniqueness e) ck"
      using validate_one_frame [OF one, of ck] Cons.prems(2) by auto
    ultimately show ?thesis using ex by auto
  next
    case (Return r)
    with validate_one_Return [OF one [unfolded Return]] Cons.prems one show ?thesis by auto
  qed
qed simp

lemma validate_each_append:
  assumes "validate_each W tbl target batches ph now (cs @ ds) ms e s = (Inr ms', e', s')"
    and "\<forall>c \<in> set cs. fully_checked W now target batches c"
  shows "\<exists>ms1 e1 s1. validate_each W tbl target batches ph now cs ms e s = (Inr ms1, e1, s1) \<and>
     validate_each W tbl target batches ph now ds ms1 e1 s1 = (Inr ms', e', s')"
  using assms
proof (induction cs arbitrary: ms e s)
  case (Cons c cs)
  obtain out e1 s1 where one: "validate_one W tbl target batches ph now c ms e s = (out, e1, s1)"
    by (metis prod_cases3)
  show ?case
  proof (cases out)
    case (Go ms1)
    with one Cons show ?thesis by simp
  next
    case (Return r)
    with validate_one_Return [OF one [unfolded Return]] Cons.prems one show ?thesis by auto
  qed
qed simp

lemma merge_get:
  "hm_get (en_uniqueness (merge_uniqueness_keys ck vs e)) k =
     (if k = ck then Some (fold (\<lambda>v ks. List.insert (row_key v) ks) vs (cached_keys e ck))
      else hm_get (en_uniqueness e) k)"
  by (simp add: merge_uniqueness_keys_def)

lemma set_fold_insert: "set (fold (\<lambda>v ks. List.insert (f v) ks) vs ks) = set ks \<union> f ` set vs"
  by (induction vs arbitrary: ks) auto

lemma apply_merges_other:
  "ck \<notin> fst ` set ms \<Longrightarrow> hm_get (en_uniqueness (apply_merges ms e)) ck = hm_get (en_uniqueness e) ck"
  unfolding apply_merges_def
  by (induction ms arbitrary: e) (auto simp: merge_get)

lemma apply_merges_one:
  assumes "ck \<notin> fst ` set a" "ck \<notin> fst ` set b"
  shows "\<exists>ks. hm_get (en_uniqueness (apply_merges (a @ (ck, vs) # b) e)) ck = Some ks \<and>
     set ks = set (cached_keys e ck) \<union> row_key ` set vs"
proof -
  let ?e = "apply_merges a e"
  have "apply_merges (a @ (ck, vs) # b) e = apply_merges b (merge_uniqueness_keys ck vs ?e)"
    by (simp add: apply_merges_def)
  moreover have "cached_keys ?e ck = cached_keys e ck"
    using apply_merges_other [OF assms(1)] by (simp add: cached_keys_def)
  ultimately show ?thesis
    using apply_merges_other [OF assms(2)] by (simp add: merge_get set_fold_insert)
qed

section \<open>Properties\<close>

text \<open>
  Keys. The text under which the cache keeps a row (the literals of its key columns,
  joined by the unit separator) determines the values of the row: two rows of the same
  columns have equal keys only if all their cells are equal, also when strings contain
  quotes or the separator.
\<close>

theorem row_key_determines_cells:
  assumes "list_all2 same_kind xs ys" and "list_all proper_cell xs" and "list_all proper_cell ys"
    and "row_key (map array_value_to_sql_literal xs) = row_key (map array_value_to_sql_literal ys)"
  shows "xs = ys"
proof -
  have "map array_value_to_sql_literal xs = map array_value_to_sql_literal ys"
    using assms by (intro row_key_inj) (auto simp: list_all_iff is_literal_cell dest: list_all2_lengthD)
  with assms(1-3) show ?thesis
  proof (induction xs ys rule: list_all2_induct)
    case (Cons x xs y ys)
    then show ?case using literal_cell_inj [of x y] by simp
  qed simp
qed

theorem row_key_determines_cells_witness:
  "row_key (map array_value_to_sql_literal [CText (''a'' @ quote # us @ [quote] @ ''b''), CNull]) \<noteq>
   row_key (map array_value_to_sql_literal [CText ''a'', CText (quote # ''b'')])"
  using row_key_determines_cells [of "[CText (''a'' @ quote # us @ [quote] @ ''b''), CNull]" "[CText ''a'', CText (quote # ''b'')]"]
  by auto

text \<open>
  C8. Primary keys stay unique. Let \<open>old\<close> be the key values of the stored rows, and let the
  cache hold their keys or load them by its query. If validation of a batch succeeds that supplies every
  column of the PRIMARY KEY and UNIQUE constraints and whose CHECK conditions can be planned, then no new
  row has a null key, the keys of the stored rows and the batch together are distinct
  whenever those of the stored rows are, and after the merge the cache holds exactly the keys
  of both. (Any other batch ends the validation at its first constraint that is not fully checked: see
  \<open>missing_key_column_is_not_checked\<close>.)
\<close>

theorem primary_keys_stay_unique:
  fixes W :: "'s world"
  assumes cs: "constraints_of e tbl = cs1 @ PrimaryKey cols # cs2"
    and ck: "ck = uniqueness_cache_key_pk tbl cols"
    and only: "\<forall>c \<in> set (cs1 @ cs2). constraint_cache_key tbl c \<noteq> Some ck"
    and full: "\<forall>c \<in> set (constraints_of e tbl). fully_checked W now target batches c"
    and cached: "\<forall>ks. hm_get (en_uniqueness e) ck = Some ks \<longrightarrow> set ks = row_key ` set old"
    and loads: "\<forall>t t' bs. run_sql W (''SELECT '' @ idents cols @ '' FROM '' @ ident tbl) t = (Inr bs, t') \<longrightarrow>
      set (loaded_keys (length cols) False bs) = row_key ` set old"
    and ok: "validate_constraints_batch W tbl target batches BeforeInsert now e s = (Inr ms, e', s')"
    and new: "new = map (key_tuple (positions target cols)) (batch_rows batches)"
  shows "(\<forall>t \<in> set new. ''NULL'' \<notin> set t) \<and>
     (distinct (map row_key old) \<longrightarrow> distinct (map row_key (old @ new))) \<and>
     (\<forall>ks. hm_get (en_uniqueness (apply_merges ms e')) ck = Some ks \<longrightarrow> set ks = row_key ` set (old @ new))"
proof (cases "batches = []")
  case True
  with ok new cached show ?thesis
    by (auto simp: validate_constraints_batch_def batch_rows_def apply_merges_def)
next
  case False
  have fc1: "\<forall>c \<in> set cs1. fully_checked W now target batches c \<and> constraint_cache_key tbl c \<noteq> Some ck"
    and fc2: "\<forall>c \<in> set cs2. fully_checked W now target batches c \<and> constraint_cache_key tbl c \<noteq> Some ck"
    using full only cs by auto
  from ok False have "validate_each W tbl target batches BeforeInsert now (cs1 @ PrimaryKey cols # cs2) [] e s =
      (Inr ms, e', s')"
    by (simp add: validate_constraints_batch_def cs)
  from validate_each_append [OF this] fc1 obtain ms1 e1 s1 where
    one: "validate_each W tbl target batches BeforeInsert now cs1 [] e s = (Inr ms1, e1, s1)" and
    two: "validate_each W tbl target batches BeforeInsert now (PrimaryKey cols # cs2) ms1 e1 s1 = (Inr ms, e', s')"
    by blast
  from validate_each_others [OF one fc1] have ms1: "ck \<notin> fst ` set ms1"
    and get1: "hm_get (en_uniqueness e1) ck = hm_get (en_uniqueness e) ck" by auto
  obtain out e2 s2 where key: "validate_one W tbl target batches BeforeInsert now (PrimaryKey cols) ms1 e1 s1 =
      (out, e2, s2)" by (metis prod_cases3)
  obtain ms2 where out: "out = Go ms2"
    and rest: "validate_each W tbl target batches BeforeInsert now cs2 ms2 e2 s2 = (Inr ms, e', s')"
  proof (cases out)
    case (Return r)
    with validate_one_Return [OF key [unfolded Return]] full cs two key show ?thesis by auto
  qed (use two key that in auto)
  from validate_each_others [OF rest fc2] obtain ex where ms: "ms = ms2 @ ex" "ck \<notin> fst ` set ex"
    and get2: "hm_get (en_uniqueness e') ck = hm_get (en_uniqueness e2) ck" by auto
  from key out have vk: "validate_key W tbl target batches False ck (pk_violation tbl cols) cols ms1 e1 s1 =
      (Go ms2, e2, s2)" by (simp add: ck)
  from validate_key_Go [OF vk] obtain ts where
    scan: "scan_keys False (pk_violation tbl cols) (positions target cols) [] (batch_rows batches) = Inr ts" and
    ts: "if ts = [] then ms2 = ms1 \<and> e2 = e1 else ms2 = ms1 @ [(ck, ts)] \<and>
      check_uniqueness_against_table_cached W ck tbl cols ts False (pk_violation tbl cols) e1 s1 = (Inr (), e2, s2)"
    by blast
  note sc = scan_keys_ok [OF scan]
  from sc have dis: "distinct (map row_key ts)" by blast
  from sc have nn: "\<forall>t \<in> set new. ''NULL'' \<notin> set t" unfolding new by (simp only: set_map) blast
  from sc have "ts = filter (\<lambda>t. ''NULL'' \<notin> set t) new" unfolding new by (elim conjE)
  with nn have tn: "ts = new" by simp
  show ?thesis
  proof (cases "new = []")
    case True
    with ts tn have "ms2 = ms1" "e2 = e1" by auto
    then have "ck \<notin> fst ` set ms" using ms ms1 by auto
    from apply_merges_other [OF this, of e'] True cached nn show ?thesis
      by (simp add: get2 \<open>e2 = e1\<close> get1)
  next
    case False
    with ts tn have ms2: "ms2 = ms1 @ [(ck, new)]" and
      chk: "check_uniqueness_against_table_cached W ck tbl cols new False (pk_violation tbl cols) e1 s1 = (Inr (), e2, s2)"
      by auto
    from cached_after_check [OF chk] obtain ks where ks: "hm_get (en_uniqueness e2) ck = Some ks"
      "\<forall>v \<in> set new. row_key v \<notin> set ks" "set ks = row_key ` set old"
      using cached loads get1 by metis
    have "distinct (map row_key old) \<longrightarrow> distinct (map row_key (old @ new))"
      using ks(2,3) dis tn by (auto simp: image_iff) metis
    moreover from apply_merges_one [OF ms1 ms(2), of new e'] ms ms2 obtain ks' where
      "hm_get (en_uniqueness (apply_merges ms e')) ck = Some ks'" "set ks' = set (cached_keys e' ck) \<union> row_key ` set new"
      by auto
    moreover have "cached_keys e' ck = ks" using ks(1) get2 by (simp add: cached_keys_def)
    ultimately show ?thesis using nn ks(3) by auto
  qed
qed

definition demo_world :: "unit world" where
  "demo_world = idle_world"

definition demo_meta :: table_meta where
  "demo_meta =
     \<lparr>tm_name = ''t'', tm_columns = [], tm_path = ''t'', tm_partition_columns = [], tm_statistics = None,
      tm_retention_seconds = None, tm_constraints = [PrimaryKey [''id'']], tm_file_stats = [],
      tm_deletion_vectors = []\<rparr>"

definition demo_engine :: engine where
  "demo_engine = engine_new (\<lambda>_. None) 0 LocalDisk [] [] None None (add_table demo_meta (with_data empty_data ''c''))"

definition key_batch :: record_batch where
  "key_batch = \<lparr>rb_fields = [''id''], rb_rows = [[CInt 1], [CText ''x'']]\<rparr>"

lemma demo_engine_simps:
  "constraints_of demo_engine ''t'' = [PrimaryKey [''id'']]" "en_uniqueness demo_engine = []"
  by (simp_all add: demo_engine_def engine_new_def bootstrap_users_def constraints_of_def add_table_def
      catalog_save_def with_data_def empty_data_def demo_meta_def Let_def)

lemma demo_query: "run_sql demo_world sql s = (Inr [], s)"
  by (simp add: run_sql_def demo_world_def idle_world_def)

theorem primary_keys_stay_unique_witness:
  "\<exists>ms e' s'. validate_constraints_batch demo_world ''t'' [''id''] [key_batch] BeforeInsert 0 demo_engine () =
       (Inr ms, e', s') \<and>
     (\<forall>ks. hm_get (en_uniqueness (apply_merges ms e')) (uniqueness_cache_key_pk ''t'' [''id'']) = Some ks \<longrightarrow>
        set ks = {''1'', [quote] @ ''x'' @ [quote]})"
proof -
  have keys: "map (key_tuple (positions [''id''] [''id''])) (batch_rows [key_batch]) =
      [[''1''], [[quote] @ ''x'' @ [quote]]]"
    by code_simp
  have scan: "scan_keys False err (positions [''id''] [''id'']) [] (batch_rows [key_batch]) =
      Inr [[''1''], [[quote] @ ''x'' @ [quote]]]" for err
    unfolding keys [symmetric]
    by (rule scan_keys_complete) code_simp+
  have "\<exists>ms e' s'. validate_constraints_batch demo_world ''t'' [''id''] [key_batch] BeforeInsert 0 demo_engine () =
      (Inr ms, e', s')"
    using scan column_position_None [of "[''id'']" "''id''", THEN iffD1]
    by (auto simp: validate_constraints_batch_def demo_engine_simps validate_key_def loaded_keys_def demo_query
        check_uniqueness_against_table_cached_def ensure_uniqueness_loaded_def hm_contains_def cached_keys_def)
  then obtain ms e' s' where v: "validate_constraints_batch demo_world ''t'' [''id''] [key_batch] BeforeInsert 0
      demo_engine () = (Inr ms, e', s')" by blast
  have "\<forall>ks. hm_get (en_uniqueness (apply_merges ms e')) (uniqueness_cache_key_pk ''t'' [''id'']) = Some ks \<longrightarrow>
      set ks = row_key ` set ([] @ [[''1''], [[quote] @ ''x'' @ [quote]]])"
    using primary_keys_stay_unique [OF _ refl _ _ _ _ v keys [symmetric], of "[]" "[]" "[]"]
    by (simp add: demo_engine_simps demo_query loaded_keys_def)
  then show ?thesis using v by (auto simp: row_key_def)
qed

text \<open>
  Rows without a key. When an INSERT names columns that leave out a primary-key column,
  the batch is not looked at: validation queries the stored table alone, and when that is in
  order, every batch passes, with the constraints behind the primary key left unchecked.
\<close>

theorem missing_key_column_is_not_checked:
  assumes "constraints_of e tbl = PrimaryKey cols # cs" and "c \<in> set cols" and "c \<notin> set target"
    and "validate_table_constraints W tbl e s = (Inr (), s')"
  shows "\<forall>batches. validate_constraints_batch W tbl target batches BeforeInsert now e s =
     (if batches = [] then (Inr [], e, s) else (Inr [], e, s'))"
  using assms
  by (auto simp: validate_constraints_batch_def validate_key_def list_ex_iff column_position_None)

theorem missing_key_column_is_not_checked_witness:
  "fst (validate_constraints_batch demo_world ''t'' [''v'']
      [\<lparr>rb_fields = [''v''], rb_rows = [[CInt 7], [CInt 7]]\<rparr>] BeforeInsert 0 demo_engine ()) = Inr []"
proof -
  have "validate_table_constraints demo_world ''t'' demo_engine () = (Inr (), ())"
    by (simp add: validate_table_constraints_def demo_engine_simps no_violation_def count_query_def demo_query
        scalar_count_def)
  from missing_key_column_is_not_checked [OF demo_engine_simps(1) _ _ this, of "''id''" "[''v'']" 0]
  show ?thesis by simp
qed

end
