(* ===== verification/Access.thy ===== *)
theory Access
  imports Engine
begin

text \<open>
  Users, roles and privileges: the access check of \<^verbatim>\<open>execute\<close> and the handlers of
  CREATE USER, CREATE ROLE, GRANT and REVOKE (\<^verbatim>\<open>crates/engine/src/lib.rs\<close>).
\<close>

section \<open>The check\<close>

definition privileges_in :: "catalog \<Rightarrow> string \<Rightarrow> privilege list" where
  "privileges_in c r = (case hm_get (cat_roles c) r of None \<Rightarrow> [] | Some d \<Rightarrow> rl_privileges d)"

definition current_user_is_admin :: "engine \<Rightarrow> bool" where
  "current_user_is_admin e \<longleftrightarrow>
     (case hm_get (cat_user_roles (en_catalog e)) (en_user e) of
        None \<Rightarrow> False
      | Some roles \<Rightarrow>
          list_ex (\<lambda>r. list_ex (\<lambda>p. pv_kind p = ''ALL'' \<or> pv_kind p = ''*'') (privileges_in (en_catalog e) r)) roles)"

definition user_has_privilege :: "string \<Rightarrow> string option \<Rightarrow> engine \<Rightarrow> bool" where
  "user_has_privilege action tbl e \<longleftrightarrow>
     current_user_is_admin e \<or>
     (case hm_get (cat_user_roles (en_catalog e)) (en_user e) of
        None \<Rightarrow> False
      | Some roles \<Rightarrow>
          list_ex (\<lambda>r. list_ex (\<lambda>p. (pv_kind p = ''ALL'' \<or> pv_kind p = action) \<and>
                                 (pv_table p = None \<or> pv_table p = tbl)) (privileges_in (en_catalog e) r)) roles)"

definition enforce_access :: "string \<Rightarrow> engine \<Rightarrow> (string, unit) result" where
  "enforce_access sql e =
     (if current_user_is_admin e then Inr ()
      else let action = to_uppercase (first_word sql);
               denied = ''permission denied for user '' @ [quote] @ en_user e @ [quote]
           in if action \<in> {''SELECT'', ''WITH'', ''SHOW'', ''DESCRIBE'', ''EXPLAIN''}
              then (if \<not> user_has_privilege ''SELECT'' None e then Inl (denied @ '' on '' @ action) else Inr ())
              else if \<not> user_has_privilege action None e
              then Inl (denied @ '' on statement '' @ [quote] @ action @ [quote]) else Inr ())"

section \<open>Users and roles\<close>

definition handle_create_user :: "string \<Rightarrow> engine \<Rightarrow> (string, query_result) result \<times> engine" where
  "handle_create_user sql e =
     (let tokens = split_whitespace (strip_statement sql) in
      if length tokens < 3 then (Inl ''CREATE USER requires a name'', e)
      else let nm = trim_matches dquote (tokens ! 2);
               password = (case find_ci sql ''PASSWORD'' of
                   None \<Rightarrow> []
                 | Some idx \<Rightarrow>
                     trim_end_matches (CHR '';'')
                       (trim_matches dquote (trim_matches quote (trim (drop (idx + length ''PASSWORD'') sql)))));
               c = en_catalog e;
               c' = c\<lparr>cat_users := hm_insert nm \<lparr>us_name = nm, us_password = password\<rparr> (cat_users c),
                      cat_user_roles := hm_or_insert nm [] (cat_user_roles c)\<rparr>
           in (Inr (Message (''User '' @ [quote] @ nm @ [quote] @ '' created.'')),
               with_catalog (catalog_save c') e))"

definition handle_create_role :: "string \<Rightarrow> engine \<Rightarrow> (string, query_result) result \<times> engine" where
  "handle_create_role sql e =
     (let tokens = split_whitespace (strip_statement sql) in
      if length tokens < 3 then (Inl ''CREATE ROLE requires a name'', e)
      else let role = trim_matches dquote (tokens ! 2);
               c = en_catalog e;
               c' = c\<lparr>cat_roles := hm_or_insert role \<lparr>rl_name = role, rl_privileges = []\<rparr> (cat_roles c)\<rparr>
           in (Inr (Message (''Role '' @ [quote] @ role @ [quote] @ '' created.'')),
               with_catalog (catalog_save c') e))"

section \<open>Grants\<close>

definition user_role :: "string \<Rightarrow> string" where
  "user_role u = ''__user_'' @ u"

text \<open>The role entry is created when missing; a privilege it has is not added again.\<close>

definition add_privilege :: "string \<Rightarrow> privilege \<Rightarrow> catalog \<Rightarrow> catalog" where
  "add_privilege role p c =
     c\<lparr>cat_roles := hm_modify role
         (\<lambda>d. if p \<in> set (rl_privileges d) then d else d\<lparr>rl_privileges := rl_privileges d @ [p]\<rparr>)
         (hm_or_insert role \<lparr>rl_name = role, rl_privileges = []\<rparr> (cat_roles c))\<rparr>"

definition add_user_role :: "string \<Rightarrow> string \<Rightarrow> catalog \<Rightarrow> catalog" where
  "add_user_role u role c =
     c\<lparr>cat_user_roles := hm_modify u (\<lambda>rs. if role \<in> set rs then rs else rs @ [role])
         (hm_or_insert u [] (cat_user_roles c))\<rparr>"

definition remove_privilege :: "string \<Rightarrow> string \<Rightarrow> string \<Rightarrow> catalog \<Rightarrow> catalog" where
  "remove_privilege role kind tbl c =
     c\<lparr>cat_roles := hm_modify role
         (\<lambda>d. d\<lparr>rl_privileges := filter (\<lambda>p. \<not> (pv_kind p = kind \<and> pv_table p = Some tbl)) (rl_privileges d)\<rparr>)
         (cat_roles c)\<rparr>"

definition handle_grant :: "string \<Rightarrow> engine \<Rightarrow> (string, query_result) result \<times> engine" where
  "handle_grant sql e =
     (let tokens = split_whitespace (strip_statement sql) in
      if length tokens < 6 then (Inl ''GRANT syntax: GRANT <PRIV> ON <TABLE> TO <ROLE|USER>'', e)
      else let privilege = to_uppercase (tokens ! 1);
               tbl = trim_matches dquote (tokens ! 3);
               target = trim_matches dquote (last tokens);
               entry = \<lparr>pv_kind = privilege, pv_table = Some tbl\<rparr>;
               c = en_catalog e;
               c' = (if hm_contains (cat_users c) target
                     then add_user_role target (user_role target) (add_privilege (user_role target) entry c)
                     else add_privilege target entry c)
           in (Inr (Message (''Granted '' @ [quote] @ privilege @ [quote] @ '' to '' @ [quote] @ target @ [quote] @ ''.'')),
               with_catalog (catalog_save c') e))"

definition handle_revoke :: "string \<Rightarrow> engine \<Rightarrow> (string, query_result) result \<times> engine" where
  "handle_revoke sql e =
     (let tokens = split_whitespace (strip_statement sql) in
      if length tokens < 6 then (Inl ''REVOKE syntax: REVOKE <PRIV> ON <TABLE> FROM <ROLE|USER>'', e)
      else let privilege = to_uppercase (tokens ! 1);
               tbl = trim_matches dquote (tokens ! 3);
               target = trim_matches dquote (last tokens);
               c = en_catalog e;
               c' = (if hm_contains (cat_users c) target
                     then remove_privilege (user_role target) privilege tbl c
                     else remove_privilege target privilege tbl c)
           in (Inr (Message (''Revoked '' @ [quote] @ privilege @ [quote] @ '' from '' @ [quote] @ target @ [quote] @ ''.'')),
               with_catalog (catalog_save c') e))"

section \<open>What the maps hold afterwards\<close>

lemma add_privilege_fields [simp]:
  "cat_user_roles (add_privilege r p c) = cat_user_roles c" "cat_users (add_privilege r p c) = cat_users c"
  "cat_roles (add_user_role u r c) = cat_roles c" "cat_users (add_user_role u r c) = cat_users c"
  "cat_user_roles (remove_privilege r k t c) = cat_user_roles c"
  by (simp_all add: add_privilege_def add_user_role_def remove_privilege_def)

text \<open>The roles of a user, and the privileges they give.\<close>

definition roles_of :: "catalog \<Rightarrow> string \<Rightarrow> string list" where
  "roles_of c u = (case hm_get (cat_user_roles c) u of None \<Rightarrow> [] | Some rs \<Rightarrow> rs)"

definition granted :: "catalog \<Rightarrow> string \<Rightarrow> privilege set" where
  "granted c u = (\<Union>r \<in> set (roles_of c u). set (privileges_in c r))"

lemma some_role:
  "(case hm_get (cat_user_roles c) u of None \<Rightarrow> False
    | Some roles \<Rightarrow> list_ex (\<lambda>r. list_ex P (privileges_in c r)) roles) \<longleftrightarrow> (\<exists>p \<in> granted c u. P p)"
  by (cases "hm_get (cat_user_roles c) u") (auto simp: granted_def roles_of_def list_ex_iff)

lemma admin_iff:
  "current_user_is_admin e \<longleftrightarrow>
     (\<exists>p \<in> granted (en_catalog e) (en_user e). pv_kind p = ''ALL'' \<or> pv_kind p = ''*'')"
  by (simp only: current_user_is_admin_def some_role)

lemma has_privilege_iff:
  "user_has_privilege action None e \<longleftrightarrow>
     current_user_is_admin e \<or>
     (\<exists>p \<in> granted (en_catalog e) (en_user e). pv_kind p = action \<and> pv_table p = None)"
  unfolding user_has_privilege_def some_role admin_iff by blast

lemma privileges_add:
  "set (privileges_in (add_privilege r p c) r') = set (privileges_in c r') \<union> (if r' = r then {p} else {})"
  by (auto simp: privileges_in_def add_privilege_def split: option.splits if_splits)

lemma roles_add:
  "set (roles_of (add_user_role u r c) u') = set (roles_of c u') \<union> (if u' = u then {r} else {})"
  by (auto simp: roles_of_def add_user_role_def split: option.splits if_splits)

lemma privileges_remove:
  "set (privileges_in (remove_privilege r k t c) r') =
     {p \<in> set (privileges_in c r'). \<not> (r' = r \<and> pv_kind p = k \<and> pv_table p = Some t)}"
  by (cases "hm_get (cat_roles c) r") (auto simp: privileges_in_def remove_privilege_def)

lemma access_frames [simp]:
  "privileges_in (add_user_role u r c) r' = privileges_in c r'"
  "privileges_in (catalog_save c) r' = privileges_in c r'"
  "roles_of (add_privilege r p c) u' = roles_of c u'"
  "roles_of (remove_privilege r k t c) u' = roles_of c u'"
  "roles_of (catalog_save c) u' = roles_of c u'"
  by (simp_all add: privileges_in_def roles_of_def add_user_role_def)

end
