(* ===== verification/Access_Props.thy ===== *)
theory Access_Props
  imports Access
begin

text \<open>
  What the access check decides, what a GRANT of ALL changes in its decisions, and that rights on tables
  change nothing.
\<close>

definition as_user :: "string \<Rightarrow> engine \<Rightarrow> engine" where
  "as_user u e = e\<lparr>en_user := u\<rparr>"

lemma as_user_simps [simp]:
  "en_user (as_user u e) = u" "en_catalog (as_user u e) = en_catalog e"
  by (simp_all add: as_user_def)

lemma access_iff:
  "enforce_access sql e = Inr () \<longleftrightarrow>
     (\<exists>p \<in> granted (en_catalog e) (en_user e).
        pv_kind p = ''ALL'' \<or> pv_kind p = ''*'' \<or>
        (pv_table p = None \<and>
         pv_kind p = (if is_read_only_sql sql then ''SELECT'' else to_uppercase (first_word sql))))"
  by (auto simp: enforce_access_def is_read_only_sql_def has_privilege_iff admin_iff Let_def
      split: if_splits)

definition demo_users :: engine where
  "demo_users =
     engine_new (\<lambda>_. None) 0 LocalDisk [] [] None None
       ((with_data empty_data ''c'')\<lparr>cat_users := [(''bob'', \<lparr>us_name = ''bob'', us_password = []\<rparr>)]\<rparr>)"

lemma demo_users_catalog:
  "en_catalog demo_users =
     (with_data empty_data ''c'')\<lparr>cat_users := [(''bob'', \<lparr>us_name = ''bob'', us_password = []\<rparr>)]\<rparr>"
  by (simp add: demo_users_def engine_new_def bootstrap_users_def Let_def)

lemma demo_tokens:
  "split_whitespace (strip_statement ''GRANT all ON t TO bob'') = [''GRANT'', ''all'', ''ON'', ''t'', ''TO'', ''bob'']"
  "split_whitespace (strip_statement ''GRANT select ON t TO bob;'') =
     [''GRANT'', ''select'', ''ON'', ''t'', ''TO'', ''bob'']"
  "split_whitespace (strip_statement ''GRANT select ON t TO dev'') =
     [''GRANT'', ''select'', ''ON'', ''t'', ''TO'', ''dev'']"
  "split_whitespace (strip_statement ''REVOKE select ON t FROM dev'') =
     [''REVOKE'', ''select'', ''ON'', ''t'', ''FROM'', ''dev'']"
  by code_simp+

lemma demo_trim: "trim_matches dquote ''bob'' = ''bob''" "trim_matches dquote ''dev'' = ''dev''"
  "to_uppercase ''all'' = ''ALL''" "to_uppercase ''select'' = ''SELECT''"
  by code_simp+

lemma grant_tokens:
  assumes "split_whitespace (strip_statement sql) = [w0, priv, w1, tbl, w2, target]"
  shows "en_catalog (snd (handle_grant sql e)) =
     catalog_save
       (let c = en_catalog e; t = trim_matches dquote target;
            p = \<lparr>pv_kind = to_uppercase priv, pv_table = Some (trim_matches dquote tbl)\<rparr>
        in if hm_contains (cat_users c) t
           then add_user_role t (user_role t) (add_privilege (user_role t) p c)
           else add_privilege t p c)"
  using assms by (simp add: handle_grant_def Let_def)

text \<open>
  GRANT ALL is unlimited. After GRANT ALL on one table to a user, the access check admits
  every statement of that user, on any table and of any kind.
\<close>

theorem grant_all_makes_admin:
  assumes "split_whitespace (strip_statement sql) = [w0, priv, w1, tbl, w2, target]"
    and "to_uppercase priv = ''ALL''" and "u = trim_matches dquote target"
    and "hm_contains (cat_users (en_catalog e)) u"
  shows "enforce_access any (as_user u (snd (handle_grant sql e))) = Inr ()"
proof -
  let ?p = "\<lparr>pv_kind = ''ALL'', pv_table = Some (trim_matches dquote tbl)\<rparr>"
  have "?p \<in> granted (en_catalog (snd (handle_grant sql e))) u"
    using assms by (auto simp: grant_tokens [OF assms(1)] granted_def roles_add privileges_add Let_def)
  then show ?thesis unfolding access_iff by (intro bexI [of _ ?p]) simp_all
qed

theorem grant_all_makes_admin_witness:
  "enforce_access ''DROP TABLE other'' (as_user ''bob'' (snd (handle_grant ''GRANT all ON t TO bob'' demo_users))) =
     Inr ()"
  by (rule grant_all_makes_admin [OF demo_tokens(1)])
    (simp_all add: demo_trim demo_users_catalog hm_contains_def)

section \<open>Rights on tables\<close>

text \<open>The statements on users and rights, those of GRANT and REVOKE that name ALL or * left out.\<close>

definition unlimited :: "string \<Rightarrow> bool" where
  "unlimited sql \<longleftrightarrow>
     (let tokens = split_whitespace (strip_statement sql)
      in 6 \<le> length tokens \<and> to_uppercase (tokens ! 1) \<in> {''ALL'', ''*''})"

inductive rights_step :: "engine \<Rightarrow> engine \<Rightarrow> bool" where
  user: "rights_step e (snd (handle_create_user sql e))"
| role: "rights_step e (snd (handle_create_role sql e))"
| grant: "\<not> unlimited sql \<Longrightarrow> rights_step e (snd (handle_grant sql e))"
| revoke: "\<not> unlimited sql \<Longrightarrow> rights_step e (snd (handle_revoke sql e))"

text \<open>What the check can look at, and that the role GRANT keeps for a user gives nobody else such a privilege.\<close>

definition deciding :: "privilege \<Rightarrow> bool" where
  "deciding p \<longleftrightarrow> pv_kind p = ''ALL'' \<or> pv_kind p = ''*'' \<or> pv_table p = None"

definition own_roles :: "catalog \<Rightarrow> bool" where
  "own_roles c \<longleftrightarrow> (\<forall>u. user_role u \<in> set (roles_of c u) \<or> (\<forall>p \<in> set (privileges_in c (user_role u)). \<not> deciding p))"

definition deciding_rights :: "catalog \<Rightarrow> string \<Rightarrow> privilege set" where
  "deciding_rights c u = {p \<in> granted c u. deciding p}"

lemma access_by_deciding:
  "deciding_rights (en_catalog e') (en_user e') = deciding_rights (en_catalog e) (en_user e) \<Longrightarrow>
     enforce_access sql e' = Inr () \<longleftrightarrow> enforce_access sql e = Inr ()"
  unfolding access_iff deciding_rights_def deciding_def set_eq_iff mem_Collect_eq by metis

lemma roles_none [simp]:
  "roles_of (c\<lparr>cat_users := us, cat_user_roles := hm_or_insert u [] (cat_user_roles c)\<rparr>) u' = roles_of c u'"
  "privileges_in (c\<lparr>cat_users := us, cat_user_roles := urs\<rparr>) r = privileges_in c r"
  "roles_of (c\<lparr>cat_roles := rs\<rparr>) u' = roles_of c u'"
  "privileges_in (c\<lparr>cat_roles := hm_or_insert nm \<lparr>rl_name = nm, rl_privileges = []\<rparr> (cat_roles c)\<rparr>) r = privileges_in c r"
  by (simp_all add: roles_of_def privileges_in_def split: option.split)

lemma user_role_inj [simp]: "user_role u = user_role t \<longleftrightarrow> u = t"
  by (simp add: user_role_def)

lemma rights_grow:
  assumes "own_roles c" and "\<not> deciding p"
  shows "deciding_rights (add_privilege r p c) u = deciding_rights c u" and "own_roles (add_privilege r p c)"
  using assms by (auto simp: deciding_rights_def granted_def own_roles_def privileges_add split: if_splits)

lemma own_role_added:
  assumes "own_roles c"
  shows "deciding_rights (add_user_role t (user_role t) c) u = deciding_rights c u" and "own_roles (add_user_role t (user_role t) c)"
proof -
  have "user_role t \<in> set (roles_of c t) \<or> (\<forall>p \<in> set (privileges_in c (user_role t)). \<not> deciding p)"
    using assms by (simp add: own_roles_def)
  then show "deciding_rights (add_user_role t (user_role t) c) u = deciding_rights c u"
    by (auto simp: deciding_rights_def granted_def roles_add split: if_splits)
  show "own_roles (add_user_role t (user_role t) c)"
    using assms by (auto simp: own_roles_def roles_add)
qed

lemma rights_shrink:
  assumes "own_roles c" and "k \<noteq> ''ALL''" "k \<noteq> ''*''"
  shows "deciding_rights (remove_privilege r k tbl c) u = deciding_rights c u \<and> own_roles (remove_privilege r k tbl c)"
  using assms by (auto simp: deciding_rights_def granted_def own_roles_def privileges_remove deciding_def)

lemma saved_rights [simp]:
  "deciding_rights (catalog_save c) u = deciding_rights c u" "own_roles (catalog_save c) = own_roles c"
  by (simp_all add: deciding_rights_def granted_def own_roles_def)

lemma rights_step_keeps:
  assumes "rights_step e e'" and "own_roles (en_catalog e)"
  shows "deciding_rights (en_catalog e') u = deciding_rights (en_catalog e) u \<and> own_roles (en_catalog e')"
  using assms
proof cases
  case (user sql)
  then show ?thesis
    using assms(2) by (simp add: handle_create_user_def Let_def deciding_rights_def granted_def own_roles_def)
next
  case (role sql)
  then show ?thesis
    using assms(2) by (simp add: handle_create_role_def Let_def deciding_rights_def granted_def own_roles_def)
next
  case (grant sql)
  let ?ts = "split_whitespace (strip_statement sql)"
  have "\<not> deciding \<lparr>pv_kind = to_uppercase (?ts ! 1), pv_table = Some t\<rparr>" if "6 \<le> length ?ts" for t
    using grant(2) that by (simp add: unlimited_def deciding_def Let_def)
  then show ?thesis
    using grant(1) assms(2) by (simp add: handle_grant_def Let_def rights_grow own_role_added)
next
  case (revoke sql)
  let ?ts = "split_whitespace (strip_statement sql)"
  have "to_uppercase (?ts ! 1) \<noteq> ''ALL'' \<and> to_uppercase (?ts ! 1) \<noteq> ''*''" if "6 \<le> length ?ts"
    using revoke(2) that by (simp add: unlimited_def Let_def)
  with rights_shrink [OF assms(2)] revoke(1) assms(2) show ?thesis by (auto simp: handle_revoke_def Let_def)
qed

lemma rights_steps_keep:
  "rights_step\<^sup>*\<^sup>* e e' \<Longrightarrow> own_roles (en_catalog e) \<Longrightarrow>
     deciding_rights (en_catalog e') u = deciding_rights (en_catalog e) u \<and> own_roles (en_catalog e')"
proof (induction rule: rtranclp_induct)
  case (step e1 e2)
  with rights_step_keeps [OF step.hyps(2)] show ?case by simp
qed simp

text \<open>
  C16. Rights on tables are without effect. Whatever CREATE USER, CREATE ROLE, GRANT and REVOKE statements are
  run, as long as no GRANT or REVOKE names ALL or *, the access check decides on every statement
  of every user as before: a GRANT of SELECT on a table admits nobody to anything, and its REVOKE shuts nobody out.
  The role that GRANT keeps for a user must not be a role with deciding privileges that the user lacks.
\<close>

theorem table_rights_decide_nothing:
  assumes "rights_step\<^sup>*\<^sup>* e e'" and "own_roles (en_catalog e)"
  shows "enforce_access sql (as_user u e') = Inr () \<longleftrightarrow> enforce_access sql (as_user u e) = Inr ()"
  using rights_steps_keep [OF assms] by (intro access_by_deciding) simp

theorem table_rights_decide_nothing_witness:
  "enforce_access ''SELECT * FROM t'' (as_user ''bob'' (snd (handle_grant ''GRANT select ON t TO bob;''
     (snd (handle_create_user ''CREATE USER eve'' demo_users))))) \<noteq> Inr ()"
proof -
  have "enforce_access ''SELECT * FROM t'' (as_user ''bob'' demo_users) \<noteq> Inr ()"
    unfolding access_iff by (simp add: demo_users_catalog granted_def roles_of_def with_data_def empty_data_def)
  moreover have "own_roles (en_catalog demo_users)"
    by (simp add: demo_users_catalog own_roles_def privileges_in_def user_role_def with_data_def empty_data_def)
  moreover have "\<not> unlimited ''GRANT select ON t TO bob;''" by (simp add: unlimited_def demo_tokens demo_trim)
  then have "rights_step\<^sup>*\<^sup>* demo_users (snd (handle_grant ''GRANT select ON t TO bob;''
     (snd (handle_create_user ''CREATE USER eve'' demo_users))))"
    by (rule rtranclp.rtrancl_into_rtrancl [OF r_into_rtranclp [where r = rights_step, OF rights_step.user] rights_step.grant])
  ultimately show ?thesis using table_rights_decide_nothing by blast
qed

text \<open>
  REVOKE undoes GRANT. Revoking a privilege on a table from a role that GRANT gave it to
  leaves the role with exactly its earlier privileges other than this one, and every other
  role as it was.
\<close>

theorem revoke_undoes_grant:
  assumes grant: "split_whitespace (strip_statement g) = [w0, priv, w1, tbl, w2, target]"
    and revoke: "split_whitespace (strip_statement r) = [x0, priv, x1, tbl, x2, target]"
    and role: "\<not> hm_contains (cat_users (en_catalog e)) (trim_matches dquote target)"
  shows "set (privileges_in (en_catalog (snd (handle_revoke r (snd (handle_grant g e))))) rl) =
     set (privileges_in (en_catalog e) rl) -
       (if rl = trim_matches dquote target
        then {\<lparr>pv_kind = to_uppercase priv, pv_table = Some (trim_matches dquote tbl)\<rparr>} else {})"
proof -
  let ?t = "trim_matches dquote target"
  have "\<not> hm_contains (cat_users (en_catalog (snd (handle_grant g e)))) ?t"
    using role by (simp add: grant_tokens [OF grant] Let_def)
  then have "en_catalog (snd (handle_revoke r (snd (handle_grant g e)))) =
      catalog_save (remove_privilege ?t (to_uppercase priv) (trim_matches dquote tbl)
        (en_catalog (snd (handle_grant g e))))"
    using revoke by (simp add: handle_revoke_def Let_def)
  then show ?thesis
    using role by (auto simp: privileges_remove privileges_add grant_tokens [OF grant] Let_def split: if_splits)
qed

theorem revoke_undoes_grant_witness:
  "set (privileges_in (en_catalog (snd (handle_revoke ''REVOKE select ON t FROM dev''
      (snd (handle_grant ''GRANT select ON t TO dev'' demo_users))))) ''dev'') = {}"
  by (subst revoke_undoes_grant [OF demo_tokens(3,4)])
    (simp_all add: demo_trim demo_users_catalog hm_contains_def privileges_in_def with_data_def empty_data_def)

end
