(* ===== verification/Arrow_Props.thy ===== *)
theory Arrow_Props
  imports Arrow_Wal
begin

text \<open>
  The Arrow log implements a log of batches per table: what recovery returns after any history
  of appends, checkpoints and reopenings, and where that ends.
\<close>

section \<open>The abstract log\<close>

datatype awal_op =
    AAppend string "record_batch list" nat
  | ACheckpoint string
  | ACheckpointAll
  | AReopen arrow_wal_config nat

fun awal_apply :: "ipc \<Rightarrow> awal_op \<Rightarrow> arrow_wal \<Rightarrow> arrow_wal" where
  "awal_apply ip (AAppend t bs now) w = snd (awal_append ip t bs now w)"
| "awal_apply ip (ACheckpoint t) w = checkpoint_table t w"
| "awal_apply ip ACheckpointAll w = checkpoint_all w"
| "awal_apply ip (AReopen cfg now) w = open_with_config (aw_dirs w) cfg now"

fun spec_apply :: "awal_op \<Rightarrow> (string \<Rightarrow> record_batch list) \<Rightarrow> (string \<Rightarrow> record_batch list)" where
  "spec_apply (AAppend t bs now) m = m(t := m t @ bs)"
| "spec_apply (ACheckpoint t) m = m(t := [])"
| "spec_apply ACheckpointAll m = (\<lambda>_. [])"
| "spec_apply (AReopen cfg now) m = m"

fun is_append :: "awal_op \<Rightarrow> bool" where
  "is_append (AAppend t bs now) = True"
| "is_append _ = False"

text \<open>The IPC codec writes the batches of an append and reads them back.\<close>

definition ipc_ok :: "ipc \<Rightarrow> record_batch list \<Rightarrow> bool" where
  "ipc_ok ip bs \<longleftrightarrow> (case ipc_write ip bs of Inl err \<Rightarrow> False | Inr b \<Rightarrow> ipc_read ip b = Inr bs)"

fun op_ok :: "ipc \<Rightarrow> awal_op \<Rightarrow> bool" where
  "op_ok ip (AAppend t bs now) = ipc_ok ip bs"
| "op_ok ip _ = True"

fun or_empty :: "'a list option \<Rightarrow> 'a list" where
  "or_empty None = []"
| "or_empty (Some xs) = xs"

section \<open>The invariant\<close>

text \<open>The files of a table are numbered upwards in the order they were written, up to \<open>k\<close>.\<close>

definition numbered :: "(nat \<times> arrow_file) list \<Rightarrow> (string, arrow_file) hashmap" where
  "numbered nfs = map (\<lambda>(n, f). (arrow_name n, f)) nfs"

definition files_ok :: "nat \<Rightarrow> (string, arrow_file) hashmap \<Rightarrow> bool" where
  "files_ok k fs \<longleftrightarrow>
     (\<exists>nfs. fs = numbered nfs \<and> sorted_wrt (<) (map fst nfs) \<and> (\<forall>n \<in> set (map fst nfs). n \<le> k))"

definition awal_inv :: "nat \<Rightarrow> arrow_wal \<Rightarrow> bool" where
  "awal_inv k w \<longleftrightarrow>
     hm_wf (aw_dirs w) \<and> (\<forall>(t, fs) \<in> set (aw_dirs w). files_ok (aw_seq w) fs) \<and>
     (\<forall>t \<in> set (aw_known w). hm_contains (aw_dirs w) t) \<and> aw_seq w \<le> k"

definition awal_abs :: "ipc \<Rightarrow> arrow_wal \<Rightarrow> (string \<Rightarrow> record_batch list) \<Rightarrow> bool" where
  "awal_abs ip w m \<longleftrightarrow>
     (\<forall>t. read_files ip (or_empty (hm_get (aw_dirs w) t)) = Inr (m t))"

lemma map_fst_numbered: "map fst (numbered nfs) = map arrow_name (map fst nfs)"
  by (simp add: numbered_def split_beta)

lemma files_ok_mono: "files_ok j fs \<Longrightarrow> j \<le> k \<Longrightarrow> files_ok k fs"
  unfolding files_ok_def by (elim exE, rule exI) auto

lemma files_ok_Nil: "files_ok k []"
  unfolding files_ok_def by (rule exI [of _ "[]"]) (simp add: numbered_def)

lemma arrow_name_inj: "m < 10 ^ 6 \<Longrightarrow> n < 10 ^ 6 \<Longrightarrow> arrow_name m = arrow_name n \<Longrightarrow> m = n"
  using arrow_name_order [of m n] arrow_name_order [of n m] by (cases m n rule: linorder_cases) auto

lemma hm_insert_new: "k \<notin> fst ` set m \<Longrightarrow> hm_insert k v m = m @ [(k, v)]"
  unfolding hm_insert_def by (induction m) auto

lemma files_ok_insert:
  assumes "files_ok k fs" and "Suc k < 10 ^ 6"
  shows "hm_insert (arrow_name (Suc k)) f fs = fs @ [(arrow_name (Suc k), f)] \<and>
     files_ok (Suc k) (fs @ [(arrow_name (Suc k), f)])"
proof -
  from assms(1) obtain nfs where nfs: "fs = numbered nfs"
    "sorted_wrt (<) (map fst nfs)" "\<forall>n \<in> set (map fst nfs). n \<le> k"
    unfolding files_ok_def by blast
  have "arrow_name (Suc k) \<notin> set (map fst fs)"
  proof
    assume "arrow_name (Suc k) \<in> set (map fst fs)"
    then obtain n where "n \<in> set (map fst nfs)" "arrow_name (Suc k) = arrow_name n"
      unfolding nfs(1) map_fst_numbered by auto
    with nfs(3) assms(2) arrow_name_inj [of "Suc k" n] show False by auto
  qed
  moreover have "files_ok (Suc k) (fs @ [(arrow_name (Suc k), f)])"
    unfolding files_ok_def
  proof (intro exI conjI)
    show "fs @ [(arrow_name (Suc k), f)] = numbered (nfs @ [(Suc k, f)])"
      by (simp add: nfs(1) numbered_def)
    show "sorted_wrt (<) (map fst (nfs @ [(Suc k, f)]))" "\<forall>n \<in> set (map fst (nfs @ [(Suc k, f)])). n \<le> Suc k"
      using nfs(2,3) by (auto simp: sorted_wrt_append less_Suc_eq_le)
  qed
  ultimately show ?thesis by (simp add: hm_insert_new)
qed

lemma files_ok_sorted:
  assumes "files_ok k fs" and "k < 10 ^ 6"
  shows "arrow_files fs = fs"
proof -
  from assms(1) obtain nfs where nfs: "fs = numbered nfs"
    "sorted_wrt (<) (map fst nfs)" "\<forall>n \<in> set (map fst nfs). n \<le> k"
    unfolding files_ok_def by blast
  have "sorted_wrt (\<lambda>m n. arrow_name m < arrow_name n) (map fst nfs)"
    by (rule sorted_wrt_mono_rel [OF _ nfs(2)])
      (meson arrow_name_order assms(2) le_less_trans nfs(3))
  then have "sorted_wrt (<) (map fst fs)"
    by (simp add: nfs(1) map_fst_numbered sorted_wrt_map)
  then have "sorted (map fst fs)" by (simp add: sorted_wrt_mono_rel strict_sorted_imp_sorted)
  moreover have "filter (\<lambda>(nm, f). extension nm = Some ''arrow'') fs = fs"
    by (auto simp: nfs(1) numbered_def arrow_name_parts intro!: filter_True)
  ultimately show ?thesis by (simp add: arrow_files_def sort_key_id_if_sorted)
qed

lemma read_files_append:
  "read_files ip (fs @ gs) =
     (case read_files ip fs of
        Inl err \<Rightarrow> Inl err
      | Inr bs \<Rightarrow> (case read_files ip gs of Inl err \<Rightarrow> Inl err | Inr cs \<Rightarrow> Inr (bs @ cs)))"
  by (induction fs) (auto split: sum.splits)

text \<open>The highest number found when the log is opened again.\<close>

lemma fold_max_le: "fold max ns n \<le> k \<longleftrightarrow> (\<forall>m \<in> set (n # ns). m \<le> (k::nat))"
  by (induction ns arbitrary: n) auto

lemma fold_max_ge: "m \<in> set (n # ns) \<Longrightarrow> m \<le> fold max ns (n::nat)"
  using fold_max_le [of ns n "fold max ns n"] by auto

lemma parse_arrow_name: "n < 10 ^ 6 \<Longrightarrow> parse_u64 (file_stem (arrow_name n)) = Some n"
  using pad6_digits [of n] unfolding arrow_name_parts
  by (cases "pad6 n") (auto simp: parse_unsigned_def u64_max_def is_digit_def)

lemma set_map_filter: "y \<in> set (List.map_filter f xs) \<longleftrightarrow> (\<exists>x \<in> set xs. f x = Some y)"
  by (induction xs) (auto simp: map_filter_simps split: option.splits)

lemma map_filter_subset:
  "set xs \<subseteq> set ys \<Longrightarrow> set (List.map_filter f xs) \<subseteq> set (List.map_filter f ys)"
  unfolding subset_iff set_map_filter by blast

lemma map_filter_numbered:
  assumes "\<forall>n \<in> set (map fst nfs). n < 10 ^ 6"
  shows "List.map_filter (\<lambda>(nm, f). parse_u64 (file_stem nm)) (numbered nfs) = map fst nfs"
  using assms
  by (induction nfs) (auto simp: numbered_def map_filter_simps parse_arrow_name)

lemma max_existing_bound:
  assumes "\<forall>(t, fs) \<in> set ds. files_ok k fs" and "k < 10 ^ 6"
  shows "case max_existing_seq ds of
      None \<Rightarrow> \<forall>(t, fs) \<in> set ds. fs = []
    | Some n \<Rightarrow> n \<le> k \<and> (\<forall>(t, fs) \<in> set ds. files_ok n fs)"
proof -
  let ?ns = "List.map_filter (\<lambda>(nm, f). parse_u64 (file_stem nm)) (concat (hm_values ds))"
  have numbered: "\<exists>nfs. fs = numbered nfs \<and> sorted_wrt (<) (map fst nfs) \<and> (\<forall>n \<in> set (map fst nfs). n \<le> k) \<and>
      set (map fst nfs) \<subseteq> set ?ns" if "(t, fs) \<in> set ds" for t fs
  proof -
    from that assms(1) obtain nfs where nfs: "fs = numbered nfs" "sorted_wrt (<) (map fst nfs)"
      "\<forall>n \<in> set (map fst nfs). n \<le> k" unfolding files_ok_def by blast
    have "set fs \<subseteq> set (concat (hm_values ds))"
      using that by (force simp: hm_values_def)
    from map_filter_subset [OF this, of "\<lambda>(nm, f). parse_u64 (file_stem nm)"]
    have "set (map fst nfs) \<subseteq> set ?ns"
      using map_filter_numbered [of nfs] nfs(1,3) assms(2) by fastforce
    with nfs show ?thesis by blast
  qed
  have le: "n \<le> k" if "n \<in> set ?ns" for n
  proof -
    from that obtain nm f where nf: "(nm, f) \<in> set (concat (hm_values ds))"
      "parse_u64 (file_stem nm) = Some n" by (auto simp: set_map_filter)
    then obtain t fs where fs: "(t, fs) \<in> set ds" "(nm, f) \<in> set fs" by (auto simp: hm_values_def)
    from numbered [OF fs(1)] obtain nfs where nfs: "fs = numbered nfs" "\<forall>n \<in> set (map fst nfs). n \<le> k" by blast
    with fs(2) obtain m where m: "m \<in> set (map fst nfs)" "nm = arrow_name m"
      unfolding numbered_def by force
    with nf(2) nfs(2) assms(2) parse_arrow_name [of m] show ?thesis by fastforce
  qed
  show ?thesis
  proof (cases ?ns)
    case Nil
    have "\<forall>(t, fs) \<in> set ds. fs = []"
      using numbered unfolding Nil by (fastforce simp: numbered_def)
    then show ?thesis by (simp add: max_existing_seq_def Nil)
  next
    case (Cons n ns)
    let ?m = "fold max ns n"
    have "?m \<le> k" using le unfolding Cons by (subst fold_max_le) blast
    moreover have "files_ok ?m fs" if in_ds: "(t, fs) \<in> set ds" for t fs
    proof -
      from numbered [OF in_ds] obtain nfs where nfs: "fs = numbered nfs" "sorted_wrt (<) (map fst nfs)"
        "set (map fst nfs) \<subseteq> set (n # ns)" unfolding Cons by blast
      then have "\<forall>n' \<in> set (map fst nfs). n' \<le> ?m" using fold_max_ge [of _ n ns] by blast
      with nfs(1,2) show ?thesis unfolding files_ok_def by blast
    qed
    ultimately show ?thesis by (auto simp: max_existing_seq_def Cons)
  qed
qed

lemma in_set_get: "hm_wf m \<Longrightarrow> (k, v) \<in> set m \<longleftrightarrow> hm_get m k = Some v"
  by (auto simp: hm_wf_def intro: map_of_SomeD map_of_is_SomeI)

lemma awal_invD:
  "awal_inv k w \<Longrightarrow> hm_get (aw_dirs w) t = Some fs \<Longrightarrow> files_ok (aw_seq w) fs"
  by (auto simp: awal_inv_def dest: map_of_SomeD)

lemma awal_invI:
  "hm_wf (aw_dirs w) \<Longrightarrow> (\<And>t fs. hm_get (aw_dirs w) t = Some fs \<Longrightarrow> files_ok (aw_seq w) fs) \<Longrightarrow>
     (\<And>t. t \<in> set (aw_known w) \<Longrightarrow> hm_contains (aw_dirs w) t) \<Longrightarrow> aw_seq w \<le> k \<Longrightarrow> awal_inv k w"
  by (auto simp: awal_inv_def in_set_get)

lemma append_step:
  assumes ip: "ipc_ok ip bs" and inv: "awal_inv k w" and ab: "awal_abs ip w m" and k: "Suc k < 10 ^ 6"
    and ne: "bs \<noteq> []"
  shows "\<exists>w'. awal_append ip t bs now w = (Inr (), w') \<and> awal_inv (Suc k) w' \<and>
     awal_abs ip w' (m(t := m t @ bs))"
proof -
  obtain b where b: "ipc_write ip bs = Inr b" "ipc_read ip b = Inr bs"
    using ip by (auto simp: ipc_ok_def split: sum.splits)
  define ds where "ds = (if t \<in> set (aw_known w) then aw_dirs w else hm_or_insert t [] (aw_dirs w))"
  from inv have wf: "hm_wf (aw_dirs w)" and known: "\<forall>t \<in> set (aw_known w). hm_contains (aw_dirs w) t"
    and seq: "aw_seq w \<le> k" by (auto simp: awal_inv_def)
  define fs where "fs = or_empty (hm_get (aw_dirs w) t)"
  have get: "hm_get ds t' = (if t' = t then Some fs else hm_get (aw_dirs w) t')" for t'
    using known by (cases "hm_get (aw_dirs w) t") (auto simp: ds_def fs_def hm_contains_def)
  have wf': "hm_wf ds" using wf by (simp add: ds_def)
  have ok: "files_ok (aw_seq w) fs"
    using awal_invD [OF inv] by (cases "hm_get (aw_dirs w) t") (auto simp: fs_def files_ok_Nil)
  have rd: "read_files ip fs = Inr (m t)"
    using ab by (simp add: awal_abs_def fs_def)
  let ?name = "arrow_name (Suc (aw_seq w))"
  from files_ok_insert [OF ok] seq k
  have ins: "hm_insert ?name f fs = fs @ [(?name, f)]" "files_ok (Suc (aw_seq w)) (fs @ [(?name, f)])" for f
    by auto
  obtain w' f where w': "awal_append ip t bs now w = (Inr (), w')"
    and dirs: "aw_dirs w' = hm_modify t (hm_insert ?name f) ds" and f: "af_bytes f = b"
    and rest: "aw_seq w' = Suc (aw_seq w)" "set (aw_known w') \<subseteq> insert t (set (aw_known w))"
  proof (rule that)
    show "awal_append ip t bs now w = (Inr (), snd (awal_append ip t bs now w))"
      using ne b get [of t]
      by (auto simp: awal_append_def Let_def ds_def hm_contains_def split: if_splits)
    show "aw_dirs (snd (awal_append ip t bs now w)) = hm_modify t (hm_insert ?name
        \<lparr>af_bytes = b, af_synced = should_sync (ac_policy (aw_cfg w)) (u64_saturating_add (aw_since_sync w) 1)
            (now - aw_last_sync w)\<rparr>) ds"
      "aw_seq (snd (awal_append ip t bs now w)) = Suc (aw_seq w)"
      "set (aw_known (snd (awal_append ip t bs now w))) \<subseteq> insert t (set (aw_known w))"
      using ne b get [of t]
      by (auto simp: awal_append_def Let_def ds_def hm_contains_def split: if_splits)
  qed simp
  have get': "hm_get (aw_dirs w') t' = (if t' = t then Some (fs @ [(?name, f)]) else hm_get (aw_dirs w) t')" for t'
    using get by (simp add: dirs ins(1))
  have "awal_inv (Suc k) w'"
  proof (rule awal_invI)
    show "hm_wf (aw_dirs w')" using wf' by (simp add: dirs)
    show "files_ok (aw_seq w') fs'" if "hm_get (aw_dirs w') t' = Some fs'" for t' fs'
      using that ins(2) awal_invD [OF inv] files_ok_mono [of "aw_seq w" _ "Suc (aw_seq w)"]
      by (auto simp: get' rest(1) split: if_splits)
    show "hm_contains (aw_dirs w') t'" if "t' \<in> set (aw_known w')" for t'
      using that rest(2) known by (auto simp: hm_contains_def get')
    show "aw_seq w' \<le> Suc k" using seq by (simp add: rest(1))
  qed
  moreover have "awal_abs ip w' (m(t := m t @ bs))"
    using ab rd f b(2) by (simp add: awal_abs_def get' read_files_append)
  ultimately show ?thesis using w' by blast
qed

lemma awal_step:
  assumes "op_ok ip p" and "awal_inv k w" and "awal_abs ip w m"
    and "k' = k + (if is_append p then 1 else 0)" and "k' < 10 ^ 6"
  shows "awal_inv k' (awal_apply ip p w) \<and> awal_abs ip (awal_apply ip p w) (spec_apply p m)"
proof (cases p)
  case (AAppend t bs now)
  show ?thesis
  proof (cases "bs = []")
    case True
    with AAppend assms show ?thesis by (auto simp: awal_append_def awal_inv_def)
  next
    case False
    with append_step [OF _ assms(2,3) _ False, of t now] AAppend assms(1,4,5) show ?thesis by auto
  qed
next
  case (ACheckpoint t)
  have "awal_inv k (checkpoint_table t w)"
    using assms(2)
    by (intro awal_invI)
      (auto simp: checkpoint_table_def awal_inv_def hm_contains_def dest: awal_invD [OF assms(2)] split: if_splits)
  moreover have "awal_abs ip (checkpoint_table t w) (m(t := []))"
    using assms(2,3) by (auto simp: checkpoint_table_def awal_abs_def awal_inv_def)
  ultimately show ?thesis using ACheckpoint assms(4) by simp
next
  case ACheckpointAll
  with assms show ?thesis by (auto simp: checkpoint_all_def awal_abs_def awal_inv_def)
next
  case (AReopen cfg now)
  from assms(2) have "\<forall>(t, fs) \<in> set (aw_dirs w). files_ok (aw_seq w) fs" "aw_seq w < 10 ^ 6" "aw_seq w \<le> k"
    using assms(4,5) by (auto simp: awal_inv_def)
  from max_existing_bound [OF this(1,2)] this(3) show ?thesis
    using AReopen assms
    by (auto simp: open_with_config_def awal_abs_def awal_inv_def files_ok_Nil split: option.splits)
qed

lemma awal_run:
  assumes "list_all (op_ok ip) ps" and "awal_inv k w" and "awal_abs ip w m"
    and "k + length (filter is_append ps) < 10 ^ 6"
  shows "awal_inv (k + length (filter is_append ps)) (fold (awal_apply ip) ps w) \<and>
     awal_abs ip (fold (awal_apply ip) ps w) (fold spec_apply ps m)"
  using assms
proof (induction ps arbitrary: k w m)
  case (Cons p ps)
  let ?k = "k + (if is_append p then 1 else 0)"
  have bound: "?k + length (filter is_append ps) < 10 ^ 6" using Cons.prems(4) by auto
  from Cons.prems(1) have "op_ok ip p" "list_all (op_ok ip) ps" by simp_all
  from awal_step [OF this(1) Cons.prems(2,3) refl] bound
  have "awal_inv ?k (awal_apply ip p w)" "awal_abs ip (awal_apply ip p w) (spec_apply p m)" by auto
  from Cons.IH [OF \<open>list_all (op_ok ip) ps\<close> this bound] show ?case by (cases "is_append p") simp_all
qed simp

section \<open>Recovery\<close>

lemma read_tables_all:
  "(\<And>t fs. (t, fs) \<in> set ts \<Longrightarrow> read_files ip (arrow_files fs) = Inr (g t)) \<Longrightarrow>
     read_tables ip ts = Inr (map (\<lambda>(t, fs). (t, g t)) ts)"
proof (induction ts)
  case (Cons x ts)
  obtain t fs where x: "x = (t, fs)" by force
  from Cons.prems [of t fs] Cons.IH [OF Cons.prems] show ?case by (simp add: x)
qed simp

lemma or_empty_map_of:
  "(\<And>t'. t' \<notin> fst ` set ts \<Longrightarrow> g t' = []) \<Longrightarrow> or_empty (hm_get (map (\<lambda>(t, fs). (t, g t)) ts) t) = g t"
proof -
  assume *: "\<And>t'. t' \<notin> fst ` set ts \<Longrightarrow> g t' = []"
  have "hm_get (map (\<lambda>(t, fs). (t, g t)) ts) t = (if t \<in> fst ` set ts then Some (g t) else None)"
    by (induction ts) auto
  with * show ?thesis by simp
qed

lemma awal_recovers:
  assumes "awal_inv k w" and "awal_abs ip w m" and "k < 10 ^ 6"
  shows "\<exists>r. awal_recover ip (aw_dirs w) = Inr r \<and> (\<forall>t. or_empty (hm_get r t) = m t)"
proof -
  have wf: "hm_wf (aw_dirs w)" and seq: "aw_seq w < 10 ^ 6" using assms(1,3) by (auto simp: awal_inv_def)
  have files: "read_files ip (arrow_files fs) = Inr (m t)" if "(t, fs) \<in> set (sort_key fst (aw_dirs w))" for t fs
  proof -
    from that wf have get: "hm_get (aw_dirs w) t = Some fs" by (simp add: in_set_get)
    with assms(2) have "read_files ip (or_empty (Some fs)) = Inr (m t)" unfolding awal_abs_def by metis
    with files_ok_sorted [OF awal_invD [OF assms(1) get] seq] show ?thesis by simp
  qed
  have "awal_recover ip (aw_dirs w) = Inr (map (\<lambda>(t, fs). (t, m t)) (sort_key fst (aw_dirs w)))"
    unfolding awal_recover_def by (rule read_tables_all) (rule files)
  moreover have "m t = []" if "t \<notin> fst ` set (sort_key fst (aw_dirs w))" for t
  proof -
    from that have "hm_get (aw_dirs w) t = None" by (simp add: map_of_eq_None_iff)
    with assms(2) have "read_files ip (or_empty None) = Inr (m t)" unfolding awal_abs_def by metis
    then show ?thesis by simp
  qed
  ultimately show ?thesis using or_empty_map_of [of "sort_key fst (aw_dirs w)" m] by blast
qed

lemma fresh_log:
  "awal_inv 0 (open_with_config [] cfg now)" "awal_abs ip (open_with_config [] cfg now) (\<lambda>_. [])"
  by (simp_all add: awal_inv_def awal_abs_def open_with_config_def max_existing_seq_def map_filter_simps hm_values_def)

text \<open>
  C6. the Arrow log refines a list of batches per table. Start with an empty directory and
  apply any sequence of appends, table checkpoints, full checkpoints and reopenings with fewer
  than a million appends: recovery succeeds, and for every table it returns exactly the batches
  appended since the table's last checkpoint, in the order of the appends.
\<close>

theorem arrow_log_returns_what_was_appended:
  assumes "list_all (op_ok ip) ps" and "length (filter is_append ps) < 10 ^ 6"
  shows "\<exists>r. awal_recover ip (aw_dirs (fold (awal_apply ip) ps (open_with_config [] cfg now))) = Inr r \<and>
     (\<forall>t. or_empty (hm_get r t) = fold spec_apply ps (\<lambda>_. []) t)"
  using awal_run [OF assms(1) fresh_log(1) [of cfg now] fresh_log(2) [of ip cfg now]] awal_recovers assms(2) by (metis add_0)

text \<open>A codec for the examples: a batch of one number is one character.\<close>

definition demo_batch :: "nat \<Rightarrow> record_batch" where
  "demo_batch n = \<lparr>rb_fields = [''a''], rb_rows = [[CInt (int n)]]\<rparr>"

definition demo_ipc :: ipc where
  "demo_ipc = \<lparr>ipc_write = (\<lambda>bs. Inr (map (\<lambda>b. char_of (case cell_at (hd (rb_rows b)) 0 of CInt i \<Rightarrow> nat i | _ \<Rightarrow> 0)) bs)),
     ipc_read = (\<lambda>s. if s = [] then Inl ''unexpected end of file'' else Inr (map (\<lambda>c. demo_batch (of_char c)) s))\<rparr>"

lemma demo_ipc_ok [simp]: "n < 256 \<Longrightarrow> ipc_ok demo_ipc [demo_batch n]"
  by (simp add: ipc_ok_def demo_ipc_def demo_batch_def cell_at_def)

definition demo_history :: "awal_op list" where
  "demo_history =
     [AAppend ''t'' [demo_batch 1] 0, AAppend ''u'' [demo_batch 2] 0, ACheckpoint ''t'',
      AReopen default_config 5, AAppend ''t'' [demo_batch 3] 6, AAppend ''t'' [demo_batch 4] 7]"

theorem arrow_log_returns_what_was_appended_witness:
  "\<exists>r. awal_recover demo_ipc (aw_dirs (fold (awal_apply demo_ipc) demo_history
         (open_with_config [] default_config 0))) = Inr r \<and>
     or_empty (hm_get r ''t'') = [demo_batch 3, demo_batch 4] \<and> or_empty (hm_get r ''u'') = [demo_batch 2]"
proof -
  have "list_all (op_ok demo_ipc) demo_history" "length (filter is_append demo_history) < 10 ^ 6"
    by (simp_all add: demo_history_def)
  from arrow_log_returns_what_was_appended [OF this, where cfg = default_config and now = 0] show ?thesis
    by (auto simp: demo_history_def)
qed

section \<open>Beyond the sixth digit\<close>

text \<open>
  the order of recovery is the order of the names, and the names are padded to six digits
  only. In a log whose last number is 999998, two appends to a table whose directory is empty
  are recovered in reverse: \<^verbatim>\<open>1000000.arrow\<close> sorts before \<^verbatim>\<open>999999.arrow\<close>.
\<close>

theorem millionth_append_is_recovered_first:
  assumes "ipc_ok ip bs1" and "ipc_ok ip bs2" and "bs1 \<noteq> []" and "bs2 \<noteq> []"
    and "aw_dirs w = []" and "aw_known w = []" and "aw_seq w = 999998"
  shows "awal_recover ip (aw_dirs (fold (awal_apply ip) [AAppend t bs1 now1, AAppend t bs2 now2] w)) =
     Inr [(t, bs2 @ bs1)]"
proof -
  have names: "arrow_name 999999 = ''999999.arrow''" "arrow_name 1000000 = ''1000000.arrow''"
    by (simp_all add: arrow_name_def pad6_def show_nat.simps char_of_def bit_0)
  have ext: "extension ''999999.arrow'' = Some ''arrow''" "extension ''1000000.arrow'' = Some ''arrow''"
    by (simp_all add: extension_def)
  have less: "\<not> ''999999.arrow'' \<le> ''1000000.arrow''" by (simp add: less_char_def)
  show ?thesis
    using assms
    by (auto simp: awal_append_def Let_def hm_or_insert_def hm_contains_def hm_modify_def hm_insert_def
        names awal_recover_def arrow_files_def ext less ipc_ok_def split: sum.splits)
qed

theorem millionth_append_is_recovered_first_witness:
  "awal_recover demo_ipc (aw_dirs (fold (awal_apply demo_ipc)
     [AAppend ''t'' [demo_batch 1] 0, AAppend ''t'' [demo_batch 2] 1]
     ((open_with_config [] default_config 0)\<lparr>aw_seq := 999998\<rparr>))) =
   Inr [(''t'', [demo_batch 2, demo_batch 1])]"
  using millionth_append_is_recovered_first [of demo_ipc "[demo_batch 1]" "[demo_batch 2]"
      "(open_with_config [] default_config 0)\<lparr>aw_seq := 999998\<rparr>" "''t''" 0 1]
  by (simp add: open_with_config_def)

section \<open>Crashes\<close>

fun crash_files :: "(string, arrow_file) hashmap \<Rightarrow> (string, arrow_file) hashmap \<Rightarrow> bool" where
  "crash_files [] gs \<longleftrightarrow> gs = []"
| "crash_files ((nm, f) # fs) gs \<longleftrightarrow>
     crash_file f None \<and> crash_files fs gs \<or>
     (case gs of
        [] \<Rightarrow> False
      | (nm', g) # gs' \<Rightarrow> nm' = nm \<and> crash_file f (Some g) \<and> crash_files fs gs')"

definition crash_dirs :: "arrow_dirs \<Rightarrow> arrow_dirs \<Rightarrow> bool" where
  "crash_dirs ds es \<longleftrightarrow> list_all2 (\<lambda>(t, fs) (u, gs). t = u \<and> crash_files fs gs) ds es"

definition all_synced :: "arrow_dirs \<Rightarrow> bool" where
  "all_synced ds \<longleftrightarrow> hm_all (\<lambda>t fs. hm_all (\<lambda>nm f. af_synced f) fs) ds"

lemma crash_synced_files: "hm_all (\<lambda>nm f. af_synced f) fs \<Longrightarrow> crash_files fs gs \<Longrightarrow> gs = fs"
  by (induction fs gs rule: crash_files.induct) (auto simp: crash_file_def hm_all_def split: list.splits)

lemma crash_refl: "all_synced ds \<Longrightarrow> crash_dirs ds ds"
proof -
  assume "all_synced ds"
  moreover have "hm_all (\<lambda>nm f. af_synced f) fs \<Longrightarrow> crash_files fs fs" for fs
    by (induction fs) (auto simp: crash_file_def hm_all_def)
  ultimately show ?thesis
    unfolding crash_dirs_def all_synced_def by (auto simp: list_all2_same hm_all_def)
qed

lemma crash_synced: "all_synced ds \<Longrightarrow> crash_dirs ds es \<Longrightarrow> es = ds"
  unfolding crash_dirs_def all_synced_def
proof (induction ds arbitrary: es)
  case (Cons x ds)
  then show ?case using crash_synced_files by (fastforce simp: list_all2_Cons1 hm_all_def)
qed simp

fun always_op :: "awal_op \<Rightarrow> bool" where
  "always_op (AReopen cfg now) \<longleftrightarrow> ac_policy cfg = Always"
| "always_op _ \<longleftrightarrow> True"

lemma in_hm_insert: "x \<in> set (hm_insert k v m) \<Longrightarrow> x = (k, v) \<or> x \<in> set m"
  using set_hm_insert by fastforce

lemma always_step:
  assumes "all_synced (aw_dirs w)" and "ac_policy (aw_cfg w) = Always" and "always_op p"
  shows "all_synced (aw_dirs (awal_apply ip p w)) \<and> ac_policy (aw_cfg (awal_apply ip p w)) = Always"
proof -
  have dirs: "all_synced (hm_or_insert t [] ds)" if "all_synced ds" for t ds
    using that unfolding all_synced_def by (intro hm_all_or_insert) simp_all
  have put: "all_synced (hm_modify t (hm_insert nm \<lparr>af_bytes = b, af_synced = True\<rparr>) ds)" if "all_synced ds" for t nm b ds
    using that unfolding all_synced_def by (rule hm_all_modify) (simp add: hm_all_insert)
  have rem: "all_synced (hm_remove t ds)" if "all_synced ds" for t ds
    using that unfolding all_synced_def by (rule hm_all_remove)
  show ?thesis
    using assms dirs put rem
    by (cases p) (auto simp: awal_append_def Let_def should_sync_def checkpoint_table_def checkpoint_all_def
        open_with_config_def all_synced_def [of "[]"] split: sum.splits)
qed

lemma always_run:
  assumes "all_synced (aw_dirs w)" and "ac_policy (aw_cfg w) = Always" and "list_all always_op ps"
  shows "all_synced (aw_dirs (fold (awal_apply ip) ps w))"
  using assms by (induction ps arbitrary: w) (auto dest: always_step)

text \<open>
  durability under the default policy. When the log and every reopening of it use
  \<^verbatim>\<open>SyncPolicy::Always\<close>, a crash at any point of a history with fewer than a million appends
  leaves directories from which recovery returns every append since the table's last
  checkpoint, in order: no acknowledged append is lost or torn.
\<close>

theorem always_policy_survives_a_crash:
  assumes "list_all (op_ok ip) ps" and "length (filter is_append ps) < 10 ^ 6"
    and "ac_policy cfg = Always" and "list_all always_op ps"
    and "crash_dirs (aw_dirs (fold (awal_apply ip) ps (open_with_config [] cfg now))) ds"
  shows "\<exists>r. awal_recover ip ds = Inr r \<and> (\<forall>t. or_empty (hm_get r t) = fold spec_apply ps (\<lambda>_. []) t)"
proof -
  have "all_synced (aw_dirs (open_with_config [] cfg now))" "ac_policy (aw_cfg (open_with_config [] cfg now)) = Always"
    using assms(3) by (simp_all add: all_synced_def open_with_config_def)
  from crash_synced [OF always_run [OF this assms(4)] assms(5)]
  show ?thesis
    using awal_run [OF assms(1) fresh_log(1) [of cfg now] fresh_log(2) [of ip cfg now]] awal_recovers assms(2)
    by (metis add_0)
qed

theorem always_policy_survives_a_crash_witness:
  "\<exists>r. awal_recover demo_ipc (aw_dirs (fold (awal_apply demo_ipc) demo_history
         (open_with_config [] default_config 0))) = Inr r \<and>
     or_empty (hm_get r ''t'') = [demo_batch 3, demo_batch 4]"
proof -
  let ?ds = "aw_dirs (fold (awal_apply demo_ipc) demo_history (open_with_config [] default_config 0))"
  have hyps: "list_all (op_ok demo_ipc) demo_history" "length (filter is_append demo_history) < 10 ^ 6"
    "ac_policy default_config = Always" "list_all always_op demo_history"
    by (simp_all add: demo_history_def default_config_def)
  have "crash_dirs ?ds ?ds"
  proof -
    have "all_synced (aw_dirs (open_with_config [] default_config 0))"
      "ac_policy (aw_cfg (open_with_config [] default_config 0)) = Always"
      using hyps(3) by (simp_all add: all_synced_def open_with_config_def)
    from crash_refl [OF always_run [OF this hyps(4)]] show ?thesis .
  qed
  from always_policy_survives_a_crash [OF hyps this] show ?thesis by (auto simp: demo_history_def)
qed

text \<open>
  the other policies sync the file of one append only. After two appends under
  \<^verbatim>\<open>EveryNAppends(2)\<close> the second has called \<^verbatim>\<open>sync_data\<close>, yet a crash may leave the file of the
  first missing, so that recovery returns the second append without the first, or empty, so
  that the whole recovery fails.
\<close>

theorem every_n_policy_syncs_the_last_file:
  assumes "ipc_ok ip bs1" and "ipc_ok ip bs2" and "bs1 \<noteq> []" and "bs2 \<noteq> []"
    and "ac_policy cfg = EveryNAppends 2" and "ipc_read ip [] = Inl err"
  shows "\<exists>ds1 ds2. let ds = aw_dirs (fold (awal_apply ip) [AAppend t bs1 now1, AAppend t bs2 now2]
             (open_with_config [] cfg now))
     in crash_dirs ds ds1 \<and> awal_recover ip ds1 = Inr [(t, bs2)] \<and>
        crash_dirs ds ds2 \<and> (\<exists>err'. awal_recover ip ds2 = Inl err')"
proof -
  obtain b1 b2 where b: "ipc_write ip bs1 = Inr b1" "ipc_read ip b1 = Inr bs1"
    "ipc_write ip bs2 = Inr b2" "ipc_read ip b2 = Inr bs2"
    using assms(1,2) by (auto simp: ipc_ok_def split: sum.splits)
  let ?f1 = "\<lparr>af_bytes = b1, af_synced = False\<rparr>" and ?f2 = "\<lparr>af_bytes = b2, af_synced = True\<rparr>"
  let ?torn = "\<lparr>af_bytes = [], af_synced = False\<rparr>"
  have names: "arrow_name 1 \<noteq> arrow_name 2" "arrow_name 1 < arrow_name 2"
    using arrow_name_order [of 1 2] by auto
  have ds: "aw_dirs (fold (awal_apply ip) [AAppend t bs1 now1, AAppend t bs2 now2] (open_with_config [] cfg now)) =
      [(t, [(arrow_name 1, ?f1), (arrow_name 2, ?f2)])]"
    using assms(3-5) b names
    by (simp add: awal_append_def Let_def hm_or_insert_def hm_contains_def hm_modify_def hm_insert_def
        open_with_config_def should_sync_def max_existing_seq_def map_filter_simps hm_values_def numeral_2_eq_2
        u64_saturating_add_def u64_max_def)
  have ds1: "crash_dirs [(t, [(arrow_name 1, ?f1), (arrow_name 2, ?f2)])] [(t, [(arrow_name 2, ?f2)])]"
    "awal_recover ip [(t, [(arrow_name 2, ?f2)])] = Inr [(t, bs2)]"
    using b by (simp_all add: crash_dirs_def crash_file_def awal_recover_def arrow_files_def arrow_name_parts)
  have ds2: "crash_dirs [(t, [(arrow_name 1, ?f1), (arrow_name 2, ?f2)])] [(t, [(arrow_name 1, ?torn), (arrow_name 2, ?f2)])]"
    "awal_recover ip [(t, [(arrow_name 1, ?torn), (arrow_name 2, ?f2)])] =
       Inl (''Arrow IPC read '' @ arrow_name 1 @ '': '' @ err)"
    using b names assms(6)
    by (simp_all add: crash_dirs_def crash_file_def awal_recover_def arrow_files_def arrow_name_parts)
  show ?thesis unfolding ds Let_def using ds1 ds2 by blast
qed

theorem every_n_policy_syncs_the_last_file_witness:
  "\<exists>ds1 ds2. let ds = aw_dirs (fold (awal_apply demo_ipc)
       [AAppend ''t'' [demo_batch 1] 0, AAppend ''t'' [demo_batch 2] 1]
       (open_with_config [] \<lparr>ac_policy = EveryNAppends 2, ac_scratch = 0\<rparr> 0))
     in crash_dirs ds ds1 \<and> awal_recover demo_ipc ds1 = Inr [(''t'', [demo_batch 2])] \<and>
        crash_dirs ds ds2 \<and> (\<exists>err'. awal_recover demo_ipc ds2 = Inl err')"
  by (rule every_n_policy_syncs_the_last_file) (simp_all, simp add: demo_ipc_def)

end
