(* ===== verification/Journal.thy ===== *)
theory Journal
  imports Effects
begin

text \<open>
  How the engine uses its two logs (\<^verbatim>\<open>crates/engine/src/lib.rs\<close> and
  \<^verbatim>\<open>checkpoint_policy.rs\<close>): transaction ids, the statement logged before it runs, the end of an
  autocommit statement and CHECKPOINT. Failures of the file under the statement log are not
  modelled, so these operations do not fail on it.
\<close>

text \<open>\<^verbatim>\<open>checkpoint_policy::should_checkpoint_autocommit\<close>.\<close>

definition should_checkpoint_autocommit :: "bool \<Rightarrow> nat \<Rightarrow> nat \<Rightarrow> nat \<Rightarrow> nat \<Rightarrow> bool" where
  "should_checkpoint_autocommit force commits every elapsed interval \<longleftrightarrow>
     (if force then True
      else let interval_hit = interval \<noteq> 0 \<and> elapsed \<ge> interval;
               commit_count_hit = every > 0 \<and> commits \<ge> every
           in interval_hit \<or> commit_count_hit)"

definition next_txn_id :: "engine \<Rightarrow> nat \<times> engine" where
  "next_txn_id e =
     (en_txn_counter e, e\<lparr>en_txn_counter := u64_saturating_add (en_txn_counter e) 1\<rparr>)"

definition current_wal_txn_id :: "engine \<Rightarrow> nat" where
  "current_wal_txn_id e = (case en_txn e of None \<Rightarrow> 0 | Some txn \<Rightarrow> tx_wal_id txn)"

definition pending_entry :: "string \<Rightarrow> engine \<Rightarrow> wal_entry" where
  "pending_entry sql e =
     \<lparr>we_txn = word_of_nat (current_wal_txn_id e), we_status = Pending, we_sql = sql\<rparr>"

definition wal_append_pending :: "'s world \<Rightarrow> string \<Rightarrow> engine \<Rightarrow> engine" where
  "wal_append_pending W sql e =
     (if en_replaying e then e
      else e\<lparr>en_wal := map_option (append_no_sync (w_crc W) (pending_entry sql e)) (en_wal e)\<rparr>)"

definition wal_finish_autocommit :: "'s world \<Rightarrow> bool \<Rightarrow> nat \<Rightarrow> engine \<Rightarrow> engine" where
  "wal_finish_autocommit W force now e =
     (if en_replaying e \<or> in_txn e then e
      else case en_wal e of
             None \<Rightarrow> e
           | Some w \<Rightarrow>
               let w1 = commit_no_checkpoint (w_crc W) 0 w;
                   commits = u64_saturating_add (en_commits_since e) 1
               in if should_checkpoint_autocommit force commits (en_ckpt_commits e)
                       (now - en_last_ckpt e) (en_ckpt_interval e)
                  then e\<lparr>en_wal := Some (wal_checkpoint w1), en_commits_since := 0, en_last_ckpt := now\<rparr>
                  else e\<lparr>en_wal := Some (snd (maybe_checkpoint (en_ckpt_bytes e) w1)),
                         en_commits_since := commits\<rparr>)"

definition handle_checkpoint :: "nat \<Rightarrow> engine \<Rightarrow> (string, query_result) result \<times> engine" where
  "handle_checkpoint now e =
     (if in_txn e then (Inl ''CHECKPOINT is not allowed in an explicit transaction'', e)
      else let e1 = (case en_wal e of
                       None \<Rightarrow> e
                     | Some w \<Rightarrow> e\<lparr>en_wal := Some (wal_checkpoint w), en_commits_since := 0, en_last_ckpt := now\<rparr>)
           in (Inr (Message ''Checkpoint completed for WAL and Arrow WAL.''),
               e1\<lparr>en_arrow_wal := map_option checkpoint_all (en_arrow_wal e1)\<rparr>))"

text \<open>\<^verbatim>\<open>next_temp_table_name\<close>.\<close>

definition next_temp_table_name :: "string \<Rightarrow> engine \<Rightarrow> string \<times> engine" where
  "next_temp_table_name tag e =
     (''__potato_'' @ tag @ ''_tmp_'' @ show_nat (en_temp_counter e),
      e\<lparr>en_temp_counter := u64_saturating_add (en_temp_counter e) 1\<rparr>)"

section \<open>What the log of an engine replays\<close>

definition engine_log :: "'s world \<Rightarrow> engine \<Rightarrow> wal_entry list" where
  "engine_log W e = (case en_wal e of None \<Rightarrow> [] | Some w \<Rightarrow> wal_log (w_crc W) w)"

definition engine_log_ok :: "'s world \<Rightarrow> engine \<Rightarrow> bool" where
  "engine_log_ok W e \<longleftrightarrow> (case en_wal e of None \<Rightarrow> True | Some w \<Rightarrow> wal_inv (w_crc W) w)"

end
