(* ===== verification/Storage.thy ===== *)
theory Storage
  imports Constraints Journal
begin

text \<open>
  The files under a table (\<^verbatim>\<open>crates/engine/src/lib.rs\<close>): listing, registering and deleting them,
  the file statistics in the catalog, the copy-on-write rewrite with its restore, and the
  automatic compaction.
\<close>

section \<open>Files\<close>

definition table_obj_prefix :: "engine \<Rightarrow> string \<Rightarrow> string" where
  "table_obj_prefix e tbl = (if en_prefix e = [] then tbl else en_prefix e @ ''/'' @ tbl)"

definition is_parquet :: "object_meta \<Rightarrow> bool" where
  "is_parquet ob \<longleftrightarrow> suffix ''.parquet'' (ob_location ob)"

definition list_objects :: "'s world \<Rightarrow> string \<Rightarrow> (object_meta list, 's) action" where
  "list_objects W tbl e s = look (w_list W (table_obj_prefix e tbl)) e s"

definition list_parquet_files :: "'s world \<Rightarrow> string \<Rightarrow> (string list, 's) action" where
  "list_parquet_files W tbl =
     andThen (list_objects W tbl) (\<lambda>obs. ok (map ob_location (filter is_parquet obs)))"

definition delete_parquet_files :: "'s world \<Rightarrow> string \<Rightarrow> (unit, 's) action" where
  "delete_parquet_files W tbl =
     andThen (list_objects W tbl)
       (\<lambda>obs. each (\<lambda>ob. if is_parquet ob then outside (w_delete W (ob_location ob)) else ok ()) obs)"

definition delete_table_storage :: "'s world \<Rightarrow> table_meta \<Rightarrow> (unit, 's) action" where
  "delete_table_storage W m =
     andThen (asks is_local_disk)
       (\<lambda>local. if local then outside (w_remove_dir W (tm_path m))
                else andThen (list_objects W (tm_name m))
                       (\<lambda>obs. each (\<lambda>ob. outside (w_delete W (ob_location ob))) obs))"

definition light_stats :: "object_meta \<Rightarrow> file_stats" where
  "light_stats ob =
     \<lparr>fs_path = ob_location ob, fs_row_count = None, fs_min_values = [], fs_max_values = [],
      fs_size_bytes = ob_size ob, fs_created_at = Some (ob_modified ob)\<rparr>"

definition refresh_table_file_stats_light :: "'s world \<Rightarrow> string \<Rightarrow> (unit, 's) action" where
  "refresh_table_file_stats_light W tbl =
     andThen (list_objects W tbl)
       (\<lambda>obs. change (\<lambda>e. with_catalog
          (set_file_stats tbl (map light_stats (filter is_parquet obs)) (en_catalog e)) e))"

section \<open>Registration\<close>

text \<open>
  \<^verbatim>\<open>columns_to_schema\<close>: the type of every column must be known; parsing a type is the
  parameter \<open>w_arrow_type\<close>.
\<close>

fun columns_to_schema :: "'s world \<Rightarrow> column_def list \<Rightarrow> (string, unit) result" where
  "columns_to_schema W [] = Inr ()"
| "columns_to_schema W (c # cs) =
     (case w_arrow_type W (cd_type c) of Inl err \<Rightarrow> Inl err | Inr _ \<Rightarrow> columns_to_schema W cs)"

text \<open>The sort orders: primary indexes first, then by name; logical indexes are left out.\<close>

definition sort_orders :: "string \<Rightarrow> catalog \<Rightarrow> (string \<times> bool \<times> bool) list list" where
  "sort_orders tbl c =
     map (\<lambda>idx. map (\<lambda>k. (ic_name k, ic_ascending k, \<not> ic_ascending k)) (ix_columns idx))
       (filter (\<lambda>idx. \<not> ix_logical_only idx)
         (sort_key (\<lambda>idx. (\<not> ix_primary idx, ix_name idx)) (indexes_for_table tbl c)))"

definition listing_spec_of ::
  "string \<Rightarrow> column_def list \<Rightarrow> string \<Rightarrow> string list \<Rightarrow> catalog \<Rightarrow> listing_spec"
where
  "listing_spec_of tbl cols url parts c =
     \<lparr>ls_url = url, ls_columns = cols, ls_order = sort_orders tbl c,
      ls_partitions = filter (\<lambda>p. p \<in> set (map cd_name cols)) parts,
      ls_statistics = (case hm_get (cat_tables c) tbl of None \<Rightarrow> None | Some m \<Rightarrow> tm_statistics m),
      ls_file_stats = (case hm_get (cat_tables c) tbl of None \<Rightarrow> [] | Some m \<Rightarrow> tm_file_stats m)\<rparr>"

definition register_listing_table ::
  "'s world \<Rightarrow> string \<Rightarrow> column_def list \<Rightarrow> string \<Rightarrow> string list \<Rightarrow> (unit, 's) action"
where
  "register_listing_table W tbl cols url parts =
     andThen (asks (\<lambda>e. listing_spec_of tbl cols url parts (en_catalog e)))
       (\<lambda>spec. outside (w_register_table W tbl spec))"

section \<open>Rewriting a table\<close>

definition run_query :: "'s world \<Rightarrow> string \<Rightarrow> (record_batch list, 's) action" where
  "run_query W sql = outside (run_sql W sql)"

definition has_rows :: "record_batch list \<Rightarrow> bool" where
  "has_rows bs \<longleftrightarrow> list_ex (\<lambda>b. num_rows b > 0) bs"

text \<open>\<^verbatim>\<open>restore_table_from_snapshot\<close>: every failure is passed over.\<close>

definition restore_table_from_snapshot ::
  "'s world \<Rightarrow> string \<Rightarrow> record_batch list \<Rightarrow> (unit, 's) action"
where
  "restore_table_from_snapshot W tbl original =
     (if \<not> has_rows original then ok ()
      else attempt (andThen (outside (w_register W ''__potato_restore_tmp'' original))
        (\<lambda>_. andThen (attempt (run_query W (''INSERT INTO '' @ ident tbl @ '' SELECT * FROM __potato_restore_tmp'')))
          (\<lambda>_. attempt (outside (w_deregister W ''__potato_restore_tmp''))))))"

text \<open>The insertion of the new rows; the temporary table goes away when it was registered.\<close>

definition write_rewritten :: "'s world \<Rightarrow> string \<Rightarrow> record_batch list \<Rightarrow> (unit, 's) action" where
  "write_rewritten W tbl batches =
     andThen (outside (w_register W ''__potato_rewrite_tmp'' batches))
       (\<lambda>_ e s. case run_query W (''INSERT INTO '' @ ident tbl @ '' SELECT * FROM __potato_rewrite_tmp'') e s of
          (r, e1, s1) \<Rightarrow>
            (case attempt (outside (w_deregister W ''__potato_rewrite_tmp'')) e1 s1 of
               (_, e2, s2) \<Rightarrow> (map_sum id (\<lambda>_. ()) r, e2, s2)))"

text \<open>When the insertion fails the old rows are written back, and the error is returned.\<close>

definition write_or_restore ::
  "'s world \<Rightarrow> string \<Rightarrow> record_batch list \<Rightarrow> record_batch list \<Rightarrow> (unit, 's) action"
where
  "write_or_restore W tbl batches original e s =
     (case write_rewritten W tbl batches e s of
        (Inr _, e1, s1) \<Rightarrow> (Inr (), e1, s1)
      | (Inl err, e1, s1) \<Rightarrow>
          andThen (restore_table_from_snapshot W tbl original) (\<lambda>_. fail err) e1 s1)"

definition rewrite_steps ::
  "'s world \<Rightarrow> string \<Rightarrow> table_meta \<Rightarrow> bool \<Rightarrow> record_batch list \<Rightarrow> bool \<Rightarrow> (unit, 's) action"
where
  "rewrite_steps W tbl m local batches use_batches_as_disk_snapshot =
     andThen (change (invalidate_uniqueness_cache_for_table tbl)) (\<lambda>_.
     andThen (if use_batches_as_disk_snapshot then ok batches
              else run_query W (''SELECT * FROM '' @ ident tbl)) (\<lambda>original.
     andThen (outside (w_deregister W tbl)) (\<lambda>_.
     andThen (delete_parquet_files W tbl) (\<lambda>_.
     andThen (look (\<lambda>_. columns_to_schema W (tm_columns m))) (\<lambda>_.
     andThen (if local then outside (w_create_dir W (tm_path m)) else ok ()) (\<lambda>_.
     andThen (register_listing_table W tbl (tm_columns m) (tm_path m) (tm_partition_columns m)) (\<lambda>_.
     andThen (if has_rows batches then write_or_restore W tbl batches original else ok ()) (\<lambda>_.
     refresh_table_file_stats_light W tbl))))))))"

definition rewrite_table :: "'s world \<Rightarrow> string \<Rightarrow> record_batch list \<Rightarrow> bool \<Rightarrow> (unit, 's) action" where
  "rewrite_table W tbl batches use_batches_as_disk_snapshot e s =
     (case hm_get (cat_tables (en_catalog e)) tbl of
        None \<Rightarrow> (Inl (''Table '' @ in_quotes tbl @ '' does not exist''), e, s)
      | Some m \<Rightarrow> rewrite_steps W tbl m (is_local_disk e) batches use_batches_as_disk_snapshot e s)"

definition order_clause :: "string \<Rightarrow> catalog \<Rightarrow> string" where
  "order_clause tbl c =
     (case indexes_for_table tbl c of
        [] \<Rightarrow> []
      | idx # _ \<Rightarrow>
          '' ORDER BY '' @ join '', ''
            (map (\<lambda>k. ident (ic_name k) @ '' '' @ (if ic_ascending k then ''ASC'' else ''DESC'')) (ix_columns idx)))"

definition compact_steps :: "'s world \<Rightarrow> string \<Rightarrow> nat \<Rightarrow> string \<Rightarrow> (unit, 's) action" where
  "compact_steps W tbl threshold order =
     andThen (list_parquet_files W tbl)
       (\<lambda>fs. if length fs < threshold then ok ()
             else andThen (run_query W (''SELECT * FROM '' @ ident tbl @ order))
                    (\<lambda>batches. rewrite_table W tbl batches True))"

definition maybe_auto_compact :: "'s world \<Rightarrow> string \<Rightarrow> (unit, 's) action" where
  "maybe_auto_compact W tbl e s =
     (if en_compact_files e = 0 \<or> in_txn e then (Inr (), e, s)
      else compact_steps W tbl (en_compact_files e) (order_clause tbl (en_catalog e)) e s)"

end
