(* ===== verification/Write_Buffer.thy ===== *)
theory Write_Buffer
  imports Storage
begin

text \<open>
  The write buffer (\<^verbatim>\<open>crates/engine/src/lib.rs\<close>): batches of INSERT statements wait in memory,
  one entry per table, with a copy in the Arrow log, until a threshold, another statement or
  FLUSH writes them to the table.
\<close>

section \<open>Inserting\<close>

definition estimate_batch_bytes :: "'s world \<Rightarrow> record_batch list \<Rightarrow> nat" where
  "estimate_batch_bytes W bs =
     sum_list (map (\<lambda>b. sum_list (map (w_column_bytes W b) [0..<length (rb_fields b)])) bs)"

text \<open>The columns an INSERT fills: those it names, or all of the table.\<close>

definition target_columns :: "engine \<Rightarrow> string \<Rightarrow> string list option \<Rightarrow> string list" where
  "target_columns e tbl cols =
     (case cols of
        Some cs \<Rightarrow> cs
      | None \<Rightarrow> (case hm_get (cat_tables (en_catalog e)) tbl of
                  Some m \<Rightarrow> map cd_name (tm_columns m) | None \<Rightarrow> []))"

text \<open>The entry a batch is added to; an entry without batches starts over.\<close>

definition opened_entry :: "string \<Rightarrow> string list option \<Rightarrow> nat \<Rightarrow> engine \<Rightarrow> buffered_insert" where
  "opened_entry tbl cols now e =
     (let b = (case hm_get (en_buffer e) tbl of
                 Some b \<Rightarrow> b
               | None \<Rightarrow> \<lparr>bi_columns = cols, bi_batches = [], bi_rows = 0, bi_bytes = 0, bi_first_at = now\<rparr>)
      in if bi_batches b = [] then b\<lparr>bi_columns := cols, bi_first_at := now\<rparr> else b)"

definition extend_entry :: "record_batch list \<Rightarrow> nat \<Rightarrow> nat \<Rightarrow> buffered_insert \<Rightarrow> buffered_insert" where
  "extend_entry batches rows bytes b =
     b\<lparr>bi_batches := bi_batches b @ batches, bi_rows := u64_saturating_add (bi_rows b) rows,
       bi_bytes := u64_saturating_add (bi_bytes b) bytes\<rparr>"

text \<open>After a failed validation the entry is cut back to what it held.\<close>

definition cut_entry :: "buffered_insert \<Rightarrow> buffered_insert \<Rightarrow> buffered_insert" where
  "cut_entry prev b =
     b\<lparr>bi_batches := take (length (bi_batches prev)) (bi_batches b), bi_rows := bi_rows prev,
       bi_bytes := bi_bytes prev\<rparr>"

definition over_threshold :: "buffered_insert \<Rightarrow> nat \<Rightarrow> engine \<Rightarrow> bool" where
  "over_threshold b now e \<longleftrightarrow>
     bi_rows b \<ge> en_buffer_rows e \<or> bi_bytes b \<ge> en_buffer_bytes e \<or>
     now - bi_first_at b \<ge> en_buffer_age e"

section \<open>Flushing\<close>

definition insert_sql :: "string \<Rightarrow> string \<Rightarrow> string list option \<Rightarrow> string" where
  "insert_sql tbl tmp cols =
     (case cols of
        Some (c # cs) \<Rightarrow>
          ''INSERT INTO '' @ ident tbl @ '' ('' @ idents (c # cs) @ '') SELECT * FROM '' @ ident tmp
      | _ \<Rightarrow> ''INSERT INTO '' @ ident tbl @ '' SELECT * FROM '' @ ident tmp)"

text \<open>A statement that cannot be planned returns before the temporary table is dropped.\<close>

definition insert_from_temp :: "'s world \<Rightarrow> string \<Rightarrow> string \<Rightarrow> string list option \<Rightarrow> (unit, 's) action" where
  "insert_from_temp W tbl tmp cols e s =
     (case w_sql W (insert_sql tbl tmp cols) s of
        (Inl (PlanError err), s1) \<Rightarrow> (Inl err, e, s1)
      | (Inl (ExecError err), s1) \<Rightarrow> (Inl err, e, snd (w_deregister W tmp s1))
      | (Inr _, s1) \<Rightarrow> (Inr (), e, snd (w_deregister W tmp s1)))"

definition validated ::
  "'s world \<Rightarrow> string \<Rightarrow> string list \<Rightarrow> record_batch list \<Rightarrow> phase \<Rightarrow> (merges, 's) action"
where
  "validated W tbl target batches ph e s =
     validate_constraints_batch W tbl target batches ph (w_clock W s) e s"

definition maybe_auto_analyze :: "string \<Rightarrow> nat \<Rightarrow> engine \<Rightarrow> engine" where
  "maybe_auto_analyze tbl rows e =
     (if rows = 0 \<or> en_analyze_rows e = 0 then e
      else let n = u64_saturating_add
                     (case hm_get (en_rows_since_analyze e) tbl of Some n \<Rightarrow> n | None \<Rightarrow> 0) rows
           in if n \<ge> en_analyze_rows e
              then e\<lparr>en_rows_since_analyze := hm_insert tbl 0 (en_rows_since_analyze e),
                     en_pending_analyze := en_pending_analyze e @ [tbl]\<rparr>
              else e\<lparr>en_rows_since_analyze := hm_insert tbl n (en_rows_since_analyze e)\<rparr>)"

definition write_buffered :: "'s world \<Rightarrow> string \<Rightarrow> buffered_insert \<Rightarrow> (merges, 's) action" where
  "write_buffered W tbl b =
     andThen (asks (\<lambda>e. target_columns e tbl (bi_columns b))) (\<lambda>target.
     andThen (validated W tbl target (bi_batches b) BeforeInsert) (\<lambda>ms.
     andThen (asks (\<lambda>e. fst (next_temp_table_name ''flush'' e))) (\<lambda>tmp.
     andThen (change (\<lambda>e. snd (next_temp_table_name ''flush'' e))) (\<lambda>_.
     andThen (outside (w_register W tmp (bi_batches b))) (\<lambda>_.
     andThen (insert_from_temp W tbl tmp (bi_columns b)) (\<lambda>_.
     andThen (validated W tbl target [] AfterInsert) (\<lambda>_.
     ok ms)))))))"

text \<open>What follows when the rows are in the table and valid.\<close>

definition settle_flush :: "'s world \<Rightarrow> string \<Rightarrow> nat \<Rightarrow> merges \<Rightarrow> (nat, 's) action" where
  "settle_flush W tbl rows ms =
     andThen (change (if rows > 0 then apply_merges ms else id)) (\<lambda>_.
     andThen (change (\<lambda>e. e\<lparr>en_arrow_wal := map_option (checkpoint_table tbl) (en_arrow_wal e)\<rparr>)) (\<lambda>_.
     andThen (change (maybe_auto_analyze tbl rows)) (\<lambda>_.
     andThen (refresh_table_file_stats_light W tbl) (\<lambda>_.
     andThen (maybe_auto_compact W tbl) (\<lambda>_.
     ok rows)))))"

definition flush_table :: "'s world \<Rightarrow> string \<Rightarrow> (nat, 's) action" where
  "flush_table W tbl e s =
     (case hm_get (en_buffer e) tbl of
        None \<Rightarrow> (Inr 0, e, s)
      | Some b \<Rightarrow>
          let e1 = e\<lparr>en_buffer := hm_remove tbl (en_buffer e)\<rparr> in
          if bi_rows b = 0 \<or> bi_batches b = [] then (Inr 0, e1, s)
          else andThen (write_buffered W tbl b) (settle_flush W tbl (bi_rows b)) e1 s)"

fun flush_tables :: "'s world \<Rightarrow> string list \<Rightarrow> nat \<Rightarrow> (nat, 's) action" where
  "flush_tables W [] n = ok n"
| "flush_tables W (t # ts) n =
     andThen (flush_table W t) (\<lambda>k. flush_tables W ts (u64_saturating_add n k))"

definition flush_all :: "'s world \<Rightarrow> (nat, 's) action" where
  "flush_all W e s = flush_tables W (hm_keys (en_buffer e)) 0 e s"

text \<open>The tables whose names occur anywhere in the statement, or all when there are none.\<close>

definition named_tables :: "string \<Rightarrow> engine \<Rightarrow> string list" where
  "named_tables sql_upper e =
     filter (\<lambda>nm. contains_str (to_uppercase nm) sql_upper) (hm_keys (en_buffer e))"

definition flush_buffered_for_sql :: "'s world \<Rightarrow> string \<Rightarrow> (nat, 's) action" where
  "flush_buffered_for_sql W sql_upper e s =
     (if en_buffer e = [] then (Inr 0, e, s)
      else case named_tables sql_upper e of
             [] \<Rightarrow> flush_all W e s
           | t # ts \<Rightarrow> flush_tables W (t # ts) 0 e s)"

section \<open>Buffering a statement's batches\<close>

definition log_batches :: "'s world \<Rightarrow> string \<Rightarrow> record_batch list \<Rightarrow> (unit, 's) action" where
  "log_batches W tbl batches e s =
     (if en_replaying e then (Inr (), e, s)
      else case en_arrow_wal e of
             None \<Rightarrow> (Inr (), e, s)
           | Some w \<Rightarrow>
               (case awal_append (w_ipc W) tbl batches (w_clock W s) w of
                  (r, w') \<Rightarrow> (r, e\<lparr>en_arrow_wal := Some w'\<rparr>, s)))"

definition accept_batches ::
  "'s world \<Rightarrow> string \<Rightarrow> string list option \<Rightarrow> record_batch list \<Rightarrow> (unit, 's) action"
where
  "accept_batches W tbl cols batches e s =
     (let prev = opened_entry tbl cols (w_clock W s) e;
          b = extend_entry batches (total_rows batches) (estimate_batch_bytes W batches) prev;
          e1 = e\<lparr>en_buffer := hm_insert tbl b (en_buffer e)\<rparr>
      in case validated W tbl (target_columns e1 tbl (bi_columns b)) (bi_batches b) BeforeInsert e1 s of
           (Inl err, e2, s2) \<Rightarrow>
             (Inl err, e2\<lparr>en_buffer := hm_modify tbl (cut_entry prev) (en_buffer e2)\<rparr>, s2)
         | (Inr _, e2, s2) \<Rightarrow> log_batches W tbl batches e2 s2)"

definition flush_if_over :: "'s world \<Rightarrow> string \<Rightarrow> (bool, 's) action" where
  "flush_if_over W tbl e s =
     (case hm_get (en_buffer e) tbl of
        None \<Rightarrow> (Inr False, e, s)
      | Some b \<Rightarrow>
          if over_threshold b (w_clock W s) e
          then andThen (flush_table W tbl) (\<lambda>_. ok True) e s
          else (Inr False, e, s))"

definition buffer_insert_batches ::
  "'s world \<Rightarrow> string \<Rightarrow> string list option \<Rightarrow> record_batch list \<Rightarrow> (nat \<times> bool, 's) action"
where
  "buffer_insert_batches W tbl cols batches e s =
     (if total_rows batches = 0 then (Inr (0, False), e, s)
      else
        andThen (case hm_get (en_buffer e) tbl of
                   Some b \<Rightarrow> if bi_columns b \<noteq> cols then flush_table W tbl else ok 0
                 | None \<Rightarrow> ok 0) (\<lambda>_.
        andThen (accept_batches W tbl cols batches) (\<lambda>_.
        andThen (flush_if_over W tbl) (\<lambda>flushed.
        ok (total_rows batches, flushed)))) e s)"

section \<open>What the buffer holds\<close>

definition buffered :: "engine \<Rightarrow> string \<Rightarrow> record_batch list" where
  "buffered e tbl = (case hm_get (en_buffer e) tbl of None \<Rightarrow> [] | Some b \<Rightarrow> bi_batches b)"

end
