(* ===== verification/Fulltext.thy ===== *)
theory Fulltext
  imports Storage
begin

text \<open>
  Full-text search (\<^verbatim>\<open>crates/engine/src/lib.rs\<close>): the inverted index with its tokenizer, building
  it from a table, CREATE FULLTEXT INDEX, and the rewriting of FTS_MATCH; with the cache of
  query plans that the builds go through. Texts are taken as ASCII.
\<close>

section \<open>The plan cache\<close>

text \<open>
  The plan of a text is kept under the text; running a kept plan is a parameter.
\<close>

definition run_or_rewrite :: "'s world \<Rightarrow> string \<Rightarrow> (engine \<Rightarrow> engine) \<Rightarrow> (record_batch list, 's) action" where
  "run_or_rewrite W sql remember e s =
     (case w_sql W sql s of
        (Inr bs, s1) \<Rightarrow> (Inr bs, remember e, s1)
      | (Inl (ExecError err), s1) \<Rightarrow> (Inl err, e, s1)
      | (Inl (PlanError err), s1) \<Rightarrow>
          (if contains_str ''coerce types Duration'' err
           then (case rewrite_date_subtraction_sql (w_trees W) (w_tree_text W) sql of
                   None \<Rightarrow> (Inl err, e, s1)
                 | Some sql' \<Rightarrow>
                     (case run_sql W sql' s1 of
                        (Inl err', s2) \<Rightarrow> (Inl err', e, s2)
                      | (Inr bs, s2) \<Rightarrow> (Inr bs, remember e, s2)))
           else (Inl err, e, s1)))"

definition collect_with_plan_cache :: "'s world \<Rightarrow> string \<Rightarrow> (record_batch list, 's) action" where
  "collect_with_plan_cache W sql e s =
     (let remember = (\<lambda>e. e\<lparr>en_plan_cache := List.insert sql (en_plan_cache e)\<rparr>) in
      if \<not> is_read_only_sql sql then run_or_rewrite W sql id e s
      else if sql \<in> set (en_plan_cache e)
      then (case w_run_plan W sql s of
              (Inr bs, s1) \<Rightarrow> (Inr bs, e\<lparr>en_plan_hits := u64_saturating_add (en_plan_hits e) 1\<rparr>, s1)
            | (Inl err, s1) \<Rightarrow>
                run_or_rewrite W sql remember (e\<lparr>en_plan_cache := removeAll sql (en_plan_cache e)\<rparr>) s1)
      else run_or_rewrite W sql remember e s)"

text \<open>
  What it prints before: the tables of the query that are partitioned, with their columns. Nothing
  else depends on them, since partitions are not pruned.
\<close>

definition partition_warnings :: "'s world \<Rightarrow> string \<Rightarrow> engine \<Rightarrow> (string \<times> string list) list" where
  "partition_warnings W sql e =
     (if is_read_only_sql sql
      then List.map_filter (\<lambda>tbl.
             case hm_get (cat_tables (en_catalog e)) tbl of
               Some m \<Rightarrow> if tm_partition_columns m = [] then None else Some (tbl, tm_partition_columns m)
             | None \<Rightarrow> None) (extract_table_names_from_readonly_sql (w_trees W) sql)
      else [])"

definition evict_plan_cache :: "string option \<Rightarrow> engine \<Rightarrow> engine" where
  "evict_plan_cache tbl e =
     e\<lparr>en_plan_cache := (case tbl of Some nm \<Rightarrow> filter (\<lambda>sql. \<not> contains_str nm sql) (en_plan_cache e) | None \<Rightarrow> [])\<rparr>"

section \<open>The inverted index\<close>

definition tokenize :: "string \<Rightarrow> string list" where
  "tokenize text = filter (\<lambda>w. length w > 1) (split_by (\<lambda>c. \<not> is_alnum c) (to_lowercase text))"

definition add_token :: "string \<Rightarrow> nat \<Rightarrow> string \<Rightarrow> inverted_index \<Rightarrow> inverted_index" where
  "add_token doc row token idx = hm_modify token (\<lambda>ps. ps @ [(doc, row)]) (hm_or_insert token [] idx)"

definition add_document :: "string \<Rightarrow> nat \<Rightarrow> string \<Rightarrow> inverted_index \<Rightarrow> inverted_index" where
  "add_document doc row text idx = fold (add_token doc row) (tokenize text) idx"

definition postings :: "inverted_index \<Rightarrow> string \<Rightarrow> (string \<times> nat) list" where
  "postings idx token = (case hm_get idx token of None \<Rightarrow> [] | Some ps \<Rightarrow> ps)"

text \<open>The documents that hold every word of the query; their order is not determined.\<close>

definition search :: "string \<Rightarrow> inverted_index \<Rightarrow> (string \<times> nat) set" where
  "search query idx =
     (case tokenize query of
        [] \<Rightarrow> {}
      | t # ts \<Rightarrow> fold (\<lambda>t found. found \<inter> set (postings idx t)) ts (set (postings idx t)))"

text \<open>The first column of a name, as \<^verbatim>\<open>column_by_name\<close> finds it.\<close>

definition row_text :: "record_batch \<Rightarrow> string list \<Rightarrow> cell list \<Rightarrow> string" where
  "row_text b cols row =
     join '' '' (List.map_filter
       (\<lambda>c. map_option (\<lambda>i. array_value_to_string (cell_at row i)) (map_of (zip (rb_fields b) [0..<length (rb_fields b)]) c))
       cols)"

definition table_texts :: "string list \<Rightarrow> record_batch list \<Rightarrow> string list" where
  "table_texts cols bs = concat (map (\<lambda>b. map (row_text b cols) (rb_rows b)) bs)"

definition build_index :: "string \<Rightarrow> string list \<Rightarrow> record_batch list \<Rightarrow> inverted_index" where
  "build_index tbl cols bs =
     fold (\<lambda>(i, text). add_document tbl i text)
       (zip [0..<length (table_texts cols bs)] (table_texts cols bs)) []"

definition index_sql :: "fulltext_index_def \<Rightarrow> string" where
  "index_sql d = ''SELECT '' @ idents (ft_columns d) @ '' FROM '' @ ident (ft_table d)"

definition rebuild_index :: "'s world \<Rightarrow> string \<times> fulltext_index_def \<Rightarrow> (unit, 's) action" where
  "rebuild_index W nd =
     andThen (collect_with_plan_cache W (index_sql (snd nd)))
       (\<lambda>bs. change (\<lambda>e. e\<lparr>en_inverted :=
          hm_insert (fst nd) (build_index (ft_table (snd nd)) (ft_columns (snd nd)) bs) (en_inverted e)\<rparr>))"

definition rebuild_fts_indexes :: "'s world \<Rightarrow> (unit, 's) action" where
  "rebuild_fts_indexes W e s = each (rebuild_index W) (en_fulltext e) e s"

definition parse_fulltext_index :: "string \<Rightarrow> (string, string \<times> fulltext_index_def) result" where
  "parse_fulltext_index sql =
     (let trimmed = strip_statement sql in
      if \<not> starts_with ''CREATE FULLTEXT INDEX '' (to_uppercase trimmed) then Inl ''Expected CREATE FULLTEXT INDEX''
      else let after = trim (drop (length ''CREATE FULLTEXT INDEX '') trimmed) in
      case find_ci after '' ON '' of
        None \<Rightarrow> Inl ''CREATE FULLTEXT INDEX requires ON''
      | Some on_idx \<Rightarrow>
          let on_rest = trim (drop (on_idx + length '' ON '') after) in
          case (find_str ''('' on_rest, rfind_char (\<lambda>c. c = CHR '')'') on_rest) of
            (Some opn, Some cls) \<Rightarrow>
              (if cls \<le> opn then Inl panic
               else let cols = filter (\<lambda>c. c \<noteq> [])
                          (map (\<lambda>c. trim_matches dquote (trim c)) (split_top_level_csv (slice on_rest (opn + 1) cls)))
                    in if cols = [] then Inl ''FULLTEXT INDEX requires at least one column''
                       else Inr (trim_matches dquote (trim (take on_idx after)),
                                 \<lparr>ft_table = trim_matches dquote (trim (take opn on_rest)), ft_columns = cols\<rparr>))
          | _ \<Rightarrow> Inl ''FULLTEXT INDEX requires column list'')"

definition handle_create_fulltext_index :: "'s world \<Rightarrow> string \<Rightarrow> (query_result, 's) action" where
  "handle_create_fulltext_index W sql =
     (case parse_fulltext_index sql of
        Inl err \<Rightarrow> fail err
      | Inr (nm, d) \<Rightarrow>
          andThen (change (wal_append_pending W sql)) (\<lambda>_.
          andThen (change (\<lambda>e. e\<lparr>en_fulltext := hm_insert nm d (en_fulltext e)\<rparr>)) (\<lambda>_.
          andThen (rebuild_index W (nm, d)) (\<lambda>_.
          ok (Message (''Fulltext index '' @ in_quotes nm @ '' created on '' @ in_quotes (ft_table d) @ ''.''))))))"

section \<open>FTS_MATCH\<close>

definition fts_predicate :: "string \<Rightarrow> fulltext_index_def \<Rightarrow> string" where
  "fts_predicate term d =
     ''('' @ join '' OR '' (map (\<lambda>c. ''CAST('' @ ident c @ '' AS VARCHAR) ILIKE '' @ quote # ''%'' @
        double_quotes term @ ''%'' @ [quote]) (ft_columns d)) @ '')''"

definition rewrite_fulltext_match_sql :: "string \<Rightarrow> (string, fulltext_index_def) hashmap \<Rightarrow> string" where
  "rewrite_fulltext_match_sql sql fulltext =
     (let upper = to_uppercase sql in
      case find_str ''FTS_MATCH('' upper of
        None \<Rightarrow> sql
      | Some opn \<Rightarrow>
          let start_arg = opn + length ''FTS_MATCH(''; rem = drop start_arg sql in
          case find_str '')'' rem of
            None \<Rightarrow> sql
          | Some k \<Rightarrow>
              let term = trim_matches dquote (trim_matches quote (trim (take k rem))) in
              if term = [] then sql
              else case filter (\<lambda>d. contains_str (to_uppercase (''FROM '' @ ident (ft_table d))) upper \<or>
                                    contains_str (to_uppercase (''FROM '' @ ft_table d)) upper) (hm_values fulltext) of
                     [] \<Rightarrow> sql
                   | d # _ \<Rightarrow> replace_first (slice sql opn (start_arg + k + 1)) (fts_predicate term d) sql)"

end
