(* ===== verification/Txn_Control.thy ===== *)
theory Txn_Control
  imports Write_Buffer Fulltext
begin

text \<open>
  Explicit transactions (\<^verbatim>\<open>crates/engine/src/lib.rs\<close>): BEGIN, COMMIT, ROLLBACK and savepoints,
  with what they use: the forced save of the catalog, the snapshots for AS OF, and reloading
  every table into DataFusion.
\<close>

section \<open>Saving the catalog\<close>

fun catalog_message :: "catalog_error \<Rightarrow> string" where
  "catalog_message (StoreError NotFound) = ''not found''"
| "catalog_message (StoreError (StoreFailure m)) = m"
| "catalog_message (JsonError m) = m"
| "catalog_message (SequenceMissing nm) = ''Sequence '' @ in_quotes nm @ '' does not exist''"
| "catalog_message (SequenceAtMinimum nm) = ''Sequence '' @ in_quotes nm @ '' reached minimum value''"
| "catalog_message (SequenceAtMaximum nm) = ''Sequence '' @ in_quotes nm @ '' reached maximum value''"

definition force_save_catalog :: "'s world \<Rightarrow> (unit, 's) action" where
  "force_save_catalog W e s =
     (case force_save (w_store W) (w_json W) (en_catalog e) s of
        (r, c, s') \<Rightarrow> (map_sum catalog_message id r, with_catalog c e, s'))"

definition flush_catalog :: "'s world \<Rightarrow> (unit, 's) action" where
  "flush_catalog W e s =
     (case flush_if_dirty (w_store W) (w_json W) (en_catalog e) s of
        (r, c, s') \<Rightarrow> (map_sum catalog_message id r, with_catalog c e, s'))"

section \<open>Reloading\<close>

definition table_names :: "engine \<Rightarrow> string list" where
  "table_names e = hm_keys (cat_tables (en_catalog e))"

definition prepare_table :: "'s world \<Rightarrow> table_meta \<Rightarrow> (unit, 's) action" where
  "prepare_table W m =
     andThen (asks is_local_disk) (\<lambda>local.
     andThen (if local then outside (w_create_dir W (tm_path m)) else ok ()) (\<lambda>_.
     look (\<lambda>_. columns_to_schema W (tm_columns m))))"

definition register_table :: "'s world \<Rightarrow> table_meta \<Rightarrow> (unit, 's) action" where
  "register_table W m =
     register_listing_table W (tm_name m) (tm_columns m) (tm_path m) (tm_partition_columns m)"

definition register_view :: "'s world \<Rightarrow> view_def \<Rightarrow> (unit, 's) action" where
  "register_view W v =
     attempt (outside (w_plan W (''CREATE OR REPLACE VIEW '' @ ident (vw_name v) @ '' AS '' @ vw_sql v)))"

text \<open>The registrations, which the source starts together, are taken one after the other.\<close>

definition reload_tables :: "'s world \<Rightarrow> (unit, 's) action" where
  "reload_tables W =
     andThen (asks (\<lambda>e. hm_values (cat_tables (en_catalog e)))) (\<lambda>ms.
     andThen (each (prepare_table W) ms) (\<lambda>_.
     andThen (each (register_table W) ms) (\<lambda>_.
     andThen (asks (\<lambda>e. hm_values (cat_views (en_catalog e)))) (\<lambda>vs.
     andThen (each (register_view W) vs) (\<lambda>_.
     rebuild_fts_indexes W)))))"

text \<open>One table again; nothing calls it.\<close>

definition reload_single_table :: "'s world \<Rightarrow> string \<Rightarrow> (unit, 's) action" where
  "reload_single_table W tbl =
     andThen (asks (\<lambda>e. hm_get (cat_tables (en_catalog e)) tbl)) (\<lambda>found.
     case found of
       None \<Rightarrow> ok ()
     | Some m \<Rightarrow>
         andThen (asks is_local_disk) (\<lambda>local.
         andThen (look (\<lambda>s. Inr (w_dir_exists W (tm_path m) s))) (\<lambda>there.
         andThen (if local \<and> \<not> there then outside (w_create_dir W (tm_path m)) else ok ()) (\<lambda>_.
         andThen (look (\<lambda>_. columns_to_schema W (tm_columns m))) (\<lambda>_.
         andThen (attempt (outside (w_deregister W tbl))) (\<lambda>_.
         register_listing_table W tbl (tm_columns m) (tm_path m) (tm_partition_columns m)))))))"

section \<open>Snapshots of the tables\<close>

fun read_all :: "'s world \<Rightarrow> string list \<Rightarrow> ((string, record_batch list) hashmap, 's) action" where
  "read_all W [] = ok []"
| "read_all W (t # ts) =
     andThen (run_query W (''SELECT * FROM '' @ ident t)) (\<lambda>bs.
     andThen (read_all W ts) (\<lambda>m. ok ((t, bs) # m)))"

definition i64_saturating_sub :: "int \<Rightarrow> int \<Rightarrow> int" where
  "i64_saturating_sub a b = max i64_min (min i64_max (a - b))"

definition push_snapshot :: "int \<Rightarrow> (string, record_batch list) hashmap \<Rightarrow> engine \<Rightarrow> engine" where
  "push_snapshot now ts e =
     e\<lparr>en_snapshots := dropWhile (\<lambda>ss. i64_saturating_sub now (ss_timestamp_ms ss) > en_retention_ms e)
         (en_snapshots e @ [\<lparr>ss_timestamp_ms = now, ss_tables = ts\<rparr>])\<rparr>"

definition capture_snapshot :: "'s world \<Rightarrow> (unit, 's) action" where
  "capture_snapshot W =
     andThen (asks table_names) (\<lambda>ts.
     andThen (read_all W ts) (\<lambda>m.
     (\<lambda>e s. change (push_snapshot (w_utc_ms W s) m) e s)))"

section \<open>BEGIN and COMMIT\<close>

definition backup_table_for_txn :: "'s world \<Rightarrow> string \<Rightarrow> (unit, 's) action" where
  "backup_table_for_txn W tbl e s =
     (case en_txn e of
        None \<Rightarrow> (Inr (), e, s)
      | Some txn \<Rightarrow>
          if hm_contains (tx_backups txn) tbl then (Inr (), e, s)
          else andThen (run_query W (''SELECT * FROM '' @ ident tbl))
                 (\<lambda>bs. change (\<lambda>e. e\<lparr>en_txn := Some (txn\<lparr>tx_backups := hm_insert tbl bs (tx_backups txn)\<rparr>)\<rparr>)) e s)"

text \<open>The Parquet files of every table.\<close>

fun list_files :: "'s world \<Rightarrow> string list \<Rightarrow> ((string, string list) hashmap, 's) action" where
  "list_files W [] = ok []"
| "list_files W (t # ts) =
     andThen (list_parquet_files W t) (\<lambda>fs.
     andThen (list_files W ts) (\<lambda>m. ok ((t, fs) # m)))"

definition open_txn :: "catalog_snapshot \<Rightarrow> (string, string list) hashmap \<Rightarrow> engine \<Rightarrow> engine" where
  "open_txn snap fs e =
     (let (id, e1) = next_txn_id (with_catalog (set_in_transaction True (en_catalog e)) e)
      in e1\<lparr>en_txn := Some \<lparr>tx_catalog = snap, tx_files = fs, tx_deferred = [], tx_wal_id = id,
                             tx_backups = [], tx_savepoints = []\<rparr>\<rparr>)"

definition handle_begin :: "'s world \<Rightarrow> (query_result, 's) action" where
  "handle_begin W e s =
     (if in_txn e then (Inl ''Already inside a transaction (nested BEGIN not supported)'', e, s)
      else andThen (list_files W (table_names e)) (\<lambda>fs.
           andThen (change (open_txn (catalog_snapshot (en_catalog e)) fs)) (\<lambda>_.
           ok (Message ''BEGIN''))) e s)"

definition wal_end_txn :: "(wal \<Rightarrow> wal) \<Rightarrow> engine \<Rightarrow> engine" where
  "wal_end_txn mark e =
     (if en_replaying e then e
      else e\<lparr>en_wal := map_option (\<lambda>w. wal_checkpoint (mark w)) (en_wal e)\<rparr>)"

definition leave_txn :: "engine \<Rightarrow> engine" where
  "leave_txn e = with_catalog (set_in_transaction False (en_catalog e)) (e\<lparr>en_txn := None\<rparr>)"

definition commit_steps :: "'s world \<Rightarrow> transaction \<Rightarrow> (query_result, 's) action" where
  "commit_steps W txn =
     andThen (change leave_txn) (\<lambda>_.
     andThen (force_save_catalog W) (\<lambda>_.
     andThen (each (delete_table_storage W) (tx_deferred txn)) (\<lambda>_.
     andThen (change (wal_end_txn (wal_commit (w_crc W) (word_of_nat (tx_wal_id txn))))) (\<lambda>_.
     andThen (asks en_snapshots_on) (\<lambda>on.
     andThen (if on then attempt (capture_snapshot W) else ok ()) (\<lambda>_.
     ok (Message ''COMMIT'')))))))"

definition handle_commit :: "'s world \<Rightarrow> (query_result, 's) action" where
  "handle_commit W =
     andThen (flush_all W) (\<lambda>_.
     andThen (asks en_txn) (\<lambda>t.
     case t of None \<Rightarrow> fail ''No active transaction to COMMIT'' | Some txn \<Rightarrow> commit_steps W txn))"

section \<open>Undoing\<close>

text \<open>Files that a snapshot does not name are deleted; failures are passed over.\<close>

definition discard_new_files :: "'s world \<Rightarrow> string \<times> string list \<Rightarrow> (unit, 's) action" where
  "discard_new_files W tf e s =
     (case list_parquet_files W (fst tf) e s of
        (Inl _, e1, s1) \<Rightarrow> (Inr (), e1, s1)
      | (Inr fs, e1, s1) \<Rightarrow>
          each (\<lambda>f. if f \<notin> set (snd tf) then attempt (outside (w_delete W f)) else ok ()) fs e1 s1)"

definition discard_new_table :: "'s world \<Rightarrow> string list \<Rightarrow> string \<Rightarrow> (unit, 's) action" where
  "discard_new_table W known nm =
     (if nm \<in> set known then ok ()
      else andThen (asks (\<lambda>e. hm_get (cat_tables (en_catalog e)) nm)) (\<lambda>m.
           andThen (case m of None \<Rightarrow> ok () | Some d \<Rightarrow> attempt (delete_table_storage W d)) (\<lambda>_.
           attempt (outside (w_deregister W nm)))))"

text \<open>Deleting what came after a snapshot of the files, as ROLLBACK and ROLLBACK TO do.\<close>

definition undo_files :: "'s world \<Rightarrow> (string, string list) hashmap \<Rightarrow> string list \<Rightarrow> (unit, 's) action" where
  "undo_files W files current =
     andThen (each (discard_new_files W) files) (\<lambda>_.
     each (discard_new_table W (hm_keys files)) current)"

definition rewrite_backup :: "'s world \<Rightarrow> string \<times> record_batch list \<Rightarrow> (unit, 's) action" where
  "rewrite_backup W tb =
     andThen (asks (\<lambda>e. hm_get (cat_tables (en_catalog e)) (fst tb))) (\<lambda>m.
     case m of
       None \<Rightarrow> ok ()
     | Some d \<Rightarrow>
         andThen (look (\<lambda>_. columns_to_schema W (tm_columns d))) (\<lambda>_.
         rewrite_table W (fst tb) (snd tb) False))"

definition reload_and_rewrite ::
  "'s world \<Rightarrow> string list \<Rightarrow> (string, record_batch list) hashmap \<Rightarrow> (unit, 's) action"
where
  "reload_and_rewrite W current backups =
     andThen (each (\<lambda>nm. attempt (outside (w_deregister W nm))) current) (\<lambda>_.
     andThen (reload_tables W) (\<lambda>_.
     each (rewrite_backup W) backups))"

definition restore_catalog :: "catalog_snapshot \<Rightarrow> engine \<Rightarrow> engine" where
  "restore_catalog snap e = with_catalog (catalog_restore snap (en_catalog e)) e"

definition rollback_steps :: "'s world \<Rightarrow> transaction \<Rightarrow> string list \<Rightarrow> (query_result, 's) action" where
  "rollback_steps W txn current =
     andThen (change leave_txn) (\<lambda>_.
     andThen (undo_files W (tx_files txn) current) (\<lambda>_.
     andThen (change (restore_catalog (tx_catalog txn))) (\<lambda>_.
     andThen (force_save_catalog W) (\<lambda>_.
     andThen (reload_and_rewrite W current (tx_backups txn)) (\<lambda>_.
     andThen (change (wal_end_txn (wal_abort (w_crc W) (word_of_nat (tx_wal_id txn))))) (\<lambda>_.
     ok (Message ''ROLLBACK'')))))))"

definition handle_rollback :: "'s world \<Rightarrow> (query_result, 's) action" where
  "handle_rollback W e s =
     (case en_txn e of
        None \<Rightarrow> (Inl ''No active transaction to ROLLBACK'', e, s)
      | Some txn \<Rightarrow> rollback_steps W txn (table_names e) e s)"

section \<open>Savepoints\<close>

definition push_savepoint ::
  "string \<Rightarrow> catalog_snapshot \<Rightarrow> (string, string list) hashmap \<Rightarrow> transaction \<Rightarrow> transaction"
where
  "push_savepoint nm snap fs txn =
     txn\<lparr>tx_savepoints := tx_savepoints txn @
        [\<lparr>sp_name = nm, sp_catalog = snap, sp_files = fs, sp_backups = tx_backups txn\<rparr>]\<rparr>"

text \<open>The files are listed before the transaction is looked for.\<close>

definition handle_savepoint :: "'s world \<Rightarrow> string \<Rightarrow> (query_result, 's) action" where
  "handle_savepoint W nm e s =
     andThen (list_files W (table_names e)) (\<lambda>fs.
       case en_txn e of
         None \<Rightarrow> fail ''SAVEPOINT requires an active transaction''
       | Some txn \<Rightarrow>
           andThen (change (\<lambda>e. e\<lparr>en_txn := Some (push_savepoint nm (catalog_snapshot (en_catalog e)) fs txn)\<rparr>))
             (\<lambda>_. ok (Message (''SAVEPOINT '' @ nm)))) e s"

text \<open>The savepoints up to the last one of a name, and that one (\<^verbatim>\<open>rposition\<close>).\<close>

definition find_savepoint :: "string \<Rightarrow> transaction \<Rightarrow> (savepoint list \<times> savepoint) option" where
  "find_savepoint nm txn =
     (case dropWhile (\<lambda>sp. sp_name sp \<noteq> nm) (rev (tx_savepoints txn)) of
        [] \<Rightarrow> None
      | sp # earlier \<Rightarrow> Some (rev earlier, sp))"

definition no_savepoint :: "string \<Rightarrow> string" where
  "no_savepoint nm = ''Savepoint '' @ in_quotes nm @ '' does not exist''"

text \<open>After going back, the transaction's own snapshot is replaced by the state reached.\<close>

definition rebase_txn :: "catalog_snapshot \<Rightarrow> (string, string list) hashmap \<Rightarrow> transaction \<Rightarrow> transaction" where
  "rebase_txn snap fs txn = txn\<lparr>tx_catalog := snap, tx_files := fs, tx_backups := []\<rparr>"

definition rollback_to_steps ::
  "'s world \<Rightarrow> string \<Rightarrow> savepoint \<Rightarrow> string list \<Rightarrow> (query_result, 's) action"
where
  "rollback_to_steps W nm sp current =
     andThen (undo_files W (sp_files sp) current) (\<lambda>_.
     andThen (change (restore_catalog (sp_catalog sp))) (\<lambda>_.
     andThen (reload_and_rewrite W current (sp_backups sp)) (\<lambda>_.
     andThen (asks (\<lambda>e. (catalog_snapshot (en_catalog e), table_names e))) (\<lambda>(snap, names).
     andThen (list_files W names) (\<lambda>fs.
     andThen (change (\<lambda>e. e\<lparr>en_txn := map_option (rebase_txn snap fs) (en_txn e)\<rparr>)) (\<lambda>_.
     ok (Message (''ROLLBACK TO SAVEPOINT '' @ nm))))))))"

definition handle_rollback_to :: "'s world \<Rightarrow> string \<Rightarrow> (query_result, 's) action" where
  "handle_rollback_to W nm e s =
     (case en_txn e of
        None \<Rightarrow> (Inl ''ROLLBACK TO SAVEPOINT requires an active transaction'', e, s)
      | Some txn \<Rightarrow>
          (case find_savepoint nm txn of
             None \<Rightarrow> (Inl (no_savepoint nm), e, s)
           | Some (earlier, sp) \<Rightarrow>
               rollback_to_steps W nm sp (table_names e)
                 (e\<lparr>en_txn := Some (txn\<lparr>tx_savepoints := earlier @ [sp]\<rparr>)\<rparr>) s))"

definition handle_release_savepoint :: "string \<Rightarrow> engine \<Rightarrow> (string, query_result) result \<times> engine" where
  "handle_release_savepoint nm e =
     (case en_txn e of
        None \<Rightarrow> (Inl ''RELEASE SAVEPOINT requires an active transaction'', e)
      | Some txn \<Rightarrow>
          (case find_savepoint nm txn of
             None \<Rightarrow> (Inl (no_savepoint nm), e)
           | Some (earlier, sp) \<Rightarrow>
               (Inr (Message (''RELEASE SAVEPOINT '' @ nm)), e\<lparr>en_txn := Some (txn\<lparr>tx_savepoints := earlier\<rparr>)\<rparr>)))"

end
