(* ===== verification/Frames.thy ===== *)
theory Frames
  imports Txn_Control Constraint_Props
begin

text \<open>
  Which parts of the engine the operations leave alone, however they end: the operations on
  files and temporary tables keep everything; those that refresh caches, counters and file
  statistics keep every part that does not depend on them (the locale \<open>storage_frame\<close>), and
  those that flush and save keep every part that depends neither on the buffer nor on the
  Arrow log (\<open>txn_frame\<close>).
\<close>

section \<open>Operations that keep the whole engine\<close>

lemma listing_keeps [keeps_intros]:
  "keeps g (list_objects W tbl)" "keeps g (run_query W sql)" "keeps g (list_parquet_files W tbl)"
  "keeps g (delete_parquet_files W tbl)" "keeps g (register_listing_table W tbl cols url parts)"
  "keeps g (insert_from_temp W tbl tmp tcols)"
proof -
  show 1: "keeps g (list_objects W tbl)" by (simp add: keeps_def list_objects_def look_def)
  show "keeps g (run_query W sql)" unfolding run_query_def by (intro keeps_intros)
  show "keeps g (list_parquet_files W tbl)" unfolding list_parquet_files_def by (intro keeps_intros 1)
  show "keeps g (delete_parquet_files W tbl)" unfolding delete_parquet_files_def by (intro keeps_intros 1)
  show "keeps g (register_listing_table W tbl cols url parts)"
    unfolding register_listing_table_def by (intro keeps_intros)
  show "keeps g (insert_from_temp W tbl tmp tcols)"
    by (rule keepsI) (auto simp: insert_from_temp_def split: prod.splits sum.splits sql_error.splits)
qed

lemma restore_keeps [keeps_intros]: "keeps g (restore_table_from_snapshot W tbl original)"
  unfolding restore_table_from_snapshot_def by (intro keeps_intros)

lemma write_rewritten_keeps [keeps_intros]: "keeps g (write_rewritten W tbl batches)"
proof -
  have "keeps g (\<lambda>e s. case run_query W sql e s of (r, e1, s1) \<Rightarrow>
      (case attempt (outside (w_deregister W tmp)) e1 s1 of (_, e2, s2) \<Rightarrow> (map_sum id (\<lambda>_. ()) r, e2, s2)))" for sql tmp
    by (rule keepsI) (auto simp: run_query_def outside_def attempt_def split: prod.splits)
  then show ?thesis unfolding write_rewritten_def by (intro keeps_intros)
qed

lemma write_or_restore_keeps [keeps_intros]: "keeps g (write_or_restore W tbl batches original)"
proof (rule keepsI)
  fix e s r e' s'
  assume *: "write_or_restore W tbl batches original e s = (r, e', s')"
  obtain q e2 s2 where q: "write_rewritten W tbl batches e s = (q, e2, s2)" by (metis surj_pair)
  have "keeps g (andThen (restore_table_from_snapshot W tbl original) (\<lambda>_. fail err))" for err
    by (intro keeps_intros)
  then have rest: "andThen (restore_table_from_snapshot W tbl original) (\<lambda>_. fail err) e2 s2 = (r, e', s') \<Longrightarrow>
      g e' = g e2" for err by (rule keepsD)
  have "g e2 = g e" by (rule keepsD [OF write_rewritten_keeps q])
  with rest * q show "g e' = g e" by (cases q) (auto simp: write_or_restore_def)
qed

lemma delete_table_storage_keeps [keeps_intros]: "keeps g (delete_table_storage W m)"
  unfolding delete_table_storage_def by (intro keeps_intros)

lemma discard_new_files_keeps [keeps_intros]: "keeps g (discard_new_files W tf)"
proof (rule keepsI)
  fix e s r e' s'
  assume *: "discard_new_files W tf e s = (r, e', s')"
  obtain q e1 s1 where q: "list_parquet_files W (fst tf) e s = (q, e1, s1)" by (metis surj_pair)
  have "keeps g (each (\<lambda>f. if f \<notin> set (snd tf) then attempt (outside (w_delete W f)) else ok ()) fs)" for fs
    by (intro keeps_intros)
  from keepsD [OF this] * q keepsD [OF listing_keeps(3) q] show "g e' = g e"
    by (cases q) (auto simp: discard_new_files_def)
qed

lemma undo_files_keeps [keeps_intros]: "keeps g (undo_files W fs current)"
  unfolding undo_files_def discard_new_table_def by (intro keeps_intros)

lemma list_files_keeps [keeps_intros]: "keeps g (list_files W ts)"
  by (induction ts) (simp_all only: list_files.simps, (intro keeps_intros; assumption)+)

lemma read_all_keeps [keeps_intros]: "keeps g (read_all W ts)"
  by (induction ts) (simp_all only: read_all.simps, (intro keeps_intros; assumption)+)

lemma registrations_keep [keeps_intros]:
  "keeps g (prepare_table W m)" "keeps g (register_table W m)" "keeps g (register_view W v)"
  unfolding prepare_table_def register_table_def register_view_def by (intro keeps_intros)+

section \<open>Validation\<close>

text \<open>Validation changes the cache of unique keys only.\<close>

lemma cache_only: "cache_frame ck e e' \<Longrightarrow> \<exists>u. e' = e\<lparr>en_uniqueness := u\<rparr>"
  unfolding cache_frame_def by (rule exI [of _ "en_uniqueness e'"]) (metis (no_types, lifting) engine.surjective engine.update_convs(35))

lemma cache_self [simp]: "\<exists>u. e = e\<lparr>en_uniqueness := u\<rparr>"
  by (rule exI [of _ "en_uniqueness e"]) simp

lemma validate_one_engine:
  "validate_one W tbl target batches ph now c ms e s = (r, e', s') \<Longrightarrow> \<exists>u. e' = e\<lparr>en_uniqueness := u\<rparr>"
  using cache_frame_refl [of "[]" e]
  by (cases c) (auto dest!: validate_key_frame validate_check_engine dest: cache_only
      split: if_splits prod.splits sum.splits)

lemma validate_each_engine:
  "validate_each W tbl target batches ph now cs ms e s = (r, e', s') \<Longrightarrow> \<exists>u. e' = e\<lparr>en_uniqueness := u\<rparr>"
proof (induction cs arbitrary: ms e s)
  case Nil
  then show ?case by (auto intro: exI [of _ "en_uniqueness e"])
next
  case (Cons c cs)
  obtain o1 e1 s1 where one: "validate_one W tbl target batches ph now c ms e s = (o1, e1, s1)"
    by (metis surj_pair)
  from validate_one_engine [OF one] obtain u where u: "e1 = e\<lparr>en_uniqueness := u\<rparr>" by blast
  show ?case
  proof (cases o1)
    case (Go ms')
    with Cons.prems one have "validate_each W tbl target batches ph now cs ms' e1 s1 = (r, e', s')" by simp
    from Cons.IH [OF this] u show ?thesis by auto
  next
    case (Return x)
    with Cons.prems one u show ?thesis by auto
  qed
qed

lemma validated_engine:
  "validated W tbl target batches ph e s = (r, e', s') \<Longrightarrow> \<exists>u. e' = e\<lparr>en_uniqueness := u\<rparr>"
  unfolding validated_def validate_constraints_batch_def
  by (auto split: if_splits dest: validate_each_engine intro: exI [of _ "en_uniqueness e"])

section \<open>Parts that do not depend on caches, counters and file statistics\<close>

locale storage_frame =
  fixes g :: "engine \<Rightarrow> 'p"
  assumes uniqueness [simp]: "g (e\<lparr>en_uniqueness := u\<rparr>) = g e"
    and stats [simp]: "g (with_catalog (set_file_stats tbl fs (en_catalog e)) e) = g e"
    and temp [simp]: "g (e\<lparr>en_temp_counter := n\<rparr>) = g e"
    and analyze [simp]: "g (e\<lparr>en_rows_since_analyze := m\<rparr>) = g e"
      "g (e\<lparr>en_pending_analyze := p\<rparr>) = g e"
    and plans [simp]: "g (e\<lparr>en_plan_cache := c\<rparr>) = g e" "g (e\<lparr>en_plan_hits := n\<rparr>) = g e"
    and inverted [simp]: "g (e\<lparr>en_inverted := i\<rparr>) = g e"
begin

lemma validated_keeps [keeps_intros]: "keeps g (validated W tbl target batches ph)"
  by (rule keepsI) (auto dest!: validated_engine)

lemma refresh_keeps [keeps_intros]: "keeps g (refresh_table_file_stats_light W tbl)"
  unfolding refresh_table_file_stats_light_def by (intro keeps_intros) simp

lemma rewrite_steps_keeps [keeps_intros]: "keeps g (rewrite_steps W tbl m local batches use)"
  unfolding rewrite_steps_def
  by (intro keeps_intros) (simp add: invalidate_uniqueness_cache_for_table_def)

lemma rewrite_table_keeps [keeps_intros]: "keeps g (rewrite_table W tbl batches use)"
  using rewrite_steps_keeps [of W] by (auto simp: keeps_def rewrite_table_def split: option.splits)

lemma compact_steps_keeps [keeps_intros]: "keeps g (compact_steps W tbl n order)"
  unfolding compact_steps_def by (intro keeps_intros)

lemma maybe_auto_compact_keeps [keeps_intros]: "keeps g (maybe_auto_compact W tbl)"
  using compact_steps_keeps [of W] by (simp add: keeps_def maybe_auto_compact_def)

lemma maybe_auto_analyze_state [simp]: "g (maybe_auto_analyze tbl rows e) = g e"
  by (simp add: maybe_auto_analyze_def Let_def)

lemma apply_merges_state [simp]: "g (apply_merges ms e) = g e"
  unfolding apply_merges_def merge_uniqueness_keys_def
  by (induction ms arbitrary: e) (simp_all add: split_beta)

lemma write_buffered_keeps [keeps_intros]: "keeps g (write_buffered W tbl b)"
  unfolding write_buffered_def by (intro keeps_intros) (simp add: next_temp_table_name_def)

lemma run_or_rewrite_keeps: "(\<And>e. g (k e) = g e) \<Longrightarrow> keeps g (run_or_rewrite W sql k)"
  by (rule keepsI) (auto simp: run_or_rewrite_def split: prod.splits sum.splits sql_error.splits if_splits option.splits)

lemma collect_with_plan_cache_keeps [keeps_intros]: "keeps g (collect_with_plan_cache W sql)"
proof (rule keepsI)
  fix e s r e' s'
  assume *: "collect_with_plan_cache W sql e s = (r, e', s')"
  have run: "run_or_rewrite W sql k e2 s2 = (r, e', s') \<Longrightarrow> (\<And>e. g (k e) = g e) \<Longrightarrow> g e' = g e2" for k e2 s2
    by (rule keepsD [OF run_or_rewrite_keeps])
  from * show "g e' = g e"
    by (auto simp: collect_with_plan_cache_def Let_def split: if_splits prod.splits sum.splits dest!: run)
qed

lemma rebuild_fts_indexes_keeps [keeps_intros]: "keeps g (rebuild_fts_indexes W)"
proof -
  have "keeps g (rebuild_index W nd)" for nd
    unfolding rebuild_index_def by (intro keeps_intros) simp
  then have "keeps g (each (rebuild_index W) nds)" for nds by (intro keeps_intros)
  then show ?thesis by (simp add: keeps_def rebuild_fts_indexes_def)
qed

lemma reload_tables_keeps [keeps_intros]: "keeps g (reload_tables W)"
  unfolding reload_tables_def by (intro keeps_intros)

lemma reload_and_rewrite_keeps [keeps_intros]: "keeps g (reload_and_rewrite W current backups)"
  unfolding reload_and_rewrite_def rewrite_backup_def by (intro keeps_intros)

end

section \<open>Parts that do not depend on the buffer and its log either\<close>

locale txn_frame = storage_frame +
  assumes buffer [simp]: "g (e\<lparr>en_buffer := b\<rparr>) = g e"
    and arrow_log [simp]: "g (e\<lparr>en_arrow_wal := w\<rparr>) = g e"
    and unsaved [simp]: "g (with_catalog (en_catalog e\<lparr>dirty := d\<rparr>) e) = g e"
begin

lemma flush_table_keeps [keeps_intros]: "keeps g (flush_table W tbl)"
proof (rule keepsI)
  fix e s r e' s'
  assume *: "flush_table W tbl e s = (r, e', s')"
  have "keeps g (andThen (write_buffered W tbl b) (settle_flush W tbl n))" for b n
    unfolding settle_flush_def by (intro keeps_intros) (auto simp: if_distrib [of "\<lambda>f. f _"])
  from keepsD [OF this] * show "g e' = g e"
    by (auto simp: flush_table_def Let_def split: option.splits if_splits)
qed

lemma flush_tables_keeps [keeps_intros]: "keeps g (flush_tables W ts n)"
  by (induction ts arbitrary: n) (auto intro!: keeps_intros)

lemma flush_all_keeps [keeps_intros]: "keeps g (flush_all W)"
  using flush_tables_keeps [of W] by (simp add: keeps_def flush_all_def)

lemma flush_buffered_for_sql_keeps [keeps_intros]: "keeps g (flush_buffered_for_sql W u)"
  using flush_tables_keeps [of W] flush_all_keeps [of W]
  by (auto simp: keeps_def flush_buffered_for_sql_def simp del: flush_tables.simps split: list.splits)

lemma log_batches_keeps [keeps_intros]: "keeps g (log_batches W tbl bs)"
  by (rule keepsI) (auto simp: log_batches_def split: if_splits option.splits prod.splits)

lemma accept_batches_keeps [keeps_intros]: "keeps g (accept_batches W tbl cols bs)"
  by (rule keepsI)
    (auto simp: accept_batches_def Let_def dest!: keepsD [OF validated_keeps] keepsD [OF log_batches_keeps]
       split: prod.splits sum.splits)

lemma flush_if_over_keeps [keeps_intros]: "keeps g (flush_if_over W tbl)"
proof -
  have "keeps g (andThen (flush_table W tbl) (\<lambda>_. ok True))" by (intro keeps_intros)
  then show ?thesis by (auto simp: keeps_def flush_if_over_def split: option.splits)
qed

lemma buffer_insert_batches_keeps [keeps_intros]: "keeps g (buffer_insert_batches W tbl cols bs)"
proof (rule keepsI)
  fix e s r e' s'
  assume *: "buffer_insert_batches W tbl cols bs e s = (r, e', s')"
  have "keeps g (andThen (case ob of Some b \<Rightarrow> if bi_columns b \<noteq> cols then flush_table W tbl else ok 0 | None \<Rightarrow> ok 0)
      (\<lambda>_. andThen (accept_batches W tbl cols bs) (\<lambda>_. andThen (flush_if_over W tbl) (\<lambda>f. ok (total_rows bs, f)))))" for ob
    by (intro keeps_intros)
  from keepsD [OF this] * show "g e' = g e" by (auto simp: buffer_insert_batches_def split: if_splits)
qed

lemma force_save_keeps [keeps_intros]: "keeps g (force_save_catalog W)"
  by (rule keepsI) (auto simp: force_save_catalog_def force_save_def Let_def write_to_store_def split: sum.splits prod.splits)

lemma flush_catalog_keeps [keeps_intros]: "keeps g (flush_catalog W)"
  by (rule keepsI) (auto simp: flush_catalog_def flush_if_dirty_def Let_def write_to_store_def
      split: sum.splits prod.splits if_splits)

end

section \<open>The parts the properties are about\<close>

text \<open>What buffering is about.\<close>

definition write_state :: "engine \<Rightarrow> (string, buffered_insert) hashmap \<times> arrow_wal option \<times> bool" where
  "write_state e = (en_buffer e, en_arrow_wal e, en_replaying e)"

interpretation buffering: storage_frame write_state
  by unfold_locales (simp_all add: write_state_def)

text \<open>What transactions are about; the file statistics of the tables are left out.\<close>

definition catalog_shape :: "catalog_snapshot \<Rightarrow> catalog_snapshot" where
  "catalog_shape snap = snap\<lparr>cat_tables := hm_map_values (\<lambda>m. m\<lparr>tm_file_stats := []\<rparr>) (cat_tables snap)\<rparr>"

definition shape :: "engine \<Rightarrow> catalog_snapshot" where
  "shape e = catalog_shape (catalog_snapshot (en_catalog e))"

definition txn_state :: "engine \<Rightarrow> transaction option \<times> bool \<times> wal option \<times> nat \<times> bool \<times> catalog_snapshot" where
  "txn_state e = (en_txn e, in_transaction (en_catalog e), en_wal e, en_txn_counter e, en_replaying e, shape e)"

lemma shape_stats: "catalog_shape (catalog_snapshot (set_file_stats tbl fs c)) = catalog_shape (catalog_snapshot c)"
  unfolding set_file_stats_def catalog_shape_def
  by (auto simp: catalog_snapshot_def hm_map_values_def hm_modify_def split_beta)

lemma set_file_stats_flag [simp]: "in_transaction (set_file_stats tbl fs c) = in_transaction c"
  by (simp add: set_file_stats_def)

interpretation txn: txn_frame txn_state
  by unfold_locales (simp_all add: txn_state_def shape_def shape_stats)

end
