(* ===== verification/Write_Buffer_Props.thy ===== *)
theory Write_Buffer_Props
  imports Frames Arrow_Props
begin

text \<open>
  The write buffer and its copy in the Arrow log: which parts of the engine each step keeps,
  the agreement of buffer and log over any history, and where rows are lost or come back.
\<close>

section \<open>What a flush changes\<close>

text \<open>After a flush that succeeds the Arrow log of the table is gone.\<close>

lemma settle_flush_state:
  assumes "settle_flush W tbl rows ms e s = (r, e', s')"
  shows "write_state e' =
     (en_buffer e, map_option (checkpoint_table tbl) (en_arrow_wal e), en_replaying e)"
proof -
  let ?e1 = "(if rows > 0 then apply_merges ms else id) e"
  let ?e2 = "?e1\<lparr>en_arrow_wal := map_option (checkpoint_table tbl) (en_arrow_wal ?e1)\<rparr>"
  have e1: "write_state ?e1 = write_state e" by simp
  have "keeps write_state (andThen (refresh_table_file_stats_light W tbl) (\<lambda>_. andThen (maybe_auto_compact W tbl) (\<lambda>_. ok rows)))"
    by (intro keeps_intros)
  from keepsD [OF this] assms have "write_state e' = write_state (maybe_auto_analyze tbl rows ?e2)"
    unfolding settle_flush_def by simp
  also have "\<dots> = write_state ?e2" by simp
  finally show ?thesis using e1 by (simp add: write_state_def split: if_splits)
qed

lemma flush_table_state:
  assumes "flush_table W tbl e s = (Inr n, e', s')"
  shows "en_buffer e' = hm_remove tbl (en_buffer e) \<and> en_replaying e' = en_replaying e \<and>
     en_arrow_wal e' =
       (if buffered e tbl = [] \<or> (\<exists>b. hm_get (en_buffer e) tbl = Some b \<and> bi_rows b = 0) then en_arrow_wal e
        else map_option (checkpoint_table tbl) (en_arrow_wal e))"
proof (cases "hm_get (en_buffer e) tbl")
  case None
  then have "tbl \<notin> fst ` set (en_buffer e)" by (simp add: map_of_eq_None_iff)
  then have "hm_remove tbl (en_buffer e) = en_buffer e"
    by (force simp: hm_remove_def intro!: filter_True)
  with None assms show ?thesis by (simp add: flush_table_def buffered_def)
next
  case (Some b)
  let ?e1 = "e\<lparr>en_buffer := hm_remove tbl (en_buffer e)\<rparr>"
  show ?thesis
  proof (cases "bi_rows b = 0 \<or> bi_batches b = []")
    case True
    with Some assms show ?thesis by (auto simp: flush_table_def buffered_def)
  next
    case False
    with Some assms have "andThen (write_buffered W tbl b) (settle_flush W tbl (bi_rows b)) ?e1 s = (Inr n, e', s')"
      by (simp add: flush_table_def)
    then obtain ms e2 s2 where w: "write_buffered W tbl b ?e1 s = (Inr ms, e2, s2)"
      and st: "settle_flush W tbl (bi_rows b) ms e2 s2 = (Inr n, e', s')"
      by (auto simp: andThen_Inr)
    from keepsD [OF buffering.write_buffered_keeps w] settle_flush_state [OF st] Some False show ?thesis
      by (auto simp: write_state_def buffered_def)
  qed
qed

text \<open>A flush that fails has taken the rows out of the buffer.\<close>

lemma flush_table_failed:
  assumes "flush_table W tbl e s = (Inl err, e', s')"
  shows "en_buffer e' = hm_remove tbl (en_buffer e)"
proof -
  from assms obtain b where b: "hm_get (en_buffer e) tbl = Some b" "\<not> (bi_rows b = 0 \<or> bi_batches b = [])"
    by (auto simp: flush_table_def Let_def split: option.splits if_splits)
  let ?e1 = "e\<lparr>en_buffer := hm_remove tbl (en_buffer e)\<rparr>"
  obtain q e2 s2 where w: "write_buffered W tbl b ?e1 s = (q, e2, s2)" by (metis surj_pair)
  have "en_buffer e2 = hm_remove tbl (en_buffer e)"
    using keepsD [OF buffering.write_buffered_keeps w] by (simp add: write_state_def)
  with assms b w show ?thesis
    by (cases q) (auto simp: flush_table_def write_state_def dest: settle_flush_state)
qed


section \<open>The buffer and its copy in the Arrow log\<close>

definition log_matches :: "'s world \<Rightarrow> nat \<Rightarrow> engine \<Rightarrow> bool" where
  "log_matches W k e \<longleftrightarrow>
     (case en_arrow_wal e of
        None \<Rightarrow> False
      | Some w \<Rightarrow> awal_inv k w \<and> awal_abs (w_ipc W) w (buffered e))"

text \<open>An entry with batches has rows.\<close>

definition buffer_ok :: "engine \<Rightarrow> bool" where
  "buffer_ok e \<longleftrightarrow> (\<forall>t b. hm_get (en_buffer e) t = Some b \<longrightarrow> bi_batches b \<noteq> [] \<longrightarrow> bi_rows b > 0)"

lemma buffered_state: "write_state e' = write_state e \<Longrightarrow> buffered e' = buffered e"
  by (simp add: buffered_def write_state_def fun_eq_iff)

lemma log_matches_state: "write_state e' = write_state e \<Longrightarrow> log_matches W k e' = log_matches W k e"
  using buffered_state [of e' e] by (auto simp: log_matches_def write_state_def split: option.splits)

lemma buffer_ok_state: "write_state e' = write_state e \<Longrightarrow> buffer_ok e' = buffer_ok e"
  by (simp add: buffer_ok_def write_state_def)

lemma matches_recover:
  assumes "log_matches W k e" and "k < 10 ^ 6"
  shows "\<exists>w r. en_arrow_wal e = Some w \<and> awal_recover (w_ipc W) (aw_dirs w) = Inr r \<and>
     (\<forall>t. or_empty (hm_get r t) = buffered e t)"
  using assms awal_recovers by (fastforce simp: log_matches_def split: option.splits)

lemma flush_buffered_eq:
  "en_buffer e' = hm_remove tbl (en_buffer e) \<Longrightarrow> buffered e' = (buffered e)(tbl := [])"
  by (simp add: buffered_def fun_eq_iff)

lemma flush_matches:
  assumes "flush_table W tbl e s = (Inr n, e', s')" and "log_matches W k e" and "buffer_ok e" and "k < 10 ^ 6"
  shows "log_matches W k e' \<and> buffer_ok e'"
proof -
  note st = flush_table_state [OF assms(1)]
  from assms(2) obtain w where w: "en_arrow_wal e = Some w" "awal_inv k w" "awal_abs (w_ipc W) w (buffered e)"
    by (auto simp: log_matches_def split: option.splits)
  have buf: "buffered e' = (buffered e)(tbl := [])" by (rule flush_buffered_eq) (simp add: st)
  have "awal_inv k (checkpoint_table tbl w) \<and> awal_abs (w_ipc W) (checkpoint_table tbl w) ((buffered e)(tbl := []))"
    using awal_step [of "w_ipc W" "ACheckpoint tbl" k w "buffered e" k] w(2,3) assms(4) by simp
  moreover have "buffered e tbl = []" if "hm_get (en_buffer e) tbl = Some b" "bi_rows b = 0" for b
    using assms(3) that by (auto simp: buffer_ok_def buffered_def dest!: spec [of _ tbl])
  ultimately have "log_matches W k e'"
    using st w buf by (auto simp: log_matches_def fun_upd_idem)
  moreover have "buffer_ok e'" using assms(3) st by (auto simp: buffer_ok_def)
  ultimately show ?thesis ..
qed

lemma log_batches_matches:
  assumes "log_batches W tbl batches e s = (r, e', s')" and "en_arrow_wal e = Some w" and "\<not> en_replaying e"
    and "awal_inv k w" and "awal_abs (w_ipc W) w m" and "buffered e = m(tbl := m tbl @ batches)"
    and "ipc_ok (w_ipc W) batches" and "batches \<noteq> []" and "Suc k < 10 ^ 6"
  shows "r = Inr () \<and> log_matches W (Suc k) e' \<and> en_buffer e' = en_buffer e \<and> en_replaying e' = en_replaying e"
proof -
  from append_step [OF assms(7,4,5,9,8), of tbl "w_clock W s"] obtain w' where
    w': "awal_append (w_ipc W) tbl batches (w_clock W s) w = (Inr (), w')" "awal_inv (Suc k) w'"
    "awal_abs (w_ipc W) w' (m(tbl := m tbl @ batches))" by blast
  with assms(1-3) have "r = Inr ()" "e' = e\<lparr>en_arrow_wal := Some w'\<rparr>" by (auto simp: log_batches_def)
  moreover have "buffered (e\<lparr>en_arrow_wal := Some w'\<rparr>) = buffered e" by (simp add: buffered_def fun_eq_iff)
  ultimately show ?thesis using w' assms(6) by (simp add: log_matches_def)
qed

lemma opened_batches: "bi_batches (opened_entry tbl cols now e) = buffered e tbl"
  by (auto simp: opened_entry_def buffered_def Let_def split: option.splits)

lemma total_rows_Nil: "total_rows bs \<noteq> 0 \<Longrightarrow> bs \<noteq> []"
  by (auto simp: total_rows_def)

text \<open>Accepting a batch adds it to both; rejecting it changes neither.\<close>

lemma accept_matches:
  assumes "accept_batches W tbl cols batches e s = (r, e', s')" and "log_matches W k e" and "buffer_ok e"
    and "\<not> en_replaying e" and "ipc_ok (w_ipc W) batches" and "total_rows batches \<noteq> 0" and "Suc k < 10 ^ 6"
  shows "case r of
      Inr _ \<Rightarrow> log_matches W (Suc k) e' \<and> buffer_ok e' \<and> \<not> en_replaying e' \<and>
        buffered e' = (buffered e)(tbl := buffered e tbl @ batches)
    | Inl _ \<Rightarrow> buffered e' = buffered e \<and> en_arrow_wal e' = en_arrow_wal e \<and> buffer_ok e' \<and> \<not> en_replaying e'"
proof -
  define prev where "prev = opened_entry tbl cols (w_clock W s) e"
  define b where "b = extend_entry batches (total_rows batches) (estimate_batch_bytes W batches) prev"
  define e1 where "e1 = e\<lparr>en_buffer := hm_insert tbl b (en_buffer e)\<rparr>"
  have prevb: "bi_batches prev = buffered e tbl" by (simp add: prev_def opened_batches)
  have bb: "bi_batches b = buffered e tbl @ batches" "bi_rows b > 0"
    using assms(6) by (simp_all add: b_def extend_entry_def prevb u64_saturating_add_def u64_max_def)
  obtain q e2 s2 where v: "validated W tbl (target_columns e1 tbl (bi_columns b)) (bi_batches b) BeforeInsert e1 s = (q, e2, s2)"
    by (metis surj_pair)
  have st: "write_state e2 = write_state e1" by (rule keepsD [OF buffering.validated_keeps v])
  from assms(2) obtain w where w: "en_arrow_wal e = Some w" "awal_inv k w" "awal_abs (w_ipc W) w (buffered e)"
    by (auto simp: log_matches_def split: option.splits)
  have run: "(r, e', s') = (case q of
      Inl err \<Rightarrow> (Inl err, e2\<lparr>en_buffer := hm_modify tbl (cut_entry prev) (en_buffer e2)\<rparr>, s2)
    | Inr _ \<Rightarrow> log_batches W tbl batches e2 s2)"
    using assms(1) v by (simp add: accept_batches_def prev_def b_def e1_def Let_def split: sum.splits)
  have e2: "en_buffer e2 = hm_insert tbl b (en_buffer e)" "en_arrow_wal e2 = Some w" "\<not> en_replaying e2"
    using st w(1) assms(4) by (simp_all add: e1_def write_state_def)
  have buf2: "buffered e2 = (buffered e)(tbl := buffered e tbl @ batches)"
    by (simp add: buffered_def e2(1) fun_eq_iff bb(1))
  have ok2: "buffer_ok e2" using assms(3) bb(2) by (auto simp: buffer_ok_def e2(1))
  show ?thesis
  proof (cases q)
    case (Inl err)
    have cut: "bi_batches (cut_entry prev b) = buffered e tbl" "bi_rows (cut_entry prev b) = bi_rows prev"
      by (simp_all add: cut_entry_def bb(1) prevb)
    have prevr: "bi_rows prev > 0" if "buffered e tbl \<noteq> []"
      using that assms(3) by (auto simp: prev_def opened_entry_def buffered_def buffer_ok_def Let_def split: option.splits)
    have "buffered e' = buffered e" "buffer_ok e'"
      using run Inl cut prevr assms(3) by (auto simp: e2(1) buffered_def fun_eq_iff buffer_ok_def)
    with run Inl e2(2,3) w(1) show ?thesis by simp
  next
    case (Inr u)
    with run have lb: "log_batches W tbl batches e2 s2 = (r, e', s')" by simp
    from log_batches_matches [OF lb e2(2,3) w(2,3) buf2 assms(5) total_rows_Nil [OF assms(6)] assms(7)]
    have "r = Inr ()" "log_matches W (Suc k) e'" "en_buffer e' = en_buffer e2" "en_replaying e' = en_replaying e2" by auto
    with ok2 buf2 e2(3) show ?thesis by (simp add: buffer_ok_def buffered_def fun_eq_iff)
  qed
qed


section \<open>Histories of inserts and flushes\<close>

datatype buffer_op = BInsert string "string list option" "record_batch list" | BFlush string

fun buffer_step :: "'s world \<Rightarrow> buffer_op \<Rightarrow> (unit, 's) action" where
  "buffer_step W (BInsert tbl cols batches) = andThen (buffer_insert_batches W tbl cols batches) (\<lambda>_. ok ())"
| "buffer_step W (BFlush tbl) = andThen (flush_table W tbl) (\<lambda>_. ok ())"

fun step_ok :: "'s world \<Rightarrow> buffer_op \<Rightarrow> bool" where
  "step_ok W (BInsert tbl cols batches) = ipc_ok (w_ipc W) batches"
| "step_ok W (BFlush tbl) = True"

lemma log_matches_mono: "log_matches W k e \<Longrightarrow> k \<le> k' \<Longrightarrow> log_matches W k' e"
  by (auto simp: log_matches_def awal_inv_def split: option.splits)

lemma insert_matches:
  assumes "buffer_insert_batches W tbl cols batches e s = (Inr res, e', s')" and "log_matches W k e"
    and "buffer_ok e" and "\<not> en_replaying e" and "ipc_ok (w_ipc W) batches" and "Suc k < 10 ^ 6"
  shows "log_matches W (Suc k) e' \<and> buffer_ok e' \<and> \<not> en_replaying e'"
proof (cases "total_rows batches = 0")
  case True
  with assms log_matches_mono [of W k e "Suc k"] show ?thesis by (simp add: buffer_insert_batches_def)
next
  case False
  with assms(1) obtain n e1 s1 e2 s2 fl e3 s3 where
    pre: "(case hm_get (en_buffer e) tbl of Some b \<Rightarrow> if bi_columns b \<noteq> cols then flush_table W tbl else ok 0
       | None \<Rightarrow> ok 0) e s = (Inr n, e1, s1)"
    and acc: "accept_batches W tbl cols batches e1 s1 = (Inr (), e2, s2)"
    and fl: "flush_if_over W tbl e2 s2 = (Inr fl, e3, s3)" and e': "e' = e3"
    by (auto simp: buffer_insert_batches_def andThen_Inr)
  have k: "k < 10 ^ 6" using assms(6) by simp
  have 1: "log_matches W k e1 \<and> buffer_ok e1 \<and> \<not> en_replaying e1"
    using pre assms(2-4) flush_matches [of W tbl e s n e1 s1 k] flush_table_state [of W tbl e s n e1 s1] k
    by (auto split: option.splits if_splits)
  from accept_matches [OF acc _ _ _ assms(5) False assms(6)] 1
  have 2: "log_matches W (Suc k) e2" "buffer_ok e2" "\<not> en_replaying e2" by auto
  have "e3 = e2 \<or> (\<exists>m. flush_table W tbl e2 s2 = (Inr m, e3, s3))"
    using fl by (auto simp: flush_if_over_def andThen_Inr split: option.splits if_splits)
  then show ?thesis
    using 2 flush_matches [OF _ 2(1,2) assms(6)] flush_table_state [of W tbl e2 s2 _ e3 s3] e' by blast
qed

lemma buffer_run_matches:
  assumes "each (buffer_step W) ops e s = (Inr (), e', s')" and "log_matches W k e" and "buffer_ok e"
    and "\<not> en_replaying e" and "list_all (step_ok W) ops" and "k + length ops < 10 ^ 6"
  shows "log_matches W (k + length ops) e' \<and> buffer_ok e'"
  using assms
proof (induction ops arbitrary: e s k)
  case (Cons p ops)
  from Cons.prems(1) obtain e1 s1 where step: "buffer_step W p e s = (Inr (), e1, s1)"
    and rest: "each (buffer_step W) ops e1 s1 = (Inr (), e', s')" by (auto simp: andThen_Inr)
  have "log_matches W (Suc k) e1 \<and> buffer_ok e1 \<and> \<not> en_replaying e1"
  proof (cases p)
    case (BInsert t c b)
    with step Cons.prems(5) obtain res where "buffer_insert_batches W t c b e s = (Inr res, e1, s1)"
      "ipc_ok (w_ipc W) b" by (auto simp: andThen_Inr)
    from insert_matches [OF this(1) Cons.prems(2-4) this(2)] Cons.prems(6) show ?thesis by simp
  next
    case (BFlush t)
    with step obtain n where n: "flush_table W t e s = (Inr n, e1, s1)" by (auto simp: andThen_Inr)
    from flush_matches [OF n Cons.prems(2,3)] flush_table_state [OF n] Cons.prems(4,6)
      log_matches_mono [of W k e1 "Suc k"] show ?thesis by auto
  qed
  with Cons.IH [OF rest, of "Suc k"] Cons.prems(5,6) show ?case by simp
qed simp

text \<open>
  C5. Buffered rows survive a crash. Let the Arrow log match the write buffer at the start.
  After any sequence of inserts (with the flushes they trigger by a change of columns or a
  threshold) and explicit flushes that succeed, with fewer than a million of them, recovery
  from the log's directory returns for every table exactly the batches that are still in the
  buffer, in order: nothing that was flushed comes back, and nothing that waits is missing.
\<close>

theorem buffer_equals_recovery:
  assumes "each (buffer_step W) ops e s = (Inr (), e', s')" and "log_matches W k e" and "buffer_ok e"
    and "\<not> en_replaying e" and "list_all (step_ok W) ops" and "k + length ops < 10 ^ 6"
  shows "\<exists>w r. en_arrow_wal e' = Some w \<and> awal_recover (w_ipc W) (aw_dirs w) = Inr r \<and>
     (\<forall>t. or_empty (hm_get r t) = buffered e' t)"
  using matches_recover buffer_run_matches [OF assms] assms(6) by blast

text \<open>
  C15. A rejected statement leaves no trace. When the batches of an INSERT are refused by the
  validation of the buffered rows together with the new ones, the buffered batches of every
  table and the Arrow log are what they were before the statement.
\<close>

theorem rejected_insert_leaves_no_trace:
  assumes "accept_batches W tbl cols batches e s = (Inl err, e', s')" and "log_matches W k e" and "buffer_ok e"
    and "\<not> en_replaying e" and "ipc_ok (w_ipc W) batches" and "total_rows batches \<noteq> 0" and "Suc k < 10 ^ 6"
  shows "buffered e' = buffered e \<and> en_arrow_wal e' = en_arrow_wal e"
  using accept_matches [OF assms] by simp

text \<open>
  C39. A failed flush. Whatever step of a flush fails, the engine forgets the rows: they are no longer
  buffered. When they could not be written or validated, their copies stay in the Arrow
  log, so recovery at the next start inserts them again, also when the failed check was a FOREIGN KEY and
  the rows are already in the table; when only a later step failed (the file statistics, the
  compaction), the log of the table is already gone and recovery returns nothing for it. The other tables'
  rows stay in the buffer and in the log.
\<close>

theorem failed_flush_forgets_rows:
  assumes "flush_table W tbl e s = (Inl err, e', s')" and "log_matches W k e" and "k < 10 ^ 6"
  shows "\<exists>b w r. hm_get (en_buffer e) tbl = Some b \<and> buffered e' = (buffered e)(tbl := []) \<and>
     en_arrow_wal e' = Some w \<and> awal_recover (w_ipc W) (aw_dirs w) = Inr r \<and>
     or_empty (hm_get r tbl) =
       (if isl (fst (write_buffered W tbl b (e\<lparr>en_buffer := hm_remove tbl (en_buffer e)\<rparr>) s)) then bi_batches b else []) \<and>
     (\<forall>t. t \<noteq> tbl \<longrightarrow> or_empty (hm_get r t) = buffered e t)"
proof -
  from assms(1) obtain b where b: "hm_get (en_buffer e) tbl = Some b" "\<not> (bi_rows b = 0 \<or> bi_batches b = [])"
    by (auto simp: flush_table_def Let_def split: option.splits if_splits)
  then have rows: "buffered e tbl = bi_batches b" by (simp add: buffered_def)
  let ?e1 = "e\<lparr>en_buffer := hm_remove tbl (en_buffer e)\<rparr>"
  obtain q e2 s2 where w: "write_buffered W tbl b ?e1 s = (q, e2, s2)" by (metis surj_pair)
  have wal2: "en_arrow_wal e2 = en_arrow_wal e"
    using keepsD [OF buffering.write_buffered_keeps w] by (simp add: write_state_def)
  have buf: "buffered e' = (buffered e)(tbl := [])"
    by (rule flush_buffered_eq) (rule flush_table_failed [OF assms(1)])
  show ?thesis
  proof (cases q)
    case (Inl m)
    then have "e' = e2" using assms(1) b w by (simp add: flush_table_def)
    then show ?thesis
      using wal2 buf rows b(1) w Inl matches_recover [OF assms(2,3)] by auto
  next
    case (Inr ms)
    then have "settle_flush W tbl (bi_rows b) ms e2 s2 = (Inl err, e', s')"
      using assms(1) b w by (simp add: flush_table_def)
    from settle_flush_state [OF this] wal2
    have wal: "en_arrow_wal e' = map_option (checkpoint_table tbl) (en_arrow_wal e)" by (simp add: write_state_def)
    from assms(2) obtain l where l: "en_arrow_wal e = Some l" "awal_inv k l" "awal_abs (w_ipc W) l (buffered e)"
      by (auto simp: log_matches_def split: option.splits)
    have "awal_inv k (checkpoint_table tbl l) \<and> awal_abs (w_ipc W) (checkpoint_table tbl l) ((buffered e)(tbl := []))"
      using awal_step [of "w_ipc W" "ACheckpoint tbl" k l "buffered e" k] l(2,3) assms(3) by simp
    then have "log_matches W k e'" using wal l(1) buf by (simp add: log_matches_def)
    from matches_recover [OF this assms(3)] b(1) w Inr buf show ?thesis by auto
  qed
qed

lemma flush_tables_others:
  assumes "flush_tables W ts n e s = (Inr m, e', s')" and "t \<notin> set ts"
  shows "buffered e' t = buffered e t"
  using assms
proof (induction ts arbitrary: n e s)
  case (Cons t' ts)
  then obtain n1 e1 s1 where f: "flush_table W t' e s = (Inr n1, e1, s1)"
    and rest: "flush_tables W ts (u64_saturating_add n n1) e1 s1 = (Inr m, e', s')" by (auto simp: andThen_Inr)
  from Cons.IH [OF rest] flush_table_state [OF f] Cons.prems(2) show ?case by (simp add: buffered_def)
qed simp

lemma checkpoint_state:
  "handle_checkpoint now e = (Inr q, e') \<Longrightarrow>
     en_buffer e' = en_buffer e \<and> en_arrow_wal e' = map_option checkpoint_all (en_arrow_wal e)"
  by (auto simp: handle_checkpoint_def Let_def split: if_splits option.splits)

text \<open>
  C40. CHECKPOINT. Before CHECKPOINT runs, only the buffered tables whose names occur in the
  text of the statement are flushed, when there are any: a table named \<open>t\<close> is enough. The
  checkpoint then empties the Arrow log of every table: of the other tables, whose rows stay
  in the buffer, recovery finds nothing, so their acknowledged rows are lost in a crash.
\<close>

theorem checkpoint_drops_buffered_rows:
  assumes "flush_buffered_for_sql W ''CHECKPOINT'' e s = (Inr n, e1, s1)"
    and "handle_checkpoint now e1 = (Inr q, e2)" and "en_arrow_wal e2 = Some w"
    and "contains_str (to_uppercase t) ''CHECKPOINT''" and "hm_contains (en_buffer e) t"
    and "\<not> contains_str (to_uppercase u) ''CHECKPOINT''"
  shows "buffered e2 u = buffered e u \<and> awal_recover (w_ipc W) (aw_dirs w) = Inr []"
proof -
  have t: "t \<in> set (named_tables ''CHECKPOINT'' e)"
    using assms(4,5) by (simp add: named_tables_def hm_contains_keys)
  then have "en_buffer e \<noteq> []" by (auto simp: named_tables_def hm_keys_def)
  with t assms(1) have "flush_tables W (named_tables ''CHECKPOINT'' e) 0 e s = (Inr n, e1, s1)"
    by (auto simp: flush_buffered_for_sql_def split: list.splits)
  from flush_tables_others [OF this, of u] assms(6) have "buffered e1 u = buffered e u"
    by (simp add: named_tables_def)
  moreover obtain w1 where "w = checkpoint_all w1"
    using checkpoint_state [OF assms(2)] assms(3) by (cases "en_arrow_wal e1") auto
  ultimately show ?thesis
    using checkpoint_state [OF assms(2)] by (simp add: buffered_def checkpoint_all_def awal_recover_def)
qed


section \<open>Examples\<close>

definition buffer_world :: "unit world" where
  "buffer_world = idle_world\<lparr>w_ipc := demo_ipc\<rparr>"

definition buffer_engine :: engine where
  "buffer_engine =
     engine_new (\<lambda>_. None) 0 LocalDisk [] [] None (Some (open_with_config [] default_config 0)) (with_data empty_data ''c'')"

lemma no_tables_validated:
  "cat_tables (en_catalog e) = [] \<Longrightarrow> validated W tbl target bs ph e s = (Inr [], e, s)"
  by (simp add: validated_def validate_constraints_batch_def constraints_of_def)

lemma buffer_engine_simps [simp]:
  "cat_tables (en_catalog buffer_engine) = []" "en_buffer buffer_engine = []" "\<not> en_replaying buffer_engine"
  "en_arrow_wal buffer_engine = Some (open_with_config [] default_config 0)"
  "en_buffer_rows buffer_engine = 10000" "en_buffer_bytes buffer_engine = 64 * 1024 * 1024"
  "en_buffer_age buffer_engine = 1000000 * 360000" "en_txn buffer_engine = None" "en_compact_files buffer_engine = 64"
  "en_prefix buffer_engine = []"
  by (simp_all add: buffer_engine_def engine_new_def bootstrap_users_def with_data_def empty_data_def env_u64_def Let_def)

lemma buffer_world_simps [simp]:
  "w_ipc buffer_world = demo_ipc" "w_clock buffer_world s = 0" "w_column_bytes buffer_world b = (\<lambda>_. 0)"
  "w_sql buffer_world q s = (Inr [], s)" "w_register buffer_world t bs s = (Inr (), s)"
  "w_deregister buffer_world t s = (Inr (), s)" "w_list buffer_world p s = Inr []"
  by (simp_all add: buffer_world_def idle_world_def)

lemma buffer_engine_start: "log_matches buffer_world 0 buffer_engine" "buffer_ok buffer_engine"
  using fresh_log(1) [of default_config 0] fresh_log(2) [of demo_ipc default_config 0] by (simp_all add: log_matches_def buffer_ok_def buffered_def [abs_def])

lemma demo_rows [simp]: "total_rows [demo_batch n] = 1"
  by (simp add: total_rows_def num_rows_def demo_batch_def)

lemma demo_write [simp]: "ipc_write demo_ipc [demo_batch n] = Inr [char_of n]"
  by (simp add: demo_ipc_def demo_batch_def cell_at_def)


definition demo_entry :: "nat \<Rightarrow> buffered_insert" where
  "demo_entry n = \<lparr>bi_columns = None, bi_batches = [demo_batch n], bi_rows = 1, bi_bytes = 0, bi_first_at = 0\<rparr>"

lemma demo_insert:
  assumes "cat_tables (en_catalog e) = []" and "hm_get (en_buffer e) t = None" and "\<not> en_replaying e"
    and "en_arrow_wal e = Some w" and "t \<notin> set (aw_known w)" and "\<not> hm_contains (aw_dirs w) t"
    and "en_buffer_rows e = 10000" "en_buffer_bytes e = 64 * 1024 * 1024" "en_buffer_age e = 1000000 * 360000"
  shows "buffer_insert_batches buffer_world t None [demo_batch n] e () =
     (Inr (1, False), e\<lparr>en_buffer := hm_insert t (demo_entry n) (en_buffer e),
        en_arrow_wal := Some (snd (awal_append demo_ipc t [demo_batch n] 0 w))\<rparr>, ())"
proof -
  obtain r w' where aw: "awal_append demo_ipc t [demo_batch n] 0 w = (r, w')" by (metis surj_pair)
  then have "r = Inr ()"
    using assms(5,6) by (auto simp: awal_append_def Let_def hm_or_insert_def split: if_splits)
  with aw have aw: "awal_append demo_ipc t [demo_batch n] 0 w = (Inr (), w')" by simp
  have acc: "accept_batches buffer_world t None [demo_batch n] e () =
      (Inr (), e\<lparr>en_buffer := hm_insert t (demo_entry n) (en_buffer e), en_arrow_wal := Some w'\<rparr>, ())"
    using assms(1-4) by (simp add: accept_batches_def no_tables_validated Let_def opened_entry_def extend_entry_def
        log_batches_def estimate_batch_bytes_def u64_saturating_add_def u64_max_def demo_entry_def aw)
  show ?thesis
    using assms by (simp add: aw buffer_insert_batches_def acc flush_if_over_def over_threshold_def demo_entry_def)
qed

lemma idle_files [simp]:
  "maybe_auto_compact buffer_world t e s = (Inr (), e, s)"
  "refresh_table_file_stats_light buffer_world t e s =
     (Inr (), with_catalog (set_file_stats t [] (en_catalog e)) e, s)"
  by (simp_all add: maybe_auto_compact_def compact_steps_def list_parquet_files_def list_objects_def look_def
      andThen_def refresh_table_file_stats_light_def)

lemma no_table_flush:
  assumes "cat_tables (en_catalog e) = []"
  shows "\<exists>n e' s'. flush_table buffer_world t e s = (Inr n, e', s') \<and> en_txn e' = en_txn e"
  using assms
  by (simp add: maybe_auto_analyze_def apply_merges_def flush_table_def Let_def write_buffered_def no_tables_validated outside_def
      insert_from_temp_def settle_flush_def next_temp_table_name_def split: option.splits)

lemma buffer_run:
  "\<exists>e' s'. each (buffer_step buffer_world) [BInsert ''t'' None [demo_batch 7], BInsert ''u'' None [demo_batch 8], BFlush ''t'']
       buffer_engine () = (Inr (), e', s') \<and> buffered e' ''t'' = [] \<and> buffered e' ''u'' = [demo_batch 8]"
proof -
  let ?w1 = "snd (awal_append demo_ipc ''t'' [demo_batch 7] 0 (open_with_config [] default_config 0))"
  let ?e1 = "buffer_engine\<lparr>en_buffer := [(''t'', demo_entry 7)], en_arrow_wal := Some ?w1\<rparr>"
  let ?w2 = "snd (awal_append demo_ipc ''u'' [demo_batch 8] 0 ?w1)"
  let ?e2 = "buffer_engine\<lparr>en_buffer := [(''t'', demo_entry 7), (''u'', demo_entry 8)], en_arrow_wal := Some ?w2\<rparr>"
  have w1: "aw_known ?w1 = [''t'']" "hm_contains (aw_dirs ?w1) ''u'' = False"
    by (simp_all add: awal_append_def open_with_config_def Let_def hm_or_insert_def hm_contains_def hm_insert_def hm_modify_def)
  have i1: "buffer_insert_batches buffer_world ''t'' None [demo_batch 7] buffer_engine () = (Inr (1, False), ?e1, ())"
    by (subst demo_insert) (simp_all add: open_with_config_def hm_contains_def hm_insert_def)
  have i2: "buffer_insert_batches buffer_world ''u'' None [demo_batch 8] ?e1 () = (Inr (1, False), ?e2, ())"
    by (subst demo_insert [where w = ?w1]) (simp_all add: w1 hm_insert_def)
  obtain n e' s' where f: "flush_table buffer_world ''t'' ?e2 () = (Inr n, e', s')"
    using no_table_flush [of ?e2 "''t''" "()"] by auto
  from flush_buffered_eq [OF conjunct1 [OF flush_table_state [OF f]]]
  have "buffered e' = (buffered ?e2)(''t'' := [])" .
  then have "buffered e' ''t'' = []" "buffered e' ''u'' = [demo_batch 8]"
    by (simp_all add: buffered_def [of "?e2"] demo_entry_def buffered_def [of "_\<lparr>en_buffer := _, en_arrow_wal := _\<rparr>"])
  with i1 i2 f show ?thesis by simp
qed

theorem buffer_equals_recovery_witness:
  "\<exists>e' s' w r. each (buffer_step buffer_world) [BInsert ''t'' None [demo_batch 7], BInsert ''u'' None [demo_batch 8], BFlush ''t'']
       buffer_engine () = (Inr (), e', s') \<and> en_arrow_wal e' = Some w \<and>
     awal_recover demo_ipc (aw_dirs w) = Inr r \<and> or_empty (hm_get r ''t'') = [] \<and>
     or_empty (hm_get r ''u'') = [demo_batch 8]"
proof -
  obtain e' s' where run: "each (buffer_step buffer_world)
      [BInsert ''t'' None [demo_batch 7], BInsert ''u'' None [demo_batch 8], BFlush ''t''] buffer_engine () = (Inr (), e', s')"
    and "buffered e' ''t'' = []" "buffered e' ''u'' = [demo_batch 8]" using buffer_run by blast
  moreover have "\<exists>w r. en_arrow_wal e' = Some w \<and> awal_recover (w_ipc buffer_world) (aw_dirs w) = Inr r \<and>
     (\<forall>t. or_empty (hm_get r t) = buffered e' t)"
    by (rule buffer_equals_recovery [OF run buffer_engine_start]) simp_all
  ultimately show ?thesis by auto
qed


definition keyed_engine :: engine where
  "keyed_engine = buffer_engine\<lparr>en_catalog := with_data (empty_data\<lparr>cat_tables := [(''t'', demo_meta)]\<rparr>) ''c''\<rparr>"

theorem rejected_insert_leaves_no_trace_witness:
  "\<exists>err e' s'. accept_batches buffer_world ''t'' (Some [''id'']) [demo_batch 7, demo_batch 7] keyed_engine () =
     (Inl err, e', s') \<and> buffered e' = buffered keyed_engine \<and> en_arrow_wal e' = en_arrow_wal keyed_engine"
proof -
  have con: "constraints_of (keyed_engine\<lparr>en_buffer := b\<rparr>) ''t'' = [PrimaryKey [''id'']]" for b
    by (simp add: constraints_of_def keyed_engine_def with_data_def demo_meta_def)
  have scan: "scan_keys False err (positions [''id''] [''id'']) [] (batch_rows [demo_batch 7, demo_batch 7]) = Inl err" for err
    by (simp add: positions_def column_position_def map_filter_simps batch_rows_def demo_batch_def key_tuple_def
        cell_at_def row_key_def show_int_def Let_def show_nat.simps [of 7] char_of_def bit_0)
  have buf: "en_buffer keyed_engine = []" "cat_tables (en_catalog keyed_engine) = [(''t'', demo_meta)]"
    by (simp_all add: keyed_engine_def with_data_def)
  obtain err e' s' where run: "accept_batches buffer_world ''t'' (Some [''id'']) [demo_batch 7, demo_batch 7] keyed_engine () =
      (Inl err, e', s')"
    by (simp add: accept_batches_def Let_def opened_entry_def extend_entry_def target_columns_def buf validated_def
        validate_constraints_batch_def con validate_key_def scan column_position_def)
  have "buffered e' = buffered keyed_engine \<and> en_arrow_wal e' = en_arrow_wal keyed_engine"
  proof (rule rejected_insert_leaves_no_trace [OF run])
    show "log_matches buffer_world 0 keyed_engine" "buffer_ok keyed_engine"
      using buffer_engine_start log_matches_state [of keyed_engine buffer_engine buffer_world] buffer_ok_state [of keyed_engine buffer_engine]
      by (simp_all add: keyed_engine_def write_state_def)
    show "ipc_ok (w_ipc buffer_world) [demo_batch 7, demo_batch 7]"
      by (simp add: ipc_ok_def demo_ipc_def demo_batch_def cell_at_def)
    show "\<not> en_replaying keyed_engine" "total_rows [demo_batch 7, demo_batch 7] \<noteq> 0"
      by (simp_all add: keyed_engine_def total_rows_def num_rows_def demo_batch_def)
  qed simp
  with run show ?thesis by blast
qed

text \<open>An outside that answers every query with a count of one and remembers the statements.\<close>

definition fk_world :: "string list world" where
  "fk_world = idle_world\<lparr>w_ipc := demo_ipc, w_sql := (\<lambda>q s. (Inr [demo_batch 1], q # s))\<rparr>"

definition one_append :: arrow_wal where
  "one_append = snd (awal_append demo_ipc ''t'' [demo_batch 7] 0 (open_with_config [] default_config 0))"

definition fk_engine :: engine where
  "fk_engine = buffer_engine\<lparr>en_catalog := with_data (empty_data\<lparr>cat_tables :=
       [(''t'', demo_meta\<lparr>tm_constraints := [ForeignKey ''f'' [''a''] ''p'' [''a''] None None]\<rparr>)]\<rparr>) ''c'',
     en_buffer := [(''t'', demo_entry 7)], en_arrow_wal := Some one_append\<rparr>"

theorem failed_flush_forgets_rows_witness:
  "\<exists>err e' s' w r. flush_table fk_world ''t'' fk_engine [] = (Inl err, e', s') \<and> buffered e' ''t'' = [] \<and>
     insert_sql ''t'' ''__potato_flush_tmp_0'' None \<in> set s' \<and>
     en_arrow_wal e' = Some w \<and> awal_recover demo_ipc (aw_dirs w) = Inr r \<and> or_empty (hm_get r ''t'') = [demo_batch 7]"
proof -
  let ?e = "fk_engine\<lparr>en_buffer := hm_remove ''t'' (en_buffer fk_engine)\<rparr>"
  have "constraints_of (fk_engine\<lparr>en_buffer := b\<rparr>) ''t'' = [ForeignKey ''f'' [''a''] ''p'' [''a''] None None]"
    "constraints_of (fk_engine\<lparr>en_buffer := b, en_temp_counter := c\<rparr>) ''t'' = [ForeignKey ''f'' [''a''] ''p'' [''a''] None None]" for b c
    by (simp_all add: constraints_of_def fk_engine_def with_data_def)
  moreover have "en_temp_counter fk_engine = 0"
    by (simp add: fk_engine_def buffer_engine_def engine_new_def Let_def)
  moreover have "scalar_count [demo_batch 1] = 1"
    by (simp add: scalar_count_def demo_batch_def cell_at_def)
  moreover have "show_nat 0 = ''0''" by (subst show_nat.simps) (simp add: char_of_def bit_0)
  ultimately obtain err e' s' where run: "write_buffered fk_world ''t'' (demo_entry 7) ?e [] = (Inl err, e', s')"
    and ins: "insert_sql ''t'' ''__potato_flush_tmp_0'' None \<in> set s'"
    by (simp add: write_buffered_def validated_def validate_constraints_batch_def demo_entry_def outside_def
        next_temp_table_name_def insert_from_temp_def fk_world_def idle_world_def check_foreign_key_def
        no_violation_def count_query_def run_sql_def)
  have m: "log_matches fk_world 1 fk_engine"
  proof -
    from awal_step [of demo_ipc "AAppend ''t'' [demo_batch 7] 0" 0 "open_with_config [] default_config 0" "\<lambda>_. []" 1]
      fresh_log(1) [of default_config 0] fresh_log(2) [of demo_ipc default_config 0]
    have "awal_inv 1 one_append \<and> awal_abs demo_ipc one_append ((\<lambda>_. [])(''t'' := [demo_batch 7]))"
      by (simp add: one_append_def)
    moreover have "buffered fk_engine = (\<lambda>_. [])(''t'' := [demo_batch 7])"
      by (simp add: fk_engine_def buffered_def demo_entry_def fun_eq_iff)
    ultimately show ?thesis by (simp add: log_matches_def fk_engine_def fk_world_def)
  qed
  have get: "hm_get (en_buffer fk_engine) ''t'' = Some (demo_entry 7)" by (simp add: fk_engine_def)
  have fl: "flush_table fk_world ''t'' fk_engine [] = (Inl err, e', s')"
    using get run by (simp add: flush_table_def demo_entry_def)
  from failed_flush_forgets_rows [OF this m] get run obtain w r where "buffered e' = (buffered fk_engine)(''t'' := [])"
    "en_arrow_wal e' = Some w" "awal_recover (w_ipc fk_world) (aw_dirs w) = Inr r"
    "or_empty (hm_get r ''t'') = bi_batches (demo_entry 7)" by auto
  with fl ins show ?thesis by (auto simp: demo_entry_def fk_world_def)
qed

definition two_tables :: engine where
  "two_tables = buffer_engine\<lparr>en_buffer := [(''t'', demo_entry 7), (''orders'', demo_entry 8)]\<rparr>"

theorem checkpoint_drops_buffered_rows_witness:
  "\<exists>n e1 s1 q e2 w. flush_buffered_for_sql buffer_world ''CHECKPOINT'' two_tables () = (Inr n, e1, s1) \<and>
     handle_checkpoint 0 e1 = (Inr q, e2) \<and> buffered e2 ''orders'' = [demo_batch 8] \<and>
     en_arrow_wal e2 = Some w \<and> awal_recover demo_ipc (aw_dirs w) = Inr []"
proof -
  have names: "contains_str (to_uppercase ''t'') ''CHECKPOINT''" "\<not> contains_str (to_uppercase ''orders'') ''CHECKPOINT''"
    by code_simp+
  then have nt: "named_tables ''CHECKPOINT'' two_tables = [''t'']"
    by (simp add: named_tables_def two_tables_def hm_keys_def)
  obtain n e1 s1 where f: "flush_table buffer_world ''t'' two_tables () = (Inr n, e1, s1)" and tx: "en_txn e1 = None"
    using no_table_flush [of two_tables "''t''" "()"] by (auto simp: two_tables_def)
  have fl: "flush_buffered_for_sql buffer_world ''CHECKPOINT'' two_tables () = (Inr (u64_saturating_add 0 n), e1, s1)"
    using f nt by (simp add: flush_buffered_for_sql_def) (simp add: two_tables_def)
  obtain w1 where "en_arrow_wal e1 = Some w1"
    using flush_table_state [OF f] by (auto simp: two_tables_def split: if_splits)
  then obtain q e2 w where cp: "handle_checkpoint 0 e1 = (Inr q, e2)" "en_arrow_wal e2 = Some w"
    using tx by (cases "en_wal e1") (auto simp: handle_checkpoint_def in_txn_def Let_def)
  have "hm_contains (en_buffer two_tables) ''t''" by (simp add: two_tables_def hm_contains_def)
  from checkpoint_drops_buffered_rows [OF fl cp names(1) this names(2)]
  have "buffered e2 ''orders'' = buffered two_tables ''orders'' \<and> awal_recover demo_ipc (aw_dirs w) = Inr []" by simp
  with fl cp show ?thesis by (auto simp: two_tables_def buffered_def demo_entry_def)
qed

end
