(* ===== verification/Txn_Props.thy ===== *)
theory Txn_Props
  imports Write_Buffer_Props Wal_Props
begin

text \<open>
  Transactions: the work of a transaction as a relation and what it keeps, the state of the session, what
  ROLLBACK brings back, also after ROLLBACK TO, and a COMMIT that fails.
\<close>

section \<open>Statements of a session\<close>

text \<open>
  What runs between BEGIN and the end of the transaction, with any outcome: the operations of the
  catalog, savepoints, backups, rewrites, inserts, flushes, entries of the statement log, and anything that leaves
  the catalog, the transaction and the log alone (queries, GRANT, PREPARE, what happens outside).
\<close>

inductive txn_work :: "'s world \<Rightarrow> engine \<times> 's \<Rightarrow> engine \<times> 's \<Rightarrow> bool" for W where
  catalog_op: "txn_work W (e, s) (with_catalog (catalog_step p (en_catalog e)) e, s)"
| savepoint: "handle_savepoint W nm e s = (r, e', s') \<Longrightarrow> txn_work W (e, s) (e', s')"
| release: "handle_release_savepoint nm e = (r, e') \<Longrightarrow> txn_work W (e, s) (e', s)"
| backup: "backup_table_for_txn W tbl e s = (r, e', s') \<Longrightarrow> txn_work W (e, s) (e', s')"
| rewrite: "rewrite_table W tbl bs use e s = (r, e', s') \<Longrightarrow> txn_work W (e, s) (e', s')"
| insert: "buffer_insert_batches W tbl cols bs e s = (r, e', s') \<Longrightarrow> txn_work W (e, s) (e', s')"
| flush: "flush_buffered_for_sql W u e s = (r, e', s') \<Longrightarrow> txn_work W (e, s) (e', s')"
| journal: "txn_work W (e, s) (wal_append_pending W sql e, s)"
| elsewhere: "txn_state e' = txn_state e \<Longrightarrow> txn_work W (e, s) (e', s')"

section \<open>What the statements keep\<close>

text \<open>The snapshot a transaction goes back to, and the flags that say it is open.\<close>

definition txn_base :: "engine \<Rightarrow> (catalog_snapshot \<times> (string, string list) hashmap \<times> nat) option" where
  "txn_base e = map_option (\<lambda>t. (tx_catalog t, tx_files t, tx_wal_id t)) (en_txn e)"

definition txn_flags :: "engine \<Rightarrow> nat option \<times> bool \<times> nat" where
  "txn_flags e = (map_option tx_wal_id (en_txn e), in_transaction (en_catalog e), en_txn_counter e)"

lemma savepoint_engine:
  assumes "handle_savepoint W nm e s = (r, e', s')"
  shows "e' = e \<or> (\<exists>t fs. en_txn e = Some t \<and>
     e' = e\<lparr>en_txn := Some (push_savepoint nm (catalog_snapshot (en_catalog e)) fs t)\<rparr>)"
proof -
  obtain q e1 s1 where q: "list_files W (table_names e) e s = (q, e1, s1)" by (metis surj_pair)
  with keepsD [OF list_files_keeps q, of "\<lambda>e. e"] assms show ?thesis
    by (cases q) (auto simp: handle_savepoint_def split: option.splits)
qed

lemma release_engine:
  "handle_release_savepoint nm e = (r, e') \<Longrightarrow>
     e' = e \<or> (\<exists>t sps. en_txn e = Some t \<and> e' = e\<lparr>en_txn := Some (t\<lparr>tx_savepoints := sps\<rparr>)\<rparr>)"
  unfolding handle_release_savepoint_def by (auto split: option.splits)

lemma backup_engine:
  assumes "backup_table_for_txn W tbl e s = (r, e', s')"
  shows "e' = e \<or> (\<exists>t bks. en_txn e = Some t \<and> e' = e\<lparr>en_txn := Some (t\<lparr>tx_backups := bks\<rparr>)\<rparr>)"
proof -
  obtain q e1 s1 where q: "run_query W (''SELECT * FROM '' @ ident tbl) e s = (q, e1, s1)" by (metis surj_pair)
  with keepsD [OF listing_keeps(2) q, of "\<lambda>e. e"] assms show ?thesis
    by (cases q) (auto simp: backup_table_for_txn_def split: option.splits if_splits)
qed

lemma txn_work_base:
  assumes "txn_work W (e, s) (e', s')"
  shows "txn_base e' = txn_base e \<and> txn_flags e' = txn_flags e"
proof -
  have st: "txn_state e' = txn_state e \<Longrightarrow> ?thesis"
    by (simp add: txn_state_def txn_base_def txn_flags_def)
  from assms show ?thesis
  proof cases
    case (rewrite tbl bs use r)
    from st [OF keepsD [OF txn.rewrite_table_keeps this]] show ?thesis .
  next
    case (insert tbl cols bs r)
    from st [OF keepsD [OF txn.buffer_insert_batches_keeps this]] show ?thesis .
  next
    case (flush u r)
    from st [OF keepsD [OF txn.flush_buffered_for_sql_keeps this]] show ?thesis .
  next
    case elsewhere
    from st [OF this] show ?thesis .
  qed (auto simp: txn_base_def txn_flags_def push_savepoint_def wal_append_pending_def
         dest!: savepoint_engine release_engine backup_engine)
qed

section \<open>Ends of transactions\<close>

lemma open_txn_flags:
  "txn_flags (open_txn snap fs e) = (Some (en_txn_counter e), True, u64_saturating_add (en_txn_counter e) 1)"
  "txn_base (open_txn snap fs e) = Some (snap, fs, en_txn_counter e)"
  by (simp_all add: open_txn_def next_txn_id_def txn_flags_def txn_base_def)

lemma wal_end_txn_flags [simp]: "txn_flags (wal_end_txn mark e) = txn_flags e"
  by (simp add: wal_end_txn_def txn_flags_def)

lemma restore_catalog_flags [simp]: "txn_flags (restore_catalog snap e) = txn_flags e"
  by (simp add: restore_catalog_def txn_flags_def)

section \<open>Sessions\<close>

definition session_ok :: "engine \<Rightarrow> bool" where
  "session_ok e \<longleftrightarrow>
     (case txn_flags e of
        (None, active, n) \<Rightarrow> \<not> active \<and> 1 \<le> n \<and> n \<le> u64_max
      | (Some i, active, n) \<Rightarrow> active \<and> 1 \<le> i \<and> i \<le> u64_max \<and> 1 \<le> n \<and> n \<le> u64_max)"

lemma session_ok_flags: "txn_flags e' = txn_flags e \<Longrightarrow> session_ok e' = session_ok e"
  by (simp add: session_ok_def)

lemma engine_new_session: "\<not> in_transaction c \<Longrightarrow> session_ok (engine_new env now loc url pre w aw c)"
  by (simp add: session_ok_def txn_flags_def engine_new_def bootstrap_users_def u64_max_def Let_def)

lemma session_ids:
  assumes "session_ok e"
  shows "in_txn e \<longleftrightarrow> in_transaction (en_catalog e)" "we_txn (pending_entry sql e) = 0 \<longleftrightarrow> \<not> in_txn e"
proof -
  have "(word_of_nat i :: 64 word) \<noteq> 0" if "1 \<le> i" "i \<le> u64_max" for i
  proof
    assume "(word_of_nat i :: 64 word) = 0"
    then have "2 ^ 64 dvd i" by (simp add: word_of_nat_eq_0_iff)
    with that show False by (auto simp: u64_max_def dest!: dvd_imp_le)
  qed
  with assms show "in_txn e \<longleftrightarrow> in_transaction (en_catalog e)" "we_txn (pending_entry sql e) = 0 \<longleftrightarrow> \<not> in_txn e"
    by (auto simp: session_ok_def txn_flags_def in_txn_def pending_entry_def current_wal_txn_id_def split: option.splits)
qed

section \<open>Rolling back\<close>

lemma shape_dirty [simp]: "shape (with_catalog (en_catalog e\<lparr>dirty := d\<rparr>) e) = shape e"
  by (simp add: shape_def)

text \<open>What ROLLBACK ends with, when it succeeds.\<close>

lemma rollback_ok:
  assumes "en_txn e = Some t" and "handle_rollback W e s = (Inr q, e', s')"
  shows "shape e' = catalog_shape (tx_catalog t)" and "txn_flags e' = (None, False, en_txn_counter e)"
    and "\<not> en_replaying e \<Longrightarrow> engine_log W e' = []"
    and "en_buffer e' = en_buffer e"
proof -
  let ?e1 = "restore_catalog (tx_catalog t) (leave_txn e)"
  from assms obtain e1 e2 e3 s1 s2 s3 where
    undo: "undo_files W (tx_files t) (table_names e) (leave_txn e) s = (Inr (), e1, s1)"
    and save: "force_save_catalog W (restore_catalog (tx_catalog t) e1) s1 = (Inr (), e2, s2)"
    and reload: "reload_and_rewrite W (table_names e) (tx_backups t) e2 s2 = (Inr (), e3, s3)"
    and e': "e' = wal_end_txn (wal_abort (w_crc W) (word_of_nat (tx_wal_id t))) e3"
    by (auto simp: handle_rollback_def rollback_steps_def andThen_Inr)
  have "e1 = leave_txn e" by (rule keepsD [OF undo_files_keeps undo])
  with save have save: "force_save_catalog W ?e1 s1 = (Inr (), e2, s2)" by simp
  have st: "txn_state e3 = txn_state ?e1"
    using keepsD [OF txn.force_save_keeps save] keepsD [OF txn.reload_and_rewrite_keeps reload] by simp
  have buf: "write_state e3 = write_state ?e1"
    using keepsD [OF buffering.reload_and_rewrite_keeps reload] save
    by (auto simp: force_save_catalog_def write_state_def split: prod.splits)
  from st e' show "shape e' = catalog_shape (tx_catalog t)"
    by (simp add: txn_state_def wal_end_txn_def restore_catalog_def shape_def)
  from st e' show "txn_flags e' = (None, False, en_txn_counter e)"
    by (simp add: txn_state_def txn_flags_def wal_end_txn_def restore_catalog_def leave_txn_def)
  from st e' show "\<not> en_replaying e \<Longrightarrow> engine_log W e' = []"
    by (auto simp: txn_state_def wal_end_txn_def restore_catalog_def leave_txn_def engine_log_def wal_checkpoint_log
        split: option.splits)
  from buf e' show "en_buffer e' = en_buffer e"
    by (simp add: write_state_def wal_end_txn_def restore_catalog_def leave_txn_def)
qed

lemma begin_ok:
  assumes "handle_begin W e s = (Inr q, e', s')"
  shows "\<exists>fs. e' = open_txn (catalog_snapshot (en_catalog e)) fs e"
proof -
  obtain p e1 s1 where p: "list_files W (table_names e) e s = (p, e1, s1)" by (metis surj_pair)
  with keepsD [OF list_files_keeps p, of "\<lambda>e. e"] assms show ?thesis
    by (cases p) (auto simp: handle_begin_def split: if_splits)
qed

text \<open>
  The catalog that ROLLBACK goes back to: the one that BEGIN saw, and once a ROLLBACK TO has succeeded,
  the one of its savepoint. A ROLLBACK TO that fails changes nothing of it.
\<close>

inductive goes_back_to :: "'s world \<Rightarrow> catalog_snapshot \<Rightarrow> engine \<times> 's \<Rightarrow> bool" for W where
  begun: "handle_begin W e s = (Inr r, e', s') \<Longrightarrow> goes_back_to W (shape e) (e', s')"
| worked: "goes_back_to W c x \<Longrightarrow> txn_work W x y \<Longrightarrow> goes_back_to W c y"
| moved: "goes_back_to W c (e, s) \<Longrightarrow> en_txn e = Some t \<Longrightarrow> find_savepoint nm t = Some (earlier, sp) \<Longrightarrow>
    handle_rollback_to W nm e s = (Inr r, e', s') \<Longrightarrow> goes_back_to W (catalog_shape (sp_catalog sp)) (e', s')"
| not_moved: "goes_back_to W c (e, s) \<Longrightarrow> handle_rollback_to W nm e s = (Inl msg, e', s') \<Longrightarrow> goes_back_to W c (e', s')"

lemma rollback_to_engine:
  assumes "en_txn e = Some t" and "find_savepoint nm t = Some (earlier, sp)" and "handle_rollback_to W nm e s = (r, e', s')"
  shows "\<exists>t'. en_txn e' = Some t' \<and>
    catalog_shape (tx_catalog t') = (case r of Inl _ \<Rightarrow> catalog_shape (tx_catalog t) | Inr _ \<Rightarrow> catalog_shape (sp_catalog sp))"
proof -
  let ?ea = "e\<lparr>en_txn := Some (t\<lparr>tx_savepoints := earlier @ [sp]\<rparr>)\<rparr>"
  let ?eb = "restore_catalog (sp_catalog sp) ?ea"
  obtain q1 e1 s1 where undo: "undo_files W (sp_files sp) (table_names e) ?ea s = (q1, e1, s1)" by (metis surj_pair)
  obtain q2 e2 s2 where reload: "reload_and_rewrite W (table_names e) (sp_backups sp) ?eb s1 = (q2, e2, s2)" by (metis surj_pair)
  obtain q3 e3 s3 where files: "list_files W (table_names e2) e2 s2 = (q3, e3, s3)" by (metis surj_pair)
  have "e1 = ?ea" by (rule keepsD [OF undo_files_keeps undo])
  moreover have "e3 = e2" by (rule keepsD [OF list_files_keeps files])
  moreover have "txn_state e2 = txn_state ?eb" by (rule keepsD [OF txn.reload_and_rewrite_keeps reload])
  moreover have "en_txn ?eb = en_txn ?ea" by (simp add: restore_catalog_def)
  moreover have "shape ?eb = catalog_shape (sp_catalog sp)" by (simp add: restore_catalog_def shape_def)
  ultimately have same: "e1 = ?ea" "e3 = e2" "en_txn e2 = en_txn ?ea" "shape e2 = catalog_shape (sp_catalog sp)"
    by (simp_all add: txn_state_def)
  have run: "rollback_to_steps W nm sp (table_names e) ?ea s = (r, e', s')"
    using assms by (simp add: handle_rollback_to_def)
  show ?thesis
  proof (cases q1)
    case (Inl m1)
    with run undo same show ?thesis by (auto simp: rollback_to_steps_def)
  next
    case (Inr u1)
    show ?thesis
    proof (cases q2)
      case (Inl m2)
      with run undo reload same Inr show ?thesis by (auto simp: rollback_to_steps_def)
    next
      case (Inr u2)
      with run undo reload files same \<open>q1 = Inr u1\<close> show ?thesis
        by (cases q3) (auto simp: rollback_to_steps_def rebase_txn_def shape_def)
    qed
  qed
qed

lemma goes_back_to_txn: "goes_back_to W c x \<Longrightarrow> \<exists>t. en_txn (fst x) = Some t \<and> catalog_shape (tx_catalog t) = c"
proof (induction rule: goes_back_to.induct)
  case (begun e s r e' s')
  from begin_ok [OF this] obtain fs where "e' = open_txn (catalog_snapshot (en_catalog e)) fs e" by blast
  then show ?case by (simp add: open_txn_def next_txn_id_def shape_def Let_def)
next
  case (worked c x y)
  obtain e s e' s' where "x = (e, s)" "y = (e', s')" by (metis surj_pair)
  with worked txn_work_base [of W e s e' s'] show ?case by (fastforce simp: txn_base_def)
next
  case (moved c e s t nm earlier sp r e' s')
  from rollback_to_engine [OF moved(2-4)] show ?case by simp
next
  case (not_moved c e s nm msg e' s')
  then obtain t where t: "en_txn e = Some t" "catalog_shape (tx_catalog t) = c" by auto
  show ?case
  proof (cases "find_savepoint nm t")
    case None
    with t not_moved(2) show ?thesis by (simp add: handle_rollback_to_def)
  next
    case (Some p)
    obtain earlier sp where "p = (earlier, sp)" by (cases p)
    with rollback_to_engine [OF t(1) _ not_moved(2)] Some t show ?thesis by auto
  qed
qed


section \<open>COMMIT\<close>

text \<open>
  C9. COMMIT. When the catalog cannot be written, COMMIT reports the error but has already
  ended the transaction: the changes stay in memory, the catalog is not marked as unsaved, the
  statement log keeps the statements without a commit record, and ROLLBACK is refused.
\<close>

theorem failed_commit_ends_transaction:
  assumes "en_txn e = Some t" and "flush_all W e s = (Inr n, e1, s1)"
    and "write_to_store (w_store W) (w_json W) (en_catalog e1) s1 = Inl err"
  shows "\<exists>e'. handle_commit W e s = (Inl (catalog_message err), e', s1) \<and> \<not> in_txn e' \<and>
     shape e' = shape e \<and> \<not> dirty (en_catalog e') \<and> en_wal e' = en_wal e \<and>
     handle_rollback W e' s1 = (Inl ''No active transaction to ROLLBACK'', e', s1)"
proof -
  have st: "txn_state e1 = txn_state e" by (rule keepsD [OF txn.flush_all_keeps assms(2)])
  then have t: "en_txn e1 = Some t" "shape e1 = shape e" "en_wal e1 = en_wal e"
    using assms(1) by (simp_all add: txn_state_def)
  let ?e2 = "with_catalog ((en_catalog e1)\<lparr>in_transaction := False, dirty := False\<rparr>) (e1\<lparr>en_txn := None\<rparr>)"
  have same: "write_to_store os js (c\<lparr>in_transaction := False, dirty := False\<rparr>) = write_to_store os js c" for os js c
    by (simp add: write_to_store_def fun_eq_iff catalog_snapshot_def cong: sum.case_cong)
  have "force_save_catalog W (leave_txn e1) s1 = (Inl (catalog_message err), ?e2, s1)"
    using assms(3) by (simp add: same force_save_catalog_def force_save_def leave_txn_def set_in_transaction_def Let_def)
  with assms(2) t have "handle_commit W e s = (Inl (catalog_message err), ?e2, s1)"
    by (simp add: handle_commit_def commit_steps_def)
  with t show ?thesis
    by (intro exI [of _ ?e2]) (simp add: in_txn_def handle_rollback_def shape_def catalog_snapshot_def)
qed

section \<open>Examples\<close>

definition plain_table :: "string \<Rightarrow> table_meta" where
  "plain_table nm =
     \<lparr>tm_name = nm, tm_columns = [], tm_path = nm, tm_partition_columns = [], tm_statistics = None,
      tm_retention_seconds = None, tm_constraints = [], tm_file_stats = [], tm_deletion_vectors = []\<rparr>"

definition txn_world :: "unit world" where
  "txn_world = idle_world"

definition txn_engine :: engine where
  "txn_engine = engine_new (\<lambda>_. None) 0 LocalDisk [] [] (Some (wal_open None)) None
     (with_data (empty_data\<lparr>cat_tables := [(''a'', plain_table ''a'')]\<rparr>) ''c'')"

lemma txn_world_simps [simp]:
  "w_sql txn_world q s = (Inr [], s)" "w_plan txn_world q s = (Inr (), s)" "w_register txn_world t bs s = (Inr (), s)"
  "w_register_table txn_world t sp s = (Inr (), s)" "w_create_dir txn_world p s = (Inr (), s)"
  "w_remove_dir txn_world p s = (Inr (), s)"
  "w_deregister txn_world t s = (Inr (), s)" "w_list txn_world p s = Inr []"
  "w_store txn_world = \<lparr>os_get = (\<lambda>_ _. Inl NotFound), os_put = (\<lambda>s _ _. Inr s)\<rparr>"
  "to_json (w_json txn_world) d = Inr []" "w_arrow_type txn_world t = Inr ()"
  by (simp_all add: txn_world_def idle_world_def)

lemma txn_engine_simps [simp]:
  "en_txn txn_engine = None" "en_buffer txn_engine = []" "en_fulltext txn_engine = []"
  "en_location txn_engine = LocalDisk" "en_txn_counter txn_engine = 1" "\<not> en_replaying txn_engine"
  "cat_tables (en_catalog txn_engine) = [(''a'', plain_table ''a'')]" "cat_views (en_catalog txn_engine) = []"
  "\<not> in_transaction (en_catalog txn_engine)" "en_snapshots_on txn_engine = False"
  by (simp_all add: txn_engine_def engine_new_def bootstrap_users_def with_data_def empty_data_def Let_def)

lemma txn_world_files [simp]:
  "list_files txn_world ts e s = (Inr (map (\<lambda>t. (t, [])) ts), e, s)"
  "list_parquet_files txn_world t e s = (Inr [], e, s)"
  "delete_table_storage txn_world m e s = (Inr (), e, s)"
proof -
  have ob: "list_objects txn_world t e s = (Inr [], e, s)" for t e s by (simp add: list_objects_def look_def)
  then show lp: "list_parquet_files txn_world t e s = (Inr [], e, s)" for t e s by (simp add: list_parquet_files_def)
  show "list_files txn_world ts e s = (Inr (map (\<lambda>t. (t, [])) ts), e, s)"
    by (induction ts) (simp_all add: lp)
  show "delete_table_storage txn_world m e s = (Inr (), e, s)"
    by (simp add: delete_table_storage_def ob outside_def)
qed

lemma each_idle: "(\<And>x. f x = ok ()) \<Longrightarrow> each f xs = ok ()"
  by (induction xs) (simp_all add: fun_eq_iff)

lemma txn_world_undo [simp]: "undo_files txn_world fs cur e s = (Inr (), e, s)"
proof -
  have "discard_new_files txn_world tf = ok ()" for tf by (simp add: fun_eq_iff discard_new_files_def)
  moreover have "discard_new_table txn_world known nm = ok ()" for known nm
    by (simp add: fun_eq_iff discard_new_table_def attempt_def outside_def split: option.splits)
  ultimately show ?thesis
    by (simp add: undo_files_def each_idle [of "discard_new_files txn_world"] each_idle [of "discard_new_table txn_world _"])
qed

lemma txn_world_schema [simp]: "columns_to_schema txn_world cs = Inr ()"
  by (induction cs) simp_all

lemma txn_world_reload [simp]:
  assumes "en_fulltext e = []"
  shows "reload_and_rewrite txn_world cur [] e s = (Inr (), e, s)"
proof -
  have "prepare_table txn_world m = ok ()" "register_table txn_world m = ok ()" "register_view txn_world v = ok ()" for m v
    by (simp_all add: fun_eq_iff prepare_table_def register_table_def register_view_def register_listing_table_def
        outside_def look_def attempt_def run_query_def run_sql_def)
  moreover have "(\<lambda>nm. attempt (outside (w_deregister txn_world nm))) = (\<lambda>nm. ok ())"
    by (simp add: fun_eq_iff attempt_def outside_def)
  ultimately show ?thesis using assms
    by (simp add: reload_and_rewrite_def reload_tables_def rebuild_fts_indexes_def each_idle [of "prepare_table txn_world"]
        each_idle [of "register_table txn_world"] each_idle [of "register_view txn_world"] each_idle [of "\<lambda>_. ok ()"])
qed


lemma txn_world_begin:
  "\<not> in_txn e \<Longrightarrow> handle_begin txn_world e s =
     (Inr (Message ''BEGIN''), open_txn (catalog_snapshot (en_catalog e)) (map (\<lambda>t. (t, [])) (table_names e)) e, s)"
  by (simp add: handle_begin_def)

lemma txn_world_rollback:
  assumes "en_txn e = Some t" and "en_fulltext e = []" and "tx_backups t = []"
  shows "\<exists>e'. handle_rollback txn_world e s = (Inr (Message ''ROLLBACK''), e', s)"
proof -
  let ?e1 = "restore_catalog (tx_catalog t) (leave_txn e)"
  have "force_save_catalog txn_world ?e1 s = (Inr (), with_catalog (en_catalog ?e1\<lparr>dirty := False\<rparr>) ?e1, s)"
    by (simp add: force_save_catalog_def force_save_def write_to_store_def Let_def)
  with assms show ?thesis
    by (simp add: handle_rollback_def rollback_steps_def leave_txn_def restore_catalog_def)
qed

definition opened :: engine where
  "opened = open_txn (catalog_snapshot (en_catalog txn_engine)) [(''a'', [])] txn_engine"

lemma opened_begin: "handle_begin txn_world txn_engine () = (Inr (Message ''BEGIN''), opened, ())"
  by (simp add: txn_world_begin in_txn_def table_names_def hm_keys_def opened_def)

definition altered :: engine where
  "altered = with_catalog (catalog_step (AddTable (plain_table ''b'')) (en_catalog opened)) opened"

lemma altered_fields:
  "table_names altered = [''a'', ''b'']" "\<not> en_replaying altered" "en_fulltext altered = []"
  "en_txn altered = Some \<lparr>tx_catalog = catalog_snapshot (en_catalog txn_engine), tx_files = [(''a'', [])],
      tx_deferred = [], tx_wal_id = 1, tx_backups = [], tx_savepoints = []\<rparr>"
  by (simp_all add: altered_def opened_def open_txn_def next_txn_id_def table_names_def add_table_def hm_keys_def
      hm_insert_def hm_contains_def plain_table_def set_in_transaction_def)

text \<open>BEGIN, CREATE TABLE b, SAVEPOINT p, ROLLBACK TO p, ROLLBACK: the table is still there.\<close>

definition point :: savepoint where
  "point = \<lparr>sp_name = ''p'', sp_catalog = catalog_snapshot (en_catalog altered),
     sp_files = [(''a'', []), (''b'', [])], sp_backups = []\<rparr>"

definition saved :: engine where
  "saved = altered\<lparr>en_txn := map_option (\<lambda>t. t\<lparr>tx_savepoints := [point]\<rparr>) (en_txn altered)\<rparr>"


text \<open>A store that refuses every write.\<close>

definition full_world :: "unit world" where
  "full_world = txn_world\<lparr>w_store := \<lparr>os_get = (\<lambda>_ _. Inl NotFound), os_put = (\<lambda>_ _ _. Inl (StoreFailure ''full''))\<rparr>\<rparr>"

theorem failed_commit_ends_transaction_witness:
  "\<exists>e'. handle_commit full_world altered () = (Inl ''full'', e', ()) \<and> shape e' = shape altered \<and>
     handle_rollback full_world e' () = (Inl ''No active transaction to ROLLBACK'', e', ())"
proof -
  have "flush_all full_world altered () = (Inr 0, altered, ())"
    by (simp add: altered_def opened_def open_txn_def next_txn_id_def flush_all_def hm_keys_def)
  moreover have "write_to_store (w_store full_world) (w_json full_world) (en_catalog altered) () = Inl (StoreError (StoreFailure ''full''))"
    by (simp add: full_world_def write_to_store_def)
  ultimately show ?thesis
    using failed_commit_ends_transaction [OF altered_fields(4), of full_world "()" 0 altered "()" "StoreError (StoreFailure ''full'')"] by auto
qed

end
