(* ===== verification/Change_Log.thy ===== *)
theory Change_Log
  imports Effects
begin

text \<open>
  The log of changes (\<^verbatim>\<open>record_cdc_event\<close> and \<^verbatim>\<open>PotatoDB::new\<close> in \<^verbatim>\<open>crates/engine/src/lib.rs\<close>): the
  newest events in memory and, of a database on disk, a file with one JSON object per line that
  is read when the database is opened.
\<close>

section \<open>Events\<close>

text \<open>Appending to a queue of limited length: the oldest go.\<close>

definition push_bounded :: "nat \<Rightarrow> 'a \<Rightarrow> 'a list \<Rightarrow> 'a list" where
  "push_bounded cap x xs = drop (length xs + 1 - cap) (xs @ [x])"

text \<open>The object of an event, and the event of a value: what is missing gets a default.\<close>

definition event_json :: "cdc_event \<Rightarrow> json" where
  "event_json ev =
     JObject [(''table'', JText (ev_table ev)), (''op'', JText (ev_op ev)),
              (''timestamp_ms'', JInteger (ev_timestamp_ms ev)), (''rows'', JInteger (int (ev_rows ev)))]"

definition json_event :: "json \<Rightarrow> cdc_event" where
  "json_event v =
     \<lparr>ev_table = unwrap_or (json_str (json_member v ''table'')) [],
      ev_op = unwrap_or (json_str (json_member v ''op'')) [],
      ev_timestamp_ms = unwrap_or (json_i64 (json_member v ''timestamp_ms'')) 0,
      ev_rows = unwrap_or (json_u64 (json_member v ''rows'')) 0\<rparr>"

section \<open>Recording and reading\<close>

definition cdc_log_path :: "engine \<Rightarrow> string option" where
  "cdc_log_path e = (if en_location e = LocalDisk then Some (en_data_url e @ ''/_cdc_log.jsonl'') else None)"

definition record_cdc_event :: "string \<Rightarrow> string \<Rightarrow> nat \<Rightarrow> int \<Rightarrow> engine \<Rightarrow> engine" where
  "record_cdc_event tbl op rows now e =
     e\<lparr>en_cdc_log := push_bounded (en_cdc_capacity e)
         \<lparr>ev_table = tbl, ev_op = op, ev_timestamp_ms = now, ev_rows = rows\<rparr> (en_cdc_log e)\<rparr>"

text \<open>What is appended to the file; that it cannot be written is ignored.\<close>

definition append_cdc_line :: "'s world \<Rightarrow> cdc_event \<Rightarrow> engine \<Rightarrow> 's \<Rightarrow> 's" where
  "append_cdc_line W ev e s =
     (case cdc_log_path e of
        None \<Rightarrow> s
      | Some path \<Rightarrow> w_append W path (w_json_text W (event_json ev) @ [newline]) s)"

definition record_cdc :: "'s world \<Rightarrow> string \<Rightarrow> string \<Rightarrow> nat \<Rightarrow> (unit, 's) action" where
  "record_cdc W tbl op rows e s =
     (let now = w_utc_ms W s in
      (Inr (), record_cdc_event tbl op rows now e,
       append_cdc_line W \<lparr>ev_table = tbl, ev_op = op, ev_timestamp_ms = now, ev_rows = rows\<rparr> e s))"

text \<open>The events of the lines that are JSON; of a file that cannot be read there are none.\<close>

definition file_events :: "'s world \<Rightarrow> string \<Rightarrow> cdc_event list" where
  "file_events W contents = map json_event (List.map_filter (w_json_value W) (str_lines contents))"

definition load_cdc_log :: "'s world \<Rightarrow> (unit, 's) action" where
  "load_cdc_log W e s =
     (case Option.bind (cdc_log_path e) (\<lambda>path. w_text_file W path s) of
        None \<Rightarrow> (Inr (), e, s)
      | Some contents \<Rightarrow>
          (let evs = en_cdc_log e @ file_events W contents in
           (Inr (), e\<lparr>en_cdc_log := drop (length evs - en_cdc_capacity e) evs\<rparr>, s)))"

end
