(* ===== verification/Session_Objects.thy ===== *)
theory Session_Objects
  imports Txn_Control Change_Log
begin

text \<open>
  What a session keeps besides tables (\<^verbatim>\<open>crates/engine/src/lib.rs\<close>): the query log,
  notifications, procedures, triggers, replicas, migrations, queries AS OF a
  time, the system tables, and what the engine tells its front ends about itself.
\<close>

section \<open>Logs\<close>

text \<open>The end of a statement: it is logged with its time, and the oldest entries go.\<close>

fun rows_of :: "(string, query_result) result \<Rightarrow> nat" where
  "rows_of (Inr (Records bs)) = total_rows bs"
| "rows_of _ = 0"

definition finalize_query :: "string \<Rightarrow> nat \<Rightarrow> nat \<Rightarrow> (string, query_result) result \<Rightarrow> engine \<Rightarrow> engine" where
  "finalize_query sql started now r e =
     e\<lparr>en_query_log := push_bounded (en_max_query_log e)
         \<lparr>ql_sql = sql, ql_duration = now - started, ql_rows = rows_of r\<rparr> (en_query_log e)\<rparr>"

definition recent_queries :: "engine \<Rightarrow> query_log_entry list" where
  "recent_queries e = en_query_log e"

section \<open>System tables\<close>

text \<open>\<^verbatim>\<open>as i64\<close> of an unsigned number.\<close>

definition u64_as_i64 :: "nat \<Rightarrow> int" where
  "u64_as_i64 n = (if int n \<le> i64_max then int n else int n - 2 ^ 64)"

text \<open>The table of \<^verbatim>\<open>WHERE table = 'x'\<close>, when the statement has such a clause.\<close>

definition cdc_table_filter :: "string \<Rightarrow> string option" where
  "cdc_table_filter sql =
     (case find_str ''WHERE'' (to_uppercase sql) of
        None \<Rightarrow> None
      | Some idx \<Rightarrow>
          let clause = drop (idx + length ''WHERE'') sql in
          case find_str ''TABLE'' (to_uppercase clause) of
            None \<Rightarrow> None
          | Some k \<Rightarrow>
              let rest = drop (k + length ''TABLE'') clause in
              case find_char (\<lambda>c. c = CHR ''='') rest of
                None \<Rightarrow> None
              | Some pos \<Rightarrow>
                  Some (trim_matches dquote (trim_matches quote
                    (trim_end_matches (CHR '';'') (trim (drop (pos + 1) rest))))))"

definition handle_select_cdc :: "string \<Rightarrow> engine \<Rightarrow> query_result" where
  "handle_select_cdc sql e =
     (let events = (case cdc_table_filter sql of
            None \<Rightarrow> en_cdc_log e
          | Some tbl \<Rightarrow> filter (\<lambda>ev. eq_ignore_case (ev_table ev) tbl) (en_cdc_log e))
      in Records [\<lparr>rb_fields = [''table'', ''op'', ''timestamp_ms'', ''rows''],
           rb_rows = map (\<lambda>ev. [CText (ev_table ev), CText (ev_op ev), CInt (ev_timestamp_ms ev),
             CInt (u64_as_i64 (ev_rows ev))]) events\<rparr>])"

text \<open>No code sets the metrics of the last query, which \<^verbatim>\<open>execute\<close> resets to zero.\<close>

definition handle_select_system_status :: "engine \<Rightarrow> query_result" where
  "handle_select_system_status e =
     Records [\<lparr>rb_fields = [''plan_cache_entries'', ''plan_cache_hits'', ''query_log_entries'', ''snapshots'',
         ''wal_commits_since_checkpoint'', ''wal_checkpoint_threshold_bytes'',
         ''last_query_parquet_files_read'', ''last_query_bytes_scanned''],
       rb_rows = [map (CInt \<circ> u64_as_i64)
         [length (en_plan_cache e), en_plan_hits e, length (en_query_log e), length (en_snapshots e),
          en_commits_since e, en_ckpt_bytes e, 0, 0]]\<rparr>]"

definition sql_type_to_pg_oid :: "string \<Rightarrow> int" where
  "sql_type_to_pg_oid sql_type =
     (let upper = to_uppercase sql_type; has = (\<lambda>p. contains_str p upper) in
      if has ''BIGINT'' then 20
      else if has ''SMALLINT'' then 21
      else if has ''INT'' then 23
      else if has ''VARCHAR'' \<or> has ''CHAR'' then 1043
      else if has ''BOOL'' then 16
      else if has ''FLOAT'' \<or> has ''DOUBLE'' then 701
      else if has ''REAL'' then 700
      else if upper = ''TEXT'' \<or> has ''TEXT'' then 25
      else if has ''TIMESTAMP'' then 1114
      else if has ''DATE'' then 1082
      else if has ''UUID'' then 2950
      else if has ''DECIMAL'' \<or> has ''NUMERIC'' then 1700
      else 25)"

text \<open>The rows of \<^verbatim>\<open>pg_attribute\<close>: tables are numbered from 1, and columns in each table.\<close>

fun column_rows :: "int \<Rightarrow> int \<Rightarrow> column_def list \<Rightarrow> cell list list" where
  "column_rows rel n [] = []"
| "column_rows rel n (c # cs) =
     [CInt rel, CText (cd_name c), CInt n, CInt (sql_type_to_pg_oid (cd_type c))] # column_rows rel (n + 1) cs"

fun attribute_rows :: "int \<Rightarrow> table_meta list \<Rightarrow> cell list list" where
  "attribute_rows rel [] = []"
| "attribute_rows rel (m # ms) = column_rows rel 1 (tm_columns m) @ attribute_rows (rel + 1) ms"

definition pg_types :: "(int \<times> string \<times> int) list" where
  "pg_types = [(23, ''int4'', 4), (1043, ''varchar'', - 1), (16, ''bool'', 1), (701, ''float8'', 8),
     (25, ''text'', - 1), (1114, ''timestamp'', 8), (1082, ''date'', 4)]"

definition handle_pg_catalog_query :: "string \<Rightarrow> engine \<Rightarrow> query_result" where
  "handle_pg_catalog_query sql e =
     (let upper = to_uppercase sql in
      if contains_str ''PG_TYPE'' upper
      then Records [\<lparr>rb_fields = [''oid'', ''typname'', ''typlen''],
             rb_rows = map (\<lambda>(oid, nm, len). [CInt oid, CText nm, CInt len]) pg_types\<rparr>]
      else if contains_str ''PG_CLASS'' upper
      then Records [\<lparr>rb_fields = [''oid'', ''relname''],
             rb_rows = map (\<lambda>(i, nm). [CInt (int i), CText nm])
               (zip [1..<length (table_names e) + 1] (table_names e))\<rparr>]
      else if contains_str ''PG_NAMESPACE'' upper
      then Records [\<lparr>rb_fields = [''oid'', ''nspname''], rb_rows = [[CInt 2200, CText ''public'']]\<rparr>]
      else if contains_str ''PG_ATTRIBUTE'' upper
      then Records [\<lparr>rb_fields = [''attrelid'', ''attname'', ''attnum'', ''atttypid''],
             rb_rows = attribute_rows 1 (hm_values (cat_tables (en_catalog e)))\<rparr>]
      else Records [])"

section \<open>Notifications\<close>

definition handle_listen :: "string \<Rightarrow> engine \<Rightarrow> (string, query_result) result \<times> engine" where
  "handle_listen sql e =
     (case split_whitespace sql of
        _ # w # _ \<Rightarrow>
          let channel = trim_matches dquote (trim_end_matches (CHR '';'') w)
          in (Inr (Message (''LISTEN '' @ in_quotes channel @ '' registered.'')),
              e\<lparr>en_queues := hm_or_insert channel [] (en_queues e)\<rparr>)
      | _ \<Rightarrow> (Inl ''LISTEN requires channel name'', e))"

definition notify_parts :: "string \<Rightarrow> string \<times> string" where
  "notify_parts after =
     (case split_once (\<lambda>c. c = CHR '','') after of
        Some (ch, pl) \<Rightarrow> (trim_matches dquote (trim ch), trim_matches quote (trim pl))
      | None \<Rightarrow> (trim_matches dquote (trim after), []))"

definition handle_notify :: "string \<Rightarrow> engine \<Rightarrow> (string, query_result) result \<times> engine" where
  "handle_notify sql e =
     (case split_once is_ws (strip_statement sql) of
        None \<Rightarrow> (Inl ''NOTIFY requires channel name'', e)
      | Some (_, rest) \<Rightarrow>
          (case notify_parts (trim rest) of
             (channel, msg) \<Rightarrow>
               (Inr (Message (''NOTIFY sent on '' @ in_quotes channel @ '' (payload '' @ show_nat (length msg) @ '' byte(s)).'')),
                e\<lparr>en_queues := hm_modify channel (\<lambda>q. q @ [msg]) (hm_or_insert channel [] (en_queues e))\<rparr>)))"

section \<open>Procedures and triggers\<close>

definition parse_create_procedure :: "string \<Rightarrow> (string, string \<times> string) result" where
  "parse_create_procedure sql =
     (let trimmed = strip_statement sql in
      if \<not> starts_with ''CREATE PROCEDURE '' (to_uppercase trimmed) then Inl ''Expected CREATE PROCEDURE''
      else let after = trim (drop (length ''CREATE PROCEDURE '') trimmed) in
      case find_char (\<lambda>c. c = CHR ''('' \<or> is_ws c) after of
        None \<Rightarrow> Inl ''CREATE PROCEDURE requires a name''
      | Some k \<Rightarrow>
          (case extract_dollar_quoted_body trimmed of
             None \<Rightarrow> Inl ''CREATE PROCEDURE requires $$...$$''
           | Some body \<Rightarrow> Inr (trim_matches dquote (take k after), body)))"

definition handle_create_procedure :: "string \<Rightarrow> engine \<Rightarrow> (string, query_result) result \<times> engine" where
  "handle_create_procedure sql e =
     (case parse_create_procedure sql of
        Inl err \<Rightarrow> (Inl err, e)
      | Inr (nm, body) \<Rightarrow>
          (Inr (Message (''Procedure '' @ in_quotes nm @ '' created.'')),
           e\<lparr>en_procedures := hm_insert nm body (en_procedures e)\<rparr>))"

definition trigger_timing :: "string \<Rightarrow> string option" where
  "trigger_timing rest =
     (if starts_with ''BEFORE '' (to_uppercase rest) then Some ''BEFORE''
      else if starts_with ''AFTER '' (to_uppercase rest) then Some ''AFTER'' else None)"

definition trigger_event :: "string \<Rightarrow> string option" where
  "trigger_event after =
     (if starts_with ''INSERT '' (to_uppercase after) then Some ''INSERT''
      else if starts_with ''UPDATE '' (to_uppercase after) then Some ''UPDATE''
      else if starts_with ''DELETE '' (to_uppercase after) then Some ''DELETE'' else None)"

text \<open>The text from the timing on; the six bytes that are skipped are the length of \<open>AFTER\<close> and a space.\<close>

definition parse_trigger_rest :: "string \<Rightarrow> string \<Rightarrow> string \<Rightarrow> (string, trigger_def) result" where
  "parse_trigger_rest nm rest trimmed =
     (case trigger_timing rest of
        None \<Rightarrow> Inl ''CREATE TRIGGER requires BEFORE or AFTER''
      | Some timing \<Rightarrow>
          let after_timing = trim (drop 6 rest) in
          case trigger_event after_timing of
            None \<Rightarrow> Inl ''CREATE TRIGGER requires INSERT, UPDATE, or DELETE''
          | Some event \<Rightarrow>
              let after_event = drop (length event) after_timing in
              case find_ci after_event '' ON '' of
                None \<Rightarrow> Inl ''CREATE TRIGGER requires ON''
              | Some on_idx \<Rightarrow>
                  let table_part = trim (drop (on_idx + 4) after_event) in
                  case find_ci table_part '' EXECUTE '' of
                    None \<Rightarrow> Inl ''CREATE TRIGGER requires EXECUTE''
                  | Some exec_idx \<Rightarrow>
                      (case extract_dollar_quoted_body trimmed of
                         None \<Rightarrow> Inl ''CREATE TRIGGER requires $$...$$ body''
                       | Some body \<Rightarrow>
                           Inr \<lparr>tr_name = nm, tr_table = trim_matches dquote (trim (take exec_idx table_part)),
                                tr_event = event, tr_timing = timing, tr_body = body\<rparr>))"

definition parse_create_trigger :: "string \<Rightarrow> (string, trigger_def) result" where
  "parse_create_trigger sql =
     (let trimmed = strip_statement sql in
      if \<not> starts_with ''CREATE TRIGGER '' (to_uppercase trimmed) then Inl ''Expected CREATE TRIGGER''
      else let after = trim (drop (length ''CREATE TRIGGER '') trimmed) in
      case find_char is_ws after of
        None \<Rightarrow> Inl ''CREATE TRIGGER requires trigger name''
      | Some k \<Rightarrow> parse_trigger_rest (trim_matches dquote (take k after)) (trim (drop k after)) trimmed)"

definition handle_create_trigger :: "string \<Rightarrow> engine \<Rightarrow> (string, query_result) result \<times> engine" where
  "handle_create_trigger sql e =
     (case parse_create_trigger sql of
        Inl err \<Rightarrow> (Inl err, e)
      | Inr d \<Rightarrow>
          let c = en_catalog e in
          (Inr (Message (''Trigger '' @ in_quotes (tr_name d) @ '' created.'')),
           with_catalog (catalog_save (c\<lparr>cat_triggers := hm_insert (tr_name d) d (cat_triggers c)\<rparr>)) e))"

definition handle_drop_trigger :: "string \<Rightarrow> engine \<Rightarrow> (string, query_result) result \<times> engine" where
  "handle_drop_trigger sql e =
     (let trimmed = strip_statement sql in
      if \<not> starts_with ''DROP TRIGGER '' (to_uppercase trimmed) then (Inl ''Expected DROP TRIGGER'', e)
      else case split_whitespace (drop (length ''DROP TRIGGER '') trimmed) of
             [] \<Rightarrow> (Inl ''DROP TRIGGER requires trigger name'', e)
           | w # _ \<Rightarrow>
               let nm = trim_matches dquote w; c = en_catalog e in
               (Inr (Message (''Trigger '' @ in_quotes nm @ '' dropped.'')),
                with_catalog (catalog_save (c\<lparr>cat_triggers := hm_remove nm (cat_triggers c)\<rparr>)) e))"

text \<open>The bodies that a statement on a table runs.\<close>

definition trigger_bodies :: "string \<Rightarrow> string \<Rightarrow> string \<Rightarrow> engine \<Rightarrow> string list" where
  "trigger_bodies tbl event timing e =
     map tr_body (filter (\<lambda>t. tr_table t = tbl \<and> tr_event t = event \<and> tr_timing t = timing)
       (hm_values (cat_triggers (en_catalog e))))"

section \<open>Replicas\<close>

definition replica_url :: "string \<Rightarrow> string" where
  "replica_url rest = trim_matches dquote (trim_matches quote (trim (trim_end_matches (CHR '';'') (trim rest))))"

definition handle_add_replica :: "string \<Rightarrow> engine \<Rightarrow> (string, query_result) result \<times> engine" where
  "handle_add_replica sql e =
     (let url = replica_url (drop (length ''ADD REPLICA '') sql) in
      if url = [] then (Inl ''ADD REPLICA requires a URL'', e)
      else (Inr (Message (''Replica '' @ in_quotes url @ '' added.'')),
            e\<lparr>en_replicas := if url \<in> set (en_replicas e) then en_replicas e else en_replicas e @ [url]\<rparr>))"

definition handle_remove_replica :: "string \<Rightarrow> engine \<Rightarrow> (string, query_result) result \<times> engine" where
  "handle_remove_replica sql e =
     (let url = replica_url (drop (length ''REMOVE REPLICA '') sql) in
      if url = [] then (Inl ''REMOVE REPLICA requires a URL'', e)
      else (Inr (Message (''Replica '' @ in_quotes url @ '' removed.'')),
            e\<lparr>en_replicas := filter (\<lambda>r. r \<noteq> url) (en_replicas e)\<rparr>))"

section \<open>Migrations\<close>

definition parse_create_migration :: "string \<Rightarrow> (string, migration_record) result" where
  "parse_create_migration sql =
     (let rest = trim_end_matches (CHR '';'') (trim (drop (length ''CREATE MIGRATION '') sql));
          (version_str, after) =
            (case split_once is_ascii_ws rest of Some (a, b) \<Rightarrow> (a, Some b) | None \<Rightarrow> (rest, None))
      in case parse_u64 version_str of
           None \<Rightarrow> Inl ''CREATE MIGRATION version must be a non-negative integer''
         | Some version \<Rightarrow>
             (case after of
                None \<Rightarrow> Inl ''CREATE MIGRATION requires description and AS $$ sql $$''
              | Some after_version \<Rightarrow>
                  case find_str ''AS $$'' (to_uppercase after_version) of
                    None \<Rightarrow> Inl ''CREATE MIGRATION requires AS $$ ... $$''
                  | Some as_idx \<Rightarrow>
                      case strip_suffix ''$$'' (trim_end_by is_ws (drop (as_idx + length ''AS $$'') after_version)) of
                        None \<Rightarrow> Inl ''CREATE MIGRATION requires closing $$''
                      | Some body \<Rightarrow>
                          Inr \<lparr>mg_version = version, mg_description = trim (take as_idx after_version),
                               mg_sql = trim body, mg_applied_at_ms = 0\<rparr>))"

definition handle_create_migration :: "string \<Rightarrow> engine \<Rightarrow> (string, query_result) result \<times> engine" where
  "handle_create_migration sql e =
     (case parse_create_migration sql of
        Inl err \<Rightarrow> (Inl err, e)
      | Inr m \<Rightarrow>
          let c = en_catalog e in
          if list_ex (\<lambda>m'. mg_version m' = mg_version m) (cat_migrations c)
          then (Inl (''Migration version '' @ show_nat (mg_version m) @ '' already exists''), e)
          else (Inr (Message (''Migration '' @ show_nat (mg_version m) @ '' '' @ in_quotes (mg_description m) @ '' registered.'')),
                with_catalog (catalog_save
                  (c\<lparr>cat_migrations := sort_key mg_version (cat_migrations c @ [m])\<rparr>)) e))"

section \<open>Queries AS OF a time\<close>

text \<open>The snapshot with the greatest time, the last one among equals (\<^verbatim>\<open>max_by_key\<close>).\<close>

definition newest :: "db_snapshot list \<Rightarrow> db_snapshot option" where
  "newest ss =
     fold (\<lambda>x best. case best of
         None \<Rightarrow> Some x
       | Some b \<Rightarrow> if ss_timestamp_ms x \<ge> ss_timestamp_ms b then Some x else Some b) ss None"

definition snapshot_at :: "int \<Rightarrow> engine \<Rightarrow> db_snapshot option" where
  "snapshot_at ts e = newest (filter (\<lambda>x. ss_timestamp_ms x \<le> ts) (en_snapshots e))"

definition asof_name :: "string \<Rightarrow> string" where
  "asof_name tbl = ''__potato_asof_'' @ tbl"

definition asof_rewrite :: "string \<Rightarrow> string \<Rightarrow> string" where
  "asof_rewrite tbl sql =
     (let tmp = ident (asof_name tbl) in
      replace_str (''JOIN '' @ tbl) (''JOIN '' @ tmp)
        (replace_str (''FROM '' @ tbl) (''FROM '' @ tmp)
          (replace_str (''JOIN '' @ ident tbl) (''JOIN '' @ tmp)
            (replace_str (''FROM '' @ ident tbl) (''FROM '' @ tmp) sql))))"

text \<open>
  The tables of the snapshot are registered one by one; a table without batches takes the
  schema of the catalog, and is left out when the catalog does not have it.
\<close>

fun asof_tables ::
  "'s world \<Rightarrow> (string \<times> record_batch list) list \<Rightarrow> string \<Rightarrow> (string \<times> string list, 's) action"
where
  "asof_tables W [] sql = ok (sql, [])"
| "asof_tables W ((tbl, bs) # rest) sql =
     andThen (asks (\<lambda>e. hm_get (cat_tables (en_catalog e)) tbl)) (\<lambda>m.
     if bs = [] \<and> m = None then asof_tables W rest sql
     else andThen (case m of
                     Some d \<Rightarrow> if bs = [] then look (\<lambda>_. columns_to_schema W (tm_columns d)) else ok ()
                   | None \<Rightarrow> ok ()) (\<lambda>_.
          andThen (outside (w_register W (asof_name tbl) bs)) (\<lambda>_.
          andThen (asof_tables W rest (asof_rewrite tbl sql)) (\<lambda>(out, names).
          ok (out, asof_name tbl # names)))))"

definition enable_snapshots :: "'s world \<Rightarrow> (unit, 's) action" where
  "enable_snapshots W =
     andThen (asks en_snapshots_on) (\<lambda>on.
     if on then ok ()
     else andThen (change (\<lambda>e. e\<lparr>en_snapshots_on := True\<rparr>)) (\<lambda>_. attempt (capture_snapshot W)))"

text \<open>The query runs, and the temporary tables go whatever its outcome.\<close>

definition asof_query :: "'s world \<Rightarrow> string \<Rightarrow> string list \<Rightarrow> (query_result, 's) action" where
  "asof_query W sql names e s =
     (case collect_with_plan_cache W sql e s of
        (r, e1, s1) \<Rightarrow>
          (case each (\<lambda>t. attempt (outside (w_deregister W t))) names e1 s1 of
             (_, e2, s2) \<Rightarrow> (map_sum id Records r, e2, s2)))"

definition execute_as_of_timestamp :: "'s world \<Rightarrow> string \<Rightarrow> int \<Rightarrow> (query_result, 's) action" where
  "execute_as_of_timestamp W sql ts =
     andThen (enable_snapshots W) (\<lambda>_.
     andThen (asks (snapshot_at ts)) (\<lambda>snap.
     case snap of
       None \<Rightarrow> fail ''No snapshot available for requested AS OF timestamp''
     | Some ss \<Rightarrow>
         andThen (asof_tables W (ss_tables ss) (strip_as_of_timestamp sql)) (\<lambda>(out, names).
         asof_query W out names)))"

section \<open>What the engine tells its front ends\<close>

definition table_columns :: "string \<Rightarrow> engine \<Rightarrow> string list" where
  "table_columns tbl e =
     (case hm_get (cat_tables (en_catalog e)) tbl of None \<Rightarrow> [] | Some m \<Rightarrow> map cd_name (tm_columns m))"

definition index_list :: "engine \<Rightarrow> (string \<times> string) list" where
  "index_list e = map (\<lambda>(nm, d). (nm, ix_table d)) (cat_indexes (en_catalog e))"

definition view_names :: "engine \<Rightarrow> string list" where
  "view_names e = hm_keys (cat_views (en_catalog e))"

definition function_names :: "engine \<Rightarrow> string list" where
  "function_names e = hm_keys (cat_udfs (en_catalog e))"

definition sequence_names :: "engine \<Rightarrow> string list" where
  "sequence_names e = hm_keys (cat_sequences (en_catalog e))"

definition user_info :: "engine \<Rightarrow> (string \<times> string list) list" where
  "user_info e =
     map (\<lambda>u. (u, case hm_get (cat_user_roles (en_catalog e)) u of None \<Rightarrow> [] | Some rs \<Rightarrow> rs))
       (hm_keys (cat_users (en_catalog e)))"

definition plan_cache_stats :: "engine \<Rightarrow> nat \<times> nat" where
  "plan_cache_stats e = (length (en_plan_cache e), en_plan_hits e)"

definition deletion_vector_count :: "string \<Rightarrow> engine \<Rightarrow> nat" where
  "deletion_vector_count tbl e =
     (case hm_get (cat_tables (en_catalog e)) tbl of None \<Rightarrow> 0 | Some m \<Rightarrow> length (tm_deletion_vectors m))"

definition replica_urls :: "engine \<Rightarrow> string list" where
  "replica_urls e = en_replicas e"

definition parquet_file_count :: "'s world \<Rightarrow> string \<Rightarrow> (nat, 's) action" where
  "parquet_file_count W tbl = andThen (list_parquet_files W tbl) (\<lambda>fs. ok (length fs))"

definition table_total_bytes :: "'s world \<Rightarrow> string \<Rightarrow> (nat, 's) action" where
  "table_total_bytes W tbl =
     andThen (list_objects W tbl) (\<lambda>obs. ok (sum_list (map ob_size (filter is_parquet obs))))"

text \<open>\<^verbatim>\<open>.max().unwrap_or(0)\<close> of the ages in whole seconds; a file of the future has age 0.\<close>

definition table_oldest_file_age_secs :: "'s world \<Rightarrow> string \<Rightarrow> (nat, 's) action" where
  "table_oldest_file_age_secs W tbl e s =
     andThen (list_objects W tbl) (\<lambda>obs.
     ok (fold max (map (\<lambda>ob. nat ((w_utc_ms W s - ob_modified ob) div 1000)) (filter is_parquet obs)) 0)) e s"

end
