(* ===== verification/Ddl.thy ===== *)
theory Ddl
  imports Session_Objects
begin

text \<open>
  The handlers that change what tables, indexes, sequences, functions and views there are
  (\<^verbatim>\<open>crates/engine/src/lib.rs\<close>), and the maintenance of tables: statistics, VACUUM, retention.
\<close>

section \<open>Helpers\<close>

abbreviation log_sql :: "'s world \<Rightarrow> string \<Rightarrow> (unit, 's) action" where
  "log_sql W sql \<equiv> change (wal_append_pending W sql)"

definition change_catalog :: "(catalog \<Rightarrow> catalog) \<Rightarrow> (unit, 's) action" where
  "change_catalog f = change (\<lambda>e. with_catalog (f (en_catalog e)) e)"

definition message :: "string \<Rightarrow> (query_result, 's) action" where
  "message m = ok (Message m)"

text \<open>What \<^verbatim>\<open>IF EXISTS\<close> and \<^verbatim>\<open>IF NOT EXISTS\<close> make of an error.\<close>

definition skip_or_fail :: "bool \<Rightarrow> string \<Rightarrow> (query_result, 's) action" where
  "skip_or_fail skip m = (if skip then message (m @ '', skipping.'') else fail m)"

definition the_table :: "string \<Rightarrow> (table_meta, 's) action" where
  "the_table tbl =
     andThen (asks (\<lambda>e. hm_get (cat_tables (en_catalog e)) tbl)) (\<lambda>m.
     case m of None \<Rightarrow> fail (''Table '' @ in_quotes tbl @ '' does not exist'') | Some d \<Rightarrow> ok d)"

definition last_component :: "char \<Rightarrow> string \<Rightarrow> string" where
  "last_component sep s = (case rfind_char (\<lambda>c. c = sep) s of None \<Rightarrow> s | Some k \<Rightarrow> drop (k + 1) s)"

text \<open>\<^verbatim>\<open>Path::extension\<close>: what follows the last dot of the file name, which it must not start with.\<close>

definition file_extension :: "string \<Rightarrow> string option" where
  "file_extension path =
     (let nm = last_component (CHR ''/'') (trim_end_matches (CHR ''/'') path) in
      case rfind_char (\<lambda>c. c = CHR ''.'') nm of
        None \<Rightarrow> None
      | Some k \<Rightarrow> if k = 0 \<or> nm = ''..'' then None else Some (drop (k + 1) nm))"

definition join_path :: "string \<Rightarrow> string \<Rightarrow> string" where
  "join_path dir nm = (if dir = [] \<or> last dir = CHR ''/'' then dir @ nm else dir @ ''/'' @ nm)"

definition table_url :: "string \<Rightarrow> engine \<Rightarrow> string" where
  "table_url tbl e =
     (let path = trim_end_matches (CHR ''/'') (en_data_url e) @ ''/'' @ tbl
      in if is_local_disk e then path else path @ ''/'')"

section \<open>File statistics from Parquet footers\<close>

text \<open>The bounds are compared as texts.\<close>

definition merge_bound :: "(string \<Rightarrow> string \<Rightarrow> bool) \<Rightarrow> string \<Rightarrow> string \<Rightarrow> (string, string) hashmap \<Rightarrow> (string, string) hashmap" where
  "merge_bound better col v m =
     (if hm_contains m col then hm_modify col (\<lambda>old. if better v old then v else old) m
      else hm_insert col v m)"

fun collect_minmax_from_parquet ::
  "(string \<times> (string \<times> string) option) list \<Rightarrow> (string, string) hashmap \<times> (string, string) hashmap \<Rightarrow>
     (string, string) hashmap \<times> (string, string) hashmap"
where
  "collect_minmax_from_parquet [] acc = acc"
| "collect_minmax_from_parquet ((col, None) # rest) acc = collect_minmax_from_parquet rest acc"
| "collect_minmax_from_parquet ((col, Some (lo, hi)) # rest) (mins, maxs) =
     collect_minmax_from_parquet rest
       (merge_bound (\<lambda>a b. a < b) col (utf8_lossy lo) mins, merge_bound (\<lambda>a b. b < a) col (utf8_lossy hi) maxs)"

definition full_stats :: "'s world \<Rightarrow> 's \<Rightarrow> engine \<Rightarrow> table_meta option \<Rightarrow> object_meta \<Rightarrow> file_stats" where
  "full_stats W s e meta ob =
     (let footer = (case meta of
            None \<Rightarrow> None
          | Some m \<Rightarrow> if en_location e = S3 then None
                      else w_footer W (join_path (tm_path m) (last_component (CHR ''/'') (ob_location ob))) s);
          bounds = (case footer of None \<Rightarrow> ([], []) | Some f \<Rightarrow> collect_minmax_from_parquet (pf_columns f) ([], []))
      in (light_stats ob)\<lparr>fs_row_count := map_option pf_rows footer, fs_min_values := fst bounds,
            fs_max_values := snd bounds\<rparr>)"

definition refresh_table_file_stats :: "'s world \<Rightarrow> string \<Rightarrow> (unit, 's) action" where
  "refresh_table_file_stats W tbl =
     andThen (list_objects W tbl) (\<lambda>obs e s.
       (Inr (), with_catalog (set_file_stats tbl
          (map (full_stats W s e (hm_get (cat_tables (en_catalog e)) tbl)) (filter is_parquet obs)) (en_catalog e)) e, s))"

section \<open>CREATE TABLE\<close>

definition partition_names :: "string option \<Rightarrow> string list" where
  "partition_names pb =
     (case pb of
        None \<Rightarrow> []
      | Some txt \<Rightarrow>
          let inner = (case (find_char (\<lambda>c. c = CHR ''('') txt, rfind_char (\<lambda>c. c = CHR '')'') txt) of
                (Some opn, Some cls) \<Rightarrow> if cls > opn then slice txt (opn + 1) cls else txt
              | _ \<Rightarrow> txt)
          in filter (\<lambda>p. p \<noteq> [])
               (map (\<lambda>p. trim_matches dquote (trim p))
                 (split_char (CHR '','') (trim_by (\<lambda>c. c = CHR ''('' \<or> c = CHR '')'' \<or> is_ws c) inner))))"

definition sql_column_to_catalog :: "column_ast \<Rightarrow> column_def" where
  "sql_column_to_catalog c = \<lparr>cd_name = ca_name c, cd_type = ca_type c, cd_nullable = \<not> ca_not_null c\<rparr>"

definition constraint_name :: "string option \<Rightarrow> string \<Rightarrow> nat \<Rightarrow> string" where
  "constraint_name nm kind idx = (case nm of Some n \<Rightarrow> n | None \<Rightarrow> kind @ ''_'' @ show_nat idx)"

fun constraints_from :: "nat \<Rightarrow> constraint_ast list \<Rightarrow> table_constraint list" where
  "constraints_from idx [] = []"
| "constraints_from idx (AstPrimaryKey cols # cs) = PrimaryKey cols # constraints_from (idx + 1) cs"
| "constraints_from idx (AstUnique nm cols # cs) =
     Unique (constraint_name nm ''unique'' idx) cols # constraints_from (idx + 1) cs"
| "constraints_from idx (AstCheck nm expr # cs) =
     Check (constraint_name nm ''check'' idx) expr # constraints_from (idx + 1) cs"
| "constraints_from idx (AstForeignKey nm cols tbl refs del upd # cs) =
     ForeignKey (constraint_name nm ''fk'' idx) cols tbl refs del upd # constraints_from (idx + 1) cs"
| "constraints_from idx (AstOtherConstraint # cs) = constraints_from (idx + 1) cs"

definition sql_constraints_to_catalog :: "constraint_ast list \<Rightarrow> table_constraint list" where
  "sql_constraints_to_catalog cs = constraints_from 0 cs"

definition new_table ::
  "string \<Rightarrow> column_def list \<Rightarrow> string \<Rightarrow> string list \<Rightarrow> table_constraint list \<Rightarrow> table_meta"
where
  "new_table nm cols url parts cs =
     \<lparr>tm_name = nm, tm_columns = cols, tm_path = url, tm_partition_columns = parts, tm_statistics = None,
      tm_retention_seconds = None, tm_constraints = cs, tm_file_stats = [], tm_deletion_vectors = []\<rparr>"

text \<open>Making the directory and the registration of a table that is to be created.\<close>

definition prepare_storage :: "'s world \<Rightarrow> string \<Rightarrow> column_def list \<Rightarrow> string list \<Rightarrow> (string, 's) action" where
  "prepare_storage W tbl cols parts =
     andThen (asks (table_url tbl)) (\<lambda>url.
     andThen (asks is_local_disk) (\<lambda>local.
     andThen (if local then outside (w_create_dir W url) else ok ()) (\<lambda>_.
     andThen (look (\<lambda>_. columns_to_schema W cols)) (\<lambda>_.
     andThen (register_listing_table W tbl cols url parts) (\<lambda>_.
     ok url)))))"

definition add_new_table :: "'s world \<Rightarrow> table_meta \<Rightarrow> (query_result, 's) action" where
  "add_new_table W m =
     andThen (change_catalog (add_table m)) (\<lambda>_.
     andThen (refresh_table_file_stats W (tm_name m)) (\<lambda>_.
     message (''Table '' @ in_quotes (tm_name m) @ '' created.'')))"

fun arrow_type_to_sql_string :: "arrow_type \<Rightarrow> string" where
  "arrow_type_to_sql_string ABoolean = ''BOOLEAN''"
| "arrow_type_to_sql_string AInt8 = ''TINYINT''"
| "arrow_type_to_sql_string AUInt8 = ''TINYINT''"
| "arrow_type_to_sql_string AInt16 = ''SMALLINT''"
| "arrow_type_to_sql_string AUInt16 = ''SMALLINT''"
| "arrow_type_to_sql_string AInt32 = ''INT''"
| "arrow_type_to_sql_string AUInt32 = ''INT''"
| "arrow_type_to_sql_string AInt64 = ''BIGINT''"
| "arrow_type_to_sql_string AUInt64 = ''BIGINT''"
| "arrow_type_to_sql_string AFloat16 = ''REAL''"
| "arrow_type_to_sql_string AFloat32 = ''REAL''"
| "arrow_type_to_sql_string AFloat64 = ''DOUBLE''"
| "arrow_type_to_sql_string ADate32 = ''DATE''"
| "arrow_type_to_sql_string ADate64 = ''DATE''"
| "arrow_type_to_sql_string (ATimestamp u tz) =
     (if tz \<noteq> None then ''TIMESTAMP WITH TIME ZONE'' else ''TIMESTAMP'')"
| "arrow_type_to_sql_string (ADuration u) = ''INTERVAL''"
| "arrow_type_to_sql_string (AFixedSizeBinary n) = (if n = 16 then ''UUID'' else ''VARCHAR'')"
| "arrow_type_to_sql_string (AList t) = arrow_type_to_sql_string t @ ''[]''"
| "arrow_type_to_sql_string (ALargeList t) = arrow_type_to_sql_string t @ ''[]''"
| "arrow_type_to_sql_string (ADecimal128 p sc) = ''DECIMAL('' @ show_nat p @ '','' @ show_int sc @ '')''"
| "arrow_type_to_sql_string ABinary = ''BYTEA''"
| "arrow_type_to_sql_string ALargeBinary = ''BYTEA''"
| "arrow_type_to_sql_string (ADecimal256 p sc) = ''VARCHAR''"
| "arrow_type_to_sql_string AUtf8 = ''VARCHAR''"
| "arrow_type_to_sql_string ALargeUtf8 = ''VARCHAR''"
| "arrow_type_to_sql_string ATime = ''VARCHAR''"
| "arrow_type_to_sql_string ANull = ''VARCHAR''"
| "arrow_type_to_sql_string AOtherType = ''VARCHAR''"

definition field_column :: "schema_field \<Rightarrow> column_def" where
  "field_column f =
     \<lparr>cd_name = sf_name f, cd_type = arrow_type_to_sql_string (sf_type f), cd_nullable = sf_nullable f\<rparr>"

text \<open>
  Filling a table from batches through a temporary table, as CTAS, CREATE INDEX and COPY do:
  an error leaves the temporary table registered.
\<close>

definition fill_table :: "'s world \<Rightarrow> string \<Rightarrow> string \<Rightarrow> record_batch list \<Rightarrow> (unit, 's) action" where
  "fill_table W tmp sql batches =
     (if \<not> has_rows batches then ok ()
      else andThen (outside (w_register W tmp batches)) (\<lambda>_.
           andThen (run_query W sql) (\<lambda>_.
           outside (w_deregister W tmp))))"

definition handle_ctas :: "'s world \<Rightarrow> string \<Rightarrow> string \<Rightarrow> string list \<Rightarrow> (query_result, 's) action" where
  "handle_ctas W tbl query parts =
     andThen (look (w_schema W query)) (\<lambda>schema.
     andThen (run_query W query) (\<lambda>batches.
     andThen (prepare_storage W tbl (map field_column schema) parts) (\<lambda>url.
     andThen (fill_table W ''__potato_ctas_tmp''
               (''INSERT INTO '' @ ident tbl @ '' SELECT * FROM __potato_ctas_tmp'') batches) (\<lambda>_.
     add_new_table W (new_table tbl (map field_column schema) url parts [])))))"

definition handle_create_table :: "'s world \<Rightarrow> create_table_ast \<Rightarrow> (query_result, 's) action" where
  "handle_create_table W c =
     andThen (asks (\<lambda>e. hm_contains (cat_tables (en_catalog e)) (ct_name c))) (\<lambda>exists.
     if exists then skip_or_fail (ct_if_not_exists c) (''Table '' @ in_quotes (ct_name c) @ '' already exists'')
     else andThen (log_sql W (ct_text c)) (\<lambda>_.
          let parts = partition_names (ct_partition_by c); cols = map sql_column_to_catalog (ct_columns c) in
          case ct_query c of
            Some query \<Rightarrow> handle_ctas W (ct_name c) query parts
          | None \<Rightarrow>
              if cols = [] then fail ''CREATE TABLE requires at least one column''
              else andThen (prepare_storage W (ct_name c) cols parts) (\<lambda>url.
                   add_new_table W (new_table (ct_name c) cols url parts (sql_constraints_to_catalog (ct_constraints c))))))"

section \<open>DROP TABLE and TRUNCATE\<close>

definition drop_text :: "string \<Rightarrow> string \<Rightarrow> bool \<Rightarrow> string" where
  "drop_text kind nm if_exists =
     ''DROP '' @ kind @ '' '' @ (if if_exists then ''IF EXISTS '' else []) @ ident nm"

definition missing :: "string \<Rightarrow> string \<Rightarrow> bool \<Rightarrow> (query_result, 's) action" where
  "missing kind nm if_exists = skip_or_fail if_exists (kind @ '' '' @ in_quotes nm @ '' does not exist'')"

text \<open>In a transaction the files of a dropped table wait for COMMIT.\<close>

definition defer_delete :: "table_meta \<Rightarrow> engine \<Rightarrow> engine" where
  "defer_delete m e =
     e\<lparr>en_txn := map_option (\<lambda>t. t\<lparr>tx_deferred := tx_deferred t @ [m]\<rparr>) (en_txn e)\<rparr>"

definition drop_storage :: "'s world \<Rightarrow> table_meta \<Rightarrow> (unit, 's) action" where
  "drop_storage W m =
     andThen (asks in_txn) (\<lambda>active. if active then change (defer_delete m) else delete_table_storage W m)"

definition handle_drop_table :: "'s world \<Rightarrow> string \<Rightarrow> bool \<Rightarrow> (query_result, 's) action" where
  "handle_drop_table W nm if_exists =
     andThen (asks (\<lambda>e. hm_get (cat_tables (en_catalog e)) nm)) (\<lambda>m.
     case m of
       None \<Rightarrow> missing ''Table'' nm if_exists
     | Some meta \<Rightarrow>
         andThen (log_sql W (drop_text ''TABLE'' nm if_exists)) (\<lambda>_.
         andThen (change_catalog (\<lambda>c. snd (remove_table nm c))) (\<lambda>_.
         andThen (outside (w_deregister W nm)) (\<lambda>_.
         andThen (change (invalidate_uniqueness_cache_for_table nm)) (\<lambda>_.
         andThen (drop_storage W meta) (\<lambda>_.
         message (''Table '' @ in_quotes nm @ '' dropped.'')))))))"

definition handle_truncate :: "'s world \<Rightarrow> string \<Rightarrow> (query_result, 's) action" where
  "handle_truncate W tbl =
     andThen (the_table tbl) (\<lambda>m.
     andThen (log_sql W (''TRUNCATE TABLE '' @ ident tbl)) (\<lambda>_.
     andThen (outside (w_deregister W tbl)) (\<lambda>_.
     andThen (delete_parquet_files W tbl) (\<lambda>_.
     andThen (change (invalidate_uniqueness_cache_for_table tbl)) (\<lambda>_.
     andThen (look (\<lambda>_. columns_to_schema W (tm_columns m))) (\<lambda>_.
     andThen (register_listing_table W tbl (tm_columns m) (tm_path m) (tm_partition_columns m)) (\<lambda>_.
     andThen (record_cdc W tbl ''TRUNCATE'' 0) (\<lambda>_.
     message (''Table '' @ in_quotes tbl @ '' truncated.'')))))))))"

end
