(* ===== verification/Schema_Objects.thy ===== *)
theory Schema_Objects
  imports Ddl
begin

text \<open>
  The handlers of indexes, sequences, functions, ALTER TABLE and views
  (\<^verbatim>\<open>crates/engine/src/lib.rs\<close>).
\<close>

section \<open>Indexes\<close>

text \<open>The columns of the index, or the error of the first that the table does not have.\<close>

fun index_columns :: "string \<Rightarrow> table_meta \<Rightarrow> (string \<times> bool option) list \<Rightarrow> (string, index_column list) result" where
  "index_columns tbl m [] = Inr []"
| "index_columns tbl m ((c, asc) # cs) =
     (if c \<notin> set (map cd_name (tm_columns m))
      then Inl (''Column '' @ in_quotes c @ '' does not exist in '' @ in_quotes tbl)
      else map_sum id (\<lambda>ics. \<lparr>ic_name = c, ic_ascending = (case asc of None \<Rightarrow> True | Some b \<Rightarrow> b)\<rparr> # ics)
             (index_columns tbl m cs))"

definition sort_keys :: "index_column list \<Rightarrow> string" where
  "sort_keys ics =
     join '', '' (map (\<lambda>k. ident (ic_name k) @ '' '' @ (if ic_ascending k then ''ASC'' else ''DESC'')) ics)"

definition demote :: "string \<Rightarrow> index_def \<Rightarrow> index_def" where
  "demote tbl i = (if ix_table i = tbl then i\<lparr>ix_primary := False, ix_logical_only := True\<rparr> else i)"

definition add_primary_index :: "string \<Rightarrow> string \<Rightarrow> index_column list \<Rightarrow> catalog \<Rightarrow> catalog" where
  "add_primary_index nm tbl ics c =
     add_index \<lparr>ix_name = nm, ix_table = tbl, ix_columns = ics, ix_logical_only = False, ix_primary = True\<rparr>
       (c\<lparr>cat_indexes := hm_map_values (demote tbl) (cat_indexes c)\<rparr>)"

text \<open>The rows, in order, are in memory only while the files are deleted and written again.\<close>

definition rewrite_in_order :: "'s world \<Rightarrow> string \<Rightarrow> string \<Rightarrow> index_column list \<Rightarrow> table_meta \<Rightarrow> (unit, 's) action" where
  "rewrite_in_order W nm tbl ics m =
     andThen (run_query W (''SELECT * FROM '' @ ident tbl @ '' ORDER BY '' @ sort_keys ics)) (\<lambda>sorted.
     andThen (outside (w_deregister W tbl)) (\<lambda>_.
     andThen (delete_parquet_files W tbl) (\<lambda>_.
     andThen (change_catalog (add_primary_index nm tbl ics)) (\<lambda>_.
     andThen (look (\<lambda>_. columns_to_schema W (tm_columns m))) (\<lambda>_.
     andThen (asks is_local_disk) (\<lambda>local.
     andThen (if local then outside (w_create_dir W (tm_path m)) else ok ()) (\<lambda>_.
     andThen (register_listing_table W tbl (tm_columns m) (tm_path m) (tm_partition_columns m)) (\<lambda>_.
     fill_table W ''__potato_idx_tmp''
       (''INSERT INTO '' @ ident tbl @ '' SELECT * FROM __potato_idx_tmp'') sorted))))))))"

definition create_index_named :: "'s world \<Rightarrow> create_index_ast \<Rightarrow> string \<Rightarrow> (query_result, 's) action" where
  "create_index_named W c nm =
     andThen (asks (\<lambda>e. hm_contains (cat_indexes (en_catalog e)) nm)) (\<lambda>exists.
     if exists then skip_or_fail (ci_if_not_exists c) (''Index '' @ in_quotes nm @ '' already exists'')
     else andThen (the_table (ci_table c)) (\<lambda>m.
          case index_columns (ci_table c) m (ci_columns c) of
            Inl err \<Rightarrow> fail err
          | Inr ics \<Rightarrow>
              if ics = [] then fail ''Index requires at least one column''
              else andThen (log_sql W (ci_text c)) (\<lambda>_.
                   andThen (backup_table_for_txn W (ci_table c)) (\<lambda>_.
                   andThen (rewrite_in_order W nm (ci_table c) ics m) (\<lambda>_.
                   message (''Index '' @ in_quotes nm @ '' created on '' @ in_quotes (ci_table c) @ '' ('' @
                     join '', '' (map fst (ci_columns c)) @ '').''))))))"

definition handle_create_index :: "'s world \<Rightarrow> create_index_ast \<Rightarrow> (query_result, 's) action" where
  "handle_create_index W c =
     (case ci_name c of None \<Rightarrow> fail ''Index name is required'' | Some nm \<Rightarrow> create_index_named W c nm)"

text \<open>The first index that is left becomes the primary one when there is no other.\<close>

fun promote_first :: "string \<Rightarrow> (string, index_def) hashmap \<Rightarrow> (string, index_def) hashmap" where
  "promote_first tbl [] = []"
| "promote_first tbl ((k, i) # rest) =
     (if ix_table i = tbl then (k, i\<lparr>ix_primary := True, ix_logical_only := False\<rparr>) # rest
      else (k, i) # promote_first tbl rest)"

definition drop_index_from :: "string \<Rightarrow> string \<Rightarrow> catalog \<Rightarrow> catalog" where
  "drop_index_from nm tbl c =
     (let c1 = snd (remove_index nm c)
      in if list_ex (\<lambda>i. ix_table i = tbl \<and> ix_primary i) (hm_values (cat_indexes c1)) then c1
         else c1\<lparr>cat_indexes := promote_first tbl (cat_indexes c1)\<rparr>)"

definition register_again :: "'s world \<Rightarrow> string \<Rightarrow> (unit, 's) action" where
  "register_again W tbl =
     andThen (asks (\<lambda>e. hm_get (cat_tables (en_catalog e)) tbl)) (\<lambda>m.
     case m of
       None \<Rightarrow> ok ()
     | Some d \<Rightarrow>
         andThen (outside (w_deregister W tbl)) (\<lambda>_.
         andThen (look (\<lambda>_. columns_to_schema W (tm_columns d))) (\<lambda>_.
         register_listing_table W tbl (tm_columns d) (tm_path d) (tm_partition_columns d))))"

definition handle_drop_index :: "'s world \<Rightarrow> string \<Rightarrow> bool \<Rightarrow> (query_result, 's) action" where
  "handle_drop_index W nm if_exists =
     andThen (asks (\<lambda>e. hm_get (cat_indexes (en_catalog e)) nm)) (\<lambda>i.
     case i of
       None \<Rightarrow> missing ''Index'' nm if_exists
     | Some d \<Rightarrow>
         andThen (log_sql W (drop_text ''INDEX'' nm if_exists)) (\<lambda>_.
         andThen (change_catalog (drop_index_from nm (ix_table d))) (\<lambda>_.
         andThen (register_again W (ix_table d)) (\<lambda>_.
         message (''Index '' @ in_quotes nm @ '' dropped.'')))))"

section \<open>Sequences\<close>

definition expr_to_i64 :: "string \<Rightarrow> (string, int) result" where
  "expr_to_i64 expr =
     (case parse_i64 (trim_matches quote expr) of
        None \<Rightarrow> Inl (''Expected integer expression, got '' @ in_quotes expr)
      | Some n \<Rightarrow> Inr n)"

text \<open>The options in order, the last of a kind counts.\<close>

fun sequence_options :: "sequence_option list \<Rightarrow> sequence_def \<Rightarrow> (string, sequence_def) result" where
  "sequence_options [] d = Inr d"
| "sequence_options (StartWith x # os) d =
     (case expr_to_i64 x of Inl err \<Rightarrow> Inl err | Inr n \<Rightarrow> sequence_options os (d\<lparr>sq_current := n\<rparr>))"
| "sequence_options (IncrementBy x # os) d =
     (case expr_to_i64 x of Inl err \<Rightarrow> Inl err | Inr n \<Rightarrow> sequence_options os (d\<lparr>sq_increment := n\<rparr>))"
| "sequence_options (MinValue (Some x) # os) d =
     (case expr_to_i64 x of Inl err \<Rightarrow> Inl err | Inr n \<Rightarrow> sequence_options os (d\<lparr>sq_min := Some n\<rparr>))"
| "sequence_options (MaxValue (Some x) # os) d =
     (case expr_to_i64 x of Inl err \<Rightarrow> Inl err | Inr n \<Rightarrow> sequence_options os (d\<lparr>sq_max := Some n\<rparr>))"
| "sequence_options (_ # os) d = sequence_options os d"

definition new_sequence :: "string \<Rightarrow> sequence_def" where
  "new_sequence nm = \<lparr>sq_name = nm, sq_current = 1, sq_increment = 1, sq_min = None, sq_max = None\<rparr>"

text \<open>What is logged of CREATE SEQUENCE is the name alone.\<close>

definition handle_create_sequence :: "'s world \<Rightarrow> string \<Rightarrow> bool \<Rightarrow> sequence_option list \<Rightarrow> (query_result, 's) action" where
  "handle_create_sequence W nm if_not_exists os =
     andThen (asks (\<lambda>e. hm_contains (cat_sequences (en_catalog e)) nm)) (\<lambda>exists.
     if exists then skip_or_fail if_not_exists (''Sequence '' @ in_quotes nm @ '' already exists'')
     else andThen (log_sql W (''CREATE SEQUENCE '' @ ident nm)) (\<lambda>_.
          case sequence_options os (new_sequence nm) of
            Inl err \<Rightarrow> fail err
          | Inr d \<Rightarrow> andThen (change_catalog (add_sequence d)) (\<lambda>_.
                     message (''Sequence '' @ in_quotes nm @ '' created.''))))"

definition handle_drop_sequence :: "'s world \<Rightarrow> string \<Rightarrow> bool \<Rightarrow> (query_result, 's) action" where
  "handle_drop_sequence W nm if_exists =
     andThen (asks (\<lambda>e. hm_contains (cat_sequences (en_catalog e)) nm)) (\<lambda>exists.
     if \<not> exists then missing ''Sequence'' nm if_exists
     else andThen (log_sql W (''DROP SEQUENCE '' @ ident nm)) (\<lambda>_.
          andThen (change_catalog (\<lambda>c. snd (remove_sequence nm c))) (\<lambda>_.
          message (''Sequence '' @ in_quotes nm @ '' dropped.''))))"

section \<open>Functions\<close>

definition handle_create_function :: "'s world \<Rightarrow> string \<Rightarrow> (query_result, 's) action" where
  "handle_create_function W sql =
     (case parse_create_function sql of
        Inl err \<Rightarrow> fail err
      | Inr d \<Rightarrow>
          andThen (log_sql W sql) (\<lambda>_.
          andThen (change_catalog (add_udf d)) (\<lambda>_.
          message (''Function '' @ in_quotes (uf_name d) @ '' created.''))))"

definition handle_drop_function :: "'s world \<Rightarrow> string \<Rightarrow> (query_result, 's) action" where
  "handle_drop_function W sql =
     (case parse_drop_function sql of
        Inl err \<Rightarrow> fail err
      | Inr (if_exists, nm) \<Rightarrow>
          andThen (asks (\<lambda>e. hm_contains (cat_udfs (en_catalog e)) nm)) (\<lambda>exists.
          if \<not> exists then missing ''Function'' nm if_exists
          else andThen (log_sql W sql) (\<lambda>_.
               andThen (change_catalog (\<lambda>c. snd (remove_udf nm c))) (\<lambda>_.
               message (''Function '' @ in_quotes nm @ '' dropped.'')))))"

section \<open>ALTER TABLE\<close>

definition rename_column :: "string \<Rightarrow> string \<Rightarrow> column_def list \<Rightarrow> column_def list option" where
  "rename_column old new cols =
     (case dropWhile (\<lambda>c. cd_name c \<noteq> old) cols of
        [] \<Rightarrow> None
      | c # rest \<Rightarrow> Some (takeWhile (\<lambda>c. cd_name c \<noteq> old) cols @ c\<lparr>cd_name := new\<rparr> # rest))"

text \<open>
  The operations change the columns one after the other: an error leaves what those before it
  did. The result has the messages and the columns.
\<close>

fun alter_columns ::
  "string \<Rightarrow> alter_operation list \<Rightarrow> column_def list \<Rightarrow> (string, string list) result \<times> column_def list"
where
  "alter_columns tbl [] cols = (Inr [], cols)"
| "alter_columns tbl (AddColumn ast if_not_exists # ops) cols =
     (let col = sql_column_to_catalog ast in
      if cd_name col \<in> set (map cd_name cols)
      then (if if_not_exists
            then apfst (map_sum id ((#) (''Column '' @ in_quotes (cd_name col) @ '' already exists, skipping.'')))
                   (alter_columns tbl ops cols)
            else (Inl (''Column '' @ in_quotes (cd_name col) @ '' already exists in '' @ in_quotes tbl), cols))
      else apfst (map_sum id ((#) (''Column '' @ in_quotes (cd_name col) @ '' added.'')))
             (alter_columns tbl ops (cols @ [col])))"
| "alter_columns tbl (DropColumn nms if_exists # ops) cols =
     (let nm = (case nms of [] \<Rightarrow> [] | n # _ \<Rightarrow> n) in
      if nm \<notin> set (map cd_name cols)
      then (if if_exists
            then apfst (map_sum id ((#) (''Column '' @ in_quotes nm @ '' does not exist, skipping.'')))
                   (alter_columns tbl ops cols)
            else (Inl (''Column '' @ in_quotes nm @ '' does not exist in '' @ in_quotes tbl), cols))
      else apfst (map_sum id ((#) (''Column '' @ in_quotes nm @ '' dropped.'')))
             (alter_columns tbl ops (filter (\<lambda>c. cd_name c \<noteq> nm) cols)))"
| "alter_columns tbl (RenameColumn old new # ops) cols =
     (case rename_column old new cols of
        None \<Rightarrow> (Inl (''Column '' @ in_quotes old @ '' does not exist in '' @ in_quotes tbl), cols)
      | Some cols' \<Rightarrow>
          apfst (map_sum id ((#) (''Column '' @ in_quotes old @ '' renamed to '' @ in_quotes new @ ''.'')))
            (alter_columns tbl ops cols'))"
| "alter_columns tbl (OtherOperation txt # ops) cols =
     (Inl (''Unsupported ALTER TABLE operation: '' @ txt), cols)"

definition set_columns :: "string \<Rightarrow> column_def list \<Rightarrow> catalog \<Rightarrow> catalog" where
  "set_columns tbl cols c = c\<lparr>cat_tables := hm_modify tbl (\<lambda>m. m\<lparr>tm_columns := cols\<rparr>) (cat_tables c)\<rparr>"

definition alter_operations :: "'s world \<Rightarrow> string \<Rightarrow> alter_operation list \<Rightarrow> (string list, 's) action" where
  "alter_operations W tbl ops =
     andThen (the_table tbl) (\<lambda>m.
     case alter_columns tbl ops (tm_columns m) of
       (r, cols) \<Rightarrow> andThen (change_catalog (set_columns tbl cols)) (\<lambda>_. case r of Inl err \<Rightarrow> fail err | Inr ms \<Rightarrow> ok ms))"

definition rename_in_catalog :: "string \<Rightarrow> string \<Rightarrow> table_meta \<Rightarrow> catalog \<Rightarrow> catalog" where
  "rename_in_catalog old new m c =
     catalog_save (c\<lparr>cat_tables := hm_insert new (m\<lparr>tm_name := new\<rparr>) (hm_remove old (cat_tables c)),
       cat_indexes := hm_map_values (\<lambda>i. if ix_table i = old then i\<lparr>ix_table := new\<rparr> else i) (cat_indexes c)\<rparr>)"

definition handle_rename_table :: "'s world \<Rightarrow> string \<Rightarrow> string \<Rightarrow> (query_result, 's) action" where
  "handle_rename_table W old new =
     (if old = new then message (''Table '' @ in_quotes old @ '' already has that name.'')
      else andThen (asks (\<lambda>e. hm_contains (cat_tables (en_catalog e)) new)) (\<lambda>exists.
           if exists then fail (''Table '' @ in_quotes new @ '' already exists'')
           else andThen (log_sql W (''ALTER TABLE '' @ ident old @ '' RENAME TO '' @ ident new)) (\<lambda>_.
                andThen (the_table old) (\<lambda>m.
                andThen (change_catalog (rename_in_catalog old new m)) (\<lambda>_.
                andThen (attempt (outside (w_deregister W old))) (\<lambda>_.
                andThen (look (\<lambda>_. columns_to_schema W (tm_columns m))) (\<lambda>_.
                andThen (register_listing_table W new (tm_columns m) (tm_path m) (tm_partition_columns m)) (\<lambda>_.
                message (''Table '' @ in_quotes old @ '' renamed to '' @ in_quotes new @ ''.'')))))))))"

definition set_retention :: "string \<Rightarrow> nat option \<Rightarrow> catalog \<Rightarrow> catalog" where
  "set_retention tbl r c =
     catalog_save (c\<lparr>cat_tables := hm_modify tbl (\<lambda>m. m\<lparr>tm_retention_seconds := r\<rparr>) (cat_tables c)\<rparr>)"

definition alter_retention :: "'s world \<Rightarrow> string \<Rightarrow> string \<Rightarrow> nat option \<Rightarrow> (query_result, 's) action" where
  "alter_retention W sql tbl r =
     andThen (log_sql W sql) (\<lambda>_.
     andThen (change_catalog (set_retention tbl r)) (\<lambda>_.
     message (case r of
         Some secs \<Rightarrow> ''Retention policy set on '' @ in_quotes tbl @ '' to '' @ show_nat secs @ '' second(s).''
       | None \<Rightarrow> ''Retention policy cleared on '' @ in_quotes tbl @ ''.'')))"

definition handle_alter_table ::
  "'s world \<Rightarrow> string \<Rightarrow> string \<Rightarrow> alter_operation list \<Rightarrow> bool \<Rightarrow> (query_result, 's) action"
where
  "handle_alter_table W sql tbl ops if_exists =
     andThen (asks (\<lambda>e. hm_contains (cat_tables (en_catalog e)) tbl)) (\<lambda>exists.
     if \<not> exists then missing ''Table'' tbl if_exists
     else case parse_alter_table_rename sql of
            Some (old, new) \<Rightarrow> handle_rename_table W old new
          | None \<Rightarrow>
              (case parse_retention_setting sql of
                 Some r \<Rightarrow> alter_retention W sql tbl r
               | None \<Rightarrow>
                   andThen (log_sql W sql) (\<lambda>_.
                   andThen (alter_operations W tbl ops) (\<lambda>ms.
                   andThen (change_catalog catalog_save) (\<lambda>_.
                   andThen (register_again W tbl) (\<lambda>_.
                   message (join '' '' ms)))))))"

section \<open>Views\<close>

definition backing_name :: "string \<Rightarrow> string" where
  "backing_name nm = ''__mv_'' @ nm"

definition view_text :: "string \<Rightarrow> string \<Rightarrow> bool \<Rightarrow> bool \<Rightarrow> string" where
  "view_text nm query or_replace materialized =
     (if materialized then ''CREATE MATERIALIZED VIEW ''
      else if or_replace then ''CREATE OR REPLACE VIEW '' else ''CREATE VIEW '') @ ident nm @ '' AS '' @ query"

definition define_view :: "'s world \<Rightarrow> string \<Rightarrow> string \<Rightarrow> (unit, 's) action" where
  "define_view W nm query = outside (w_plan W (''CREATE OR REPLACE VIEW '' @ ident nm @ '' AS '' @ query))"

definition materialize :: "'s world \<Rightarrow> string \<Rightarrow> string \<Rightarrow> string \<Rightarrow> (unit, 's) action" where
  "materialize W nm backing query =
     andThen (handle_ctas W backing query []) (\<lambda>_.
     define_view W nm (''SELECT * FROM '' @ ident backing))"

definition store_view :: "'s world \<Rightarrow> string \<Rightarrow> string \<Rightarrow> bool \<Rightarrow> (string option, 's) action" where
  "store_view W nm query materialized =
     (if materialized
      then andThen (asks (\<lambda>e. hm_contains (cat_tables (en_catalog e)) (backing_name nm))) (\<lambda>exists.
           andThen (if exists then attempt (handle_drop_table W (backing_name nm) True) else ok ()) (\<lambda>_.
           andThen (materialize W nm (backing_name nm) query) (\<lambda>_.
           ok (Some (backing_name nm)))))
      else andThen (define_view W nm query) (\<lambda>_. ok None))"

definition handle_create_view :: "'s world \<Rightarrow> string \<Rightarrow> string \<Rightarrow> bool \<Rightarrow> bool \<Rightarrow> (query_result, 's) action" where
  "handle_create_view W nm query or_replace materialized =
     andThen (asks (\<lambda>e. hm_contains (cat_views (en_catalog e)) nm)) (\<lambda>exists.
     if exists \<and> \<not> or_replace then fail (''View '' @ in_quotes nm @ '' already exists'')
     else andThen (log_sql W (view_text nm query or_replace materialized)) (\<lambda>_.
          andThen (store_view W nm query materialized) (\<lambda>backing.
          andThen (change_catalog (add_view
            \<lparr>vw_name = nm, vw_sql = query, vw_materialized = materialized, vw_backing_table = backing\<rparr>)) (\<lambda>_.
          message ((if materialized then ''Materialized'' else ''View'') @ '' view '' @ in_quotes nm @ '' created.'')))))"

definition drop_backing :: "'s world \<Rightarrow> view_def \<Rightarrow> (unit, 's) action" where
  "drop_backing W v =
     (case vw_backing_table v of
        Some backing \<Rightarrow> if vw_materialized v then attempt (handle_drop_table W backing True) else ok ()
      | None \<Rightarrow> ok ())"

definition handle_drop_view :: "'s world \<Rightarrow> string \<Rightarrow> bool \<Rightarrow> (query_result, 's) action" where
  "handle_drop_view W nm if_exists =
     andThen (asks (\<lambda>e. hm_get (cat_views (en_catalog e)) nm)) (\<lambda>v.
     case v of
       None \<Rightarrow> missing ''View'' nm if_exists
     | Some d \<Rightarrow>
         andThen (log_sql W (drop_text ''VIEW'' nm if_exists)) (\<lambda>_.
         andThen (change_catalog (\<lambda>c. snd (remove_view nm c))) (\<lambda>_.
         andThen (attempt (outside (w_deregister W nm))) (\<lambda>_.
         andThen (drop_backing W d) (\<lambda>_.
         message (''View '' @ in_quotes nm @ '' dropped.''))))))"

definition stored_query :: "'s world \<Rightarrow> view_def \<Rightarrow> (string, string) result" where
  "stored_query W v =
     (case w_parse W (''SELECT * FROM ('' @ vw_sql v @ '') t'') of
        Inl err \<Rightarrow> Inl err
      | Inr [] \<Rightarrow> Inl panic
      | Inr (Query q # _) \<Rightarrow> Inr q
      | Inr (_ # _) \<Rightarrow> Inl ''Stored materialized view SQL is invalid'')"

definition refresh_backing :: "'s world \<Rightarrow> string \<Rightarrow> view_def \<Rightarrow> string \<Rightarrow> (query_result, 's) action" where
  "refresh_backing W nm v backing =
     andThen (log_sql W (''REFRESH MATERIALIZED VIEW '' @ ident nm)) (\<lambda>_.
     andThen (attempt (handle_drop_table W backing True)) (\<lambda>_.
     andThen (look (\<lambda>_. stored_query W v)) (\<lambda>query.
     andThen (materialize W nm backing query) (\<lambda>_.
     message (''Materialized view '' @ in_quotes nm @ '' refreshed.'')))))"

definition handle_refresh_materialized_view :: "'s world \<Rightarrow> string \<Rightarrow> (query_result, 's) action" where
  "handle_refresh_materialized_view W nm =
     andThen (asks (\<lambda>e. hm_get (cat_views (en_catalog e)) nm)) (\<lambda>v.
     case v of
       None \<Rightarrow> fail (''View '' @ in_quotes nm @ '' does not exist'')
     | Some d \<Rightarrow>
         if \<not> vw_materialized d then fail (''View '' @ in_quotes nm @ '' is not materialized'')
         else (case vw_backing_table d of
                 None \<Rightarrow> fail ''Materialized view is missing backing table metadata''
               | Some backing \<Rightarrow> refresh_backing W nm d backing))"

end
