(* ===== verification/Maintenance.thy ===== *)
theory Maintenance
  imports Ddl
begin

text \<open>
  ANALYZE, VACUUM, the retention policy and PREPARE (\<^verbatim>\<open>crates/engine/src/lib.rs\<close>).
\<close>

section \<open>ANALYZE\<close>

definition i64_as_u64 :: "int \<Rightarrow> nat" where
  "i64_as_u64 n = nat (n mod 2 ^ 64)"

definition count_sql :: "string \<Rightarrow> string" where
  "count_sql tbl = ''SELECT COUNT(*) AS c FROM '' @ ident tbl"

definition unsigned_count :: "record_batch list \<Rightarrow> nat" where
  "unsigned_count bs =
     sum_list (map (\<lambda>b. sum_list (map (\<lambda>row. i64_as_u64 (int_value (cell_at row 0))) (rb_rows b))) bs)"

definition stats_sql :: "string \<Rightarrow> string \<Rightarrow> string" where
  "stats_sql tbl c =
     ''SELECT COUNT(*) - COUNT('' @ ident c @ '') AS null_count, APPROX_DISTINCT('' @ ident c @
     '') AS distinct_count, CAST(MIN('' @ ident c @ '') AS VARCHAR) AS min_val, CAST(MAX('' @ ident c @
     '') AS VARCHAR) AS max_val FROM '' @ ident tbl"

fun distinct_value :: "cell \<Rightarrow> nat option" where
  "distinct_value (CInt n) = Some (nat n)"
| "distinct_value _ = None"

fun text_value :: "cell \<Rightarrow> string option" where
  "text_value (CText t) = Some t"
| "text_value _ = None"

text \<open>The statistics of a column from the answer's first row; a batch without rows is a panic.\<close>

definition column_stats :: "record_batch \<Rightarrow> (string, column_statistics) result" where
  "column_stats b =
     (case rb_rows b of
        [] \<Rightarrow> Inl panic
      | row # _ \<Rightarrow>
          if length row < 4 then Inl panic
          else Inr \<lparr>cs_null_count = i64_as_u64 (int_value (cell_at row 0)),
                    cs_distinct_count = distinct_value (cell_at row 1),
                    cs_min_value = text_value (cell_at row 2), cs_max_value = text_value (cell_at row 3)\<rparr>)"

fun analyze_columns ::
  "'s world \<Rightarrow> string \<Rightarrow> string list \<Rightarrow> (string, column_statistics) hashmap \<Rightarrow>
     ((string, column_statistics) hashmap, 's) action"
where
  "analyze_columns W tbl [] acc = ok acc"
| "analyze_columns W tbl (c # cs) acc =
     andThen (run_query W (stats_sql tbl c)) (\<lambda>bs.
     case bs of
       [] \<Rightarrow> analyze_columns W tbl cs acc
     | b # _ \<Rightarrow>
         (case column_stats b of
            Inl err \<Rightarrow> fail err
          | Inr st \<Rightarrow> analyze_columns W tbl cs (hm_insert c st acc)))"

definition handle_analyze :: "'s world \<Rightarrow> string \<Rightarrow> (query_result, 's) action" where
  "handle_analyze W tbl =
     andThen (the_table tbl) (\<lambda>m.
     andThen (run_query W (count_sql tbl)) (\<lambda>counts.
     andThen (analyze_columns W tbl (map cd_name (tm_columns m)) []) (\<lambda>cols.
     andThen (change_catalog (set_statistics tbl \<lparr>ts_row_count = unsigned_count counts, ts_columns = cols\<rparr>)) (\<lambda>_.
     andThen (refresh_table_file_stats W tbl) (\<lambda>_.
     message (''ANALYZE: collected statistics for '' @ in_quotes tbl @ '' ('' @ show_nat (unsigned_count counts) @
       '' rows, '' @ show_nat (length (tm_columns m)) @ '' columns).''))))))"

text \<open>The tables that inserts marked are analyzed before the next statement.\<close>

definition drain_pending_analyze :: "'s world \<Rightarrow> (unit, 's) action" where
  "drain_pending_analyze W =
     andThen (asks en_pending_analyze) (\<lambda>ts.
     andThen (change (\<lambda>e. e\<lparr>en_pending_analyze := []\<rparr>)) (\<lambda>_.
     each (\<lambda>t. attempt (handle_analyze W t)) ts))"

section \<open>Retention\<close>

fun remove_old :: "'s world \<Rightarrow> int \<Rightarrow> (string \<times> int) list \<Rightarrow> nat \<Rightarrow> (nat, 's) action" where
  "remove_old W cutoff [] n = ok n"
| "remove_old W cutoff ((path, modified) # fs) n =
     (if file_extension path = Some ''parquet'' \<and> modified < cutoff
      then andThen (outside (w_remove_file W path)) (\<lambda>_. remove_old W cutoff fs (n + 1))
      else remove_old W cutoff fs n)"

text \<open>Times are in milliseconds; a cutoff beyond the range of the clock is an error.\<close>

definition prune_table :: "'s world \<Rightarrow> table_meta \<Rightarrow> nat \<Rightarrow> (nat, 's) action" where
  "prune_table W m secs e s =
     (if w_utc_ms W s div 1000 - int secs < i64_min then (Inl ''Invalid retention cutoff'', e, s)
      else case w_read_dir W (tm_path m) s of
             None \<Rightarrow> (Inr 0, e, s)
           | Some (Inl err) \<Rightarrow> (Inl err, e, s)
           | Some (Inr fs) \<Rightarrow> remove_old W (w_utc_ms W s - 1000 * int secs) fs 0 e s)"

definition apply_retention_policy :: "'s world \<Rightarrow> string \<Rightarrow> (nat, 's) action" where
  "apply_retention_policy W tbl =
     andThen (asks (\<lambda>e. (hm_get (cat_tables (en_catalog e)) tbl, is_local_disk e))) (\<lambda>(m, local).
     case m of
       None \<Rightarrow> ok 0
     | Some d \<Rightarrow>
         (case tm_retention_seconds d of
            None \<Rightarrow> ok 0
          | Some secs \<Rightarrow> if local then prune_table W d secs else ok 0))"

section \<open>VACUUM\<close>

definition handle_vacuum :: "'s world \<Rightarrow> string \<Rightarrow> (query_result, 's) action" where
  "handle_vacuum W tbl =
     andThen (flush_all W) (\<lambda>_.
     andThen (the_table tbl) (\<lambda>_.
     andThen (backup_table_for_txn W tbl) (\<lambda>_.
     andThen (apply_retention_policy W tbl) (\<lambda>pruned.
     andThen (asks (\<lambda>e. order_clause tbl (en_catalog e))) (\<lambda>order.
     andThen (run_query W (''SELECT * FROM '' @ ident tbl @ order)) (\<lambda>batches.
     andThen (list_parquet_files W tbl) (\<lambda>old_files.
     andThen (rewrite_table W tbl batches False) (\<lambda>_.
     andThen (handle_analyze W tbl) (\<lambda>_.
     message (''VACUUM: compacted '' @ show_nat (length old_files) @ '' file(s) into 1 ('' @
       show_nat (total_rows batches) @ '' rows) for '' @ in_quotes tbl @ '' (retention pruned '' @
       show_nat pruned @ '' file(s)).''))))))))))"

text \<open>VACUUM and ANALYZE as the fallback reads them when sqlparser does not know the statement.\<close>

definition vacuum_then_analyze :: "'s world \<Rightarrow> string \<Rightarrow> (query_result, 's) action" where
  "vacuum_then_analyze W tbl =
     andThen (handle_vacuum W tbl) (\<lambda>v.
     case v of
       Message vac \<Rightarrow>
         andThen (handle_analyze W tbl) (\<lambda>a.
         case a of Message an \<Rightarrow> message (vac @ '' '' @ an) | other \<Rightarrow> ok other)
     | other \<Rightarrow> ok other)"

section \<open>PREPARE\<close>

definition handle_prepare :: "'s world \<Rightarrow> string \<Rightarrow> string \<Rightarrow> (query_result, 's) action" where
  "handle_prepare W nm template e s =
     (case w_plan W template s of
        (r, s1) \<Rightarrow>
          let planned = (\<not> isl r);
              e1 = (if planned \<and> is_read_only_sql template
                    then e\<lparr>en_plan_cache := List.insert template (en_plan_cache e)\<rparr> else e)
          in (Inr (Message (''Statement '' @ in_quotes nm @ '' prepared.'')),
              e1\<lparr>en_prepared := hm_insert nm \<lparr>pr_template = template, pr_planned = planned\<rparr> (en_prepared e1)\<rparr>, s1))"

text \<open>
  A prepared query without parameters runs by its plan; when the plan cannot be run, and for
  everything else, the text with its parameters is returned, to be executed.
\<close>

definition prepared_text :: "'s world \<Rightarrow> string \<Rightarrow> string list \<Rightarrow> (query_result + string, 's) action" where
  "prepared_text W nm params =
     andThen (asks (\<lambda>e. hm_get (en_prepared e) nm)) (\<lambda>p.
     case p of
       None \<Rightarrow> fail (''Prepared statement '' @ in_quotes nm @ '' does not exist'')
     | Some d \<Rightarrow>
         if params = [] \<and> is_read_only_sql (pr_template d) \<and> pr_planned d
         then andThen (flush_all W) (\<lambda>_ e s.
              case w_run_plan W (pr_template d) s of
                (Inr bs, s1) \<Rightarrow> (Inr (Inl (Records bs)), e, s1)
              | (Inl (ExecError err), s1) \<Rightarrow> (Inl err, e, s1)
              | (Inl (PlanError _), s1) \<Rightarrow> (Inr (Inr (substitute_parameters (pr_template d) params)), e, s1))
         else ok (Inr (substitute_parameters (pr_template d) params)))"

section \<open>Sequence calls\<close>

text \<open>\<^verbatim>\<open>expand_nextval_calls\<close> on the catalog of the engine.\<close>

definition expand_nextval :: "string \<Rightarrow> (string, 's) action" where
  "expand_nextval sql e s =
     (case expand_nextval_calls sql (en_catalog e) of
        (r, c) \<Rightarrow> (map_sum catalog_message id r, with_catalog c e, s))"

end
