(* ===== verification/Dml.thy ===== *)
theory Dml
  imports Schema_Objects Maintenance
begin

text \<open>
  DELETE, UPDATE and INSERT (\<^verbatim>\<open>crates/engine/src/lib.rs\<close>). Their triggers run statements, so
  these handlers take the execution of a statement as an argument.
\<close>

section \<open>Runs\<close>

text \<open>
  A run is an action that may not end: \<open>None\<close> is the run that does not. The execution of a
  statement is a run, since a statement can execute others.
\<close>

type_synonym ('a, 's) run = "engine \<Rightarrow> 's \<Rightarrow> ((string, 'a) result \<times> engine \<times> 's) option"

definition runs :: "('a, 's) action \<Rightarrow> ('a, 's) run" where
  "runs m e s = Some (m e s)"

definition andRun :: "('a, 's) run \<Rightarrow> ('a \<Rightarrow> ('b, 's) run) \<Rightarrow> ('b, 's) run" where
  "andRun m f e s =
     (case m e s of
        None \<Rightarrow> None
      | Some (Inl msg, e', s') \<Rightarrow> Some (Inl msg, e', s')
      | Some (Inr a, e', s') \<Rightarrow> f a e' s')"

definition tryRun :: "('a, 's) run \<Rightarrow> (unit, 's) run" where
  "tryRun m e s = (case m e s of None \<Rightarrow> None | Some (r, e', s') \<Rightarrow> Some (Inr (), e', s'))"

fun eachRun :: "('b \<Rightarrow> (unit, 's) run) \<Rightarrow> 'b list \<Rightarrow> (unit, 's) run" where
  "eachRun f [] = runs (ok ())"
| "eachRun f (x # xs) = andRun (f x) (\<lambda>_. eachRun f xs)"

type_synonym 's executor = "string \<Rightarrow> (query_result, 's) run"

text \<open>The triggers of a statement; what becomes of their bodies is passed over.\<close>

definition run_triggers :: "'s executor \<Rightarrow> string \<Rightarrow> string \<Rightarrow> string \<Rightarrow> (unit, 's) run" where
  "run_triggers exec tbl event timing e s =
     eachRun (\<lambda>body. tryRun (exec body)) (trigger_bodies tbl event timing e) e s"

section \<open>Shared steps\<close>

text \<open>A check that reads the engine and may change what is outside.\<close>

definition checked :: "(engine \<Rightarrow> 's \<Rightarrow> (string, 'a) result \<times> 's) \<Rightarrow> ('a, 's) action" where
  "checked f e s = (case f e s of (r, s') \<Rightarrow> (r, e, s'))"

definition clear_deletion_vectors :: "string \<Rightarrow> (unit, 's) action" where
  "clear_deletion_vectors tbl =
     change_catalog (\<lambda>c. c\<lparr>cat_tables := hm_modify tbl (\<lambda>m. m\<lparr>tm_deletion_vectors := []\<rparr>) (cat_tables c)\<rparr>)"

text \<open>Replacing the rows of a table by the answer to a query.\<close>

definition rewrite_from :: "'s world \<Rightarrow> string \<Rightarrow> string \<Rightarrow> (record_batch list, 's) action" where
  "rewrite_from W tbl sql =
     andThen (run_query W sql) (\<lambda>bs. andThen (rewrite_table W tbl bs False) (\<lambda>_. ok bs))"

definition returning_query :: "'s world \<Rightarrow> string option \<Rightarrow> (string \<Rightarrow> string) \<Rightarrow> (record_batch list option, 's) action" where
  "returning_query W ret sql =
     (case ret of None \<Rightarrow> ok None | Some r \<Rightarrow> andThen (run_query W (sql r)) (\<lambda>bs. ok (Some bs)))"

section \<open>DELETE\<close>

text \<open>The single-column references to a table, with what they do on deletion.\<close>

fun fk_action :: "string \<Rightarrow> string \<Rightarrow> table_constraint \<Rightarrow> (string \<times> string \<times> string \<times> string) list" where
  "fk_action tbl child (ForeignKey nm [c] ref [r] del upd) =
     (if ref = tbl then [(child, c, r, case del of None \<Rightarrow> ''RESTRICT'' | Some d \<Rightarrow> d)] else [])"
| "fk_action tbl child _ = []"

definition fk_actions :: "string \<Rightarrow> catalog \<Rightarrow> (string \<times> string \<times> string \<times> string) list" where
  "fk_actions tbl c =
     concat (map (\<lambda>(child, m). concat (map (fk_action tbl child) (tm_constraints m))) (cat_tables c))"

definition first_column_literals :: "record_batch list \<Rightarrow> string list" where
  "first_column_literals bs =
     concat (map (\<lambda>b. if rb_fields b = [] then [] else map (\<lambda>row. array_value_to_sql_literal (cell_at row 0)) (rb_rows b)) bs)"

definition set_null_columns :: "string \<Rightarrow> string \<Rightarrow> table_meta \<Rightarrow> string" where
  "set_null_columns col keys m =
     join '', '' (map (\<lambda>c. if cd_name c = col
       then ''CASE WHEN '' @ ident col @ '' IN ('' @ keys @ '') THEN NULL ELSE '' @ ident col @ '' END AS '' @ ident col
       else ident (cd_name c)) (tm_columns m))"

definition apply_fk_action ::
  "'s world \<Rightarrow> string \<Rightarrow> string \<Rightarrow> string \<Rightarrow> string \<Rightarrow> string \<Rightarrow> (unit, 's) action"
where
  "apply_fk_action W tbl child col keys on_delete =
     (if to_uppercase on_delete = ''CASCADE''
      then andThen (rewrite_from W child (''SELECT * FROM '' @ ident child @ '' WHERE NOT ('' @ ident col @ '' IN ('' @ keys @ ''))''))
             (\<lambda>_. ok ())
      else if to_uppercase on_delete = ''SET NULL''
      then andThen (the_table child) (\<lambda>m.
           andThen (rewrite_from W child (''SELECT '' @ set_null_columns col keys m @ '' FROM '' @ ident child))
             (\<lambda>_. ok ()))
      else fail (''FOREIGN KEY RESTRICT violation on '' @ in_quotes tbl @ '' referenced by '' @ in_quotes child))"

definition check_fk_action ::
  "'s world \<Rightarrow> string \<Rightarrow> string \<Rightarrow> string \<times> string \<times> string \<times> string \<Rightarrow> (unit, 's) action"
where
  "check_fk_action W tbl cond = (\<lambda>(child, col, ref_col, on_delete).
     andThen (run_query W (''SELECT DISTINCT '' @ ident ref_col @ '' FROM '' @ ident tbl @ '' WHERE ('' @ cond @
       '') AND '' @ ident ref_col @ '' IS NOT NULL'')) (\<lambda>bs.
     let keys = join '', '' (first_column_literals bs) in
     if first_column_literals bs = [] then ok ()
     else andThen (run_query W (''SELECT COUNT(*) AS c FROM '' @ ident child @ '' WHERE '' @ ident col @ '' IN ('' @ keys @ '')''))
            (\<lambda>refs. if scalar_count refs \<le> 0 then ok () else apply_fk_action W tbl child col keys on_delete)))"

text \<open>The number of deleted rows is a subtraction of machine words.\<close>

definition rows_deleted :: "int \<Rightarrow> nat \<Rightarrow> nat" where
  "rows_deleted old new = nat ((old - int new) mod 2 ^ 64)"

definition delete_sql :: "string \<Rightarrow> string option \<Rightarrow> string" where
  "delete_sql tbl sel =
     ''SELECT * FROM '' @ ident tbl @ '' '' @ (case sel of Some x \<Rightarrow> ''WHERE NOT ('' @ x @ '')'' | None \<Rightarrow> ''WHERE FALSE'')"

definition delete_rows :: "'s world \<Rightarrow> string \<Rightarrow> delete_ast \<Rightarrow> string \<Rightarrow> (query_result, 's) action" where
  "delete_rows W sql d tbl =
     andThen (the_table tbl) (\<lambda>_.
     andThen (log_sql W (dl_text d)) (\<lambda>_.
     andThen (backup_table_for_txn W tbl) (\<lambda>_.
     andThen (asks (\<lambda>e. fk_actions tbl (en_catalog e))) (\<lambda>fks.
     andThen (each (check_fk_action W tbl (case dl_selection d of None \<Rightarrow> ''TRUE'' | Some x \<Rightarrow> x)) fks) (\<lambda>_.
     andThen (run_query W (count_sql tbl)) (\<lambda>counts.
     andThen (returning_query W (extract_returning_clause sql) (\<lambda>ret. ''SELECT '' @ ret @ '' FROM '' @ ident tbl @ '' '' @
       (case dl_selection d of Some x \<Rightarrow> ''WHERE '' @ x | None \<Rightarrow> []))) (\<lambda>out.
     andThen (rewrite_from W tbl (delete_sql tbl (dl_selection d))) (\<lambda>surviving.
     let n = rows_deleted (scalar_count counts) (total_rows surviving) in
     andThen (clear_deletion_vectors tbl) (\<lambda>_.
     andThen (record_cdc W tbl ''DELETE'' n) (\<lambda>_.
     ok (case out of Some bs \<Rightarrow> Records bs | None \<Rightarrow> Message (show_nat n @ '' row(s) deleted.''))))))))))))"

definition handle_delete :: "'s world \<Rightarrow> 's executor \<Rightarrow> string \<Rightarrow> delete_ast \<Rightarrow> (query_result, 's) run" where
  "handle_delete W exec sql d =
     (case dl_from d of
        None \<Rightarrow> runs (fail ''DELETE requires a FROM clause'')
      | Some tbl \<Rightarrow>
          andRun (run_triggers exec tbl ''DELETE'' ''BEFORE'') (\<lambda>_.
          andRun (runs (delete_rows W sql d tbl)) (\<lambda>q.
          andRun (run_triggers exec tbl ''DELETE'' ''AFTER'') (\<lambda>_.
          runs (ok q)))))"

section \<open>UPDATE\<close>

fun target_name :: "assignment_target \<Rightarrow> string" where
  "target_name (ColumnTarget nm) = nm"
| "target_name (TupleTarget nms) = (if nms = [] then [] else last nms)"

definition assigned :: "assignment list \<Rightarrow> string \<Rightarrow> string option" where
  "assigned as col =
     map_option as_value (find (\<lambda>a. trim_matches dquote (target_name (as_target a)) = col) as)"

definition update_column :: "assignment list \<Rightarrow> string \<Rightarrow> column_def \<Rightarrow> string" where
  "update_column as cond c =
     (case assigned as (cd_name c) of
        Some v \<Rightarrow> ''CASE WHEN ('' @ cond @ '') THEN CAST(('' @ v @ '') AS '' @ cd_type c @ '') ELSE '' @ ident (cd_name c) @
                  '' END AS '' @ ident (cd_name c)
      | None \<Rightarrow> ident (cd_name c))"

definition update_sql :: "table_meta \<Rightarrow> string \<Rightarrow> assignment list \<Rightarrow> string \<Rightarrow> string" where
  "update_sql m tbl as cond =
     ''SELECT '' @ join '', '' (map (update_column as cond) (tm_columns m)) @ '' FROM '' @ ident tbl"

text \<open>The constraints are checked when the table has been rewritten.\<close>

definition validate_table :: "'s world \<Rightarrow> string \<Rightarrow> (unit, 's) action" where
  "validate_table W tbl =
     andThen (checked (validate_table_constraints W tbl)) (\<lambda>_. checked (validate_check_constraints W tbl))"

definition update_rows ::
  "'s world \<Rightarrow> string \<Rightarrow> string \<Rightarrow> assignment list \<Rightarrow> string option \<Rightarrow> (query_result, 's) action"
where
  "update_rows W sql tbl as sel =
     (let cond = (case sel of None \<Rightarrow> ''TRUE'' | Some x \<Rightarrow> x) in
      andThen (the_table tbl) (\<lambda>m.
      andThen (log_sql W sql) (\<lambda>_.
      andThen (backup_table_for_txn W tbl) (\<lambda>_.
      andThen (run_query W (count_sql tbl @ '' WHERE '' @ cond)) (\<lambda>counts.
      andThen (rewrite_from W tbl (update_sql m tbl as cond)) (\<lambda>_.
      andThen (clear_deletion_vectors tbl) (\<lambda>_.
      andThen (validate_table W tbl) (\<lambda>_.
      andThen (record_cdc W tbl ''UPDATE'' (i64_as_u64 (scalar_count counts))) (\<lambda>_.
      andThen (returning_query W (extract_returning_clause sql)
        (\<lambda>ret. ''SELECT '' @ ret @ '' FROM '' @ ident tbl @ '' WHERE '' @ cond)) (\<lambda>out.
      ok (case out of Some bs \<Rightarrow> Records bs
          | None \<Rightarrow> Message (show_int (scalar_count counts) @ '' row(s) updated.''))))))))))))"

text \<open>Only the triggers before an UPDATE are run.\<close>

definition handle_update ::
  "'s world \<Rightarrow> 's executor \<Rightarrow> string \<Rightarrow> string \<Rightarrow> assignment list \<Rightarrow> string option \<Rightarrow> (query_result, 's) run"
where
  "handle_update W exec sql tbl as sel =
     andRun (run_triggers exec tbl ''UPDATE'' ''BEFORE'') (\<lambda>_. runs (update_rows W sql tbl as sel))"

section \<open>INSERT\<close>

definition insert_columns :: "insert_ast \<Rightarrow> table_meta \<Rightarrow> string list" where
  "insert_columns i m = (if is_columns i = [] then map cd_name (tm_columns m) else is_columns i)"

fun is_foreign_key :: "table_constraint \<Rightarrow> bool" where
  "is_foreign_key (ForeignKey _ _ _ _ _ _) = True"
| "is_foreign_key _ = False"

text \<open>What makes an INSERT write at once instead of buffering.\<close>

definition requires_immediate :: "string \<Rightarrow> table_meta \<Rightarrow> engine \<Rightarrow> bool" where
  "requires_immediate sql m e \<longleftrightarrow>
     en_replaying e \<or> extract_returning_clause sql \<noteq> None \<or> list_ex is_foreign_key (tm_constraints m)"

text \<open>
  The full-text indexes of the table get the new rows, numbered from the count of the rows
  that were there. A column that the statement does not fill counts as an empty text.
\<close>

definition inserted_text :: "string list \<Rightarrow> string list \<Rightarrow> cell list \<Rightarrow> string" where
  "inserted_text target cols row =
     join '' '' (map (\<lambda>c. case column_position target c of
         None \<Rightarrow> [] | Some i \<Rightarrow> array_value_to_string (cell_at row i)) cols)"

definition index_rows :: "string \<Rightarrow> string list \<Rightarrow> string list \<Rightarrow> record_batch list \<Rightarrow> nat \<Rightarrow> inverted_index \<Rightarrow> inverted_index" where
  "index_rows tbl target cols bs start idx =
     fold (\<lambda>(i, row). add_document tbl i (inserted_text target cols row))
       (zip [start..<start + length (batch_rows bs)] (batch_rows bs)) idx"

definition index_inserted :: "string \<Rightarrow> string list \<Rightarrow> record_batch list \<Rightarrow> nat \<Rightarrow> engine \<Rightarrow> engine" where
  "index_inserted tbl target bs start e =
     e\<lparr>en_inverted := fold (\<lambda>(nm, d) inv. if ft_table d = tbl
          then hm_modify nm (index_rows tbl target (ft_columns d) bs start) inv else inv)
        (en_fulltext e) (en_inverted e)\<rparr>"

definition update_fulltext :: "'s world \<Rightarrow> string \<Rightarrow> string list \<Rightarrow> record_batch list \<Rightarrow> (unit, 's) action" where
  "update_fulltext W tbl target bs e s =
     (if \<not> list_ex (\<lambda>d. ft_table d = tbl) (hm_values (en_fulltext e)) then (Inr (), e, s)
      else case collect_with_plan_cache W (''SELECT COUNT(*) FROM '' @ ident tbl) e s of
             (r, e1, s1) \<Rightarrow>
               let start = (case r of
                     Inr (b # _) \<Rightarrow> (case rb_rows b of
                         (CInt n # _) # _ \<Rightarrow> i64_as_u64 n - total_rows bs | _ \<Rightarrow> 0)
                   | _ \<Rightarrow> 0)
               in (Inr (), index_inserted tbl target bs start e1, s1))"

definition insert_batches :: "'s world \<Rightarrow> string \<Rightarrow> string list \<Rightarrow> record_batch list \<Rightarrow> (unit, 's) action" where
  "insert_batches W tbl target bs =
     (if total_rows bs = 0 then ok ()
      else andThen (asks (\<lambda>e. fst (next_temp_table_name ''ins'' e))) (\<lambda>tmp.
           andThen (change (\<lambda>e. snd (next_temp_table_name ''ins'' e))) (\<lambda>_.
           andThen (outside (w_register W tmp bs)) (\<lambda>_.
           andThen (run_query W (''INSERT INTO '' @ ident tbl @ '' ('' @ idents target @ '') SELECT * FROM '' @ ident tmp)) (\<lambda>_.
           andThen (attempt (outside (w_deregister W tmp))) (\<lambda>_.
           update_fulltext W tbl target bs))))))"

text \<open>The path of an INSERT that writes at once, up to the log of changes.\<close>

definition insert_now :: "'s world \<Rightarrow> string \<Rightarrow> string \<Rightarrow> string list \<Rightarrow> record_batch list \<Rightarrow> (unit, 's) action" where
  "insert_now W sql tbl target bs =
     andThen (log_sql W sql) (\<lambda>_.
     andThen (validated W tbl target bs BeforeInsert) (\<lambda>ms.
     andThen (insert_batches W tbl target bs) (\<lambda>_.
     andThen (validated W tbl target bs AfterInsert) (\<lambda>_.
     andThen (change (if total_rows bs > 0 then apply_merges ms else id)) (\<lambda>_.
     andThen (change (maybe_auto_analyze tbl (total_rows bs))) (\<lambda>_.
     andThen (refresh_table_file_stats_light W tbl) (\<lambda>_.
     record_cdc W tbl ''INSERT'' (total_rows bs))))))))"

text \<open>The path of an INSERT that buffers; without an Arrow log the statement is logged.\<close>

definition insert_buffered ::
  "'s world \<Rightarrow> string \<Rightarrow> insert_ast \<Rightarrow> string list \<Rightarrow> record_batch list \<Rightarrow> (nat \<times> bool, 's) action"
where
  "insert_buffered W sql i target bs =
     andThen (asks en_arrow_wal) (\<lambda>aw.
     andThen (if aw = None then log_sql W sql else ok ()) (\<lambda>_.
     andThen (\<lambda>e s. (validate_not_null_positional e (is_table i) target bs, e, s)) (\<lambda>_.
     andThen (buffer_insert_batches W (is_table i) (if is_columns i = [] then None else Some target) bs) (\<lambda>(rows, flushed).
     andThen (record_cdc W (is_table i) ''INSERT'' rows) (\<lambda>_.
     ok (rows, flushed))))))"

definition buffered_message :: "string \<Rightarrow> nat \<times> bool \<Rightarrow> query_result" where
  "buffered_message tbl = (\<lambda>(rows, flushed).
     Message (if flushed then show_nat rows @ '' row(s) inserted into '' @ in_quotes tbl @ '' (buffer flushed).''
              else show_nat rows @ '' row(s) buffered for '' @ in_quotes tbl @ ''.''))"

text \<open>The table, the columns to fill and the rows of the source.\<close>

definition insert_source :: "'s world \<Rightarrow> insert_ast \<Rightarrow> (table_meta \<times> record_batch list, 's) action" where
  "insert_source W i =
     andThen (the_table (is_table i)) (\<lambda>m.
     case is_source i of
       None \<Rightarrow> fail ''INSERT requires a source query''
     | Some src \<Rightarrow> andThen (run_query W src) (\<lambda>bs. ok (m, bs)))"

definition insert_rows :: "'s world \<Rightarrow> 's executor \<Rightarrow> string \<Rightarrow> insert_ast \<Rightarrow> (query_result, 's) run" where
  "insert_rows W exec sql i =
     (let tbl = is_table i; after = run_triggers exec tbl ''INSERT'' ''AFTER'' in
      andRun (run_triggers exec tbl ''INSERT'' ''BEFORE'') (\<lambda>_.
      andRun (runs (insert_source W i)) (\<lambda>(m, bs).
      andRun (runs (asks (requires_immediate sql m))) (\<lambda>now.
      if now
      then andRun (runs (insert_now W sql tbl (insert_columns i m) bs)) (\<lambda>_.
           andRun after (\<lambda>_.
           andRun (runs (returning_query W (extract_returning_clause sql) (\<lambda>ret. ''SELECT '' @ ret @ '' FROM '' @ ident tbl))) (\<lambda>out.
           runs (ok (Records (case out of Some rs \<Rightarrow> rs | None \<Rightarrow> []))))))
      else andRun (runs (insert_buffered W sql i (insert_columns i m) bs)) (\<lambda>q.
           andRun after (\<lambda>_.
           runs (ok (buffered_message tbl q))))))))"

end
