(* ===== verification/Dml_Bulk.thy ===== *)
theory Dml_Bulk
  imports Dml
begin

text \<open>
  INSERT ... ON CONFLICT, MERGE and COPY (\<^verbatim>\<open>crates/engine/src/lib.rs\<close>): the handlers that build
  one statement for DataFusion out of many rows.
\<close>

section \<open>ON CONFLICT\<close>

fun constraint_columns :: "string \<Rightarrow> table_constraint \<Rightarrow> string list option" where
  "constraint_columns nm (Unique n cols) = (if n = nm then Some cols else None)"
| "constraint_columns nm (PrimaryKey cols) =
     (if eq_ignore_case nm ''primary'' \<or> eq_ignore_case nm ''primary_key'' then Some cols else None)"
| "constraint_columns nm _ = None"

fun key_columns :: "table_constraint \<Rightarrow> string list option" where
  "key_columns (PrimaryKey cols) = Some cols"
| "key_columns (Unique _ cols) = Some cols"
| "key_columns _ = None"

definition resolve_conflict_columns :: "table_meta \<Rightarrow> on_conflict \<Rightarrow> (string, string list) result" where
  "resolve_conflict_columns m oc =
     (case oc_target oc of
        Some (ConflictColumns cols) \<Rightarrow> Inr cols
      | Some (OnConstraint txt) \<Rightarrow>
          let nm = trim_matches dquote txt in
          (case List.map_filter (constraint_columns nm) (tm_constraints m) of
             [] \<Rightarrow> Inl (''Unknown ON CONFLICT constraint target: '' @ nm)
           | cols # _ \<Rightarrow> Inr cols)
      | None \<Rightarrow> Inr (case List.map_filter key_columns (tm_constraints m) of [] \<Rightarrow> [] | cols # _ \<Rightarrow> cols))"

text \<open>A row of the source as literals, with the literals of the conflict columns.\<close>

record upsert_row =
  ur_values :: "(string, string) hashmap"
  ur_literals :: "string list"
  ur_conflict :: "string list"

definition upsert_row_of :: "string list \<Rightarrow> string list \<Rightarrow> cell list \<Rightarrow> upsert_row" where
  "upsert_row_of target conflict row =
     (let lits = map (\<lambda>i. array_value_to_sql_literal (cell_at row i)) [0..<length target];
          values = fold (\<lambda>(c, v). hm_insert c v) (zip target lits) []
      in \<lparr>ur_values = values, ur_literals = lits,
          ur_conflict = map (\<lambda>c. case hm_get values c of None \<Rightarrow> ''NULL'' | Some v \<Rightarrow> v) conflict\<rparr>)"

definition conflict_key :: "upsert_row \<Rightarrow> string" where
  "conflict_key r = join us (ur_conflict r)"

definition conflict_predicate :: "string list \<Rightarrow> upsert_row \<Rightarrow> string" where
  "conflict_predicate conflict r =
     join '' AND '' (map (\<lambda>(c, v). ident c @ '' = '' @ v) (zip conflict (ur_conflict r)))"

text \<open>One predicate for each key, in the order of the rows.\<close>

fun first_of_keys :: "string list \<Rightarrow> upsert_row list \<Rightarrow> upsert_row list" where
  "first_of_keys seen [] = []"
| "first_of_keys seen (r # rs) =
     (if conflict_key r \<in> set seen then first_of_keys seen rs
      else r # first_of_keys (conflict_key r # seen) rs)"

definition conflict_sql :: "string \<Rightarrow> string list \<Rightarrow> upsert_row list \<Rightarrow> string" where
  "conflict_sql tbl conflict rows =
     ''SELECT * FROM '' @ ident tbl @ '' WHERE '' @
     join '' OR '' (map (\<lambda>r. ''('' @ conflict_predicate conflict r @ '')'') (first_of_keys [] rows))"

definition existing_keys :: "string list \<Rightarrow> record_batch list \<Rightarrow> string list" where
  "existing_keys conflict bs =
     concat (map (\<lambda>b. map (\<lambda>row. join us (map (\<lambda>c. case column_position (rb_fields b) c of
         None \<Rightarrow> ''NULL'' | Some i \<Rightarrow> array_value_to_sql_literal (cell_at row i)) conflict)) (rb_rows b)) bs)"

definition values_sql :: "string \<Rightarrow> string list \<Rightarrow> upsert_row list \<Rightarrow> string" where
  "values_sql tbl target rows =
     ''INSERT INTO '' @ ident tbl @ '' ('' @ idents target @ '') VALUES '' @
     join '', '' (map (\<lambda>r. ''('' @ join '', '' (ur_literals r) @ '')'') rows)"

text \<open>The values of the refused row are put in for \<^verbatim>\<open>EXCLUDED.c\<close>, one column after the other.\<close>

definition put_excluded :: "upsert_row \<Rightarrow> string \<Rightarrow> string" where
  "put_excluded r txt =
     fold (\<lambda>(k, v) t. replace_str (''excluded.'' @ k) v (replace_str (''EXCLUDED.'' @ k) v t)) (ur_values r) txt"

definition assignment_map :: "assignment list \<Rightarrow> (string, string) hashmap" where
  "assignment_map as =
     fold (\<lambda>a. hm_insert (trim_matches dquote (target_name (as_target a))) (as_value a)) as []"

definition when_clause :: "string list \<Rightarrow> string option \<Rightarrow> string \<Rightarrow> upsert_row \<Rightarrow> string" where
  "when_clause conflict sel expr r =
     (let cond = (case sel of
            None \<Rightarrow> conflict_predicate conflict r
          | Some x \<Rightarrow> ''('' @ conflict_predicate conflict r @ '') AND ('' @ put_excluded r x @ '')'')
      in ''WHEN ('' @ cond @ '') THEN ('' @ put_excluded r expr @ '')'')"

definition upsert_column ::
  "string list \<Rightarrow> assignment list \<Rightarrow> string option \<Rightarrow> upsert_row list \<Rightarrow> column_def \<Rightarrow> string"
where
  "upsert_column conflict as sel rows c =
     (case hm_get (assignment_map as) (cd_name c) of
        None \<Rightarrow> ident (cd_name c)
      | Some expr \<Rightarrow>
          if rows = [] then ident (cd_name c)
          else ''CASE '' @ join '' '' (map (when_clause conflict sel expr) rows) @ '' ELSE '' @ ident (cd_name c) @
               '' END AS '' @ ident (cd_name c))"

text \<open>The updates: the numbers of updated and of skipped rows.\<close>

definition upsert_updates ::
  "'s world \<Rightarrow> string \<Rightarrow> table_meta \<Rightarrow> string list \<Rightarrow> conflict_action \<Rightarrow> upsert_row list \<Rightarrow> (nat \<times> nat, 's) action"
where
  "upsert_updates W tbl m conflict act rows =
     (case act of
        DoNothing \<Rightarrow> ok (0, length rows)
      | DoUpdate as sel \<Rightarrow>
          if rows = [] then ok (0, 0)
          else andThen (rewrite_from W tbl (''SELECT '' @
                 join '', '' (map (upsert_column conflict as sel rows) (tm_columns m)) @ '' FROM '' @ ident tbl)) (\<lambda>_.
               ok (length rows, 0)))"

definition upsert_inserts :: "'s world \<Rightarrow> string \<Rightarrow> string list \<Rightarrow> upsert_row list \<Rightarrow> (nat, 's) action" where
  "upsert_inserts W tbl target rows =
     (if rows = [] then ok 0
      else andThen (run_query W (values_sql tbl target rows)) (\<lambda>_. ok (length rows)))"

definition upsert_message :: "nat \<Rightarrow> nat \<Rightarrow> nat \<Rightarrow> query_result" where
  "upsert_message inserted updated skipped =
     Message (''UPSERT complete: '' @ show_nat inserted @ '' inserted, '' @ show_nat updated @ '' updated, '' @
       show_nat skipped @ '' skipped.'')"

definition upsert_rows ::
  "'s world \<Rightarrow> string \<Rightarrow> table_meta \<Rightarrow> string list \<Rightarrow> string list \<Rightarrow> conflict_action \<Rightarrow> upsert_row list \<Rightarrow>
     (query_result, 's) action"
where
  "upsert_rows W tbl m conflict target act rows =
     andThen (run_query W (conflict_sql tbl conflict rows)) (\<lambda>found.
     let old = existing_keys conflict found in
     andThen (upsert_inserts W tbl target (filter (\<lambda>r. conflict_key r \<notin> set old) rows)) (\<lambda>inserted.
     andThen (upsert_updates W tbl m conflict act (filter (\<lambda>r. conflict_key r \<in> set old) rows)) (\<lambda>(updated, skipped).
     andThen (checked (validate_not_null_table W tbl)) (\<lambda>_.
     andThen (validate_table W tbl) (\<lambda>_.
     andThen (change (maybe_auto_analyze tbl (u64_saturating_add inserted updated))) (\<lambda>_.
     andThen (refresh_table_file_stats_light W tbl) (\<lambda>_.
     andThen (record_cdc W tbl ''UPSERT'' (u64_saturating_add inserted updated)) (\<lambda>_.
     ok (upsert_message inserted updated skipped)))))))))"

definition upsert_source ::
  "'s world \<Rightarrow> insert_ast \<Rightarrow> string list \<Rightarrow> string list \<Rightarrow> (upsert_row list, 's) action"
where
  "upsert_source W i target conflict =
     (case is_source i of
        None \<Rightarrow> fail ''UPSERT requires an INSERT source''
      | Some src \<Rightarrow>
          andThen (run_query W src) (\<lambda>bs.
          andThen (log_sql W (is_text i)) (\<lambda>_.
          if list_ex (\<lambda>row. length row < length target) (batch_rows bs) then fail panic
          else ok (map (upsert_row_of target conflict) (batch_rows bs)))))"

definition handle_upsert :: "'s world \<Rightarrow> insert_ast \<Rightarrow> on_conflict \<Rightarrow> (query_result, 's) action" where
  "handle_upsert W i oc =
     (let tbl = is_table i in
      andThen (flush_table W tbl) (\<lambda>_.
      andThen (the_table tbl) (\<lambda>m.
      case resolve_conflict_columns m oc of
        Inl err \<Rightarrow> fail err
      | Inr conflict \<Rightarrow>
          if conflict = [] then fail ''ON CONFLICT requires a conflict target''
          else andThen (upsert_source W i (insert_columns i m) conflict) (\<lambda>rows.
               if rows = [] then ok (upsert_message 0 0 0)
               else upsert_rows W tbl m conflict (insert_columns i m) (oc_action oc) rows))))"

definition handle_insert :: "'s world \<Rightarrow> 's executor \<Rightarrow> string \<Rightarrow> insert_ast \<Rightarrow> (query_result, 's) run" where
  "handle_insert W exec sql i =
     (case is_on i of
        Some (OnConflict oc) \<Rightarrow> runs (handle_upsert W i oc)
      | _ \<Rightarrow> insert_rows W exec sql i)"

section \<open>MERGE\<close>

text \<open>The names of the target and the source in expressions, replaced as text.\<close>

record merge_names =
  mn_target :: string
  mn_target_alias :: "string option"
  mn_source_alias :: "string option"
  mn_source_table :: "string option"

definition merge_rewrite :: "merge_names \<Rightarrow> string \<Rightarrow> string" where
  "merge_rewrite n txt =
     (let r = (case mn_target_alias n of
            Some a \<Rightarrow> replace_str (a @ ''.'') (ident (mn_target n) @ ''.'') txt | None \<Rightarrow> txt)
      in case mn_source_alias n of
           Some a \<Rightarrow> replace_str (a @ ''.'') (ident ''__merge_src'' @ ''.'') r
         | None \<Rightarrow> (case mn_source_table n of
               Some sn \<Rightarrow> replace_str (sn @ ''.'') (ident ''__merge_src'' @ ''.'') r | None \<Rightarrow> r))"

fun merge_source :: "table_factor \<Rightarrow> (string, string \<times> string option \<times> string option) result" where
  "merge_source (DerivedFactor txt alias) = Inr (txt, alias, None)"
| "merge_source (TableFactor nm alias) = Inr (''SELECT * FROM '' @ nm, alias, Some (trim_matches dquote nm))"
| "merge_source (OtherFactor _) = Inl ''Unsupported MERGE source type''"

definition merge_updates :: "merge_names \<Rightarrow> assignment list \<Rightarrow> (string, string) hashmap" where
  "merge_updates n as =
     fold (\<lambda>a. hm_insert (trim_matches dquote (as_target_text a)) (merge_rewrite n (as_value a))) as []"

definition merge_column :: "string \<Rightarrow> (string, string) hashmap \<Rightarrow> column_def \<Rightarrow> string" where
  "merge_column tbl updates c =
     (let col = ident tbl @ ''.'' @ ident (cd_name c) in
      case hm_get updates (cd_name c) of
        Some v \<Rightarrow> ''CASE WHEN '' @ ident ''__merge_src_match'' @ '' IS NOT NULL THEN CAST('' @ v @ '' AS '' @ cd_type c @
                  '') ELSE '' @ col @ '' END AS '' @ ident (cd_name c)
      | None \<Rightarrow> col)"

definition merge_count_sql :: "string \<Rightarrow> string \<Rightarrow> string \<Rightarrow> string" where
  "merge_count_sql tbl on_str pred =
     ''SELECT COUNT(*) AS c FROM '' @ ident tbl @ '' INNER JOIN '' @ ident ''__merge_src'' @ '' ON ('' @ on_str @ '')'' @ pred"

definition merge_update_sql :: "string \<Rightarrow> table_meta \<Rightarrow> (string, string) hashmap \<Rightarrow> string \<Rightarrow> string \<Rightarrow> string" where
  "merge_update_sql tbl m updates on_str pred =
     ''SELECT '' @ join '', '' (map (merge_column tbl updates) (tm_columns m)) @ '' FROM '' @ ident tbl @
     '' LEFT JOIN (SELECT *, TRUE AS '' @ ident ''__merge_src_match'' @ '' FROM '' @ ident ''__merge_src'' @ '') AS '' @
     ident ''__merge_src'' @ '' ON ('' @ on_str @ '')'' @ pred"

definition merge_delete_sql :: "string \<Rightarrow> string \<Rightarrow> string \<Rightarrow> string" where
  "merge_delete_sql tbl on_str pred =
     ''SELECT '' @ ident tbl @ ''.* FROM '' @ ident tbl @ '' WHERE NOT EXISTS (SELECT 1 FROM '' @ ident ''__merge_src'' @
     '' WHERE ('' @ on_str @ '')'' @ pred @ '')''"

definition merge_insert_sql ::
  "merge_names \<Rightarrow> string list \<Rightarrow> string list list option \<Rightarrow> string \<Rightarrow> string \<Rightarrow> string"
where
  "merge_insert_sql n cols values on_str pred =
     ''INSERT INTO '' @ ident (mn_target n) @ (if cols = [] then [] else '' ('' @ join '', '' cols @ '')'') @
     '' SELECT '' @ (case values of
         Some (row # _) \<Rightarrow> join '', '' (map (merge_rewrite n) row) | _ \<Rightarrow> ''*'') @
     '' FROM '' @ ident ''__merge_src'' @ '' WHERE NOT EXISTS (SELECT 1 FROM '' @ ident (mn_target n) @
     '' WHERE ('' @ on_str @ ''))'' @ pred"

text \<open>The first value of the first batch that has an integer column first.\<close>

fun first_count :: "record_batch list \<Rightarrow> int" where
  "first_count [] = 0"
| "first_count (b # bs) =
     (case rb_rows b of (CInt n # _) # _ \<Rightarrow> n | _ \<Rightarrow> first_count bs)"

text \<open>A clause changes the table and the two counters.\<close>

definition merge_clause_step ::
  "'s world \<Rightarrow> merge_names \<Rightarrow> table_meta \<Rightarrow> string \<Rightarrow> merge_clause \<Rightarrow> int \<times> int \<Rightarrow> (int \<times> int, 's) action"
where
  "merge_clause_step W n m on_str cl = (\<lambda>(updated, inserted).
     let tbl = mn_target n;
         pred = (case mc_predicate cl of None \<Rightarrow> [] | Some p \<Rightarrow> '' AND ('' @ merge_rewrite n p @ '')'')
     in case (mc_kind cl, mc_action cl) of
          (Matched, MergeUpdate as) \<Rightarrow>
            andThen (run_query W (merge_count_sql tbl on_str pred)) (\<lambda>counts.
            andThen (if first_count counts > 0
                     then rewrite_from W tbl (merge_update_sql tbl m (merge_updates n as) on_str pred) else ok []) (\<lambda>_.
            ok (first_count counts, inserted)))
        | (Matched, MergeDelete) \<Rightarrow>
            andThen (rewrite_from W tbl (merge_delete_sql tbl on_str pred)) (\<lambda>_. ok (updated, inserted))
        | (k, MergeInsert cols values) \<Rightarrow>
            if k = NotMatched \<or> k = NotMatchedByTarget
            then andThen (run_query W (merge_insert_sql n cols values on_str pred)) (\<lambda>out.
                 andThen (refresh_table_file_stats_light W tbl) (\<lambda>_. ok (updated, first_count out)))
            else ok (updated, inserted)
        | _ \<Rightarrow> ok (updated, inserted))"

fun merge_clauses ::
  "'s world \<Rightarrow> merge_names \<Rightarrow> table_meta \<Rightarrow> string \<Rightarrow> merge_clause list \<Rightarrow> int \<times> int \<Rightarrow> (int \<times> int, 's) action"
where
  "merge_clauses W n m on_str [] acc = ok acc"
| "merge_clauses W n m on_str (cl # cls) acc =
     andThen (merge_clause_step W n m on_str cl acc) (merge_clauses W n m on_str cls)"

definition merge_message :: "int \<times> int \<Rightarrow> query_result" where
  "merge_message = (\<lambda>(updated, inserted).
     Message (show_int updated @ '' row(s) updated, '' @ show_int inserted @ '' row(s) inserted.''))"

text \<open>The clauses run over the source registered as a table, which goes away whatever happens.\<close>

definition merge_over_source ::
  "'s world \<Rightarrow> merge_names \<Rightarrow> table_meta \<Rightarrow> string \<Rightarrow> merge_clause list \<Rightarrow> (query_result, 's) action"
where
  "merge_over_source W n m on_str cls e s =
     (case merge_clauses W n m on_str cls (0, 0) e s of
        (r, e1, s1) \<Rightarrow>
          (case attempt (outside (w_deregister W ''__merge_src'')) e1 s1 of
             (_, e2, s2) \<Rightarrow>
               (case r of
                  Inl err \<Rightarrow> (Inl err, e2, s2)
                | Inr (updated, inserted) \<Rightarrow>
                    andThen (record_cdc W (mn_target n) ''MERGE'' (i64_as_u64 (updated + inserted)))
                      (\<lambda>_. ok (merge_message (updated, inserted))) e2 s2)))"

definition handle_merge ::
  "'s world \<Rightarrow> table_factor \<Rightarrow> table_factor \<Rightarrow> string \<Rightarrow> merge_clause list \<Rightarrow> (query_result, 's) action"
where
  "handle_merge W target source on_expr cls =
     (case target of
        TableFactor nm alias \<Rightarrow>
          let tbl = trim_matches dquote nm in
          andThen (the_table tbl) (\<lambda>m.
          andThen (flush_all W) (\<lambda>_.
          case merge_source source of
            Inl err \<Rightarrow> fail err
          | Inr (source_sql, source_alias, source_table) \<Rightarrow>
              let n = \<lparr>mn_target = tbl, mn_target_alias = alias, mn_source_alias = source_alias,
                       mn_source_table = source_table\<rparr> in
              andThen (run_query W source_sql) (\<lambda>bs.
              if \<not> has_rows bs then ok (merge_message (0, 0))
              else andThen (outside (w_register W ''__merge_src'' bs)) (\<lambda>_.
                   merge_over_source W n m (merge_rewrite n on_expr) cls))))
      | _ \<Rightarrow> fail ''MERGE target must be a table'')"

section \<open>COPY\<close>

definition has_extension :: "string \<Rightarrow> string \<Rightarrow> bool" where
  "has_extension path ext \<longleftrightarrow>
     (case file_extension path of None \<Rightarrow> False | Some x \<Rightarrow> eq_ignore_case x ext)"

definition file_format :: "string \<Rightarrow> string" where
  "file_format path =
     (if has_extension path ''parquet'' then ''parquet''
      else if has_extension path ''json'' \<or> has_extension path ''ndjson'' then ''json'' else ''csv'')"

definition copy_path :: "string \<Rightarrow> string" where
  "copy_path w = trim_matches dquote (trim_matches quote (trim_end_matches (CHR '';'') w))"

text \<open>The word after a keyword: the errors are for a missing keyword and a missing word.\<close>

definition word_after :: "string \<Rightarrow> string \<Rightarrow> string list \<Rightarrow> (string, string) result" where
  "word_after who kw tokens =
     (case dropWhile (\<lambda>t. \<not> eq_ignore_case t kw) tokens of
        [] \<Rightarrow> Inl (who @ '': missing '' @ kw @ '' keyword'')
      | [_] \<Rightarrow> Inl (who @ '': missing file path'')
      | _ # w # _ \<Rightarrow> Inr w)"

definition copy_projection :: "string list \<Rightarrow> string \<Rightarrow> string" where
  "copy_projection source c = (if c \<in> set source then ident c else ''NULL AS '' @ ident c)"

definition copy_sql :: "string \<Rightarrow> string list \<Rightarrow> string list \<Rightarrow> string" where
  "copy_sql tbl target source =
     ''INSERT INTO '' @ ident tbl @ '' ('' @ idents target @ '') SELECT '' @
     join '', '' (map (copy_projection source) target) @ '' FROM __potato_copy_tmp''"

text \<open>Loading the rows, with the numbers of target columns filled with NULL and of source columns ignored.\<close>

definition copy_rows :: "'s world \<Rightarrow> string \<Rightarrow> record_batch list \<Rightarrow> (nat \<times> nat, 's) action" where
  "copy_rows W tbl bs =
     (case bs of
        [] \<Rightarrow> ok (0, 0)
      | b # _ \<Rightarrow>
          if total_rows bs = 0 then ok (0, 0)
          else andThen (outside (w_register W ''__potato_copy_tmp'' bs)) (\<lambda>_.
               andThen (the_table tbl) (\<lambda>m.
               let target = map cd_name (tm_columns m); source = remdups (rb_fields b) in
               andThen (run_query W (copy_sql tbl target source)) (\<lambda>_.
               andThen (outside (w_deregister W ''__potato_copy_tmp'')) (\<lambda>_.
               ok (length (filter (\<lambda>c. c \<notin> set source) target), length (filter (\<lambda>c. c \<notin> set target) source)))))))"

definition copy_file :: "'s world \<Rightarrow> string \<Rightarrow> string \<Rightarrow> (query_result, 's) action" where
  "copy_file W tbl path =
     andThen (look (w_read_file W (file_format path) path)) (\<lambda>bs.
     andThen (copy_rows W tbl bs) (\<lambda>(missing_cols, ignored).
     andThen (checked (validate_not_null_table W tbl)) (\<lambda>_.
     andThen (validate_table W tbl) (\<lambda>_.
     andThen (change (maybe_auto_analyze tbl (total_rows bs))) (\<lambda>_.
     andThen (refresh_table_file_stats W tbl) (\<lambda>_.
     andThen (record_cdc W tbl ''COPY_FROM'' (total_rows bs)) (\<lambda>_.
     message (show_nat (total_rows bs) @ '' row(s) copied into '' @ in_quotes tbl @ '' from '' @ in_quotes path @ '' ('' @
       file_format path @ ''); missing target columns filled with NULL: '' @ show_nat missing_cols @
       '', source-only columns ignored: '' @ show_nat ignored @ ''.''))))))))"

definition handle_copy_from :: "'s world \<Rightarrow> string \<Rightarrow> (query_result, 's) action" where
  "handle_copy_from W sql =
     (let tokens = split_whitespace sql in
      if length tokens < 2 then fail ''COPY FROM: missing table name''
      else let tbl = trim_matches dquote (tokens ! 1) in
           andThen (the_table tbl) (\<lambda>_.
           andThen (log_sql W sql) (\<lambda>_.
           case word_after ''COPY FROM'' ''FROM'' tokens of
             Inl err \<Rightarrow> fail err
           | Inr w \<Rightarrow> copy_file W tbl (copy_path w))))"

definition handle_copy_to :: "'s world \<Rightarrow> string \<Rightarrow> (query_result, 's) action" where
  "handle_copy_to W sql =
     (let tokens = split_whitespace sql in
      if length tokens < 2 then fail ''COPY TO: missing table name''
      else let tbl = trim_matches dquote (tokens ! 1) in
           andThen (the_table tbl) (\<lambda>_.
           case word_after ''COPY TO'' ''TO'' tokens of
             Inl err \<Rightarrow> fail err
           | Inr w \<Rightarrow>
               andThen (run_query W (''SELECT * FROM '' @ ident tbl)) (\<lambda>bs.
               andThen (outside (w_write_file W (file_format (copy_path w)) (copy_path w) bs)) (\<lambda>_.
               message (show_nat (total_rows bs) @ '' row(s) copied from '' @ in_quotes tbl @ '' to '' @
                 in_quotes (copy_path w) @ ''.'')))))"

end
