(* ===== verification/Dispatch.thy ===== *)
theory Dispatch
  imports Dml_Bulk Access
begin

text \<open>
  \<^verbatim>\<open>PotatoDB::execute\<close> (\<^verbatim>\<open>crates/engine/src/lib.rs\<close>): what every statement goes through, the
  statements that are recognised by their text, the access check, the statements that are
  parsed, and the statements that execute others. The recursion of \<^verbatim>\<open>execute\<close> has a depth: a
  run that needs more depth than it is given does not return.
\<close>

section \<open>Ends of a statement\<close>

definition finish :: "'s world \<Rightarrow> string \<Rightarrow> nat \<Rightarrow> (query_result, 's) run \<Rightarrow> (query_result, 's) run" where
  "finish W sql started m e s =
     (case m e s of
        None \<Rightarrow> None
      | Some (r, e1, s1) \<Rightarrow> Some (r, finalize_query sql started (w_clock W s1) r e1, s1))"

text \<open>
  With the end of the autocommit, when asked for and the statement succeeded, and the saving of
  the catalog; an error of the save is returned at once.
\<close>

definition save_and_finish ::
  "'s world \<Rightarrow> string \<Rightarrow> nat \<Rightarrow> bool \<Rightarrow> (query_result, 's) run \<Rightarrow> (query_result, 's) run"
where
  "save_and_finish W sql started autocommit m e s =
     (case m e s of
        None \<Rightarrow> None
      | Some (r, e1, s1) \<Rightarrow>
          let e2 = (if autocommit \<and> is_ok r then wal_finish_autocommit W True (w_clock W s1) e1 else e1) in
          (case flush_catalog W e2 s1 of
             (Inl err, e3, s3) \<Rightarrow> Some (Inl err, e3, s3)
           | (Inr _, e3, s3) \<Rightarrow> Some (r, finalize_query sql started (w_clock W s3) r e3, s3)))"

text \<open>A handler that neither waits nor touches the outside.\<close>

definition pure_handler :: "(engine \<Rightarrow> (string, 'a) result \<times> engine) \<Rightarrow> ('a, 's) run" where
  "pure_handler h e s = (case h e of (r, e') \<Rightarrow> Some (r, e', s))"

definition at_time :: "'s world \<Rightarrow> (nat \<Rightarrow> ('a, 's) run) \<Rightarrow> ('a, 's) run" where
  "at_time W f e s = f (w_clock W s) e s"

section \<open>Statements that execute statements\<close>

definition handle_call_procedure :: "'s executor \<Rightarrow> string \<Rightarrow> (query_result, 's) run" where
  "handle_call_procedure exec sql =
     (case split_once is_ws (strip_statement sql) of
        None \<Rightarrow> runs (fail ''CALL requires a procedure name'')
      | Some (_, rest) \<Rightarrow>
          let nm = trim_matches dquote (trim (hd (split_char (CHR ''('') (trim rest)))) in
          andRun (runs (asks (\<lambda>e. hm_get (en_procedures e) nm))) (\<lambda>body.
          case body of
            None \<Rightarrow> runs (fail (''Procedure '' @ in_quotes nm @ '' does not exist''))
          | Some b \<Rightarrow>
              andRun (eachRun (\<lambda>st. andRun (exec st) (\<lambda>_. runs (ok ()))) (split_sql_statements b)) (\<lambda>_.
              runs (message (''CALL '' @ in_quotes nm @ '' completed.'')))))"

text \<open>The parts of a DO block: the declarations before BEGIN, and the statements up to the last END.\<close>

definition rfind_str :: "string \<Rightarrow> string \<Rightarrow> nat option" where
  "rfind_str p s = map_option (\<lambda>k. length s - k - length p) (find_str (rev p) (rev s))"

definition do_sections :: "string \<Rightarrow> string \<times> string" where
  "do_sections body =
     (case find_ci body ''BEGIN'' of
        None \<Rightarrow> ([], body)
      | Some k \<Rightarrow>
          let exec = trim (drop (k + 5) body)
          in (trim (take k body),
              case rfind_str ''END'' (to_uppercase exec) of None \<Rightarrow> exec | Some j \<Rightarrow> trim (take j exec)))"

definition var_declaration :: "string \<Rightarrow> (string \<times> string) option" where
  "var_declaration line =
     (let parts = (case find_str '':='' line of
            None \<Rightarrow> (line, ''NULL'') | Some k \<Rightarrow> (take k line, trim (drop (k + 2) line)));
          nm = to_lowercase (first_word (fst parts))
      in if nm = [] then None else Some (nm, snd parts))"

definition declared_vars :: "string \<Rightarrow> (string, string) hashmap" where
  "declared_vars declare =
     (if declare = [] then []
      else let body = (if starts_with ''DECLARE'' (to_uppercase declare)
                       then trim (drop (length ''DECLARE'') declare) else declare)
           in fold (\<lambda>(k, v). hm_insert k v)
                (List.map_filter var_declaration (filter (\<lambda>l. l \<noteq> []) (map trim (split_char (CHR '';'') body)))) [])"

text \<open>Longer names are put in first.\<close>

definition put_vars :: "(string, string) hashmap \<Rightarrow> string \<Rightarrow> string" where
  "put_vars vars st =
     fold (\<lambda>(k, v) t. substitute_plpgsql_var (replace_str (CHR ''$'' # k) v t) k v)
       (sort_key (\<lambda>(k, v). - int (length k)) vars) st"

definition do_statement :: "'s executor \<Rightarrow> string \<Rightarrow> (unit, 's) run" where
  "do_statement exec st =
     (if starts_with ''RAISE '' (to_uppercase (trim st)) then runs (ok ())
      else andRun (exec st) (\<lambda>_. runs (ok ())))"

definition handle_do_block :: "'s executor \<Rightarrow> string \<Rightarrow> (query_result, 's) run" where
  "handle_do_block exec sql =
     (case extract_dollar_quoted_body sql of
        None \<Rightarrow> runs (fail ''DO requires $$...$$ body'')
      | Some body \<Rightarrow>
          (case do_sections body of
             (declare, stmts) \<Rightarrow>
               andRun (eachRun (\<lambda>st. do_statement exec (put_vars (declared_vars declare) st)) (split_sql_statements stmts))
                 (\<lambda>_. runs (message ''DO block completed.''))))"

section \<open>MIGRATE\<close>

definition migration_target :: "string \<Rightarrow> (string, nat option) result" where
  "migration_target sql =
     (let rest = trim_end_matches (CHR '';'') (trim (drop (length ''MIGRATE'') sql)) in
      if starts_with ''TO '' (to_uppercase rest)
      then (case parse_u64 (trim (drop (length ''TO '') rest)) of
              None \<Rightarrow> Inl ''MIGRATE TO requires a valid version number'' | Some v \<Rightarrow> Inr (Some v))
      else if rest = [] then Inr None else Inl ''MIGRATE expects optional TO <version>'')"

definition pending_migrations :: "nat option \<Rightarrow> catalog \<Rightarrow> migration_record list" where
  "pending_migrations target c =
     filter (\<lambda>m. mg_version m > cat_schema_version c \<and> (case target of None \<Rightarrow> True | Some v \<Rightarrow> mg_version m \<le> v))
       (cat_migrations c)"

text \<open>The first record of the version is marked (\<^verbatim>\<open>iter_mut().find\<close>).\<close>

fun mark_applied :: "nat \<Rightarrow> int \<Rightarrow> migration_record list \<Rightarrow> migration_record list" where
  "mark_applied v now [] = []"
| "mark_applied v now (m # ms) =
     (if mg_version m = v then m\<lparr>mg_applied_at_ms := now\<rparr> # ms else m # mark_applied v now ms)"

definition migration_applied :: "nat \<Rightarrow> int \<Rightarrow> catalog \<Rightarrow> catalog" where
  "migration_applied v now c =
     c\<lparr>cat_migrations := mark_applied v now (cat_migrations c), cat_schema_version := v\<rparr>"

definition migrate_one :: "'s world \<Rightarrow> 's executor \<Rightarrow> migration_record \<Rightarrow> (unit, 's) run" where
  "migrate_one W exec m =
     andRun (exec (mg_sql m)) (\<lambda>_.
     runs (\<lambda>e s. change_catalog (migration_applied (mg_version m) (w_utc_ms W s)) e s))"

definition handle_migrate :: "'s world \<Rightarrow> 's executor \<Rightarrow> string \<Rightarrow> (query_result, 's) run" where
  "handle_migrate W exec sql =
     (case migration_target sql of
        Inl err \<Rightarrow> runs (fail err)
      | Inr target \<Rightarrow>
          andRun (runs (asks (\<lambda>e. pending_migrations target (en_catalog e)))) (\<lambda>ms.
          andRun (eachRun (migrate_one W exec) ms) (\<lambda>_.
          andRun (runs (change_catalog catalog_save)) (\<lambda>_.
          andRun (runs (asks (\<lambda>e. cat_schema_version (en_catalog e)))) (\<lambda>v.
          runs (message (''Applied '' @ show_nat (length ms) @ '' migration(s). Schema version: '' @ show_nat v @ ''.'')))))))"

section \<open>Statements recognised by their text\<close>

datatype command =
    SelectCdc | SelectStatus | PgCatalog | CreateFunction | DropFunction | CreateUser | CreateRole
  | Grant | Revoke | Listen | Notify | CreateProcedure | Call | DoBlock | CreateFulltext
  | CreateTrigger | DropTrigger | Savepoint | RollbackTo | Release | CreateMigration | Migrate
  | AddReplica | RemoveReplica

text \<open>The prefixes in the order of the source; the first that fits decides.\<close>

definition command_prefixes :: "(string \<times> command) list" where
  "command_prefixes =
     [(''CREATE FUNCTION '', CreateFunction), (''DROP FUNCTION '', DropFunction), (''CREATE USER '', CreateUser),
      (''CREATE ROLE '', CreateRole), (''GRANT '', Grant), (''REVOKE '', Revoke), (''LISTEN '', Listen),
      (''NOTIFY '', Notify), (''CREATE PROCEDURE '', CreateProcedure), (''CALL '', Call), (''DO $$'', DoBlock),
      (''CREATE FULLTEXT INDEX '', CreateFulltext), (''CREATE TRIGGER '', CreateTrigger),
      (''DROP TRIGGER '', DropTrigger), (''SAVEPOINT '', Savepoint), (''ROLLBACK TO '', RollbackTo),
      (''RELEASE '', Release), (''CREATE MIGRATION '', CreateMigration), (''MIGRATE '', Migrate),
      (''ADD REPLICA '', AddReplica), (''REMOVE REPLICA '', RemoveReplica)]"

definition asks_pg_catalog :: "string \<Rightarrow> bool" where
  "asks_pg_catalog upper \<longleftrightarrow>
     list_ex (\<lambda>p. contains_str p upper) [''PG_CATALOG.'', ''PG_TYPE'', ''PG_CLASS'', ''PG_NAMESPACE'', ''PG_ATTRIBUTE'']"

definition session_command :: "string \<Rightarrow> command option" where
  "session_command upper =
     (if starts_with ''SELECT '' upper \<and> contains_str ''FROM POTATODB_CDC'' upper then Some SelectCdc
      else if starts_with ''SELECT '' upper \<and> contains_str ''FROM POTATODB_SYSTEM_STATUS'' upper then Some SelectStatus
      else if asks_pg_catalog upper then Some PgCatalog
      else if upper = ''MIGRATE'' then Some Migrate
      else map_option snd (find (\<lambda>(p, c). starts_with p upper) command_prefixes))"

definition after_prefix :: "string \<Rightarrow> string \<Rightarrow> string" where
  "after_prefix p trimmed = trim_matches dquote (trim (drop (length p) trimmed))"

text \<open>\<^verbatim>\<open>ROLLBACK TO [SAVEPOINT] name\<close>; the word SAVEPOINT is recognised in capitals only.\<close>

definition rollback_name :: "string \<Rightarrow> string" where
  "rollback_name trimmed =
     (let rest = trim (drop (length ''ROLLBACK TO '') trimmed)
      in trim_matches dquote (trim (case strip_prefix ''SAVEPOINT '' rest of Some r \<Rightarrow> r | None \<Rightarrow> rest)))"

definition release_name :: "string \<Rightarrow> string" where
  "release_name trimmed =
     (if starts_with ''RELEASE SAVEPOINT '' (to_uppercase trimmed) then after_prefix ''RELEASE SAVEPOINT '' trimmed
      else after_prefix ''RELEASE '' trimmed)"

text \<open>The handler of a command.\<close>

fun command_handler :: "'s world \<Rightarrow> 's executor \<Rightarrow> string \<Rightarrow> command \<Rightarrow> (query_result, 's) run" where
  "command_handler W exec t SelectCdc = runs (asks (handle_select_cdc t))"
| "command_handler W exec t SelectStatus = runs (asks handle_select_system_status)"
| "command_handler W exec t PgCatalog = runs (asks (handle_pg_catalog_query t))"
| "command_handler W exec t CreateFunction = runs (handle_create_function W t)"
| "command_handler W exec t DropFunction = runs (handle_drop_function W t)"
| "command_handler W exec t CreateUser = pure_handler (handle_create_user t)"
| "command_handler W exec t CreateRole = pure_handler (handle_create_role t)"
| "command_handler W exec t Grant = pure_handler (handle_grant t)"
| "command_handler W exec t Revoke = pure_handler (handle_revoke t)"
| "command_handler W exec t Listen = pure_handler (handle_listen t)"
| "command_handler W exec t Notify = pure_handler (handle_notify t)"
| "command_handler W exec t CreateProcedure = pure_handler (handle_create_procedure t)"
| "command_handler W exec t Call = handle_call_procedure exec t"
| "command_handler W exec t DoBlock = handle_do_block exec t"
| "command_handler W exec t CreateFulltext = runs (handle_create_fulltext_index W t)"
| "command_handler W exec t CreateTrigger = pure_handler (handle_create_trigger t)"
| "command_handler W exec t DropTrigger = pure_handler (handle_drop_trigger t)"
| "command_handler W exec t Savepoint = runs (handle_savepoint W (after_prefix ''SAVEPOINT '' t))"
| "command_handler W exec t RollbackTo = runs (handle_rollback_to W (rollback_name t))"
| "command_handler W exec t Release = pure_handler (handle_release_savepoint (release_name t))"
| "command_handler W exec t CreateMigration = pure_handler (handle_create_migration t)"
| "command_handler W exec t Migrate = handle_migrate W exec t"
| "command_handler W exec t AddReplica = pure_handler (handle_add_replica t)"
| "command_handler W exec t RemoveReplica = pure_handler (handle_remove_replica t)"

definition saves_catalog :: "command \<Rightarrow> bool" where
  "saves_catalog c \<longleftrightarrow>
     c \<in> {CreateFunction, DropFunction, CreateUser, CreateRole, Grant, Revoke, CreateFulltext, CreateTrigger,
          DropTrigger, CreateMigration, Migrate}"

definition ends_autocommit :: "command \<Rightarrow> bool" where
  "ends_autocommit c \<longleftrightarrow> c \<in> {CreateFunction, DropFunction, CreateMigration, Migrate}"

definition run_command ::
  "'s world \<Rightarrow> 's executor \<Rightarrow> string \<Rightarrow> nat \<Rightarrow> string \<Rightarrow> command \<Rightarrow> (query_result, 's) run"
where
  "run_command W exec sql started trimmed c =
     (if saves_catalog c then save_and_finish W sql started (ends_autocommit c) (command_handler W exec trimmed c)
      else finish W sql started (command_handler W exec trimmed c))"

section \<open>FLUSH\<close>

definition is_flush :: "string \<Rightarrow> bool" where
  "is_flush upper \<longleftrightarrow> upper = ''FLUSH'' \<or> starts_with ''FLUSH '' upper"

text \<open>What to flush: everything or a table. A missing name is an error that is not logged.\<close>

definition flush_target :: "string \<Rightarrow> (string, string option) result" where
  "flush_target trimmed =
     (case split_whitespace trimmed of
        [_] \<Rightarrow> Inr None
      | _ # w # rest \<Rightarrow>
          if eq_ignore_case w ''TABLE''
          then (case rest of [] \<Rightarrow> Inl ''FLUSH TABLE requires a table name'' | nm # _ \<Rightarrow> Inr (Some (trim_matches dquote nm)))
          else Inr (Some (trim_matches dquote w))
      | [] \<Rightarrow> Inl ''FLUSH requires an optional table name'')"

definition flush_statement :: "'s world \<Rightarrow> string \<Rightarrow> nat \<Rightarrow> string \<Rightarrow> (query_result, 's) run" where
  "flush_statement W sql started trimmed =
     (case flush_target trimmed of
        Inl err \<Rightarrow> runs (fail err)
      | Inr target \<Rightarrow>
          andRun (runs (case target of None \<Rightarrow> flush_all W | Some tbl \<Rightarrow> flush_table W tbl)) (\<lambda>n.
          andRun (runs (flush_catalog W)) (\<lambda>_.
          finish W sql started (runs (message (show_nat n @ '' row(s) flushed.''))))))"

text \<open>The statements before which buffered rows are not written.\<close>

definition needs_no_flush :: "string \<Rightarrow> bool" where
  "needs_no_flush upper \<longleftrightarrow>
     list_ex (\<lambda>p. starts_with p upper)
       [''INSERT '', ''SHOW '', ''PREPARE '', ''LISTEN '', ''NOTIFY '', ''CREATE USER '', ''CREATE ROLE '', ''GRANT '',
        ''REVOKE '']"

definition flush_before :: "'s world \<Rightarrow> string \<Rightarrow> (unit, 's) action" where
  "flush_before W upper =
     (if needs_no_flush upper then ok () else andThen (flush_buffered_for_sql W upper) (\<lambda>_. ok ()))"

section \<open>Statements after the access check\<close>

definition run_copy :: "'s world \<Rightarrow> string \<Rightarrow> (query_result, 's) action" where
  "run_copy W sql =
     (if contains_str '' FROM '' (to_uppercase sql) then handle_copy_from W sql else handle_copy_to W sql)"

definition run_records :: "'s world \<Rightarrow> string \<Rightarrow> (query_result, 's) action" where
  "run_records W sql = andThen (collect_with_plan_cache W sql) (\<lambda>bs. ok (Records bs))"

definition execute_prepared :: "'s world \<Rightarrow> 's executor \<Rightarrow> string \<Rightarrow> string list \<Rightarrow> (query_result, 's) run" where
  "execute_prepared W exec nm params =
     andRun (runs (prepared_text W nm params)) (\<lambda>x. case x of Inl q \<Rightarrow> runs (ok q) | Inr sql \<Rightarrow> exec sql)"

fun first_name :: "string list \<Rightarrow> string" where
  "first_name [] = []"
| "first_name (nm # _) = nm"

fun drop_handler :: "'s world \<Rightarrow> object_kind \<Rightarrow> string \<Rightarrow> bool \<Rightarrow> (query_result, 's) action" where
  "drop_handler W TableObject nm x = handle_drop_table W nm x"
| "drop_handler W IndexObject nm x = handle_drop_index W nm x"
| "drop_handler W ViewObject nm x = handle_drop_view W nm x"
| "drop_handler W SequenceObject nm x = handle_drop_sequence W nm x"
| "drop_handler W OtherObject nm x = fail panic"

fun run_statement :: "'s world \<Rightarrow> 's executor \<Rightarrow> string \<Rightarrow> stmt \<Rightarrow> (query_result, 's) run" where
  "run_statement W exec sql StartTransaction = runs (handle_begin W)"
| "run_statement W exec sql Commit = runs (handle_commit W)"
| "run_statement W exec sql Rollback = runs (handle_rollback W)"
| "run_statement W exec sql (CreateTable c) = runs (handle_create_table W c)"
| "run_statement W exec sql (CreateIndex c) = runs (handle_create_index W c)"
| "run_statement W exec sql (CreateSequence nm x os) = runs (handle_create_sequence W nm x os)"
| "run_statement W exec sql (DropObject k nms x) =
     runs (if dropped_with_data k then drop_handler W k (first_name nms) x else run_records W sql)"
| "run_statement W exec sql (Delete d) = handle_delete W exec sql d"
| "run_statement W exec sql (Update tbl as sel) = handle_update W exec sql tbl as sel"
| "run_statement W exec sql (Insert i) = handle_insert W exec sql i"
| "run_statement W exec sql (Merge target source cond cls) = runs (handle_merge W target source cond cls)"
| "run_statement W exec sql (AlterTable nm ops x) = runs (handle_alter_table W sql nm ops x)"
| "run_statement W exec sql (CreateView nm q r m) = runs (handle_create_view W nm q r m)"
| "run_statement W exec sql (Prepare nm template) = runs (handle_prepare W nm template)"
| "run_statement W exec sql (Execute nm params) =
     execute_prepared W exec (case nm of None \<Rightarrow> [] | Some n \<Rightarrow> n) params"
| "run_statement W exec sql Copy = runs (run_copy W sql)"
| "run_statement W exec sql Explain = runs (run_records W (normalize_explain_sql sql))"
| "run_statement W exec sql (Analyze tbl) = runs (handle_analyze W tbl)"
| "run_statement W exec sql (Vacuum (Some tbl)) = runs (handle_vacuum W tbl)"
| "run_statement W exec sql (Vacuum None) = runs (fail ''VACUUM requires a table name'')"
| "run_statement W exec sql (Query q) = runs (run_records W sql)"
| "run_statement W exec sql (Truncate nms) = runs (run_records W sql)"
| "run_statement W exec sql OtherStatement = runs (run_records W sql)"

text \<open>The statements whose error is returned at once, without saving the catalog and the log.\<close>

fun error_returns :: "stmt \<Rightarrow> bool" where
  "error_returns Explain = True"
| "error_returns (Vacuum None) = True"
| "error_returns (Query _) = True"
| "error_returns (Truncate _) = True"
| "error_returns OtherStatement = True"
| "error_returns (DropObject k _ _) = (\<not> dropped_with_data k)"
| "error_returns _ = False"

text \<open>What follows a statement that changed something.\<close>

definition after_mutation :: "'s world \<Rightarrow> stmt \<Rightarrow> (unit, 's) action" where
  "after_mutation W st =
     andThen (change (evict_plan_cache (extract_mutated_table st))) (\<lambda>_.
     andThen (\<lambda>e s. change (wal_finish_autocommit W (forces_checkpoint st) (w_clock W s)) e s) (\<lambda>_.
     andThen (asks en_snapshots_on) (\<lambda>on.
     if on then attempt (capture_snapshot W) else ok ())))"

definition settled_statement :: "'s world \<Rightarrow> 's executor \<Rightarrow> string \<Rightarrow> nat \<Rightarrow> stmt \<Rightarrow> (query_result, 's) run" where
  "settled_statement W exec sql started st e s =
     (case run_statement W exec sql st e s of
        None \<Rightarrow> None
      | Some (Inl err, e1, s1) \<Rightarrow>
          if error_returns st then Some (Inl err, e1, s1)
          else save_and_finish W sql started False (runs (fail err)) e1 s1
      | Some (Inr q, e1, s1) \<Rightarrow>
          andRun (runs (if is_mutating st then after_mutation W st else ok ()))
            (\<lambda>_. save_and_finish W sql started False (runs (ok q))) e1 s1)"

text \<open>
  The fallback for texts that sqlparser does not parse: VACUUM and ANALYZE by their words,
  everything else as a query.
\<close>

definition vacuum_words :: "string list \<Rightarrow> (string, string \<times> bool) result" where
  "vacuum_words parts =
     (case parts of
        _ # w # t # _ \<Rightarrow>
          (if to_uppercase w = ''ANALYZE'' then Inr (trim_matches dquote t, True) else Inr (trim_matches dquote w, False))
      | [_, w] \<Rightarrow> Inr (trim_matches dquote w, False)
      | _ \<Rightarrow> Inl ''VACUUM requires a table name'')"

definition unparsed_vacuum :: "'s world \<Rightarrow> string \<Rightarrow> nat \<Rightarrow> string \<Rightarrow> (query_result, 's) run" where
  "unparsed_vacuum W sql started trimmed =
     (case vacuum_words (split_whitespace trimmed) of
        Inl err \<Rightarrow> finish W sql started (runs (fail err))
      | Inr (tbl, analyze) \<Rightarrow>
          if tbl = [] then finish W sql started (runs (fail ''VACUUM requires a table name''))
          else save_and_finish W sql started False
                 (runs (if analyze then vacuum_then_analyze W tbl else handle_vacuum W tbl)))"

definition unparsed_statement :: "'s world \<Rightarrow> string \<Rightarrow> nat \<Rightarrow> string \<Rightarrow> (query_result, 's) run" where
  "unparsed_statement W sql started trimmed =
     (let upper = to_uppercase trimmed in
      if starts_with ''VACUUM '' upper \<or> upper = ''VACUUM'' then unparsed_vacuum W sql started trimmed
      else if starts_with ''ANALYZE '' upper \<or> upper = ''ANALYZE''
      then (case split_whitespace trimmed of
              _ # tbl # _ \<Rightarrow> save_and_finish W sql started False (runs (handle_analyze W tbl))
            | _ \<Rightarrow> runs (fail ''ANALYZE requires a table name''))
      else andRun (runs (run_records W sql)) (\<lambda>q. finish W sql started (runs (ok q))))"

definition parsed_statement :: "'s world \<Rightarrow> 's executor \<Rightarrow> string \<Rightarrow> nat \<Rightarrow> string \<Rightarrow> (query_result, 's) run" where
  "parsed_statement W exec sql started trimmed =
     (case w_parse W sql of
        Inl _ \<Rightarrow> unparsed_statement W sql started trimmed
      | Inr [st] \<Rightarrow> settled_statement W exec sql started st
      | Inr _ \<Rightarrow> finish W sql started (runs (fail ''Expected exactly one SQL statement'')))"

text \<open>The table of TRUNCATE and the view of REFRESH MATERIALIZED VIEW, by their words.\<close>

definition truncate_table :: "string list \<Rightarrow> string option" where
  "truncate_table tokens =
     (case tokens of
        _ # w # rest \<Rightarrow>
          (if eq_ignore_case w ''TABLE'' then (case rest of [] \<Rightarrow> None | nm # _ \<Rightarrow> Some (trim_matches dquote nm))
           else Some (trim_matches dquote w))
      | _ \<Rightarrow> None)"

definition checked_statement :: "'s world \<Rightarrow> 's executor \<Rightarrow> string \<Rightarrow> nat \<Rightarrow> string \<Rightarrow> (query_result, 's) run" where
  "checked_statement W exec sql started trimmed =
     (let upper = to_uppercase trimmed; tokens = split_whitespace trimmed in
      if starts_with ''TRUNCATE '' upper
      then (case truncate_table tokens of
              None \<Rightarrow> runs (fail ''TRUNCATE requires a table name'')
            | Some tbl \<Rightarrow> save_and_finish W sql started True (runs (handle_truncate W tbl)))
      else if starts_with ''REFRESH MATERIALIZED VIEW '' upper
      then (case drop 3 tokens of
              [] \<Rightarrow> runs (fail ''REFRESH MATERIALIZED VIEW requires a view name'')
            | nm # _ \<Rightarrow> save_and_finish W sql started True
                (runs (handle_refresh_materialized_view W (trim_matches dquote nm))))
      else if upper = ''CHECKPOINT'' \<or> upper = ''CHECKPOINT;''
      then save_and_finish W sql started False (at_time W (\<lambda>now. pure_handler (handle_checkpoint now)))
      else parsed_statement W exec sql started trimmed)"

section \<open>The statement\<close>

definition trim_statement :: "string \<Rightarrow> string" where
  "trim_statement sql = trim (trim_end_matches (CHR '';'') (trim sql))"

definition dispatch :: "'s world \<Rightarrow> 's executor \<Rightarrow> string \<Rightarrow> nat \<Rightarrow> (query_result, 's) run" where
  "dispatch W exec sql started =
     (let trimmed = trim_statement sql; upper = to_uppercase trimmed in
      if is_flush upper then flush_statement W sql started trimmed
      else andRun (runs (flush_before W upper)) (\<lambda>_.
           case session_command upper of
             Some c \<Rightarrow> run_command W exec sql started trimmed c
           | None \<Rightarrow>
               andRun (runs (\<lambda>e s. (enforce_access trimmed e, e, s))) (\<lambda>_.
               checked_statement W exec sql started trimmed)))"

text \<open>Functions are put in, except in the statements that define them, and FTS_MATCH is rewritten.\<close>

definition defines_function :: "string \<Rightarrow> bool" where
  "defines_function sql \<longleftrightarrow>
     starts_with ''CREATE FUNCTION '' (to_uppercase (trim_start sql)) \<or>
     starts_with ''DROP FUNCTION '' (to_uppercase (trim_start sql))"

definition effective_sql :: "string \<Rightarrow> engine \<Rightarrow> (string, string) result" where
  "effective_sql sql e =
     map_sum id (\<lambda>x. rewrite_fulltext_match_sql x (en_fulltext e))
       (if defines_function sql then Inr sql else expand_user_defined_functions sql (cat_udfs (en_catalog e)))"

definition execute_with :: "'s world \<Rightarrow> 's executor \<Rightarrow> string \<Rightarrow> nat \<Rightarrow> (query_result, 's) run" where
  "execute_with W exec sql started =
     andRun (runs (expand_nextval sql)) (\<lambda>expanded.
     case parse_as_of_timestamp (w_rfc3339 W) (w_naive_time W) expanded of
       Some ts \<Rightarrow> finish W sql started (runs (execute_as_of_timestamp W expanded ts))
     | None \<Rightarrow>
         andRun (runs (\<lambda>e s. (effective_sql expanded e, e, s))) (\<lambda>effective.
         dispatch W exec effective started))"

fun execute :: "'s world \<Rightarrow> nat \<Rightarrow> 's executor" where
  "execute W 0 sql = (\<lambda>e s. None)"
| "execute W (Suc depth) sql =
     andRun (runs (drain_pending_analyze W)) (\<lambda>_. at_time W (execute_with W (execute W depth) sql))"

section \<open>Scripts and the other entry points\<close>

fun run_script :: "'s executor \<Rightarrow> bool \<Rightarrow> string list \<Rightarrow> engine \<Rightarrow> 's \<Rightarrow>
  ((string \<times> (string, query_result) result) list \<times> engine \<times> 's) option"
where
  "run_script exec continue_on_error [] e s = Some ([], e, s)"
| "run_script exec continue_on_error (st # sts) e s =
     (case exec st e s of
        None \<Rightarrow> None
      | Some (r, e1, s1) \<Rightarrow>
          if isl r \<and> \<not> continue_on_error then Some ([(st, r)], e1, s1)
          else (case run_script exec continue_on_error sts e1 s1 of
                  None \<Rightarrow> None
                | Some (rs, e2, s2) \<Rightarrow> Some ((st, r) # rs, e2, s2)))"

definition execute_file :: "'s world \<Rightarrow> nat \<Rightarrow> string \<Rightarrow> bool \<Rightarrow> ((string \<times> (string, query_result) result) list, 's) run" where
  "execute_file W depth path continue_on_error e s =
     (case w_script W path s of
        Inl err \<Rightarrow> Some (Inl (''Failed to read SQL file '' @ in_quotes path @ '': '' @ err), e, s)
      | Inr contents \<Rightarrow>
          (case run_script (execute W depth) continue_on_error (split_sql_statements contents) e s of
             None \<Rightarrow> None
           | Some (rs, e1, s1) \<Rightarrow> Some (Inr rs, e1, s1)))"

text \<open>With a callback after each statement: what it keeps is the state \<open>c\<close>.\<close>

fun run_with_callback :: "'s executor \<Rightarrow> bool \<Rightarrow> (string \<Rightarrow> (string, query_result) result \<Rightarrow> 'c \<Rightarrow> 'c) \<Rightarrow>
  string list \<Rightarrow> 'c \<Rightarrow> engine \<Rightarrow> 's \<Rightarrow> ('c \<times> engine \<times> 's) option"
where
  "run_with_callback exec continue_on_error f [] c e s = Some (c, e, s)"
| "run_with_callback exec continue_on_error f (st # sts) c e s =
     (case exec st e s of
        None \<Rightarrow> None
      | Some (r, e1, s1) \<Rightarrow>
          if isl r \<and> \<not> continue_on_error then Some (f st r c, e1, s1)
          else run_with_callback exec continue_on_error f sts (f st r c) e1 s1)"

definition execute_file_with_callback ::
  "'s world \<Rightarrow> nat \<Rightarrow> string \<Rightarrow> bool \<Rightarrow> (string \<Rightarrow> (string, query_result) result \<Rightarrow> 'c \<Rightarrow> 'c) \<Rightarrow> 'c \<Rightarrow>
     engine \<Rightarrow> 's \<Rightarrow> ((string, 'c) result \<times> engine \<times> 's) option"
where
  "execute_file_with_callback W depth path continue_on_error f c e s =
     (case w_script W path s of
        Inl err \<Rightarrow> Some (Inl (''Failed to read SQL file '' @ in_quotes path @ '': '' @ err), e, s)
      | Inr contents \<Rightarrow>
          map_option (\<lambda>(c', e1, s1). (Inr c', e1, s1))
            (run_with_callback (execute W depth) continue_on_error f (split_sql_statements contents) c e s))"

text \<open>The callback sees what \<^verbatim>\<open>execute_file\<close> collects, in the same order.\<close>

lemma run_with_callback_folds:
  "run_with_callback exec go_on f sts c e s =
     map_option (\<lambda>(rs, e1, s1). (fold (\<lambda>(st, r). f st r) rs c, e1, s1)) (run_script exec go_on sts e s)"
  by (induction sts arbitrary: c e s) (auto split: option.splits prod.splits)

lemma callback_sees_all_results:
  "execute_file_with_callback W depth path go_on f c e s =
     map_option (\<lambda>(r, e1, s1). (map_sum id (\<lambda>rs. fold (\<lambda>(st, q). f st q) rs c) r, e1, s1))
       (execute_file W depth path go_on e s)"
  by (auto simp: execute_file_with_callback_def execute_file_def run_with_callback_folds split: sum.splits option.splits)

text \<open>A stream is modelled by what it yields.\<close>

definition execute_stream :: "'s world \<Rightarrow> nat \<Rightarrow> string \<Rightarrow> (query_result, 's) run" where
  "execute_stream W depth sql =
     (let w = to_uppercase (first_word sql) in
      andRun (runs (if w \<in> {''SELECT'', ''WITH'', ''SHOW'', ''DESCRIBE'', ''EXPLAIN''}
                    then andThen (flush_all W) (\<lambda>_. ok ()) else ok ())) (\<lambda>_.
      if w \<in> {''SELECT'', ''EXPLAIN'', ''SHOW'', ''DESCRIBE'', ''WITH'', ''VALUES''}
      then runs (andThen (run_query W sql) (\<lambda>bs. ok (Records bs)))
      else execute W depth sql))"

definition execute_readonly :: "'s world \<Rightarrow> string \<Rightarrow> (query_result, 's) action" where
  "execute_readonly W sql =
     (if \<not> is_read_only_sql sql then fail ''execute_readonly rejects mutating SQL''
      else andThen (flush_all W) (\<lambda>_. run_records W sql))"

section \<open>Opening and closing a database\<close>

text \<open>The batches of the Arrow log go through the buffer into the tables that still exist.\<close>

definition replay_batches :: "'s world \<Rightarrow> string \<times> record_batch list \<Rightarrow> (unit, 's) action" where
  "replay_batches W = (\<lambda>(tbl, bs).
     andThen (asks (\<lambda>e. hm_contains (cat_tables (en_catalog e)) tbl)) (\<lambda>exists.
     if exists then andThen (buffer_insert_batches W tbl None bs) (\<lambda>_.
                    andThen (flush_table W tbl) (\<lambda>_. ok ()))
     else ok ()))"

definition set_replaying :: "bool \<Rightarrow> (unit, 's) action" where
  "set_replaying b = change (\<lambda>e. e\<lparr>en_replaying := b\<rparr>)"

text \<open>The engine's own log of the directory's tables is read as it is when the database opens.\<close>

definition replay_arrow_log :: "'s world \<Rightarrow> arrow_dirs \<Rightarrow> (unit, 's) action" where
  "replay_arrow_log W ds =
     andThen (look (\<lambda>_. awal_recover (w_ipc W) ds)) (\<lambda>recs.
     if recs = [] then ok ()
     else andThen (set_replaying True) (\<lambda>_.
          andThen (each (replay_batches W) recs) (\<lambda>_.
          set_replaying False)))"

definition truncate_wal :: "engine \<Rightarrow> engine" where
  "truncate_wal e = e\<lparr>en_wal := map_option wal_checkpoint (en_wal e)\<rparr>"

definition replay_statements :: "'s world \<Rightarrow> nat \<Rightarrow> wal_entry list \<Rightarrow> (unit, 's) run" where
  "replay_statements W depth es =
     (if es = [] then runs (ok ())
      else andRun (runs (set_replaying True)) (\<lambda>_.
           andRun (eachRun (\<lambda>en. andRun (execute W depth (we_sql en)) (\<lambda>_. runs (ok ()))) es) (\<lambda>_.
           andRun (runs (set_replaying False)) (\<lambda>_.
           runs (change truncate_wal)))))"

text \<open>What \<^verbatim>\<open>PotatoDB::new\<close> does once the engine's state is built.\<close>

definition open_database :: "'s world \<Rightarrow> nat \<Rightarrow> arrow_dirs \<Rightarrow> wal_entry list \<Rightarrow> (unit, 's) run" where
  "open_database W depth ds es =
     andRun (runs (reload_tables W)) (\<lambda>_.
     andRun (runs (load_cdc_log W)) (\<lambda>_.
     andRun (runs (attempt (capture_snapshot W))) (\<lambda>_.
     andRun (runs (replay_arrow_log W ds)) (\<lambda>_.
     replay_statements W depth es))))"

text \<open>\<^verbatim>\<open>Drop\<close>: the statement log goes, unless rows are still buffered.\<close>

definition close_database :: "engine \<Rightarrow> engine" where
  "close_database e = (if en_replaying e \<or> en_buffer e \<noteq> [] then e else truncate_wal e)"

end
