(* ===== verification/Row_Frames.thy ===== *)
theory Row_Frames
  imports Dml_Bulk Frames
begin

text \<open>
  What the statements that change rows leave alone: every part of the engine that depends
  neither on what flushing changes (\<open>txn_frame\<close>) nor on the statement log, the log of changes,
  the backups of the open transaction and the deletion vectors.
\<close>

lemma checked_keeps [keeps_intros]: "keeps g (checked f)"
  by (simp add: keeps_def checked_def split_beta)

lemma the_table_keeps [keeps_intros]: "keeps g (the_table tbl)"
  unfolding the_table_def by (intro keeps_intros)

lemma returning_query_keeps [keeps_intros]: "keeps g (returning_query W ret f)"
  unfolding returning_query_def by (intro keeps_intros)

lemma validate_table_keeps [keeps_intros]: "keeps g (validate_table W tbl)"
  unfolding validate_table_def by (intro keeps_intros)

lemma message_keeps [keeps_intros]: "keeps g (message m)"
  unfolding message_def by (intro keeps_intros)

lemma keeps_engine_step [keeps_intros]: "keeps g (\<lambda>e s. (f e, e, s))"
  by (simp add: keeps_def)

lemma keeps_split [keeps_intros]:
  "(\<And>x y. keeps g (f x y)) \<Longrightarrow> keeps g (case pr of (x, y) \<Rightarrow> f x y)"
  "(\<And>x. keeps g (h x)) \<Longrightarrow> (\<And>x. keeps g (k x)) \<Longrightarrow> keeps g (case sm of Inl x \<Rightarrow> h x | Inr x \<Rightarrow> k x)"
  by (simp_all split: prod.splits sum.splits)

locale row_frame = txn_frame +
  assumes wal [simp]: "g (e\<lparr>en_wal := w\<rparr>) = g e"
    and cdc [simp]: "g (e\<lparr>en_cdc_log := l\<rparr>) = g e"
    and backups: "en_txn e = Some t \<Longrightarrow> g (e\<lparr>en_txn := Some (t\<lparr>tx_backups := b\<rparr>)\<rparr>) = g e"
    and vectors [simp]: "g (with_catalog (en_catalog e\<lparr>cat_tables :=
        hm_modify tbl (\<lambda>m. m\<lparr>tm_deletion_vectors := []\<rparr>) (cat_tables (en_catalog e))\<rparr>) e) = g e"
begin

lemma log_state [simp]: "g (wal_append_pending W sql e) = g e"
  by (simp add: wal_append_pending_def)

lemma record_cdc_keeps [keeps_intros]: "keeps g (record_cdc W tbl op n)"
  by (simp add: keeps_def record_cdc_def record_cdc_event_def Let_def)

lemma backup_keeps [keeps_intros]: "keeps g (backup_table_for_txn W tbl)"
proof (rule keepsI)
  fix e s r e' s'
  assume "backup_table_for_txn W tbl e s = (r, e', s')"
  then show "g e' = g e"
    by (auto simp: backup_table_for_txn_def run_query_def look_def andThen_def change_def outside_def backups
        split: option.splits if_splits prod.splits sum.splits)
qed

lemma clear_deletion_vectors_keeps [keeps_intros]: "keeps g (clear_deletion_vectors tbl)"
  unfolding clear_deletion_vectors_def change_catalog_def by (intro keeps_intros) simp

lemma rewrite_from_keeps [keeps_intros]: "keeps g (rewrite_from W tbl sql)"
  unfolding rewrite_from_def by (intro keeps_intros)

lemma check_fk_action_keeps [keeps_intros]: "keeps g (check_fk_action W tbl cond fk)"
  unfolding check_fk_action_def apply_fk_action_def Let_def by (intro keeps_intros)

lemma delete_rows_keeps [keeps_intros]: "keeps g (delete_rows W sql d tbl)"
  unfolding delete_rows_def Let_def by (intro keeps_intros log_state)

lemma update_rows_keeps [keeps_intros]: "keeps g (update_rows W sql tbl as sel)"
  unfolding update_rows_def Let_def by (intro keeps_intros log_state)

lemma update_fulltext_keeps [keeps_intros]: "keeps g (update_fulltext W tbl target bs)"
  by (rule keepsI)
    (auto simp: update_fulltext_def Let_def index_inserted_def split: if_splits prod.splits
      dest!: keepsD [OF collect_with_plan_cache_keeps])

lemma insert_batches_keeps [keeps_intros]: "keeps g (insert_batches W tbl target bs)"
  unfolding insert_batches_def next_temp_table_name_def by (intro keeps_intros) simp

lemma insert_now_keeps [keeps_intros]: "keeps g (insert_now W sql tbl target bs)"
  unfolding insert_now_def by (intro keeps_intros log_state) simp_all

lemma insert_buffered_keeps [keeps_intros]: "keeps g (insert_buffered W sql i target bs)"
  unfolding insert_buffered_def by (intro keeps_intros log_state)

lemma insert_source_keeps [keeps_intros]: "keeps g (insert_source W i)"
  unfolding insert_source_def by (intro keeps_intros)

lemma upsert_updates_keeps [keeps_intros]: "keeps g (upsert_updates W tbl m conflict act rows)"
  by (cases act) (auto simp: upsert_updates_def intro!: keeps_intros)

lemma upsert_keeps [keeps_intros]: "keeps g (handle_upsert W i oc)"
  unfolding handle_upsert_def upsert_source_def upsert_rows_def upsert_inserts_def Let_def
  by (intro keeps_intros log_state) simp_all

lemma merge_clause_step_keeps [keeps_intros]: "keeps g (merge_clause_step W n m on_str cl acc)"
  unfolding merge_clause_step_def Let_def
  by (cases acc; cases "mc_kind cl"; cases "mc_action cl") (auto intro!: keeps_intros)

lemma merge_clauses_keeps [keeps_intros]: "keeps g (merge_clauses W n m on_str cls acc)"
  by (induction cls arbitrary: acc) (simp_all only: merge_clauses.simps, (intro keeps_intros; assumption)+)

end

section \<open>Sequence calls\<close>

text \<open>What drawing sequence values changes of a catalog.\<close>

definition draws :: "catalog \<Rightarrow> catalog \<Rightarrow> bool" where
  "draws c c' \<longleftrightarrow> (\<exists>q d. c' = c\<lparr>cat_sequences := q, dirty := d\<rparr>)"

lemma draws_iff: "draws c c' \<longleftrightarrow> c' = c\<lparr>cat_sequences := cat_sequences c', dirty := dirty c'\<rparr>"
proof
  assume "draws c c'"
  then obtain q d where "c' = c\<lparr>cat_sequences := q, dirty := d\<rparr>" unfolding draws_def by blast
  then show "c' = c\<lparr>cat_sequences := cat_sequences c', dirty := dirty c'\<rparr>" by simp
qed (unfold draws_def, blast)

lemma draws_refl [simp]: "draws c c"
  unfolding draws_def by (intro exI [of _ "cat_sequences c"] exI [of _ "dirty c"]) simp

lemma draws_trans: "draws c c1 \<Longrightarrow> draws c1 c2 \<Longrightarrow> draws c c2"
  unfolding draws_def by (elim exE) (simp, blast)

lemma next_sequence_value_draws: "next_sequence_value nm c = (r, c') \<Longrightarrow> draws c c'"
  by (auto simp: next_sequence_value_def Let_def draws_iff catalog_save_def split: option.splits if_splits)

lemma nextval_from_draws: "nextval_from x c = (r, c') \<Longrightarrow> draws c c'"
proof (induction x c arbitrary: r c' rule: nextval_from.induct)
  case (1 x c)
  show ?case
  proof (cases "\<exists>start k. find_str nextval_open (to_lowercase x) = Some start \<and>
      find_str nextval_close (to_lowercase (drop (start + length nextval_open) x)) = Some k")
    case True
    then obtain start k where at: "find_str nextval_open (to_lowercase x) = Some start"
      "find_str nextval_close (to_lowercase (drop (start + length nextval_open) x)) = Some k" by blast
    obtain q c1 where n: "next_sequence_value (take k (drop (start + length nextval_open) x)) c = (q, c1)"
      by (cases "next_sequence_value (take k (drop (start + length nextval_open) x)) c")
    from next_sequence_value_draws [OF n] show ?thesis
    proof (cases q)
      case (Inr v)
      obtain q2 c2 where r: "nextval_from (drop (k + 2) (drop (start + length nextval_open) x)) c1 = (q2, c2)"
        by (cases "nextval_from (drop (k + 2) (drop (start + length nextval_open) x)) c1")
      have "draws c1 c2" by (rule "1.IH" [OF at(1) refl at(2) n [symmetric] Inr r])
      moreover have "c' = c2"
        using "1.prems" at n r Inr by (simp add: nextval_from.simps [of x c] Let_def split: sum.splits)
      ultimately show ?thesis using next_sequence_value_draws [OF n] draws_trans by blast
    qed (use "1.prems" at n in \<open>simp add: nextval_from.simps [of x c] Let_def\<close>)
  next
    case False
    with "1.prems" show ?thesis
      by (auto simp: nextval_from.simps [of x c] Let_def split: option.splits)
  qed
qed

lemma expand_nextval_keeps:
  assumes "\<And>e q d. g (with_catalog (en_catalog e\<lparr>cat_sequences := q, dirty := d\<rparr>) e) = g e"
  shows "keeps g (expand_nextval sql)"
proof (rule keepsI)
  fix e s r e' s'
  assume *: "expand_nextval sql e s = (r, e', s')"
  obtain q c where c: "expand_nextval_calls sql (en_catalog e) = (q, c)" by (metis surj_pair)
  then have "draws (en_catalog e) c" by (auto simp: expand_nextval_calls_def split: if_splits dest: nextval_from_draws)
  with * c assms show "g e' = g e" by (auto simp: expand_nextval_def draws_def)
qed

end
