(* ===== verification/Run_Props.thy ===== *)
theory Run_Props
  imports Dispatch Row_Frames
begin

text \<open>
  The execution of statements by statements: a run that ends keeps its end at every greater
  depth, a statement that executes no other ends at once, and a procedure that calls itself
  never ends.
\<close>

section \<open>A new database in memory\<close>

definition bare_engine :: engine where
  "bare_engine = engine_new (\<lambda>_. None) 0 InMemory ''memory://potatodb'' [] None None (with_data empty_data ''catalog.json'')"

lemma bare_engine_fields [simp]:
  "en_procedures bare_engine = []" "en_prepared bare_engine = []" "en_pending_analyze bare_engine = []"
  "en_buffer bare_engine = []" "cat_triggers (en_catalog bare_engine) = []" "cat_udfs (en_catalog bare_engine) = []"
  "cat_migrations (en_catalog bare_engine) = []" "en_fulltext bare_engine = []"
  by (simp_all add: bare_engine_def engine_new_def bootstrap_users_def with_data_def empty_data_def Let_def)

section \<open>More depth\<close>

text \<open>A run that ends wherever another does, as it does there.\<close>

definition le_run :: "('a, 's) run \<Rightarrow> ('a, 's) run \<Rightarrow> bool" where
  "le_run m n \<longleftrightarrow> (\<forall>e s. m e s = None \<or> n e s = m e s)"

named_theorems le_run_intros \<open>how runs that execute statements grow with the executor\<close>

lemma le_runI: "(\<And>e s. m e s = None \<or> n e s = m e s) \<Longrightarrow> le_run m n"
  by (simp add: le_run_def)

lemma le_runE:
  assumes "le_run m n"
  obtains "m e s = None" | "n e s = m e s"
  using assms unfolding le_run_def by metis

lemma le_run_refl [le_run_intros]: "le_run m m"
  by (simp add: le_run_def)

lemma le_run_andRun [le_run_intros]:
  assumes m: "le_run m n" and f: "\<And>a. le_run (f a) (g a)"
  shows "le_run (andRun m f) (andRun n g)"
proof (rule le_runI)
  fix e s
  from m show "andRun m f e s = None \<or> andRun n g e s = andRun m f e s"
  proof (rule le_runE [of m n e s])
    assume n: "n e s = m e s"
    show ?thesis
    proof (cases "m e s")
      case (Some x)
      obtain r e1 s1 where x: "x = (r, e1, s1)" by (cases x)
      with Some n f show ?thesis by (cases r) (simp_all add: andRun_def le_run_def)
    qed (simp add: andRun_def)
  qed (simp add: andRun_def)
qed

text \<open>What wraps a run and does not end where the run does not.\<close>

lemma le_run_wrap:
  assumes "le_run m n" and "\<And>e s. k None e s = None"
  shows "le_run (\<lambda>e s. k (m e s) e s) (\<lambda>e s. k (n e s) e s)"
proof (rule le_runI)
  fix e s
  from assms(1) show "k (m e s) e s = None \<or> k (n e s) e s = k (m e s) e s"
    by (rule le_runE [of m n e s]) (simp_all add: assms(2))
qed

lemma le_run_tryRun [le_run_intros]: "le_run m n \<Longrightarrow> le_run (tryRun m) (tryRun n)"
  unfolding tryRun_def [abs_def] by (rule le_run_wrap) simp_all

lemma le_run_eachRun [le_run_intros]: "(\<And>x. le_run (f x) (g x)) \<Longrightarrow> le_run (eachRun f xs) (eachRun g xs)"
  by (induction xs) (simp_all add: le_run_refl le_run_andRun)

lemma le_run_finish [le_run_intros]: "le_run m n \<Longrightarrow> le_run (finish W sql t m) (finish W sql t n)"
  unfolding finish_def by (rule le_run_wrap) simp_all

lemma le_run_save_and_finish [le_run_intros]:
  "le_run m n \<Longrightarrow> le_run (save_and_finish W sql t b m) (save_and_finish W sql t b n)"
  unfolding save_and_finish_def by (rule le_run_wrap) simp_all

lemma le_run_at_time [le_run_intros]: "(\<And>t. le_run (f t) (g t)) \<Longrightarrow> le_run (at_time W f) (at_time W g)"
  by (simp add: le_run_def at_time_def)

lemma le_run_cases [le_run_intros]:
  "(P \<Longrightarrow> le_run m n) \<Longrightarrow> (\<not> P \<Longrightarrow> le_run m' n') \<Longrightarrow> le_run (if P then m else m') (if P then n else n')"
  "le_run m n \<Longrightarrow> (\<And>x. le_run (f x) (g x)) \<Longrightarrow>
    le_run (case opt of None \<Rightarrow> m | Some x \<Rightarrow> f x) (case opt of None \<Rightarrow> n | Some x \<Rightarrow> g x)"
  "(\<And>y. le_run (h y) (k y)) \<Longrightarrow> (\<And>x. le_run (f' x) (g' x)) \<Longrightarrow>
    le_run (case sm of Inl y \<Rightarrow> h y | Inr x \<Rightarrow> f' x) (case sm of Inl y \<Rightarrow> k y | Inr x \<Rightarrow> g' x)"
  "(\<And>x y. le_run (p x y) (q x y)) \<Longrightarrow> le_run (case pr of (x, y) \<Rightarrow> p x y) (case pr of (x, y) \<Rightarrow> q x y)"
  by (simp_all split: option.splits sum.splits prod.splits)

section \<open>The handlers that execute statements\<close>

locale growing_executor =
  fixes exec exec' :: "'s executor"
  assumes grow: "le_run (exec sql) (exec' sql)"
begin

lemma run_triggers_le [le_run_intros]: "le_run (run_triggers exec tbl ev t) (run_triggers exec' tbl ev t)"
proof -
  have "le_run (eachRun (\<lambda>b. tryRun (exec b)) bs) (eachRun (\<lambda>b. tryRun (exec' b)) bs)" for bs
    by (intro le_run_intros grow)
  then show ?thesis by (simp add: le_run_def run_triggers_def)
qed

lemma row_statements_le [le_run_intros]:
  "le_run (handle_delete W exec sql d) (handle_delete W exec' sql d)"
  "le_run (handle_update W exec sql tbl as sel) (handle_update W exec' sql tbl as sel)"
  "le_run (insert_rows W exec sql i) (insert_rows W exec' sql i)"
  unfolding handle_delete_def handle_update_def insert_rows_def Let_def by (intro le_run_intros)+

lemma insert_le [le_run_intros]: "le_run (handle_insert W exec sql i) (handle_insert W exec' sql i)"
  unfolding handle_insert_def by (simp add: le_run_intros split: option.splits on_insert.splits)

lemma command_handler_le [le_run_intros]: "le_run (command_handler W exec t c) (command_handler W exec' t c)"
proof -
  have call: "le_run (handle_call_procedure exec t) (handle_call_procedure exec' t)"
    unfolding handle_call_procedure_def Let_def by (intro le_run_intros grow)
  have block: "le_run (handle_do_block exec t) (handle_do_block exec' t)"
    unfolding handle_do_block_def do_statement_def by (intro le_run_intros grow)
  have migrate: "le_run (handle_migrate W exec t) (handle_migrate W exec' t)"
    unfolding handle_migrate_def migrate_one_def by (intro le_run_intros grow)
  show ?thesis by (cases c) (simp_all add: le_run_refl call block migrate)
qed

lemma run_statement_le: "le_run (run_statement W exec sql st) (run_statement W exec' sql st)"
proof -
  have prepared: "le_run (execute_prepared W exec nm ps) (execute_prepared W exec' nm ps)" for nm ps
    unfolding execute_prepared_def by (intro le_run_intros grow)
  show ?thesis
  proof (cases st)
    case (Vacuum tbl)
    then show ?thesis by (cases tbl) (simp_all add: le_run_refl)
  qed (simp_all add: le_run_refl le_run_intros prepared)
qed

lemma settled_statement_le [le_run_intros]:
  "le_run (settled_statement W exec sql t st) (settled_statement W exec' sql t st)"
  unfolding settled_statement_def by (rule le_run_wrap [OF run_statement_le]) simp

lemma parsed_statement_le [le_run_intros]:
  "le_run (parsed_statement W exec sql t tr) (parsed_statement W exec' sql t tr)"
  unfolding parsed_statement_def by (auto intro: le_run_intros split: sum.splits list.splits)

lemma checked_statement_le [le_run_intros]:
  "le_run (checked_statement W exec sql t tr) (checked_statement W exec' sql t tr)"
  unfolding checked_statement_def Let_def by (intro le_run_intros)

lemma run_command_le [le_run_intros]: "le_run (run_command W exec sql t tr c) (run_command W exec' sql t tr c)"
  unfolding run_command_def by (intro le_run_intros)

lemma dispatch_le [le_run_intros]: "le_run (dispatch W exec sql t) (dispatch W exec' sql t)"
  unfolding dispatch_def Let_def by (intro le_run_intros)

lemma execute_with_le: "le_run (execute_with W exec sql t) (execute_with W exec' sql t)"
  unfolding execute_with_def by (intro le_run_intros)

end

lemma execute_le: "le_run (execute W d sql) (execute W (d + k) sql)"
proof (induction d arbitrary: sql)
  case 0
  show ?case by (simp add: le_run_def)
next
  case (Suc d)
  have "growing_executor (execute W d) (execute W (d + k))" by unfold_locales (rule Suc.IH)
  then show ?case by (simp add: le_run_intros growing_executor.execute_with_le)
qed

interpretation deeper: growing_executor "execute W d" "execute W (d + k)" for W d k
  by unfold_locales (rule execute_le)

text \<open>
  The depth of execution does not decide the result. A statement that returns at some depth
  of nested statements returns the same result, engine and outside at every greater depth, so
  the depth only tells the runs that end from those that do not.
\<close>

theorem deeper_execution_agrees:
  assumes "execute W d sql e s = Some r" and "d \<le> d'"
  shows "execute W d' sql e s = Some r"
proof -
  from assms(2) obtain k where k: "d' = d + k" by (auto simp: le_iff_add)
  from deeper.grow [of W d sql k] assms(1) show ?thesis unfolding le_run_def k by (metis option.distinct(1))
qed

section \<open>Statements that execute no other\<close>

text \<open>What statements are taken from when one executes another.\<close>

definition nesting ::
  "engine \<Rightarrow> (string, string) hashmap \<times> (string, prepared_statement) hashmap \<times> (string, trigger_def) hashmap \<times>
     migration_record list"
where
  "nesting e = (en_procedures e, en_prepared e, cat_triggers (en_catalog e), cat_migrations (en_catalog e))"

interpretation nesting: row_frame nesting
  by unfold_locales (simp_all add: nesting_def set_file_stats_def)

lemma catalog_fields_keep [simp]:
  "cat_triggers (set_file_stats t fs c) = cat_triggers c" "cat_migrations (set_file_stats t fs c) = cat_migrations c"
  by (simp_all add: set_file_stats_def)

lemma expand_nextval_nesting [keeps_intros]: "keeps nesting (expand_nextval sql)"
  by (rule expand_nextval_keeps) (simp add: nesting_def)

definition quiet :: "engine \<Rightarrow> bool" where
  "quiet e \<longleftrightarrow> nesting e = ([], [], [], [])"

lemma quiet_keeps: "keeps nesting m \<Longrightarrow> quiet e \<Longrightarrow> m e s = (r, e', s') \<Longrightarrow> quiet e'"
  by (simp add: quiet_def keepsD)

lemma quiet_triggers [simp]: "quiet e \<Longrightarrow> trigger_bodies tbl ev t e = []"
  by (simp add: quiet_def nesting_def trigger_bodies_def hm_values_def)

text \<open>A run that ends from every state that holds nothing to execute.\<close>

definition ends :: "('a, 's) run \<Rightarrow> bool" where
  "ends m \<longleftrightarrow> (\<forall>e s. quiet e \<longrightarrow> m e s \<noteq> None)"

named_theorems ends_intros \<open>which runs end\<close>

lemma endsI: "(\<And>e s. quiet e \<Longrightarrow> m e s \<noteq> None) \<Longrightarrow> ends m"
  by (simp add: ends_def)

lemma endsD: "ends m \<Longrightarrow> quiet e \<Longrightarrow> m e s \<noteq> None"
  by (simp add: ends_def)

lemma ends_runs [ends_intros]: "ends (runs m)" "ends (pure_handler h)"
  by (simp_all add: ends_def runs_def pure_handler_def split: prod.splits)

lemma ends_after [ends_intros]:
  assumes "keeps nesting m" and "\<And>a. ends (f a)"
  shows "ends (andRun (runs m) f)"
proof (rule endsI)
  fix e :: engine and s
  assume q: "quiet e"
  obtain r e1 s1 where m: "m e s = (r, e1, s1)" by (cases "m e s")
  have "quiet e1" by (rule quiet_keeps [OF assms(1) q m])
  with m assms(2) show "andRun (runs m) f e s \<noteq> None" by (cases r) (simp_all add: andRun_def runs_def ends_def)
qed

lemma ends_triggers [ends_intros]: "ends f \<Longrightarrow> ends (andRun (run_triggers exec tbl ev t) (\<lambda>_. f))"
  by (simp add: ends_def andRun_def run_triggers_def runs_def ok_def)

lemma ends_wraps [ends_intros]:
  "ends m \<Longrightarrow> ends (finish W sql t m)" "ends m \<Longrightarrow> ends (save_and_finish W sql t b m)"
  "(\<And>t. ends (f t)) \<Longrightarrow> ends (at_time W f)"
  by (auto simp: ends_def finish_def save_and_finish_def at_time_def Let_def split: option.splits prod.splits sum.splits)

lemma ends_cases [ends_intros]:
  "(P \<Longrightarrow> ends m) \<Longrightarrow> (\<not> P \<Longrightarrow> ends n) \<Longrightarrow> ends (if P then m else n)"
  "ends m \<Longrightarrow> (\<And>x. ends (f x)) \<Longrightarrow> ends (case opt of None \<Rightarrow> m | Some x \<Rightarrow> f x)"
  "(\<And>y. ends (h y)) \<Longrightarrow> (\<And>x. ends (f' x)) \<Longrightarrow> ends (case sm of Inl y \<Rightarrow> h y | Inr x \<Rightarrow> f' x)"
  "(\<And>x y. ends (p x y)) \<Longrightarrow> ends (case pr of (x, y) \<Rightarrow> p x y)"
  by (simp_all split: option.splits sum.splits prod.splits)

section \<open>Every handler ends\<close>

lemma command_handler_ends: "c \<noteq> DoBlock \<Longrightarrow> ends (command_handler W exec t c)"
proof (cases c)
  case Call
  have "handle_call_procedure exec t e s \<noteq> None" if "quiet e" for e s
    using that by (auto simp: handle_call_procedure_def runs_def andRun_def quiet_def nesting_def Let_def split: option.splits)
  with Call show ?thesis by (simp add: ends_def)
next
  case Migrate
  have "handle_migrate W exec t e s \<noteq> None" if "quiet e" for e s
    using that by (auto simp: handle_migrate_def runs_def andRun_def quiet_def nesting_def pending_migrations_def
        change_catalog_def message_def split: sum.splits)
  with Migrate show ?thesis by (simp add: ends_def)
qed (simp_all add: ends_intros)

lemma row_statements_end [ends_intros]:
  "ends (handle_delete W exec sql d)" "ends (handle_update W exec sql tbl as sel)" "ends (handle_insert W exec sql i)"
proof -
  show "ends (handle_delete W exec sql d)" unfolding handle_delete_def by (intro ends_intros keeps_intros)
  show "ends (handle_update W exec sql tbl as sel)" unfolding handle_update_def by (intro ends_intros)
  have "ends (insert_rows W exec sql i)"
    unfolding insert_rows_def Let_def by (intro ends_intros keeps_intros)
  then show "ends (handle_insert W exec sql i)"
    unfolding handle_insert_def by (simp add: ends_intros split: option.splits on_insert.splits)
qed

lemma execute_prepared_ends [ends_intros]: "ends (execute_prepared W exec nm ps)"
  by (simp add: ends_def execute_prepared_def prepared_text_def runs_def andRun_def quiet_def nesting_def)

lemma run_statement_ends: "ends (run_statement W exec sql st)"
proof (cases st)
  case (Vacuum tbl)
  then show ?thesis by (cases tbl) (simp_all add: ends_intros)
qed (simp_all add: ends_intros)

lemma settled_statement_ends [ends_intros]: "ends (settled_statement W exec sql t st)"
proof (rule endsI)
  fix e :: engine and s
  assume "quiet e"
  with run_statement_ends [of W exec sql st] obtain r e1 s1 where r: "run_statement W exec sql st e s = Some (r, e1, s1)"
    unfolding ends_def by (metis not_None_eq surj_pair)
  then show "settled_statement W exec sql t st e s \<noteq> None"
    by (cases r) (auto simp: settled_statement_def save_and_finish_def runs_def andRun_def split: option.splits prod.splits sum.splits)
qed

lemma parsed_statement_ends [ends_intros]: "ends (parsed_statement W exec sql t tr)"
proof -
  have "ends (unparsed_statement W sql t tr)"
    unfolding unparsed_statement_def unparsed_vacuum_def run_records_def Let_def
    by (auto intro!: ends_intros keeps_intros split: list.splits)
  then show ?thesis unfolding parsed_statement_def by (auto intro: ends_intros split: sum.splits list.splits)
qed

lemma checked_statement_ends [ends_intros]: "ends (checked_statement W exec sql t tr)"
  unfolding checked_statement_def Let_def by (auto intro!: ends_intros split: list.splits)

lemma flush_before_keeps [keeps_intros]: "keeps nesting (flush_before W upper)"
  unfolding flush_before_def by (intro keeps_intros)

lemma dispatch_ends:
  assumes "session_command (to_uppercase (trim_statement sql)) \<noteq> Some DoBlock"
  shows "ends (dispatch W exec sql t)"
proof -
  have flush: "ends (flush_statement W sql t tr)" for tr
    unfolding flush_statement_def by (intro ends_intros keeps_intros)
  have "ends (run_command W exec sql t tr c)" if "session_command (to_uppercase (trim_statement sql)) = Some c" for tr c
    using that assms unfolding run_command_def by (auto intro!: ends_intros command_handler_ends)
  then show ?thesis unfolding dispatch_def Let_def
    by (auto intro!: ends_intros keeps_intros flush split: option.splits)
qed

section \<open>Statements that are executed as they are written\<close>

lemma drain_idle [simp]: "en_pending_analyze e = [] \<Longrightarrow> drain_pending_analyze W e s = (Inr (), e, s)"
  by (simp add: drain_pending_analyze_def andThen_def)

lemma expand_idle:
  "\<not> contains_str nextval_open (to_lowercase sql) \<Longrightarrow> expand_nextval sql e s = (Inr sql, e, s)"
  by (simp add: expand_nextval_def expand_nextval_calls_def)

text \<open>No sequence call, no AS OF, no call of a function, no FTS_MATCH, and no table to analyze first.\<close>

definition as_written :: "'s world \<Rightarrow> string \<Rightarrow> engine \<Rightarrow> bool" where
  "as_written W sql e \<longleftrightarrow>
     en_pending_analyze e = [] \<and> \<not> contains_str nextval_open (to_lowercase sql) \<and>
     parse_as_of_timestamp (w_rfc3339 W) (w_naive_time W) sql = None \<and> effective_sql sql e = Inr sql"

lemma execute_as_written:
  "as_written W sql e \<Longrightarrow> execute W (Suc d) sql e s = dispatch W (execute W d) sql (w_clock W s) e s"
  by (simp add: as_written_def andRun_def runs_def at_time_def execute_with_def expand_idle)

lemma as_written_plain:
  assumes "en_pending_analyze e = []" "cat_udfs (en_catalog e) = []"
    and "find_str nextval_open (to_lowercase sql) = None" "find_str as_of_marker (to_uppercase sql) = None"
    and "find_str ''FTS_MATCH('' (to_uppercase sql) = None"
  shows "as_written W sql e"
  using assms
  by (simp add: as_written_def contains_str_def parse_as_of_timestamp_def effective_sql_def
      expand_user_defined_functions_def hm_values_def rewrite_fulltext_match_sql_def)

text \<open>
  C14. Statements that execute no other return. Where there are no procedures, prepared
  statements, triggers and migrations, every statement that is not a DO block, be it valid or
  not, returns a result at depth 1, whatever the outside answers.
\<close>

theorem statement_without_nesting_ends:
  assumes quiet: "quiet e" and drained: "en_pending_analyze e = []"
    and block: "\<And>x c eff. expand_nextval_calls sql (en_catalog e) = (Inr x, c) \<Longrightarrow>
      effective_sql x (with_catalog c e) = Inr eff \<Longrightarrow>
      session_command (to_uppercase (trim_statement eff)) \<noteq> Some DoBlock"
  shows "execute W (Suc d) sql e s \<noteq> None"
proof -
  obtain r c where x: "expand_nextval_calls sql (en_catalog e) = (r, c)" by (cases "expand_nextval_calls sql (en_catalog e)")
  then have e1: "expand_nextval sql e s = (map_sum catalog_message id r, with_catalog c e, s)"
    by (simp add: expand_nextval_def)
  have q: "quiet (with_catalog c e)" by (rule quiet_keeps [OF expand_nextval_nesting quiet e1])
  have asof: "ends (finish W sql t (runs (execute_as_of_timestamp W y ts)))" for t y ts by (intro ends_intros)
  show ?thesis
  proof (cases r)
    case (Inr y)
    show ?thesis
    proof (cases "parse_as_of_timestamp (w_rfc3339 W) (w_naive_time W) y")
      case None
      have "dispatch W (execute W d) eff t (with_catalog c e) s \<noteq> None" if "effective_sql y (with_catalog c e) = Inr eff" for eff t
        using dispatch_ends [OF block [OF x [unfolded Inr] that], of W "execute W d" t] q unfolding ends_def by blast
      with None Inr e1 drained show ?thesis
        by (cases "effective_sql y (with_catalog c e)") (simp_all add: andRun_def runs_def at_time_def execute_with_def)
    next
      case (Some ts)
      with asof [of _ y ts] q Inr e1 drained show ?thesis
        by (simp add: andRun_def runs_def at_time_def execute_with_def ends_def)
    qed
  qed (use e1 drained in \<open>simp add: andRun_def runs_def at_time_def execute_with_def\<close>)
qed

lemma select_as_written: "as_written W ''SELECT 1'' bare_engine"
  by (rule as_written_plain) (simp_all, code_simp+)

lemma select_command: "session_command (to_uppercase (trim_statement ''SELECT 1'')) = None"
  by code_simp

lemma quiet_bare [simp]: "quiet bare_engine"
  by (simp add: quiet_def nesting_def)

theorem statement_without_nesting_ends_witness:
  "execute idle_world (Suc 0) ''SELECT 1'' bare_engine () \<noteq> None"
proof (rule statement_without_nesting_ends)
  fix x c eff
  assume "expand_nextval_calls ''SELECT 1'' (en_catalog bare_engine) = (Inr x, c)"
    and "effective_sql x (with_catalog c bare_engine) = Inr eff"
  with select_as_written [of idle_world] have "eff = ''SELECT 1''"
    by (auto simp: as_written_def expand_nextval_calls_def)
  then show "session_command (to_uppercase (trim_statement eff)) \<noteq> Some DoBlock" by (simp add: select_command)
qed simp_all

theorem deeper_execution_agrees_witness:
  "\<exists>r. execute idle_world 1 ''SELECT 1'' bare_engine () = Some r \<and> execute idle_world 9 ''SELECT 1'' bare_engine () = Some r"
proof -
  have clock: "w_clock idle_world () = 0" by (simp add: idle_world_def)
  have "ends (dispatch idle_world (execute idle_world 0) ''SELECT 1'' 0)"
    by (rule dispatch_ends) (simp add: select_command)
  then have "dispatch idle_world (execute idle_world 0) ''SELECT 1'' 0 bare_engine () \<noteq> None"
    by (rule endsD) (rule quiet_bare)
  then obtain r where "dispatch idle_world (execute idle_world 0) ''SELECT 1'' 0 bare_engine () = Some r" by blast
  then have r: "execute idle_world (Suc 0) ''SELECT 1'' bare_engine () = Some r"
    by (simp only: execute_as_written [OF select_as_written] clock)
  have "execute idle_world 9 ''SELECT 1'' bare_engine () = Some r" by (rule deeper_execution_agrees [OF r]) simp
  with r show ?thesis unfolding One_nat_def by blast
qed

text \<open>A procedure that calls itself.\<close>

definition calls_itself :: "engine \<Rightarrow> bool" where
  "calls_itself e \<longleftrightarrow>
     hm_get (en_procedures e) ''p'' = Some ''CALL p'' \<and> en_buffer e = [] \<and> en_pending_analyze e = [] \<and>
     cat_udfs (en_catalog e) = []"

lemma call_text:
  "trim_statement ''CALL p'' = ''CALL p''" "to_uppercase ''CALL p'' = ''CALL P''"
  "\<not> is_flush ''CALL P''" "session_command ''CALL P'' = Some Call"
  "needs_no_flush ''CALL P'' = False" "split_sql_statements ''CALL p'' = [''CALL p'']"
  "split_once is_ws (strip_statement ''CALL p'') = Some (''CALL'', ''p'')"
  "trim_matches dquote (trim (hd (split_char (CHR ''('') (trim ''p'')))) = ''p''"
  by code_simp+

lemma call_as_written: "calls_itself e \<Longrightarrow> as_written W ''CALL p'' e"
  by (rule as_written_plain) (simp add: calls_itself_def, simp add: calls_itself_def, code_simp+)

text \<open>
  Nothing bounds the nesting of statements. A procedure whose body calls the procedure
  returns at no depth, whatever the outside answers.
\<close>

theorem procedure_calling_itself_never_ends:
  assumes "calls_itself e"
  shows "execute W d ''CALL p'' e s = None"
  using assms
proof (induction d arbitrary: e s)
  case (Suc d)
  have flush: "flush_before W ''CALL P'' e s = (Inr (), e, s)"
    using Suc.prems by (simp add: flush_before_def call_text flush_buffered_for_sql_def calls_itself_def andThen_def)
  have "handle_call_procedure (execute W d) ''CALL p'' e s = None"
    using Suc.prems Suc.IH [OF Suc.prems]
    by (simp add: handle_call_procedure_def call_text Let_def andRun_def runs_def calls_itself_def)
  then have "dispatch W (execute W d) ''CALL p'' t e s = None" for t
    by (simp add: dispatch_def Let_def call_text andRun_def runs_def flush run_command_def saves_catalog_def finish_def)
  then show ?case by (simp only: execute_as_written [OF call_as_written [OF Suc.prems]])
qed simp

theorem procedure_calling_itself_never_ends_witness:
  "execute idle_world 1000 ''CALL p'' (bare_engine\<lparr>en_procedures := [(''p'', ''CALL p'')]\<rparr>) () = None"
  by (rule procedure_calling_itself_never_ends) (simp add: calls_itself_def)

end
