(* ===== verification/Dispatch_Props.thy ===== *)
theory Dispatch_Props
  imports Run_Props Access_Props Wal_Props Txn_Props
begin

text \<open>
  Properties of \<^verbatim>\<open>execute\<close> as a whole: what the access check guards, and what becomes of logged
  statements that failed or that cannot be read back when the database is opened again.
\<close>

section \<open>Statements that reach the parser\<close>

definition reaches_parser :: "string \<Rightarrow> bool" where
  "reaches_parser upper \<longleftrightarrow>
     \<not> is_flush upper \<and> session_command upper = None \<and> \<not> starts_with ''TRUNCATE '' upper \<and>
     \<not> starts_with ''REFRESH MATERIALIZED VIEW '' upper \<and> upper \<noteq> ''CHECKPOINT'' \<and> upper \<noteq> ''CHECKPOINT;''"

text \<open>A statement that is taken as it is written, is admitted, and finds nothing to flush.\<close>

definition ready :: "'s world \<Rightarrow> string \<Rightarrow> engine \<Rightarrow> bool" where
  "ready W sql e \<longleftrightarrow> as_written W sql e \<and> en_buffer e = [] \<and> enforce_access (trim_statement sql) e = Inr ()"

lemma flush_before_idle [simp]: "en_buffer e = [] \<Longrightarrow> flush_before W u e s = (Inr (), e, s)"
  by (simp add: flush_before_def flush_buffered_for_sql_def andThen_def)

lemma execute_parsed:
  assumes "ready W sql e" and "reaches_parser (to_uppercase (trim_statement sql))" and "w_parse W sql = Inr [st]"
  shows "execute W (Suc d) sql e s = settled_statement W (execute W d) sql (w_clock W s) st e s"
proof -
  have written: "as_written W sql e" using assms(1) by (simp add: ready_def)
  show ?thesis
    unfolding execute_as_written [OF written] using assms
    by (simp add: ready_def reaches_parser_def dispatch_def Let_def andRun_def runs_def checked_statement_def
        parsed_statement_def)
qed

text \<open>A statement whose handler fails without making the catalog dirty.\<close>

lemma failed_statement:
  assumes "run_statement W exec sql st e s = Some (Inl err, e1, s1)" and "\<not> dirty (en_catalog e1)"
  shows "\<exists>e'. settled_statement W exec sql t st e s = Some (Inl err, e', s1) \<and>
     en_wal e' = en_wal e1 \<and> en_catalog e' = en_catalog e1"
  using assms
  by (cases "error_returns st")
    (auto simp: settled_statement_def save_and_finish_def runs_def flush_catalog_def finalize_query_def split: prod.splits)

section \<open>Statements that fail after they are logged\<close>

text \<open>An ALTER TABLE whose operations fail on a table with these columns, after some were carried out.\<close>

definition alter_fails ::
  "'s world \<Rightarrow> string \<Rightarrow> string \<Rightarrow> alter_operation list \<Rightarrow> column_def list \<Rightarrow> string \<Rightarrow> column_def list \<Rightarrow> bool"
where
  "alter_fails W sql tbl ops cols err changed \<longleftrightarrow>
     reaches_parser (to_uppercase (trim_statement sql)) \<and> w_parse W sql = Inr [AlterTable tbl ops False] \<and>
     parse_alter_table_rename sql = None \<and> parse_retention_setting sql = None \<and>
     alter_columns tbl ops cols = (Inl err, changed)"

lemma alter_steps:
  assumes "alter_fails W sql tbl ops (tm_columns m) err changed" and "hm_get (cat_tables (en_catalog e)) tbl = Some m"
  shows "handle_alter_table W sql tbl ops False e s =
     (Inl err, with_catalog (set_columns tbl changed (en_catalog e)) (wal_append_pending W sql e), s)"
proof -
  have "en_catalog (wal_append_pending W sql e) = en_catalog e" by (simp add: wal_append_pending_def)
  with assms show ?thesis
    by (simp add: handle_alter_table_def andThen_def hm_contains_def alter_fails_def alter_operations_def the_table_def
        change_catalog_def)
qed

lemma execute_alter_fails:
  assumes ready: "ready W sql e" and fails: "alter_fails W sql tbl ops (tm_columns m) err changed"
    and m: "hm_get (cat_tables (en_catalog e)) tbl = Some m" and clean: "\<not> dirty (en_catalog e)"
  shows "\<exists>e'. execute W (Suc d) sql e s = Some (Inl err, e', s) \<and> en_wal e' = en_wal (wal_append_pending W sql e) \<and>
     en_catalog e' = set_columns tbl changed (en_catalog e)"
proof -
  let ?e1 = "with_catalog (set_columns tbl changed (en_catalog e)) (wal_append_pending W sql e)"
  have run: "run_statement W exec sql (AlterTable tbl ops False) e s = Some (Inl err, ?e1, s)" for exec
    using alter_steps [OF fails m] by (simp add: runs_def)
  have "\<not> dirty (en_catalog ?e1)" using clean by (simp add: set_columns_def)
  from failed_statement [OF run this] obtain e' where
    "settled_statement W (execute W d) sql (w_clock W s) (AlterTable tbl ops False) e s = Some (Inl err, e', s)"
    "en_wal e' = en_wal ?e1" "en_catalog e' = en_catalog ?e1" by blast
  with execute_parsed [OF ready] fails show ?thesis by (simp add: alter_fails_def)
qed

lemma failing_replay:
  assumes "execute W d (we_sql en) (e\<lparr>en_replaying := True\<rparr>) s = Some (Inl err, e', s')"
  shows "replay_statements W d (en # ens) e s = Some (Inl err, e', s')"
  using assms by (simp add: replay_statements_def andRun_def runs_def set_replaying_def)

text \<open>
  C38. A failed ALTER TABLE locks the database. When an ALTER TABLE fails part of the way, the
  operations before the error stay in the catalog of the running process, the stored catalog is
  not touched, and the statement stays in the log as one to be replayed. After a crash it is
  the statement that recovery returns; replaying it on the stored table fails in the same way,
  and with it the opening of the database.
\<close>

theorem failed_alter_blocks_reopening:
  assumes fails: "alter_fails W sql tbl ops (tm_columns m) err changed"
    and ready: "ready W sql e" and m: "hm_get (cat_tables (en_catalog e)) tbl = Some m" and clean: "\<not> dirty (en_catalog e)"
    and outside: "en_txn e = None" "\<not> en_replaying e"
    and log: "en_wal e = Some w" "wal_inv (w_crc W) w" "wal_log (w_crc W) w = []" "entry_ok (entry 0 Pending sql)" "sql \<noteq> []"
    and again: "ready W sql (e0\<lparr>en_replaying := True\<rparr>)" "hm_get (cat_tables (en_catalog e0)) tbl = Some m0"
      "tm_columns m0 = tm_columns m" "\<not> dirty (en_catalog e0)"
  shows "\<exists>e' w'. execute W (Suc d) sql e s = Some (Inl err, e', s) \<and>
     en_catalog e' = set_columns tbl changed (en_catalog e) \<and> en_wal e' = Some w' \<and>
     wal_recover (w_crc W) (Some (wl_bytes w')) = Inr [entry 0 Pending sql] \<and>
     (\<exists>e''. replay_statements W (Suc d) [entry 0 Pending sql] e0 s = Some (Inl err, e'', s))"
proof -
  let ?w = "append_no_sync (w_crc W) (entry 0 Pending sql) w"
  from execute_alter_fails [OF ready fails m clean] obtain e' where first: "execute W (Suc d) sql e s = Some (Inl err, e', s)"
    "en_wal e' = en_wal (wal_append_pending W sql e)" "en_catalog e' = set_columns tbl changed (en_catalog e)" by blast
  have wal: "en_wal e' = Some ?w"
    using first(2) outside log(1) by (simp add: wal_append_pending_def pending_entry_def current_wal_txn_id_def)
  from append_no_sync_log [OF log(2,4)] log(3)
  have "wal_inv (w_crc W) ?w" "wal_log (w_crc W) ?w = [entry 0 Pending sql]" by simp_all
  with wal_recover_log log(5)
  have "wal_recover (w_crc W) (Some (wl_bytes ?w)) = Inr [entry 0 Pending sql]" by (simp add: replay_entries_def)
  moreover have "\<exists>e''. replay_statements W (Suc d) [entry 0 Pending sql] e0 s = Some (Inl err, e'', s)"
  proof -
    from fails again(3) have "alter_fails W sql tbl ops (tm_columns m0) err changed" by simp
    from execute_alter_fails [OF again(1) this] again(2,4) obtain e'' where
      "execute W (Suc d) (we_sql (entry 0 Pending sql)) (e0\<lparr>en_replaying := True\<rparr>) s = Some (Inl err, e'', s)"
      by (auto simp del: execute.simps)
    from failing_replay [OF this] show ?thesis by blast
  qed
  ultimately show ?thesis using first wal by blast
qed

section \<open>What the access check guards\<close>

definition access_state :: "engine \<Rightarrow> string \<times> (string, string list) hashmap \<times> (string, role_def) hashmap" where
  "access_state e = (en_user e, cat_user_roles (en_catalog e), cat_roles (en_catalog e))"

interpretation access: row_frame access_state
  by unfold_locales (simp_all add: access_state_def set_file_stats_def)

lemma enforce_access_state:
  assumes "access_state e' = access_state e"
  shows "enforce_access sql e' = enforce_access sql e"
proof -
  have same: "en_user e' = en_user e" "cat_user_roles (en_catalog e') = cat_user_roles (en_catalog e)"
    "privileges_in (en_catalog e') = privileges_in (en_catalog e)"
    using assms by (auto simp: access_state_def privileges_in_def)
  have rights: "current_user_is_admin e' = current_user_is_admin e" "user_has_privilege a t e' = user_has_privilege a t e" for a t
    unfolding current_user_is_admin_def user_has_privilege_def same by (rule refl)+
  show ?thesis unfolding enforce_access_def same(1) rights by (rule refl)
qed

text \<open>
  C10. What a denied statement leaves behind. A statement that reaches the access check, after the pending
  ANALYZEs, its nextval calls, its functions and FTS_MATCH have been put in, and is denied ends
  with an error. The values its nextval calls drew stay drawn, and rows it found in the buffer
  may have been flushed; apart from these sequences, the unsaved-changes flag and file statistics, the open
  transaction, the statement log, the catalog and the users' rights are as before, and nothing was
  executed.
\<close>

theorem denied_statement_changes_nothing:
  assumes first: "drain_pending_analyze W e s = (Inr (), e0, s0)"
    and taken: "expand_nextval sql e0 s0 = (Inr x, e1, s0)"
    and current: "parse_as_of_timestamp (w_rfc3339 W) (w_naive_time W) x = None"
    and effective: "effective_sql x e1 = Inr eff"
    and guarded: "\<not> is_flush (to_uppercase (trim_statement eff))" "session_command (to_uppercase (trim_statement eff)) = None"
    and denied: "enforce_access (trim_statement eff) e1 = Inl err"
  shows "\<exists>msg c e' s'. execute W (Suc d) sql e s = Some (Inl msg, e', s') \<and>
     draws (en_catalog e0) c \<and> (\<not> contains_str nextval_open (to_lowercase sql) \<longrightarrow> c = en_catalog e0) \<and>
     txn_state e' = txn_state (with_catalog c e0) \<and> access_state e' = access_state e0 \<and>
     (en_buffer e0 = [] \<longrightarrow> msg = err \<and> e' = with_catalog c e0 \<and> s' = s0)"
proof -
  obtain c where c: "e1 = with_catalog c e0" "draws (en_catalog e0) c"
    "\<not> contains_str nextval_open (to_lowercase sql) \<longrightarrow> c = en_catalog e0"
    using taken by (auto simp: expand_nextval_def expand_nextval_calls_def split: if_splits prod.splits dest: nextval_from_draws)
  obtain f e' s' where f: "flush_before W (to_uppercase (trim_statement eff)) e1 s0 = (f, e', s')"
    by (cases "flush_before W (to_uppercase (trim_statement eff)) e1 s0")
  have keeps: "keeps txn_state (flush_before W u)" "keeps access_state (flush_before W u)" for u
    unfolding flush_before_def by (intro keeps_intros)+
  note same = keepsD [OF keeps(1) f] keepsD [OF keeps(2) f]
  from enforce_access_state [OF same(2)] denied have "enforce_access (trim_statement eff) e' = Inl err" by simp
  then have "\<exists>msg. execute W (Suc d) sql e s = Some (Inl msg, e', s') \<and> (f = Inr () \<longrightarrow> msg = err)"
    using first taken current effective guarded f
    by (cases f) (simp_all add: execute_with_def at_time_def dispatch_def Let_def andRun_def runs_def)
  moreover have "en_buffer e0 = [] \<Longrightarrow> f = Inr () \<and> e' = e1 \<and> s' = s0" using f c(1) by simp
  moreover have "access_state e1 = access_state e0" using c(1,2) by (auto simp: draws_def access_state_def)
  ultimately show ?thesis using same c by metis
qed

abbreviation grant_to_eve :: string where
  "grant_to_eve \<equiv> ''GRANT ALL ON t TO eve''"

lemma grant_text:
  "trim_statement grant_to_eve = grant_to_eve" "to_uppercase grant_to_eve = ''GRANT ALL ON T TO EVE''"
  "\<not> is_flush ''GRANT ALL ON T TO EVE''" "session_command ''GRANT ALL ON T TO EVE'' = Some Grant"
  "needs_no_flush ''GRANT ALL ON T TO EVE''"
  "split_whitespace (strip_statement grant_to_eve) = [''GRANT'', ''ALL'', ''ON'', ''t'', ''TO'', ''eve'']"
  "trim_matches dquote ''eve'' = ''eve''" "to_uppercase ''ALL'' = ''ALL''"
  by code_simp+

lemma grant_as_written:
  "en_pending_analyze e = [] \<Longrightarrow> cat_udfs (en_catalog e) = [] \<Longrightarrow> as_written W grant_to_eve e"
  by (rule as_written_plain) (assumption, assumption, code_simp+)

lemma save_and_finish_pure:
  assumes "txn_frame g" and log: "\<And>e l. g (e\<lparr>en_query_log := l\<rparr>) = g e"
  shows "\<exists>r e' s'. save_and_finish W sql t False (pure_handler h) e s = Some (r, e', s') \<and> g e' = g (snd (h e))"
proof -
  obtain q e1 where h: "h e = (q, e1)" by (cases "h e")
  obtain f e2 s2 where f: "flush_catalog W e1 s = (f, e2, s2)" by (cases "flush_catalog W e1 s")
  have "g e2 = g e1" by (rule keepsD [OF txn_frame.flush_catalog_keeps [OF assms(1)] f])
  with log h f show ?thesis
    by (cases f) (auto simp: save_and_finish_def pure_handler_def finalize_query_def)
qed

text \<open>
  C37. Rights can be taken. GRANT is executed before the access check: any user, whatever its
  rights, may execute GRANT ALL to itself, and every statement is admitted from then on.
\<close>

theorem any_user_becomes_admin:
  assumes "en_pending_analyze e = []" "cat_udfs (en_catalog e) = []"
    and user: "en_user e = ''eve''" "hm_contains (cat_users (en_catalog e)) ''eve''"
  shows "\<exists>r e' s'. execute W (Suc d) grant_to_eve e s = Some (r, e', s') \<and> (\<forall>any. enforce_access any e' = Inr ())"
proof -
  let ?h = "handle_grant grant_to_eve"
  let ?run = "save_and_finish W grant_to_eve (w_clock W s) False (pure_handler ?h) e s"
  have run: "execute W (Suc d) grant_to_eve e s = ?run"
    unfolding execute_as_written [OF grant_as_written [OF assms(1,2)]]
    by (simp add: dispatch_def Let_def grant_text andRun_def runs_def flush_before_def run_command_def saves_catalog_def
        ends_autocommit_def)
  have "txn_frame access_state" by unfold_locales
  moreover have "access_state (e\<lparr>en_query_log := l\<rparr>) = access_state e" for e l by (simp add: access_state_def)
  ultimately have "\<exists>r e' s'. ?run = Some (r, e', s') \<and> access_state e' = access_state (snd (?h e))"
    by (rule save_and_finish_pure)
  then obtain r e' s' where end_: "?run = Some (r, e', s')" and "access_state e' = access_state (snd (?h e))" by blast
  from this(2) have "enforce_access any e' = enforce_access any (snd (?h e))" for any by (rule enforce_access_state)
  moreover have "enforce_access any (as_user ''eve'' (snd (?h e))) = Inr ()" for any
    by (rule grant_all_makes_admin [OF grant_text(6,8)]) (simp_all add: grant_text user(2))
  moreover have "as_user ''eve'' (snd (?h e)) = snd (?h e)"
    using user(1) by (simp add: as_user_def handle_grant_def Let_def)
  ultimately show ?thesis using run end_ by auto
qed

section \<open>Logged statements that cannot be read back\<close>

abbreviation drop_t :: string where
  "drop_t \<equiv> ''DROP TABLE '' @ ident ''t''"

lemma drop_t_text: "drop_text ''TABLE'' ''t'' False = drop_t" "reaches_parser (to_uppercase (trim_statement drop_t))"
  by code_simp+

text \<open>The rest of DROP TABLE does not touch the log.\<close>

interpretation log_frame: storage_frame en_wal
  by unfold_locales simp_all

lemma drop_table_logs:
  assumes "hm_get (cat_tables (en_catalog e)) nm = Some m" and "handle_drop_table W nm x e s = (r, e', s')"
  shows "en_wal e' = en_wal (wal_append_pending W (drop_text ''TABLE'' nm x) e)"
proof -
  have "keeps en_wal (andThen (change_catalog (\<lambda>c. snd (remove_table nm c))) (\<lambda>_.
      andThen (outside (w_deregister W nm)) (\<lambda>_.
      andThen (change (invalidate_uniqueness_cache_for_table nm)) (\<lambda>_.
      andThen (drop_storage W m) (\<lambda>_. message q)))))" for q
    unfolding change_catalog_def drop_storage_def message_def
    by (intro keeps_intros) (simp_all add: invalidate_uniqueness_cache_for_table_def defer_delete_def)
  from keepsD [OF this] assms show ?thesis by (auto simp: handle_drop_table_def)
qed

text \<open>
  DROP TABLE cannot be replayed. What is logged of a DROP TABLE quotes the name; the parser
  prints a quoted name with its quotes, and the name looked up on replay is this text. So when
  the log holds the statement after a crash, opening the database fails with the error that the
  quoted table does not exist, even though the table does.
\<close>

theorem logged_drop_cannot_be_replayed:
  assumes parser: "w_parse W drop_t = Inr [DropObject TableObject [ident ''t''] False]"
    and logged: "hm_contains (cat_tables (en_catalog e)) ''t''" "\<not> en_replaying e" "en_wal e = Some w"
      "handle_drop_table W ''t'' False e s = (r, e', s')"
    and replay: "ready W drop_t (e0\<lparr>en_replaying := True\<rparr>)" "\<not> dirty (en_catalog e0)"
      "\<not> hm_contains (cat_tables (en_catalog e0)) (ident ''t'')"
  shows "en_wal e' = Some (append_no_sync (w_crc W) (pending_entry drop_t e) w) \<and>
     (\<exists>e''. replay_statements W (Suc d) (pending_entry drop_t e # ens) e0 s0 =
        Some (Inl (''Table '' @ in_quotes (ident ''t'') @ '' does not exist''), e'', s0))"
proof
  from logged(1) obtain m where "hm_get (cat_tables (en_catalog e)) ''t'' = Some m" by (auto simp: hm_contains_def)
  from drop_table_logs [OF this logged(4)] logged(2,3)
  show "en_wal e' = Some (append_no_sync (w_crc W) (pending_entry drop_t e) w)"
    by (simp add: wal_append_pending_def drop_t_text)
next
  let ?e = "e0\<lparr>en_replaying := True\<rparr>" and ?st = "DropObject TableObject [ident ''t''] False"
  let ?err = "''Table '' @ in_quotes (ident ''t'') @ '' does not exist''"
  have run: "run_statement W exec drop_t ?st ?e s0 = Some (Inl ?err, ?e, s0)" for exec
    using replay(3) by (simp add: runs_def handle_drop_table_def andThen_def hm_contains_def missing_def skip_or_fail_def)
  have "\<not> dirty (en_catalog ?e)" using replay(2) by simp
  from failed_statement [OF run this] obtain e'' where
    "settled_statement W (execute W d) drop_t (w_clock W s0) ?st ?e s0 = Some (Inl ?err, e'', s0)" by blast
  with execute_parsed [OF replay(1) drop_t_text(2) parser]
  have "execute W (Suc d) (we_sql (pending_entry drop_t e)) ?e s0 = Some (Inl ?err, e'', s0)"
    by (simp only: pending_entry_def wal_entry.select_convs)
  from failing_replay [OF this] show "\<exists>e''. replay_statements W (Suc d) (pending_entry drop_t e # ens) e0 s0 =
      Some (Inl ?err, e'', s0)" by blast
qed

section \<open>Witnesses\<close>

text \<open>The new database with a table, a log and another user.\<close>

definition table_engine :: engine where
  "table_engine = bare_engine\<lparr>en_wal := Some (wal_open None),
     en_catalog := (en_catalog bare_engine)\<lparr>cat_tables := [(''t'', plain_table ''t'')]\<rparr>\<rparr>"

definition eve_engine :: engine where
  "eve_engine = bare_engine\<lparr>en_user := ''eve'',
     en_catalog := (en_catalog bare_engine)\<lparr>cat_users := [(''eve'', \<lparr>us_name = ''eve'', us_password = []\<rparr>)]\<rparr>\<rparr>"

lemma bare_rights: "en_user bare_engine = ''potatodb''" "cat_user_roles (en_catalog bare_engine) = [(''potatodb'', [''admin''])]"
  "cat_roles (en_catalog bare_engine) = [(''admin'', \<lparr>rl_name = ''admin'', rl_privileges = [\<lparr>pv_kind = ''ALL'', pv_table = None\<rparr>]\<rparr>)]"
  "en_txn bare_engine = None" "\<not> en_replaying bare_engine" "\<not> dirty (en_catalog bare_engine)"
  by (simp_all add: bare_engine_def engine_new_def bootstrap_users_def with_data_def empty_data_def Let_def hm_insert_def)

lemma admin_rights: "enforce_access sql table_engine = Inr ()"
  by (simp add: enforce_access_def current_user_is_admin_def table_engine_def bare_rights privileges_in_def)

definition one_statement :: "stmt \<Rightarrow> unit world" where
  "one_statement st = idle_world\<lparr>w_parse := (\<lambda>_. Inr [st])\<rparr>"

abbreviation alter_t :: string where
  "alter_t \<equiv> ''ALTER TABLE t ADD COLUMN b INT, DROP COLUMN c''"

definition alter_world :: "unit world" where
  "alter_world = one_statement (AlterTable ''t''
     [AddColumn \<lparr>ca_name = ''b'', ca_type = ''INT'', ca_not_null = False\<rparr> False, DropColumn [''c''] False] False)"

lemma alter_text: "reaches_parser (to_uppercase (trim_statement alter_t))" "parse_alter_table_rename alter_t = None"
  "parse_retention_setting alter_t = None" "find_str nextval_open (to_lowercase alter_t) = None"
  "find_str as_of_marker (to_uppercase alter_t) = None" "find_str ''FTS_MATCH('' (to_uppercase alter_t) = None"
  by code_simp+

lemma alter_entry_ok: "entry_ok (entry 0 Pending alter_t)"
  by (simp add: entry_ok_def)

lemma drop_text_plain: "find_str nextval_open (to_lowercase drop_t) = None"
  "find_str as_of_marker (to_uppercase drop_t) = None" "find_str ''FTS_MATCH('' (to_uppercase drop_t) = None"
  by code_simp+

lemma table_engine_ready:
  assumes "find_str nextval_open (to_lowercase sql) = None" "find_str as_of_marker (to_uppercase sql) = None"
    "find_str ''FTS_MATCH('' (to_uppercase sql) = None"
  shows "ready W sql table_engine" "ready W sql (table_engine\<lparr>en_replaying := True\<rparr>)"
proof -
  have "as_written W sql table_engine" "as_written W sql (table_engine\<lparr>en_replaying := True\<rparr>)"
    using assms by (auto intro!: as_written_plain simp: table_engine_def)
  moreover have "enforce_access x (table_engine\<lparr>en_replaying := True\<rparr>) = enforce_access x table_engine" for x
    by (rule enforce_access_state) (simp add: access_state_def)
  ultimately show "ready W sql table_engine" "ready W sql (table_engine\<lparr>en_replaying := True\<rparr>)"
    by (simp_all add: ready_def admin_rights) (simp_all add: table_engine_def)
qed

theorem failed_alter_blocks_reopening_witness:
  "\<exists>e' w'. execute alter_world (Suc 0) alter_t table_engine () =
      Some (Inl (''Column '' @ in_quotes ''c'' @ '' does not exist in '' @ in_quotes ''t''), e', ()) \<and>
     map cd_name (tm_columns (the (hm_get (cat_tables (en_catalog e')) ''t''))) = [''b''] \<and> en_wal e' = Some w' \<and>
     wal_recover (w_crc alter_world) (Some (wl_bytes w')) = Inr [entry 0 Pending alter_t]"
proof -
  let ?err = "''Column '' @ in_quotes ''c'' @ '' does not exist in '' @ in_quotes ''t''"
  let ?cols = "[\<lparr>cd_name = ''b'', cd_type = ''INT'', cd_nullable = True\<rparr>]"
  have parse: "w_parse alter_world alter_t = Inr [AlterTable ''t'' [AddColumn \<lparr>ca_name = ''b'', ca_type = ''INT'',
      ca_not_null = False\<rparr> False, DropColumn [''c''] False] False]"
    by (simp add: alter_world_def one_statement_def)
  have fails: "alter_fails alter_world alter_t ''t'' [AddColumn \<lparr>ca_name = ''b'', ca_type = ''INT'', ca_not_null = False\<rparr> False,
      DropColumn [''c''] False] (tm_columns (plain_table ''t'')) ?err ?cols"
    unfolding alter_fails_def using alter_text(1-3) parse
    by (simp add: plain_table_def sql_column_to_catalog_def Let_def)
  have wal: "en_wal table_engine = Some (wal_open None)" "wal_inv (w_crc alter_world) (wal_open None)"
    "wal_log (w_crc alter_world) (wal_open None) = []"
    using wal_invI [of "[]" "wal_open None" "w_crc alter_world"] by (simp_all add: wal_open_def table_engine_def)
  have tbl: "hm_get (cat_tables (en_catalog table_engine)) ''t'' = Some (plain_table ''t'')" "\<not> dirty (en_catalog table_engine)"
    "en_txn table_engine = None" "\<not> en_replaying table_engine"
    by (simp_all add: table_engine_def bare_rights)
  from failed_alter_blocks_reopening [OF fails table_engine_ready(1) [OF alter_text(4-6)] tbl wal alter_entry_ok _
      table_engine_ready(2) [OF alter_text(4-6)] tbl(1) refl tbl(2), of 0 "()"]
  show ?thesis using tbl by (fastforce simp: set_columns_def)
qed

theorem logged_drop_cannot_be_replayed_witness:
  "\<exists>e''. replay_statements (one_statement (DropObject TableObject [ident ''t''] False)) (Suc 0)
      [pending_entry drop_t table_engine] table_engine () =
     Some (Inl (''Table '' @ in_quotes (ident ''t'') @ '' does not exist''), e'', ())"
proof -
  let ?W = "one_statement (DropObject TableObject [ident ''t''] False)"
  obtain r e' s' where run: "handle_drop_table ?W ''t'' False table_engine () = (r, e', s')" by (metis surj_pair)
  have quoted: "ident ''t'' \<noteq> ''t''" by (simp add: ident_def)
  have facts: "w_parse ?W drop_t = Inr [DropObject TableObject [ident ''t''] False]"
    "hm_contains (cat_tables (en_catalog table_engine)) ''t''" "\<not> en_replaying table_engine"
    "en_wal table_engine = Some (wal_open None)" "\<not> dirty (en_catalog table_engine)"
    "\<not> hm_contains (cat_tables (en_catalog table_engine)) (ident ''t'')"
    using quoted by (simp_all add: one_statement_def table_engine_def bare_rights hm_contains_def)
  from logged_drop_cannot_be_replayed [OF facts(1-4) run table_engine_ready(2) [OF drop_text_plain] facts(5,6), of 0 "[]" "()"]
  show ?thesis by (rule conjunct2)
qed

theorem any_user_becomes_admin_witness:
  "enforce_access ''DROP TABLE t'' eve_engine \<noteq> Inr () \<and>
   (\<exists>r e' s'. execute idle_world (Suc 0) grant_to_eve eve_engine () = Some (r, e', s') \<and> enforce_access ''DROP TABLE t'' e' = Inr ())"
proof
  have "granted (en_catalog eve_engine) (en_user eve_engine) = {}"
    by (simp add: granted_def roles_of_def eve_engine_def bare_rights)
  then show "enforce_access ''DROP TABLE t'' eve_engine \<noteq> Inr ()" by (simp add: access_iff)
next
  have "en_pending_analyze eve_engine = []" "cat_udfs (en_catalog eve_engine) = []" "en_user eve_engine = ''eve''"
    "hm_contains (cat_users (en_catalog eve_engine)) ''eve''"
    by (simp_all add: eve_engine_def hm_contains_def)
  from any_user_becomes_admin [OF this, of idle_world 0 "()"]
  show "\<exists>r e' s'. execute idle_world (Suc 0) grant_to_eve eve_engine () = Some (r, e', s') \<and>
      enforce_access ''DROP TABLE t'' e' = Inr ()" by blast
qed

theorem denied_statement_changes_nothing_witness:
  "\<exists>msg. execute idle_world (Suc 0) ''DELETE FROM t'' eve_engine () = Some (Inl msg, eve_engine, ())"
proof -
  have plain: "\<not> is_flush (to_uppercase (trim_statement ''DELETE FROM t''))"
    "session_command (to_uppercase (trim_statement ''DELETE FROM t'')) = None"
    "find_str nextval_open (to_lowercase ''DELETE FROM t'') = None" "find_str as_of_marker (to_uppercase ''DELETE FROM t'') = None"
    "find_str ''FTS_MATCH('' (to_uppercase ''DELETE FROM t'') = None"
    by code_simp+
  have "granted (en_catalog eve_engine) (en_user eve_engine) = {}"
    by (simp add: granted_def roles_of_def eve_engine_def bare_rights)
  then have "enforce_access (trim_statement ''DELETE FROM t'') eve_engine \<noteq> Inr ()" by (simp add: access_iff)
  then obtain err where denied: "enforce_access (trim_statement ''DELETE FROM t'') eve_engine = Inl err"
    by (cases "enforce_access (trim_statement ''DELETE FROM t'') eve_engine") auto
  let ?t = "''DELETE FROM t''"
  have asw: "as_written idle_world ?t eve_engine" by (rule as_written_plain [OF _ _ plain(3-5)]) (simp_all add: eve_engine_def)
  note parts = asw [unfolded as_written_def]
  note plain_text = parts [THEN conjunct2, THEN conjunct1]
  note steps = drain_idle [OF parts [THEN conjunct1]] expand_idle [OF plain_text]
    parts [THEN conjunct2, THEN conjunct2, THEN conjunct1] parts [THEN conjunct2, THEN conjunct2, THEN conjunct2]
  have quiet: "en_buffer eve_engine = []" by (simp add: eve_engine_def)
  from denied_statement_changes_nothing [of idle_world eve_engine "()", OF steps plain(1,2) denied, of 0]
  show ?thesis
  proof (elim exE conjE)
    fix msg c e' s'
    assume r: "execute idle_world (Suc 0) ?t eve_engine () = Some (Inl msg, e', s')"
      and c: "\<not> contains_str nextval_open (to_lowercase ?t) \<longrightarrow> c = en_catalog eve_engine"
      and same: "en_buffer eve_engine = [] \<longrightarrow> msg = err \<and> e' = with_catalog c eve_engine \<and> s' = ()"
    have "e' = eve_engine" using c plain_text same quiet by (simp only:) simp
    moreover have "s' = ()" using same quiet by (simp only: unit_eq)
    ultimately show ?thesis using r by (simp only:) (rule exI, rule refl)
  qed
qed

end
