(* ===== verification/Fulltext_Props.thy ===== *)
theory Fulltext_Props
  imports Dml
begin

text \<open>
  The inverted index against a scan of the texts: what a search finds, in an index built from a
  table and in one that inserted rows were added to.
\<close>

section \<open>What the index holds\<close>

text \<open>The documents a word occurs in, from the numbered texts.\<close>

definition holding :: "string \<Rightarrow> (nat \<times> string) list \<Rightarrow> string \<Rightarrow> (string \<times> nat) set" where
  "holding tbl docs w = {(tbl, i) | i doc. (i, doc) \<in> set docs \<and> w \<in> set (tokenize doc)}"

definition scan_search :: "string \<Rightarrow> (nat \<times> string) list \<Rightarrow> string \<Rightarrow> (string \<times> nat) set" where
  "scan_search tbl docs query =
     {(tbl, i) | i doc. (i, doc) \<in> set docs \<and> tokenize query \<noteq> [] \<and> set (tokenize query) \<subseteq> set (tokenize doc)}"

lemma postings_add_token:
  "set (postings (add_token tbl row w idx) v) = set (postings idx v) \<union> (if v = w then {(tbl, row)} else {})"
  by (auto simp: postings_def add_token_def split: option.splits)

lemma postings_add_tokens:
  "set (postings (fold (add_token tbl row) ws idx) v) = set (postings idx v) \<union> (if v \<in> set ws then {(tbl, row)} else {})"
  by (induction ws arbitrary: idx) (auto simp: postings_add_token)

lemma postings_add_document:
  "set (postings (add_document tbl row doc idx) v) = set (postings idx v) \<union> (if v \<in> set (tokenize doc) then {(tbl, row)} else {})"
  by (simp add: add_document_def postings_add_tokens)

lemma postings_add_documents:
  "set (postings (fold (\<lambda>(i, doc). add_document tbl i doc) docs idx) v) = set (postings idx v) \<union> holding tbl docs v"
proof (induction docs arbitrary: idx)
  case (Cons d docs)
  obtain i doc where d: "d = (i, doc)" by (cases d)
  show ?case
    by (simp add: d Cons.IH postings_add_document) (auto simp: holding_def)
qed (simp add: holding_def)

lemma search_words:
  assumes "tokenize query \<noteq> []"
  shows "search query idx = {p. \<forall>w \<in> set (tokenize query). p \<in> set (postings idx w)}"
proof -
  have "fold (\<lambda>t found. found \<inter> set (postings idx t)) ts start = {p \<in> start. \<forall>w \<in> set ts. p \<in> set (postings idx w)}" for ts start
    by (induction ts arbitrary: start) auto
  with assms show ?thesis by (cases "tokenize query") (auto simp: search_def)
qed

text \<open>The words of each numbered document are those of one text.\<close>

definition numbered :: "(nat \<times> string) list \<Rightarrow> bool" where
  "numbered docs \<longleftrightarrow> distinct (map fst docs)"

lemma search_holding:
  assumes "numbered docs" and "\<And>w. set (postings idx w) = holding tbl docs w"
  shows "search query idx = scan_search tbl docs query"
proof (cases "tokenize query = []")
  case True
  then show ?thesis by (simp add: search_def scan_search_def)
next
  case False
  have one: "b = a" if "(i, a) \<in> set docs" "(i, b) \<in> set docs" for i a b
    using assms(1) that by (auto simp: numbered_def dest: eq_key_imp_eq_value)
  obtain w0 where w0: "w0 \<in> set (tokenize query)" using False by (cases "tokenize query") auto
  show ?thesis
  proof (intro set_eqI iffI)
    fix p
    assume "p \<in> search query idx"
    then have all: "\<forall>w \<in> set (tokenize query). p \<in> holding tbl docs w"
      by (simp add: search_words [OF False] assms(2))
    with w0 obtain i doc where p: "p = (tbl, i)" "(i, doc) \<in> set docs" unfolding holding_def by blast
    have "w \<in> set (tokenize doc)" if w: "w \<in> set (tokenize query)" for w
    proof -
      from all w obtain b where "(i, b) \<in> set docs" "w \<in> set (tokenize b)" unfolding holding_def p by blast
      with one [OF p(2)] show ?thesis by blast
    qed
    with p False show "p \<in> scan_search tbl docs query" unfolding scan_search_def by blast
  next
    fix p
    assume "p \<in> scan_search tbl docs query"
    then show "p \<in> search query idx"
      unfolding search_words [OF False] assms(2) scan_search_def holding_def by blast
  qed
qed

lemma index_rows_documents:
  "index_rows tbl target cols bs start idx =
     fold (\<lambda>(i, doc). add_document tbl i doc)
       (zip [start..<start + length (batch_rows bs)] (map (inserted_text target cols) (batch_rows bs))) idx"
  by (simp add: index_rows_def zip_map2 fold_map comp_def case_prod_beta')

definition number_from :: "nat \<Rightarrow> string list \<Rightarrow> (nat \<times> string) list" where
  "number_from n ts = zip [n..<n + length ts] ts"

lemma number_from_append: "number_from n (xs @ ys) = number_from n xs @ number_from (n + length xs) ys"
  using upt_add_eq_append [of n "n + length xs" "length ys"] by (simp add: number_from_def add.assoc)

lemma numbered_number_from: "numbered (number_from n ts)"
  by (simp add: numbered_def number_from_def)

lemma length_number_from [simp]: "length (number_from n ts) = length ts"
  by (simp add: number_from_def)

lemma holding_append: "holding tbl (xs @ ys) w = holding tbl xs w \<union> holding tbl ys w"
  by (auto simp: holding_def)

lemma postings_build: "set (postings (build_index tbl cols bs) w) = holding tbl (number_from 0 (table_texts cols bs)) w"
  by (simp add: build_index_def postings_add_documents postings_def [of "[]"] number_from_def)

lemma postings_index_rows:
  assumes "\<And>w. set (postings idx w) = holding tbl (number_from 0 ts) w"
  shows "set (postings (index_rows tbl target cols bs (length ts) idx) w) =
    holding tbl (number_from 0 (ts @ map (inserted_text target cols) (batch_rows bs))) w"
  unfolding index_rows_documents postings_add_documents assms number_from_append holding_append
  by (simp add: number_from_def)

section \<open>An index over the statements of a session\<close>

text \<open>
  What is asked of the query engine, \<open>rows\<close> being the number of stored rows of the table: the count of the
  table and the query of the index are answered and change nothing, an INSERT from a temporary table that
  succeeds adds the rows registered in it, and registering changes nothing.
\<close>

definition answers :: "'s world \<Rightarrow> ('s \<Rightarrow> nat) \<Rightarrow> string \<Rightarrow> (nat \<Rightarrow> record_batch list \<Rightarrow> bool) \<Rightarrow> bool" where
  "answers W rows q P \<longleftrightarrow>
     (\<forall>s. \<exists>bs s'. w_sql W q s = (Inr bs, s') \<and> P (rows s) bs \<and> rows s' = rows s) \<and>
     (\<forall>s. \<exists>bs s'. w_run_plan W q s = (Inr bs, s') \<and> P (rows s) bs \<and> rows s' = rows s)"

definition insert_from :: "string \<Rightarrow> string list \<Rightarrow> string \<Rightarrow> string" where
  "insert_from tbl target tmp = ''INSERT INTO '' @ ident tbl @ '' ('' @ idents target @ '') SELECT * FROM '' @ ident tmp"

definition counts_rows :: "'s world \<Rightarrow> ('s \<Rightarrow> nat) \<Rightarrow> fulltext_index_def \<Rightarrow> bool" where
  "counts_rows W rows d \<longleftrightarrow>
     answers W rows (''SELECT COUNT(*) FROM '' @ ident (ft_table d))
       (\<lambda>n bs. \<exists>f. bs = [\<lparr>rb_fields = [f], rb_rows = [[CInt (int n)]]\<rparr>]) \<and>
     answers W rows (index_sql d) (\<lambda>n bs. total_rows bs = n) \<and>
     (\<forall>nm s. rows (snd (w_deregister W nm s)) = rows s) \<and>
     (\<forall>target tmp bs s s1 out s2. w_register W tmp bs s = (Inr (), s1) \<longrightarrow>
        w_sql W (insert_from (ft_table d) target tmp) s1 = (Inr out, s2) \<longrightarrow> rows s2 = rows s + total_rows bs)"

text \<open>
  The texts an index is over: those of the rows when CREATE FULLTEXT INDEX was executed, and of the rows
  that inserts which write at once added; in between anything that leaves the number of rows and the indexes alone.
\<close>

inductive indexed :: "'s world \<Rightarrow> ('s \<Rightarrow> nat) \<Rightarrow> string \<Rightarrow> fulltext_index_def \<Rightarrow> string list \<Rightarrow> engine \<times> 's \<Rightarrow> bool"
  for W rows nm d where
  created: "handle_create_fulltext_index W sql e s = (Inr r, e', s') \<Longrightarrow> parse_fulltext_index sql = Inr (nm, d) \<Longrightarrow>
    hm_wf (en_fulltext e) \<Longrightarrow> collect_with_plan_cache W (index_sql d)
      ((wal_append_pending W sql e)\<lparr>en_fulltext := hm_insert nm d (en_fulltext e)\<rparr>) s = (Inr bs, e1, s1) \<Longrightarrow>
    indexed W rows nm d (table_texts (ft_columns d) bs) (e', s')"
| inserted: "indexed W rows nm d ts (e, s) \<Longrightarrow> insert_batches W (ft_table d) target bs e s = (Inr (), e', s') \<Longrightarrow>
    indexed W rows nm d (ts @ map (inserted_text target (ft_columns d)) (batch_rows bs)) (e', s')"
| elsewhere: "indexed W rows nm d ts (e, s) \<Longrightarrow> en_fulltext e' = en_fulltext e \<Longrightarrow> en_inverted e' = en_inverted e \<Longrightarrow>
    rows s' = rows s \<Longrightarrow> indexed W rows nm d ts (e', s')"

lemma collect_answers:
  assumes "answers W rows q P"
  obtains bs e' s' where "collect_with_plan_cache W q e s = (Inr bs, e', s')" "P (rows s) bs" "rows s' = rows s"
    "en_fulltext e' = en_fulltext e" "en_inverted e' = en_inverted e"
proof -
  obtain bs s1 where sql: "w_sql W q s = (Inr bs, s1)" "P (rows s) bs" "rows s1 = rows s"
    using assms unfolding answers_def by blast
  obtain bs' s1' where plan: "w_run_plan W q s = (Inr bs', s1')" "P (rows s) bs'" "rows s1' = rows s"
    using assms unfolding answers_def by blast
  consider "\<not> is_read_only_sql q" | "is_read_only_sql q" "q \<in> set (en_plan_cache e)"
    | "is_read_only_sql q" "q \<notin> set (en_plan_cache e)" by blast
  then show ?thesis
  proof cases
    case 1
    then show ?thesis using sql by (intro that [of bs e s1]) (simp_all add: collect_with_plan_cache_def run_or_rewrite_def)
  next
    case 2
    then show ?thesis
      using plan
      by (intro that [of bs' "e\<lparr>en_plan_hits := u64_saturating_add (en_plan_hits e) 1\<rparr>" s1'])
        (simp_all add: collect_with_plan_cache_def)
  next
    case 3
    then show ?thesis
      using sql by (intro that [of bs "e\<lparr>en_plan_cache := List.insert q (en_plan_cache e)\<rparr>" s1])
        (simp_all add: collect_with_plan_cache_def run_or_rewrite_def Let_def)
  qed
qed

text \<open>What an index keeps to.\<close>

definition index_of :: "string \<Rightarrow> fulltext_index_def \<Rightarrow> string list \<Rightarrow> engine \<Rightarrow> bool" where
  "index_of nm d ts e \<longleftrightarrow> hm_wf (en_fulltext e) \<and> hm_get (en_fulltext e) nm = Some d \<and>
     (\<exists>idx. hm_get (en_inverted e) nm = Some idx \<and>
        (\<forall>w. set (postings idx w) = holding (ft_table d) (number_from 0 ts) w))"

lemma length_table_texts: "length (table_texts cols bs) = total_rows bs"
  by (induction bs) (simp_all add: table_texts_def total_rows_def num_rows_def)

lemma length_batch_rows: "length (batch_rows bs) = total_rows bs"
  by (induction bs) (simp_all add: batch_rows_def total_rows_def num_rows_def)

lemma index_inserted_get:
  assumes "hm_wf fts" and "hm_get fts nm = Some d" and "ft_table d = tbl"
  shows "hm_get (fold (\<lambda>(nm, d) im. if ft_table d = tbl
      then hm_modify nm (index_rows tbl target (ft_columns d) bs start) im else im) fts im) nm =
    map_option (index_rows tbl target (ft_columns d) bs start) (hm_get im nm)"
  using assms
proof (induction fts arbitrary: im)
  case (Cons x fts)
  obtain k d0 where x: "x = (k, d0)" by (cases x)
  show ?case
  proof (cases "k = nm")
    case True
    have "nm \<notin> set (map fst fts)" using Cons.prems(1) x True by (simp add: hm_wf_def)
    then have "hm_get (fold (\<lambda>(nm, d) im. if ft_table d = tbl
        then hm_modify nm (index_rows tbl target (ft_columns d) bs start) im else im) fts im') nm = hm_get im' nm" for im'
      by (induction fts arbitrary: im') auto
    then show ?thesis using Cons.prems(2,3) x True by simp
  next
    case False
    with Cons.prems x have "hm_wf fts" "hm_get fts nm = Some d" by (auto simp: hm_wf_def)
    from Cons.IH [OF this Cons.prems(3)] False show ?thesis by (simp add: x)
  qed
qed simp

lemma created_index:
  assumes world: "counts_rows W rows d" and run: "handle_create_fulltext_index W sql e s = (Inr r, e', s')"
    and parse: "parse_fulltext_index sql = Inr (nm, d)" and wf: "hm_wf (en_fulltext e)"
    and query: "collect_with_plan_cache W (index_sql d)
      ((wal_append_pending W sql e)\<lparr>en_fulltext := hm_insert nm d (en_fulltext e)\<rparr>) s = (Inr bs, e1, s1)"
  shows "index_of nm d (table_texts (ft_columns d) bs) e' \<and> rows s' = length (table_texts (ft_columns d) bs)"
proof -
  let ?e0 = "(wal_append_pending W sql e)\<lparr>en_fulltext := hm_insert nm d (en_fulltext e)\<rparr>"
  have same: "en_fulltext (wal_append_pending W sql e) = en_fulltext e" by (simp add: wal_append_pending_def)
  have "answers W rows (index_sql d) (\<lambda>n bs. total_rows bs = n)" using world by (simp add: counts_rows_def)
  then obtain bs' e1' s1' where "collect_with_plan_cache W (index_sql d) ?e0 s = (Inr bs', e1', s1')"
    "total_rows bs' = rows s" "rows s1' = rows s" "en_fulltext e1' = en_fulltext ?e0" "en_inverted e1' = en_inverted ?e0"
    by (rule collect_answers [where s = s and e = ?e0])
  with query have q: "total_rows bs = rows s" "rows s1 = rows s" "en_fulltext e1 = hm_insert nm d (en_fulltext e)" by simp_all
  have "e' = e1\<lparr>en_inverted := hm_insert nm (build_index (ft_table d) (ft_columns d) bs) (en_inverted e1)\<rparr>" "s' = s1"
    using run query by (simp_all add: handle_create_fulltext_index_def parse rebuild_index_def same)
  then show ?thesis using q wf by (simp add: index_of_def postings_build length_table_texts)
qed

lemma insert_batches_parts:
  assumes world: "counts_rows W rows d" and run: "insert_batches W (ft_table d) target bs e s = (Inr (), e', s')"
    and some: "total_rows bs \<noteq> 0"
  obtains e1 s1 where "en_fulltext e1 = en_fulltext e" "en_inverted e1 = en_inverted e" "rows s1 = rows s + total_rows bs"
    "update_fulltext W (ft_table d) target bs e1 s1 = (Inr (), e', s')"
proof -
  obtain tmp e1 where t: "next_temp_table_name ''ins'' e = (tmp, e1)" by fastforce
  then have tmp: "en_fulltext e1 = en_fulltext e" "en_inverted e1 = en_inverted e"
    by (auto simp: next_temp_table_name_def Let_def)
  obtain q1 s1 where reg: "w_register W tmp bs s = (q1, s1)" by fastforce
  obtain q2 s2 where ins: "w_sql W (insert_from (ft_table d) target tmp) s1 = (q2, s2)" by fastforce
  have steps: "andThen (outside (w_register W tmp bs)) (\<lambda>_.
      andThen (run_query W (insert_from (ft_table d) target tmp)) (\<lambda>_.
      andThen (attempt (outside (w_deregister W tmp))) (\<lambda>_.
      update_fulltext W (ft_table d) target bs))) e1 s = (Inr (), e', s')"
    using run some by (simp add: insert_batches_def insert_from_def t)
  obtain u where q1: "q1 = Inr u" using steps reg by (cases q1) (auto simp: outside_def)
  obtain out where q2: "q2 = Inr out"
    using steps reg ins q1 by (cases q2) (auto simp: outside_def run_query_def run_sql_def)
  have upd: "update_fulltext W (ft_table d) target bs e1 (snd (w_deregister W tmp s2)) = (Inr (), e', s')"
    using steps reg ins q1 q2
    by (cases "w_deregister W tmp s2") (auto simp: outside_def run_query_def run_sql_def attempt_def)
  have "rows (snd (w_deregister W tmp s2)) = rows s + total_rows bs"
    using world reg ins q1 q2 unfolding counts_rows_def by auto
  from that [OF tmp this upd] show ?thesis .
qed

lemma insert_batches_rows:
  assumes world: "counts_rows W rows d" and run: "insert_batches W (ft_table d) target bs e s = (Inr (), e', s')"
  shows "rows s' = rows s + total_rows bs"
proof (cases "total_rows bs = 0")
  case True
  with run show ?thesis by (simp add: insert_batches_def)
next
  case False
  from insert_batches_parts [OF world run False] obtain e1 s1 where n: "rows s1 = rows s + total_rows bs"
    and upd: "update_fulltext W (ft_table d) target bs e1 s1 = (Inr (), e', s')" .
  have "answers W rows (''SELECT COUNT(*) FROM '' @ ident (ft_table d))
       (\<lambda>n bs. \<exists>f. bs = [\<lparr>rb_fields = [f], rb_rows = [[CInt (int n)]]\<rparr>])" using world by (simp add: counts_rows_def)
  then obtain cs e2 s2 where "collect_with_plan_cache W (''SELECT COUNT(*) FROM '' @ ident (ft_table d)) e1 s1 = (Inr cs, e2, s2)"
    "rows s2 = rows s1" by (rule collect_answers [where s = s1 and e = e1])
  then have "rows s' = rows s1" using upd by (auto simp: update_fulltext_def split: if_splits)
  with n show ?thesis by simp
qed

lemma inserted_rows:
  assumes world: "counts_rows W rows d" and run: "insert_batches W (ft_table d) target bs e s = (Inr (), e', s')"
    and kept: "index_of nm d ts e" "rows s = length ts" and small: "rows s' < 2 ^ 63"
  shows "index_of nm d (ts @ map (inserted_text target (ft_columns d)) (batch_rows bs)) e'"
proof (cases "total_rows bs = 0")
  case True
  then have "batch_rows bs = []" using length_batch_rows [of bs] by simp
  with True run kept show ?thesis by (simp add: insert_batches_def)
next
  case False
  let ?tbl = "ft_table d"
  from kept(1) have wf: "hm_wf (en_fulltext e)" and d: "hm_get (en_fulltext e) nm = Some d"
    and "\<exists>idx. hm_get (en_inverted e) nm = Some idx \<and> (\<forall>w. set (postings idx w) = holding ?tbl (number_from 0 ts) w)"
    by (auto simp: index_of_def)
  then obtain idx where idx: "hm_get (en_inverted e) nm = Some idx" "\<And>w. set (postings idx w) = holding ?tbl (number_from 0 ts) w"
    by blast
  from insert_batches_parts [OF world run False] obtain e1 s1 where
    e1: "en_fulltext e1 = en_fulltext e" "en_inverted e1 = en_inverted e" "rows s1 = rows s + total_rows bs"
    and upd: "update_fulltext W ?tbl target bs e1 s1 = (Inr (), e', s')" .
  have some: "list_ex (\<lambda>d. ft_table d = ?tbl) (hm_values (en_fulltext e1))"
    using d e1(1) by (force simp: list_ex_iff hm_values_def dest: map_of_SomeD)
  have "answers W rows (''SELECT COUNT(*) FROM '' @ ident ?tbl)
       (\<lambda>n bs. \<exists>f. bs = [\<lparr>rb_fields = [f], rb_rows = [[CInt (int n)]]\<rparr>])" using world by (simp add: counts_rows_def)
  then obtain cs e2 s2 where count: "collect_with_plan_cache W (''SELECT COUNT(*) FROM '' @ ident ?tbl) e1 s1 = (Inr cs, e2, s2)"
    "\<exists>f. cs = [\<lparr>rb_fields = [f], rb_rows = [[CInt (int (rows s1))]]\<rparr>]"
    "en_fulltext e2 = en_fulltext e1" "en_inverted e2 = en_inverted e1"
    by (rule collect_answers [where s = s1 and e = e1])
  have "int (rows s1) < 2 ^ 64"
    using small insert_batches_rows [OF world run] e1(3) by simp
  then have "i64_as_u64 (int (rows s1)) - total_rows bs = length ts" using e1(3) kept(2) by (simp add: i64_as_u64_def)
  then have "e' = index_inserted ?tbl target bs (length ts) e2"
    using upd some count(1,2) by (auto simp: update_fulltext_def)
  then have "en_fulltext e' = en_fulltext e"
    "hm_get (en_inverted e') nm = Some (index_rows ?tbl target (ft_columns d) bs (length ts) idx)"
    using index_inserted_get [OF wf d refl] count(3,4) e1(1,2) idx(1) by (simp_all add: index_inserted_def)
  then show ?thesis
    using postings_index_rows [OF idx(2)] wf d by (simp add: index_of_def)
qed

lemma indexed_kept:
  assumes world: "counts_rows W rows d" and "indexed W rows nm d ts x" and "rows (snd x) < 2 ^ 63"
  shows "index_of nm d ts (fst x) \<and> rows (snd x) = length ts"
  using assms(2,3)
proof (induction rule: indexed.induct)
  case (created sql e s r e' s' bs e1 s1)
  from created_index [OF world created(1-4)] show ?case by simp
next
  case (inserted ts e s target bs e' s')
  have n: "rows s' = rows s + total_rows bs" by (rule insert_batches_rows [OF world inserted(2)])
  with inserted have kept: "index_of nm d ts e" "rows s = length ts" "rows s' < 2 ^ 63" by simp_all
  from inserted_rows [OF world inserted(2) kept] n kept show ?case by (simp add: length_batch_rows)
next
  case (elsewhere ts e s e' s')
  then show ?case by (simp add: index_of_def)
qed

text \<open>
  C17. Full-text search is a scan. After CREATE FULLTEXT INDEX and any inserts that write at once, searching the index
  finds exactly the numbers of the texts that hold every word of the query, the texts being those of the rows
  that were stored when the index was created and of the rows inserted since, numbered from 0 in
  this order; a query without words finds nothing. In between the number of stored rows may not
  change: DELETE, UPDATE and the flush of buffered rows do not maintain the index, and after a DELETE the
  next insert, numbered from the count of the table, gives a number away twice.
\<close>

theorem search_equals_scan:
  assumes "counts_rows W rows d" and "indexed W rows nm d ts (e, s)" and "rows s < 2 ^ 63"
  shows "\<exists>idx. hm_get (en_inverted e) nm = Some idx \<and>
     (\<forall>query. search query idx = scan_search (ft_table d) (number_from 0 ts) query)"
proof -
  from indexed_kept [OF assms(1,2)] assms(3) obtain idx where idx: "hm_get (en_inverted e) nm = Some idx"
    "\<And>w. set (postings idx w) = holding (ft_table d) (number_from 0 ts) w"
    by (auto simp: index_of_def)
  from search_holding [OF numbered_number_from idx(2)] idx(1) show ?thesis by blast
qed

text \<open>A table of one column in a query engine that counts: its state is the number of rows and of rows registered last.\<close>

abbreviation ft_sql :: string where
  "ft_sql \<equiv> ''CREATE FULLTEXT INDEX i ON t (a)''"

definition ft_def :: fulltext_index_def where
  "ft_def = \<lparr>ft_table = ''t'', ft_columns = [''a'']\<rparr>"

definition count_all :: string where
  "count_all = ''SELECT COUNT(*) FROM '' @ ident ''t''"

definition counting :: "string \<Rightarrow> nat \<times> nat \<Rightarrow> (sql_error, record_batch list) result \<times> nat \<times> nat" where
  "counting q = (\<lambda>(n, m).
     if q = count_all
     then (Inr [\<lparr>rb_fields = [''c''], rb_rows = [[CInt (int n)]]\<rparr>], (n, m))
     else if q = index_sql ft_def then (Inr [\<lparr>rb_fields = [''a''], rb_rows = replicate n [CNull]\<rparr>], (n, m))
     else (Inr [], (n + m, m)))"

definition ft_world :: "(nat \<times> nat) world" where
  "ft_world = idle_world\<lparr>w_sql := counting, w_run_plan := counting, w_register := (\<lambda>_ bs (n, m). (Inr (), (n, total_rows bs)))\<rparr>"

definition ft_engine :: engine where
  "ft_engine = engine_new (\<lambda>_. None) 0 InMemory [] [] None None (with_data empty_data ''c'')"

definition ft_rows :: record_batch where
  "ft_rows = \<lparr>rb_fields = [''a''], rb_rows = [[CText ''a red hen''], [CText ''The red fox'']]\<rparr>"

lemma ft_texts: "index_sql ft_def \<noteq> count_all" "insert_from tbl target tmp \<noteq> count_all"
  "insert_from tbl target tmp \<noteq> index_sql ft_def" "''SELECT COUNT(*) FROM '' @ ident (ft_table ft_def) = count_all"
  by (simp_all add: index_sql_def ft_def_def insert_from_def idents_def ident_def count_all_def)

lemma counting_counts: "counts_rows ft_world fst ft_def"
  unfolding counts_rows_def answers_def ft_texts(4)
  using ft_texts(1)
  by (auto simp: ft_world_def counting_def ft_texts(2,3) idle_world_def total_rows_def num_rows_def split: prod.splits)

lemma ft_created: "\<exists>r e. handle_create_fulltext_index ft_world ft_sql ft_engine (0, 0) = (Inr r, e, (0, 0)) \<and>
   indexed ft_world fst ''i'' ft_def [] (e, (0, 0))"
proof -
  have parse: "parse_fulltext_index ft_sql = Inr (''i'', ft_def)" unfolding ft_def_def by code_simp
  let ?e0 = "(wal_append_pending ft_world ft_sql ft_engine)\<lparr>en_fulltext := hm_insert ''i'' ft_def (en_fulltext ft_engine)\<rparr>"
  have "is_read_only_sql (index_sql ft_def)" unfolding ft_def_def by code_simp
  moreover have "en_plan_cache ?e0 = []"
    by (simp add: wal_append_pending_def ft_engine_def engine_new_def Let_def)
  moreover have "counting (index_sql ft_def) (0, 0) = (Inr [\<lparr>rb_fields = [''a''], rb_rows = []\<rparr>], (0, 0))"
    using ft_texts(1) by (simp add: counting_def)
  ultimately obtain e1 where q: "collect_with_plan_cache ft_world (index_sql ft_def) ?e0 (0, 0) =
      (Inr [\<lparr>rb_fields = [''a''], rb_rows = []\<rparr>], e1, (0, 0))"
    by (simp add: collect_with_plan_cache_def run_or_rewrite_def ft_world_def Let_def)
  have wf: "hm_wf (en_fulltext ft_engine)" by (simp add: ft_engine_def engine_new_def Let_def)
  have same: "en_fulltext (wal_append_pending W sql e) = en_fulltext e" for W :: "(nat \<times> nat) world" and sql e
    by (simp add: wal_append_pending_def)
  have "\<exists>r e. handle_create_fulltext_index ft_world ft_sql ft_engine (0, 0) = (Inr r, e, (0, 0))"
    using q by (simp add: handle_create_fulltext_index_def parse rebuild_index_def same)
  then obtain r e where run: "handle_create_fulltext_index ft_world ft_sql ft_engine (0, 0) = (Inr r, e, (0, 0))" by blast
  from indexed.created [OF this parse wf q, of fst] run show ?thesis by (auto simp: table_texts_def)
qed

theorem search_equals_scan_witness:
  "\<exists>r e e' s' idx. handle_create_fulltext_index ft_world ft_sql ft_engine (0, 0) = (Inr r, e, (0, 0)) \<and>
     insert_batches ft_world ''t'' [''a''] [ft_rows] e (0, 0) = (Inr (), e', s') \<and>
     hm_get (en_inverted e') ''i'' = Some idx \<and> search ''red fox'' idx = {(''t'', 1)}"
proof -
  obtain r e where create: "handle_create_fulltext_index ft_world ft_sql ft_engine (0, 0) = (Inr r, e, (0, 0))"
    and start: "indexed ft_world fst ''i'' ft_def [] (e, (0, 0))" using ft_created by blast
  obtain tmp e1 where t: "next_temp_table_name ''ins'' e = (tmp, e1)" by fastforce
  have "\<exists>e' s'. insert_batches ft_world ''t'' [''a''] [ft_rows] e (0, 0) = (Inr (), e', s') \<and> fst s' < 2 ^ 63"
  proof -
    have rows: "total_rows [ft_rows] \<noteq> 0" by (simp add: total_rows_def num_rows_def ft_rows_def)
    have reg: "outside (w_register ft_world tmp [ft_rows]) e1 (0, 0) = (Inr (), e1, (0, 2))"
      by (simp add: outside_def ft_world_def total_rows_def num_rows_def ft_rows_def)
    have ins: "run_query ft_world (insert_from ''t'' [''a''] tmp) e1 (0, 2) = (Inr [], e1, (2, 2))"
      by (simp add: outside_def run_query_def run_sql_def ft_world_def counting_def ft_texts(2,3))
    have dereg: "attempt (outside (w_deregister ft_world tmp)) e1 (2, 2) = (Inr (), e1, (2, 2))"
      by (simp add: attempt_def outside_def ft_world_def idle_world_def)
    obtain cs e2 s2 where count: "collect_with_plan_cache ft_world count_all e1 (2, 2) = (Inr cs, e2, s2)" "fst s2 = 2"
    proof (rule collect_answers [where s = "(2, 2)" and e = e1 and W = ft_world and q = count_all and rows = fst])
      show "answers ft_world fst count_all (\<lambda>n bs. \<exists>f. bs = [\<lparr>rb_fields = [f], rb_rows = [[CInt (int n)]]\<rparr>])"
        using counting_counts by (simp only: counts_rows_def ft_texts(4))
    qed simp
    obtain e3 s3 where 3: "update_fulltext ft_world ''t'' [''a''] [ft_rows] e1 (2, 2) = (Inr (), e3, s3)" "fst s3 = 2"
    proof (cases "list_ex (\<lambda>d. ft_table d = ''t'') (hm_values (en_fulltext e1))")
      case True
      with count that show ?thesis by (simp add: update_fulltext_def count_all_def Let_def)
    next
      case False
      with that [of e1 "(2, 2)"] show ?thesis by (simp add: update_fulltext_def)
    qed
    have "insert_batches ft_world ''t'' [''a''] [ft_rows] e (0, 0) = (Inr (), e3, s3)"
      unfolding insert_batches_def insert_from_def [symmetric]
      using reg ins dereg 3(1) rows by (simp add: t)
    then show ?thesis using 3(2) by auto
  qed
  then obtain e' s' where run: "insert_batches ft_world ''t'' [''a''] [ft_rows] e (0, 0) = (Inr (), e', s')"
    and small: "fst s' < 2 ^ 63" by blast
  have texts: "map (inserted_text [''a''] (ft_columns ft_def)) (batch_rows [ft_rows]) = [''a red hen'', ''The red fox'']"
    unfolding ft_def_def ft_rows_def by code_simp
  have "insert_batches ft_world (ft_table ft_def) [''a''] [ft_rows] e (0, 0) = (Inr (), e', s')"
    using run by (simp add: ft_def_def)
  from indexed.inserted [OF start this] texts
  have "indexed ft_world fst ''i'' ft_def [''a red hen'', ''The red fox''] (e', s')" by simp
  from search_equals_scan [OF counting_counts this small] obtain idx where idx: "hm_get (en_inverted e') ''i'' = Some idx"
    "search ''red fox'' idx = scan_search ''t'' (number_from 0 [''a red hen'', ''The red fox'']) ''red fox''"
    by (auto simp: ft_def_def)
  have "tokenize ''a red hen'' = [''red'', ''hen'']" "tokenize ''The red fox'' = [''the'', ''red'', ''fox'']"
    "tokenize ''red fox'' = [''red'', ''fox'']" by code_simp+
  then have "scan_search ''t'' (number_from 0 [''a red hen'', ''The red fox'']) ''red fox'' = {(''t'', 1)}"
    by (auto simp: scan_search_def number_from_def)
  with idx run create show ?thesis by metis
qed

end
