(* ===== verification/Schema_Props.thy ===== *)
theory Schema_Props
  imports Dispatch Row_Frames
begin

text \<open>
  The indexes of the catalog under the statements on schemas: a table with indexes has exactly
  one primary index, the others are logical, and every index is on a table that exists.
\<close>

section \<open>Preserving an invariant\<close>

text \<open>An action preserves a predicate on engines, however it ends.\<close>

definition preserves :: "(engine \<Rightarrow> bool) \<Rightarrow> ('a, 's) action \<Rightarrow> bool" where
  "preserves P m \<longleftrightarrow> (\<forall>e s. P e \<longrightarrow> P (fst (snd (m e s))))"

named_theorems preserves_intros \<open>which actions preserve which predicates\<close>

lemma preservesI: "(\<And>e s r e' s'. P e \<Longrightarrow> m e s = (r, e', s') \<Longrightarrow> P e') \<Longrightarrow> preserves P m"
  unfolding preserves_def by (metis fst_conv snd_conv surj_pair)

lemma preservesD: "preserves P m \<Longrightarrow> P e \<Longrightarrow> m e s = (r, e', s') \<Longrightarrow> P e'"
  unfolding preserves_def by (metis fst_conv snd_conv)

lemma preserves_kept: "keeps g m \<Longrightarrow> preserves (\<lambda>e. Q (g e)) m"
  by (rule preservesI) (simp add: keepsD)

lemma preserves_andThen [preserves_intros]:
  "preserves P m \<Longrightarrow> (\<And>a. preserves P (f a)) \<Longrightarrow> preserves P (andThen m f)"
  unfolding preserves_def andThen_def by (simp split: prod.splits sum.splits) (metis fst_conv snd_conv)

lemma preserves_basic [preserves_intros]:
  "preserves P (ok a)" "preserves P (fail msg)" "preserves P (asks h)" "preserves P (outside k)" "preserves P (look l)"
  "preserves P (message q)"
  by (simp_all add: preserves_def outside_def look_def message_def split_beta)

lemma preserves_each [preserves_intros]: "(\<And>x. preserves P (f x)) \<Longrightarrow> preserves P (each f xs)"
proof (induction xs)
  case Nil
  show ?case unfolding each.simps by (rule preserves_basic)
next
  case (Cons x xs)
  show ?case unfolding each.simps by (rule preserves_andThen) (rule Cons)+
qed

lemma preserves_attempt [preserves_intros]: "preserves P m \<Longrightarrow> preserves P (attempt m)"
  by (simp add: preserves_def attempt_def split_beta)

lemma preserves_cases [preserves_intros]:
  "(b \<Longrightarrow> preserves P m) \<Longrightarrow> (\<not> b \<Longrightarrow> preserves P n) \<Longrightarrow> preserves P (if b then m else n)"
  "preserves P m \<Longrightarrow> (\<And>x. preserves P (f x)) \<Longrightarrow> preserves P (case opt of None \<Rightarrow> m | Some x \<Rightarrow> f x)"
  "(\<And>x. preserves P (h x)) \<Longrightarrow> (\<And>y. preserves P (k y)) \<Longrightarrow> preserves P (case sm of Inl x \<Rightarrow> h x | Inr y \<Rightarrow> k y)"
  "(\<And>x y. preserves P (d x y)) \<Longrightarrow> preserves P (case pr of (x, y) \<Rightarrow> d x y)"
  by (simp_all split: option.splits sum.splits prod.splits)

lemma preserves_list_case [preserves_intros]:
  "preserves P m \<Longrightarrow> (\<And>x xs. preserves P (d x xs)) \<Longrightarrow> preserves P (case xs of [] \<Rightarrow> m | x # xs \<Rightarrow> d x xs)"
  by (simp split: list.splits)

lemma preserves_answer_case [preserves_intros]:
  "(\<And>x. preserves P (h x)) \<Longrightarrow> (\<And>y. preserves P (k y)) \<Longrightarrow> preserves P (case q of Records x \<Rightarrow> h x | Message y \<Rightarrow> k y)"
  by (simp split: query_result.splits)

text \<open>
  An action that applies a function to the catalog at most once, and keeps a part of the engine
  before and after that.
\<close>

definition changes_by :: "(engine \<Rightarrow> 'p) \<Rightarrow> (catalog \<Rightarrow> catalog) \<Rightarrow> ('a, 's) action \<Rightarrow> bool" where
  "changes_by g F m \<longleftrightarrow>
     (\<forall>e s. g (fst (snd (m e s))) = g e \<or>
        (\<exists>e1. g e1 = g e \<and> g (fst (snd (m e s))) = g (with_catalog (F (en_catalog e1)) e1)))"

lemma changes_byD:
  "changes_by g F m \<Longrightarrow> m e s = (r, e', s') \<Longrightarrow>
     g e' = g e \<or> (\<exists>e1. g e1 = g e \<and> g e' = g (with_catalog (F (en_catalog e1)) e1))"
  unfolding changes_by_def by (metis fst_conv snd_conv)

lemma changes_by_kept: "keeps g m \<Longrightarrow> changes_by g F m"
  by (simp add: changes_by_def keeps_def)

lemma changes_by_before:
  assumes m: "keeps g m" and h: "\<And>a. changes_by g F (h a)"
  shows "changes_by g F (andThen m h)"
  unfolding changes_by_def
proof (intro allI)
  fix e s
  obtain r e1 s1 where *: "m e s = (r, e1, s1)" by (metis surj_pair)
  have "g e1 = g e" by (rule keepsD [OF m *])
  moreover have "g (fst (snd (h a e1 s1))) = g e1 \<or>
      (\<exists>e2. g e2 = g e1 \<and> g (fst (snd (h a e1 s1))) = g (with_catalog (F (en_catalog e2)) e2))" for a
    using h [of a] unfolding changes_by_def by blast
  ultimately show "g (fst (snd (andThen m h e s))) = g e \<or>
      (\<exists>e1. g e1 = g e \<and> g (fst (snd (andThen m h e s))) = g (with_catalog (F (en_catalog e1)) e1))"
    using * by (cases r) auto
qed

lemma changes_by_here:
  assumes "\<And>a. keeps g (h a)"
  shows "changes_by g F (andThen (change_catalog F) h)"
  unfolding changes_by_def
proof (intro allI disjI2)
  fix e s
  show "\<exists>e1. g e1 = g e \<and> g (fst (snd (andThen (change_catalog F) h e s))) = g (with_catalog (F (en_catalog e1)) e1)"
    using assms by (intro exI [of _ e]) (simp add: keeps_def andThen_def change_catalog_def)
qed

lemma changes_by_first:
  assumes "changes_by g F m" and "\<And>a. keeps g (h a)"
  shows "changes_by g F (andThen m h)"
  unfolding changes_by_def
proof (intro allI)
  fix e s
  obtain r e1 s1 where *: "m e s = (r, e1, s1)" by (metis surj_pair)
  have "g (fst (snd (h a e1 s1))) = g e1" for a using assms(2) by (simp add: keeps_def)
  with * changes_byD [OF assms(1) *]
  show "g (fst (snd (andThen m h e s))) = g e \<or>
      (\<exists>e1. g e1 = g e \<and> g (fst (snd (andThen m h e s))) = g (with_catalog (F (en_catalog e1)) e1))"
    by (cases r) auto
qed

section \<open>Indexes and their tables\<close>

definition table_indexes :: "string \<Rightarrow> 'a catalog_data_scheme \<Rightarrow> index_def list" where
  "table_indexes tbl c = filter (\<lambda>i. ix_table i = tbl) (hm_values (cat_indexes c))"

text \<open>
  Every index is on a table that exists and is either primary or logical, and of the indexes of
  a table, when there are any, one is primary.
\<close>

definition indexes_ok :: "'a catalog_data_scheme \<Rightarrow> bool" where
  "indexes_ok c \<longleftrightarrow> hm_wf (cat_indexes c) \<and>
     (\<forall>i \<in> set (hm_values (cat_indexes c)). hm_contains (cat_tables c) (ix_table i) \<and> (ix_logical_only i \<longleftrightarrow> \<not> ix_primary i)) \<and>
     (\<forall>tbl. length (filter ix_primary (table_indexes tbl c)) = (if table_indexes tbl c = [] then 0 else 1))"

lemma hm_values_fresh: "\<not> hm_contains m k \<Longrightarrow> hm_insert k v m = m @ [(k, v)]"
  unfolding hm_insert_def hm_contains_def by (induction m) (auto split: if_splits)

lemma contains_map_fst: "hm_contains m k \<longleftrightarrow> k \<in> set (map fst m)"
  by (simp add: hm_contains_keys hm_keys_def)

lemma indexes_ok_cong:
  "cat_indexes c' = cat_indexes c \<Longrightarrow> set (map fst (cat_tables c)) \<subseteq> set (map fst (cat_tables c')) \<Longrightarrow> indexes_ok c \<Longrightarrow> indexes_ok c'"
  unfolding indexes_ok_def table_indexes_def contains_map_fst by auto

lemma no_indexes_without_table: "indexes_ok c \<Longrightarrow> \<not> hm_contains (cat_tables c) tbl \<Longrightarrow> table_indexes tbl c = []"
  unfolding indexes_ok_def table_indexes_def by (auto simp: filter_empty_conv)

lemma indexes_okI:
  assumes "hm_wf (cat_indexes c)"
    and "\<And>i. i \<in> set (hm_values (cat_indexes c)) \<Longrightarrow> hm_contains (cat_tables c) (ix_table i) \<and> (ix_logical_only i \<longleftrightarrow> \<not> ix_primary i)"
    and "\<And>tbl. table_indexes tbl c \<noteq> [] \<Longrightarrow> length (filter ix_primary (table_indexes tbl c)) = 1"
  shows "indexes_ok c"
  using assms unfolding indexes_ok_def by auto

lemma indexes_okD:
  assumes "indexes_ok c"
  shows "hm_wf (cat_indexes c)"
    and "i \<in> set (hm_values (cat_indexes c)) \<Longrightarrow> hm_contains (cat_tables c) (ix_table i)"
    and "i \<in> set (hm_values (cat_indexes c)) \<Longrightarrow> ix_logical_only i \<longleftrightarrow> \<not> ix_primary i"
    and "table_indexes tbl c \<noteq> [] \<Longrightarrow> length (filter ix_primary (table_indexes tbl c)) = 1"
  using assms unfolding indexes_ok_def by auto

lemma indexes_ok_add_table: "indexes_ok c \<Longrightarrow> indexes_ok (add_table m c)"
  by (rule indexes_ok_cong) (auto simp: add_table_def hm_insert_def dom_update)

lemma table_indexes_remove_table:
  "table_indexes tbl (snd (remove_table nm c)) = (if tbl = nm then [] else table_indexes tbl c)"
proof -
  have "filter (\<lambda>i. ix_table i = tbl) (map snd (hm_retain (\<lambda>_ i. ix_table i \<noteq> nm) m)) =
      (if tbl = nm then [] else filter (\<lambda>i. ix_table i = tbl) (map snd m))" for m :: "(string, index_def) hashmap"
    by (induction m) (auto simp: hm_retain_def)
  then show ?thesis by (simp add: table_indexes_def remove_table_def hm_values_def)
qed

lemma indexes_ok_remove_table:
  assumes "indexes_ok c"
  shows "indexes_ok (snd (remove_table nm c))"
proof (rule indexes_okI)
  show "hm_wf (cat_indexes (snd (remove_table nm c)))"
    using indexes_okD(1) [OF assms] by (simp add: remove_table_def)
next
  fix i
  assume "i \<in> set (hm_values (cat_indexes (snd (remove_table nm c))))"
  then have "i \<in> set (hm_values (cat_indexes c))" and "ix_table i \<noteq> nm"
    by (auto simp: remove_table_def hm_values_def hm_retain_def)
  with indexes_okD(2,3) [OF assms]
  show "hm_contains (cat_tables (snd (remove_table nm c))) (ix_table i) \<and> (ix_logical_only i \<longleftrightarrow> \<not> ix_primary i)"
    by (simp add: remove_table_def)
next
  fix tbl
  assume "table_indexes tbl (snd (remove_table nm c)) \<noteq> []"
  then show "length (filter ix_primary (table_indexes tbl (snd (remove_table nm c)))) = 1"
    using indexes_okD(4) [OF assms] by (auto simp: table_indexes_remove_table split: if_splits)
qed

text \<open>A new index is the primary one of its table, and the others are logical.\<close>

lemma values_map_values: "hm_values (hm_map_values f m) = map f (hm_values m)"
  by (induction m) (auto simp: hm_values_def hm_map_values_def)

lemma ix_table_demote [simp]: "ix_table (demote tbl i) = ix_table i"
  by (simp add: demote_def)

lemma values_add_primary:
  assumes "\<not> hm_contains (cat_indexes c) nm"
  shows "hm_values (cat_indexes (add_primary_index nm tbl ics c)) =
     map (demote tbl) (hm_values (cat_indexes c)) @
       [\<lparr>ix_name = nm, ix_table = tbl, ix_columns = ics, ix_logical_only = False, ix_primary = True\<rparr>]"
proof -
  have "\<not> hm_contains (hm_map_values (demote tbl) (cat_indexes c)) nm" using assms by simp
  from hm_values_fresh [OF this] show ?thesis
    by (simp add: add_primary_index_def add_index_def hm_values_def hm_map_values_def split_beta)
qed

lemma indexes_ok_add_primary:
  assumes ok: "indexes_ok c" and fresh: "\<not> hm_contains (cat_indexes c) nm" and tbl: "hm_contains (cat_tables c) tbl"
  shows "indexes_ok (add_primary_index nm tbl ics c)"
proof (rule indexes_okI)
  show "hm_wf (cat_indexes (add_primary_index nm tbl ics c))"
    using indexes_okD(1) [OF ok] by (simp add: add_primary_index_def add_index_def)
next
  fix i
  assume "i \<in> set (hm_values (cat_indexes (add_primary_index nm tbl ics c)))"
  then show "hm_contains (cat_tables (add_primary_index nm tbl ics c)) (ix_table i) \<and> (ix_logical_only i \<longleftrightarrow> \<not> ix_primary i)"
    using indexes_okD(2,3) [OF ok] tbl
    unfolding values_add_primary [OF fresh] by (auto simp: demote_def add_primary_index_def add_index_def)
next
  fix t
  have "filter (\<lambda>i. ix_table i = t) (map (demote tbl) is) = map (demote tbl) (filter (\<lambda>i. ix_table i = t) is)" for "is"
    by (simp add: filter_map o_def)
  moreover have "filter ix_primary (map (demote tbl) (filter (\<lambda>i. ix_table i = t) is)) =
      (if t = tbl then [] else filter ix_primary (filter (\<lambda>i. ix_table i = t) is))" for "is"
    by (induction "is") (auto simp: demote_def)
  moreover assume "table_indexes t (add_primary_index nm tbl ics c) \<noteq> []"
  ultimately show "length (filter ix_primary (table_indexes t (add_primary_index nm tbl ics c))) = 1"
    using indexes_okD(4) [OF ok, of t] unfolding table_indexes_def values_add_primary [OF fresh]
    by (auto split: if_splits)
qed

text \<open>Dropping an index promotes another one when it was the primary.\<close>

lemma promote_first_none: "\<forall>i \<in> set (hm_values m). ix_table i \<noteq> tbl \<Longrightarrow> promote_first tbl m = m"
  by (induction tbl m rule: promote_first.induct) (auto simp: hm_values_def)

lemma fst_promote_first [simp]: "map fst (promote_first tbl m) = map fst m"
  by (induction tbl m rule: promote_first.induct) auto

lemma in_promote_first:
  "i \<in> set (hm_values (promote_first tbl m)) \<Longrightarrow>
     \<exists>j \<in> set (hm_values m). ix_table i = ix_table j \<and> (i = j \<or> ix_primary i \<and> \<not> ix_logical_only i)"
  by (induction tbl m rule: promote_first.induct) (auto simp: hm_values_def split: if_splits)

lemma promote_first_others:
  "t \<noteq> tbl \<Longrightarrow> filter (\<lambda>i. ix_table i = t) (hm_values (promote_first tbl m)) = filter (\<lambda>i. ix_table i = t) (hm_values m)"
  by (induction tbl m rule: promote_first.induct) (auto simp: hm_values_def)

lemma promote_first_primary:
  "filter ix_primary (filter (\<lambda>i. ix_table i = tbl) (hm_values m)) = [] \<Longrightarrow>
    length (filter ix_primary (filter (\<lambda>i. ix_table i = tbl) (hm_values (promote_first tbl m)))) =
    (if filter (\<lambda>i. ix_table i = tbl) (hm_values m) = [] then 0 else 1)"
proof (induction m)
  case Nil
  then show ?case by (simp add: hm_values_def)
next
  case (Cons e m)
  obtain k i where e: "e = (k, i)" by (cases e)
  show ?case
  proof (cases "ix_table i = tbl")
    case True
    with Cons.prems e show ?thesis
      by (auto simp: hm_values_def filter_empty_conv split: if_splits)
  next
    case False
    with Cons.prems Cons.IH e show ?thesis by (simp add: hm_values_def)
  qed
qed

lemma values_remove_index:
  "hm_values (cat_indexes (snd (remove_index nm c))) = map snd (filter (\<lambda>(k, _). k \<noteq> nm) (cat_indexes c))"
  by (simp add: remove_index_def hm_values_def hm_remove_def)

lemma primary_index_exists:
  assumes "indexes_ok c" and "table_indexes tbl c \<noteq> []"
  shows "\<exists>i \<in> set (hm_values (cat_indexes c)). ix_table i = tbl \<and> ix_primary i"
proof -
  have "filter ix_primary (table_indexes tbl c) \<noteq> []" using indexes_okD(4) [OF assms] by auto
  then show ?thesis by (auto simp: table_indexes_def filter_empty_conv)
qed

lemma others_after_remove:
  assumes "indexes_ok c" and "hm_get (cat_indexes c) nm = Some d" and "t \<noteq> ix_table d"
  shows "table_indexes t (snd (remove_index nm c)) = table_indexes t c"
proof -
  have "\<forall>(k, i) \<in> set m. k = nm \<longrightarrow> i = d \<Longrightarrow>
      filter (\<lambda>i. ix_table i = t) (map snd (filter (\<lambda>(k, _). k \<noteq> nm) m)) = filter (\<lambda>i. ix_table i = t) (map snd m)"
    for m :: "(string, index_def) hashmap"
    using assms(3) by (induction m) auto
  moreover have "\<forall>(k, i) \<in> set (cat_indexes c). k = nm \<longrightarrow> i = d"
    using assms(2) hm_get_entry [OF indexes_okD(1) [OF assms(1)]] by auto
  ultimately show ?thesis by (simp add: table_indexes_def values_remove_index) (simp add: hm_values_def)
qed

lemma fewer_after_remove:
  "length (filter ix_primary (table_indexes t (snd (remove_index nm c)))) \<le> length (filter ix_primary (table_indexes t c))"
proof -
  have "length (filter P (map snd (filter (\<lambda>(k, _). k \<noteq> nm) m))) \<le> length (filter P (map snd m))"
    for m :: "(string, index_def) hashmap" and P
    by (induction m) auto
  then show ?thesis by (simp add: table_indexes_def values_remove_index) (simp add: hm_values_def)
qed

lemma indexes_ok_drop_index:
  assumes ok: "indexes_ok c" and d: "hm_get (cat_indexes c) nm = Some d"
  shows "indexes_ok (drop_index_from nm (ix_table d) c)"
proof -
  let ?c1 = "snd (remove_index nm c)"
  let ?has = "list_ex (\<lambda>i. ix_table i = ix_table d \<and> ix_primary i) (hm_values (cat_indexes ?c1))"
  have drop: "cat_indexes (drop_index_from nm (ix_table d) c) =
      (if ?has then cat_indexes ?c1 else promote_first (ix_table d) (cat_indexes ?c1))"
    by (simp add: drop_index_from_def Let_def)
  have tables: "cat_tables (drop_index_from nm (ix_table d) c) = cat_tables c"
    by (simp add: drop_index_from_def Let_def remove_index_def)
  have same: "table_indexes t (drop_index_from nm (ix_table d) c) = table_indexes t c" if "t \<noteq> ix_table d" for t
    using others_after_remove [OF ok d that] that by (simp add: table_indexes_def drop promote_first_others)
  show ?thesis
  proof (rule indexes_okI)
    have "hm_wf (cat_indexes ?c1)" using indexes_okD(1) [OF ok] by (simp add: remove_index_def)
    then show "hm_wf (cat_indexes (drop_index_from nm (ix_table d) c))" by (simp add: drop hm_wf_def)
  next
    fix i
    assume "i \<in> set (hm_values (cat_indexes (drop_index_from nm (ix_table d) c)))"
    then obtain j where j: "j \<in> set (hm_values (cat_indexes ?c1))" "ix_table i = ix_table j"
        "i = j \<or> ix_primary i \<and> \<not> ix_logical_only i"
      by (auto simp: drop dest: in_promote_first split: if_splits)
    from j(1) have "j \<in> set (hm_values (cat_indexes c))" unfolding values_remove_index by (auto simp: hm_values_def)
    with indexes_okD(2,3) [OF ok] j
    show "hm_contains (cat_tables (drop_index_from nm (ix_table d) c)) (ix_table i) \<and> (ix_logical_only i \<longleftrightarrow> \<not> ix_primary i)"
      by (auto simp: tables)
  next
    fix t
    assume some: "table_indexes t (drop_index_from nm (ix_table d) c) \<noteq> []"
    show "length (filter ix_primary (table_indexes t (drop_index_from nm (ix_table d) c))) = 1"
    proof (cases "t = ix_table d")
      case False
      with some indexes_okD(4) [OF ok] same show ?thesis by simp
    next
      case True
      show ?thesis
      proof (cases ?has)
        case False
        then have "filter ix_primary (filter (\<lambda>i. ix_table i = t) (hm_values (cat_indexes ?c1))) = []"
          by (auto simp: True list_ex_iff filter_empty_conv)
        from promote_first_primary [OF this] some False True show ?thesis
          using promote_first_none [of "cat_indexes ?c1" "ix_table d"]
          by (cases "filter (\<lambda>i. ix_table i = ix_table d) (hm_values (cat_indexes ?c1)) = []")
            (simp_all add: table_indexes_def drop filter_empty_conv)
      next
        case here: True
        then have "filter ix_primary (table_indexes t ?c1) \<noteq> []"
          by (auto simp: True table_indexes_def list_ex_iff filter_empty_conv)
        moreover have "length (filter ix_primary (table_indexes t c)) \<le> 1" using ok by (simp add: indexes_ok_def)
        ultimately have "length (filter ix_primary (table_indexes t ?c1)) = 1"
          using fewer_after_remove [of t nm c] unfolding length_greater_0_conv [symmetric] by linarith
        with here show ?thesis by (simp add: table_indexes_def drop)
      qed
    qed
  qed
qed

text \<open>A renamed table keeps its indexes.\<close>

lemma indexes_ok_rename:
  assumes ok: "indexes_ok c" and old: "hm_contains (cat_tables c) old" and new: "\<not> hm_contains (cat_tables c) new"
  shows "indexes_ok (rename_in_catalog old new m c)"
proof -
  define mv :: "index_def \<Rightarrow> index_def" where "mv = (\<lambda>i. if ix_table i = old then i\<lparr>ix_table := new\<rparr> else i)"
  have cat: "cat_indexes (rename_in_catalog old new m c) = hm_map_values mv (cat_indexes c)"
    "cat_tables (rename_in_catalog old new m c) = hm_insert new (m\<lparr>tm_name := new\<rparr>) (hm_remove old (cat_tables c))"
    by (simp_all add: rename_in_catalog_def mv_def)
  have none: "table_indexes new c = []" by (rule no_indexes_without_table [OF ok new])
  have mv [simp]: "ix_primary (mv i) = ix_primary i" "ix_logical_only (mv i) = ix_logical_only i"
      "ix_table (mv i) = (if ix_table i = old then new else ix_table i)" for i
    by (simp_all add: mv_def)
  show ?thesis
  proof (rule indexes_okI)
    show "hm_wf (cat_indexes (rename_in_catalog old new m c))" using indexes_okD(1) [OF ok] by (simp add: cat)
  next
    fix i
    assume "i \<in> set (hm_values (cat_indexes (rename_in_catalog old new m c)))"
    then obtain j where j: "j \<in> set (hm_values (cat_indexes c))" "i = mv j" by (auto simp: cat values_map_values)
    from indexes_okD(2,3) [OF ok j(1)] show "hm_contains (cat_tables (rename_in_catalog old new m c)) (ix_table i) \<and>
        (ix_logical_only i \<longleftrightarrow> \<not> ix_primary i)"
      unfolding j(2) cat by simp
  next
    fix t
    assume some: "table_indexes t (rename_in_catalog old new m c) \<noteq> []"
    have "table_indexes t (rename_in_catalog old new m c) =
        map mv (filter (\<lambda>i. (if ix_table i = old then new else ix_table i) = t) (hm_values (cat_indexes c)))"
      unfolding table_indexes_def cat values_map_values by (simp add: filter_map o_def)
    moreover have "filter (\<lambda>i. (if ix_table i = old then new else ix_table i) = t) (hm_values (cat_indexes c)) =
        (if t = new then table_indexes old c else if t = old then [] else table_indexes t c)"
    proof (cases "t = new")
      case True
      have "((if ix_table i = old then new else ix_table i) = t) = (ix_table i = old)"
        if "i \<in> set (hm_values (cat_indexes c))" for i
        using none that True by (auto simp: table_indexes_def filter_empty_conv)
      then show ?thesis using True unfolding table_indexes_def by (simp cong: filter_cong)
    next
      case False
      moreover have "old \<noteq> new" using old new by auto
      ultimately have "(\<lambda>i :: index_def. (if ix_table i = old then new else ix_table i) = t) = (\<lambda>i. t \<noteq> old \<and> ix_table i = t)"
        by (intro ext) auto
      with False show ?thesis unfolding table_indexes_def by (simp only: if_False) simp
    qed
    ultimately have "table_indexes t (rename_in_catalog old new m c) =
        map mv (if t = new then table_indexes old c else if t = old then [] else table_indexes t c)" by simp
    with some indexes_okD(4) [OF ok] show "length (filter ix_primary (table_indexes t (rename_in_catalog old new m c))) = 1"
      by (auto simp: filter_map o_def split: if_splits)
  qed
qed

end
