(* ===== verification/Index_Props.thy ===== *)
theory Index_Props
  imports Schema_Props Dispatch_Props
begin

text \<open>
  Invariants through the whole engine, one concern at a time: every statement, whatever it executes and
  however it ends, keeps the indexes of the catalog well formed and the session in step with its
  transaction.
\<close>

section \<open>The part of the engine\<close>

definition index_view ::
  "engine \<Rightarrow> (string, index_def) hashmap \<times> string list \<times> catalog_snapshot list option \<times> nat option \<times> bool \<times> nat"
where
  "index_view e =
     (cat_indexes (en_catalog e), map fst (cat_tables (en_catalog e)),
      map_option (\<lambda>t. tx_catalog t # map sp_catalog (tx_savepoints t)) (en_txn e), txn_flags e)"

text \<open>
  What every statement keeps of it, one concern at a time: that the session and its catalog agree on the
  open transaction, and that the indexes of the catalog, and of the catalogs that ROLLBACK and
  ROLLBACK TO can bring back, are well formed.
\<close>

datatype concern = Session | Indexes

definition index_inv :: "concern \<Rightarrow> engine \<Rightarrow> bool" where
  "index_inv k e \<longleftrightarrow>
     (case k of
        Session \<Rightarrow> session_ok e
      | Indexes \<Rightarrow> indexes_ok (en_catalog e) \<and>
          (\<forall>cs. map_option (\<lambda>t. tx_catalog t # map sp_catalog (tx_savepoints t)) (en_txn e) = Some cs \<longrightarrow>
             (\<forall>c \<in> set cs. indexes_ok c)))"

lemma index_inv_simps:
  "index_inv Session e \<longleftrightarrow> session_ok e"
  "index_inv Indexes e \<longleftrightarrow> indexes_ok (en_catalog e) \<and>
     (\<forall>cs. map_option (\<lambda>t. tx_catalog t # map sp_catalog (tx_savepoints t)) (en_txn e) = Some cs \<longrightarrow>
        (\<forall>c \<in> set cs. indexes_ok c))"
  by (simp_all add: index_inv_def)

lemma index_inv_view: "index_view e' = index_view e \<Longrightarrow> index_inv k e \<Longrightarrow> index_inv k e'"
  unfolding index_inv_def index_view_def
  by (cases k) (auto simp: session_ok_def intro: indexes_ok_cong [rotated 2])

text \<open>A catalog that takes the place of the one there is.\<close>

abbreviation fits :: "concern \<Rightarrow> catalog \<Rightarrow> catalog \<Rightarrow> bool" where
  "fits k c c0 \<equiv> (case k of Session \<Rightarrow> in_transaction c = in_transaction c0 | Indexes \<Rightarrow> indexes_ok c)"

lemma index_inv_catalog:
  "index_inv k e \<Longrightarrow> index_view e' = index_view (with_catalog c e) \<Longrightarrow> fits k c (en_catalog e) \<Longrightarrow> index_inv k e'"
  unfolding index_inv_def index_view_def
  by (cases k) (auto simp: session_ok_def txn_flags_def intro: indexes_ok_cong [rotated 2])

interpretation index: row_frame index_view
  by unfold_locales (simp_all add: index_view_def txn_flags_def set_file_stats_def)

abbreviation safe :: "concern \<Rightarrow> ('a, 's) action \<Rightarrow> bool" where
  "safe k \<equiv> preserves (index_inv k)"

lemma safe_kept: "keeps index_view m \<Longrightarrow> safe k m"
  by (rule preservesI) (metis index_inv_view keepsD)

lemma safe_change: "(\<And>e. index_view (h e) = index_view e) \<Longrightarrow> safe k (change h)"
  by (intro safe_kept keeps_change)

lemma safe_catalog:
  assumes "\<And>c. indexes_ok c \<Longrightarrow> indexes_ok (F c)" and "\<And>c. in_transaction (F c) = in_transaction c"
  shows "safe k (change_catalog F)"
proof -
  have "index_inv k (with_catalog (F (en_catalog e)) e)" if "index_inv k e" for e
    by (rule index_inv_catalog [OF that refl]) (use that assms in \<open>cases k; simp add: index_inv_simps\<close>)
  then show ?thesis unfolding change_catalog_def preserves_def by simp
qed

lemma indexes_ok_same:
  "cat_indexes c' = cat_indexes c \<Longrightarrow> map fst (cat_tables c') = map fst (cat_tables c) \<Longrightarrow> indexes_ok c \<Longrightarrow> indexes_ok c'"
  by (rule indexes_ok_cong) auto

lemma log_safe: "safe k (log_sql W sql)"
  by (rule safe_change) simp

text \<open>A change of the catalog whose condition was looked up before.\<close>

lemma safe_changes_by:
  assumes m: "changes_by index_view F m" and inv: "index_inv k e" and run: "m e s = (r, e', s')"
    and F: "\<And>c. indexes_ok c \<Longrightarrow> cat_indexes c = cat_indexes (en_catalog e) \<Longrightarrow>
      map fst (cat_tables c) = map fst (cat_tables (en_catalog e)) \<Longrightarrow> indexes_ok (F c)"
    and G: "\<And>c. in_transaction (F c) = in_transaction c"
  shows "index_inv k e'"
  using changes_byD [OF m run]
proof (elim disjE exE conjE)
  assume "index_view e' = index_view e"
  then show ?thesis using inv by (rule index_inv_view)
next
  fix e1
  assume e1: "index_view e1 = index_view e" "index_view e' = index_view (with_catalog (F (en_catalog e1)) e1)"
  have inv1: "index_inv k e1" using e1(1) inv by (rule index_inv_view)
  have "fits k (F (en_catalog e1)) (en_catalog e1)"
  proof (cases k)
    case Indexes
    have "indexes_ok (F (en_catalog e1))"
      by (rule F) (use inv1 e1(1) Indexes in \<open>auto simp: index_inv_simps index_view_def\<close>)
    with Indexes show ?thesis by simp
  qed (simp add: G)
  from index_inv_catalog [OF inv1 e1(2) this] show ?thesis .
qed

section \<open>Handlers of tables\<close>

named_theorems safe_intros \<open>actions that keep the invariant\<close>

lemmas [safe_intros] = preserves_intros log_safe

lemma catalog_kinds_ok:
  "indexes_ok c \<Longrightarrow> indexes_ok (catalog_save c)" "indexes_ok c \<Longrightarrow> indexes_ok (set_columns tbl cols c)"
  "indexes_ok c \<Longrightarrow> indexes_ok (set_retention tbl rt c)" "indexes_ok c \<Longrightarrow> indexes_ok (add_view v c)"
  "indexes_ok c \<Longrightarrow> indexes_ok (snd (remove_view nm c))" "indexes_ok c \<Longrightarrow> indexes_ok (add_sequence q c)"
  "indexes_ok c \<Longrightarrow> indexes_ok (snd (remove_sequence nm c))" "indexes_ok c \<Longrightarrow> indexes_ok (add_udf u c)"
  "indexes_ok c \<Longrightarrow> indexes_ok (snd (remove_udf nm c))" "indexes_ok c \<Longrightarrow> indexes_ok (migration_applied ver now c)"
  "indexes_ok c \<Longrightarrow> indexes_ok (set_statistics tbl st c)"
  by (erule indexes_ok_same [rotated 2]; simp add: set_columns_def set_retention_def add_view_def remove_view_def
      add_sequence_def remove_sequence_def add_udf_def remove_udf_def migration_applied_def set_statistics_def)+

lemma catalog_kinds_flag [simp]:
  "in_transaction (catalog_save c) = in_transaction c" "in_transaction (set_columns tbl cols c) = in_transaction c"
  "in_transaction (set_retention tbl rt c) = in_transaction c" "in_transaction (add_view v c) = in_transaction c"
  "in_transaction (snd (remove_view nm c)) = in_transaction c" "in_transaction (add_sequence q c) = in_transaction c"
  "in_transaction (snd (remove_sequence nm c)) = in_transaction c" "in_transaction (add_udf u c) = in_transaction c"
  "in_transaction (snd (remove_udf nm c)) = in_transaction c"
  "in_transaction (migration_applied ver now c) = in_transaction c"
  "in_transaction (set_statistics tbl st c) = in_transaction c" "in_transaction (add_table m c) = in_transaction c"
  "in_transaction (snd (remove_table nm c)) = in_transaction c"
  "in_transaction (add_primary_index nm tbl ics c) = in_transaction c"
  "in_transaction (drop_index_from nm tbl c) = in_transaction c"
  "in_transaction (rename_in_catalog old new m c) = in_transaction c"
  by (simp_all add: set_columns_def set_retention_def add_view_def remove_view_def add_sequence_def remove_sequence_def
      add_udf_def remove_udf_def migration_applied_def set_statistics_def add_table_def remove_table_def
      add_primary_index_def drop_index_from_def rename_in_catalog_def add_index_def remove_index_def Let_def split_beta
      split: option.splits)

lemma safe_catalog_kinds [safe_intros]:
  "safe k (change_catalog catalog_save)" "safe k (change_catalog (set_columns tbl cols))"
  "safe k (change_catalog (set_retention tbl rt))" "safe k (change_catalog (add_view v))"
  "safe k (change_catalog (\<lambda>c. snd (remove_view nm c)))" "safe k (change_catalog (add_sequence q))"
  "safe k (change_catalog (\<lambda>c. snd (remove_sequence nm c)))" "safe k (change_catalog (add_udf u))"
  "safe k (change_catalog (\<lambda>c. snd (remove_udf nm c)))" "safe k (change_catalog (set_statistics tbl st))"
  "safe k (change_catalog (add_table m))" "safe k (change_catalog (\<lambda>c. snd (remove_table nm c)))"
  by (rule safe_catalog, erule catalog_kinds_ok indexes_ok_add_table indexes_ok_remove_table, simp)+

lemma file_stats_safe [safe_intros]: "safe k (refresh_table_file_stats W tbl)"
proof -
  have "keeps index_view (refresh_table_file_stats W tbl)"
    unfolding refresh_table_file_stats_def
    by (intro keeps_intros) (simp add: keeps_def)
  then show ?thesis by (rule safe_kept)
qed

lemma storage_safe [safe_intros]:
  "safe k (run_query W sql)" "safe k (prepare_storage W tbl cols parts)" "safe k (fill_table W tbl sql bs)"
  "safe k (delete_parquet_files W tbl)" "safe k (register_again W tbl)" "safe k (the_table tbl)"
  "safe k (register_listing_table W tbl cols url parts)" "safe k (backup_table_for_txn W tbl)"
  "safe k (record_cdc W tbl op n)" "safe k (delete_table_storage W m)" "safe k (flush_all W)" "safe k (flush_table W tbl)"
  "safe k (flush_catalog W)" "safe k (list_parquet_files W tbl)" "safe k (rewrite_table W tbl bs use)"
  "safe k (change (invalidate_uniqueness_cache_for_table tbl))" "safe k (collect_with_plan_cache W sql)"
  unfolding prepare_storage_def fill_table_def register_again_def
  by (rule safe_kept, intro keeps_intros; simp add: invalidate_uniqueness_cache_for_table_def)+

lemma create_table_safe [safe_intros]:
  "safe k (add_new_table W m)" "safe k (handle_ctas W tbl query parts)" "safe k (handle_create_table W ct)"
proof -
  show 1: "safe k (add_new_table W m)" for m unfolding add_new_table_def by (intro safe_intros)
  show 2: "safe k (handle_ctas W tbl query parts)" for tbl query parts
    unfolding handle_ctas_def by (intro safe_intros 1)
  show "safe k (handle_create_table W ct)"
    unfolding handle_create_table_def skip_or_fail_def Let_def by (intro safe_intros 1 2)
qed

lemma drop_storage_safe [safe_intros]: "safe k (drop_storage W m)"
  unfolding drop_storage_def
  by (intro safe_intros safe_change) (simp add: defer_delete_def index_view_def txn_flags_def option.map_comp o_def)

lemma drop_table_safe [safe_intros]: "safe k (handle_drop_table W nm x)"
  unfolding handle_drop_table_def missing_def skip_or_fail_def by (intro safe_intros)

lemma truncate_safe [safe_intros]: "safe k (handle_truncate W tbl)"
  unfolding handle_truncate_def by (intro safe_intros)

section \<open>Handlers of indexes and renames\<close>

lemma same_keys: "map fst m = map fst m' \<Longrightarrow> hm_contains m k = hm_contains m' k"
  unfolding contains_map_fst by simp

lemma rewrite_in_order_changes: "changes_by index_view (add_primary_index nm tbl ics) (rewrite_in_order W nm tbl ics m)"
  unfolding rewrite_in_order_def fill_table_def
  by (intro changes_by_before changes_by_here keeps_intros)

lemma create_index_safe [safe_intros]: "safe k (handle_create_index W ci)"
proof -
  have "safe k (create_index_named W ci nm)" for nm
  proof (rule preservesI)
    fix e s r e' s'
    assume inv: "index_inv k e" and run: "create_index_named W ci nm e s = (r, e', s')"
    show "index_inv k e'"
    proof (cases "hm_contains (cat_indexes (en_catalog e)) nm")
      case True
      with inv run show ?thesis
        by (auto simp: create_index_named_def andThen_def skip_or_fail_def message_def split: if_splits)
    next
      case fresh: False
      show ?thesis
      proof (cases "hm_get (cat_tables (en_catalog e)) (ci_table ci)")
        case None
        with inv run fresh show ?thesis by (auto simp: create_index_named_def andThen_def the_table_def)
      next
        case (Some m)
        have change: "changes_by index_view (add_primary_index nm (ci_table ci) ics)
            (andThen (log_sql W (ci_text ci)) (\<lambda>_. andThen (backup_table_for_txn W (ci_table ci)) (\<lambda>_.
             andThen (rewrite_in_order W nm (ci_table ci) ics m) (\<lambda>_. message msg))))" for ics msg
          by (intro changes_by_before changes_by_first rewrite_in_order_changes keeps_intros) simp
        have F: "indexes_ok (add_primary_index nm (ci_table ci) ics c)"
          if "indexes_ok c" "cat_indexes c = cat_indexes (en_catalog e)"
            "map fst (cat_tables c) = map fst (cat_tables (en_catalog e))" for c ics
          using that fresh Some same_keys [OF that(3)] by (intro indexes_ok_add_primary) (simp_all add: hm_contains_def)
        from run inv fresh Some show ?thesis
          by (auto simp: create_index_named_def andThen_def [of "asks _"] andThen_def [of "the_table _"] the_table_def
              split: sum.splits if_splits intro: safe_changes_by [OF change] F catalog_kinds_flag)
      qed
    qed
  qed
  then show ?thesis unfolding handle_create_index_def by (intro safe_intros)
qed

lemma drop_index_safe [safe_intros]: "safe k (handle_drop_index W nm x)"
proof (rule preservesI)
  fix e s r e' s'
  assume inv: "index_inv k e" and run: "handle_drop_index W nm x e s = (r, e', s')"
  show "index_inv k e'"
  proof (cases "hm_get (cat_indexes (en_catalog e)) nm")
    case None
    with inv run show ?thesis
      by (auto simp: handle_drop_index_def andThen_def missing_def skip_or_fail_def message_def split: if_splits)
  next
    case (Some d)
    have change: "changes_by index_view (drop_index_from nm (ix_table d))
        (andThen (log_sql W sql) (\<lambda>_. andThen (change_catalog (drop_index_from nm (ix_table d))) (\<lambda>_.
         andThen (register_again W (ix_table d)) (\<lambda>_. message msg))))" for sql msg
      unfolding register_again_def by (intro changes_by_before changes_by_here keeps_intros) simp
    have F: "indexes_ok (drop_index_from nm (ix_table d) c)"
      if "indexes_ok c" "cat_indexes c = cat_indexes (en_catalog e)" for c
      using that Some by (intro indexes_ok_drop_index) simp_all
    from run Some show ?thesis
      by (auto simp: handle_drop_index_def andThen_def [of "asks _"] intro: safe_changes_by [OF change inv _ F] catalog_kinds_flag)
  qed
qed

lemma rename_safe [safe_intros]: "safe k (handle_rename_table W old new)"
proof (rule preservesI)
  fix e s r e' s'
  assume inv: "index_inv k e" and run: "handle_rename_table W old new e s = (r, e', s')"
  let ?tables = "cat_tables (en_catalog e)"
  consider "old = new \<or> hm_contains ?tables new" | "old \<noteq> new" "\<not> hm_contains ?tables new" "hm_get ?tables old = None"
    | m where "old \<noteq> new" "\<not> hm_contains ?tables new" "hm_get ?tables old = Some m"
    by (cases "hm_get ?tables old") auto
  then show "index_inv k e'"
  proof cases
    case 1
    with inv run show ?thesis
      by (auto simp: handle_rename_table_def andThen_def message_def split: if_splits)
  next
    case 2
    have view: "index_view (wal_append_pending W sql e) = index_view e" for sql by simp
    from 2 run have "\<exists>sql. e' = wal_append_pending W sql e"
      by (auto simp: handle_rename_table_def andThen_def the_table_def wal_append_pending_def split: if_splits)
    with inv view show ?thesis by (metis index_inv_view)
  next
    case (3 m)
    have change: "changes_by index_view (rename_in_catalog old new m)
        (andThen (change_catalog (rename_in_catalog old new m)) (\<lambda>_.
         andThen (attempt (outside (w_deregister W old))) (\<lambda>_.
         andThen (look (\<lambda>_. columns_to_schema W (tm_columns m))) (\<lambda>_.
         andThen (register_listing_table W new (tm_columns m) (tm_path m) (tm_partition_columns m)) (\<lambda>_. message msg)))))" for msg
      by (intro changes_by_here keeps_intros)
    have F: "indexes_ok (rename_in_catalog old new m c)"
      if "indexes_ok c" "cat_indexes c = cat_indexes (en_catalog e)"
        "map fst (cat_tables c) = map fst (cat_tables (en_catalog e))" for c
      using that 3 same_keys [OF that(3)] by (intro indexes_ok_rename) (simp_all add: hm_contains_def)
    have log: "index_view (wal_append_pending W sql e) = index_view e"
      "cat_tables (en_catalog (wal_append_pending W sql e)) = ?tables"
      "cat_indexes (en_catalog (wal_append_pending W sql e)) = cat_indexes (en_catalog e)" for sql
      by (simp_all add: wal_append_pending_def)
    from run 3 obtain sql msg where "(andThen (change_catalog (rename_in_catalog old new m)) (\<lambda>_.
         andThen (attempt (outside (w_deregister W old))) (\<lambda>_.
         andThen (look (\<lambda>_. columns_to_schema W (tm_columns m))) (\<lambda>_.
         andThen (register_listing_table W new (tm_columns m) (tm_path m) (tm_partition_columns m)) (\<lambda>_. message msg)))))
         (wal_append_pending W sql e) s = (r, e', s')"
      by (auto simp: handle_rename_table_def andThen_def [of "asks _"] andThen_def [of "change _"] the_table_def
          andThen_def [of "andThen _ _"] log)
    then show ?thesis
      by (rule safe_changes_by [OF change index_inv_view [OF log(1) inv]]) (simp_all only: log F catalog_kinds_flag)
  qed
qed

section \<open>The other handlers\<close>

lemma definitions_safe [safe_intros]:
  "safe k (handle_create_sequence W nm x os)" "safe k (handle_drop_sequence W nm x)"
  "safe k (handle_create_function W sql)" "safe k (handle_drop_function W sql)"
  unfolding handle_create_sequence_def handle_drop_sequence_def handle_create_function_def handle_drop_function_def
    missing_def skip_or_fail_def
  by (intro safe_intros)+

lemma alter_table_safe [safe_intros]: "safe k (handle_alter_table W sql tbl ops x)"
  unfolding handle_alter_table_def alter_retention_def alter_operations_def missing_def skip_or_fail_def
  by (intro safe_intros)

lemma views_safe [safe_intros]:
  "safe k (store_view W nm query mat)" "safe k (handle_create_view W nm query rep mat)" "safe k (handle_drop_view W nm x)"
  "safe k (handle_refresh_materialized_view W nm)"
proof -
  have mat: "safe k (materialize W nm backing query)" for nm backing query
    unfolding materialize_def define_view_def by (intro safe_intros)
  show 1: "safe k (store_view W nm query mat)" for nm query mat
    unfolding store_view_def define_view_def by (intro safe_intros mat)
  show "safe k (handle_create_view W nm query rep mat)" unfolding handle_create_view_def by (intro safe_intros 1)
  show "safe k (handle_drop_view W nm x)"
    unfolding handle_drop_view_def drop_backing_def missing_def skip_or_fail_def by (intro safe_intros)
  show "safe k (handle_refresh_materialized_view W nm)"
    unfolding handle_refresh_materialized_view_def refresh_backing_def by (intro safe_intros mat)
qed

lemma analyze_safe [safe_intros]:
  "safe k (handle_analyze W tbl)" "safe k (drain_pending_analyze W)" "safe k (apply_retention_policy W tbl)"
  "safe k (handle_vacuum W tbl)" "safe k (vacuum_then_analyze W tbl)"
proof -
  have columns: "safe k (analyze_columns W tbl cs acc)" for tbl cs acc
    by (induction cs arbitrary: acc) (auto intro!: safe_intros split: list.splits)
  show 1: "safe k (handle_analyze W tbl)" for tbl unfolding handle_analyze_def by (intro safe_intros columns)
  show "safe k (drain_pending_analyze W)"
    unfolding drain_pending_analyze_def by (intro safe_intros 1 safe_change) (simp add: index_view_def txn_flags_def)
  have old: "safe k (remove_old W cutoff fs n)" for cutoff fs n
    by (induction fs arbitrary: n) (auto intro!: safe_intros)
  have "safe k (prune_table W m secs)" for m secs
    using old by (auto simp: preserves_def prune_table_def split: option.splits sum.splits)
  then show 2: "safe k (apply_retention_policy W tbl)" for tbl
    unfolding apply_retention_policy_def by (intro safe_intros)
  show 3: "safe k (handle_vacuum W tbl)" for tbl
    unfolding handle_vacuum_def by (intro safe_intros 1 2)
  show "safe k (vacuum_then_analyze W tbl)"
    unfolding vacuum_then_analyze_def by (intro safe_intros 1 3)
qed

section \<open>Statements on rows\<close>

lemma rows_safe [safe_intros]:
  "safe k (delete_rows W sql d tbl)" "safe k (update_rows W sql tbl as sel)" "safe k (insert_source W i)"
  "safe k (insert_now W sql tbl target bs)" "safe k (insert_buffered W sql i target bs)" "safe k (handle_upsert W i oc)"
  by (rule safe_kept, intro keeps_intros)+

lemma merge_safe [safe_intros]: "safe k (handle_merge W target source cond cls)"
proof -
  have "keeps index_view (merge_over_source W n m on_str cls)" for n m on_str cls
  proof (rule keepsI)
    fix e s r e' s'
    assume *: "merge_over_source W n m on_str cls e s = (r, e', s')"
    obtain q e1 s1 where q: "merge_clauses W n m on_str cls (0, 0) e s = (q, e1, s1)" by (metis surj_pair)
    have "keeps index_view (merge_clauses W n m on_str cls (0, 0))" by (rule index.merge_clauses_keeps)
    from keepsD [OF this q] have "index_view e1 = index_view e" .
    then show "index_view e' = index_view e"
      using * q by (auto simp: merge_over_source_def attempt_def outside_def andThen_def split: prod.splits sum.splits
          dest!: keepsD [OF index.record_cdc_keeps])
  qed
  then have 1: "safe k (merge_over_source W n m on_str cls)" for n m on_str cls by (rule safe_kept)
  show ?thesis
    by (cases target) (auto simp: handle_merge_def Let_def intro!: safe_intros 1 split: prod.splits sum.splits)
qed

lemma copy_safe [safe_intros]: "safe k (run_copy W sql)"
proof -
  have rows: "safe k (copy_rows W tbl bs)" for tbl bs
    unfolding copy_rows_def Let_def by (intro safe_intros)
  have "safe k (copy_file W tbl path)" for tbl path
    unfolding copy_file_def
    by (intro safe_intros rows safe_change; (rule safe_kept, intro keeps_intros)?; simp?)
  then show ?thesis
    unfolding run_copy_def handle_copy_from_def handle_copy_to_def Let_def by (intro safe_intros)
qed

section \<open>Transactions\<close>

lemma list_files_safe: "safe k (list_files W ts)"
  by (rule safe_kept, intro keeps_intros)

lemma indexes_ok_snapshot [simp]: "indexes_ok (catalog_snapshot c) = indexes_ok c"
  by (auto simp: catalog_snapshot_def intro: indexes_ok_cong [rotated 2])

lemma indexes_ok_restore [simp]: "indexes_ok (catalog_restore snap c) = indexes_ok snap"
  by (auto simp: catalog_restore_def intro: indexes_ok_cong [rotated 2])

lemma indexes_ok_flag [simp]: "indexes_ok (set_in_transaction b c) = indexes_ok c"
  by (auto simp: set_in_transaction_def intro: indexes_ok_cong [rotated 2])

text \<open>The catalogs a transaction keeps satisfy the invariant, and leaving it keeps that of the catalog.\<close>

lemma index_inv_parts:
  "index_inv Indexes e \<Longrightarrow> indexes_ok (en_catalog e)"
  "index_inv Indexes e \<Longrightarrow> en_txn e = Some t \<Longrightarrow> indexes_ok (tx_catalog t)"
  "index_inv Indexes e \<Longrightarrow> en_txn e = Some t \<Longrightarrow> sp \<in> set (tx_savepoints t) \<Longrightarrow> indexes_ok (sp_catalog sp)"
  by (simp_all add: index_inv_simps)

lemma leave_txn_safe [safe_intros]: "safe k (change leave_txn)"
  by (cases k) (auto simp: preserves_def leave_txn_def index_inv_simps session_ok_def txn_flags_def split: option.splits)

lemma restore_safe: "(k = Indexes \<Longrightarrow> indexes_ok snap) \<Longrightarrow> safe k (change (restore_catalog snap))"
  by (cases k) (simp_all add: preserves_def index_inv_simps session_ok_def, simp add: restore_catalog_def)

lemma snapshot_keeps_view: "keeps index_view (capture_snapshot W)"
proof -
  have "keeps index_view (\<lambda>e s. change (push_snapshot (w_utc_ms W s) m) e s)" for m
    by (simp add: keeps_def push_snapshot_def Let_def index_view_def txn_flags_def)
  then show ?thesis unfolding capture_snapshot_def by (intro keeps_intros)
qed

lemma txn_steps_safe [safe_intros]:
  "safe k (force_save_catalog W)" "safe k (change (wal_end_txn mark))" "safe k (capture_snapshot W)"
  "safe k (undo_files W fs current)" "safe k (reload_and_rewrite W current backups)" "safe k (list_files W ts)"
proof -
  show "safe k (capture_snapshot W)" using snapshot_keeps_view by (rule safe_kept)
  show "safe k (change (wal_end_txn mark))" by (rule safe_change) (simp add: wal_end_txn_def index_view_def txn_flags_def)
qed (rule safe_kept, intro keeps_intros)+

lemma begin_safe [safe_intros]: "safe k (handle_begin W)"
proof (rule preservesI)
  fix e s r e' s'
  assume inv: "index_inv k e" and run: "handle_begin W e s = (r, e', s')"
  have "safe k (change (open_txn (catalog_snapshot (en_catalog e)) fs))" for fs
  proof (cases k)
    case Session
    then show ?thesis
      by (auto simp: preserves_def index_inv_simps session_ok_def open_txn_flags)
        (auto simp: txn_flags_def u64_saturating_add_def u64_max_def split: option.splits)
  next
    case Indexes
    then show ?thesis
      using inv index_inv_parts(1) by (simp add: preserves_def open_txn_def next_txn_id_def index_inv_simps Let_def)
  qed
  then have "safe k (andThen (list_files W (table_names e)) (\<lambda>fs.
      andThen (change (open_txn (catalog_snapshot (en_catalog e)) fs)) (\<lambda>_. ok (Message ''BEGIN''))))"
    by (intro safe_intros)
  from preservesD [OF this inv] inv run show "index_inv k e'" by (auto simp: handle_begin_def split: if_splits)
qed

lemma commit_safe [safe_intros]: "safe k (handle_commit W)"
  unfolding handle_commit_def commit_steps_def by (intro safe_intros)

lemma rollback_safe [safe_intros]: "safe k (handle_rollback W)"
proof (rule preservesI)
  fix e s r e' s'
  assume inv: "index_inv k e" and run: "handle_rollback W e s = (r, e', s')"
  show "index_inv k e'"
  proof (cases "en_txn e")
    case None
    with inv run show ?thesis by (simp add: handle_rollback_def)
  next
    case (Some txn)
    have "safe k (rollback_steps W txn (table_names e))"
      unfolding rollback_steps_def by (intro safe_intros restore_safe index_inv_parts(2) [OF _ Some]) (use inv in simp)
    from preservesD [OF this inv] Some run show ?thesis by (simp add: handle_rollback_def)
  qed
qed

lemma savepoint_safe [safe_intros]: "safe k (handle_savepoint W nm)"
proof (rule preservesI)
  fix e s r e' s'
  assume inv: "index_inv k e" and run: "handle_savepoint W nm e s = (r, e', s')"
  from savepoint_engine [OF run] show "index_inv k e'"
  proof (elim disjE exE conjE)
    fix t fs
    assume t: "en_txn e = Some t" and e': "e' = e\<lparr>en_txn := Some (push_savepoint nm (catalog_snapshot (en_catalog e)) fs t)\<rparr>"
    show ?thesis
    proof (cases k)
      case Session
      then show ?thesis using inv t by (simp add: e' index_inv_simps session_ok_def txn_flags_def push_savepoint_def)
    next
      case Indexes
      then have "indexes_ok (en_catalog e)" "indexes_ok (tx_catalog t)"
        "\<forall>sp \<in> set (tx_savepoints t). indexes_ok (sp_catalog sp)"
        using inv t index_inv_parts by blast+
      then show ?thesis unfolding e' Indexes index_inv_simps by (simp add: push_savepoint_def)
    qed
  qed (use inv in simp)
qed

lemma found_savepoints:
  "find_savepoint nm txn = Some (earlier, sp) \<Longrightarrow> set (earlier @ [sp]) \<subseteq> set (tx_savepoints txn)"
proof -
  assume "find_savepoint nm txn = Some (earlier, sp)"
  then have "dropWhile (\<lambda>sp. sp_name sp \<noteq> nm) (rev (tx_savepoints txn)) = sp # rev earlier"
    by (auto simp: find_savepoint_def split: list.splits)
  then have "x \<in> set (sp # rev earlier) \<Longrightarrow> x \<in> set (rev (tx_savepoints txn))" for x
    by (metis set_dropWhileD)
  then show ?thesis by auto
qed

lemma indexes_after_find:
  assumes "index_inv k e" "en_txn e = Some txn" "find_savepoint nm txn = Some (earlier, sp)"
  shows "index_inv k (e\<lparr>en_txn := Some (txn\<lparr>tx_savepoints := earlier @ [sp]\<rparr>)\<rparr>)"
    "index_inv k (e\<lparr>en_txn := Some (txn\<lparr>tx_savepoints := earlier\<rparr>)\<rparr>)" "k = Indexes \<Longrightarrow> indexes_ok (sp_catalog sp)"
proof -
  have old: "set (earlier @ [sp]) \<subseteq> set (tx_savepoints txn)" by (rule found_savepoints [OF assms(3)])
  have kept: "index_inv k (e\<lparr>en_txn := Some (txn\<lparr>tx_savepoints := sps\<rparr>)\<rparr>)" if "set sps \<subseteq> set (tx_savepoints txn)" for sps
  proof (cases k)
    case Session
    then show ?thesis using assms(1,2) by (simp add: index_inv_simps session_ok_def txn_flags_def)
  next
    case Indexes
    then show ?thesis using assms(1,2) that by (auto simp: index_inv_simps)
  qed
  show "index_inv k (e\<lparr>en_txn := Some (txn\<lparr>tx_savepoints := earlier @ [sp]\<rparr>)\<rparr>)"
    "index_inv k (e\<lparr>en_txn := Some (txn\<lparr>tx_savepoints := earlier\<rparr>)\<rparr>)"
    by (rule kept; use old in simp)+
  show "k = Indexes \<Longrightarrow> indexes_ok (sp_catalog sp)"
    using assms(1,2) old by (auto simp: index_inv_simps)
qed

lemma rebase_safe:
  "safe k (andThen (asks (\<lambda>e. (catalog_snapshot (en_catalog e), table_names e))) (\<lambda>(snap, names).
     andThen (list_files W names) (\<lambda>fs.
     andThen (change (\<lambda>e. e\<lparr>en_txn := map_option (rebase_txn snap fs) (en_txn e)\<rparr>)) (\<lambda>_. ok msg))))"
proof (rule preservesI)
  fix e s r e' s'
  assume inv: "index_inv k e" and run: "andThen (asks (\<lambda>e. (catalog_snapshot (en_catalog e), table_names e))) (\<lambda>(snap, names).
     andThen (list_files W names) (\<lambda>fs.
     andThen (change (\<lambda>e. e\<lparr>en_txn := map_option (rebase_txn snap fs) (en_txn e)\<rparr>)) (\<lambda>_. ok msg))) e s = (r, e', s')"
  have "safe k (change (\<lambda>e. e\<lparr>en_txn := map_option (rebase_txn (catalog_snapshot (en_catalog e1)) fs) (en_txn e)\<rparr>))"
    if "index_inv k e1" for e1 fs
  proof (cases k)
    case Session
    then show ?thesis
      by (auto simp: preserves_def index_inv_simps session_ok_def txn_flags_def rebase_txn_def option.map_comp comp_def)
  next
    case Indexes
    then show ?thesis using that index_inv_parts(1) by (auto simp: preserves_def rebase_txn_def index_inv_simps)
  qed
  then have "safe k (andThen (list_files W names) (\<lambda>fs.
      andThen (change (\<lambda>e. e\<lparr>en_txn := map_option (rebase_txn (catalog_snapshot (en_catalog e1)) fs) (en_txn e)\<rparr>)) (\<lambda>_. ok msg)))"
    if "index_inv k e1" for e1 names
    using that by (intro safe_intros)
  from preservesD [OF this [OF inv] inv] run show "index_inv k e'" by (simp add: andThen_def [of "asks _"])
qed

lemma rollback_to_safe [safe_intros]: "safe k (handle_rollback_to W nm)"
proof (rule preservesI)
  fix e s r e' s'
  assume inv: "index_inv k e" and run: "handle_rollback_to W nm e s = (r, e', s')"
  show "index_inv k e'"
  proof (cases "en_txn e")
    case None
    with inv run show ?thesis by (simp add: handle_rollback_to_def)
  next
    case (Some txn)
    show ?thesis
    proof (cases "find_savepoint nm txn")
      case None
      with inv run Some show ?thesis by (simp add: handle_rollback_to_def)
    next
      case found: (Some f)
      obtain earlier sp where f: "f = (earlier, sp)" by (cases f)
      note after = indexes_after_find [OF inv Some found [unfolded f]]
      have "safe k (rollback_to_steps W nm sp current)" for current
        unfolding rollback_to_steps_def
        by (intro preserves_andThen txn_steps_safe restore_safe after(3) rebase_safe)
      from preservesD [OF this after(1)] Some found f run show ?thesis by (simp add: handle_rollback_to_def)
    qed
  qed
qed

lemma release_inv: "index_inv k e \<Longrightarrow> index_inv k (snd (handle_release_savepoint nm e))"
  by (auto simp: handle_release_savepoint_def split: option.splits intro: indexes_after_find(2))

section \<open>Runs\<close>

text \<open>A run keeps a predicate when it ends.\<close>

definition run_keeps :: "(engine \<Rightarrow> bool) \<Rightarrow> ('a, 's) run \<Rightarrow> bool" where
  "run_keeps P m \<longleftrightarrow> (\<forall>e s r e' s'. P e \<longrightarrow> m e s = Some (r, e', s') \<longrightarrow> P e')"

named_theorems run_intros \<open>runs that keep a predicate\<close>

lemma run_keepsI: "(\<And>e s r e' s'. P e \<Longrightarrow> m e s = Some (r, e', s') \<Longrightarrow> P e') \<Longrightarrow> run_keeps P m"
  unfolding run_keeps_def by blast

lemma run_keepsD: "run_keeps P m \<Longrightarrow> P e \<Longrightarrow> m e s = Some (r, e', s') \<Longrightarrow> P e'"
  unfolding run_keeps_def by blast

lemma run_keeps_runs [run_intros]: "preserves P m \<Longrightarrow> run_keeps P (runs m)"
  by (rule run_keepsI) (auto simp: runs_def dest: preservesD)

lemma run_keeps_andRun [run_intros]:
  assumes m: "run_keeps P m" and f: "\<And>a. run_keeps P (f a)"
  shows "run_keeps P (andRun m f)"
proof (rule run_keepsI)
  fix e s r e' s'
  assume P: "P e" and run: "andRun m f e s = Some (r, e', s')"
  then obtain q e1 s1 where q: "m e s = Some (q, e1, s1)" by (auto simp: andRun_def split: option.splits)
  have P1: "P e1" by (rule run_keepsD [OF m P q])
  show "P e'"
  proof (cases q)
    case (Inl msg)
    with q run P1 show ?thesis by (simp add: andRun_def)
  next
    case (Inr a)
    with q run have "f a e1 s1 = Some (r, e', s')" by (simp add: andRun_def)
    then show ?thesis by (rule run_keepsD [OF f P1])
  qed
qed

lemma run_keeps_tryRun [run_intros]: "run_keeps P m \<Longrightarrow> run_keeps P (tryRun m)"
  by (rule run_keepsI) (auto simp: tryRun_def split: option.splits dest: run_keepsD)

lemma run_keeps_eachRun [run_intros]: "(\<And>x. run_keeps P (f x)) \<Longrightarrow> run_keeps P (eachRun f xs)"
  by (induction xs) (auto intro!: run_intros preserves_intros)

lemma run_keeps_at_time [run_intros]: "(\<And>t. run_keeps P (f t)) \<Longrightarrow> run_keeps P (at_time W f)"
  by (auto simp: run_keeps_def at_time_def)

lemma run_keeps_cases [run_intros]:
  "(b \<Longrightarrow> run_keeps P m) \<Longrightarrow> (\<not> b \<Longrightarrow> run_keeps P n) \<Longrightarrow> run_keeps P (if b then m else n)"
  "run_keeps P m \<Longrightarrow> (\<And>x. run_keeps P (f x)) \<Longrightarrow> run_keeps P (case opt of None \<Rightarrow> m | Some x \<Rightarrow> f x)"
  "(\<And>x. run_keeps P (h x)) \<Longrightarrow> (\<And>y. run_keeps P (k y)) \<Longrightarrow> run_keeps P (case sm of Inl x \<Rightarrow> h x | Inr y \<Rightarrow> k y)"
  "(\<And>x y. run_keeps P (d x y)) \<Longrightarrow> run_keeps P (case pr of (x, y) \<Rightarrow> d x y)"
  by (simp_all split: option.splits sum.splits prod.splits)

lemma run_keeps_list_case [run_intros]:
  "run_keeps P m \<Longrightarrow> (\<And>x xs. run_keeps P (d x xs)) \<Longrightarrow> run_keeps P (case xs of [] \<Rightarrow> m | x # xs \<Rightarrow> d x xs)"
  by (simp split: list.splits)

abbreviation sound :: "concern \<Rightarrow> ('a, 's) run \<Rightarrow> bool" where
  "sound k \<equiv> run_keeps (index_inv k)"

lemma sound_pure [run_intros]: "(\<And>e. index_inv k e \<Longrightarrow> index_inv k (snd (h e))) \<Longrightarrow> sound k (pure_handler h)"
  by (rule run_keepsI) (auto simp: pure_handler_def split: prod.splits, metis snd_conv)

lemma view_helpers [simp]:
  "index_view (wal_finish_autocommit W force now e) = index_view e"
  "index_view (finalize_query sql t now r e) = index_view e" "index_view (evict_plan_cache q e) = index_view e"
  by (simp_all add: wal_finish_autocommit_def finalize_query_def evict_plan_cache_def index_view_def txn_flags_def Let_def
      split: option.splits)

lemma sound_finish [run_intros]: "sound k m \<Longrightarrow> sound k (finish W sql t m)"
proof (rule run_keepsI)
  fix e s r e' s'
  assume m: "sound k m" and inv: "index_inv k e" and run: "finish W sql t m e s = Some (r, e', s')"
  then obtain r1 e1 where *: "m e s = Some (r1, e1, s')" "e' = finalize_query sql t (w_clock W s') r1 e1"
    by (auto simp: finish_def split: option.splits)
  show "index_inv k e'" unfolding *(2) using run_keepsD [OF m inv *(1)] by (rule index_inv_view [rotated]) simp
qed

lemma sound_save_and_finish [run_intros]: "sound k m \<Longrightarrow> sound k (save_and_finish W sql t b m)"
proof (rule run_keepsI)
  fix e s r e' s'
  assume m: "sound k m" and inv: "index_inv k e" and run: "save_and_finish W sql t b m e s = Some (r, e', s')"
  then obtain r1 e1 s1 where 1: "m e s = Some (r1, e1, s1)"
    by (auto simp: save_and_finish_def split: option.splits)
  define e2 where "e2 = (if b \<and> is_ok r1 then wal_finish_autocommit W True (w_clock W s1) e1 else e1)"
  obtain r3 e3 s3 where 3: "flush_catalog W e2 s1 = (r3, e3, s3)" by (metis surj_pair)
  have "index_inv k e1" by (rule run_keepsD [OF m inv 1])
  then have "index_inv k e2" by (rule index_inv_view [rotated]) (simp add: e2_def)
  then have inv3: "index_inv k e3" by (rule preservesD [OF storage_safe(13) _ 3])
  from run 1 3 have "index_view e' = index_view e3"
    by (auto simp: save_and_finish_def e2_def [symmetric] Let_def split: sum.splits)
  then show "index_inv k e'" using inv3 by (rule index_inv_view)
qed

section \<open>Statements\<close>

lemma pure_handlers [simp]:
  "index_view (snd (handle_create_user sql e)) = index_view e" "index_view (snd (handle_create_role sql e)) = index_view e"
  "index_view (snd (handle_grant sql e)) = index_view e" "index_view (snd (handle_revoke sql e)) = index_view e"
  "index_view (snd (handle_listen sql e)) = index_view e" "index_view (snd (handle_notify sql e)) = index_view e"
  "index_view (snd (handle_create_procedure sql e)) = index_view e"
  "index_view (snd (handle_create_trigger sql e)) = index_view e" "index_view (snd (handle_drop_trigger sql e)) = index_view e"
  "index_view (snd (handle_create_migration sql e)) = index_view e"
  "index_view (snd (handle_add_replica sql e)) = index_view e" "index_view (snd (handle_remove_replica sql e)) = index_view e"
  "index_view (snd (handle_checkpoint now e)) = index_view e"
  by (simp_all add: index_view_def txn_flags_def handle_create_user_def handle_create_role_def handle_grant_def handle_revoke_def
      handle_listen_def handle_notify_def handle_create_procedure_def handle_create_trigger_def handle_drop_trigger_def
      handle_create_migration_def handle_add_replica_def handle_remove_replica_def handle_checkpoint_def
      add_privilege_def add_user_role_def remove_privilege_def Let_def split: list.splits option.splits prod.splits sum.splits)

lemma sound_pure_view [run_intros]: "(\<And>e. index_view (snd (h e)) = index_view e) \<Longrightarrow> sound k (pure_handler h)"
  by (rule sound_pure) (metis index_inv_view)

lemma expand_nextval_safe [safe_intros]: "safe k (expand_nextval sql)"
  by (rule safe_kept, rule expand_nextval_keeps) (simp add: index_view_def txn_flags_def)

lemma asof_safe [safe_intros]: "safe k (execute_as_of_timestamp W sql ts)"
proof -
  have on: "safe k (change (\<lambda>e. e\<lparr>en_snapshots_on := True\<rparr>))" by (rule safe_change) (simp add: index_view_def txn_flags_def)
  have tables: "safe k (asof_tables W ts sql)" for ts sql
    by (induction ts arbitrary: sql) (auto intro!: safe_intros split: option.splits)
  have query: "safe k (asof_query W out names)" for out names
  proof (rule preservesI)
    fix e s r e' s'
    assume inv: "index_inv k e" and run: "asof_query W out names e s = (r, e', s')"
    obtain q e1 s1 where q: "collect_with_plan_cache W out e s = (q, e1, s1)" by (metis surj_pair)
    have inv1: "index_inv k e1" by (rule preservesD [OF storage_safe(17) inv q])
    have "safe k (each (\<lambda>t. attempt (outside (w_deregister W t))) names)" by (intro safe_intros)
    from preservesD [OF this inv1] run q show "index_inv k e'" by (auto simp: asof_query_def split: prod.splits)
  qed
  show ?thesis unfolding execute_as_of_timestamp_def enable_snapshots_def by (intro safe_intros on tables query)
qed

lemma fulltext_safe [safe_intros]: "safe k (handle_create_fulltext_index W t)"
proof -
  have 1: "safe k (change (\<lambda>e. e\<lparr>en_fulltext := f e\<rparr>))" for f by (rule safe_change) (simp add: index_view_def txn_flags_def)
  have 2: "safe k (rebuild_index W nd)" for nd
    unfolding rebuild_index_def by (intro safe_intros safe_change) simp
  show ?thesis unfolding handle_create_fulltext_index_def by (intro safe_intros 1 2)
qed

lemma small_safe [safe_intros]:
  "safe k (run_records W sql)" "safe k (handle_prepare W nm template)" "safe k (prepared_text W nm ps)" "safe k (flush_before W upper)"
proof -
  show "safe k (run_records W sql)" unfolding run_records_def by (intro safe_intros)
  show "safe k (handle_prepare W nm template)"
    by (rule preservesI, erule index_inv_view [rotated])
      (auto simp: handle_prepare_def index_view_def txn_flags_def Let_def split: prod.splits)
  show "safe k (flush_before W upper)" by (rule safe_kept) (simp add: flush_before_def, intro impI conjI keeps_intros)
  have "keeps index_view (prepared_text W nm ps)"
    unfolding prepared_text_def
    by (intro keeps_intros) (auto simp: keeps_def split: prod.splits sum.splits sql_error.splits)
  then show "safe k (prepared_text W nm ps)" by (rule safe_kept)
qed

section \<open>Executing statements\<close>

text \<open>The handlers that execute statements keep the invariant when the execution does.\<close>

locale sound_executor =
  fixes exec :: "'s executor" and k :: concern
  assumes sound_exec: "sound k (exec sql)"
begin

lemma run_triggers_sound [run_intros]: "sound k (run_triggers exec tbl ev t)"
proof -
  have "sound k (eachRun (\<lambda>b. tryRun (exec b)) bs)" for bs by (intro run_intros sound_exec)
  then show ?thesis by (simp add: run_keeps_def run_triggers_def)
qed

lemma row_statements_sound [run_intros]:
  "sound k (handle_delete W exec sql d)" "sound k (handle_update W exec sql tbl as sel)" "sound k (handle_insert W exec sql i)"
proof -
  have returning: "safe k (returning_query W ret f)" for W :: "'s world" and ret f
    by (rule safe_kept, intro keeps_intros)
  show "sound k (handle_delete W exec sql d)" "sound k (handle_update W exec sql tbl as sel)"
    unfolding handle_delete_def handle_update_def by (intro run_intros safe_intros)+
  have "sound k (insert_rows W exec sql i)"
    unfolding insert_rows_def Let_def by (intro run_intros safe_intros returning)
  then show "sound k (handle_insert W exec sql i)"
    unfolding handle_insert_def by (auto intro!: run_intros safe_intros split: option.splits on_insert.splits)
qed

lemma command_handler_sound [run_intros]: "sound k (command_handler W exec t c)"
proof -
  have migrated: "safe k (\<lambda>e s. change_catalog (migration_applied v (now s)) e s)" for v now
    by (rule preservesI) (rule preservesD [OF safe_catalog [OF catalog_kinds_ok(10) catalog_kinds_flag(10)]])
  have call: "sound k (handle_call_procedure exec t)"
    unfolding handle_call_procedure_def Let_def by (intro run_intros safe_intros sound_exec)
  have block: "sound k (handle_do_block exec t)"
    unfolding handle_do_block_def do_statement_def by (intro run_intros safe_intros sound_exec)
  have migrate: "sound k (handle_migrate W exec t)"
    unfolding handle_migrate_def migrate_one_def by (intro run_intros safe_intros sound_exec migrated)
  have release: "sound k (pure_handler (handle_release_savepoint nm))" for nm
    by (intro sound_pure release_inv)
  show ?thesis
    by (cases c) (auto intro!: run_intros safe_intros simp: call block migrate release)
qed

lemma run_statement_sound: "sound k (run_statement W exec sql st)"
proof -
  have prepared: "sound k (execute_prepared W exec nm ps)" for nm ps
    unfolding execute_prepared_def by (intro run_intros safe_intros sound_exec)
  show ?thesis
  proof (cases st)
    case (Vacuum tbl)
    then show ?thesis by (cases tbl) (auto intro!: run_intros safe_intros)
  next
    case (DropObject k nms x)
    then show ?thesis by (cases k) (auto intro!: run_intros safe_intros)
  qed (auto intro!: run_intros safe_intros prepared)
qed

lemma settled_statement_sound [run_intros]: "sound k (settled_statement W exec sql t st)"
proof (rule run_keepsI)
  fix e s r e' s'
  assume inv: "index_inv k e" and run: "settled_statement W exec sql t st e s = Some (r, e', s')"
  then obtain q e1 s1 where 1: "run_statement W exec sql st e s = Some (q, e1, s1)"
    by (auto simp: settled_statement_def split: option.splits)
  have inv1: "index_inv k e1" by (rule run_keepsD [OF run_statement_sound inv 1])
  have finished: "safe k (\<lambda>e s. change (wal_finish_autocommit W b (w_clock W s)) e s)" for b
    by (rule safe_kept) (simp add: keeps_def)
  have "safe k (after_mutation W st)"
    unfolding after_mutation_def by (intro safe_intros finished safe_change) simp
  then have "sound k (andRun (runs (if is_mutating st then after_mutation W st else ok ()))
      (\<lambda>_. save_and_finish W sql t False (runs (ok x))))" for x
    by (intro run_intros safe_intros)
  moreover have "sound k (save_and_finish W sql t False (runs (fail err)))" for err
    by (intro run_intros safe_intros)
  ultimately show "index_inv k e'"
    using run 1 inv1 by (auto simp: settled_statement_def split: sum.splits if_splits dest: run_keepsD)
qed

lemma parsed_statement_sound [run_intros]: "sound k (parsed_statement W exec sql t tr)"
proof -
  have "sound k (unparsed_statement W sql t tr)"
    unfolding unparsed_statement_def unparsed_vacuum_def Let_def by (intro run_intros safe_intros)
  then show ?thesis unfolding parsed_statement_def by (intro run_intros safe_intros)
qed

lemma checked_statement_sound [run_intros]: "sound k (checked_statement W exec sql t tr)"
  unfolding checked_statement_def Let_def by (intro run_intros safe_intros sound_pure_view pure_handlers)

lemma dispatch_sound [run_intros]: "sound k (dispatch W exec sql t)"
proof -
  have flush: "sound k (flush_statement W sql t tr)" for tr
    unfolding flush_statement_def by (intro run_intros safe_intros)
  have access: "safe k (\<lambda>e s. (enforce_access tr e, e, s))" for tr
    by (rule safe_kept) (simp add: keeps_def)
  show ?thesis
    unfolding dispatch_def run_command_def Let_def by (intro run_intros safe_intros flush access)
qed

lemma execute_with_sound: "sound k (execute_with W exec sql t)"
proof -
  have effective: "safe k (\<lambda>e s. (effective_sql x e, e, s))" for x
    by (rule safe_kept) (simp add: keeps_def)
  show ?thesis unfolding execute_with_def by (intro run_intros safe_intros effective)
qed

end

lemma execute_sound: "sound k (execute W d sql)"
proof (induction d arbitrary: sql)
  case 0
  show ?case by (rule run_keepsI) simp
next
  case (Suc d)
  have "sound_executor (execute W d) k" by unfold_locales (rule Suc.IH)
  then show ?case by (simp add: sound_executor.execute_with_sound run_intros safe_intros)
qed

interpretation statements: sound_executor "execute W d" k for W d k
  by unfold_locales (rule execute_sound)

section \<open>Scripts\<close>

lemma run_script_keeps:
  assumes "\<And>sql. run_keeps P (exec sql)" and "P e" and "run_script exec b sts e s = Some (rs, e', s')"
  shows "P e'"
  using assms(2,3)
proof (induction sts arbitrary: e s rs)
  case Nil
  then show ?case by simp
next
  case (Cons st sts)
  from Cons.prems(2) obtain r e1 s1 where 1: "exec st e s = Some (r, e1, s1)" by (auto split: option.splits)
  have "P e1" by (rule run_keepsD [OF assms(1) Cons.prems(1) 1])
  with Cons 1 show ?case by (auto split: if_splits option.splits)
qed

text \<open>
  C7. After any script of statements, whatever they execute and whichever of them fail, every
  index of the catalog is on a table that exists and is either the primary index of its table or
  a logical one, and each table that has indexes has exactly one primary index, that is, one
  order in which its files are written. Transactions and savepoints may be opened and undone by
  the script.
\<close>

theorem one_primary_index:
  assumes "indexes_ok (en_catalog e)" and "en_txn e = None"
    and "run_script (execute W d) continue_on_error sts e s = Some (rs, e', s')"
  shows "(\<forall>i \<in> set (hm_values (cat_indexes (en_catalog e'))).
       hm_contains (cat_tables (en_catalog e')) (ix_table i) \<and> (ix_logical_only i \<longleftrightarrow> \<not> ix_primary i)) \<and>
     (\<forall>tbl. table_indexes tbl (en_catalog e') \<noteq> [] \<longrightarrow>
        length (filter ix_primary (table_indexes tbl (en_catalog e'))) = 1)"
proof -
  have "index_inv Indexes e" using assms(1,2) by (simp add: index_inv_simps)
  then have "index_inv Indexes e'" by (rule run_script_keeps [OF execute_sound _ assms(3)])
  then have "indexes_ok (en_catalog e')" by (rule index_inv_parts(1))
  then show ?thesis by (simp add: indexes_ok_def)
qed

text \<open>
  C4. The state of the session. After any script of statements on a new engine, whatever they execute and however
  they end, the engine has an open transaction exactly when its catalog holds back saves,
  and a statement is logged under the transaction id 0 (which recovery replays without a commit)
  exactly when there is no open transaction.
\<close>

theorem transaction_state_consistent:
  assumes "\<not> in_transaction c"
    and "run_script (execute W d) continue_on_error sts (engine_new env now loc url pre wal awal c) s = Some (rs, e, s')"
  shows "(in_txn e \<longleftrightarrow> in_transaction (en_catalog e)) \<and>
     (we_txn (pending_entry sql e) = 0 \<longleftrightarrow> \<not> in_txn e)"
proof -
  have "index_inv Session (engine_new env now loc url pre wal awal c)"
    using engine_new_session [OF assms(1)] by (simp add: index_inv_simps)
  then have "index_inv Session e" by (rule run_script_keeps [OF execute_sound _ assms(2)])
  then show ?thesis using session_ids by (auto simp: index_inv_simps)
qed

abbreviation create_index_i :: string where
  "create_index_i \<equiv> ''CREATE INDEX i ON t (a)''"

definition index_world :: "unit world" where
  "index_world = one_statement (CreateIndex
     \<lparr>ci_text = create_index_i, ci_name = Some ''i'', ci_table = ''t'', ci_columns = [(''a'', None)], ci_if_not_exists = False\<rparr>)"

definition index_engine :: engine where
  "index_engine = bare_engine\<lparr>en_catalog := (en_catalog bare_engine)\<lparr>cat_tables :=
     [(''t'', (plain_table ''t'')\<lparr>tm_columns := [\<lparr>cd_name = ''a'', cd_type = ''INT'', cd_nullable = True\<rparr>]\<rparr>)]\<rparr>\<rparr>"

lemma index_text: "reaches_parser (to_uppercase (trim_statement create_index_i))"
  "find_str nextval_open (to_lowercase create_index_i) = None"
  "find_str as_of_marker (to_uppercase create_index_i) = None" "find_str ''FTS_MATCH('' (to_uppercase create_index_i) = None"
  by code_simp+

lemma index_engine_ready: "ready W create_index_i index_engine"
proof -
  have "as_written W create_index_i index_engine"
    using index_text(2-4) by (auto intro!: as_written_plain simp: index_engine_def)
  moreover have "enforce_access x index_engine = Inr ()" for x
    by (simp add: enforce_access_def current_user_is_admin_def index_engine_def bare_rights privileges_in_def)
  ultimately show ?thesis by (simp add: ready_def) (simp add: index_engine_def)
qed

lemma one_statement_outside [simp]:
  "outside (w_deregister (one_statement st) nm) e s = (Inr (), e, s)" "outside (w_create_dir (one_statement st) nm) e s = (Inr (), e, s)"
  "register_listing_table (one_statement st) nm cols url parts e s = (Inr (), e, s)"
  "run_query (one_statement st) sql e s = (Inr [], e, s)" "delete_parquet_files (one_statement st) tbl e s = (Inr (), e, s)"
  "look (\<lambda>_. columns_to_schema (one_statement st) cols) e s = (Inr (), e, s)"
  by (simp_all add: outside_def one_statement_def idle_world_def run_query_def run_sql_def delete_parquet_files_def
      list_objects_def look_def andThen_def register_listing_table_def) (induction cols; simp)

lemma rewrite_in_order_idle:
  "\<exists>e'. rewrite_in_order (one_statement st) nm tbl ics m e s = (Inr (), e', s) \<and>
     en_catalog e' = add_primary_index nm tbl ics (en_catalog e)"
  by (simp add: rewrite_in_order_def andThen_def change_catalog_def fill_table_def has_rows_def)

lemma index_created:
  "\<exists>q e'. handle_create_index index_world
     \<lparr>ci_text = create_index_i, ci_name = Some ''i'', ci_table = ''t'', ci_columns = [(''a'', None)], ci_if_not_exists = False\<rparr>
     index_engine () = (Inr q, e', ()) \<and> table_indexes ''t'' (en_catalog e') \<noteq> []"
proof -
  let ?tables = "[(''t'', (plain_table ''t'')\<lparr>tm_columns := [\<lparr>cd_name = ''a'', cd_type = ''INT'', cd_nullable = True\<rparr>]\<rparr>)]"
  have e: "cat_indexes (en_catalog index_engine) = []" "cat_tables (en_catalog index_engine) = ?tables"
    "en_txn index_engine = None"
    by (simp_all add: index_engine_def bare_engine_def engine_new_def bootstrap_users_def with_data_def empty_data_def Let_def)
  have log: "en_catalog (wal_append_pending W sql index_engine) = en_catalog index_engine"
    "en_txn (wal_append_pending W sql index_engine) = None" for W :: "unit world" and sql
    by (simp_all add: wal_append_pending_def e)
  obtain e' where "rewrite_in_order index_world ''i'' ''t'' [\<lparr>ic_name = ''a'', ic_ascending = True\<rparr>] (snd (hd ?tables))
      (wal_append_pending index_world create_index_i index_engine) () = (Inr (), e', ())"
    "en_catalog e' = add_primary_index ''i'' ''t'' [\<lparr>ic_name = ''a'', ic_ascending = True\<rparr>] (en_catalog index_engine)"
    using rewrite_in_order_idle [where e = "wal_append_pending index_world create_index_i index_engine"]
    unfolding index_world_def log by blast
  then show ?thesis
    by (simp add: handle_create_index_def create_index_named_def andThen_def the_table_def hm_contains_def e log message_def
        backup_table_for_txn_def)
      (simp add: table_indexes_def add_primary_index_def add_index_def hm_values_def hm_insert_def e hm_map_values_def)
qed

text \<open>What follows a statement leaves the indexes alone.\<close>

lemma after_statement:
  assumes "keeps index_view m"
  shows "\<exists>r e' s'. andRun (runs m) (\<lambda>_. save_and_finish W sql t False (runs (ok q))) e s = Some (r, e', s') \<and>
    index_view e' = index_view e"
proof -
  obtain x e1 s1 where m: "m e s = (x, e1, s1)" by (metis surj_pair)
  obtain y e2 s2 where f: "flush_catalog W e1 s1 = (y, e2, s2)" by (metis surj_pair)
  have 1: "index_view e1 = index_view e" using assms m by (rule keepsD)
  have 2: "index_view e2 = index_view e1" by (rule keepsD [OF index.flush_catalog_keeps f])
  show ?thesis
    by (cases x; cases y) (simp_all add: andRun_def runs_def save_and_finish_def m f 1 2 Let_def)
qed

lemma after_mutation_keeps: "keeps index_view (after_mutation W st)"
proof -
  have clock: "keeps index_view (\<lambda>e s. change (wal_finish_autocommit W b (w_clock W s)) e s)" for b
    by (simp add: keeps_def)
  show ?thesis unfolding after_mutation_def by (intro keeps_intros clock snapshot_keeps_view) simp
qed

lemma index_script:
  "\<exists>rs e' s'. run_script (execute index_world (Suc 0)) False [create_index_i] index_engine () = Some (rs, e', s') \<and>
     table_indexes ''t'' (en_catalog e') \<noteq> []"
proof -
  let ?st = "CreateIndex \<lparr>ci_text = create_index_i, ci_name = Some ''i'', ci_table = ''t'',
      ci_columns = [(''a'', None)], ci_if_not_exists = False\<rparr>"
  from index_created obtain q e1 where 1: "run_statement index_world (execute index_world 0) create_index_i ?st index_engine () = Some (Inr q, e1, ())"
      and some: "table_indexes ''t'' (en_catalog e1) \<noteq> []" by (auto simp: runs_def)
  have parse: "w_parse index_world create_index_i = Inr [?st]" by (simp add: index_world_def one_statement_def)
  have after: "keeps index_view (if is_mutating ?st then after_mutation index_world ?st else ok ())"
    by (simp add: after_mutation_keeps keeps_basic)
  obtain r e' s' where 2: "settled_statement index_world (execute index_world 0) create_index_i 0 ?st index_engine () = Some (r, e', s')"
      and view: "index_view e' = index_view e1"
    using after_statement [OF after, of index_world create_index_i 0 q e1 "()"] by (auto simp: settled_statement_def 1 simp del: run_statement.simps)
  have "w_clock index_world () = 0" by (simp add: index_world_def one_statement_def idle_world_def)
  with execute_parsed [OF index_engine_ready index_text(1) parse, of 0 "()"] 2
  have "execute index_world (Suc 0) create_index_i index_engine () = Some (r, e', s')" by simp
  moreover have "table_indexes ''t'' (en_catalog e') \<noteq> []"
    using some view by (simp add: table_indexes_def index_view_def)
  ultimately show ?thesis by (cases r) (simp_all del: execute.simps)
qed

theorem one_primary_index_witness:
  "\<exists>rs e' s'. run_script (execute index_world (Suc 0)) False [create_index_i] index_engine () = Some (rs, e', s') \<and>
     length (filter ix_primary (table_indexes ''t'' (en_catalog e'))) = 1"
proof -
  from index_script obtain rs e' s' where run:
      "run_script (execute index_world (Suc 0)) False [create_index_i] index_engine () = Some (rs, e', s')"
    and some: "table_indexes ''t'' (en_catalog e') \<noteq> []" by blast
  have start: "indexes_ok (en_catalog index_engine)" "en_txn index_engine = None"
    by (simp_all add: indexes_ok_def table_indexes_def hm_values_def index_engine_def bare_engine_def engine_new_def
        bootstrap_users_def with_data_def empty_data_def Let_def)
  from one_primary_index [OF start run] some run show ?thesis by blast
qed

text \<open>BEGIN on a new engine.\<close>

lemma begin_text: "reaches_parser (to_uppercase (trim_statement ''BEGIN''))"
  "find_str nextval_open (to_lowercase ''BEGIN'') = None"
  "find_str as_of_marker (to_uppercase ''BEGIN'') = None" "find_str ''FTS_MATCH('' (to_uppercase ''BEGIN'') = None"
  by code_simp+

lemma bare_engine_ready: "ready W ''BEGIN'' bare_engine"
proof -
  have "as_written W ''BEGIN'' bare_engine"
    using begin_text(2-4) by (auto intro!: as_written_plain)
  moreover have "enforce_access x bare_engine = Inr ()" for x
    by (simp add: enforce_access_def current_user_is_admin_def bare_rights privileges_in_def)
  ultimately show ?thesis by (simp add: ready_def)
qed

lemma begin_script:
  "\<exists>rs e' s'. run_script (execute (one_statement StartTransaction) (Suc 0)) False [''BEGIN''] bare_engine () = Some (rs, e', s') \<and>
     in_txn e'"
proof -
  let ?W = "one_statement StartTransaction"
  have tables: "cat_tables (en_catalog bare_engine) = []"
    by (simp add: bare_engine_def engine_new_def bootstrap_users_def with_data_def empty_data_def Let_def)
  have "\<exists>q e1. run_statement ?W (execute ?W 0) ''BEGIN'' StartTransaction bare_engine () = Some (Inr q, e1, ()) \<and> in_txn e1"
    by (simp add: runs_def handle_begin_def in_txn_def bare_rights table_names_def hm_keys_def tables open_txn_def next_txn_id_def)
  then obtain q e1 where 1: "run_statement ?W (execute ?W 0) ''BEGIN'' StartTransaction bare_engine () = Some (Inr q, e1, ())"
    and some: "in_txn e1" by blast
  have parse: "w_parse ?W ''BEGIN'' = Inr [StartTransaction]" by (simp add: one_statement_def)
  have after: "keeps index_view (if is_mutating StartTransaction then after_mutation ?W StartTransaction else ok ())"
    by (simp add: after_mutation_keeps keeps_basic)
  obtain r e' s' where 2: "settled_statement ?W (execute ?W 0) ''BEGIN'' 0 StartTransaction bare_engine () = Some (r, e', s')"
      and view: "index_view e' = index_view e1"
    using after_statement [OF after, of ?W "''BEGIN''" 0 q e1 "()"] by (auto simp: settled_statement_def 1 simp del: run_statement.simps)
  have "w_clock ?W () = 0" by (simp add: one_statement_def idle_world_def)
  with execute_parsed [OF bare_engine_ready begin_text(1) parse, of 0 "()"] 2
  have "execute ?W (Suc 0) ''BEGIN'' bare_engine () = Some (r, e', s')" by simp
  moreover have "in_txn e'" using some view
    by (cases "en_txn e'") (auto simp: index_view_def txn_flags_def in_txn_def)
  ultimately show ?thesis by (cases r) (simp_all del: execute.simps)
qed

theorem transaction_state_consistent_witness:
  "\<exists>rs e' s'. run_script (execute (one_statement StartTransaction) (Suc 0)) False [''BEGIN''] bare_engine () = Some (rs, e', s') \<and>
     in_txn e' \<and> in_transaction (en_catalog e') \<and> we_txn (pending_entry ''DELETE FROM t'' e') \<noteq> 0"
proof -
  from begin_script obtain rs e' s' where run:
      "run_script (execute (one_statement StartTransaction) (Suc 0)) False [''BEGIN''] bare_engine () = Some (rs, e', s')"
    and some: "in_txn e'" by blast
  have "(in_txn e' \<longleftrightarrow> in_transaction (en_catalog e')) \<and>
      (we_txn (pending_entry ''DELETE FROM t'' e') = 0 \<longleftrightarrow> \<not> in_txn e')"
    using transaction_state_consistent [OF _ run [unfolded bare_engine_def]] by (simp add: with_data_def)
  with run some show ?thesis by blast
qed

end
