(* ===== verification/Statement_Props.thy ===== *)
theory Statement_Props
  imports Index_Props
begin

text \<open>
  What two statements report: INSERT with ON CONFLICT counts every row of its source once, and
  MIGRATE applies all pending migrations in order.
\<close>

section \<open>Upserts\<close>

lemma upsert_updates_counts:
  "upsert_updates W tbl m conflict act rows e s = (Inr (u, k), e', s') \<Longrightarrow>
     u + k = length rows \<and> (act = DoNothing \<longrightarrow> u = 0) \<and> (act \<noteq> DoNothing \<longrightarrow> k = 0)"
  by (cases act) (auto simp: upsert_updates_def andThen_Inr split: if_splits)

lemma upsert_inserts_count: "upsert_inserts W tbl target rows e s = (Inr n, e', s') \<Longrightarrow> n = length rows"
  by (auto simp: upsert_inserts_def andThen_Inr split: if_splits)

lemma length_filters: "length (filter P xs) + length (filter (\<lambda>x. \<not> P x) xs) = length xs"
  by (rule sum_length_filter_compl)

lemma upsert_rows_counts:
  assumes "upsert_rows W tbl m conflict target act rows e s = (Inr q, e', s')"
  shows "\<exists>i u k. q = upsert_message i u k \<and> i + (u + k) = length rows \<and>
    (act = DoNothing \<longrightarrow> u = 0) \<and> (act \<noteq> DoNothing \<longrightarrow> k = 0)"
proof -
  obtain found i u k e1 s1 e2 s2 e3 s3 where
      i: "upsert_inserts W tbl target (filter (\<lambda>r. conflict_key r \<notin> set (existing_keys conflict found)) rows) e1 s1 = (Inr i, e2, s2)"
      and u: "upsert_updates W tbl m conflict act (filter (\<lambda>r. conflict_key r \<in> set (existing_keys conflict found)) rows) e2 s2 =
        (Inr (u, k), e3, s3)"
      and q: "q = upsert_message i u k"
    using assms by (auto simp: upsert_rows_def andThen_Inr Let_def split: prod.splits)
  from upsert_inserts_count [OF i] upsert_updates_counts [OF u]
    length_filters [of "\<lambda>r. conflict_key r \<in> set (existing_keys conflict found)" rows]
  show ?thesis by (intro exI [of _ i] exI [of _ u] exI [of _ k]) (auto simp: q)
qed

text \<open>
  C29. An INSERT with ON CONFLICT that succeeds reports numbers of inserted, updated and skipped
  rows that add up to the rows its source returned; DO NOTHING updates no row and DO UPDATE
  skips none.
\<close>

theorem upsert_accounts_for_every_row:
  assumes "handle_upsert W i oc e s = (Inr q, e', s')"
  shows "\<exists>src e1 s1 bs e2 s2 ins upd skip.
    is_source i = Some src \<and> run_query W src e1 s1 = (Inr bs, e2, s2) \<and>
    q = upsert_message ins upd skip \<and> ins + (upd + skip) = length (batch_rows bs) \<and>
    (oc_action oc = DoNothing \<longrightarrow> upd = 0) \<and> (oc_action oc \<noteq> DoNothing \<longrightarrow> skip = 0)"
proof -
  obtain m conflict rows e1 s1 e2 s2 where
      source: "upsert_source W i (insert_columns i m) conflict e1 s1 = (Inr rows, e2, s2)"
      and rest: "(if rows = [] then ok (upsert_message 0 0 0)
        else upsert_rows W (is_table i) m conflict (insert_columns i m) (oc_action oc) rows) e2 s2 = (Inr q, e', s')"
  proof -
    obtain m e1 s1 where after: "(case resolve_conflict_columns m oc of
        Inl err \<Rightarrow> fail err
      | Inr conflict \<Rightarrow>
          if conflict = [] then fail ''ON CONFLICT requires a conflict target''
          else andThen (upsert_source W i (insert_columns i m) conflict) (\<lambda>rows.
               if rows = [] then ok (upsert_message 0 0 0)
               else upsert_rows W (is_table i) m conflict (insert_columns i m) (oc_action oc) rows)) e1 s1 = (Inr q, e', s')"
      using assms by (auto simp: handle_upsert_def andThen_Inr [of "flush_table W (is_table i)"]
          andThen_Inr [of "the_table (is_table i)"] Let_def)
    then obtain conflict where conflict: "resolve_conflict_columns m oc = Inr conflict" "conflict \<noteq> []"
      by (cases "resolve_conflict_columns m oc") (auto split: if_splits)
    from after show thesis unfolding conflict(1) using conflict(2) that by (auto simp: andThen_Inr)
  qed
  from source obtain src bs e3 s3 where
      src: "is_source i = Some src" "run_query W src e1 s1 = (Inr bs, e3, s3)" "length rows = length (batch_rows bs)"
    by (auto simp: upsert_source_def andThen_Inr split: option.splits if_splits)
  have "\<exists>ins upd skip. q = upsert_message ins upd skip \<and> ins + (upd + skip) = length rows \<and>
      (oc_action oc = DoNothing \<longrightarrow> upd = 0) \<and> (oc_action oc \<noteq> DoNothing \<longrightarrow> skip = 0)"
  proof (cases "rows = []")
    case True
    with rest show ?thesis by auto
  next
    case False
    with rest show ?thesis by (simp add: upsert_rows_counts)
  qed
  with src show ?thesis by metis
qed

text \<open>Two rows with the same key: neither is found in the table, and both are inserted.\<close>

definition upsert_world :: "unit world" where
  "upsert_world = idle_world\<lparr>w_sql := (\<lambda>sql s. (Inr (if sql = ''VALUES (1), (1)''
     then [\<lparr>rb_fields = [''a''], rb_rows = [[CInt 1], [CInt 1]]\<rparr>] else []), s))\<rparr>"

definition upsert_insert :: insert_ast where
  "upsert_insert = \<lparr>is_text = ''INSERT INTO t VALUES (1), (1) ON CONFLICT (a) DO NOTHING'', is_table = ''t'', is_columns = [],
     is_source = Some ''VALUES (1), (1)'', is_on = None\<rparr>"

definition on_a :: on_conflict where
  "on_a = \<lparr>oc_target = Some (ConflictColumns [''a'']), oc_action = DoNothing\<rparr>"

lemma upsert_world_query:
  "run_query upsert_world ''VALUES (1), (1)'' e s = (Inr [\<lparr>rb_fields = [''a''], rb_rows = [[CInt 1], [CInt 1]]\<rparr>], e, s)"
  "sql \<noteq> ''VALUES (1), (1)'' \<Longrightarrow> run_query upsert_world sql e s = (Inr [], e, s)"
  "w_list upsert_world p s = Inr []"
  by (simp_all add: run_query_def outside_def upsert_world_def run_sql_def idle_world_def)

lemma upsert_example: "\<exists>q e'. handle_upsert upsert_world upsert_insert on_a index_engine () = (Inr q, e', ())"
proof -
  have e: "en_buffer index_engine = []" "hm_get (cat_tables (en_catalog index_engine)) ''t'' =
      Some ((plain_table ''t'')\<lparr>tm_columns := [\<lparr>cd_name = ''a'', cd_type = ''INT'', cd_nullable = True\<rparr>]\<rparr>)"
    by (simp_all add: index_engine_def)
  have e1: "cat_tables (en_catalog (wal_append_pending W sql index_engine)) = cat_tables (en_catalog index_engine)"
    for W :: "unit world" and sql by (simp add: wal_append_pending_def)
  show ?thesis
    by (simp add: handle_upsert_def upsert_insert_def on_a_def flush_table_def e andThen_def the_table_def
        resolve_conflict_columns_def upsert_source_def upsert_world_query batch_rows_def insert_columns_def
        upsert_rows_def Let_def conflict_sql_def values_sql_def existing_keys_def upsert_inserts_def upsert_updates_def
        checked_def validate_not_null_table_def e1 validate_table_def validate_table_constraints_def
        validate_check_constraints_def constraints_of_def plain_table_def refresh_table_file_stats_light_def list_objects_def
        look_def record_cdc_def)
qed

theorem upsert_accounts_for_every_row_witness:
  "\<exists>ins upd skip e'. handle_upsert upsert_world upsert_insert on_a index_engine () = (Inr (upsert_message ins upd skip), e', ()) \<and>
     ins + (upd + skip) = 2 \<and> upd = 0"
proof -
  from upsert_example obtain q e' where run: "handle_upsert upsert_world upsert_insert on_a index_engine () = (Inr q, e', ())"
    by blast
  from upsert_accounts_for_every_row [OF run] obtain src e1 s1 bs e2 s2 ins upd skip where
      *: "is_source upsert_insert = Some src" "run_query upsert_world src e1 s1 = (Inr bs, e2, s2)"
        "q = upsert_message ins upd skip" "ins + (upd + skip) = length (batch_rows bs)" "oc_action on_a = DoNothing \<longrightarrow> upd = 0"
    by blast
  from *(1,2) have "length (batch_rows bs) = 2"
    by (auto simp: upsert_insert_def upsert_world_query batch_rows_def)
  with * run show ?thesis by (auto simp: on_a_def)
qed

section \<open>MIGRATE\<close>

text \<open>
  The texts of the migrations succeed one after the other, each from the state the one before it
  left, and none of them touches the list of migrations or the version of the schema.
\<close>

fun migrations_succeed :: "'s world \<Rightarrow> 's executor \<Rightarrow> migration_record list \<Rightarrow> engine \<Rightarrow> 's \<Rightarrow> bool" where
  "migrations_succeed W exec [] e s = True"
| "migrations_succeed W exec (m # ms) e s =
     (case exec (mg_sql m) e s of
        Some (Inr _, e1, s1) \<Rightarrow>
          cat_migrations (en_catalog e1) = cat_migrations (en_catalog e) \<and>
          cat_schema_version (en_catalog e1) = cat_schema_version (en_catalog e) \<and>
          migrations_succeed W exec ms
            (with_catalog (migration_applied (mg_version m) (w_utc_ms W s1) (en_catalog e1)) e1) s1
      | _ \<Rightarrow> False)"

lemma versions_mark [simp]: "map mg_version (mark_applied v now ms) = map mg_version ms"
  by (induction v now ms rule: mark_applied.induct) auto

lemma le_last: "sorted xs \<Longrightarrow> x \<in> set xs \<Longrightarrow> x \<le> last xs" for x :: nat
  by (induction xs) auto

lemma migrations_run:
  "migrations_succeed W exec ms e s \<Longrightarrow>
     \<exists>e' s'. eachRun (migrate_one W exec) ms e s = Some (Inr (), e', s') \<and>
       map mg_version (cat_migrations (en_catalog e')) = map mg_version (cat_migrations (en_catalog e)) \<and>
       cat_schema_version (en_catalog e') = (if ms = [] then cat_schema_version (en_catalog e) else mg_version (last ms))"
proof (induction ms arbitrary: e s)
  case Nil
  then show ?case by (simp add: runs_def)
next
  case (Cons m ms)
  from Cons.prems obtain q e1 s1 where 1: "exec (mg_sql m) e s = Some (Inr q, e1, s1)"
      "cat_migrations (en_catalog e1) = cat_migrations (en_catalog e)"
    and rest: "migrations_succeed W exec ms (with_catalog (migration_applied (mg_version m) (w_utc_ms W s1) (en_catalog e1)) e1) s1"
    by (auto split: option.splits prod.splits sum.splits)
  from Cons.IH [OF rest] 1 show ?case
    by (auto simp: andRun_def runs_def migrate_one_def change_catalog_def migration_applied_def)
qed

text \<open>
  C28. MIGRATE brings the schema up to date. When the migrations are listed in the order of their
  versions, as CREATE MIGRATION lists them, and the texts of the pending ones succeed, then
  MIGRATE returns, the version of the schema is that of the last pending migration, and no
  migration is pending afterwards.
\<close>

theorem migrate_applies_all_pending:
  fixes e :: engine
  defines "pending \<equiv> pending_migrations None (en_catalog e)"
  assumes sorted: "sorted (map mg_version (cat_migrations (en_catalog e)))"
    and succeed: "migrations_succeed W exec pending e s"
  shows "\<exists>q e' s'. handle_migrate W exec ''MIGRATE'' e s = Some (Inr q, e', s') \<and>
    cat_schema_version (en_catalog e') =
      (if pending = [] then cat_schema_version (en_catalog e) else mg_version (last pending)) \<and>
    pending_migrations None (en_catalog e') = []"
proof -
  have target: "migration_target ''MIGRATE'' = Inr None" by code_simp
  from migrations_run [OF succeed] obtain e1 s1 where
      run: "eachRun (migrate_one W exec) pending e s = Some (Inr (), e1, s1)"
      and versions: "map mg_version (cat_migrations (en_catalog e1)) = map mg_version (cat_migrations (en_catalog e))"
      and at: "cat_schema_version (en_catalog e1) =
        (if pending = [] then cat_schema_version (en_catalog e) else mg_version (last pending))" by blast
  have "v \<le> cat_schema_version (en_catalog e1)" if v: "v \<in> set (map mg_version (cat_migrations (en_catalog e)))" for v
  proof (cases "v > cat_schema_version (en_catalog e)")
    case False
    have "mg_version (last pending) > cat_schema_version (en_catalog e)" if "pending \<noteq> []"
      using last_in_set [OF that] by (simp add: pending_def pending_migrations_def)
    with False at show ?thesis by (auto split: if_splits)
  next
    case True
    with v have p: "v \<in> set (map mg_version pending)" by (auto simp: pending_def pending_migrations_def)
    have "sorted (map mg_version pending)"
      using sorted unfolding pending_def pending_migrations_def by (rule sorted_filter)
    with p have "v \<le> last (map mg_version pending)" by (rule le_last [rotated])
    moreover have "pending \<noteq> []" using p by auto
    ultimately show ?thesis using at by (simp add: last_map)
  qed
  then have "\<forall>v \<in> set (map mg_version (cat_migrations (en_catalog e1))). v \<le> cat_schema_version (en_catalog e1)"
    unfolding versions by blast
  then have none: "pending_migrations None (en_catalog e1) = []"
    by (auto simp: pending_migrations_def filter_empty_conv)
  have save: "pending_migrations None (catalog_save c) = pending_migrations None c" for c
    by (simp add: pending_migrations_def)
  from run at none show ?thesis
    by (simp add: handle_migrate_def target andRun_def runs_def pending_def [symmetric] change_catalog_def message_def save)
qed

definition flush_migration :: migration_record where
  "flush_migration = \<lparr>mg_version = 1, mg_description = ''write the buffers'', mg_sql = ''FLUSH'', mg_applied_at_ms = 0\<rparr>"

definition migration_engine :: engine where
  "migration_engine = bare_engine\<lparr>en_catalog := (en_catalog bare_engine)\<lparr>cat_migrations := [flush_migration]\<rparr>\<rparr>"

lemma flush_text: "find_str nextval_open (to_lowercase ''FLUSH'') = None"
  "find_str as_of_marker (to_uppercase ''FLUSH'') = None" "find_str ''FTS_MATCH('' (to_uppercase ''FLUSH'') = None"
  "is_flush (to_uppercase (trim_statement ''FLUSH''))" "flush_target (trim_statement ''FLUSH'') = Inr None"
  by code_simp+

lemma flush_succeeds:
  "\<exists>q e'. execute idle_world (Suc 0) ''FLUSH'' migration_engine () = Some (Inr q, e', ()) \<and>
     cat_migrations (en_catalog e') = [flush_migration] \<and> cat_schema_version (en_catalog e') = 0"
proof -
  have "as_written idle_world ''FLUSH'' migration_engine"
    using flush_text(1-3) by (auto intro!: as_written_plain simp: migration_engine_def)
  note run = execute_as_written [OF this]
  have e: "en_buffer migration_engine = []" "\<not> dirty (en_catalog migration_engine)"
    "cat_migrations (en_catalog migration_engine) = [flush_migration]" "cat_schema_version (en_catalog migration_engine) = 0"
    by (simp_all add: migration_engine_def bare_rights)
      (simp add: bare_engine_def engine_new_def bootstrap_users_def with_data_def empty_data_def Let_def)
  show ?thesis
    unfolding run using flush_text(4,5)
    by (simp add: dispatch_def Let_def flush_statement_def flush_all_def hm_keys_def e andRun_def runs_def flush_catalog_def
        flush_if_dirty_def finish_def message_def finalize_query_def)
qed

theorem migrate_applies_all_pending_witness:
  "\<exists>q e' s'. handle_migrate idle_world (execute idle_world (Suc 0)) ''MIGRATE'' migration_engine () = Some (Inr q, e', s') \<and>
     cat_schema_version (en_catalog e') = 1 \<and> pending_migrations None (en_catalog e') = []"
proof -
  have e: "cat_migrations (en_catalog migration_engine) = [flush_migration]" "cat_schema_version (en_catalog migration_engine) = 0"
    by (simp_all add: migration_engine_def bare_rights)
      (simp add: bare_engine_def engine_new_def bootstrap_users_def with_data_def empty_data_def Let_def)
  then have pending: "pending_migrations None (en_catalog migration_engine) = [flush_migration]"
    by (simp add: pending_migrations_def flush_migration_def)
  from flush_succeeds obtain q e' where run: "execute idle_world (Suc 0) ''FLUSH'' migration_engine () = Some (Inr q, e', ())"
    "cat_migrations (en_catalog e') = [flush_migration]" "cat_schema_version (en_catalog e') = 0" by blast
  have "migrations_succeed idle_world (execute idle_world (Suc 0)) (pending_migrations None (en_catalog migration_engine)) migration_engine ()"
    unfolding pending using run e by (simp add: flush_migration_def del: execute.simps)
  moreover have "sorted (map mg_version (cat_migrations (en_catalog migration_engine)))" by (simp add: e)
  ultimately show ?thesis
    using migrate_applies_all_pending [of migration_engine idle_world "execute idle_world (Suc 0)" "()"]
    unfolding pending by (simp add: flush_migration_def del: execute.simps)
qed

end
