(* ===== verification/Rust_Float.thy ===== *)
theory Rust_Float
  imports Rust_Text
begin

text \<open>
  The non-negative \<^verbatim>\<open>f64\<close> numbers that the front ends print, as exact fractions, with the
  rounding of IEEE 754 (to the nearest of 53 significant bits, ties to even) after every
  operation, and the printing \<^verbatim>\<open>{:.d}\<close>, which Rust rounds from the exact value, ties to
  even. Numbers are so far from the ends of the range that exponents are not bounded.
\<close>

section \<open>Rounding\<close>

definition round_half_even :: "int \<Rightarrow> int \<Rightarrow> int" where
  "round_half_even p q =
     (let d = p div q; r = p mod q in
      if q < 2 * r \<or> (2 * r = q \<and> odd d) then d + 1 else d)"

text \<open>The least power of two by which a fraction must be scaled to reach 53 bits.\<close>

function scale_up :: "int \<Rightarrow> int \<Rightarrow> int \<Rightarrow> int \<times> int" where
  "scale_up p q k =
     (if p \<le> 0 \<or> q * 4503599627370496 \<le> p then (p, k) else scale_up (2 * p) q (2 * k))"
  by pat_completeness auto
termination
  by (relation "measure (\<lambda>(p, q, k). nat (q * 4503599627370496 - p))") auto

function scale_down :: "int \<Rightarrow> int \<Rightarrow> int \<Rightarrow> int \<times> int" where
  "scale_down p q k =
     (if q \<le> 0 \<or> p < q * 9007199254740992 then (q, k) else scale_down p (2 * q) (2 * k))"
  by pat_completeness auto
termination
  by (relation "measure (\<lambda>(p, q, k). nat (p - q))") auto

declare scale_up.simps [simp del] scale_down.simps [simp del]

type_synonym f64 = "int \<times> int"

definition f64_round :: "int \<Rightarrow> int \<Rightarrow> f64" where
  "f64_round p q =
     (let (p', u) = scale_up p q 1; (q', d) = scale_down p' q 1 in (round_half_even p' q' * d, u))"

definition f64_of :: "int \<Rightarrow> f64" where
  "f64_of n = f64_round n 1"

definition f64_div :: "f64 \<Rightarrow> f64 \<Rightarrow> f64" where
  "f64_div = (\<lambda>(a, b) (c, d). f64_round (a * d) (b * c))"

definition f64_mul :: "f64 \<Rightarrow> f64 \<Rightarrow> f64" where
  "f64_mul = (\<lambda>(a, b) (c, d). f64_round (a * c) (b * d))"

definition f64_add :: "f64 \<Rightarrow> f64 \<Rightarrow> f64" where
  "f64_add = (\<lambda>(a, b) (c, d). f64_round (a * d + c * b) (b * d))"

definition f64_le :: "f64 \<Rightarrow> f64 \<Rightarrow> bool" where
  "f64_le = (\<lambda>(a, b) (c, d). a * d \<le> c * b)"

section \<open>Printing\<close>

text \<open>\<^verbatim>\<open>format!("{:.d}", x)\<close>: the rounded multiple of the last place, padded to the point.\<close>

definition pad_zeros :: "nat \<Rightarrow> string \<Rightarrow> string" where
  "pad_zeros n s = replicate (n - length s) (CHR ''0'') @ s"

definition format_fixed :: "nat \<Rightarrow> f64 \<Rightarrow> string" where
  "format_fixed d = (\<lambda>(p, q).
     let n = round_half_even (p * 10 ^ d) q in
     if d = 0 then show_int n
     else show_int (n div 10 ^ d) @ ''.'' @ pad_zeros d (show_int (n mod 10 ^ d)))"

text \<open>\<^verbatim>\<open>Duration::as_secs_f64\<close> of a duration in nanoseconds.\<close>

definition as_secs_f64 :: "int \<Rightarrow> f64" where
  "as_secs_f64 ns =
     f64_add (f64_of (ns div 1000000000))
       (f64_div (f64_of (ns mod 1000000000)) (f64_of 1000000000))"

section \<open>Facts\<close>

lemma round_half_even_exact [simp]: "0 < q \<Longrightarrow> round_half_even (n * q) q = n"
  by (simp add: round_half_even_def)

text \<open>Rounding is off by at most half a unit.\<close>

lemma round_half_even_near:
  assumes "0 < q"
  shows "2 * (round_half_even p q * q) \<le> 2 * p + q \<and> 2 * p \<le> 2 * (round_half_even p q * q) + q"
proof -
  have p: "p = p div q * q + p mod q" by simp
  have r: "0 \<le> p mod q" "p mod q < q" using assms by simp_all
  define d r where "d = p div q" and "r = p mod q"
  then have "p = d * q + r" "0 \<le> r" "r < q" using p r by simp_all
  then show ?thesis
    unfolding round_half_even_def Let_def d_def [symmetric] r_def [symmetric]
    by (auto simp: algebra_simps)
qed

end
