(* ===== verification/Display.thy ===== *)
theory Display
  imports Effects Constraints Rust_Float
begin

text \<open>
  \<^verbatim>\<open>crates/display/src/lib.rs\<close>: query results as text. Arrow's own printing (the schema's
  types, \<^verbatim>\<open>ArrayFormatter\<close> and \<^verbatim>\<open>pretty_format_batches\<close>) is the parameter \<open>array_format\<close>;
  widths are byte lengths, as \<^verbatim>\<open>str::len\<close> gives them.
\<close>

record array_format =
  af_types :: "record_batch \<Rightarrow> arrow_type list"
  af_type_text :: "arrow_type \<Rightarrow> string"
  af_formatter :: "record_batch \<Rightarrow> nat \<Rightarrow> (cell \<Rightarrow> string) option"
  af_pretty :: "record_batch list \<Rightarrow> (string, string) result"

definition max_display_rows :: nat where "max_display_rows = 40"

definition no_rows :: "record_batch list \<Rightarrow> bool" where
  "no_rows bs \<longleftrightarrow> bs = [] \<or> list_all (\<lambda>b. num_rows b = 0) bs"

definition format_batches :: "array_format \<Rightarrow> record_batch list \<Rightarrow> string" where
  "format_batches F bs =
     (if no_rows bs then ''(0 rows)''
      else case af_pretty F bs of
        Inr table \<Rightarrow> table
      | Inl e \<Rightarrow> ''Error formatting results: '' @ e)"

definition row_count :: "record_batch list \<Rightarrow> nat" where
  "row_count bs = sum_list (map num_rows bs)"

section \<open>Which rows are shown\<close>

text \<open>\<^verbatim>\<open>batch.slice(skip, take)\<close>.\<close>

definition slice_batch :: "record_batch \<Rightarrow> nat \<Rightarrow> nat \<Rightarrow> record_batch" where
  "slice_batch b skip n = b\<lparr>rb_rows := take n (drop skip (rb_rows b))\<rparr>"

fun slice_from :: "nat \<Rightarrow> nat \<Rightarrow> nat \<Rightarrow> record_batch list \<Rightarrow> record_batch list" where
  "slice_from offset seen remaining [] = []"
| "slice_from offset seen remaining (b # bs) =
     (let n = num_rows b in
      if seen + n \<le> offset then slice_from offset (seen + n) remaining bs
      else
        let skip = offset - seen; tk = min remaining (n - skip); left = remaining - tk;
            more = (if left = 0 then [] else slice_from offset (seen + n) left bs)
        in if 0 < tk then slice_batch b skip tk # more else more)"

definition slice_batches :: "record_batch list \<Rightarrow> nat \<Rightarrow> nat \<Rightarrow> record_batch list" where
  "slice_batches bs offset len = slice_from offset 0 len bs"

definition shown_batches :: "record_batch list \<Rightarrow> record_batch list" where
  "shown_batches bs =
     (let tot = row_count bs; half = max_display_rows div 2 in
      if max_display_rows < tot then slice_batches bs 0 half @ slice_batches bs (tot - half) half
      else bs)"

section \<open>Cells, types and counts as text\<close>

definition column_to_strings :: "array_format \<Rightarrow> record_batch \<Rightarrow> nat \<Rightarrow> string list" where
  "column_to_strings F b i =
     map (\<lambda>row. if cell_at row i = CNull then ''NULL''
                else case af_formatter F b i of None \<Rightarrow> ''?'' | Some f \<Rightarrow> f (cell_at row i)) (rb_rows b)"

fun friendly_type :: "array_format \<Rightarrow> arrow_type \<Rightarrow> string" where
  "friendly_type F ABoolean = ''boolean''"
| "friendly_type F AInt8 = ''int8''"
| "friendly_type F AInt16 = ''int16''"
| "friendly_type F AInt32 = ''int32''"
| "friendly_type F AInt64 = ''int64''"
| "friendly_type F AUInt8 = ''uint8''"
| "friendly_type F AUInt16 = ''uint16''"
| "friendly_type F AUInt32 = ''uint32''"
| "friendly_type F AUInt64 = ''uint64''"
| "friendly_type F AFloat16 = ''float16''"
| "friendly_type F AFloat32 = ''float''"
| "friendly_type F AFloat64 = ''double''"
| "friendly_type F AUtf8 = ''varchar''"
| "friendly_type F ALargeUtf8 = ''varchar''"
| "friendly_type F ABinary = ''blob''"
| "friendly_type F ALargeBinary = ''blob''"
| "friendly_type F ADate32 = ''date''"
| "friendly_type F ADate64 = ''date''"
| "friendly_type F ATime = ''time''"
| "friendly_type F (ATimestamp u tz) = ''timestamp''"
| "friendly_type F (ADecimal128 p s) = ''decimal''"
| "friendly_type F (ADecimal256 p s) = ''decimal''"
| "friendly_type F ANull = ''null''"
| "friendly_type F other = af_type_text F other"

definition friendly_row_count :: "nat \<Rightarrow> string" where
  "friendly_row_count n =
     (if 1000000 \<le> n then format_fixed 2 (f64_div (f64_of (int n)) (f64_of 1000000)) @ '' million''
      else if 1000 \<le> n then format_fixed 1 (f64_div (f64_of (int n)) (f64_of 1000)) @ ''K''
      else show_nat n)"

definition inner_width :: "nat list \<Rightarrow> nat" where
  "inner_width ws = sum_list ws + 3 * length ws - 1"

definition footer_left :: "nat \<Rightarrow> nat \<Rightarrow> string" where
  "footer_left tot shown =
     show_nat tot @ '' rows ('' @ friendly_row_count tot @ '', '' @ show_nat shown @ '' shown)''"

definition footer_right :: "nat \<Rightarrow> string" where
  "footer_right num_cols = show_nat num_cols @ '' column(s)''"

definition footer_text_len :: "nat \<Rightarrow> nat \<Rightarrow> nat \<Rightarrow> nat" where
  "footer_text_len tot half num_cols =
     length (footer_left tot (half * 2)) + length (footer_right num_cols)"

section \<open>Rendering primitives\<close>

text \<open>A box-drawing character (U+2500 to U+257F) and the middle dot in UTF-8, by code point.\<close>

definition box_char :: "nat \<Rightarrow> string" where
  "box_char n = [CHR 0xE2, char_of (128 + n div 64 mod 64), char_of (128 + n mod 64)]"

definition middle_dot :: string where "middle_dot = [CHR 0xC2, CHR 0xB7]"

abbreviation dash :: string where "dash \<equiv> box_char 0x2500"
abbreviation bar :: string where "bar \<equiv> box_char 0x2502"

definition spaces :: "nat \<Rightarrow> string" where "spaces n = replicate n (CHR '' '')"
definition repeat_str :: "nat \<Rightarrow> string \<Rightarrow> string" where "repeat_str n s = concat (replicate n s)"

definition push_border :: "string \<Rightarrow> nat list \<Rightarrow> nat \<Rightarrow> nat \<Rightarrow> nat \<Rightarrow> string" where
  "push_border out ws left mid right =
     out @ box_char left
       @ concat (map (\<lambda>(i, w). repeat_str (w + 2) dash @ (if i < length ws - 1 then box_char mid else []))
           (enumerate 0 ws))
       @ box_char right @ [newline]"

definition push_row :: "string \<Rightarrow> nat list \<Rightarrow> string list \<Rightarrow> string" where
  "push_row out ws vals =
     out @ bar
       @ concat (map (\<lambda>(i, w). let val = (if i < length vals then vals ! i else []) in
             '' '' @ val @ spaces (w - length val) @ '' '' @ bar) (enumerate 0 ws))
       @ [newline]"

definition push_dot_row :: "string \<Rightarrow> nat list \<Rightarrow> string" where
  "push_dot_row out ws =
     out @ bar @ concat (map (\<lambda>w. '' '' @ middle_dot @ spaces (w - 1) @ '' '' @ bar) ws) @ [newline]"

definition push_footer_content :: "string \<Rightarrow> nat list \<Rightarrow> string \<Rightarrow> string \<Rightarrow> string" where
  "push_footer_content out ws left right =
     out @ bar @ '' '' @ left @ spaces (inner_width ws - (2 + length left + length right)) @ right
       @ '' '' @ bar @ [newline]"

definition push_full_border :: "string \<Rightarrow> nat list \<Rightarrow> nat \<Rightarrow> nat \<Rightarrow> string" where
  "push_full_border out ws left right =
     out @ box_char left @ repeat_str (inner_width ws) dash @ box_char right @ [newline]"

section \<open>The table\<close>

text \<open>\<^verbatim>\<open>out.pop()\<close> when the text ends with a line break.\<close>

definition trim_last_newline :: "string \<Rightarrow> string" where
  "trim_last_newline s = (if s \<noteq> [] \<and> last s = newline then butlast s else s)"

definition column_width :: "string \<Rightarrow> string \<Rightarrow> string list \<Rightarrow> nat" where
  "column_width nm ty cells =
     max (max (max (length nm) (length ty)) (fold max (map length cells) 0)) 1"

definition widen_last :: "nat \<Rightarrow> nat list \<Rightarrow> nat list" where
  "widen_last extra ws = (if ws = [] then [] else butlast ws @ [last ws + extra])"

definition column_widths :: "bool \<Rightarrow> nat \<Rightarrow> nat \<Rightarrow> nat list \<Rightarrow> nat list" where
  "column_widths truncated tot half ws =
     (let footer = footer_text_len tot half (length ws) in
      if truncated \<and> inner_width ws < footer + 2 then widen_last (footer + 2 - inner_width ws) ws else ws)"

fun push_rows :: "string \<Rightarrow> nat list \<Rightarrow> string list list \<Rightarrow> bool \<Rightarrow> nat \<Rightarrow> nat list \<Rightarrow> string" where
  "push_rows out ws columns truncated half [] = out"
| "push_rows out ws columns truncated half (row # rows) =
     (let out1 = (if truncated \<and> row = half
                  then push_dot_row (push_dot_row (push_dot_row out ws) ws) ws else out)
      in push_rows (push_row out1 ws (map (\<lambda>col. col ! row) columns)) ws columns truncated half rows)"

definition render_table ::
  "nat \<Rightarrow> nat \<Rightarrow> string list \<Rightarrow> string list \<Rightarrow> string list list \<Rightarrow> bool \<Rightarrow> nat \<Rightarrow> nat list \<Rightarrow> string"
where
  "render_table tot half names types columns truncated displayed ws =
     (let head = push_border (push_row (push_row (push_border [] ws 0x250C 0x252C 0x2510) ws names) ws types)
                   ws 0x251C 0x253C 0x2524;
          body = push_rows head ws columns truncated half [0 ..< displayed]
      in if truncated
         then push_full_border
                (push_footer_content (push_border body ws 0x251C 0x2534 0x2524) ws
                   (footer_left tot (half * 2)) (footer_right (length ws)))
                ws 0x2514 0x2518
         else push_border body ws 0x2514 0x2534 0x2518)"

text \<open>
  A batch without columns makes the source index \<^verbatim>\<open>columns[0]\<close> out of range. The final line
  break is removed.
\<close>

definition format_batches_truncated :: "array_format \<Rightarrow> record_batch list \<Rightarrow> (string, string) result" where
  "format_batches_truncated F bs =
     (if no_rows bs then Inr ''(0 rows)''
      else
        let tot = row_count bs; half = max_display_rows div 2; truncated = (max_display_rows < tot);
            names = rb_fields (hd bs);
            types = map (friendly_type F) (af_types F (hd bs));
            columns = map (\<lambda>i. concat (map (\<lambda>b. column_to_strings F b i) (shown_batches bs))) [0 ..< length names];
            widths = map (\<lambda>i. column_width (names ! i) (types ! i) (columns ! i)) [0 ..< length names]
        in if columns = [] then Inl panic
           else Inr (trim_last_newline
             (render_table tot half names types columns truncated (length (hd columns))
                (column_widths truncated tot half widths))))"

end
