(* ===== verification/Display_Props.thy ===== *)
theory Display_Props
  imports Display
begin

text \<open>
  The table that \<^verbatim>\<open>format_batches_truncated\<close> draws: which rows it shows, and that all of
  its lines have the same number of characters when the texts in it are ASCII.
\<close>

section \<open>The rows shown\<close>

definition all_rows :: "record_batch list \<Rightarrow> cell list list" where
  "all_rows bs = concat (map rb_rows bs)"

lemma all_rows_simps [simp]:
  "all_rows [] = []" "all_rows (b # bs) = rb_rows b @ all_rows bs" "all_rows (as @ bs) = all_rows as @ all_rows bs"
  by (simp_all add: all_rows_def)

lemma length_all_rows [simp]: "length (all_rows bs) = row_count bs"
  by (induction bs) (simp_all add: row_count_def num_rows_def)

lemma slice_from_rows:
  "all_rows (slice_from offset seen remaining bs) = take remaining (drop (offset - seen) (all_rows bs))"
proof (induction offset seen remaining bs rule: slice_from.induct)
  case (1 offset seen remaining)
  then show ?case by simp
next
  case (2 offset seen remaining b bs)
  let ?n = "length (rb_rows b)"
  show ?case
  proof (cases "seen + ?n \<le> offset")
    case True
    then show ?thesis using "2.IH"(1) [OF refl] by (simp add: num_rows_def)
  next
    case False
    let ?k = "offset - seen"
    let ?tk = "min remaining (?n - ?k)"
    have rest: "all_rows (if remaining - ?tk = 0 then [] else slice_from offset (seen + ?n) (remaining - ?tk) bs) =
        take (remaining - ?tk) (all_rows bs)"
      using "2.IH"(2) [OF refl _ refl refl refl] False by (simp add: num_rows_def)
    have tk: "take ?tk (drop ?k (rb_rows b)) = take remaining (drop ?k (rb_rows b))"
      by (metis length_drop min.commute take_all_iff take_take order_refl)
    have left: "remaining - ?tk = remaining - (?n - ?k)" by simp
    have "?k - ?n = 0" using False by simp
    moreover have "?k < ?n \<or> rb_rows b = []" using False by (cases "rb_rows b") auto
    ultimately show ?thesis using False rest
      by (auto simp: Let_def num_rows_def slice_batch_def tk left simp del: slice_from.simps(1))
  qed
qed

lemma slice_batches_rows: "all_rows (slice_batches bs offset len) = take len (drop offset (all_rows bs))"
  by (simp add: slice_batches_def slice_from_rows)

lemma shown_rows:
  "all_rows (shown_batches bs) =
     (if row_count bs \<le> 40 then all_rows bs
      else take 20 (all_rows bs) @ drop (row_count bs - 20) (all_rows bs))"
  by (simp add: shown_batches_def max_display_rows_def Let_def slice_batches_rows)

section \<open>Lines and their widths\<close>

text \<open>The characters of a UTF-8 text are its bytes without the continuation bytes.\<close>

definition char_count :: "string \<Rightarrow> nat" where
  "char_count s = length (filter (\<lambda>c. \<not> (128 \<le> code c \<and> code c < 192)) s)"

definition ascii_line :: "string \<Rightarrow> bool" where
  "ascii_line s \<longleftrightarrow> list_all (\<lambda>c. code c < 128 \<and> c \<noteq> newline) s"

lemma char_count_simps [simp]:
  "char_count [] = 0" "char_count (a @ b) = char_count a + char_count b"
  "char_count (c # s) = (if 128 \<le> code c \<and> code c < 192 then 0 else 1) + char_count s"
  by (simp_all add: char_count_def)

lemma char_count_concat: "char_count (concat ss) = sum_list (map char_count ss)"
  by (induction ss) simp_all

lemma ascii_line_count: "ascii_line s \<Longrightarrow> char_count s = length s"
  by (induction s) (simp_all add: ascii_line_def)

lemma ascii_line_newline: "ascii_line s \<Longrightarrow> newline \<notin> set s"
  by (auto simp: ascii_line_def list_all_iff)

lemma ascii_line_append [simp]: "ascii_line (a @ b) \<longleftrightarrow> ascii_line a \<and> ascii_line b"
  by (simp add: ascii_line_def)

lemma digit_ascii: "is_digit c \<Longrightarrow> code c < 128 \<and> c \<noteq> newline"
  by (auto simp: is_digit_def)

lemma ascii_line_digits: "list_all is_digit s \<Longrightarrow> ascii_line s"
  using digit_ascii by (auto simp: ascii_line_def list_all_iff)

lemma ascii_line_show_nat [simp]: "ascii_line (show_nat n)"
  using show_nat_digits [of n] by (simp add: ascii_line_digits)

lemma ascii_line_show_int [simp]: "ascii_line (show_int i)"
  using ascii_line_show_nat [of "nat i"] ascii_line_show_nat [of "nat (- i)"]
  by (simp add: show_int_def ascii_line_def)

lemma ascii_line_format_fixed [simp]: "ascii_line (format_fixed d x)"
  by (cases x) (auto simp: format_fixed_def Let_def pad_zeros_def ascii_line_def list_all_iff
      dest: ascii_line_show_int [unfolded ascii_line_def list_all_iff, rule_format])

lemma ascii_line_footer [simp]: "ascii_line (footer_left tot shown)" "ascii_line (footer_right n)"
proof -
  have lit: "ascii_line '' rows (''" "ascii_line '', ''" "ascii_line '' shown)''" "ascii_line '' column(s)''"
    "ascii_line '' million''" "ascii_line ''K''"
    by (simp_all add: ascii_line_def)
  then show "ascii_line (footer_left tot shown)" "ascii_line (footer_right n)"
    by (simp_all add: footer_left_def footer_right_def friendly_row_count_def del: append_Cons append_Nil)
qed

lemma char_count_spaces [simp]: "char_count (spaces n) = n"
  by (induction n) (simp_all add: spaces_def)

lemma newline_spaces [simp]: "newline \<notin> set (spaces n)"
  by (auto simp: spaces_def)

lemma char_count_repeat [simp]: "char_count (repeat_str n s) = n * char_count s"
  by (induction n) (simp_all add: repeat_str_def)

lemma box_char_count [simp]: "char_count (box_char n) = 1"
proof -
  have "n div 64 mod 64 < 64" "n mod 64 < 64" by simp_all
  then show ?thesis by (simp add: box_char_def)
qed

lemma box_char_newline [simp]: "newline \<notin> set (box_char n)"
proof -
  have "newline \<noteq> char_of (128 + m mod 64)" for m :: nat
  proof
    assume "newline = char_of (128 + m mod 64)"
    then have "code newline = (128 + m mod 64) mod 256" by simp
    then show False using mod_less_divisor [of 64 m] by simp
  qed
  then show ?thesis by (simp add: box_char_def)
qed

lemma middle_dot_simps [simp]: "char_count middle_dot = 1" "newline \<notin> set middle_dot"
  by (simp_all add: middle_dot_def)

lemma newline_repeat [simp]: "newline \<notin> set (repeat_str n (box_char m))"
  by (auto simp: repeat_str_def)

text \<open>A text of whole lines that have \<open>k\<close> characters each.\<close>

definition line_of :: "nat \<Rightarrow> string \<Rightarrow> bool" where
  "line_of k l \<longleftrightarrow> newline \<notin> set l \<and> char_count l = k"

inductive lines_of :: "nat \<Rightarrow> string \<Rightarrow> bool" where
  no_line: "lines_of k []"
| more_lines: "lines_of k s \<Longrightarrow> line_of k l \<Longrightarrow> lines_of k (s @ l @ [newline])"

text \<open>The lines of such a text, with or without a last line that is not ended.\<close>

lemma lines_of_split:
  "lines_of k s \<Longrightarrow> line_of k l \<Longrightarrow> \<forall>x \<in> set (split_char newline (s @ l)). line_of k x"
proof (induction k s arbitrary: l rule: lines_of.induct)
  case (no_line k)
  then show ?case by (simp add: line_of_def split_line)
next
  case (more_lines k s l l')
  have "split_char newline (l') = [l']" using more_lines.prems by (simp add: split_line line_of_def)
  then show ?case
    using more_lines.IH [OF more_lines.hyps(2)] more_lines.prems
      split_char_append [of newline "s @ l" l'] by auto
qed

text \<open>What a table's text looks like: whole lines, at least one.\<close>

lemma lines_of_trim:
  assumes "lines_of k s" and "s \<noteq> []"
  shows "\<forall>x \<in> set (split_char newline (trim_last_newline s)). line_of k x"
  using assms
proof (cases rule: lines_of.cases)
  case (more_lines s' l)
  then have "trim_last_newline s = s' @ l"
    by (simp add: trim_last_newline_def butlast_append)
  then show ?thesis using lines_of_split [of k s' l] more_lines by simp
qed simp

section \<open>Every line has the width of the table\<close>

definition table_width :: "nat list \<Rightarrow> nat" where
  "table_width ws = sum_list ws + 3 * length ws + 1"

lemma inner_width: "ws \<noteq> [] \<Longrightarrow> inner_width ws + 2 = table_width ws"
  by (cases ws) (simp_all add: inner_width_def table_width_def)

lemma add_line: "lines_of k s \<Longrightarrow> line_of k l \<Longrightarrow> t = s @ l @ [newline] \<Longrightarrow> lines_of k t"
  by (simp add: more_lines)

lemma border_count:
  "sum_list (map (\<lambda>(i, w). w + 2 + (if i < k + length ws - 1 then 1 else 0)) (enumerate k ws)) =
     sum_list ws + 2 * length ws + (length ws - 1)"
proof (induction ws arbitrary: k)
  case (Cons w ws)
  then show ?case using Cons [of "Suc k"] by (cases ws) auto
qed simp

lemma push_border_lines:
  assumes "lines_of (table_width ws) out" and "ws \<noteq> []"
  shows "lines_of (table_width ws) (push_border out ws l m r)"
proof -
  let ?seg = "\<lambda>(i, w). repeat_str (w + 2) dash @ (if i < length ws - 1 then box_char m else [])"
  have seg: "char_count (?seg p) = (\<lambda>(i, w). w + 2 + (if i < 0 + length ws - 1 then 1 else 0)) p" for p
    by (cases p) simp
  have "char_count (concat (map ?seg (enumerate 0 ws))) = sum_list ws + 2 * length ws + (length ws - 1)"
    unfolding char_count_concat map_map o_def seg by (rule border_count)
  moreover have "newline \<notin> set (concat (map ?seg (enumerate 0 ws)))"
    by (auto split: if_splits)
  ultimately have "line_of (table_width ws) (box_char l @ concat (map ?seg (enumerate 0 ws)) @ box_char r)"
    using assms(2) by (cases ws) (simp_all add: line_of_def table_width_def)
  then show ?thesis by (rule add_line [OF assms(1)]) (simp add: push_border_def)
qed

definition fits :: "nat list \<Rightarrow> string list \<Rightarrow> bool" where
  "fits ws vals \<longleftrightarrow> list_all2 (\<lambda>w v. ascii_line v \<and> length v \<le> w) ws vals"

lemma push_row_lines:
  assumes "lines_of (table_width ws) out" and "fits ws vals"
  shows "lines_of (table_width ws) (push_row out ws vals)"
proof -
  let ?cell = "\<lambda>(i, w). let val = (if i < length vals then vals ! i else []) in
      '' '' @ val @ spaces (w - length val) @ '' '' @ bar"
  have len: "length vals = length ws" and at: "ascii_line (vals ! i)" "length (vals ! i) \<le> ws ! i"
    if "i < length ws" for i
    using assms(2) that by (auto simp: fits_def list_all2_conv_all_nth)
  have count: "map char_count (map ?cell (enumerate 0 ws)) = map (\<lambda>w. w + 3) ws"
    by (rule nth_equalityI) (auto simp: nth_enumerate_eq len at ascii_line_count Let_def)
  have sum: "sum_list (map (\<lambda>w. w + 3) ws) = sum_list ws + 3 * length ws"
    by (induction ws) simp_all
  have "newline \<notin> set (?cell p)" if "p \<in> set (enumerate 0 ws)" for p
    using that at(1) [THEN ascii_line_newline]
    by (auto simp: in_set_enumerate_eq Let_def len split: if_splits)
  then have "newline \<notin> set (concat (map ?cell (enumerate 0 ws)))" by auto
  then have "line_of (table_width ws) (bar @ concat (map ?cell (enumerate 0 ws)))"
    by (simp only: line_of_def char_count_simps char_count_concat count sum set_append Un_iff
        box_char_newline box_char_count table_width_def) simp
  then show ?thesis by (rule add_line [OF assms(1)]) (simp add: push_row_def)
qed

lemma push_dot_row_lines:
  assumes "lines_of (table_width ws) out" and "\<And>w. w \<in> set ws \<Longrightarrow> 1 \<le> w"
  shows "lines_of (table_width ws) (push_dot_row out ws)"
proof -
  let ?cell = "\<lambda>w. '' '' @ middle_dot @ spaces (w - 1) @ '' '' @ bar"
  have "char_count (concat (map ?cell ws)) = sum_list ws + 3 * length ws"
    using assms(2) by (induction ws) (fastforce simp: char_count_concat)+
  moreover have "newline \<notin> set (concat (map ?cell ws))"
    by auto
  ultimately have "line_of (table_width ws) (bar @ concat (map ?cell ws))"
    by (simp add: line_of_def table_width_def)
  then show ?thesis by (rule add_line [OF assms(1)]) (simp add: push_dot_row_def)
qed

lemma push_footer_lines:
  assumes "lines_of (table_width ws) out" and "ws \<noteq> []" and "ascii_line l" and "ascii_line r"
    and "length l + length r + 2 \<le> inner_width ws"
  shows "lines_of (table_width ws) (push_footer_content out ws l r)"
proof -
  have "line_of (table_width ws)
      (bar @ '' '' @ l @ spaces (inner_width ws - (2 + length l + length r)) @ r @ '' '' @ bar)"
    using assms(2-5) inner_width [OF assms(2)]
    by (auto simp: line_of_def ascii_line_count dest: ascii_line_newline)
  then show ?thesis by (rule add_line [OF assms(1)]) (simp add: push_footer_content_def)
qed

lemma push_full_border_lines:
  assumes "lines_of (table_width ws) out" and "ws \<noteq> []"
  shows "lines_of (table_width ws) (push_full_border out ws l r)"
proof -
  have "line_of (table_width ws) (box_char l @ repeat_str (inner_width ws) dash @ box_char r)"
    using inner_width [OF assms(2)] by (simp add: line_of_def)
  then show ?thesis by (rule add_line [OF assms(1)]) (simp add: push_full_border_def)
qed

lemma push_rows_lines:
  assumes "lines_of (table_width ws) out" and "\<And>w. w \<in> set ws \<Longrightarrow> 1 \<le> w"
    and "\<And>row. row \<in> set rows \<Longrightarrow> fits ws (map (\<lambda>col. col ! row) columns)"
  shows "lines_of (table_width ws) (push_rows out ws columns truncated half rows)"
  using assms(1,3)
proof (induction rows arbitrary: out)
  case (Cons row rows)
  have dots: "lines_of (table_width ws) (push_dot_row t ws)" if "lines_of (table_width ws) t" for t
    by (rule push_dot_row_lines [OF that assms(2)])
  then show ?case
    using Cons.prems Cons.IH by (simp add: Let_def push_row_lines)
qed simp

section \<open>The whole table\<close>

lemma fold_max: "x \<in> set xs \<Longrightarrow> x \<le> fold max xs (m :: nat)" "m \<le> fold max xs m"
proof (induction xs arbitrary: m)
  case (Cons y ys)
  { case 1 then show ?case using Cons(1) [of "max y m"] Cons(2) [of "max y m"] by auto }
  { case 2 then show ?case using Cons(2) [of "max y m"] by auto }
qed auto

lemma column_width_ge:
  "length nm \<le> column_width nm ty cells" "length ty \<le> column_width nm ty cells"
  "x \<in> set cells \<Longrightarrow> length x \<le> column_width nm ty cells" "1 \<le> column_width nm ty cells"
  using fold_max(1) [of "length x" "map length cells" 0] by (auto simp: column_width_def)

lemma widen_last_ge:
  "length (widen_last n ws) = length ws" "i < length ws \<Longrightarrow> ws ! i \<le> widen_last n ws ! i"
  by (cases ws rule: rev_cases; auto simp: widen_last_def nth_append less_Suc_eq)+

lemma column_widths_ge:
  "length (column_widths t n h ws) = length ws" "i < length ws \<Longrightarrow> ws ! i \<le> column_widths t n h ws ! i"
  by (simp_all add: column_widths_def Let_def widen_last_ge)

lemma column_widths_pos:
  assumes "\<And>w. w \<in> set ws \<Longrightarrow> 1 \<le> w" and "w \<in> set (column_widths t n h ws)"
  shows "1 \<le> w"
proof -
  obtain i where "i < length ws" "w = column_widths t n h ws ! i"
    using assms(2) by (auto simp: in_set_conv_nth column_widths_ge(1))
  then show ?thesis using column_widths_ge(2) [of i ws t n h] assms(1) [of "ws ! i"] by simp
qed

lemma inner_width_widen: "ws \<noteq> [] \<Longrightarrow> inner_width (widen_last n ws) = inner_width ws + n"
proof -
  assume ws: "ws \<noteq> []"
  then have "sum_list ws = sum_list (butlast ws) + last ws"
    by (metis append_butlast_last_id sum_list.Nil sum_list.append sum_list.Cons add_0_right)
  moreover obtain m where "length ws = Suc m" using ws by (cases ws) auto
  ultimately show ?thesis using ws by (simp add: widen_last_def inner_width_def)
qed

lemma footer_fits:
  "ws \<noteq> [] \<Longrightarrow> footer_text_len n h (length ws) + 2 \<le> inner_width (column_widths True n h ws)"
  by (simp add: column_widths_def Let_def inner_width_widen)

lemma fits_mono:
  "fits ws vals \<Longrightarrow> length ws' = length ws \<Longrightarrow> (\<And>i. i < length ws \<Longrightarrow> ws ! i \<le> ws' ! i) \<Longrightarrow> fits ws' vals"
  by (fastforce simp: fits_def list_all2_conv_all_nth intro: le_trans)

lemma render_table_lines:
  assumes "ws \<noteq> []" and "\<And>w. w \<in> set ws \<Longrightarrow> 1 \<le> w" and "fits ws names" and "fits ws types"
    and "\<And>row. row < displayed \<Longrightarrow> fits ws (map (\<lambda>col. col ! row) columns)"
    and "truncated \<Longrightarrow> footer_text_len n half (length ws) + 2 \<le> inner_width ws"
  shows "lines_of (table_width ws) (render_table n half names types columns truncated displayed ws)"
proof -
  have head: "lines_of (table_width ws) (push_border (push_row (push_row (push_border [] ws a b c) ws names) ws types) ws d f g)"
    for a b c d f g
    using assms(1,3,4) by (intro push_border_lines push_row_lines no_line)
  have body: "lines_of (table_width ws) (push_rows t ws columns truncated half [0 ..< displayed])"
    if "lines_of (table_width ws) t" for t
    using assms(2,5) by (intro push_rows_lines that) auto
  show ?thesis
  proof (cases truncated)
    case False
    with assms(1) head body show ?thesis by (simp add: render_table_def Let_def push_border_lines)
  next
    case True
    then have "length (footer_left n (half * 2)) + length (footer_right (length ws)) + 2 \<le> inner_width ws"
      using assms(6) by (simp add: footer_text_len_def)
    then show ?thesis
      using True assms(1) head body
      by (simp add: render_table_def Let_def push_border_lines push_footer_lines push_full_border_lines)
  qed
qed

text \<open>The texts of a table: the names and types of its columns and its shown cells.\<close>

definition ascii_table :: "array_format \<Rightarrow> record_batch list \<Rightarrow> bool" where
  "ascii_table F bs \<longleftrightarrow>
     (bs \<noteq> [] \<longrightarrow> list_all ascii_line (rb_fields (hd bs)) \<and>
        list_all (\<lambda>t. ascii_line (friendly_type F t)) (af_types F (hd bs)) \<and>
        length (af_types F (hd bs)) = length (rb_fields (hd bs))) \<and>
     list_all (\<lambda>b. list_all (\<lambda>i. list_all ascii_line (column_to_strings F b i)) [0 ..< length (rb_fields (hd bs))])
       (shown_batches bs)"

text \<open>
  C27. When its texts are ASCII without line breaks, every line of the table that
  \<^verbatim>\<open>format_batches_truncated\<close> draws has the same number of characters: the borders, the
  header, the rows, the dotted rows of a truncated result and its footer.
\<close>

theorem table_lines_aligned:
  assumes "ascii_table F bs" and "format_batches_truncated F bs = Inr out"
  shows "\<exists>k. list_all (\<lambda>line. char_count line = k) (split_char newline out)"
proof (cases "no_rows bs")
  case True
  with assms(2) show ?thesis by (auto simp: format_batches_truncated_def)
next
  case False
  let ?names = "rb_fields (hd bs)"
  let ?types = "map (friendly_type F) (af_types F (hd bs))"
  let ?column = "\<lambda>i. concat (map (\<lambda>b. column_to_strings F b i) (shown_batches bs))"
  let ?columns = "map ?column [0 ..< length ?names]"
  let ?w = "map (\<lambda>i. column_width (?names ! i) (?types ! i) (?columns ! i)) [0 ..< length ?names]"
  let ?t = "max_display_rows < row_count bs"
  let ?ws = "column_widths ?t (row_count bs) (max_display_rows div 2) ?w"
  let ?table = "render_table (row_count bs) (max_display_rows div 2) ?names ?types ?columns ?t (length (hd ?columns)) ?ws"
  from False have "bs \<noteq> []" by (auto simp: no_rows_def)
  with assms(1) have ascii: "\<And>i. i < length ?names \<Longrightarrow> ascii_line (?names ! i) \<and> ascii_line (?types ! i)"
    and types: "length ?types = length ?names"
    and cells: "\<And>i x. i < length ?names \<Longrightarrow> x \<in> set (?column i) \<Longrightarrow> ascii_line x"
    by (auto simp: ascii_table_def list_all_iff list_all_length)
  from assms(2) False have ne: "?names \<noteq> []" and out: "out = trim_last_newline ?table"
    by (auto simp: format_batches_truncated_def Let_def split: if_splits)
  have wide: "fits ?ws v" if "fits ?w v" for v
    using that by (rule fits_mono) (rule column_widths_ge(1), erule column_widths_ge(2))
  have rows: "length (?column i) = row_count (shown_batches bs)" for i
    by (simp add: length_concat o_def column_to_strings_def row_count_def num_rows_def [abs_def])
  have "lines_of (table_width ?ws) ?table"
  proof (rule render_table_lines)
    have len: "length ?ws = length ?names" by (simp add: column_widths_ge(1))
    then show "?ws \<noteq> []" using ne by (metis length_0_conv)
    show "1 \<le> w" if "w \<in> set ?ws" for w
      using that by (rule column_widths_pos [rotated]) (auto simp: column_width_ge(4) [simplified])
    show "fits ?ws ?names" "fits ?ws ?types"
      by (rule wide, simp add: fits_def list_all2_conv_all_nth column_width_ge ascii types)
        (rule wide, insert types ascii, auto simp: fits_def list_all2_conv_all_nth column_width_ge)
    show "fits ?ws (map (\<lambda>col. col ! row) ?columns)" if "row < length (hd ?columns)" for row
    proof -
      have "row < length (?column i)" for i
        using that ne by (simp add: hd_map rows)
      then have at: "?column i ! row \<in> set (?column i)" for i by (rule nth_mem)
      show ?thesis
        by (rule wide, simp only: fits_def list_all2_conv_all_nth length_map length_upt)
          (auto simp del: set_concat set_map intro!: cells at column_width_ge(3))
    qed
    show "footer_text_len (row_count bs) (max_display_rows div 2) (length ?ws) + 2 \<le> inner_width ?ws" if ?t
      using footer_fits [of ?w] ne that by (simp add: column_widths_ge)
  qed
  moreover have "?table \<noteq> []"
    by (simp add: render_table_def Let_def push_full_border_def push_border_def)
  ultimately have "\<forall>x \<in> set (split_char newline out). line_of (table_width ?ws) x"
    unfolding out by (rule lines_of_trim)
  then show ?thesis by (auto simp: list_all_iff line_of_def)
qed

definition sample_format :: array_format where
  "sample_format =
     \<lparr>af_types = (\<lambda>_. [AInt64]), af_type_text = (\<lambda>_. []),
      af_formatter = (\<lambda>_ _. Some (\<lambda>c. case c of CInt i \<Rightarrow> show_int i | _ \<Rightarrow> [])), af_pretty = (\<lambda>_. Inr [])\<rparr>"

definition sample_batch :: record_batch where
  "sample_batch = \<lparr>rb_fields = [''n''], rb_rows = [[CInt 7], [CNull]]\<rparr>"

lemma sample_table: "ascii_table sample_format [sample_batch]"
  by (simp add: ascii_table_def sample_format_def sample_batch_def shown_batches_def max_display_rows_def
      row_count_def num_rows_def column_to_strings_def cell_at_def)
    (simp add: ascii_line_def)

lemma sample_output: "\<exists>out. format_batches_truncated sample_format [sample_batch] = Inr out"
  by (simp add: format_batches_truncated_def sample_format_def sample_batch_def no_rows_def num_rows_def Let_def)

theorem table_lines_aligned_witness:
  "\<exists>out k. format_batches_truncated sample_format [sample_batch] = Inr out \<and>
     list_all (\<lambda>line. char_count line = k) (split_char newline out)"
  using sample_output table_lines_aligned [OF sample_table] by blast

text \<open>A count just below a million is printed in the smaller unit.\<close>

lemma friendly_row_count_below_million: "friendly_row_count 999999 = ''1000.0K''"
  by (simp add: friendly_row_count_def format_fixed_def f64_div_def f64_of_def f64_round_def
      scale_up.simps scale_down.simps round_half_even_def show_int_def pad_zeros_def show_nat.simps)
    (simp add: char_of_def bit_iff_odd)

end
