(* ===== verification/Backup.thy ===== *)
theory Backup
  imports Session_Objects
begin

text \<open>
  Backup and restore of a local database (\<^verbatim>\<open>crates/engine/src/lib.rs\<close>): an archive of the data
  directory that the command \<^verbatim>\<open>tar\<close> writes and reads, and what a restored engine keeps.
\<close>

definition backup :: "'s world \<Rightarrow> string \<Rightarrow> (unit, 's) action" where
  "backup W archive =
     andThen (asks is_local_disk) (\<lambda>local.
     if \<not> local then fail (''Backup is only supported for local data directories. For S3, recovery uses WAL replay on ''
       @ ''startup; in-memory data is not archived.'')
     else andThen (asks en_data_url) (\<lambda>dir.
          andThen (outside (w_tar W [''-czf'', archive, ''-C'', dir, ''.''])) (\<lambda>success.
          if \<not> success then fail ''Backup command failed'' else ok ())))"

definition clear_directory :: "'s world \<Rightarrow> string \<Rightarrow> (unit, 's) action" where
  "clear_directory W dir e s =
     andThen (if w_dir_exists W dir s then outside (w_remove_dir W dir) else ok ())
       (\<lambda>_. outside (w_create_dir W dir)) e s"

definition load_catalog :: "'s world \<Rightarrow> (unit, 's) action" where
  "load_catalog W e s =
     (case catalog_load (w_store W) (w_json W) s ''catalog.json'' of
        Inl err \<Rightarrow> (Inl (catalog_message err), e, s)
      | Inr c \<Rightarrow> (Inr (), with_catalog c e, s))"

definition restore :: "'s world \<Rightarrow> string \<Rightarrow> (unit, 's) action" where
  "restore W archive =
     andThen (asks is_local_disk) (\<lambda>local.
     if \<not> local then fail (''Restore is only supported for local data directories. For S3, recovery uses WAL replay on ''
       @ ''startup.'')
     else andThen (asks table_names) (\<lambda>nms.
          andThen (each (\<lambda>nm. attempt (outside (w_deregister W nm))) nms) (\<lambda>_.
          andThen (asks en_data_url) (\<lambda>dir.
          andThen (clear_directory W dir) (\<lambda>_.
          andThen (outside (w_tar W [''-xzf'', archive, ''-C'', dir])) (\<lambda>success.
          if \<not> success then fail ''Restore command failed''
          else andThen (load_catalog W) (\<lambda>_. reload_tables W)))))))"

end
