(* ===== verification/Repl.thy ===== *)
theory Repl
  imports Backup Dispatch Display "HOL-Library.List_Lexorder" "HOL-Library.Char_ord"
begin

text \<open>
  \<^verbatim>\<open>crates/repl/src/lib.rs\<close>: the interactive loop as a step per line, with the statements it
  executes and what it prints, and its text functions: completion, comments, highlighting.
  The line editor (\<^verbatim>\<open>rustyline\<close>) with its history file is outside: a session is the list of
  the lines it returns, and the history is what the loop hands to it.
\<close>

section \<open>Highlighting\<close>

definition esc_seq :: "string \<Rightarrow> string" where
  "esc_seq body = CHR 0x1B # CHR ''['' # body @ ''m''"

definition ansi_reset :: string where "ansi_reset = esc_seq ''0''"
definition ansi_bold_blue :: string where "ansi_bold_blue = esc_seq ''1;34''"
definition ansi_green :: string where "ansi_green = esc_seq ''32''"
definition ansi_cyan :: string where "ansi_cyan = esc_seq ''36''"
definition ansi_dim :: string where "ansi_dim = esc_seq ''2''"
definition ansi_bold_green :: string where "ansi_bold_green = esc_seq ''1;32''"

definition sql_keywords :: "string list" where
  "sql_keywords =
      [''ADD'', ''ALL'', ''ALTER'', ''ANALYZE'', ''AND'', ''ANY'', ''AS'', ''ASC'', ''AVG'',
        ''BEGIN'', ''BETWEEN'', ''BIGINT'', ''BINARY'', ''BLOB'', ''BOOL'', ''BOOLEAN'', ''BY'',
        ''CASCADE'', ''CASE'', ''CAST'', ''CHAR'', ''CHECK'', ''COALESCE'', ''COLUMN'', ''COMMIT'',
        ''CONFLICT'', ''CONSTRAINT'', ''COPY'', ''COUNT'', ''CREATE'', ''CROSS'', ''CURRENT'',
        ''DATABASE'', ''DATE'', ''DECIMAL'', ''DEFAULT'', ''DELETE'', ''DESC'', ''DESCRIBE'',
        ''DISTINCT'', ''DO'', ''DOUBLE'', ''DROP'', ''ELSE'', ''END'', ''EXCEPT'', ''EXISTS'',
        ''EXPLAIN'', ''FALSE'', ''FETCH'', ''FIRST'', ''FLOAT'', ''FOLLOWING'', ''FOR'',
        ''FOREIGN'', ''FROM'', ''FULL'', ''GROUP'', ''HAVING'', ''IF'', ''IGNORE'', ''ILIKE'',
        ''IN'', ''INDEX'', ''INNER'', ''INSERT'', ''INT'', ''INTEGER'', ''INTERSECT'', ''INTO'',
        ''IS'', ''JOIN'', ''KEY'', ''LEFT'', ''LIKE'', ''LIMIT'', ''MATERIALIZED'', ''MAX'',
        ''MERGE'', ''MIN'', ''NATURAL'', ''NEXT'', ''NOT'', ''NOTHING'', ''NULL'', ''NULLIF'',
        ''NULLS'', ''NUMERIC'', ''OFFSET'', ''ON'', ''ONLY'', ''OR'', ''ORDER'', ''OUTER'',
        ''OVER'', ''PARTITION'', ''PRECEDING'', ''PRIMARY'', ''RANGE'', ''REAL'', ''RECURSIVE'',
        ''REFERENCES'', ''RELEASE'', ''RENAME'', ''REPLACE'', ''RESTRICT'', ''RETURNING'',
        ''RIGHT'', ''ROLLBACK'', ''ROW'', ''ROWS'', ''SAVEPOINT'', ''SCHEMA'', ''SELECT'',
        ''SERIAL'', ''SET'', ''SMALLINT'', ''SOME'', ''SUM'', ''TABLE'', ''TEMP'', ''TEMPORARY'',
        ''TEXT'', ''THEN'', ''TIMESTAMP'', ''TINYINT'', ''TO'', ''TRUE'', ''TRUNCATE'', ''TYPE'',
        ''UNBOUNDED'', ''UNION'', ''UNIQUE'', ''UPDATE'', ''USING'', ''VACUUM'', ''VALUES'',
        ''VARCHAR'', ''VIEW'', ''WHEN'', ''WHERE'', ''WINDOW'', ''WITH'']"

definition is_sql_keyword :: "string \<Rightarrow> bool" where
  "is_sql_keyword word \<longleftrightarrow> to_uppercase word \<in> set sql_keywords"

definition is_alpha :: "char \<Rightarrow> bool" where
  "is_alpha c \<longleftrightarrow> is_upper c \<or> is_lower c"

definition word_start :: "char \<Rightarrow> bool" where
  "word_start c \<longleftrightarrow> is_alpha c \<or> c = CHR ''_''"

definition word_char :: "char \<Rightarrow> bool" where
  "word_char c \<longleftrightarrow> is_alnum c \<or> c = CHR ''_''"

definition number_char :: "char \<Rightarrow> bool" where
  "number_char c \<longleftrightarrow> is_digit c \<or> c = CHR ''.''"

function highlight_sql :: "string \<Rightarrow> string" where
  "highlight_sql [] = []"
| "highlight_sql (c # s) =
     (if c = quote
      then ansi_green @ quote # fst (take_literal s) @ ansi_reset @ highlight_sql (snd (take_literal s))
      else if c = CHR ''-'' \<and> starts_with ''--'' (c # s) then ansi_dim @ (c # s) @ ansi_reset
      else if is_digit c
      then ansi_cyan @ c # takeWhile number_char s @ ansi_reset @ highlight_sql (dropWhile number_char s)
      else if word_start c
      then (let word = c # takeWhile word_char s in
            if is_sql_keyword word
            then ansi_bold_blue @ word @ ansi_reset @ highlight_sql (dropWhile word_char s)
            else word @ highlight_sql (dropWhile word_char s))
      else if c = CHR '';'' then ansi_dim @ '';'' @ ansi_reset @ highlight_sql s
      else c # highlight_sql s)"
  by pat_completeness auto
termination
  by (relation "measure length") (auto simp: termination_simp le_imp_less_Suc length_dropWhile_le)

definition highlight_line :: "string \<Rightarrow> string" where
  "highlight_line line =
     (if line = [] \<or> starts_with [CHR 0x5C] line \<or> starts_with ''.'' line then line else highlight_sql line)"

text \<open>How the line editor shows the prompt and a hint.\<close>

definition highlight_prompt :: "string \<Rightarrow> string" where
  "highlight_prompt prompt = ansi_bold_green @ prompt @ ansi_reset"

definition highlight_hint :: "string \<Rightarrow> string" where
  "highlight_hint hint = ansi_dim @ hint @ ansi_reset"

section \<open>Comments and commands\<close>

text \<open>The loop of \<^verbatim>\<open>strip_line_comment\<close>: up to two dashes outside of a literal.\<close>

function before_comment :: "string \<Rightarrow> string" where
  "before_comment [] = []"
| "before_comment (c # s) =
     (if c = quote then quote # fst (take_literal s) @ before_comment (snd (take_literal s))
      else if c = CHR ''-'' \<and> starts_with ''-'' s then []
      else c # before_comment s)"
  by pat_completeness auto
termination
  by (relation "measure length") (auto simp: termination_simp le_imp_less_Suc)

definition strip_line_comment :: "string \<Rightarrow> string" where
  "strip_line_comment line = trim (before_comment line)"

definition parse_io_command :: "string \<Rightarrow> bool \<Rightarrow> string option" where
  "parse_io_command cmd is_import =
     (case split_whitespace cmd of
        _ # fmt # tbl # path # _ \<Rightarrow>
          (if to_lowercase fmt \<notin> {''csv'', ''json'', ''parquet''} then None
           else Some (if is_import then ''COPY '' @ tbl @ '' FROM '' @ quote # path @ [quote]
                      else ''COPY '' @ tbl @ '' TO '' @ quote # path @ [quote]))
      | _ \<Rightarrow> None)"

section \<open>Completion\<close>

definition completion_keywords :: "string list" where
  "completion_keywords =
      [''SELECT'', ''INSERT'', ''UPDATE'', ''DELETE'', ''CREATE'', ''DROP'', ''ALTER'', ''TABLE'',
        ''VIEW'', ''INDEX'', ''WHERE'', ''FROM'', ''INTO'', ''VALUES'', ''JOIN'', ''ORDER'', ''BY'',
        ''GROUP'', ''LIMIT'', ''COPY'', ''TRUNCATE'', ''ANALYZE'', ''VACUUM'', ''BEGIN'',
        ''COMMIT'', ''ROLLBACK'', ''EXPLAIN'']"

definition completion_words :: "engine \<Rightarrow> string list" where
  "completion_words e =
     remdups_adj (sort (completion_keywords @
       concat (map (\<lambda>tbl. tbl # table_columns tbl e) (table_names e))))"

text \<open>Where the word before the cursor starts, and the words it can be completed to.\<close>

definition complete :: "string list \<Rightarrow> string \<Rightarrow> nat \<Rightarrow> nat \<times> string list" where
  "complete ws line pos =
     (let safe_pos = min pos (length line);
          start = (case rfind_char is_ws (take safe_pos line) of None \<Rightarrow> 0 | Some i \<Rightarrow> i + 1);
          pre = to_lowercase (slice line start safe_pos)
      in (start, filter (\<lambda>w. starts_with pre (to_lowercase w)) ws))"

section \<open>The session\<close>

text \<open>
  A line printed to the standard output or the standard error, without its line break. The
  metrics of the last statement are never set by the engine.
\<close>

datatype printed = Stdout string | Stderr string

record query_metrics =
  qm_files :: nat
  qm_bytes :: nat

definition last_query_metrics :: "engine \<Rightarrow> query_metrics" where
  "last_query_metrics e = \<lparr>qm_files = 0, qm_bytes = 0\<rparr>"

record repl =
  rp_buffer :: string
  rp_timing :: bool
  rp_words :: "string list"
  rp_history :: "string list"
  rp_printed :: "printed list"

definition prints :: "printed list \<Rightarrow> repl \<Rightarrow> repl" where
  "prints ps r = r\<lparr>rp_printed := rp_printed r @ ps\<rparr>"

definition elapsed_ms :: "nat \<Rightarrow> nat \<Rightarrow> string" where
  "elapsed_ms started now = format_fixed 3 (f64_mul (as_secs_f64 (int (now - started))) (f64_of 1000))"

definition timing_line :: "nat \<Rightarrow> nat \<Rightarrow> query_metrics \<Rightarrow> string" where
  "timing_line started now m =
     (if 0 < qm_files m \<or> 0 < qm_bytes m
      then ''Time: '' @ elapsed_ms started now @ '' ms  (files read: '' @ show_nat (qm_files m) @ '', scanned: ''
           @ format_fixed 1 (f64_div (f64_of (int (qm_bytes m))) (f64_of 1024)) @ '' KB)''
      else ''Time: '' @ elapsed_ms started now @ '' ms'')"

definition row_summary :: "record_batch list \<Rightarrow> string" where
  "row_summary bs = ''('' @ show_nat (row_count bs) @ '' row(s))''"

text \<open>What a statement prints; a table that cannot be drawn is a panic.\<close>

definition result_lines ::
  "array_format \<Rightarrow> bool \<Rightarrow> nat \<Rightarrow> nat \<Rightarrow> query_metrics \<Rightarrow> (string, query_result) result \<Rightarrow> (string, printed list) result"
where
  "result_lines F timing started now m r =
     (let timed = (if timing then [Stdout (timing_line started now m)] else []) in
      case r of
        Inr (Records bs) \<Rightarrow>
          (case format_batches_truncated F bs of
             Inl msg \<Rightarrow> Inl msg
           | Inr table \<Rightarrow> Inr ([Stdout table, Stdout (row_summary bs)] @ timed @ [Stdout []]))
      | Inr (Message msg) \<Rightarrow> Inr ([Stdout msg] @ timed @ [Stdout []])
      | Inl err \<Rightarrow>
          Inr ([Stderr (''ERROR: '' @ err)]
            @ (if timing then [Stdout (''Time: '' @ elapsed_ms started now @ '' ms'')] else []) @ [Stdout []]))"

definition execute_and_print ::
  "'s world \<Rightarrow> array_format \<Rightarrow> nat \<Rightarrow> string \<Rightarrow> repl \<Rightarrow> (repl, 's) run"
where
  "execute_and_print W F depth sql r e s =
     (case execute W depth sql e s of
        None \<Rightarrow> None
      | Some (res, e1, s1) \<Rightarrow>
          Some (map_sum id (\<lambda>ps. prints ps r)
             (result_lines F (rp_timing r) (w_clock W s) (w_clock W s1) (last_query_metrics e1) res), e1, s1))"

text \<open>
  A file's results are printed in the order of its statements. A table that cannot be drawn ends
  the program; the statements behind it are executed in the model all the same.
\<close>

fun file_lines :: "array_format \<Rightarrow> (string \<times> (string, query_result) result) list \<Rightarrow> (string, printed list) result" where
  "file_lines F [] = Inr []"
| "file_lines F ((st, res) # rest) =
     (case (case res of
              Inr (Records bs) \<Rightarrow> map_sum id (\<lambda>t. [Stdout t, Stdout (row_summary bs), Stdout []]) (format_batches_truncated F bs)
            | Inr (Message msg) \<Rightarrow> Inr [Stdout msg, Stdout []]
            | Inl err \<Rightarrow> Inr [Stderr (''ERROR: '' @ err), Stderr []]) of
        Inl msg \<Rightarrow> Inl msg
      | Inr ps \<Rightarrow> map_sum id (\<lambda>more. ps @ more) (file_lines F rest))"

definition execute_file_and_print ::
  "'s world \<Rightarrow> array_format \<Rightarrow> nat \<Rightarrow> string \<Rightarrow> repl \<Rightarrow> (repl, 's) run"
where
  "execute_file_and_print W F depth path r e s =
     (let r0 = prints [Stdout (''Executing: '' @ path)] r in
      case execute_file W depth path True e s of
        None \<Rightarrow> None
      | Some (Inl err, e1, s1) \<Rightarrow> Some (Inr (prints [Stderr (''ERROR: '' @ err @ [newline])] r0), e1, s1)
      | Some (Inr results, e1, s1) \<Rightarrow>
          Some (map_sum id (\<lambda>ps. prints (ps
             @ (if rp_timing r then [Stdout (''Total file execution: '' @ elapsed_ms (w_clock W s) (w_clock W s1) @ '' ms'')] else [])
             @ [Stdout []]) r0) (file_lines F results), e1, s1))"

definition index_lines :: "engine \<Rightarrow> printed list" where
  "index_lines e =
     (let idx = sort (index_list e) in
      if idx = [] then [Stdout (''(no indexes)'' @ [newline])]
      else map (\<lambda>(nm, tbl). Stdout (nm @ CHR 9 # tbl)) idx @ [Stdout []])"

definition view_lines :: "engine \<Rightarrow> printed list" where
  "view_lines e =
     (let views = sort (view_names e) in
      if views = [] then [Stdout (''(no views)'' @ [newline])] else map Stdout views @ [Stdout []])"

section \<open>A line\<close>

text \<open>What a line means when no statement is open.\<close>

datatype repl_command =
    QuitRepl | ToggleTiming | ListTables | ListIndexes | ListViews
  | BackupTo string | RestoreFrom string | DescribeTable string | RunFile string
  | ImportTable string | ExportTable string | EmptyLine | SqlLine

definition backslash :: "string \<Rightarrow> string" where "backslash s = CHR 0x5C # s"

definition repl_command :: "string \<Rightarrow> repl_command" where
  "repl_command s =
     (if s \<in> {backslash ''q'', ''quit'', ''exit''} then QuitRepl
      else if s = backslash ''timing'' then ToggleTiming
      else if s = backslash ''dt'' then ListTables
      else if s = backslash ''di'' then ListIndexes
      else if s = backslash ''dv'' then ListViews
      else if starts_with (backslash ''backup '') s then BackupTo (trim (drop 8 s))
      else if starts_with (backslash ''restore '') s then RestoreFrom (trim (drop 9 s))
      else if starts_with (backslash ''d '') s then DescribeTable (trim (drop 3 s))
      else if starts_with (backslash ''i '') s then RunFile (trim (drop 3 s))
      else if starts_with ''.source '' s then RunFile (trim (drop 8 s))
      else if starts_with ''.import '' s then ImportTable s
      else if starts_with ''.export '' s then ExportTable s
      else if s = [] then EmptyLine
      else SqlLine)"

definition refresh_words :: "repl \<Rightarrow> (repl, 's) run" where
  "refresh_words r = runs (asks (\<lambda>e. r\<lparr>rp_words := completion_words e\<rparr>))"

definition list_tables_sql :: string where
  "list_tables_sql =
     ''SELECT table_name FROM information_schema.tables WHERE table_schema = '' @ quoted ''public''
       @ '' ORDER BY table_name''"

text \<open>\<^verbatim>\<open>Ok\<close> and \<^verbatim>\<open>Err\<close> of an operation, printed.\<close>

definition report :: "(unit, 's) action \<Rightarrow> string \<Rightarrow> repl \<Rightarrow> (repl, 's) run" where
  "report m done_msg r e s =
     (case m e s of
        (Inr _, e1, s1) \<Rightarrow> Some (Inr (prints [Stdout (done_msg @ [newline])] r), e1, s1)
      | (Inl err, e1, s1) \<Rightarrow> Some (Inr (prints [Stderr (''ERROR: '' @ err)] r), e1, s1))"

text \<open>The format a command names is checked; the statement leaves it to the file's extension.\<close>

definition run_io :: "'s world \<Rightarrow> array_format \<Rightarrow> nat \<Rightarrow> string \<Rightarrow> bool \<Rightarrow> repl \<Rightarrow> (repl, 's) run" where
  "run_io W F depth s is_import r =
     (case parse_io_command s is_import of
        Some sql \<Rightarrow> execute_and_print W F depth sql r
      | None \<Rightarrow>
          runs (ok (prints [Stderr (''Usage: '' @ (if is_import then ''.import'' else ''.export'')
             @ '' <csv|json|parquet> <table> <path>'')] r)))"

fun run_repl_command ::
  "'s world \<Rightarrow> array_format \<Rightarrow> nat \<Rightarrow> repl_command \<Rightarrow> repl \<Rightarrow> (repl, 's) run"
where
  "run_repl_command W F depth ToggleTiming r =
     runs (ok (prints [Stdout (''Timing is '' @ (if rp_timing r then ''off'' else ''on'') @ ''.'')]
       (r\<lparr>rp_timing := \<not> rp_timing r\<rparr>)))"
| "run_repl_command W F depth ListTables r = execute_and_print W F depth list_tables_sql r"
| "run_repl_command W F depth ListIndexes r = runs (asks (\<lambda>e. prints (index_lines e) r))"
| "run_repl_command W F depth ListViews r = runs (asks (\<lambda>e. prints (view_lines e) r))"
| "run_repl_command W F depth (BackupTo path) r = report (backup W path) (''Backup created at '' @ path) r"
| "run_repl_command W F depth (RestoreFrom path) r =
     andRun (report (restore W path) (''Restore completed from '' @ path) r) refresh_words"
| "run_repl_command W F depth (DescribeTable tbl) r = execute_and_print W F depth (''DESCRIBE '' @ tbl) r"
| "run_repl_command W F depth (RunFile path) r =
     andRun (execute_file_and_print W F depth path r) refresh_words"
| "run_repl_command W F depth (ImportTable s) r = run_io W F depth s True r"
| "run_repl_command W F depth (ExportTable s) r = run_io W F depth s False r"
| "run_repl_command W F depth c r = runs (ok r)"

text \<open>A line of a statement: collected without its comment, executed when it ends with a semicolon.\<close>

definition sql_line :: "'s world \<Rightarrow> array_format \<Rightarrow> nat \<Rightarrow> string \<Rightarrow> repl \<Rightarrow> (repl, 's) run" where
  "sql_line W F depth trimmed r =
     (let effective = strip_line_comment trimmed; buf = rp_buffer r @ effective @ '' '' in
      if effective = [] then runs (ok r)
      else if last effective = CHR '';''
      then let sql = trim buf in
           andRun (execute_and_print W F depth sql (r\<lparr>rp_buffer := buf, rp_history := rp_history r @ [sql]\<rparr>)) (\<lambda>r1.
           refresh_words (r1\<lparr>rp_buffer := []\<rparr>))
      else runs (ok (r\<lparr>rp_buffer := buf\<rparr>)))"

text \<open>The result of a line says whether the loop goes on.\<close>

definition repl_line :: "'s world \<Rightarrow> array_format \<Rightarrow> nat \<Rightarrow> string \<Rightarrow> repl \<Rightarrow> (bool \<times> repl, 's) run" where
  "repl_line W F depth line r =
     (let trimmed = trim line; c = (if rp_buffer r = [] then repl_command trimmed else SqlLine) in
      if c = QuitRepl then runs (ok (False, r))
      else andRun (if c = SqlLine then sql_line W F depth trimmed r else run_repl_command W F depth c r)
             (\<lambda>r1. runs (ok (True, r1))))"

section \<open>The loop\<close>

datatype readline = ReadLine string | Interrupted | Eof | ReadFailed string

definition prompt :: "repl \<Rightarrow> string" where
  "prompt r = (if rp_buffer r = [] then ''potatodb> '' else ''       -> '')"

fun repl_loop :: "'s world \<Rightarrow> array_format \<Rightarrow> nat \<Rightarrow> readline list \<Rightarrow> repl \<Rightarrow> (repl, 's) run" where
  "repl_loop W F depth [] r = runs (ok r)"
| "repl_loop W F depth (ReadLine line # rest) r =
     andRun (repl_line W F depth line r) (\<lambda>(go_on, r1). if go_on then repl_loop W F depth rest r1 else runs (ok r1))"
| "repl_loop W F depth (ReadFailed err # rest) r = runs (ok (prints [Stderr (''Error: '' @ err)] r))"
| "repl_loop W F depth (_ # rest) r = runs (ok r)"

definition start_repl :: "engine \<Rightarrow> repl" where
  "start_repl e =
     \<lparr>rp_buffer = [], rp_timing = False, rp_words = completion_words e, rp_history = [], rp_printed = []\<rparr>"

end
