(* ===== verification/Repl_Props.thy ===== *)
theory Repl_Props
  imports Repl Display_Props
begin

text \<open>
  What the interactive loop shows and executes: highlighting adds nothing but colours, and the
  lines of a statement reach the engine joined, without their comments.
\<close>

section \<open>Highlighting changes colours only\<close>

text \<open>A text without its escape sequences, each from the escape character to the next \<open>m\<close>.\<close>

function strip_ansi :: "string \<Rightarrow> string" where
  "strip_ansi [] = []"
| "strip_ansi (c # s) =
     (if c = CHR 0x1B then strip_ansi (drop 1 (dropWhile (\<lambda>x. x \<noteq> CHR ''m'') s)) else c # strip_ansi s)"
  by pat_completeness auto
termination
proof (relation "measure length")
  fix c :: char and s :: string
  have "length (drop 1 (dropWhile (\<lambda>x. x \<noteq> CHR ''m'') s)) \<le> length s"
    by (simp add: le_trans [OF diff_le_self length_dropWhile_le])
  then show "(drop 1 (dropWhile (\<lambda>x. x \<noteq> CHR ''m'') s), c # s) \<in> measure length" by simp
qed simp_all

definition plain :: "string \<Rightarrow> bool" where
  "plain s \<longleftrightarrow> CHR 0x1B \<notin> set s"

lemma plain_simps [simp]:
  "plain []" "plain (c # s) \<longleftrightarrow> c \<noteq> CHR 0x1B \<and> plain s" "plain (a @ b) \<longleftrightarrow> plain a \<and> plain b"
  by (auto simp: plain_def)

lemma plain_subset: "plain s \<Longrightarrow> set t \<subseteq> set s \<Longrightarrow> plain t"
  by (auto simp: plain_def)

lemma strip_ansi_plain [simp]: "plain t \<Longrightarrow> strip_ansi (t @ s) = t @ strip_ansi s"
  by (induction t) auto

lemma strip_ansi_seq: "CHR ''m'' \<notin> set body \<Longrightarrow> strip_ansi (esc_seq body @ s) = strip_ansi s"
proof -
  assume "CHR ''m'' \<notin> set body"
  then have "dropWhile (\<lambda>x. x \<noteq> CHR ''m'') (body @ CHR ''m'' # s) = CHR ''m'' # s"
    by (subst dropWhile_append2) auto
  then show ?thesis by (simp add: esc_seq_def)
qed

lemma strip_ansi_colours [simp]:
  "strip_ansi (ansi_reset @ s) = strip_ansi s" "strip_ansi (ansi_bold_blue @ s) = strip_ansi s"
  "strip_ansi (ansi_green @ s) = strip_ansi s" "strip_ansi (ansi_cyan @ s) = strip_ansi s"
  "strip_ansi (ansi_dim @ s) = strip_ansi s"
  by (simp_all only: ansi_reset_def ansi_bold_blue_def ansi_green_def ansi_cyan_def ansi_dim_def)
    (rule strip_ansi_seq, simp)+

lemma plain_literal_parts: "plain s \<Longrightarrow> plain (fst (take_literal s)) \<and> plain (snd (take_literal s))"
  using take_literal_append [of s "fst (take_literal s)" "snd (take_literal s)"]
  by (metis plain_simps(3) prod.collapse)

lemma plain_while: "plain s \<Longrightarrow> plain (takeWhile P s)" "plain s \<Longrightarrow> plain (dropWhile P s)"
  by (rule plain_subset, assumption, auto dest: set_takeWhileD set_dropWhileD)+

lemma literal_parts: "fst (take_literal s) @ snd (take_literal s) = s"
  using take_literal_append [of s "fst (take_literal s)" "snd (take_literal s)"] by simp

text \<open>
  Highlighting a line only adds escape sequences: without them the highlighted text is the
  line itself, whatever literals, comments, numbers and keywords are in it.
\<close>

theorem highlighting_keeps_text:
  assumes "CHR 0x1B \<notin> set line"
  shows "strip_ansi (highlight_line line) = line"
proof -
  have "plain line" using assms by (simp add: plain_def)
  then have "strip_ansi (highlight_sql line) = line"
  proof (induction line rule: highlight_sql.induct)
    case (2 c s)
    note IH = "2.IH"
    have s: "plain s" and c: "c \<noteq> CHR 0x1B" using "2.prems" by auto
    note parts = s plain_literal_parts [OF s] plain_while [OF s]
    consider (lit) "c = quote" | (comment) "c = CHR ''-''" "starts_with ''--'' (c # s)"
      | (num) "is_digit c" "c \<noteq> quote" "\<not> (c = CHR ''-'' \<and> starts_with ''--'' (c # s))"
      | (word) "word_start c" "c \<noteq> quote" "\<not> is_digit c" "\<not> (c = CHR ''-'' \<and> starts_with ''--'' (c # s))"
      | (semi) "c = CHR '';''"
      | (other) "c \<noteq> quote" "\<not> (c = CHR ''-'' \<and> starts_with ''--'' (c # s))" "\<not> is_digit c" "\<not> word_start c"
        "c \<noteq> CHR '';''"
      by blast
    then show ?case
    proof cases
      case lit
      then show ?thesis using IH(1) [OF lit] parts literal_parts by simp
    next
      case comment
      have "strip_ansi ((c # s) @ ansi_reset @ []) = c # s"
        using c s by (subst strip_ansi_plain) (simp_all only: strip_ansi_colours plain_simps strip_ansi.simps, simp_all)
      then show ?thesis using comment by simp
    next
      case num
      then show ?thesis using IH(2) parts c by auto
    next
      case word
      then show ?thesis using IH(3,4) parts c by (auto simp: Let_def)
    next
      case semi
      then show ?thesis using IH(5) s by (simp add: is_digit_def word_start_def is_alpha_def is_upper_def is_lower_def)
    next
      case other
      then show ?thesis using IH(6) s c by auto
    qed
  qed simp
  moreover have "strip_ansi line = line"
    using \<open>plain line\<close> strip_ansi_plain [of line "[]"] by simp
  ultimately show ?thesis by (simp add: highlight_line_def)
qed

theorem highlighting_keeps_text_witness:
  "strip_ansi (highlight_line ''SELECT 1; -- one'') = ''SELECT 1; -- one''"
  by (rule highlighting_keeps_text) simp

section \<open>A statement of several lines\<close>

text \<open>What a line contributes to a statement.\<close>

definition effective_line :: "string \<Rightarrow> string" where
  "effective_line l = strip_line_comment (trim l)"

definition ends_statement :: "string \<Rightarrow> bool" where
  "ends_statement l \<longleftrightarrow> effective_line l \<noteq> [] \<and> last (effective_line l) = CHR '';''"

definition statement_of :: "string list \<Rightarrow> string" where
  "statement_of ls = join '' '' (filter (\<lambda>x. x \<noteq> []) (map effective_line ls))"

definition collected :: "string list \<Rightarrow> string" where
  "collected ls = concat (map (\<lambda>x. x @ '' '') (filter (\<lambda>x. x \<noteq> []) (map effective_line ls)))"

lemma collected_simps [simp]:
  "collected [] = []" "collected (a @ b) = collected a @ collected b"
  "collected (l # ls) = (if effective_line l = [] then [] else effective_line l @ '' '') @ collected ls"
  by (simp_all add: collected_def)

lemma sql_line_collects:
  "\<not> ends_statement l \<Longrightarrow>
     sql_line W F d (trim l) r e s = Some (Inr (r\<lparr>rp_buffer := rp_buffer r @ collected [l]\<rparr>), e, s)"
  by (auto simp: sql_line_def ends_statement_def effective_line_def runs_def ok_def Let_def)

lemma repl_line_collects:
  assumes "\<not> ends_statement l" and "rp_buffer r = [] \<longrightarrow> repl_command (trim l) = SqlLine"
  shows "repl_line W F d l r e s = Some (Inr (True, r\<lparr>rp_buffer := rp_buffer r @ collected [l]\<rparr>), e, s)"
  using assms sql_line_collects [OF assms(1), of W F d r e s]
  by (simp add: repl_line_def Let_def andRun_def runs_def ok_def)

lemma repl_loop_collects:
  assumes "list_all (\<lambda>l. \<not> ends_statement l) ls" and "rp_buffer r \<noteq> []"
  shows "repl_loop W F d (map ReadLine ls @ rest) r e s =
     repl_loop W F d rest (r\<lparr>rp_buffer := rp_buffer r @ collected ls\<rparr>) e s"
  using assms
proof (induction ls arbitrary: r)
  case (Cons l ls)
  have "repl_loop W F d (map ReadLine (l # ls) @ rest) r e s =
      repl_loop W F d (map ReadLine ls @ rest) (r\<lparr>rp_buffer := rp_buffer r @ collected [l]\<rparr>) e s"
    using Cons.prems repl_line_collects [of l r W F d e s]
    by (simp add: andRun_def)
  also have "\<dots> = repl_loop W F d rest (r\<lparr>rp_buffer := rp_buffer r @ collected (l # ls)\<rparr>) e s"
    using Cons.prems Cons.IH [of "r\<lparr>rp_buffer := rp_buffer r @ collected [l]\<rparr>"] by simp
  finally show ?case .
qed simp

lemma trim_end_space: "trim_end_by is_ws (s @ '' '') = trim_end_by is_ws s"
  by (simp add: trim_end_by_def is_ws_def)

lemma trim_space: "trim (s @ '' '') = trim s"
proof (cases "dropWhile is_ws s = []")
  case True
  then have "\<And>c. c \<in> set s \<Longrightarrow> is_ws c" by (simp add: dropWhile_eq_Nil_conv)
  then have "trim (s @ '' '') = []" "trim s = []"
    by (intro trim_by_all, auto simp: is_ws_def)+
  then show ?thesis by simp
next
  case False
  then have "dropWhile is_ws (s @ '' '') = dropWhile is_ws s @ '' ''"
    by (metis dropWhile_append dropWhile_eq_Nil_conv)
  then show ?thesis by (simp add: trim_by_def trim_start_by_def trim_end_space)
qed

text \<open>The collected text is the joined one, and nothing of it is trimmed but the last space.\<close>

lemma concat_join: "xs \<noteq> [] \<Longrightarrow> concat (map (\<lambda>x. x @ sep) xs) = join sep xs @ sep"
  by (induction xs rule: join.induct [of _ sep]) auto

lemma hd_join: "xs \<noteq> [] \<Longrightarrow> hd xs \<noteq> [] \<Longrightarrow> join sep xs \<noteq> [] \<and> hd (join sep xs) = hd (hd xs)"
  by (cases xs; cases "tl xs") auto

lemma last_join: "xs \<noteq> [] \<Longrightarrow> last xs \<noteq> [] \<Longrightarrow> join sep xs \<noteq> [] \<and> last (join sep xs) = last (last xs)"
  by (induction xs rule: join.induct [of _ sep]) auto

lemma effective_line_ends:
  assumes "effective_line l \<noteq> []"
  shows "\<not> is_ws (hd (effective_line l))" "\<not> is_ws (last (effective_line l))"
  using assms hd_trim_by last_trim_by by (auto simp: effective_line_def strip_line_comment_def)

lemma trim_collected:
  assumes "effective_line l \<noteq> []" and "effective_line (hd (ls @ [l])) \<noteq> []"
  shows "trim (collected (ls @ [l])) = statement_of (ls @ [l])"
proof -
  let ?xs = "filter (\<lambda>x. x \<noteq> []) (map effective_line (ls @ [l]))"
  have ne: "?xs \<noteq> []" and last: "last ?xs = effective_line l" using assms(1) by simp_all
  have hd: "hd ?xs = effective_line (hd (ls @ [l]))" using assms(2) by (cases ls) auto
  have j: "join '' '' ?xs \<noteq> []" "hd (join '' '' ?xs) = hd (effective_line (hd (ls @ [l])))"
    "last (join '' '' ?xs) = last (effective_line l)"
    using hd_join [OF ne, of "'' ''"] last_join [OF ne, of "'' ''"] hd last assms by simp_all
  have "trim (collected (ls @ [l])) = trim (join '' '' ?xs)"
    unfolding collected_def concat_join [OF ne] by (rule trim_space)
  also have "\<dots> = join '' '' ?xs"
    using j effective_line_ends [OF assms(1)] effective_line_ends [OF assms(2)] by (intro trim_by_id) simp_all
  finally show ?thesis by (simp add: statement_of_def)
qed

text \<open>
  C32. The lines typed up to the first one that, its comment aside, ends with a semicolon are executed once,
  as one statement: its text is that of the lines without comments and outer white space,
  joined by single spaces, empty lines and comment lines left out. No line before the last is
  executed, the first line alone is looked at for the loop's own commands, and what follows starts a new
  statement. Nothing else ends or protects a statement: a semicolon at the end of a line inside of a
  dollar-quoted body ends it too, so a procedure typed on several lines is executed in pieces.
\<close>

theorem statement_lines_are_joined:
  assumes "rp_buffer r = []" and "repl_command (trim (hd (ls @ [l]))) = SqlLine"
    and "effective_line (hd (ls @ [l])) \<noteq> []"
    and "list_all (\<lambda>x. \<not> ends_statement x) ls" and "ends_statement l"
  shows "repl_loop W F d (map ReadLine (ls @ [l]) @ rest) r e s =
     andRun (execute_and_print W F d (statement_of (ls @ [l]))
               (r\<lparr>rp_buffer := collected (ls @ [l]), rp_history := rp_history r @ [statement_of (ls @ [l])]\<rparr>)) (\<lambda>r1.
     andRun (refresh_words (r1\<lparr>rp_buffer := []\<rparr>)) (\<lambda>r2.
     repl_loop W F d rest r2)) e s"
proof -
  have l: "effective_line l \<noteq> []" "last (effective_line l) = CHR '';''"
    using assms(5) by (simp_all add: ends_statement_def)
  let ?r = "r\<lparr>rp_buffer := collected ls\<rparr>"
  have "repl_loop W F d (map ReadLine (ls @ [l]) @ rest) r e s =
      repl_loop W F d (ReadLine l # rest) ?r e s"
  proof (cases ls)
    case (Cons x xs)
    then have x: "repl_line W F d x r e s = Some (Inr (True, r\<lparr>rp_buffer := collected [x]\<rparr>), e, s)"
      using repl_line_collects [of x r W F d e s] assms by simp
    have "collected [x] \<noteq> []" using assms(3) Cons by simp
    then show ?thesis
      using Cons x assms(4) repl_loop_collects [of xs "r\<lparr>rp_buffer := collected [x]\<rparr>" W F d "ReadLine l # rest" e s]
      by (simp add: andRun_def)
  qed (use assms(1) in \<open>cases r, simp\<close>)
  moreover have "repl_line W F d l ?r = andRun (sql_line W F d (trim l) ?r) (\<lambda>r1. runs (ok (True, r1)))"
  proof -
    have "(if collected ls = [] then repl_command (trim l) else SqlLine) = SqlLine"
      using assms(2,3) by (cases ls) (auto split: if_splits)
    then show ?thesis by (simp add: repl_line_def Let_def)
  qed
  moreover have "sql_line W F d (trim l) ?r =
      andRun (execute_and_print W F d (statement_of (ls @ [l]))
        (r\<lparr>rp_buffer := collected (ls @ [l]), rp_history := rp_history r @ [statement_of (ls @ [l])]\<rparr>))
        (\<lambda>r1. refresh_words (r1\<lparr>rp_buffer := []\<rparr>))"
    using l trim_collected [OF l(1) assms(3)]
    by (simp add: sql_line_def Let_def effective_line_def [symmetric])
  ultimately show ?thesis
    by (simp add: andRun_def runs_def ok_def split: option.split sum.split)
qed

definition sample_repl :: repl where
  "sample_repl = \<lparr>rp_buffer = [], rp_timing = False, rp_words = [], rp_history = [], rp_printed = []\<rparr>"

lemma sample_lines:
  "repl_command (trim ''SELECT 1 -- one'') = SqlLine" "effective_line ''SELECT 1 -- one'' = ''SELECT 1''"
  "effective_line ''+ 2;'' = ''+ 2;''"
  by code_simp+

theorem statement_lines_are_joined_witness:
  "\<forall>e. repl_loop idle_world sample_format 1 [ReadLine ''SELECT 1 -- one'', ReadLine ''+ 2;''] sample_repl e () =
     andRun (execute_and_print idle_world sample_format 1 ''SELECT 1 + 2;''
               (sample_repl\<lparr>rp_buffer := ''SELECT 1 + 2; '', rp_history := [''SELECT 1 + 2;'']\<rparr>)) (\<lambda>r1.
     andRun (refresh_words (r1\<lparr>rp_buffer := []\<rparr>)) (\<lambda>r2. runs (ok r2))) e ()"
proof
  fix e
  have "statement_of [''SELECT 1 -- one'', ''+ 2;''] = ''SELECT 1 + 2;''"
    "collected [''SELECT 1 -- one'', ''+ 2;''] = ''SELECT 1 + 2; ''"
    by (simp_all add: statement_of_def sample_lines)
  with statement_lines_are_joined
      [of sample_repl "[''SELECT 1 -- one'']" "''+ 2;''" idle_world sample_format 1 "[]" e "()"]
  show "repl_loop idle_world sample_format 1 [ReadLine ''SELECT 1 -- one'', ReadLine ''+ 2;''] sample_repl e () =
     andRun (execute_and_print idle_world sample_format 1 ''SELECT 1 + 2;''
               (sample_repl\<lparr>rp_buffer := ''SELECT 1 + 2; '', rp_history := [''SELECT 1 + 2;'']\<rparr>)) (\<lambda>r1.
     andRun (refresh_words (r1\<lparr>rp_buffer := []\<rparr>)) (\<lambda>r2. runs (ok r2))) e ()"
    by (simp add: sample_repl_def ends_statement_def sample_lines)
qed

end
