(* ===== verification/Server.thy ===== *)
theory Server
  imports Dispatch Rust_Float Utf8 "HOL-Library.List_Lexorder" "HOL-Library.Char_ord"
begin

text \<open>
  \<^verbatim>\<open>crates/server/src/lib.rs\<close>: the PostgreSQL wire server. The protocol (\<^verbatim>\<open>pgwire\<close>) is outside:
  the model begins with the text of a query or a bound portal and ends with the response. All
  connections share one engine behind a lock, so a server's history is a list of queries.
\<close>

section \<open>Login\<close>

definition env_or :: "(string \<Rightarrow> string option) \<Rightarrow> string \<Rightarrow> string \<Rightarrow> string" where
  "env_or env nm dflt = (case env nm of None \<Rightarrow> dflt | Some v \<Rightarrow> v)"

record pg_error =
  pe_severity :: string
  pe_code :: string
  pe_message :: string

text \<open>\<open>md5 user password salt\<close> is pgwire's hash of the password; the salt is constant.\<close>

definition get_password ::
  "(string \<Rightarrow> string \<Rightarrow> nat list \<Rightarrow> string) \<Rightarrow> (string \<Rightarrow> string option) \<Rightarrow> string option
     \<Rightarrow> (pg_error, nat list \<times> string) result"
where
  "get_password md5 env login_user =
     (let expected_user = env_or env ''POTATODB_USER'' ''potatodb'';
          expected_password = env_or env ''POTATODB_PASSWORD'' ''potatodb'';
          user = (case login_user of None \<Rightarrow> [] | Some u \<Rightarrow> u);
          salt = [1, 2, 3, 4]
      in if user \<noteq> expected_user
         then Inl \<lparr>pe_severity = ''FATAL'', pe_code = ''28P01'', pe_message = ''Password authentication failed''\<rparr>
         else Inr (salt, md5 user expected_password salt))"

section \<open>Types and parameters\<close>

datatype pg_type =
    PgBool | PgInt2 | PgInt4 | PgInt8 | PgFloat4 | PgFloat8 | PgNumeric | PgVarchar | PgText | PgDate
  | PgTimestamp | PgInterval | PgUuid | PgBytea | PgUnknown | PgOther string

fun arrow_to_pg_type :: "arrow_type \<Rightarrow> pg_type" where
  "arrow_to_pg_type ABoolean = PgBool"
| "arrow_to_pg_type AInt8 = PgInt2"
| "arrow_to_pg_type AInt16 = PgInt2"
| "arrow_to_pg_type AInt32 = PgInt4"
| "arrow_to_pg_type AUInt8 = PgInt4"
| "arrow_to_pg_type AUInt16 = PgInt4"
| "arrow_to_pg_type AInt64 = PgInt8"
| "arrow_to_pg_type AUInt32 = PgInt8"
| "arrow_to_pg_type AUInt64 = PgInt8"
| "arrow_to_pg_type AFloat32 = PgFloat4"
| "arrow_to_pg_type AFloat64 = PgFloat8"
| "arrow_to_pg_type AUtf8 = PgVarchar"
| "arrow_to_pg_type ALargeUtf8 = PgVarchar"
| "arrow_to_pg_type ADate32 = PgDate"
| "arrow_to_pg_type ADate64 = PgDate"
| "arrow_to_pg_type (ATimestamp u tz) = PgTimestamp"
| "arrow_to_pg_type (ADuration u) = PgInterval"
| "arrow_to_pg_type (AFixedSizeBinary n) = (if n = 16 then PgUuid else PgText)"
| "arrow_to_pg_type (ADecimal128 p s) = PgNumeric"
| "arrow_to_pg_type ABinary = PgBytea"
| "arrow_to_pg_type ALargeBinary = PgBytea"
| "arrow_to_pg_type _ = PgText"

text \<open>
  Whether \<^verbatim>\<open>s.parse::<f64>()\<close> succeeds: a sign, then \<open>inf\<close>, \<open>infinity\<close> or \<open>nan\<close> in any case, or
  digits with at most one point, at least one digit, and an optional exponent.
\<close>

definition drop_sign :: "string \<Rightarrow> string" where
  "drop_sign s = (case s of c # r \<Rightarrow> if c = CHR ''+'' \<or> c = CHR ''-'' then r else s | [] \<Rightarrow> [])"

definition is_exponent :: "string \<Rightarrow> bool" where
  "is_exponent s \<longleftrightarrow>
     (case s of
        [] \<Rightarrow> True
      | c # r \<Rightarrow> low c = CHR ''e'' \<and> drop_sign r \<noteq> [] \<and> list_all is_digit (drop_sign r))"

definition is_decimal :: "string \<Rightarrow> bool" where
  "is_decimal s \<longleftrightarrow>
     (let int_part = takeWhile is_digit s; rest = dropWhile is_digit s in
      case rest of
        c # r \<Rightarrow>
          (if c = CHR ''.''
           then (int_part \<noteq> [] \<or> takeWhile is_digit r \<noteq> []) \<and> is_exponent (dropWhile is_digit r)
           else int_part \<noteq> [] \<and> is_exponent rest)
      | [] \<Rightarrow> int_part \<noteq> [])"

definition parses_as_f64 :: "string \<Rightarrow> bool" where
  "parses_as_f64 s \<longleftrightarrow>
     (let t = drop_sign s in to_lowercase t \<in> {''inf'', ''infinity'', ''nan''} \<or> is_decimal t)"

record portal =
  po_statement :: string
  po_types :: "pg_type option list"
  po_params :: "string option list"

definition pasted_types :: "pg_type set" where
  "pasted_types = {PgInt2, PgInt4, PgInt8, PgFloat4, PgFloat8, PgNumeric, PgBool}"

definition format_portal_param :: "string option \<Rightarrow> pg_type \<Rightarrow> string" where
  "format_portal_param param ty =
     (case param of
        None \<Rightarrow> ''NULL''
      | Some bytes \<Rightarrow>
          let raw = utf8_lossy bytes in
          if eq_ignore_case raw ''null'' then ''NULL''
          else if ty \<in> pasted_types \<or> (ty = PgUnknown \<and> parses_as_f64 raw) then raw
          else quoted raw)"

definition portal_type :: "portal \<Rightarrow> nat \<Rightarrow> pg_type" where
  "portal_type po i =
     (if i < length (po_types po) then (case po_types po ! i of None \<Rightarrow> PgUnknown | Some t \<Rightarrow> t) else PgUnknown)"

text \<open>Parameter \<open>i + 1\<close> in place of every \<open>$(i + 1)\<close>, the last parameter first.\<close>

definition bind_param :: "portal \<Rightarrow> nat \<Rightarrow> string \<Rightarrow> string" where
  "bind_param po i sql =
     replace_str (CHR ''$'' # show_nat (i + 1)) (format_portal_param (po_params po ! i) (portal_type po i)) sql"

definition bind_portal_sql :: "portal \<Rightarrow> string" where
  "bind_portal_sql po = fold (bind_param po) (rev [0 ..< length (po_params po)]) (po_statement po)"

section \<open>Queries\<close>

definition is_read_only_query :: "string \<Rightarrow> bool" where
  "is_read_only_query query \<longleftrightarrow>
     to_uppercase (first_word query) \<in> {''SELECT'', ''WITH'', ''SHOW'', ''DESCRIBE'', ''EXPLAIN'', ''VALUES''}"

text \<open>
  The semaphore that bounds the connections only delays a query, as long as it has a permit
  (\<open>Server_Start\<close>).
\<close>

definition server_query :: "'s world \<Rightarrow> nat \<Rightarrow> string \<Rightarrow> (query_result, 's) run" where
  "server_query W depth query =
     (if is_read_only_query query then runs (execute_readonly W query) else execute W depth query)"

text \<open>
  The printed form of a value. Arrow's schema and the debug text of a cell of an array that is
  not told apart are parameters.
\<close>

record pg_arrays =
  pa_types :: "record_batch \<Rightarrow> arrow_type list"
  pa_debug :: "record_batch \<Rightarrow> nat \<Rightarrow> nat \<Rightarrow> string"

definition printed_as_number :: "arrow_type set" where
  "printed_as_number = {AInt8, AInt16, AInt32, AInt64, AUInt32, AUInt64, AFloat32, AFloat64}"

fun pg_value :: "arrow_type \<Rightarrow> cell \<Rightarrow> string option" where
  "pg_value ty (CInt i) =
     (if ty \<in> printed_as_number \<or> ty = ADuration Microsecond then Some (show_int i) else None)"
| "pg_value ty (CFloat t) = (if ty \<in> printed_as_number then Some t else None)"
| "pg_value ty (CText t) = (if ty \<in> {AUtf8, ALargeUtf8} then Some t else None)"
| "pg_value ty (CBool b) = (if ty = ABoolean then Some (if b then ''t'' else ''f'') else None)"
| "pg_value ty (CUuid b) = (if ty = AFixedSizeBinary 16 then Some (uuid_text b) else None)"
| "pg_value ty c = None"

definition encode_field :: "pg_arrays \<Rightarrow> record_batch \<Rightarrow> nat \<Rightarrow> nat \<Rightarrow> string option" where
  "encode_field A b row col =
     (let c = cell_at (rb_rows b ! row) col in
      if c = CNull then None
      else case pg_value (pa_types A b ! col) c of
             Some t \<Rightarrow> Some t
           | None \<Rightarrow> Some (pa_debug A b row col))"

datatype pg_response =
    Execution string
  | EmptyQuery
  | QueryRows "(string \<times> pg_type) list" "string option list list"

definition encode_batch :: "pg_arrays \<Rightarrow> record_batch \<Rightarrow> string option list list" where
  "encode_batch A b =
     map (\<lambda>row. map (encode_field A b row) [0 ..< length (rb_fields b)]) [0 ..< num_rows b]"

fun query_result_to_response :: "pg_arrays \<Rightarrow> query_result \<Rightarrow> pg_response" where
  "query_result_to_response A (Message msg) = Execution msg"
| "query_result_to_response A (Records []) = EmptyQuery"
| "query_result_to_response A (Records (b # bs)) =
     QueryRows (zip (rb_fields b) (map arrow_to_pg_type (pa_types A b))) (concat (map (encode_batch A) (b # bs)))"

definition engine_error :: "string \<Rightarrow> pg_error" where
  "engine_error msg = \<lparr>pe_severity = ''ERROR'', pe_code = ''XX000'', pe_message = msg\<rparr>"

text \<open>The two handlers: of a simple query, and of a portal of the extended protocol.\<close>

definition simple_query ::
  "'s world \<Rightarrow> nat \<Rightarrow> pg_arrays \<Rightarrow> string \<Rightarrow> engine \<Rightarrow> 's \<Rightarrow> ((pg_error, pg_response list) result \<times> engine \<times> 's) option"
where
  "simple_query W depth A query e s =
     map_option (\<lambda>(r, e1, s1). (map_sum engine_error (\<lambda>q. [query_result_to_response A q]) r, e1, s1))
       (server_query W depth query e s)"

definition extended_query ::
  "'s world \<Rightarrow> nat \<Rightarrow> pg_arrays \<Rightarrow> portal \<Rightarrow> engine \<Rightarrow> 's \<Rightarrow> ((pg_error, pg_response) result \<times> engine \<times> 's) option"
where
  "extended_query W depth A po e s =
     map_option (\<lambda>(r, e1, s1). (map_sum engine_error (query_result_to_response A) r, e1, s1))
       (server_query W depth (bind_portal_sql po) e s)"

text \<open>A statement is described by its parameters' types, and by no columns.\<close>

definition describe_statement :: "pg_type option list \<Rightarrow> pg_type list \<times> (string \<times> pg_type) list" where
  "describe_statement types = (map (\<lambda>t. case t of None \<Rightarrow> PgUnknown | Some ty \<Rightarrow> ty) types, [])"

section \<open>Automatic VACUUM\<close>

record vacuum_settings =
  va_interval :: nat
  va_files :: nat
  va_bytes :: nat
  va_age :: nat

definition vacuum_settings_of :: "(string \<Rightarrow> string option) \<Rightarrow> vacuum_settings" where
  "vacuum_settings_of env =
     \<lparr>va_interval = env_u64 env ''POTATODB_AUTO_VACUUM_INTERVAL_SECS'' 0,
      va_files = env_u64 env ''POTATODB_AUTO_VACUUM_FILE_THRESHOLD'' 25,
      va_bytes = env_u64 env ''POTATODB_AUTO_VACUUM_BYTES_THRESHOLD'' (256 * 1024 * 1024),
      va_age = env_u64 env ''POTATODB_AUTO_VACUUM_AGE_SECS'' 3600\<rparr>"

definition vacuum_score :: "vacuum_settings \<Rightarrow> nat \<Rightarrow> nat \<Rightarrow> f64" where
  "vacuum_score V files bytes =
     f64_add (f64_div (f64_of (int files)) (f64_of (int (max (va_files V) 1))))
             (f64_div (f64_of (int bytes)) (f64_of (int (max (va_bytes V) 1))))"

definition reading :: "('a, 's) action \<Rightarrow> engine \<Rightarrow> 's \<Rightarrow> (string, 'a) result" where
  "reading m e s = fst (m e s)"

definition or_else :: "'a \<Rightarrow> (string, 'a) result \<Rightarrow> 'a" where
  "or_else dflt r = (case r of Inr a \<Rightarrow> a | Inl _ \<Rightarrow> dflt)"

definition vacuum_candidate ::
  "'s world \<Rightarrow> vacuum_settings \<Rightarrow> engine \<Rightarrow> 's \<Rightarrow> string \<Rightarrow> (string \<times> f64 \<times> nat) option"
where
  "vacuum_candidate W V e s tbl =
     (case reading (parquet_file_count W tbl) e s of
        Inl _ \<Rightarrow> None
      | Inr files \<Rightarrow>
          if files = 0 then None
          else
            let bytes = or_else 0 (reading (table_total_bytes W tbl) e s);
                age = or_else 0 (reading (table_oldest_file_age_secs W tbl) e s);
                score = vacuum_score V files bytes
            in if f64_le (f64_of 1) score \<or> va_age V \<le> age then Some (tbl, score, age) else None)"

text \<open>The order of the candidates: by score and age, the greatest first, then by name.\<close>

definition candidate_before :: "string \<times> f64 \<times> nat \<Rightarrow> string \<times> f64 \<times> nat \<Rightarrow> bool" where
  "candidate_before = (\<lambda>(t1, s1, a1) (t2, s2, a2).
     if \<not> f64_le s1 s2 then True
     else if \<not> f64_le s2 s1 then False
     else if a1 \<noteq> a2 then a2 < a1
     else t1 \<le> t2)"

fun insert_candidate :: "string \<times> f64 \<times> nat \<Rightarrow> (string \<times> f64 \<times> nat) list \<Rightarrow> (string \<times> f64 \<times> nat) list" where
  "insert_candidate x [] = [x]"
| "insert_candidate x (y # ys) = (if candidate_before x y then x # y # ys else y # insert_candidate x ys)"

definition vacuum_candidates :: "'s world \<Rightarrow> vacuum_settings \<Rightarrow> engine \<Rightarrow> 's \<Rightarrow> (string \<times> f64 \<times> nat) list" where
  "vacuum_candidates W V e s = foldr insert_candidate (List.map_filter (vacuum_candidate W V e s) (table_names e)) []"

definition vacuum_text :: "string \<Rightarrow> string" where
  "vacuum_text tbl = ''VACUUM '' @ dquote # tbl @ dquote # '';''"

text \<open>One round of the background task; errors are dropped.\<close>

definition vacuum_round :: "'s world \<Rightarrow> nat \<Rightarrow> vacuum_settings \<Rightarrow> (unit, 's) run" where
  "vacuum_round W depth V e s =
     eachRun (\<lambda>(tbl, _). tryRun (execute W depth (vacuum_text tbl))) (vacuum_candidates W V e s) e s"

end
