(* ===== verification/Server_Props.thy ===== *)
theory Server_Props
  imports Server Dispatch_Props
begin

text \<open>
  The wire server: when bound parameters are what they claim to be and when they are not, and
  how its treatment of queries differs from that of \<^verbatim>\<open>execute\<close>.
\<close>

section \<open>Replacing a placeholder\<close>

lemma replace_skip:
  "d \<notin> set a \<Longrightarrow> replace_matches (d # p) r (a @ s) = a @ replace_matches (d # p) r s"
proof (induction a)
  case (Cons c a)
  then show ?case by (subst replace_matches.simps) (auto simp: starts_with_def)
qed simp

lemma replace_hit: "p \<noteq> [] \<Longrightarrow> replace_matches p r (p @ s) = r @ replace_matches p r s"
  by (subst replace_matches.simps) simp

lemma replace_none: "d \<notin> set a \<Longrightarrow> replace_matches (d # p) r a = a"
  using replace_skip [of d a p r "[]"] by (simp add: replace_matches.simps [of _ _ "[]"])

lemma replace_miss:
  "\<not> starts_with (d # p) (d # a @ s) \<Longrightarrow> d \<notin> set a \<Longrightarrow>
     replace_matches (d # p) r (d # a @ s) = d # a @ replace_matches (d # p) r s"
  by (subst replace_matches.simps) (simp add: replace_skip)

definition breaks_number :: "string \<Rightarrow> bool" where
  "breaks_number s \<longleftrightarrow> s = [] \<or> \<not> is_digit (hd s)"

lemma digits_val_append: "digits_val a \<le> digits_val (a @ b)"
proof (induction b rule: rev_induct)
  case (snoc c b)
  then show ?case by (simp add: append_assoc [symmetric] del: append_assoc)
qed simp

text \<open>A placeholder does not match one with a smaller number.\<close>

lemma placeholder_distinct:
  assumes "k < j" and "breaks_number s"
  shows "\<not> starts_with (CHR ''$'' # show_nat j) (CHR ''$'' # show_nat k @ s)"
proof
  assume "starts_with (CHR ''$'' # show_nat j) (CHR ''$'' # show_nat k @ s)"
  then obtain r where "show_nat k @ s = show_nat j @ r" by (auto simp: starts_with_iff)
  then consider (longer) u where "show_nat k = show_nat j @ u" | (shorter) u where "show_nat j = show_nat k @ u" "s = u @ r"
    unfolding append_eq_append_conv2 by metis
  then show False
  proof cases
    case longer
    then show False using digits_val_append [of "show_nat j" u] assms(1) by (metis digits_val_show_nat not_le)
  next
    case shorter
    have "list_all is_digit u" using shorter(1) show_nat_digits [of j] by simp
    then have "u = []" using shorter(2) assms(2) by (cases u) (auto simp: breaks_number_def)
    then have "digits_val (show_nat j) = digits_val (show_nat k)" using shorter(1) by simp
    then show False using assms(1) by simp
  qed
qed

section \<open>Templates\<close>

text \<open>A statement with placeholders: texts, each followed by the number of a parameter, and an end.\<close>

type_synonym template = "(string \<times> nat) list \<times> string"

definition filled :: "(nat \<Rightarrow> string) \<Rightarrow> template \<Rightarrow> string" where
  "filled f = (\<lambda>(ps, end). concat (map (\<lambda>(t, k). t @ f k) ps) @ end)"

definition placeholder :: "nat \<Rightarrow> string" where
  "placeholder k = CHR ''$'' # show_nat k"

text \<open>No text contains a dollar sign or continues the number before it, and the numbers are valid.\<close>

fun good_parts :: "nat \<Rightarrow> bool \<Rightarrow> (string \<times> nat) list \<Rightarrow> string \<Rightarrow> bool" where
  "good_parts n first [] end \<longleftrightarrow> CHR ''$'' \<notin> set end \<and> (first \<or> breaks_number end)"
| "good_parts n first ((t, k) # ps) end \<longleftrightarrow>
     CHR ''$'' \<notin> set t \<and> (first \<or> t \<noteq> [] \<and> breaks_number t) \<and> 1 \<le> k \<and> k \<le> n \<and> good_parts n False ps end"

definition good_template :: "nat \<Rightarrow> template \<Rightarrow> bool" where
  "good_template n = (\<lambda>(ps, end). good_parts n True ps end)"

text \<open>The text after the parameters above \<open>j\<close> are put in.\<close>

definition partly :: "(nat \<Rightarrow> string) \<Rightarrow> nat \<Rightarrow> nat \<Rightarrow> string" where
  "partly f j k = (if j < k then f k else placeholder k)"

lemma good_parts_break: "good_parts n False ps end \<Longrightarrow> breaks_number (filled f (ps, end))"
  by (cases ps) (auto simp: filled_def breaks_number_def split: prod.splits)

lemma dollar_digits: "CHR ''$'' \<notin> set (show_nat k)"
  using show_nat_digits [of k] by (auto simp: list_all_iff is_digit_def)

lemma fill_one:
  "good_parts n first ps end \<Longrightarrow> \<forall>k. 1 \<le> k \<and> k \<le> n \<longrightarrow> CHR ''$'' \<notin> set (f k) \<Longrightarrow>
     replace_matches (placeholder (Suc j)) (f (Suc j)) (filled (partly f (Suc j)) (ps, end)) = filled (partly f j) (ps, end)"
proof (induction n first ps "end" rule: good_parts.induct)
  case (1 n first "end")
  then show ?case by (simp add: filled_def placeholder_def replace_none)
next
  case (2 n first t k ps "end")
  note good = "2.prems"(1) and val = "2.prems"(2)
  let ?rest = "filled (partly f (Suc j)) (ps, end)"
  have split: "filled g ((t, k) # ps, end) = t @ g k @ filled g (ps, end)" for g
    by (simp add: filled_def)
  have rest: "replace_matches (placeholder (Suc j)) (f (Suc j)) ?rest = filled (partly f j) (ps, end)"
    using "2.IH" good val by simp
  have "replace_matches (placeholder (Suc j)) (f (Suc j)) (partly f (Suc j) k @ ?rest) =
      partly f j k @ filled (partly f j) (ps, end)"
  proof -
    consider "Suc j < k" | "k = Suc j" | "k < Suc j" by linarith
    then show ?thesis
    proof cases
      case 1
      then have "CHR ''$'' \<notin> set (f k)" using good val by auto
      then show ?thesis using 1 rest by (simp add: partly_def placeholder_def replace_skip)
    next
      case 2
      then show ?thesis
        using rest replace_hit [of "placeholder (Suc j)" "f (Suc j)" ?rest] by (simp add: partly_def placeholder_def)
    next
      case 3
      moreover have "breaks_number ?rest" using good good_parts_break [of n ps "end"] by simp
      ultimately show ?thesis
        using rest placeholder_distinct [of k "Suc j" ?rest] dollar_digits [of k]
        by (simp add: partly_def placeholder_def replace_miss)
    qed
  qed
  then show ?case using good by (simp add: split) (simp add: placeholder_def replace_skip)
qed

section \<open>Bound portals\<close>

definition portal_value :: "portal \<Rightarrow> nat \<Rightarrow> string" where
  "portal_value po k = format_portal_param (po_params po ! (k - 1)) (portal_type po (k - 1))"

lemma bind_param_value:
  "bind_param po j s = replace_matches (placeholder (Suc j)) (portal_value po (Suc j)) s"
  by (simp add: bind_param_def placeholder_def portal_value_def replace_str_def)

lemma good_parts_filled_cong:
  "good_parts n first ps end \<Longrightarrow> (\<And>k. 1 \<le> k \<Longrightarrow> k \<le> n \<Longrightarrow> f k = g k) \<Longrightarrow> filled f (ps, end) = filled g (ps, end)"
  by (induction n first ps "end" rule: good_parts.induct) (auto simp: filled_def)

text \<open>
  C21. The parameters of a portal are put in at once: when no value contains a dollar sign, the
  bound statement is the template with every placeholder replaced by the text of its parameter,
  also for ten parameters and more, whose placeholders begin like those of others.
\<close>

theorem parameters_are_put_in_at_once:
  assumes "po_statement po = filled placeholder tm" and "good_template (length (po_params po)) tm"
    and "\<And>k. 1 \<le> k \<Longrightarrow> k \<le> length (po_params po) \<Longrightarrow> CHR ''$'' \<notin> set (portal_value po k)"
  shows "bind_portal_sql po = filled (portal_value po) tm"
proof -
  obtain ps "end" where tm: "tm = (ps, end)" by (cases tm)
  let ?n = "length (po_params po)"
  have good: "good_parts ?n True ps end" using assms(2) by (simp add: tm good_template_def)
  have "fold (bind_param po) (rev [0 ..< m]) (filled (partly (portal_value po) m) tm) =
      filled (partly (portal_value po) 0) tm" if "m \<le> ?n" for m
    using that
  proof (induction m)
    case (Suc m)
    have "bind_param po m (filled (partly (portal_value po) (Suc m)) tm) = filled (partly (portal_value po) m) tm"
      unfolding bind_param_value tm using assms(3) by (intro fill_one [OF good]) simp
    then show ?case using Suc by simp
  qed simp
  from this [of ?n] have "fold (bind_param po) (rev [0 ..< ?n]) (filled (partly (portal_value po) ?n) tm) =
      filled (partly (portal_value po) 0) tm" by simp
  moreover have "filled (partly (portal_value po) ?n) tm = po_statement po"
    unfolding assms(1) tm by (rule good_parts_filled_cong [OF good]) (simp add: partly_def)
  moreover have "filled (partly (portal_value po) 0) tm = filled (portal_value po) tm"
    unfolding tm by (rule good_parts_filled_cong [OF good]) (simp add: partly_def)
  ultimately show ?thesis by (simp add: bind_portal_sql_def)
qed

definition sample_portal :: portal where
  "sample_portal =
     \<lparr>po_statement = ''UPDATE t SET a = $2 WHERE b = $1;'', po_types = [Some PgText, None],
      po_params = [Some ''it'', Some ''7'']\<rparr>"

theorem parameters_are_put_in_at_once_witness:
  "bind_portal_sql sample_portal = ''UPDATE t SET a = 7 WHERE b = '' @ quoted ''it'' @ '';''"
proof -
  let ?tm = "([(''UPDATE t SET a = '', 2), ('' WHERE b = '', 1)], '';'')"
  have one: "show_nat (Suc 0) = ''1''" "show_nat 2 = ''2''"
    by (simp_all add: show_nat.simps char_of_def bit_iff_odd)
  have utf8: "utf8_lossy ''it'' = ''it''" "utf8_lossy ''7'' = ''7''"
    by (rule utf8_lossy_valid, rule valid_utf8_ascii, auto)+
  have number: "parses_as_f64 ''7''" "\<not> eq_ignore_case ''7'' ''null''" "\<not> eq_ignore_case ''it'' ''null''"
    by code_simp+
  have vals: "portal_value sample_portal 1 = quoted ''it''" "portal_value sample_portal 2 = ''7''"
    using number utf8
    by (simp_all add: portal_value_def sample_portal_def format_portal_param_def portal_type_def Let_def pasted_types_def)
  have len: "length (po_params sample_portal) = 2" by (simp add: sample_portal_def)
  have stmt: "po_statement sample_portal = filled placeholder ?tm"
    by (simp add: sample_portal_def filled_def placeholder_def one)
  have good: "good_template (length (po_params sample_portal)) ?tm"
    by (simp add: good_template_def len breaks_number_def is_digit_def)
  have dollar: "CHR ''$'' \<notin> set (portal_value sample_portal k)" if "1 \<le> k" "k \<le> length (po_params sample_portal)" for k
  proof -
    from that len have "k = 1 \<or> k = 2" by linarith
    then show ?thesis using vals by (auto simp: quoted_def double_quotes_def)
  qed
  show ?thesis
    using parameters_are_put_in_at_once [OF stmt good dollar] vals by (simp add: filled_def)
qed

section \<open>Parameters that change the statement\<close>

lemma number_type_pastes:
  assumes "valid_utf8 x" and "\<not> eq_ignore_case x ''null''" and "ty \<in> pasted_types"
  shows "format_portal_param (Some x) ty = x"
  using assms by (simp add: format_portal_param_def Let_def)

lemma text_type_quotes:
  assumes "valid_utf8 x" and "\<not> eq_ignore_case x ''null''" and "ty \<notin> insert PgUnknown pasted_types"
  shows "format_portal_param (Some x) ty = quoted x"
  using assms by (simp add: format_portal_param_def Let_def)

text \<open>A statement with a single parameter behind its text, and one with a second behind that.\<close>

lemma bind_single:
  assumes "CHR ''$'' \<notin> set t"
  shows "bind_portal_sql \<lparr>po_statement = t @ ''$1'', po_types = [Some ty], po_params = [p]\<rparr> = t @ format_portal_param p ty"
proof -
  have one: "placeholder (Suc 0) = ''$1''" by (simp add: placeholder_def show_nat.simps char_of_def bit_iff_odd)
  have "replace_matches ''$1'' v (t @ ''$1'') = t @ v" for v
    using assms replace_skip [of "CHR ''$''" t "''1''" v "''$1''"] replace_hit [of "''$1''" v "[]"]
    by (simp add: replace_matches.simps [of _ _ "[]"])
  then show ?thesis
    by (simp add: bind_portal_sql_def bind_param_value portal_value_def portal_type_def one)
qed

text \<open>
  A parameter can change the statement it is bound to. One of a numeric type is pasted as it
  was sent, whatever its text is; and a text parameter whose value contains the placeholder of
  another one gets that one's literal inside of its own, which ends it: the value of the other
  parameter is then read as SQL.
\<close>

theorem parameters_can_change_statements:
  assumes "valid_utf8 x" and "\<not> eq_ignore_case x ''null''" and "CHR ''$'' \<notin> set x"
  shows "bind_portal_sql
      \<lparr>po_statement = ''DELETE FROM t WHERE id = $1'', po_types = [Some PgInt4], po_params = [Some x]\<rparr> =
        ''DELETE FROM t WHERE id = '' @ x
    \<and> bind_portal_sql
      \<lparr>po_statement = ''DELETE FROM t WHERE a = $1 AND b = $2'', po_types = [Some PgText, Some PgText],
       po_params = [Some x, Some ''$1'']\<rparr> =
        ''DELETE FROM t WHERE a = '' @ quoted x @ '' AND b = '' @ quote # quoted x @ [quote]"
proof
  show "bind_portal_sql
      \<lparr>po_statement = ''DELETE FROM t WHERE id = $1'', po_types = [Some PgInt4], po_params = [Some x]\<rparr> =
        ''DELETE FROM t WHERE id = '' @ x"
    using bind_single [of "''DELETE FROM t WHERE id = ''" PgInt4 "Some x"] assms(1,2)
    by (simp add: number_type_pastes pasted_types_def)
next
  have one: "placeholder (Suc 0) = ''$1''" "placeholder (Suc (Suc 0)) = ''$2''"
    by (simp_all add: placeholder_def show_nat.simps char_of_def bit_iff_odd)
  have dollar: "format_portal_param (Some ''$1'') PgText = quoted ''$1''"
    by (rule text_type_quotes) (auto intro!: valid_utf8_ascii simp: eq_ignore_case_def to_lowercase_def pasted_types_def)
  have vx: "format_portal_param (Some x) PgText = quoted x"
    using assms(1,2) by (intro text_type_quotes) (simp_all add: pasted_types_def)
  have two: "replace_matches ''$2'' (quoted ''$1'') ''DELETE FROM t WHERE a = $1 AND b = $2'' =
      ''DELETE FROM t WHERE a = $1 AND b = '' @ quoted ''$1''"
    by (simp add: replace_matches.simps starts_with_def)
  have a: "replace_matches ''$1'' v ''DELETE FROM t WHERE a = '' = ''DELETE FROM t WHERE a = ''" for v
    by (rule replace_none) simp
  have at: "replace_matches ''$1'' v (t @ ''$1'' @ rest) = t @ v @ replace_matches ''$1'' v rest"
    if "CHR ''$'' \<notin> set t" for t v rest
    using that replace_skip [of "CHR ''$''" t "''1''" v "''$1'' @ rest"] replace_hit [of "''$1''" v rest] by simp
  have parts: "''DELETE FROM t WHERE a = $1 AND b = '' @ quoted ''$1'' =
      ''DELETE FROM t WHERE a = '' @ ''$1'' @ ('' AND b = '' @ [quote]) @ ''$1'' @ [quote]"
    by (simp add: quoted_def)
  have "replace_matches ''$1'' (quoted x) (''DELETE FROM t WHERE a = $1 AND b = '' @ quoted ''$1'') =
      ''DELETE FROM t WHERE a = '' @ quoted x @ ('' AND b = '' @ [quote]) @ quoted x @ [quote]"
    unfolding parts by (subst at, simp, subst at, simp) (simp add: replace_none)
  then show "bind_portal_sql
      \<lparr>po_statement = ''DELETE FROM t WHERE a = $1 AND b = $2'', po_types = [Some PgText, Some PgText],
       po_params = [Some x, Some ''$1'']\<rparr> =
        ''DELETE FROM t WHERE a = '' @ quoted x @ '' AND b = '' @ quote # quoted x @ [quote]"
    by (simp add: bind_portal_sql_def bind_param_value portal_value_def portal_type_def one dollar vx two
        numeral_2_eq_2)
qed

theorem parameters_can_change_statements_witness:
  "bind_portal_sql
      \<lparr>po_statement = ''DELETE FROM t WHERE id = $1'', po_types = [Some PgInt4], po_params = [Some ''1 OR TRUE'']\<rparr> =
        ''DELETE FROM t WHERE id = 1 OR TRUE''"
proof -
  have "valid_utf8 ''1 OR TRUE''" by (rule valid_utf8_ascii) auto
  moreover have "\<not> eq_ignore_case ''1 OR TRUE'' ''null''" by code_simp
  moreover have "CHR ''$'' \<notin> set ''1 OR TRUE''" by simp
  ultimately show ?thesis using parameters_can_change_statements [of "''1 OR TRUE''"] by simp
qed

section \<open>Queries of the server and statements of the engine\<close>

text \<open>A VALUES statement is a query for the server but not for the engine.\<close>

lemma values_query_fails:
  "to_uppercase (first_word q) = ''VALUES'' \<Longrightarrow>
     server_query W d q e s = Some (Inl ''execute_readonly rejects mutating SQL'', e, s)"
  by (simp add: server_query_def is_read_only_query_def execute_readonly_def is_read_only_sql_def runs_def fail_def)

text \<open>
  C36. The server answers a query without the access check: a reading statement that \<^verbatim>\<open>execute\<close> refuses to
  the engine's user, and that the query engine can run, returns its rows when it comes over the wire.
\<close>

theorem server_queries_skip_access_check:
  assumes "as_written W q e" and "\<not> is_flush (to_uppercase (trim_statement q))"
    and "session_command (to_uppercase (trim_statement q)) = None" and "en_buffer e = []"
    and "enforce_access (trim_statement q) e = Inl err"
    and "is_read_only_sql q" and "w_sql W q s = (Inr bs, s')" and "w_run_plan W q s = (Inr bs, s')"
  shows "execute W (Suc d) q e s = Some (Inl err, e, s) \<and>
     (\<exists>e'. server_query W d' q e s = Some (Inr (Records bs), e', s') \<and> en_catalog e' = en_catalog e)"
proof
  show "execute W (Suc d) q e s = Some (Inl err, e, s)"
    unfolding execute_as_written [OF assms(1)] using assms
    by (simp add: dispatch_def Let_def andRun_def runs_def)
  have "is_read_only_query q" using assms(6) by (auto simp: is_read_only_query_def is_read_only_sql_def)
  moreover have "\<exists>e'. execute_readonly W q e s = (Inr (Records bs), e', s') \<and> en_catalog e' = en_catalog e"
    using assms(4,6-8) by (cases "q \<in> set (en_plan_cache e)")
      (simp_all add: execute_readonly_def flush_all_def andThen_def run_records_def collect_with_plan_cache_def
        run_or_rewrite_def hm_keys_def Let_def)
  ultimately show "\<exists>e'. server_query W d' q e s = Some (Inr (Records bs), e', s') \<and> en_catalog e' = en_catalog e"
    by (auto simp: server_query_def runs_def)
qed

theorem server_queries_skip_access_check_witness:
  "\<exists>err e'. execute idle_world (Suc 0) ''SELECT a FROM t'' eve_engine () = Some (Inl err, eve_engine, ()) \<and>
     server_query idle_world 1 ''SELECT a FROM t'' eve_engine () = Some (Inr (Records []), e', ())"
proof -
  let ?q = "''SELECT a FROM t''"
  have plain: "\<not> is_flush (to_uppercase (trim_statement ?q))" "session_command (to_uppercase (trim_statement ?q)) = None"
    "find_str nextval_open (to_lowercase ?q) = None" "find_str as_of_marker (to_uppercase ?q) = None"
    "find_str ''FTS_MATCH('' (to_uppercase ?q) = None" "is_read_only_sql ?q"
    by code_simp+
  have "granted (en_catalog eve_engine) (en_user eve_engine) = {}"
    by (simp add: granted_def roles_of_def eve_engine_def bare_rights)
  then have "enforce_access (trim_statement ?q) eve_engine \<noteq> Inr ()" by (simp add: access_iff)
  then obtain err where denied: "enforce_access (trim_statement ?q) eve_engine = Inl err"
    by (cases "enforce_access (trim_statement ?q) eve_engine") auto
  have written: "as_written idle_world ?q eve_engine"
    by (rule as_written_plain [OF _ _ plain(3-5)]) (simp_all add: eve_engine_def)
  have buffer: "en_buffer eve_engine = []" by (simp add: eve_engine_def)
  have idle: "w_sql idle_world ?q () = (Inr [], ())" "w_run_plan idle_world ?q () = (Inr [], ())"
    by (simp_all add: idle_world_def)
  from server_queries_skip_access_check [OF written plain(1,2) buffer denied plain(6) idle, of 0 1]
  show ?thesis by blast
qed

end
