(* ===== verification/Settings.thy ===== *)
theory Settings
  imports Dispatch
begin

text \<open>
  How \<^verbatim>\<open>PotatoDB::new\<close> (\<^verbatim>\<open>crates/engine/src/lib.rs\<close>) comes to its state: the settings it reads from
  the environment, what a data URL means, and the files it recovers from. URL parsing, the S3
  client, path canonicalisation and the codecs' level checks are parameters.
\<close>

section \<open>Parquet and session settings\<close>

text \<open>\<open>None\<close> is the codec's default level.\<close>

datatype compression =
    Uncompressed | Snappy | Lzo | Lz4 | Lz4Raw | Gzip "nat option" | Brotli "nat option" | Zstd "int option"

record level_checks =
  lv_gzip :: "nat \<Rightarrow> bool"
  lv_brotli :: "nat \<Rightarrow> bool"
  lv_zstd :: "int \<Rightarrow> bool"

definition valid_level :: "('a \<Rightarrow> bool) \<Rightarrow> 'a \<Rightarrow> 'a option" where
  "valid_level valid x = (if valid x then Some x else None)"

definition parse_i32 :: "string \<Rightarrow> int option" where
  "parse_i32 s = (case parse_i64 s of None \<Rightarrow> None | Some v \<Rightarrow> if - (2 ^ 31) \<le> v \<and> v < 2 ^ 31 then Some v else None)"

definition extract_level :: "string \<Rightarrow> string \<Rightarrow> int option" where
  "extract_level s pre =
     Option.bind (strip_prefix pre s) (\<lambda>r.
     Option.bind (strip_prefix ''('' (trim r)) (\<lambda>r2.
     Option.bind (strip_suffix '')'' r2) (\<lambda>d. parse_i32 (trim d))))"

definition as_u32 :: "int \<Rightarrow> nat" where "as_u32 i = nat (i mod 2 ^ 32)"

definition parse_parquet_compression :: "level_checks \<Rightarrow> string \<Rightarrow> compression" where
  "parse_parquet_compression L s =
     (let l = to_lowercase (trim s) in
      if l \<in> {''uncompressed'', ''none''} then Uncompressed
      else if l = ''snappy'' then Snappy
      else if l = ''lzo'' then Lzo
      else if l = ''lz4'' then Lz4
      else if l = ''lz4_raw'' then Lz4Raw
      else if l = ''gzip'' then Gzip None
      else if l = ''brotli'' then Brotli None
      else if l = ''zstd'' then Zstd None
      else case extract_level l ''zstd'' of
             Some n \<Rightarrow> Zstd (valid_level (lv_zstd L) n)
           | None \<Rightarrow>
               (case extract_level l ''gzip'' of
                  Some n \<Rightarrow> Gzip (valid_level (lv_gzip L) (as_u32 n))
                | None \<Rightarrow>
                    (case extract_level l ''brotli'' of
                       Some n \<Rightarrow> Brotli (valid_level (lv_brotli L) (as_u32 n))
                     | None \<Rightarrow> Zstd (valid_level (lv_zstd L) 3))))"

type_synonym env = "string \<Rightarrow> string option"

definition parquet_compression_str :: "env \<Rightarrow> string" where
  "parquet_compression_str env = (case env ''POTATODB_PARQUET_COMPRESSION'' of Some s \<Rightarrow> s | None \<Rightarrow> ''zstd(3)'')"

text \<open>A switch; anything but the listed words leaves it on.\<close>

definition env_switch :: "env \<Rightarrow> string \<Rightarrow> bool" where
  "env_switch env nm =
     (case env nm of
        None \<Rightarrow> True
      | Some v \<Rightarrow> to_lowercase v \<notin> {''0'', ''false'', ''no'', ''off''})"

text \<open>The settings that are not constants.\<close>

record session_config =
  sc_partitions :: nat
  sc_batch_size :: nat
  sc_write_batch_size :: nat
  sc_enforce_batch_size_in_joins :: bool
  sc_coalesce_batches :: bool
  sc_compression :: string

definition build_session_config :: "env \<Rightarrow> nat \<Rightarrow> session_config" where
  "build_session_config env cores =
     \<lparr>sc_partitions = env_u64 env ''POTATODB_TARGET_PARTITIONS'' cores,
      sc_batch_size = env_u64 env ''POTATODB_BATCH_SIZE'' 32768,
      sc_write_batch_size = env_u64 env ''POTATODB_PARQUET_WRITE_BATCH_SIZE'' 16384,
      sc_enforce_batch_size_in_joins = env_switch env ''POTATODB_ENFORCE_BATCH_SIZE_IN_JOINS'',
      sc_coalesce_batches = env_switch env ''POTATODB_COALESCE_BATCHES'',
      sc_compression = parquet_compression_str env\<rparr>"

section \<open>The Arrow log's settings\<close>

definition env_number :: "env \<Rightarrow> string \<Rightarrow> nat option" where
  "env_number env nm = Option.bind (env nm) parse_u64"

definition or_default :: "nat \<Rightarrow> nat option \<Rightarrow> nat" where
  "or_default d x = (case x of Some n \<Rightarrow> n | None \<Rightarrow> d)"

definition arrow_sync_policy :: "env \<Rightarrow> sync_policy" where
  "arrow_sync_policy env =
     (let kind = to_lowercase (case env ''POTATODB_ARROW_WAL_SYNC'' of Some s \<Rightarrow> s | None \<Rightarrow> ''always'');
          every_n = env_number env ''POTATODB_ARROW_WAL_SYNC_EVERY_N'';
          ms = env_number env ''POTATODB_ARROW_WAL_SYNC_MS''
      in if kind \<in> {''never'', ''none'', ''off''} then Never
         else if kind = ''always'' then Always
         else if kind \<in> {''every_n'', ''everyn''} then EveryNAppends (or_default 10 every_n)
         else if kind \<in> {''every_ms'', ''everyms'', ''interval''} then EveryInterval (1000000 * or_default 10 ms)
         else case (every_n, ms) of
                (Some n, _) \<Rightarrow> EveryNAppends n
              | (None, Some m) \<Rightarrow> EveryInterval (1000000 * m)
              | (None, None) \<Rightarrow> Always)"

definition arrow_config :: "env \<Rightarrow> arrow_wal_config" where
  "arrow_config env =
     \<lparr>ac_policy = arrow_sync_policy env, ac_scratch = env_u64 env ''POTATODB_ARROW_WAL_SCRATCH_BYTES'' (4 * 1024 * 1024)\<rparr>"

section \<open>Where the data is\<close>

record s3_config =
  s3_endpoint :: "string option"
  s3_region :: "string option"
  s3_allow_http :: bool
  s3_wal_dir :: "string option"

text \<open>
  What lies outside: of a URL its host and path, whether the S3 client can be built, the absolute
  path of a directory that is created when it is missing, the processors, and the files found.
\<close>

record surroundings =
  su_env :: env
  su_url :: "string \<Rightarrow> (string, string option \<times> string) result"
  su_s3 :: "string \<Rightarrow> s3_config option \<Rightarrow> (string, unit) result"
  su_directory :: "string \<Rightarrow> (string, string) result"
  su_wal_file :: "string \<Rightarrow> string option"
  su_arrow_dirs :: "string \<Rightarrow> arrow_dirs"

definition try_parse_memory_url :: "surroundings \<Rightarrow> string \<Rightarrow> (string, (string \<times> string) option) result" where
  "try_parse_memory_url S data_url =
     (let t = trim data_url in
      if eq_ignore_case t '':memory:'' \<or> eq_ignore_case t ''memory'' then Inr (Some (''potatodb'', []))
      else if \<not> starts_with ''memory://'' t then Inr None
      else case su_url S t of
             Inl err \<Rightarrow> Inl (''Invalid memory:// URL: '' @ err)
           | Inr (host, path) \<Rightarrow>
               Inr (Some (case host of None \<Rightarrow> ''potatodb'' | Some h \<Rightarrow> if h = [] then ''potatodb'' else h,
                          trim_matches (CHR ''/'') path)))"

definition with_prefix :: "string \<Rightarrow> string \<Rightarrow> string" where
  "with_prefix base pre = base @ (if pre = [] then [] else CHR ''/'' # pre)"

definition memory_data_url :: "string \<Rightarrow> string \<Rightarrow> string" where
  "memory_data_url host pre = with_prefix (''memory://'' @ host) pre"

text \<open>Where a database is: the kind of place, the prefix of its objects, its normalised URL.\<close>

definition locate_s3 :: "surroundings \<Rightarrow> s3_config option \<Rightarrow> string \<Rightarrow> (string, data_location \<times> string \<times> string) result" where
  "locate_s3 S cfg data_url =
     (case su_url S data_url of
        Inl err \<Rightarrow> Inl err
      | Inr (None, path) \<Rightarrow> Inl ''Missing bucket name in S3 URL''
      | Inr (Some bucket, path) \<Rightarrow>
          (case su_s3 S bucket cfg of
             Inl err \<Rightarrow> Inl err
           | Inr _ \<Rightarrow>
               (case su_url S (''s3://'' @ bucket) of
                  Inl err \<Rightarrow> Inl err
                | Inr _ \<Rightarrow>
                    let pre = trim_matches (CHR ''/'') path in Inr (S3, pre, with_prefix (''s3://'' @ bucket) pre))))"

definition locate :: "surroundings \<Rightarrow> s3_config option \<Rightarrow> string \<Rightarrow> (string, data_location \<times> string \<times> string) result" where
  "locate S cfg data_url =
     (if starts_with ''s3://'' data_url then locate_s3 S cfg data_url
      else case try_parse_memory_url S data_url of
             Inl err \<Rightarrow> Inl err
           | Inr (Some (host, pre)) \<Rightarrow>
               (case su_url S (''memory://'' @ host @ ''/'') of
                  Inl err \<Rightarrow> Inl err
                | Inr _ \<Rightarrow> Inr (InMemory, pre, memory_data_url host pre))
           | Inr None \<Rightarrow> map_sum id (\<lambda>dir. (LocalDisk, [], dir)) (su_directory S data_url))"

definition catalog_object :: "data_location \<Rightarrow> string \<Rightarrow> string" where
  "catalog_object loc pre = (if loc = LocalDisk \<or> pre = [] then ''catalog.json'' else pre @ ''/catalog.json'')"

definition wal_base_dir :: "data_location \<Rightarrow> s3_config option \<Rightarrow> string \<Rightarrow> string option" where
  "wal_base_dir loc cfg url =
     (case loc of
        InMemory \<Rightarrow> None
      | S3 \<Rightarrow> Some (case Option.bind cfg s3_wal_dir of Some d \<Rightarrow> d | None \<Rightarrow> ''.potatodb_s3_wal'')
      | LocalDisk \<Rightarrow> Some url)"

section \<open>A database from its URL\<close>

fun recovery_message :: "wal_error \<Rightarrow> string" where
  "recovery_message (InvalidStatus v) = ''invalid WAL entry status: '' @ show_nat v"

text \<open>The logs: both are opened as they were found, and the statements to replay are read first.\<close>

definition open_logs ::
  "'s world \<Rightarrow> surroundings \<Rightarrow> nat \<Rightarrow> string option \<Rightarrow> 's
     \<Rightarrow> (string, wal option \<times> arrow_wal option \<times> arrow_dirs \<times> wal_entry list) result \<times> 's"
where
  "open_logs W S now dir s =
     (case dir of
        None \<Rightarrow> (Inr (None, None, [], []), s)
      | Some d \<Rightarrow>
          (case w_create_dir W d s of
             (Inl err, s1) \<Rightarrow> (Inl err, s1)
           | (Inr _, s1) \<Rightarrow>
               let file = su_wal_file S (d @ ''/wal.log''); dirs = su_arrow_dirs S (d @ ''/_arrow_wal'') in
               (case wal_recover (w_crc W) file of
                  Inl err \<Rightarrow> (Inl (recovery_message err), s1)
                | Inr es \<Rightarrow>
                    (Inr (Some (wal_open file), Some (open_with_config dirs (arrow_config (su_env S)) now), dirs, es), s1))))"

definition new_database ::
  "'s world \<Rightarrow> nat \<Rightarrow> surroundings \<Rightarrow> string \<Rightarrow> s3_config option \<Rightarrow> 's \<Rightarrow> ((string, engine) result \<times> 's) option"
where
  "new_database W depth S data_url cfg s =
     (case locate S cfg data_url of
        Inl err \<Rightarrow> Some (Inl err, s)
      | Inr (loc, pre, url) \<Rightarrow>
          (case catalog_load (w_store W) (w_json W) s (catalog_object loc pre) of
             Inl err \<Rightarrow> Some (Inl (catalog_message err), s)
           | Inr c \<Rightarrow>
               (case open_logs W S (w_clock W s) (wal_base_dir loc cfg url) s of
                  (Inl err, s1) \<Rightarrow> Some (Inl err, s1)
                | (Inr (wal, awal, dirs, es), s1) \<Rightarrow>
                    let e = engine_new (su_env S) (w_clock W s1) loc url pre wal awal c
                    in map_option (\<lambda>(r, e1, s2). (map_sum id (\<lambda>_. e1) r, s2)) (open_database W depth dirs es e s1))))"

end
