(* ===== verification/Server_Start.thy ===== *)
theory Server_Start
  imports Server Settings
begin

text \<open>
  The start of the PostgreSQL wire server (\<^verbatim>\<open>start_server\<close> in \<^verbatim>\<open>crates/server/src/lib.rs\<close>): the
  database it opens, its settings, its certificate, and the permits that its queries need.
  Reading PEM files, the TLS library and the sockets are parameters.
\<close>

section \<open>TLS\<close>

record tls_files =
  tl_certs :: "string \<Rightarrow> (string, string list) result"
  tl_keys :: "string \<Rightarrow> (string, string list) result"
  tl_accepts :: "string list \<Rightarrow> string \<Rightarrow> (string, unit) result"

text \<open>Both variables have to be set; the first key of the file is taken.\<close>

definition load_tls_acceptor_from_env ::
  "(string \<Rightarrow> string option) \<Rightarrow> tls_files \<Rightarrow> (string, (string list \<times> string) option) result"
where
  "load_tls_acceptor_from_env env T =
     (case (env ''POTATODB_TLS_CERT'', env ''POTATODB_TLS_KEY'') of
        (Some cert_path, Some key_path) \<Rightarrow>
          (case tl_certs T cert_path of
             Inl err \<Rightarrow> Inl err
           | Inr certs \<Rightarrow>
               (case tl_keys T key_path of
                  Inl err \<Rightarrow> Inl err
                | Inr [] \<Rightarrow> Inl ''No PKCS#8 private key found''
                | Inr (key # _) \<Rightarrow> map_sum id (\<lambda>_. Some (certs, key)) (tl_accepts T certs key)))
      | _ \<Rightarrow> Inr None)"

section \<open>The server\<close>

record pg_server =
  sv_engine :: engine
  sv_permits :: nat
  sv_vacuum :: vacuum_settings
  sv_tls :: bool
  sv_line :: string

definition max_permits :: nat where "max_permits = 2 ^ 61 - 1"

text \<open>More permits than a semaphore can have are a panic; the port is bound last.\<close>

definition serve ::
  "surroundings \<Rightarrow> tls_files \<Rightarrow> (string \<Rightarrow> (string, unit) result) \<Rightarrow> string \<Rightarrow> engine \<Rightarrow> (string, pg_server) result"
where
  "serve S T bind_port bind_addr e =
     (let permits = env_u64 (su_env S) ''POTATODB_MAX_CONNECTIONS'' 100 in
      if max_permits < permits then Inl panic
      else
        (case load_tls_acceptor_from_env (su_env S) T of
           Inl err \<Rightarrow> Inl err
         | Inr tls \<Rightarrow>
             (case bind_port bind_addr of
                Inl err \<Rightarrow> Inl err
              | Inr _ \<Rightarrow>
                  Inr \<lparr>sv_engine = e, sv_permits = permits, sv_vacuum = vacuum_settings_of (su_env S), sv_tls = (tls \<noteq> None),
                       sv_line = ''PotatoDB server listening on '' @ bind_addr @ (if tls = None then [] else '' with TLS'')\<rparr>)))"

definition start_server ::
  "'s world \<Rightarrow> nat \<Rightarrow> surroundings \<Rightarrow> tls_files \<Rightarrow> (string \<Rightarrow> (string, unit) result) \<Rightarrow> string \<Rightarrow> string \<Rightarrow> 's
     \<Rightarrow> ((string, pg_server) result \<times> 's) option"
where
  "start_server W depth S T bind_port data_url bind_addr s =
     map_option (\<lambda>(opened, s1). (case opened of Inl err \<Rightarrow> Inl err | Inr e \<Rightarrow> serve S T bind_port bind_addr e, s1))
       (new_database W depth S data_url None s)"

text \<open>A query waits for a permit, which it gives back; without permits it waits for ever.\<close>

definition pooled_query :: "'s world \<Rightarrow> nat \<Rightarrow> nat \<Rightarrow> string \<Rightarrow> (query_result, 's) run" where
  "pooled_query W depth permits query = (if permits = 0 then (\<lambda>e s. None) else server_query W depth query)"

section \<open>Settings that do not work\<close>

lemma half_configured_tls_is_off:
  "env ''POTATODB_TLS_CERT'' = None \<or> env ''POTATODB_TLS_KEY'' = None \<Longrightarrow>
   load_tls_acceptor_from_env env T = Inr None"
  by (auto simp: load_tls_acceptor_from_env_def split: option.split)

text \<open>
  With a limit of no connections the server starts as with any other, and answers no query, while
  every other limit it starts with changes no answer.
\<close>

lemma serve_permits:
  "serve S T bind_port bind_addr e = Inr sv \<Longrightarrow>
   sv_permits sv = env_u64 (su_env S) ''POTATODB_MAX_CONNECTIONS'' 100 \<and> sv_permits sv \<le> max_permits"
  by (cases "load_tls_acceptor_from_env (su_env S) T"; cases "bind_port bind_addr")
    (auto simp: serve_def Let_def split: if_splits)

lemma connection_limit:
  assumes "start_server W depth S T bind_port url bind_addr s = Some (Inr sv, s1)"
  shows "sv_permits sv = env_u64 (su_env S) ''POTATODB_MAX_CONNECTIONS'' 100"
    and "pooled_query W d (sv_permits sv) query e s2 =
      (if env_u64 (su_env S) ''POTATODB_MAX_CONNECTIONS'' 100 = 0 then None else server_query W d query e s2)"
proof -
  obtain opened where "new_database W depth S url None s = Some (opened, s1)"
      "(case opened of Inl err \<Rightarrow> Inl err | Inr e \<Rightarrow> serve S T bind_port bind_addr e) = Inr sv"
    using assms by (auto simp: start_server_def)
  then show permits: "sv_permits sv = env_u64 (su_env S) ''POTATODB_MAX_CONNECTIONS'' 100"
    using serve_permits [of S T bind_port bind_addr _ sv] by (cases opened) auto
  show "pooled_query W d (sv_permits sv) query e s2 =
      (if env_u64 (su_env S) ''POTATODB_MAX_CONNECTIONS'' 100 = 0 then None else server_query W d query e s2)"
    by (simp add: pooled_query_def permits)
qed

end
