(* ===== verification/Http.thy ===== *)
theory Http
  imports Display Dispatch
begin

text \<open>
  \<^verbatim>\<open>crates/http/src/lib.rs\<close>: the HTTP interface. Routing, JSON and the sockets (\<^verbatim>\<open>axum\<close>,
  \<^verbatim>\<open>serde_json\<close>) are outside: a request is the route with its arguments, a response the
  structure that is serialised. No request is authenticated.
\<close>

record http_result =
  hr_kind :: string
  hr_message :: "string option"
  hr_display :: "string option"
  hr_rows :: nat

record table_stats =
  ts_table :: string
  ts_files :: nat
  ts_bytes :: nat
  ts_age :: nat

fun http_result_of :: "array_format \<Rightarrow> (string, query_result) result \<Rightarrow> http_result" where
  "http_result_of F (Inr (Message msg)) =
     \<lparr>hr_kind = ''message'', hr_message = Some msg, hr_display = None, hr_rows = 0\<rparr>"
| "http_result_of F (Inr (Records bs)) =
     \<lparr>hr_kind = ''records'', hr_message = None, hr_display = Some (format_batches F bs), hr_rows = row_count bs\<rparr>"
| "http_result_of F (Inl err) =
     \<lparr>hr_kind = ''error'', hr_message = Some err, hr_display = None, hr_rows = 0\<rparr>"

definition http_query ::
  "'s world \<Rightarrow> nat \<Rightarrow> array_format \<Rightarrow> string \<Rightarrow> engine \<Rightarrow> 's \<Rightarrow> (http_result \<times> engine \<times> 's) option"
where
  "http_query W depth F sql e s =
     map_option (\<lambda>(r, e1, s1). (http_result_of F r, e1, s1)) (execute W depth sql e s)"

text \<open>One gauge of the Prometheus text.\<close>

definition gauge :: "string \<Rightarrow> string \<Rightarrow> nat \<Rightarrow> string" where
  "gauge what desc n =
     ''# HELP potatodb_'' @ what @ ''_total Number of '' @ desc @ [newline]
       @ ''# TYPE potatodb_'' @ what @ ''_total gauge'' @ [newline]
       @ ''potatodb_'' @ what @ ''_total '' @ show_nat n @ [newline]"

definition http_metrics :: "engine \<Rightarrow> string" where
  "http_metrics e =
     gauge ''tables'' ''tables'' (length (table_names e))
       @ gauge ''indexes'' ''indexes'' (length (index_list e))
       @ gauge ''views'' ''views'' (length (view_names e))
       @ gauge ''sequences'' ''sequences'' (length (sequence_names e))
       @ gauge ''functions'' ''user-defined functions'' (length (function_names e))
       @ gauge ''users'' ''users'' (length (user_info e))"

definition or_zero :: "(string, nat) result \<Rightarrow> nat" where
  "or_zero r = (case r of Inr n \<Rightarrow> n | Inl _ \<Rightarrow> 0)"

definition http_table_stats :: "'s world \<Rightarrow> string \<Rightarrow> engine \<Rightarrow> 's \<Rightarrow> table_stats" where
  "http_table_stats W nm e s =
     \<lparr>ts_table = nm,
      ts_files = or_zero (fst (parquet_file_count W nm e s)),
      ts_bytes = or_zero (fst (table_total_bytes W nm e s)),
      ts_age = or_zero (fst (table_oldest_file_age_secs W nm e s))\<rparr>"

datatype http_request = GetHealth | GetMetrics | GetTables | GetTableStats string | PostQuery string

datatype http_response =
    Health | MetricsText string | TableList "string list" | Stats table_stats | QueryDone http_result

definition http_handle ::
  "'s world \<Rightarrow> nat \<Rightarrow> array_format \<Rightarrow> http_request \<Rightarrow> engine \<Rightarrow> 's \<Rightarrow> (http_response \<times> engine \<times> 's) option"
where
  "http_handle W depth F req e s =
     (case req of
        GetHealth \<Rightarrow> Some (Health, e, s)
      | GetMetrics \<Rightarrow> Some (MetricsText (http_metrics e), e, s)
      | GetTables \<Rightarrow> Some (TableList (table_names e), e, s)
      | GetTableStats nm \<Rightarrow> Some (Stats (http_table_stats W nm e s), e, s)
      | PostQuery sql \<Rightarrow> map_option (\<lambda>(r, e1, s1). (QueryDone r, e1, s1)) (http_query W depth F sql e s))"

section \<open>The WebSocket\<close>

datatype ws_event = WsText string | WsClose | WsGone | WsOther | WsTick

definition json_field :: "string \<Rightarrow> string \<Rightarrow> string" where
  "json_field k v = dquote # k @ dquote # '':'' @ dquote # v @ [dquote]"

definition ws_frame :: "string \<Rightarrow> string" where
  "ws_frame ty = ''{'' @ json_field ''type'' ty @ ''}''"

definition ws_message :: "string \<Rightarrow> string \<Rightarrow> string" where
  "ws_message ty msg = ''{'' @ json_field ''type'' ty @ '','' @ json_field ''message'' msg @ ''}''"

text \<open>The frames that are sent until the socket is closed. The text of an acknowledgement is not escaped.\<close>

fun ws_frames :: "ws_event list \<Rightarrow> string list" where
  "ws_frames [] = []"
| "ws_frames (WsText t # evs) = ws_message ''ack'' (''received: '' @ t) # ws_frames evs"
| "ws_frames (WsClose # evs) = []"
| "ws_frames (WsGone # evs) = []"
| "ws_frames (WsOther # evs) = ws_frames evs"
| "ws_frames (WsTick # evs) = ws_frame ''heartbeat'' # ws_frames evs"

definition handle_ws :: "ws_event list \<Rightarrow> string list" where
  "handle_ws evs = ws_message ''connected'' ''PotatoDB WebSocket'' # ws_frames evs"

end
