(* ===== verification/Tui_Text.thy ===== *)
theory Tui_Text
  imports Sql_Scan Display
begin

text \<open>
  The text functions of \<^verbatim>\<open>crates/tui/src/lib.rs\<close>: stripping comments, the styled parts of a line,
  the tables of results with their exports, the history file, and times. The text of a part has
  the role it plays in the theme; the colours of the themes are in \<open>Tui_Draw\<close>.
\<close>

section \<open>Characters in UTF-8\<close>

definition continuation :: "char \<Rightarrow> bool" where
  "continuation c \<longleftrightarrow> 128 \<le> code c \<and> code c < 192"

text \<open>\<^verbatim>\<open>is_char_boundary\<close>: slicing, inserting and removing elsewhere is a panic (\<open>None\<close>).\<close>

definition is_char_boundary :: "string \<Rightarrow> nat \<Rightarrow> bool" where
  "is_char_boundary s i \<longleftrightarrow> i = 0 \<or> i = length s \<or> (i < length s \<and> \<not> continuation (s ! i))"

definition str_slice :: "string \<Rightarrow> nat \<Rightarrow> nat \<Rightarrow> string option" where
  "str_slice s a b =
     (if a \<le> b \<and> is_char_boundary s a \<and> is_char_boundary s b then Some (slice s a b) else None)"

section \<open>Comments\<close>

text \<open>The rest behind a line comment, with the space that takes the place of its line break.\<close>

function without_comments :: "string \<Rightarrow> string" where
  "without_comments [] = []"
| "without_comments (c # s) =
     (if c = quote then quote # fst (take_literal s) @ without_comments (snd (take_literal s))
      else if c = CHR ''-'' \<and> s \<noteq> [] \<and> hd s = CHR ''-''
      then fst (line_comment (tl s)) @ without_comments (snd (line_comment (tl s)))
      else if c = CHR ''/'' \<and> s \<noteq> [] \<and> hd s = CHR ''*''
      then '' '' @ without_comments (block_comment 1 (tl s))
      else c # without_comments s)"
  by pat_completeness auto
termination
  by (relation "measure length")
    (auto simp: termination_simp le_imp_less_Suc intro: le_less_trans [OF line_comment_length]
      le_less_trans [OF block_comment_length])

definition strip_sql_comments :: "string \<Rightarrow> string" where
  "strip_sql_comments sql = trim (without_comments sql)"

section \<open>Highlighting\<close>

definition tui_keywords :: "string list" where
  "tui_keywords =
      [''SELECT'', ''FROM'', ''WHERE'', ''INSERT'', ''INTO'', ''VALUES'', ''UPDATE'', ''SET'',
       ''DELETE'', ''CREATE'', ''DROP'', ''ALTER'', ''TABLE'', ''INDEX'', ''VIEW'', ''JOIN'',
       ''LEFT'', ''RIGHT'', ''INNER'', ''OUTER'', ''CROSS'', ''ON'', ''AND'', ''OR'', ''NOT'',
       ''IN'', ''IS'', ''NULL'', ''AS'', ''ORDER'', ''BY'', ''GROUP'', ''HAVING'', ''LIMIT'',
       ''OFFSET'', ''ASC'', ''DESC'', ''DISTINCT'', ''COUNT'', ''SUM'', ''AVG'', ''MIN'', ''MAX'',
       ''CASE'', ''WHEN'', ''THEN'', ''ELSE'', ''END'', ''BEGIN'', ''COMMIT'', ''ROLLBACK'',
       ''PRIMARY'', ''KEY'', ''UNIQUE'', ''CHECK'', ''FOREIGN'', ''REFERENCES'', ''CONSTRAINT'',
       ''DEFAULT'', ''IF'', ''EXISTS'', ''LIKE'', ''ILIKE'', ''BETWEEN'', ''UNION'', ''ALL'',
       ''ANY'', ''SOME'', ''WITH'', ''RECURSIVE'', ''RETURNING'', ''EXPLAIN'', ''ANALYZE'',
       ''VACUUM'', ''TRUNCATE'', ''COPY'', ''GRANT'', ''REVOKE'', ''CASCADE'', ''RESTRICT'',
       ''INT'', ''INTEGER'', ''BIGINT'', ''SMALLINT'', ''VARCHAR'', ''TEXT'', ''BOOL'',
       ''BOOLEAN'', ''FLOAT'', ''DOUBLE'', ''DECIMAL'', ''DATE'', ''TIMESTAMP'', ''UUID'',
       ''SERIAL'', ''TRUE'', ''FALSE'', ''COALESCE'', ''CAST'', ''EXTRACT'', ''INTERVAL'',
       ''SEQUENCE'', ''FUNCTION'', ''PROCEDURE'', ''CALL'', ''DO'', ''PREPARE'', ''EXECUTE'',
       ''MATERIALIZED'', ''REFRESH'', ''FLUSH'', ''SHOW'', ''USE'', ''DESCRIBE'', ''NOTIFY'',
       ''LISTEN'', ''OVER'', ''PARTITION'', ''ROW_NUMBER'', ''RANK'', ''LAG'', ''LEAD'', ''NTILE'',
       ''WINDOW'', ''ROWS'', ''RANGE'', ''PRECEDING'', ''FOLLOWING'', ''UNBOUNDED'', ''CURRENT'',
       ''CONFLICT'', ''NOTHING'', ''UPSERT'']"

datatype style = LiteralStyle | CommentStyle | RawStyle | NumberStyle | KeywordStyle | TextStyle | OtherStyle

definition word_byte :: "char \<Rightarrow> bool" where
  "word_byte c \<longleftrightarrow> is_alnum c \<or> c = CHR ''_''"

definition number_byte :: "char \<Rightarrow> bool" where
  "number_byte c \<longleftrightarrow> is_digit c \<or> c = CHR ''.''"

text \<open>The style of the part of a line that begins with \<open>c # s\<close>, and how many bytes of \<open>s\<close> belong to it.\<close>

definition next_span :: "char \<Rightarrow> string \<Rightarrow> style \<times> nat" where
  "next_span c s =
     (if c = quote then (LiteralStyle, length (fst (take_literal s)))
      else if c = CHR ''-'' \<and> s \<noteq> [] \<and> hd s = CHR ''-'' then (CommentStyle, length s)
      else if is_ascii_ws c then (RawStyle, length (takeWhile is_ascii_ws s))
      else if is_digit c \<or> (c = CHR ''-'' \<and> s \<noteq> [] \<and> is_digit (hd s))
      then (NumberStyle, length (takeWhile number_byte s))
      else if word_byte c
      then let n = length (takeWhile word_byte s) in
           (if to_uppercase (c # take n s) \<in> set tui_keywords then KeywordStyle else TextStyle, n)
      else (OtherStyle, 0))"

text \<open>The spans of the line from byte \<open>pos\<close>; each is a slice of the line.\<close>

function spans_from :: "string \<Rightarrow> nat \<Rightarrow> (style \<times> string) list option" where
  "spans_from line pos =
     (if length line \<le> pos then Some []
      else
        let span = next_span (line ! pos) (drop (Suc pos) line); end_pos = pos + 1 + snd span in
        case str_slice line pos end_pos of
          None \<Rightarrow> None
        | Some t \<Rightarrow> map_option (\<lambda>more. (fst span, t) # more) (spans_from line end_pos))"
  by pat_completeness auto
termination
  by (relation "measure (\<lambda>(line, pos). length line - pos)") auto

declare spans_from.simps [simp del]

definition highlight_sql_line :: "string \<Rightarrow> (style \<times> string) list option" where
  "highlight_sql_line line = (if line = [] then Some [(RawStyle, [])] else spans_from line 0)"

definition style_cell :: "string \<Rightarrow> style" where
  "style_cell v =
     (let t = trim v in
      if eq_ignore_case t ''null'' then CommentStyle
      else if eq_ignore_case t ''true'' \<or> eq_ignore_case t ''false'' then KeywordStyle
      else if t \<noteq> [] \<and> list_all (\<lambda>b. is_digit b \<or> b = CHR ''.'' \<or> b = CHR ''-'') t \<and> list_ex is_digit t
      then NumberStyle
      else TextStyle)"

section \<open>Results\<close>

record query_results =
  qr_headers :: "string list"
  qr_rows :: "string list list"
  qr_widths :: "nat list"
  qr_message :: "string option"

definition as_u16 :: "nat \<Rightarrow> nat" where "as_u16 n = n mod 65536"

definition message_results :: "string \<Rightarrow> query_results" where
  "message_results msg = \<lparr>qr_headers = [], qr_rows = [], qr_widths = [], qr_message = Some msg\<rparr>"

definition error_results :: "string \<Rightarrow> query_results" where
  "error_results err = message_results (''ERROR: '' @ err)"

definition no_results :: query_results where
  "no_results = \<lparr>qr_headers = [], qr_rows = [], qr_widths = [], qr_message = None\<rparr>"

definition results_empty :: "query_results \<Rightarrow> bool" where
  "results_empty r \<longleftrightarrow> qr_headers r = [] \<and> qr_message r = None"

text \<open>The rows of a batch; one whose columns cannot all be printed is left out. A null is the empty text.\<close>

definition batch_texts :: "array_format \<Rightarrow> nat \<Rightarrow> record_batch \<Rightarrow> string list list" where
  "batch_texts F n b =
     (let fs = map (af_formatter F b) [0 ..< n] in
      if None \<in> set fs then []
      else map (\<lambda>row. map (\<lambda>i. if cell_at row i = CNull then [] else the (fs ! i) (cell_at row i)) [0 ..< n]) (rb_rows b))"

definition from_batches :: "array_format \<Rightarrow> record_batch list \<Rightarrow> query_results" where
  "from_batches F bs =
     (if no_rows bs
      then let headers = (case bs of [] \<Rightarrow> [] | b # _ \<Rightarrow> rb_fields b) in
           \<lparr>qr_headers = headers, qr_rows = [], qr_widths = map (\<lambda>h. as_u16 (length h)) headers, qr_message = None\<rparr>
      else let headers = rb_fields (hd bs);
               rows = concat (map (batch_texts F (length headers)) bs)
           in \<lparr>qr_headers = headers, qr_rows = rows,
               qr_widths = map (\<lambda>i. fold max (map (\<lambda>r. as_u16 (length (r ! i))) rows) (as_u16 (length (headers ! i))))
                 [0 ..< length headers],
               qr_message = None\<rparr>)"

section \<open>Exports\<close>

definition csv_field :: "string \<Rightarrow> string" where
  "csv_field c =
     (if CHR '','' \<in> set c \<or> dquote \<in> set c \<or> newline \<in> set c
      then dquote # replace_str [dquote] [dquote, dquote] c @ [dquote] else c)"

definition export_csv :: "query_results \<Rightarrow> string" where
  "export_csv r =
     join '','' (qr_headers r) @ newline # concat (map (\<lambda>row. join '','' (map csv_field row) @ [newline]) (qr_rows r))"

definition json_pair :: "string \<Rightarrow> string \<Rightarrow> string" where
  "json_pair h v =
     ''    '' @ dquote # h @ dquote # '': '' @ dquote # replace_str [dquote] [CHR 0x5C, dquote] v @ [dquote]"

definition json_object :: "string list \<Rightarrow> string list \<Rightarrow> string" where
  "json_object headers row =
     ''  {'' @ newline # join ('','' @ [newline]) (map (\<lambda>(h, v). json_pair h v) (zip headers row)) @ newline # ''  }''"

definition export_json :: "query_results \<Rightarrow> string" where
  "export_json r =
     ''['' @ newline # join ('','' @ [newline]) (map (json_object (qr_headers r)) (qr_rows r)) @ newline # '']''"

definition sql_value :: "string \<Rightarrow> string" where
  "sql_value v = (if eq_ignore_case v ''null'' then ''NULL'' else quoted v)"

definition export_sql :: "query_results \<Rightarrow> string \<Rightarrow> string" where
  "export_sql r tbl =
     concat (map (\<lambda>row. ''INSERT INTO '' @ dquote # tbl @ dquote # '' ('' @ join '', '' (qr_headers r) @ '') VALUES (''
       @ join '', '' (map sql_value row) @ '');'' @ [newline]) (qr_rows r))"

section \<open>The history file\<close>

definition backslash_n :: string where "backslash_n = [CHR 0x5C, CHR ''n'']"

definition history_text :: "string list \<Rightarrow> string" where
  "history_text h = concat (map (\<lambda>en. replace_str [newline] backslash_n en @ [newline]) h)"

definition read_history :: "string \<Rightarrow> string list" where
  "read_history s = map (replace_str backslash_n [newline]) (str_lines s)"

definition history_max :: nat where "history_max = 1000"

section \<open>Times, themes, formats\<close>

definition elapsed_text :: "nat \<Rightarrow> nat \<Rightarrow> string" where
  "elapsed_text started now =
     (let secs = as_secs_f64 (int (now - started)); ms = f64_mul secs (f64_of 1000) in
      if \<not> f64_le (f64_of 1000) ms then format_fixed 1 ms @ ''ms'' else format_fixed 2 secs @ ''s'')"

datatype theme_choice = CatppuccinMocha | Potato

definition theme_of :: "string \<Rightarrow> (string, theme_choice) result" where
  "theme_of s =
     (let l = to_lowercase s in
      if l \<in> {''catppuccin'', ''catppuccin-mocha'', ''mocha''} then Inr CatppuccinMocha
      else if l \<in> {''potato'', ''spud''} then Inr Potato
      else Inl (''unknown theme '' @ quote # l @ quote # ''; expected '' @ quote # ''catppuccin-mocha'' @ quote # '' or ''
        @ quote # ''potato'' @ [quote]))"

fun theme_name :: "theme_choice \<Rightarrow> string" where
  "theme_name CatppuccinMocha = ''Catppuccin Mocha''"
| "theme_name Potato = ''Potato''"

definition export_formats :: "string list" where "export_formats = [''CSV'', ''JSON'', ''SQL'']"

end
