(* ===== verification/Tui_App.thy ===== *)
theory Tui_App
  imports Tui_Text Repl
begin

text \<open>
  The state of the terminal interface (\<^verbatim>\<open>crates/tui/src/lib.rs\<close>) and what keys, the mouse and
  statements do to it. A panic is \<open>None\<close>: text is edited at byte positions.
\<close>

section \<open>State\<close>

datatype focus = Sidebar | Results | QueryInput

fun focus_next :: "focus \<Rightarrow> focus" where
  "focus_next Sidebar = Results"
| "focus_next Results = QueryInput"
| "focus_next QueryInput = Sidebar"

fun focus_prev :: "focus \<Rightarrow> focus" where
  "focus_prev Sidebar = QueryInput"
| "focus_prev Results = Sidebar"
| "focus_prev QueryInput = Results"

datatype ui_action = NoAction | ExecuteSql string | PreviewTable string | QuitApp

datatype popup = NoPopup | HelpPopup | ExportPopup

record completion =
  cm_start :: nat
  cm_candidates :: "string list"
  cm_index :: nat

record rect =
  rc_x :: nat
  rc_y :: nat
  rc_width :: nat
  rc_height :: nat

record app =
  ap_focus :: focus
  ap_lines :: "string list"
  ap_row :: nat
  ap_col :: nat
  ap_results :: query_results
  ap_selected :: "nat option"
  ap_h_scroll :: nat
  ap_visible_height :: nat
  ap_history :: "string list"
  ap_history_pos :: "nat option"
  ap_history_file :: "string option"
  ap_status :: string
  ap_elapsed :: string
  ap_tables :: "string list"
  ap_selected_table :: nat
  ap_schema_cache :: "(string, (string \<times> string) list) hashmap"
  ap_popup :: popup
  ap_toast :: "(string \<times> nat) option"
  ap_export_path :: string
  ap_export_format :: nat
  ap_spinner :: nat
  ap_sidebar_area :: rect
  ap_results_area :: rect
  ap_query_area :: rect
  ap_completion :: "completion option"
  ap_show_timing :: bool

definition no_area :: rect where
  "no_area = \<lparr>rc_x = 0, rc_y = 0, rc_width = 0, rc_height = 0\<rparr>"

text \<open>The history is read from its file, when there is one.\<close>

definition new_app :: "string option \<Rightarrow> app" where
  "new_app history_file =
     \<lparr>ap_focus = QueryInput, ap_lines = [[]], ap_row = 0, ap_col = 0, ap_results = no_results,
      ap_selected = None, ap_h_scroll = 0, ap_visible_height = 20,
      ap_history = (case history_file of None \<Rightarrow> [] | Some s \<Rightarrow> read_history s), ap_history_pos = None,
      ap_history_file = history_file, ap_status = [], ap_elapsed = [], ap_tables = [], ap_selected_table = 0,
      ap_schema_cache = [], ap_popup = NoPopup, ap_toast = None, ap_export_path = ''results.csv'',
      ap_export_format = 0, ap_spinner = 0, ap_sidebar_area = no_area, ap_results_area = no_area,
      ap_query_area = no_area, ap_completion = None, ap_show_timing = False\<rparr>"

definition input_text :: "app \<Rightarrow> string" where
  "input_text a = join [newline] (ap_lines a)"

definition current_line :: "app \<Rightarrow> string option" where
  "current_line a = (if ap_row a < length (ap_lines a) then Some (ap_lines a ! ap_row a) else None)"

definition set_line :: "string \<Rightarrow> app \<Rightarrow> app" where
  "set_line l a = a\<lparr>ap_lines := (ap_lines a)[ap_row a := l]\<rparr>"

section \<open>History and input\<close>

definition save_history_entry :: "string \<Rightarrow> app \<Rightarrow> app" where
  "save_history_entry sql a =
     (let en = trim sql;
          h = (if ap_history a \<noteq> [] \<and> last (ap_history a) = en then ap_history a else ap_history a @ [en]);
          h' = drop (length h - history_max) h
      in if en = [] then a
         else a\<lparr>ap_history := h', ap_history_pos := None,
                ap_history_file := map_option (\<lambda>_. history_text h') (ap_history_file a)\<rparr>)"

definition clear_input :: "app \<Rightarrow> app" where
  "clear_input a = a\<lparr>ap_lines := [[]], ap_row := 0, ap_col := 0, ap_completion := None\<rparr>"

definition set_toast :: "nat \<Rightarrow> string \<Rightarrow> app \<Rightarrow> app" where
  "set_toast now msg a = a\<lparr>ap_toast := Some (msg, now + 3000000000)\<rparr>"

definition tick_toast :: "nat \<Rightarrow> app \<Rightarrow> app" where
  "tick_toast now a =
     (case ap_toast a of Some (_, expires) \<Rightarrow> (if expires \<le> now then a\<lparr>ap_toast := None\<rparr> else a) | None \<Rightarrow> a)"

definition try_execute :: "app \<Rightarrow> ui_action \<times> app" where
  "try_execute a =
     (let raw = input_text a; trimmed = trim raw in
      if trimmed = [] then (NoAction, a)
      else
        let a1 = clear_input (save_history_entry raw a) in
        if starts_with (backslash []) trimmed then (ExecuteSql trimmed, a1)
        else let sql = strip_sql_comments raw in
             if sql = [] then (NoAction, a1) else (ExecuteSql sql, a1))"

section \<open>Completion\<close>

text \<open>The first byte of the character that byte \<open>k\<close> belongs to.\<close>

fun char_start :: "string \<Rightarrow> nat \<Rightarrow> nat" where
  "char_start s 0 = 0"
| "char_start s (Suc k) = (if is_char_boundary s (Suc k) then Suc k else char_start s k)"

definition word_before_cursor :: "app \<Rightarrow> (nat \<times> string) option" where
  "word_before_cursor a =
     Option.bind (current_line a) (\<lambda>line.
     Option.bind (str_slice line 0 (ap_col a)) (\<lambda>before.
     let start = (case rfind_char (\<lambda>c. \<not> word_byte c) before of None \<Rightarrow> 0 | Some i \<Rightarrow> char_start before i + 1) in
     map_option (\<lambda>w. (start, w)) (str_slice before start (length before))))"

definition build_candidates :: "app \<Rightarrow> string \<Rightarrow> string list" where
  "build_candidates a pre =
     (let upper = to_uppercase pre;
          lower = (pre \<noteq> [] \<and> is_lower (hd pre));
          matching = filter (\<lambda>w. starts_with upper (to_uppercase w));
          keywords = map (\<lambda>kw. if lower then to_lowercase kw else kw) (filter (starts_with upper) tui_keywords)
      in sort_key (\<lambda>w. (w \<notin> set (ap_tables a), w))
           (remdups (matching (ap_tables a)
              @ matching (concat (map (map fst) (hm_values (ap_schema_cache a)))) @ keywords)))"

text \<open>\<^verbatim>\<open>replace_range(a..b, t)\<close>.\<close>

definition replace_range :: "string \<Rightarrow> nat \<Rightarrow> nat \<Rightarrow> string \<Rightarrow> string option" where
  "replace_range s i j t =
     (if i \<le> j \<and> is_char_boundary s i \<and> is_char_boundary s j then Some (take i s @ t @ drop j s) else None)"

definition tab_complete :: "app \<Rightarrow> app option" where
  "tab_complete a =
     (case ap_completion a of
        Some c \<Rightarrow>
          if cm_candidates c = [] then Some (a\<lparr>ap_completion := None\<rparr>)
          else
            let i = (cm_index c + 1) mod length (cm_candidates c); next = cm_candidates c ! i in
            Option.bind (current_line a) (\<lambda>line.
            map_option (\<lambda>l. (set_line l a)\<lparr>ap_col := cm_start c + length next,
                ap_completion := Some (c\<lparr>cm_index := i\<rparr>)\<rparr>)
              (replace_range line (cm_start c) (ap_col a) next))
      | None \<Rightarrow>
          Option.bind (word_before_cursor a) (\<lambda>(start, pre).
          if pre = [] then Some a
          else
            let cands = build_candidates a pre in
            if cands = [] then Some a
            else
              Option.bind (current_line a) (\<lambda>line.
              map_option (\<lambda>l. (set_line l a)\<lparr>ap_col := start + length (hd cands),
                  ap_completion := Some \<lparr>cm_start = start, cm_candidates = cands, cm_index = 0\<rparr>\<rparr>)
                (replace_range line start (ap_col a) (hd cands)))))"

section \<open>Keys of the query input\<close>

text \<open>A character key carries the UTF-8 bytes of its character.\<close>

datatype modifiers = NoMods | Control | Alt | Shift | OtherMods

datatype key_code =
    KEnter | KTab | KBackTab | KEsc | KUp | KDown | KLeft | KRight | KHome | KEnd | KPageUp | KPageDown
  | KBackspace | KDelete | KF nat | KChar string | KOther

definition insert_newline :: "app \<Rightarrow> app option" where
  "insert_newline a =
     Option.bind (current_line a) (\<lambda>line.
     Option.bind (str_slice line (ap_col a) (length line)) (\<lambda>rest.
     Some (a\<lparr>ap_lines := take (ap_row a) (ap_lines a) @ [take (ap_col a) line, rest] @ drop (ap_row a + 1) (ap_lines a),
             ap_row := ap_row a + 1, ap_col := 0\<rparr>)))"

definition press_enter :: "app \<Rightarrow> (ui_action \<times> app) option" where
  "press_enter a =
     (let trimmed = trim (input_text a) in
      if starts_with (backslash []) trimmed \<or> (trimmed \<noteq> [] \<and> last trimmed = CHR '';'') then Some (try_execute a)
      else map_option (\<lambda>a1. (NoAction, a1)) (insert_newline a))"

definition edit :: "(string \<Rightarrow> nat \<Rightarrow> (string \<times> nat) option) \<Rightarrow> app \<Rightarrow> app option" where
  "edit f a =
     Option.bind (current_line a) (\<lambda>line.
     map_option (\<lambda>(l, col). (set_line l a)\<lparr>ap_col := col\<rparr>) (f line (ap_col a)))"

definition kill_before :: "string \<Rightarrow> nat \<Rightarrow> (string \<times> nat) option" where
  "kill_before line col = map_option (\<lambda>l. (l, 0)) (replace_range line 0 col [])"

definition kill_behind :: "string \<Rightarrow> nat \<Rightarrow> (string \<times> nat) option" where
  "kill_behind line col =
     (if length line < col then Some (line, col)
      else if is_char_boundary line col then Some (take col line, col) else None)"

text \<open>\<^verbatim>\<open>String::insert\<close>; the cursor moves by one byte.\<close>

definition type_char :: "string \<Rightarrow> string \<Rightarrow> nat \<Rightarrow> (string \<times> nat) option" where
  "type_char ch line col = map_option (\<lambda>l. (l, col + 1)) (replace_range line col col ch)"

text \<open>\<^verbatim>\<open>String::remove\<close> of the character at a byte.\<close>

definition char_length :: "string \<Rightarrow> nat" where
  "char_length s = (case s of [] \<Rightarrow> 0 | c # r \<Rightarrow> 1 + length (takeWhile continuation r))"

definition remove_char :: "string \<Rightarrow> nat \<Rightarrow> string option" where
  "remove_char s i =
     (if i < length s \<and> is_char_boundary s i then Some (take i s @ drop (i + char_length (drop i s)) s) else None)"

definition insert_line_at :: "string list \<Rightarrow> nat \<Rightarrow> app \<Rightarrow> app" where
  "insert_line_at ls row a =
     a\<lparr>ap_lines := ls, ap_row := row, ap_col := (if row < length ls then length (ls ! row) else 0)\<rparr>"

definition backspace :: "app \<Rightarrow> app option" where
  "backspace a =
     (if 0 < ap_col a
      then edit (\<lambda>line col. map_option (\<lambda>l. (l, col - 1)) (remove_char line (col - 1))) a
      else if 0 < ap_row a
      then Option.bind (current_line a) (\<lambda>removed.
           let row = ap_row a - 1; above = ap_lines a ! row in
           Some (a\<lparr>ap_lines := take row (ap_lines a) @ [above @ removed] @ drop (ap_row a + 1) (ap_lines a),
                   ap_row := row, ap_col := length above\<rparr>))
      else Some a)"

definition delete_key :: "app \<Rightarrow> app option" where
  "delete_key a =
     Option.bind (current_line a) (\<lambda>line.
     if ap_col a < length line then edit (\<lambda>l col. map_option (\<lambda>l'. (l', col)) (remove_char l col)) a
     else if ap_row a + 1 < length (ap_lines a)
     then Some (a\<lparr>ap_lines := take (ap_row a) (ap_lines a) @ [line @ ap_lines a ! (ap_row a + 1)]
            @ drop (ap_row a + 2) (ap_lines a)\<rparr>)
     else Some a)"

definition load_entry :: "string \<Rightarrow> app \<Rightarrow> app" where
  "load_entry en a = a\<lparr>ap_lines := split_char newline en\<rparr>"

definition history_index :: "app \<Rightarrow> nat" where
  "history_index a = (case ap_history_pos a of Some i \<Rightarrow> i - 1 | None \<Rightarrow> length (ap_history a) - 1)"

definition press_up :: "app \<Rightarrow> app option" where
  "press_up a =
     (if 0 < ap_row a
      then (if ap_row a - 1 < length (ap_lines a)
            then Some (a\<lparr>ap_row := ap_row a - 1, ap_col := min (ap_col a) (length (ap_lines a ! (ap_row a - 1)))\<rparr>)
            else None)
      else if ap_history a \<noteq> []
      then let i = history_index a in
           if i < length (ap_history a)
           then let a1 = load_entry (ap_history a ! i) a; row = length (ap_lines a1) - 1 in
                Some (a1\<lparr>ap_history_pos := Some i, ap_row := row, ap_col := length (ap_lines a1 ! row)\<rparr>)
           else None
      else Some a)"

definition press_down :: "app \<Rightarrow> app option" where
  "press_down a =
     (if ap_row a + 1 < length (ap_lines a)
      then Some (a\<lparr>ap_row := ap_row a + 1, ap_col := min (ap_col a) (length (ap_lines a ! (ap_row a + 1)))\<rparr>)
      else case ap_history_pos a of
             None \<Rightarrow> Some a
           | Some i \<Rightarrow>
               if i + 1 < length (ap_history a)
               then Some ((load_entry (ap_history a ! (i + 1)) a)\<lparr>ap_history_pos := Some (i + 1), ap_row := 0, ap_col := 0\<rparr>)
               else Some (clear_input (a\<lparr>ap_history_pos := None\<rparr>)))"

definition press_left :: "app \<Rightarrow> app option" where
  "press_left a =
     (if 0 < ap_col a then Some (a\<lparr>ap_col := ap_col a - 1\<rparr>)
      else if 0 < ap_row a
      then (if ap_row a - 1 < length (ap_lines a)
            then Some (a\<lparr>ap_row := ap_row a - 1, ap_col := length (ap_lines a ! (ap_row a - 1))\<rparr>) else None)
      else Some a)"

definition press_right :: "app \<Rightarrow> app option" where
  "press_right a =
     Option.bind (current_line a) (\<lambda>line.
     if ap_col a < length line then Some (a\<lparr>ap_col := ap_col a + 1\<rparr>)
     else if ap_row a + 1 < length (ap_lines a) then Some (a\<lparr>ap_row := ap_row a + 1, ap_col := 0\<rparr>)
     else Some a)"

definition describe_selected :: "app \<Rightarrow> ui_action" where
  "describe_selected a =
     (if ap_selected_table a < length (ap_tables a)
      then ExecuteSql (''SELECT column_name, data_type, is_nullable FROM information_schema.columns WHERE table_name = ''
             @ quote # (ap_tables a ! ap_selected_table a) @ [quote])
      else NoAction)"

definition silently :: "app option \<Rightarrow> (ui_action \<times> app) option" where
  "silently m = map_option (\<lambda>a. (NoAction, a)) m"

definition handle_query_key :: "modifiers \<Rightarrow> key_code \<Rightarrow> app \<Rightarrow> (ui_action \<times> app) option" where
  "handle_query_key m k a0 =
     (let a = a0\<lparr>ap_completion := None\<rparr> in
      if (m \<in> {Control, Alt} \<and> k = KEnter) \<or> (m = Control \<and> k = KChar ''j'') \<or> k = KF 5 then Some (try_execute a)
      else if m = Control \<and> k = KChar ''u'' then silently (edit kill_before a)
      else if m = Control \<and> k = KChar ''k'' then silently (edit kill_behind a)
      else if m = Control \<and> k = KChar ''w'' then Some (NoAction, clear_input a)
      else if m = Control \<and> k = KChar ''d'' then Some (describe_selected a, a)
      else case k of
             KEnter \<Rightarrow> press_enter a
           | KUp \<Rightarrow> silently (press_up a)
           | KDown \<Rightarrow> silently (press_down a)
           | KLeft \<Rightarrow> silently (press_left a)
           | KRight \<Rightarrow> silently (press_right a)
           | KHome \<Rightarrow> Some (NoAction, a\<lparr>ap_col := 0\<rparr>)
           | KEnd \<Rightarrow> silently (map_option (\<lambda>line. a\<lparr>ap_col := length line\<rparr>) (current_line a))
           | KBackspace \<Rightarrow> silently (backspace a)
           | KDelete \<Rightarrow> silently (delete_key a)
           | KChar ch \<Rightarrow> (if m \<in> {NoMods, Shift} then silently (edit (type_char ch) a) else Some (NoAction, a))
           | _ \<Rightarrow> Some (NoAction, a))"

section \<open>Keys of the other panels\<close>

definition handle_sidebar_key :: "key_code \<Rightarrow> app \<Rightarrow> ui_action \<times> app" where
  "handle_sidebar_key k a =
     (case k of
        KUp \<Rightarrow> (NoAction, if ap_tables a = [] then a else a\<lparr>ap_selected_table := ap_selected_table a - 1\<rparr>)
      | KDown \<Rightarrow>
          (NoAction, if ap_tables a = [] then a
                     else a\<lparr>ap_selected_table := min (ap_selected_table a + 1) (length (ap_tables a) - 1)\<rparr>)
      | KEnter \<Rightarrow>
          (if ap_selected_table a < length (ap_tables a) then PreviewTable (ap_tables a ! ap_selected_table a) else NoAction, a)
      | _ \<Rightarrow> (NoAction, a))"

definition selected_row :: "app \<Rightarrow> nat" where
  "selected_row a = (case ap_selected a of None \<Rightarrow> 0 | Some i \<Rightarrow> i)"

definition move_down :: "nat \<Rightarrow> app \<Rightarrow> nat" where
  "move_down n a = (case ap_selected a of None \<Rightarrow> 0 | Some i \<Rightarrow> min (i + n) (length (qr_rows (ap_results a)) - 1))"

definition handle_results_key :: "key_code \<Rightarrow> app \<Rightarrow> app" where
  "handle_results_key k a =
     (case k of
        KUp \<Rightarrow> a\<lparr>ap_selected := Some (selected_row a - 1)\<rparr>
      | KDown \<Rightarrow> a\<lparr>ap_selected := Some (move_down 1 a)\<rparr>
      | KLeft \<Rightarrow> a\<lparr>ap_h_scroll := ap_h_scroll a - 1\<rparr>
      | KRight \<Rightarrow> a\<lparr>ap_h_scroll := min (ap_h_scroll a + 1) (length (qr_headers (ap_results a)) - 1)\<rparr>
      | KPageUp \<Rightarrow> a\<lparr>ap_selected := Some (selected_row a - ap_visible_height a div 2)\<rparr>
      | KPageDown \<Rightarrow> a\<lparr>ap_selected := Some (move_down (ap_visible_height a div 2) a)\<rparr>
      | KHome \<Rightarrow> a\<lparr>ap_selected := Some 0\<rparr>
      | KEnd \<Rightarrow>
          (if qr_rows (ap_results a) = [] then a else a\<lparr>ap_selected := Some (length (qr_rows (ap_results a)) - 1)\<rparr>)
      | _ \<Rightarrow> a)"

text \<open>What Enter writes to the export path, and the dialog's other keys. Writing is outside.\<close>

definition export_content :: "app \<Rightarrow> string" where
  "export_content a =
     (if ap_export_format a = 0 then export_csv (ap_results a)
      else if ap_export_format a = 1 then export_json (ap_results a)
      else export_sql (ap_results a)
             (if ap_selected_table a < length (ap_tables a) then ap_tables a ! ap_selected_table a else ''table''))"

definition next_format :: "app \<Rightarrow> app" where
  "next_format a =
     (let i = (ap_export_format a + 1) mod length export_formats in
      a\<lparr>ap_export_format := i,
        ap_export_path := (case rfind_char (\<lambda>c. c = CHR ''.'') (ap_export_path a) of
          None \<Rightarrow> ap_export_path a
        | Some dot \<Rightarrow> take (dot + 1) (ap_export_path a) @ to_lowercase (export_formats ! i))\<rparr>)"

text \<open>\<^verbatim>\<open>String::pop\<close> removes a character.\<close>

definition pop_char :: "string \<Rightarrow> string" where
  "pop_char s = take (char_start s (length s - 1)) s"

definition handle_export_key ::
  "(string \<Rightarrow> string \<Rightarrow> (string, unit) result) \<Rightarrow> nat \<Rightarrow> key_code \<Rightarrow> app \<Rightarrow> app"
where
  "handle_export_key write_file now k a =
     (case k of
        KEsc \<Rightarrow> a\<lparr>ap_popup := NoPopup\<rparr>
      | KTab \<Rightarrow> next_format a
      | KEnter \<Rightarrow>
          (set_toast now
             (case write_file (ap_export_path a) (export_content a) of
                Inr _ \<Rightarrow> ''Exported '' @ show_nat (length (qr_rows (ap_results a))) @ '' rows to '' @ ap_export_path a
              | Inl err \<Rightarrow> ''Export failed: '' @ err) a)\<lparr>ap_popup := NoPopup\<rparr>
      | KBackspace \<Rightarrow> a\<lparr>ap_export_path := pop_char (ap_export_path a)\<rparr>
      | KChar ch \<Rightarrow> a\<lparr>ap_export_path := ap_export_path a @ ch\<rparr>
      | _ \<Rightarrow> a)"

section \<open>Keys and the mouse\<close>

definition request_export :: "nat \<Rightarrow> app \<Rightarrow> app" where
  "request_export now a =
     (if \<not> results_empty (ap_results a) \<and> qr_headers (ap_results a) \<noteq> [] then a\<lparr>ap_popup := ExportPopup\<rparr>
      else set_toast now ''No results to export'' a)"

definition handle_key ::
  "(string \<Rightarrow> string \<Rightarrow> (string, unit) result) \<Rightarrow> nat \<Rightarrow> modifiers \<Rightarrow> key_code \<Rightarrow> app \<Rightarrow> (ui_action \<times> app) option"
where
  "handle_key write_file now m k a =
     (if ap_popup a = HelpPopup
      then Some (NoAction, if k \<in> {KEsc, KF 1, KChar ''q''} then a\<lparr>ap_popup := NoPopup\<rparr> else a)
      else if ap_popup a = ExportPopup then Some (NoAction, handle_export_key write_file now k a)
      else if m = Control \<and> k \<in> {KChar ''c'', KChar ''q''} then Some (QuitApp, a)
      else if k = KChar ''q'' \<and> ap_focus a \<noteq> QueryInput then Some (QuitApp, a)
      else if k = KF 1 \<or> (k = KChar ''?'' \<and> ap_focus a \<noteq> QueryInput) then Some (NoAction, a\<lparr>ap_popup := HelpPopup\<rparr>)
      else if m = Control \<and> k = KChar ''s'' then Some (NoAction, request_export now a)
      else if m = Control \<and> k = KChar ''l'' then Some (NoAction, a\<lparr>ap_results := no_results, ap_selected := None\<rparr>)
      else if k = KTab then (if ap_focus a = QueryInput then silently (tab_complete a)
                             else Some (NoAction, a\<lparr>ap_focus := focus_next (ap_focus a)\<rparr>))
      else if m = Shift \<and> k = KBackTab then Some (NoAction, a\<lparr>ap_focus := focus_prev (ap_focus a)\<rparr>)
      else if k = KEsc then Some (NoAction, a\<lparr>ap_popup := NoPopup\<rparr>)
      else case ap_focus a of
             QueryInput \<Rightarrow> handle_query_key m k a
           | Sidebar \<Rightarrow> Some (handle_sidebar_key k a)
           | Results \<Rightarrow> Some (NoAction, handle_results_key k a))"

datatype mouse_event = LeftDown nat nat | ScrollUp | ScrollDown | OtherMouse

definition in_rect :: "rect \<Rightarrow> nat \<Rightarrow> nat \<Rightarrow> bool" where
  "in_rect r x y \<longleftrightarrow> rc_x r \<le> x \<and> x < rc_x r + rc_width r \<and> rc_y r \<le> y \<and> y < rc_y r + rc_height r"

definition handle_mouse :: "mouse_event \<Rightarrow> app \<Rightarrow> app" where
  "handle_mouse ev a =
     (case ev of
        LeftDown x y \<Rightarrow>
          if in_rect (ap_sidebar_area a) x y
          then let i = y - (rc_y (ap_sidebar_area a) + 1) in
               a\<lparr>ap_focus := Sidebar, ap_selected_table := (if i < length (ap_tables a) then i else ap_selected_table a)\<rparr>
          else if in_rect (ap_results_area a) x y
          then let i = y - (rc_y (ap_results_area a) + 2) in
               a\<lparr>ap_focus := Results,
                 ap_selected := (if i < length (qr_rows (ap_results a)) then Some i else ap_selected a)\<rparr>
          else if in_rect (ap_query_area a) x y then a\<lparr>ap_focus := QueryInput\<rparr>
          else a
      | ScrollUp \<Rightarrow> if ap_focus a = Results then a\<lparr>ap_selected := Some (selected_row a - 3)\<rparr> else a
      | ScrollDown \<Rightarrow> if ap_focus a = Results then a\<lparr>ap_selected := Some (move_down 3 a)\<rparr> else a
      | OtherMouse \<Rightarrow> a)"

end
