(* ===== verification/Tui_Draw.thy ===== *)
theory Tui_Draw
  imports Tui_App
begin

text \<open>
  What the terminal interface draws (\<^verbatim>\<open>crates/tui/src/lib.rs\<close>): a frame is the list of the widgets
  that are rendered, each with its area, in order. How \<^verbatim>\<open>ratatui\<close> divides an area (\<^verbatim>\<open>Layout\<close>) is a
  parameter, and what it makes of a widget is outside. Coordinates are \<^verbatim>\<open>u16\<close> values that wrap.
\<close>

section \<open>Themes\<close>

datatype role =
    Base | Mantle | Crust | Surface0 | Surface1 | Overlay0 | Subtext0 | Subtext1 | ThemeText
  | Accent1 | Accent2 | ErrorColor | NumberColor | SuccessColor | KeywordColor | StringColor

fun catppuccin_mocha :: "role \<Rightarrow> nat \<times> nat \<times> nat" where
  "catppuccin_mocha Base = (30, 30, 46)"
| "catppuccin_mocha Mantle = (24, 24, 37)"
| "catppuccin_mocha Crust = (17, 17, 27)"
| "catppuccin_mocha Surface0 = (49, 50, 68)"
| "catppuccin_mocha Surface1 = (69, 71, 90)"
| "catppuccin_mocha Overlay0 = (108, 112, 134)"
| "catppuccin_mocha Subtext0 = (166, 173, 200)"
| "catppuccin_mocha Subtext1 = (186, 194, 222)"
| "catppuccin_mocha ThemeText = (205, 214, 244)"
| "catppuccin_mocha Accent1 = (180, 190, 254)"
| "catppuccin_mocha Accent2 = (203, 166, 247)"
| "catppuccin_mocha ErrorColor = (243, 139, 168)"
| "catppuccin_mocha NumberColor = (250, 179, 135)"
| "catppuccin_mocha SuccessColor = (166, 227, 161)"
| "catppuccin_mocha KeywordColor = (137, 180, 250)"
| "catppuccin_mocha StringColor = (166, 227, 161)"

fun potato_theme :: "role \<Rightarrow> nat \<times> nat \<times> nat" where
  "potato_theme Base = (43, 33, 24)"
| "potato_theme Mantle = (35, 26, 18)"
| "potato_theme Crust = (28, 20, 13)"
| "potato_theme Surface0 = (62, 48, 35)"
| "potato_theme Surface1 = (87, 68, 50)"
| "potato_theme Overlay0 = (139, 119, 101)"
| "potato_theme Subtext0 = (186, 168, 140)"
| "potato_theme Subtext1 = (210, 195, 170)"
| "potato_theme ThemeText = (240, 230, 210)"
| "potato_theme Accent1 = (218, 185, 107)"
| "potato_theme Accent2 = (196, 148, 72)"
| "potato_theme ErrorColor = (204, 85, 61)"
| "potato_theme NumberColor = (230, 172, 80)"
| "potato_theme SuccessColor = (124, 165, 75)"
| "potato_theme KeywordColor = (218, 185, 107)"
| "potato_theme StringColor = (124, 165, 75)"

fun theme_color :: "theme_choice \<Rightarrow> role \<Rightarrow> nat \<times> nat \<times> nat" where
  "theme_color CatppuccinMocha = catppuccin_mocha"
| "theme_color Potato = potato_theme"

section \<open>Widgets\<close>

record look =
  lk_fg :: "role option"
  lk_bg :: "role option"
  lk_bold :: bool
  lk_italic :: bool
  lk_underlined :: bool

definition plain_look :: look where
  "plain_look = \<lparr>lk_fg = None, lk_bg = None, lk_bold = False, lk_italic = False, lk_underlined = False\<rparr>"

definition in_color :: "role \<Rightarrow> look" where "in_color c = plain_look\<lparr>lk_fg := Some c\<rparr>"
definition bold_in :: "role \<Rightarrow> look" where "bold_in c = (in_color c)\<lparr>lk_bold := True\<rparr>"
definition italic_in :: "role \<Rightarrow> look" where "italic_in c = (in_color c)\<lparr>lk_italic := True\<rparr>"

type_synonym span = "string \<times> look"

text \<open>A block's title, whether its border is double, and the colours of border and ground.\<close>

record block =
  bk_title :: span
  bk_double :: bool
  bk_border :: role
  bk_ground :: role

text \<open>
  A table has a header, the constraints of its columns (\<^verbatim>\<open>Min\<close>), its rows with their grounds, and
  the selected row. A scroll bar has the number of rows, the position and the visible rows.
\<close>

datatype widget =
    Backdrop role
  | ClearArea
  | BarLine "span list" role
  | Framed block "span list list"
  | ItemList block "span list list"
  | TableView block "span list" "nat list" "(role \<times> span list) list" "nat option"
  | ScrollView nat nat nat

datatype draw_command = Render widget rect | PlaceCursor nat nat

datatype size_constraint = OfLength nat | OfMin nat | OfPercentage nat

text \<open>The area with a number among those that a layout divides an area into.\<close>

record layout =
  ly_vertical :: "size_constraint list \<Rightarrow> rect \<Rightarrow> nat \<Rightarrow> rect"
  ly_horizontal :: "size_constraint list \<Rightarrow> rect \<Rightarrow> nat \<Rightarrow> rect"

text \<open>\<^verbatim>\<open>Rect::new\<close> keeps the right and lower edges in range.\<close>

definition rect_new :: "nat \<Rightarrow> nat \<Rightarrow> nat \<Rightarrow> nat \<Rightarrow> rect" where
  "rect_new x y w h = \<lparr>rc_x = x, rc_y = y, rc_width = min w (65535 - x), rc_height = min h (65535 - y)\<rparr>"

section \<open>The bars\<close>

definition pad_span :: "nat \<Rightarrow> span" where "pad_span n = (spaces n, plain_look)"

definition draw_title_bar :: "theme_choice \<Rightarrow> string \<Rightarrow> rect \<Rightarrow> draw_command" where
  "draw_title_bar th data_url area =
     (let label = '' pdb ''; path_text = ''PotatoDB: '' @ data_url;
          theme_label = ''['' @ theme_name th @ '']'';
          pad = rc_width area - (length label + 2 + length path_text + length theme_label + 1)
      in Render (BarLine
           [(label, (bold_in Crust)\<lparr>lk_bg := Some Accent2\<rparr>), (spaces 2, plain_look), (path_text, in_color Subtext0),
            pad_span pad, (theme_label, in_color Overlay0)] Mantle) area)"

definition status_left :: "app \<Rightarrow> string" where
  "status_left a =
     (case ap_toast a of
        Some (msg, _) \<Rightarrow> msg
      | None \<Rightarrow> if ap_status a = [] then [] else ap_status a @ '' ('' @ ap_elapsed a @ '')'')"

definition status_right :: string where
  "status_right = ''F1:help Tab:focus Ctrl+S:export q:quit''"

definition draw_status_bar :: "app \<Rightarrow> rect \<Rightarrow> draw_command" where
  "draw_status_bar a area =
     (let left = status_left a; pad = rc_width area - (length left + length status_right + 2)
      in Render (BarLine
           [('' '' @ left, bold_in (if ap_toast a = None then Subtext0 else SuccessColor)), pad_span pad,
            (status_right @ '' '', in_color Overlay0)] Mantle) area)"

section \<open>The panels\<close>

definition panel :: "bool \<Rightarrow> string \<Rightarrow> block" where
  "panel focused title =
     \<lparr>bk_title = (title, bold_in (if focused then Accent2 else Subtext0)), bk_double = False,
      bk_border = (if focused then Accent2 else Surface1), bk_ground = Base\<rparr>"

definition table_item :: "nat \<Rightarrow> nat \<times> string \<Rightarrow> span list" where
  "table_item selected = (\<lambda>(i, nm).
     if i = selected then [([CHR 0xE2, CHR 0x96, CHR 0xBA, CHR '' ''], in_color Accent2), (nm, bold_in Accent2)]
     else [(spaces 2, in_color Surface1), (nm, in_color Subtext1)])"

definition selected_schema :: "app \<Rightarrow> (string \<times> string) list option" where
  "selected_schema a =
     (if ap_selected_table a < length (ap_tables a)
      then hm_get (ap_schema_cache a) (ap_tables a ! ap_selected_table a) else None)"

definition draw_sidebar :: "layout \<Rightarrow> app \<Rightarrow> rect \<Rightarrow> draw_command list" where
  "draw_sidebar L a area =
     (let focused = (ap_focus a = Sidebar); schema = selected_schema a;
          has_schema = (case schema of None \<Rightarrow> False | Some cols \<Rightarrow> cols \<noteq> []);
          areas = ly_vertical L (if has_schema then [OfPercentage 50, OfPercentage 50] else [OfPercentage 100, OfLength 0]) area;
          items = (if ap_tables a = [] then [[(''  (no tables)'', in_color Overlay0)]]
                   else map (table_item (ap_selected_table a)) (zip [0..<length (ap_tables a)] (ap_tables a)))
      in Render (ItemList (panel focused ('' Tables ('' @ show_nat (length (ap_tables a)) @ '') '')) items) (areas 0) #
         (case schema of
            None \<Rightarrow> []
          | Some cols \<Rightarrow>
              [Render (ItemList (panel focused '' Schema '')
                 (map (\<lambda>(nm, ty). [('' '' @ nm, in_color Accent1), ('' : '', in_color Overlay0), (ty, in_color Subtext0)]) cols))
                 (areas 1)]))"

definition results_title :: "app \<Rightarrow> string" where
  "results_title a =
     (let n = length (qr_rows (ap_results a)); rows = '' ('' @ show_nat n @ '' rows) '' in
      if ap_selected_table a < length (ap_tables a)
      then '' '' @ ap_tables a ! ap_selected_table a @ (if 0 < n then rows else '' '')
      else '' Results'' @ (if 0 < n then rows else '' ''))"

definition cell_look :: "string \<Rightarrow> look" where
  "cell_look v =
     (case style_cell v of
        CommentStyle \<Rightarrow> italic_in Overlay0
      | KeywordStyle \<Rightarrow> bold_in SuccessColor
      | NumberStyle \<Rightarrow> in_color NumberColor
      | _ \<Rightarrow> in_color ThemeText)"

definition results_table :: "app \<Rightarrow> block \<Rightarrow> widget" where
  "results_table a bk =
     (let r = ap_results a; k = ap_h_scroll a in
      TableView bk (map (\<lambda>h. (h, bold_in Accent1)) (drop k (qr_headers r)))
        (map (\<lambda>w. as_u16 (max w 4 + 2)) (drop k (qr_widths r)))
        (map (\<lambda>(i, row). (if even i then Base else Surface0, map (\<lambda>v. (v, cell_look v)) (drop k row)))
           (zip [0..<length (qr_rows r)] (qr_rows r)))
        (ap_selected a))"

definition draw_results :: "app \<Rightarrow> rect \<Rightarrow> draw_command list" where
  "draw_results a area =
     (let bk = panel (ap_focus a = Results) (results_title a); n = length (qr_rows (ap_results a));
          inner_height = rc_height area - 3
      in case qr_message (ap_results a) of
           Some msg \<Rightarrow>
             [Render (Framed bk [[(''  '' @ msg, if starts_with ''ERROR:'' msg then bold_in ErrorColor else in_color SuccessColor)]]) area]
         | None \<Rightarrow>
             if results_empty (ap_results a)
             then [Render (Framed bk [[(''  Select a table or run a query (end with ; or press F5)'', italic_in Overlay0)]]) area]
             else Render (results_table a bk) area #
                  (if inner_height < n
                   then [Render (ScrollView n (case ap_selected a of None \<Rightarrow> 0 | Some i \<Rightarrow> i) inner_height) area] else []))"

section \<open>The input\<close>

fun style_look :: "style \<Rightarrow> look" where
  "style_look LiteralStyle = in_color StringColor"
| "style_look CommentStyle = italic_in Overlay0"
| "style_look RawStyle = plain_look"
| "style_look NumberStyle = in_color NumberColor"
| "style_look KeywordStyle = bold_in KeywordColor"
| "style_look TextStyle = in_color ThemeText"
| "style_look OtherStyle = in_color Overlay0"

text \<open>The lines of the input, unless it is empty and has the focus; highlighting them can panic.\<close>

definition draw_input :: "app \<Rightarrow> (style \<times> string) list list option" where
  "draw_input a =
     (if length (ap_lines a) = 1 \<and> hd (ap_lines a) = [] \<and> ap_focus a = QueryInput then Some []
      else those (map highlight_sql_line (ap_lines a)))"

definition input_cursor :: "app \<Rightarrow> rect \<Rightarrow> nat \<times> nat" where
  "input_cursor a area = (as_u16 (rc_x area + 1 + ap_col a), as_u16 (rc_y area + 1 + ap_row a))"

definition draw_query_input :: "app \<Rightarrow> rect \<Rightarrow> draw_command list option" where
  "draw_query_input a area =
     map_option (\<lambda>ls.
       let focused = (ap_focus a = QueryInput);
           bk = panel focused ('' SQL (history: '' @ show_nat (length (ap_history a)) @ '') [; or F5 to run] '');
           is_empty = (length (ap_lines a) = 1 \<and> hd (ap_lines a) = []);
           lines = (if is_empty \<and> focused then [[(''Type a SQL query here...'', italic_in Overlay0)]]
                    else map (map (\<lambda>(st, t). (t, style_look st))) ls)
       in Render (Framed bk lines) area #
          (if focused then [PlaceCursor (fst (input_cursor a area)) (snd (input_cursor a area))] else []))
     (draw_input a)"

section \<open>Popups\<close>

definition centered_rect :: "nat \<Rightarrow> nat \<Rightarrow> rect \<Rightarrow> rect" where
  "centered_rect w h area =
     rect_new (as_u16 (rc_x area + (rc_width area - w) div 2)) (as_u16 (rc_y area + (rc_height area - h) div 2))
       (min w (rc_width area)) (min h (rc_height area))"

definition popup_block :: "string \<Rightarrow> block" where
  "popup_block title =
     \<lparr>bk_title = (title, bold_in Accent2), bk_double = True, bk_border = Accent2, bk_ground = Mantle\<rparr>"

definition help_heading :: "string \<Rightarrow> span list" where "help_heading t = [(t, bold_in Accent1)]"
definition help_line :: "string \<Rightarrow> span list" where "help_line t = [(t, in_color ThemeText)]"

definition help_lines :: "span list list" where
  "help_lines =
     [help_heading ''  GLOBAL''] @
     map help_line
       [''  Tab / Shift+Tab    Switch focus'', ''  Ctrl+C / Ctrl+Q    Quit'',
        ''  F1 / ?             Toggle this help'', ''  Ctrl+S             Export results'',
        ''  Ctrl+L             Clear results'', ''  Esc                Dismiss popup''] @
     [[([], plain_look)], help_heading ''  QUERY INPUT''] @
     map help_line
       [''  ; + Enter / F5     Execute query'', ''  Ctrl+J / Alt+Enter Execute query (alt)'',
        ''  Enter              New line'', ''  Up/Down            History / move cursor'',
        ''  Ctrl+U             Clear to start of line'', ''  Ctrl+K             Clear to end of line'',
        ''  Ctrl+W             Clear all input'', ''  Tab                Autocomplete (cycle)'',
        ''  Ctrl+D             Describe selected table''] @
     [[([], plain_look)], help_heading ''  RESULTS''] @
     map help_line
       [''  Up/Down            Select row'', ''  Left/Right         Horizontal scroll'',
        ''  PgUp/PgDn          Page scroll'']"

definition draw_help_popup :: "rect \<Rightarrow> draw_command list" where
  "draw_help_popup frame =
     (let area = centered_rect 58 24 frame in
      [Render ClearArea area, Render (Framed (popup_block '' Keybindings '') help_lines) area])"

definition format_span :: "nat \<Rightarrow> nat \<times> string \<Rightarrow> span list" where
  "format_span chosen = (\<lambda>(i, f).
     [('' '' @ f @ '' '', if i = chosen then (bold_in Accent2)\<lparr>lk_underlined := True\<rparr> else in_color Subtext1),
      ('' '', plain_look)])"

definition draw_export_popup :: "app \<Rightarrow> rect \<Rightarrow> draw_command list" where
  "draw_export_popup a frame =
     (let area = centered_rect 50 9 frame;
          lines = [[([], plain_look)], [(''  Format: '', in_color ThemeText)],
            concat (map (format_span (ap_export_format a)) (zip [0..<length export_formats] export_formats)),
            [(''  Path:   '', in_color ThemeText), (ap_export_path a, in_color Accent1), (''_'', in_color Accent2)],
            [([], plain_look)], [(''  Tab: format  Enter: save  Esc: cancel'', in_color Overlay0)]]
      in [Render ClearArea area, Render (Framed (popup_block '' Export Results '') lines) area])"

text \<open>The first of the candidates that are shown, and those.\<close>

definition max_shown :: "completion \<Rightarrow> nat" where
  "max_shown c = min 8 (length (cm_candidates c))"

definition first_shown :: "completion \<Rightarrow> nat" where
  "first_shown c = (if max_shown c \<le> cm_index c then cm_index c - max_shown c + 1 else 0)"

definition shown_candidates :: "completion \<Rightarrow> string list" where
  "shown_candidates c = take (max_shown c) (drop (first_shown c) (cm_candidates c))"

definition candidate_line :: "completion \<Rightarrow> nat \<times> string \<Rightarrow> span list" where
  "candidate_line c = (\<lambda>(i, w).
     [('' '' @ w, if first_shown c + i = cm_index c then (bold_in Crust)\<lparr>lk_bg := Some Accent2\<rparr> else in_color ThemeText)])"

definition completion_area :: "completion \<Rightarrow> rect \<Rightarrow> rect \<Rightarrow> rect" where
  "completion_area c query_area frame =
     (let w = as_u16 (as_u16 (fold max (map length (shown_candidates c)) 0) + 4);
          h = as_u16 (as_u16 (length (shown_candidates c)) + 2);
          x = as_u16 (rc_x query_area + 1 + cm_start c)
      in rect_new (min x (rc_width frame - w)) (rc_y query_area - h) (min w (rc_width frame)) (min h (rc_height frame)))"

definition completion_items :: "completion \<Rightarrow> span list list" where
  "completion_items c =
     map (candidate_line c) (zip [0..<length (shown_candidates c)] (shown_candidates c))"

definition draw_completion_popup :: "app \<Rightarrow> rect \<Rightarrow> draw_command list" where
  "draw_completion_popup a frame =
     (case ap_completion a of
        None \<Rightarrow> []
      | Some c \<Rightarrow>
          if cm_candidates c = [] then []
          else let area = completion_area c (ap_query_area a) frame in
            [Render ClearArea area,
             Render (ItemList \<lparr>bk_title = ([], plain_look), bk_double = False, bk_border = Surface1, bk_ground = Mantle\<rparr>
               (completion_items c)) area])"

section \<open>The frame\<close>

record drawing =
  dw_theme :: theme_choice
  dw_url :: string
  dw_layout :: layout

definition input_height :: "app \<Rightarrow> nat" where
  "input_height a = max 3 (min 8 (as_u16 (as_u16 (length (ap_lines a)) + 2)))"

text \<open>The areas of title, body, input and status; and of the sidebar and the results in the body.\<close>

definition frame_areas :: "layout \<Rightarrow> app \<Rightarrow> rect \<Rightarrow> nat \<Rightarrow> rect" where
  "frame_areas L a frame = ly_vertical L [OfLength 1, OfMin 4, OfLength (input_height a), OfLength 1] frame"

definition body_areas :: "layout \<Rightarrow> rect \<Rightarrow> nat \<Rightarrow> rect" where
  "body_areas L body = ly_horizontal L [OfLength 24, OfMin 20] body"

definition place :: "layout \<Rightarrow> rect \<Rightarrow> app \<Rightarrow> app" where
  "place L frame a =
     (let areas = frame_areas L a frame; body = body_areas L (areas 1) in
      if 60 \<le> rc_width frame
      then a\<lparr>ap_sidebar_area := body 0, ap_results_area := body 1, ap_query_area := areas 2\<rparr>
      else a\<lparr>ap_sidebar_area := no_area, ap_results_area := areas 1, ap_query_area := areas 2\<rparr>)"

definition draw :: "drawing \<Rightarrow> rect \<Rightarrow> app \<Rightarrow> (draw_command list \<times> app) option" where
  "draw D frame a0 =
     (let L = dw_layout D; areas = frame_areas L a0 frame; a = place L frame a0 in
      map_option (\<lambda>input.
        (Render (Backdrop Base) frame # draw_title_bar (dw_theme D) (dw_url D) (areas 0) #
         (if 60 \<le> rc_width frame then draw_sidebar L a (ap_sidebar_area a) else []) @
         draw_results a (ap_results_area a) @ input @ [draw_status_bar a (areas 3)] @
         (case ap_popup a of HelpPopup \<Rightarrow> draw_help_popup frame | ExportPopup \<Rightarrow> draw_export_popup a frame | NoPopup \<Rightarrow> []) @
         (if ap_focus a = QueryInput then draw_completion_popup a frame else []), a))
      (draw_query_input a (ap_query_area a)))"

end
