(* ===== verification/Tui_Session.thy ===== *)
theory Tui_Session
  imports Tui_Draw
begin

text \<open>
  The terminal interface at work (\<^verbatim>\<open>crates/tui/src/lib.rs\<close>): its own commands, the statements it
  executes, the lists it loads, and the loop over the events of the terminal.
\<close>

section \<open>Statements\<close>

definition time_text :: "nat \<Rightarrow> nat \<Rightarrow> engine \<Rightarrow> app \<Rightarrow> string" where
  "time_text started now e a =
     (let m = last_query_metrics e in
      if \<not> ap_show_timing a then elapsed_text started now
      else if 0 < qm_files m \<or> 0 < qm_bytes m
      then elapsed_ms started now @ '' ms | files: '' @ show_nat (qm_files m) @ '' | scanned: ''
        @ format_fixed 1 (f64_div (f64_of (int (qm_bytes m))) (f64_of 1024)) @ '' KB''
      else elapsed_ms started now @ '' ms'')"

text \<open>The texts of the column \<open>table_name\<close>, or of the first one.\<close>

fun text_cell :: "cell \<Rightarrow> string option" where
  "text_cell (CText t) = Some t"
| "text_cell _ = None"

definition table_name_column :: "record_batch \<Rightarrow> nat" where
  "table_name_column b = 
     (if ''table_name'' \<in> set (rb_fields b) then length (takeWhile (\<lambda>f. f \<noteq> ''table_name'') (rb_fields b)) else 0)"

definition listed_tables :: "record_batch list \<Rightarrow> string list" where
  "listed_tables bs =
     sort (concat (map (\<lambda>b. List.map_filter (\<lambda>row. text_cell (cell_at row (table_name_column b))) (rb_rows b)) bs))"

definition list_tables_text :: string where
  "list_tables_text =
     ''SELECT table_name FROM information_schema.tables WHERE table_schema = '' @ quoted ''public''
       @ '' ORDER BY table_name''"

definition show_tables :: "string list \<Rightarrow> app \<Rightarrow> app" where
  "show_tables ts a =
     a\<lparr>ap_tables := ts,
       ap_selected_table := (if length ts \<le> ap_selected_table a then length ts - 1 else ap_selected_table a)\<rparr>"

text \<open>A statement whose result is only used when it is rows.\<close>

definition with_records ::
  "'s world \<Rightarrow> nat \<Rightarrow> string \<Rightarrow> (record_batch list \<Rightarrow> app \<Rightarrow> app) \<Rightarrow> app \<Rightarrow> (app, 's) run"
where
  "with_records W depth sql f a e s =
     (case execute W depth sql e s of
        None \<Rightarrow> None
      | Some (Inr (Records bs), e1, s1) \<Rightarrow> Some (Inr (f bs a), e1, s1)
      | Some (_, e1, s1) \<Rightarrow> Some (Inr a, e1, s1))"

definition load_tables :: "'s world \<Rightarrow> nat \<Rightarrow> app \<Rightarrow> (app, 's) run" where
  "load_tables W depth = with_records W depth list_tables_text (\<lambda>bs. show_tables (listed_tables bs))"

definition schema_text :: "string \<Rightarrow> string" where
  "schema_text tbl =
     ''SELECT column_name, data_type FROM information_schema.columns WHERE table_name = '' @ quote # tbl @ quote
       # '' ORDER BY ordinal_position''"

definition listed_columns :: "record_batch list \<Rightarrow> (string \<times> string) list" where
  "listed_columns bs =
     concat (map (\<lambda>b. List.map_filter (\<lambda>row.
       case (text_cell (cell_at row 0), text_cell (cell_at row 1)) of
         (Some n, Some t) \<Rightarrow> Some (n, t) | _ \<Rightarrow> None) (rb_rows b)) bs)"

definition load_schema :: "'s world \<Rightarrow> nat \<Rightarrow> string \<Rightarrow> app \<Rightarrow> (app, 's) run" where
  "load_schema W depth tbl a =
     (if hm_contains (ap_schema_cache a) tbl then runs (ok a)
      else with_records W depth (schema_text tbl)
             (\<lambda>bs b. b\<lparr>ap_schema_cache := hm_insert tbl (listed_columns bs) (ap_schema_cache b)\<rparr>) a)"

definition show_result :: "array_format \<Rightarrow> nat \<Rightarrow> nat \<Rightarrow> engine \<Rightarrow> (string, query_result) result \<Rightarrow> app \<Rightarrow> app" where
  "show_result F started now e r a =
     (let t = time_text started now e a in
      case r of
        Inr (Records bs) \<Rightarrow>
          a\<lparr>ap_results := from_batches F bs, ap_status := show_nat (row_count bs) @ '' rows'', ap_elapsed := t,
            ap_selected := (if 0 < row_count bs then Some 0 else None)\<rparr>
      | Inr (Message msg) \<Rightarrow>
          (set_toast now msg a)\<lparr>ap_results := message_results msg, ap_status := msg, ap_elapsed := t\<rparr>
      | Inl err \<Rightarrow> a\<lparr>ap_results := error_results err, ap_status := ''Query failed'', ap_elapsed := t\<rparr>)"

definition execute_sql :: "'s world \<Rightarrow> array_format \<Rightarrow> nat \<Rightarrow> string \<Rightarrow> app \<Rightarrow> (app, 's) run" where
  "execute_sql W F depth sql a e s =
     (case execute W depth sql e s of
        None \<Rightarrow> None
      | Some (r, e1, s1) \<Rightarrow>
          let a1 = show_result F (w_clock W s) (w_clock W s1) e1 r (a\<lparr>ap_spinner := (ap_spinner a + 1) mod 2 ^ 64\<rparr>)
          in load_tables W depth (a1\<lparr>ap_h_scroll := 0\<rparr>) e1 s1)"

section \<open>The interface's own commands\<close>

definition meta_widths :: "string list \<Rightarrow> string list list \<Rightarrow> nat list" where
  "meta_widths headers rows =
     map (\<lambda>i. as_u16 (max (length (headers ! i))
         (fold max (map (\<lambda>r. if i < length r then length (r ! i) else 0) rows) 0))) [0 ..< length headers]"

definition set_meta_results :: "string list \<Rightarrow> string list list \<Rightarrow> string \<Rightarrow> app \<Rightarrow> app" where
  "set_meta_results headers rows t a =
     a\<lparr>ap_results := \<lparr>qr_headers = headers, qr_rows = rows, qr_widths = meta_widths headers rows, qr_message = None\<rparr>,
       ap_status := show_nat (length rows) @ '' row(s)'', ap_elapsed := t,
       ap_selected := (if rows = [] then None else Some 0)\<rparr>"

definition toggle_timing :: "nat \<Rightarrow> app \<Rightarrow> app" where
  "toggle_timing now a =
     (let on = \<not> ap_show_timing a; msg = ''Timing is '' @ (if on then ''on'' else ''off'') @ ''.'' in
      (set_toast now msg a)\<lparr>ap_show_timing := on, ap_results := message_results msg, ap_status := ''OK'',
        ap_elapsed := elapsed_text now now\<rparr>)"

definition meta_listing :: "string \<Rightarrow> engine \<Rightarrow> (string list \<times> string list list) option" where
  "meta_listing cmd e =
     (if cmd = backslash ''dv'' then Some ([''view_name''], map (\<lambda>v. [v]) (sort (view_names e)))
      else if cmd = backslash ''di''
      then Some ([''index_name'', ''table_name''], map (\<lambda>(n, t). [n, t]) (sort (index_list e)))
      else if cmd = backslash ''ds'' then Some ([''sequence_name''], map (\<lambda>n. [n]) (sort (sequence_names e)))
      else if cmd = backslash ''df'' then Some ([''function_name''], map (\<lambda>n. [n]) (sort (function_names e)))
      else if cmd = backslash ''du''
      then Some ([''user_name'', ''roles''], map (\<lambda>(u, rs). [u, join '', '' rs]) (sort_key fst (user_info e)))
      else None)"

definition run_meta_command :: "'s world \<Rightarrow> array_format \<Rightarrow> nat \<Rightarrow> string \<Rightarrow> app \<Rightarrow> (app, 's) run" where
  "run_meta_command W F depth cmd a e s =
     (let t = trim cmd; now = w_clock W s in
      if t = backslash ''timing'' then Some (Inr (toggle_timing now a), e, s)
      else if t = backslash ''dt'' then execute_sql W F depth list_tables_text a e s
      else case meta_listing t e of
             Some (headers, rows) \<Rightarrow> Some (Inr (set_meta_results headers rows (elapsed_text now now) a), e, s)
           | None \<Rightarrow>
               if starts_with (backslash ''d '') t
               then execute_sql W F depth (''DESCRIBE '' @ trim_matches dquote (trim (drop 3 t))) a e s
               else Some (Inr (a\<lparr>ap_results := error_results (''Unknown command: '' @ cmd), ap_status := ''Error'',
                            ap_elapsed := elapsed_text now now\<rparr>), e, s))"

definition tui_run_query :: "'s world \<Rightarrow> array_format \<Rightarrow> nat \<Rightarrow> string \<Rightarrow> app \<Rightarrow> (app, 's) run" where
  "tui_run_query W F depth sql a =
     (if starts_with (backslash []) (trim sql) then run_meta_command W F depth sql a
      else execute_sql W F depth sql a)"

section \<open>The loop\<close>

definition preview_text :: "string \<Rightarrow> string" where
  "preview_text tbl = ''SELECT * FROM '' @ dquote # tbl @ dquote # '' LIMIT 100''"

definition preview :: "'s world \<Rightarrow> array_format \<Rightarrow> nat \<Rightarrow> string \<Rightarrow> app \<Rightarrow> (app, 's) run" where
  "preview W F depth tbl a =
     andRun (load_schema W depth tbl a) (\<lambda>a1. tui_run_query W F depth (preview_text tbl) a1)"

definition start_tui :: "'s world \<Rightarrow> array_format \<Rightarrow> nat \<Rightarrow> string option \<Rightarrow> (app, 's) run" where
  "start_tui W F depth history_file =
     andRun (load_tables W depth (new_app history_file)) (\<lambda>a.
     case ap_tables a of [] \<Rightarrow> runs (ok a) | tbl # _ \<Rightarrow> preview W F depth tbl a)"

text \<open>
  What a turn of the loop sees: the size of the terminal, and an event, if there is one. Drawing the
  input's lines can panic; so can a key.
\<close>

datatype tui_event = KeyPress modifiers key_code | MouseEvent mouse_event | NoEvent

definition frame_of :: "nat \<times> nat \<Rightarrow> rect" where
  "frame_of sz = \<lparr>rc_x = 0, rc_y = 0, rc_width = fst sz, rc_height = snd sz\<rparr>"

text \<open>\<^verbatim>\<open>terminal.draw\<close>: the interface with the areas of the frame.\<close>

definition terminal_draw :: "drawing \<Rightarrow> nat \<times> nat \<Rightarrow> app \<Rightarrow> app option" where
  "terminal_draw D sz a = map_option snd (draw D (frame_of sz) a)"

definition draw_then :: "drawing \<Rightarrow> nat \<times> nat \<Rightarrow> app \<Rightarrow> (app \<Rightarrow> ('a, 's) run) \<Rightarrow> ('a, 's) run" where
  "draw_then D sz a f = (case terminal_draw D sz a of None \<Rightarrow> runs (fail panic) | Some a1 \<Rightarrow> f a1)"

definition run_action :: "'s world \<Rightarrow> array_format \<Rightarrow> drawing \<Rightarrow> nat \<Rightarrow> nat \<times> nat \<Rightarrow> ui_action \<Rightarrow> app \<Rightarrow> (bool \<times> app, 's) run" where
  "run_action W F D depth sz act a =
     (case act of
        NoAction \<Rightarrow> runs (ok (True, a))
      | QuitApp \<Rightarrow> runs (ok (False, a))
      | ExecuteSql sql \<Rightarrow>
          draw_then D sz (a\<lparr>ap_status := ''Running...''\<rparr>) (\<lambda>a1.
          andRun (tui_run_query W F depth sql a1) (\<lambda>a2. runs (ok (True, a2))))
      | PreviewTable tbl \<Rightarrow>
          andRun (load_schema W depth tbl a) (\<lambda>a1.
          draw_then D sz (a1\<lparr>ap_status := ''Loading...''\<rparr>) (\<lambda>a2.
          andRun (tui_run_query W F depth (preview_text tbl) a2) (\<lambda>a3. runs (ok (True, a3))))))"

definition tui_turn ::
  "'s world \<Rightarrow> array_format \<Rightarrow> drawing \<Rightarrow> nat \<Rightarrow> (string \<Rightarrow> string \<Rightarrow> (string, unit) result) \<Rightarrow> nat \<times> nat \<Rightarrow> tui_event \<Rightarrow>
     app \<Rightarrow> (bool \<times> app, 's) run"
where
  "tui_turn W F D depth write_file sz ev a0 e s =
     draw_then D sz (tick_toast (w_clock W s) (a0\<lparr>ap_visible_height := snd sz - 7\<rparr>)) (\<lambda>a e s.
       case ev of
         NoEvent \<Rightarrow> Some (Inr (True, a), e, s)
       | MouseEvent me \<Rightarrow> Some (Inr (True, handle_mouse me a), e, s)
       | KeyPress m k \<Rightarrow>
           (case handle_key write_file (w_clock W s) m k a of
              None \<Rightarrow> Some (Inl panic, e, s)
            | Some (act, a1) \<Rightarrow> run_action W F D depth sz act a1 e s)) e s"

fun tui_loop ::
  "'s world \<Rightarrow> array_format \<Rightarrow> drawing \<Rightarrow> nat \<Rightarrow> (string \<Rightarrow> string \<Rightarrow> (string, unit) result) \<Rightarrow>
     ((nat \<times> nat) \<times> tui_event) list \<Rightarrow> app \<Rightarrow> (app, 's) run"
where
  "tui_loop W F D depth write_file [] a = runs (ok a)"
| "tui_loop W F D depth write_file ((sz, ev) # evs) a =
     andRun (tui_turn W F D depth write_file sz ev a) (\<lambda>(go_on, a1).
     if go_on then tui_loop W F D depth write_file evs a1 else runs (ok a1))"

end
