(* ===== verification/Tui_Props.thy ===== *)
theory Tui_Props
  imports Tui_Session Display_Props Run_Props
begin

text \<open>
  The terminal interface as a state machine: on ASCII input no sequence of keys makes it panic,
  and one other character does. Its exports and its history file are read back.
\<close>

section \<open>ASCII texts\<close>

definition ascii :: "string \<Rightarrow> bool" where
  "ascii s \<longleftrightarrow> (\<forall>c \<in> set s. code c < 128)"

lemma ascii_simps [simp]:
  "ascii []" "ascii (c # s) \<longleftrightarrow> code c < 128 \<and> ascii s" "ascii (a @ b) \<longleftrightarrow> ascii a \<and> ascii b"
  by (auto simp: ascii_def)

lemma ascii_part: "ascii s \<Longrightarrow> set t \<subseteq> set s \<Longrightarrow> ascii t"
  by (auto simp: ascii_def)

lemma ascii_take [simp]: "ascii s \<Longrightarrow> ascii (take n s)" and ascii_drop [simp]: "ascii s \<Longrightarrow> ascii (drop n s)"
  by (auto intro: ascii_part dest: in_set_takeD in_set_dropD)

lemma ascii_boundary [simp]: "ascii s \<Longrightarrow> is_char_boundary s i \<longleftrightarrow> i \<le> length s"
  using nth_mem [of i s] by (auto simp: is_char_boundary_def continuation_def ascii_def not_le)

lemma ascii_slice [simp]: "ascii s \<Longrightarrow> i \<le> j \<Longrightarrow> j \<le> length s \<Longrightarrow> str_slice s i j = Some (slice s i j)"
  by (simp add: str_slice_def)

lemma ascii_replace [simp]:
  "ascii s \<Longrightarrow> i \<le> j \<Longrightarrow> j \<le> length s \<Longrightarrow> replace_range s i j t = Some (take i s @ t @ drop j s)"
  by (simp add: replace_range_def)

lemma ascii_char_length: "ascii s \<Longrightarrow> s \<noteq> [] \<Longrightarrow> char_length s = 1"
  by (cases s; cases "tl s") (auto simp: char_length_def continuation_def)

lemma ascii_remove [simp]:
  "ascii s \<Longrightarrow> i < length s \<Longrightarrow> remove_char s i = Some (take i s @ drop (Suc i) s)"
  by (simp add: remove_char_def ascii_char_length)

lemma ascii_char_start [simp]: "ascii s \<Longrightarrow> k \<le> length s \<Longrightarrow> char_start s k = k"
  by (cases k) simp_all

section \<open>Drawing a line\<close>

lemma take_literal_fits: "length (fst (take_literal s)) \<le> length s"
  using take_literal_concat [of s] by (metis le_add1 length_append)

lemma next_span_fits: "snd (next_span c s) \<le> length s"
  by (simp add: next_span_def Let_def length_takeWhile_le take_literal_fits)

lemma ascii_spans: "ascii line \<Longrightarrow> spans_from line pos \<noteq> None"
proof (induction line pos rule: spans_from.induct)
  case (1 line pos)
  show ?case
  proof (cases "length line \<le> pos")
    case True
    then show ?thesis by (simp add: spans_from.simps)
  next
    case False
    let ?span = "next_span (line ! pos) (drop (Suc pos) line)"
    have fits: "pos + 1 + snd ?span \<le> length line"
      using next_span_fits [of "line ! pos" "drop (Suc pos) line"] False by simp
    have slice: "str_slice line pos (pos + 1 + snd ?span) = Some (slice line pos (pos + 1 + snd ?span))"
      using "1.prems" fits by (intro ascii_slice) simp_all
    have "spans_from line (pos + 1 + snd ?span) \<noteq> None"
      by (rule "1.IH" [OF False refl refl slice "1.prems"])
    then show ?thesis
      using False slice by (subst spans_from.simps) (simp add: Let_def)
  qed
qed

lemma those_Some: "(\<And>x. x \<in> set xs \<Longrightarrow> f x \<noteq> None) \<Longrightarrow> those (map f xs) \<noteq> None"
  by (induction xs) (auto split: option.split)

lemma draw_ascii: "(\<And>l. l \<in> set (ap_lines a) \<Longrightarrow> ascii l) \<Longrightarrow> draw_input a \<noteq> None"
  unfolding draw_input_def
  by (simp del: not_None_eq, intro impI those_Some) (simp add: highlight_sql_line_def ascii_spans del: not_None_eq)

section \<open>A good editor\<close>

definition input_ok :: "app \<Rightarrow> bool" where
  "input_ok a \<longleftrightarrow>
     (\<forall>l \<in> set (ap_lines a). ascii l) \<and> ap_row a < length (ap_lines a) \<and> ap_col a \<le> length (ap_lines a ! ap_row a)"

definition memory_ok :: "app \<Rightarrow> bool" where
  "memory_ok a \<longleftrightarrow>
     (\<forall>h \<in> set (ap_history a). ascii h) \<and> (\<forall>t \<in> set (ap_tables a). ascii t) \<and>
     (\<forall>cols \<in> set (hm_values (ap_schema_cache a)). \<forall>c \<in> set cols. ascii (fst c)) \<and>
     (\<forall>i. ap_history_pos a = Some i \<longrightarrow> i < length (ap_history a))"

definition completion_ok :: "app \<Rightarrow> bool" where
  "completion_ok a \<longleftrightarrow>
     (\<forall>c. ap_completion a = Some c \<longrightarrow> (\<forall>w \<in> set (cm_candidates c). ascii w) \<and> cm_start c \<le> ap_col a \<and>
       cm_index c < length (cm_candidates c))"

definition editor_ok :: "app \<Rightarrow> bool" where
  "editor_ok a \<longleftrightarrow> input_ok a \<and> memory_ok a \<and> completion_ok a"

text \<open>An operation that may panic does not, and keeps the editor good.\<close>

definition fine :: "app option \<Rightarrow> bool" where
  "fine m \<longleftrightarrow> (\<exists>a. m = Some a \<and> editor_ok a)"

lemma fine_Some [simp]: "fine (Some a) \<longleftrightarrow> editor_ok a"
  by (simp add: fine_def)

text \<open>The parts of the state that an editor is good by.\<close>

definition editor_view :: "app \<Rightarrow> string list \<times> nat \<times> nat \<times> string list \<times> nat option \<times> string list \<times>
    (string, (string \<times> string) list) hashmap \<times> completion option" where
  "editor_view a =
     (ap_lines a, ap_row a, ap_col a, ap_history a, ap_history_pos a, ap_tables a, ap_schema_cache a, ap_completion a)"

lemma editor_ok_view: "editor_view b = editor_view a \<Longrightarrow> editor_ok a \<Longrightarrow> editor_ok b"
  by (cases "ap_completion a")
    (simp_all add: editor_view_def editor_ok_def input_ok_def memory_ok_def completion_ok_def)

lemma current_line_ok [simp]: "input_ok a \<Longrightarrow> current_line a = Some (ap_lines a ! ap_row a)"
  by (simp add: current_line_def input_ok_def)

lemma input_okD:
  assumes "input_ok a"
  shows "ascii (ap_lines a ! ap_row a)" "ap_row a < length (ap_lines a)" "ap_col a \<le> length (ap_lines a ! ap_row a)"
    "l \<in> set (ap_lines a) \<Longrightarrow> ascii l" "i < length (ap_lines a) \<Longrightarrow> ascii (ap_lines a ! i)"
  using assms by (simp_all add: input_ok_def)

lemma edit_fine:
  assumes "editor_ok a" and "ap_completion a = None"
    and "f (ap_lines a ! ap_row a) (ap_col a) = Some (l, col)" and "ascii l" and "col \<le> length l"
  shows "fine (edit f a)"
proof -
  have i: "input_ok a" and m: "memory_ok a" using assms(1) by (simp_all add: editor_ok_def)
  have "\<forall>x \<in> set ((ap_lines a)[ap_row a := l]). ascii x"
    using assms(4) input_okD(4) [OF i] set_update_subset_insert [of "ap_lines a" "ap_row a" l] by auto
  then show ?thesis
    using assms i m
    by (simp add: edit_def set_line_def editor_ok_def input_ok_def memory_ok_def completion_ok_def)
qed


lemma fine_Some_if: "editor_ok a \<Longrightarrow> fine (Some a)"
  by simp

lemma set_trim: "set (trim s) \<subseteq> set s"
  using set_dropWhile_subset [of is_ws "rev (dropWhile is_ws s)"] set_dropWhile_subset [of is_ws s]
  by (simp add: trim_by_def trim_start_by_def trim_end_by_def)

lemma set_join: "set (join sep ss) \<subseteq> set sep \<union> (\<Union>x \<in> set ss. set x)"
  by (induction sep ss rule: join.induct) auto

lemma ascii_input_text: "input_ok a \<Longrightarrow> ascii (input_text a)"
  using set_join [of "[newline]" "ap_lines a"] by (force simp: input_text_def input_ok_def ascii_def)

lemma set_split_char: "p \<in> set (split_char c s) \<Longrightarrow> set p \<subseteq> set s"
proof (induction s arbitrary: p)
  case (Cons a s)
  then show ?case by (cases "split_char c s") (fastforce split: if_splits)+
qed simp

lemma ascii_split: "ascii s \<Longrightarrow> p \<in> set (split_char c s) \<Longrightarrow> ascii p"
  using set_split_char [of p c s] ascii_part by blast

lemma save_ok: "editor_ok a \<Longrightarrow> editor_ok (save_history_entry sql a)" if "ascii sql"
proof -
  have "ascii (trim sql)" using that set_trim [of sql] by (auto intro: ascii_part)
  then show "editor_ok a \<Longrightarrow> editor_ok (save_history_entry sql a)"
    by (cases "ap_completion a")
      (auto simp: save_history_entry_def Let_def editor_ok_def input_ok_def memory_ok_def completion_ok_def dest: in_set_dropD)
qed

lemma clear_ok: "editor_ok a \<Longrightarrow> editor_ok (clear_input a)"
  by (simp add: clear_input_def editor_ok_def input_ok_def memory_ok_def completion_ok_def)

lemma clear_pos_ok: "editor_ok a \<Longrightarrow> editor_ok (clear_input (a\<lparr>ap_history_pos := None\<rparr>))"
  by (simp add: clear_input_def editor_ok_def input_ok_def memory_ok_def completion_ok_def)

lemma try_execute_ok: "editor_ok a \<Longrightarrow> editor_ok (snd (try_execute a))"
  using save_ok [OF ascii_input_text, of a a] clear_ok
  by (auto simp: try_execute_def Let_def editor_ok_def [of a])


lemma edit_ok:
  assumes "editor_ok a" and "ap_completion a = None"
    and "\<And>line. line = ap_lines a ! ap_row a \<Longrightarrow> ascii line \<Longrightarrow> ap_col a \<le> length line \<Longrightarrow>
      \<exists>l col. f line (ap_col a) = Some (l, col) \<and> ascii l \<and> col \<le> length l"
  shows "fine (edit f a)"
proof -
  have i: "input_ok a" using assms(1) by (simp add: editor_ok_def)
  obtain l col where "f (ap_lines a ! ap_row a) (ap_col a) = Some (l, col)" "ascii l" "col \<le> length l"
    using assms(3) [OF refl input_okD(1) [OF i] input_okD(3) [OF i]] by blast
  then show ?thesis using edit_fine assms(1,2) by blast
qed

lemma editor_ok_no_completion: "editor_ok a \<Longrightarrow> editor_ok (a\<lparr>ap_completion := None\<rparr>)"
  by (simp add: editor_ok_def input_ok_def memory_ok_def completion_ok_def)

text \<open>New lines and a cursor that is in them.\<close>

lemma lines_ok:
  assumes "editor_ok a" and "ap_completion a = None"
    and "\<And>l. l \<in> set ls \<Longrightarrow> ascii l" and "row < length ls" and "col \<le> length (ls ! row)"
  shows "editor_ok (a\<lparr>ap_lines := ls, ap_row := row, ap_col := col\<rparr>)"
  using assms by (simp add: editor_ok_def input_ok_def memory_ok_def completion_ok_def)

lemma press_enter_ok:
  assumes ok: "editor_ok a" and nc: "ap_completion a = None"
  shows "fine (map_option snd (press_enter a))"
proof -
  have i: "input_ok a" using ok by (simp add: editor_ok_def)
  let ?line = "ap_lines a ! ap_row a"
  let ?ls = "take (ap_row a) (ap_lines a) @ [take (ap_col a) ?line, drop (ap_col a) ?line] @ drop (ap_row a + 1) (ap_lines a)"
  have "\<And>l. l \<in> set ?ls \<Longrightarrow> ascii l"
    using input_okD(1,4) [OF i] by (auto dest: in_set_takeD in_set_dropD)
  moreover have "?ls ! (ap_row a + 1) = drop (ap_col a) ?line"
    using input_okD(2) [OF i] by (simp add: nth_append)
  ultimately have "editor_ok (a\<lparr>ap_lines := ?ls, ap_row := ap_row a + 1, ap_col := 0\<rparr>)"
    using lines_ok [OF ok nc, of ?ls "ap_row a + 1" 0] input_okD(2) [OF i] by simp
  then have "fine (insert_newline a)"
    using i input_okD [OF i] by (simp add: insert_newline_def slice_def)
  then show ?thesis
    using try_execute_ok [OF ok] by (cases "try_execute a") (auto simp: press_enter_def Let_def fine_def)
qed

lemma kill_ok:
  assumes "editor_ok a" and "ap_completion a = None"
  shows "fine (edit kill_before a)" and "fine (edit kill_behind a)"
  by (rule edit_ok [OF assms]; simp add: kill_before_def kill_behind_def)+

lemma type_ok: "editor_ok a \<Longrightarrow> ap_completion a = None \<Longrightarrow> code c < 128 \<Longrightarrow> fine (edit (type_char [c]) a)"
  by (rule edit_ok) (simp_all add: type_char_def)

lemma backspace_ok:
  assumes ok: "editor_ok a" and nc: "ap_completion a = None"
  shows "fine (backspace a)"
proof -
  have i: "input_ok a" using ok by (simp add: editor_ok_def)
  consider "0 < ap_col a" | "ap_col a = 0" "0 < ap_row a" | "ap_col a = 0" "ap_row a = 0" by auto
  then show ?thesis
  proof cases
    case 1
    then show ?thesis
      unfolding backspace_def using edit_ok [OF ok nc] by simp
  next
    case 2
    let ?row = "ap_row a - 1"
    let ?ls = "take ?row (ap_lines a) @ [ap_lines a ! ?row @ ap_lines a ! ap_row a] @ drop (ap_row a + 1) (ap_lines a)"
    have "\<And>l. l \<in> set ?ls \<Longrightarrow> ascii l"
      using input_okD(1,2,4,5) [OF i] by (auto dest: in_set_takeD in_set_dropD)
    moreover have "?row < length (ap_lines a)" using input_okD(2) [OF i] by simp
    moreover from this have "?ls ! ?row = ap_lines a ! ?row @ ap_lines a ! ap_row a" by (simp add: nth_append)
    ultimately have "editor_ok (a\<lparr>ap_lines := ?ls, ap_row := ?row, ap_col := length (ap_lines a ! ?row)\<rparr>)"
      by (intro lines_ok [OF ok nc]) simp_all
    then show ?thesis using 2 i by (simp add: backspace_def Let_def)
  qed (use ok in \<open>simp add: backspace_def\<close>)
qed

lemma delete_ok:
  assumes ok: "editor_ok a" and nc: "ap_completion a = None"
  shows "fine (delete_key a)"
proof -
  have i: "input_ok a" using ok by (simp add: editor_ok_def)
  let ?line = "ap_lines a ! ap_row a"
  let ?ls = "take (ap_row a) (ap_lines a) @ [?line @ ap_lines a ! (ap_row a + 1)] @ drop (ap_row a + 2) (ap_lines a)"
  consider "ap_col a < length ?line" | "\<not> ap_col a < length ?line" "ap_row a + 1 < length (ap_lines a)"
    | "\<not> ap_col a < length ?line" "\<not> ap_row a + 1 < length (ap_lines a)" by blast
  then show ?thesis
  proof cases
    case 1
    then show ?thesis unfolding delete_key_def using i edit_ok [OF ok nc] by simp
  next
    case 2
    have "\<And>l. l \<in> set ?ls \<Longrightarrow> ascii l"
      using input_okD(1,4,5) [OF i] 2 by (auto dest: in_set_takeD in_set_dropD)
    moreover have "?ls ! ap_row a = ?line @ ap_lines a ! (ap_row a + 1)" "ap_row a < length ?ls"
      using input_okD(2) [OF i] by (simp_all add: nth_append)
    ultimately have "editor_ok (a\<lparr>ap_lines := ?ls, ap_row := ap_row a, ap_col := ap_col a\<rparr>)"
      using input_okD(3) [OF i] by (intro lines_ok [OF ok nc]) simp_all
    then show ?thesis using 2 i by (simp add: delete_key_def)
  qed (use ok i in \<open>simp add: delete_key_def\<close>)
qed


lemma move_ok:
  assumes "editor_ok a" and "ap_completion a = None" and "row < length (ap_lines a)" and "col \<le> length (ap_lines a ! row)"
  shows "editor_ok (a\<lparr>ap_row := row, ap_col := col\<rparr>)"
  using assms by (simp add: editor_ok_def input_ok_def memory_ok_def completion_ok_def)

lemma load_ok:
  assumes ok: "editor_ok a" and nc: "ap_completion a = None" and i: "i < length (ap_history a)"
    and row: "row < length (split_char newline (ap_history a ! i))"
    and col: "col \<le> length (split_char newline (ap_history a ! i) ! row)"
  shows "editor_ok ((load_entry (ap_history a ! i) a)\<lparr>ap_history_pos := Some i, ap_row := row, ap_col := col\<rparr>)"
proof -
  have "ascii (ap_history a ! i)" using ok i by (simp add: editor_ok_def memory_ok_def)
  then have "\<And>l. l \<in> set (split_char newline (ap_history a ! i)) \<Longrightarrow> ascii l" using ascii_split by blast
  then show ?thesis
    using assms by (auto simp: load_entry_def editor_ok_def input_ok_def memory_ok_def completion_ok_def)
qed

lemma press_up_ok:
  assumes ok: "editor_ok a" and nc: "ap_completion a = None"
  shows "fine (press_up a)"
proof -
  have i: "input_ok a" and m: "memory_ok a" using ok by (simp_all add: editor_ok_def)
  have "history_index a < length (ap_history a)" if "ap_history a \<noteq> []"
    using that m by (auto simp: history_index_def memory_ok_def split: option.split)
  then show ?thesis
    using move_ok [OF ok nc, of "ap_row a - 1"] load_ok [OF ok nc, of "history_index a"] input_okD(2) [OF i] ok
    by (auto simp: press_up_def Let_def load_entry_def)
qed

lemma press_down_ok:
  assumes ok: "editor_ok a" and nc: "ap_completion a = None"
  shows "fine (press_down a)"
  using move_ok [OF ok nc, of "ap_row a + 1"] load_ok [OF ok nc, of _ 0 0] clear_pos_ok [OF ok] ok
  by (auto simp: press_down_def split: option.split)

lemma press_left_ok:
  assumes ok: "editor_ok a" and nc: "ap_completion a = None"
  shows "fine (press_left a)"
proof -
  have i: "input_ok a" using ok by (simp add: editor_ok_def)
  show ?thesis
    using move_ok [OF ok nc, of "ap_row a" "ap_col a - 1"] move_ok [OF ok nc, of "ap_row a - 1"] input_okD(2,3) [OF i] ok
    by (auto simp: press_left_def)
qed

lemma press_right_ok:
  assumes ok: "editor_ok a" and nc: "ap_completion a = None"
  shows "fine (press_right a)"
proof -
  have i: "input_ok a" using ok by (simp add: editor_ok_def)
  show ?thesis
    using move_ok [OF ok nc, of "ap_row a" "ap_col a + 1"] move_ok [OF ok nc, of "ap_row a + 1" 0] input_okD(2,3) [OF i] ok i
    by (auto simp: press_right_def)
qed

section \<open>Completion\<close>

lemma ascii_case [simp]: "ascii s \<Longrightarrow> ascii (to_lowercase s)" "ascii s \<Longrightarrow> ascii (to_uppercase s)"
  by (auto simp: ascii_def to_lowercase_def to_uppercase_def code_low code_up is_upper_def)

lemma keywords_ascii: "w \<in> set tui_keywords \<Longrightarrow> ascii w"
proof -
  have "list_all ascii tui_keywords" by (simp add: tui_keywords_def)
  then show "w \<in> set tui_keywords \<Longrightarrow> ascii w" by (simp add: list_all_iff)
qed

lemma candidates_ascii: "memory_ok a \<Longrightarrow> w \<in> set (build_candidates a pre) \<Longrightarrow> ascii w"
  using keywords_ascii by (auto simp: build_candidates_def Let_def memory_ok_def split: if_splits)

lemma word_before_ok:
  assumes "input_ok a"
  shows "\<exists>start pre. word_before_cursor a = Some (start, pre) \<and> start \<le> ap_col a"
proof -
  let ?before = "take (ap_col a) (ap_lines a ! ap_row a)"
  note i = input_okD [OF assms]
  have "char_start ?before k + 1 \<le> ap_col a" if "rfind_char P ?before = Some k" for P k
  proof -
    from that obtain j where j: "find_char P (rev ?before) = Some j" "k = length ?before - 1 - j"
      by (auto simp: rfind_char_def)
    then have "j < length ?before" using find_char_Some [OF j(1)] by simp
    then show ?thesis using j i by simp
  qed
  then show ?thesis
    using i assms by (auto simp: word_before_cursor_def slice_def Let_def split: option.split)
qed

lemma put_word_ok:
  assumes ok: "editor_ok a" and w: "ascii w" and start: "start \<le> ap_col a"
    and c: "\<And>x. x \<in> set (cm_candidates c) \<Longrightarrow> ascii x" "cm_start c \<le> start + length w"
      "cm_index c < length (cm_candidates c)"
  shows "fine (map_option (\<lambda>l. (set_line l a)\<lparr>ap_col := start + length w, ap_completion := Some c\<rparr>)
      (replace_range (ap_lines a ! ap_row a) start (ap_col a) w))"
proof -
  have i: "input_ok a" and m: "memory_ok a" using ok by (simp_all add: editor_ok_def)
  let ?l = "take start (ap_lines a ! ap_row a) @ w @ drop (ap_col a) (ap_lines a ! ap_row a)"
  have "\<forall>x \<in> set ((ap_lines a)[ap_row a := ?l]). ascii x"
    using w input_okD(1,4) [OF i] set_update_subset_insert [of "ap_lines a" "ap_row a" ?l] by auto
  then show ?thesis
    using input_okD(1,2,3) [OF i] m c start
    by (simp add: set_line_def editor_ok_def input_ok_def memory_ok_def completion_ok_def)
qed

lemma tab_complete_ok: "editor_ok a \<Longrightarrow> fine (tab_complete a)"
proof -
  assume ok: "editor_ok a"
  then have i: "input_ok a" and m: "memory_ok a" and c: "completion_ok a" by (simp_all add: editor_ok_def)
  show "fine (tab_complete a)"
  proof (cases "ap_completion a")
    case None
    obtain start pre where w: "word_before_cursor a = Some (start, pre)" "start \<le> ap_col a"
      using word_before_ok [OF i] by blast
    show ?thesis
      using None w ok i candidates_ascii [OF m, of _ pre]
        put_word_ok [OF ok, of "hd (build_candidates a pre)" start
          "\<lparr>cm_start = start, cm_candidates = build_candidates a pre, cm_index = 0\<rparr>"]
      by (simp add: tab_complete_def Let_def)
  next
    case (Some cp)
    let ?i = "(cm_index cp + 1) mod length (cm_candidates cp)"
    have "cm_candidates cp \<noteq> [] \<Longrightarrow> ?i < length (cm_candidates cp)" by simp
    then show ?thesis
      using Some c i ok editor_ok_no_completion [OF ok]
        put_word_ok [OF ok, of "cm_candidates cp ! ?i" "cm_start cp" "cp\<lparr>cm_index := ?i\<rparr>"]
      by (auto simp: tab_complete_def Let_def completion_ok_def)
  qed
qed


section \<open>No panic on ASCII input\<close>

fun ascii_key :: "key_code \<Rightarrow> bool" where
  "ascii_key (KChar s) \<longleftrightarrow> (\<exists>c. s = [c] \<and> code c < 128)"
| "ascii_key _ \<longleftrightarrow> True"

text \<open>A key's action, if it does not panic, and the editor it leaves.\<close>

definition key_fine :: "(ui_action \<times> app) option \<Rightarrow> bool" where
  "key_fine r \<longleftrightarrow> (\<exists>act a. r = Some (act, a) \<and> editor_ok a)"

lemma key_fine_simps [simp]:
  "key_fine (Some (act, a)) \<longleftrightarrow> editor_ok a" "key_fine (silently m) \<longleftrightarrow> fine m"
  by (auto simp: key_fine_def fine_def silently_def)

lemma key_fine_Some [simp]: "key_fine (Some p) \<longleftrightarrow> editor_ok (snd p)"
  by (cases p) simp

lemma press_enter_fine: "fine (map_option snd r) \<Longrightarrow> key_fine r"
  by (auto simp: fine_def key_fine_def)

lemma query_key_ok:
  assumes "editor_ok a0" and k: "ascii_key k"
  shows "key_fine (handle_query_key m k a0)"
proof -
  let ?a = "a0\<lparr>ap_completion := None\<rparr>"
  have ok: "editor_ok ?a" and nc: "ap_completion ?a = None"
    using editor_ok_no_completion [OF assms(1)] by simp_all
  have i: "input_ok ?a" using ok by (simp add: editor_ok_def)
  have "editor_ok (?a\<lparr>ap_col := 0\<rparr>)" "editor_ok (?a\<lparr>ap_col := length (ap_lines ?a ! ap_row ?a)\<rparr>)"
    using move_ok [OF ok nc, of "ap_row ?a" 0] move_ok [OF ok nc, of "ap_row ?a" "length (ap_lines ?a ! ap_row ?a)"]
      input_okD(2) [OF i] by simp_all
  then show ?thesis
    using k ok i try_execute_ok [OF ok] kill_ok [OF ok nc] clear_ok [OF ok] press_enter_fine [OF press_enter_ok [OF ok nc]]
      press_up_ok [OF ok nc] press_down_ok [OF ok nc] press_left_ok [OF ok nc] press_right_ok [OF ok nc]
      backspace_ok [OF ok nc] delete_ok [OF ok nc] type_ok [OF ok nc]
    by (cases k) (auto simp: handle_query_key_def Let_def)
qed

lemma other_keys_ok:
  "editor_ok a \<Longrightarrow> editor_ok (snd (handle_sidebar_key k a))"
  "editor_ok a \<Longrightarrow> editor_ok (handle_results_key k a)"
  "editor_ok a \<Longrightarrow> editor_ok (handle_export_key w now k a)"
  "editor_ok a \<Longrightarrow> editor_ok (request_export now a)"
  "editor_ok a \<Longrightarrow> editor_ok (handle_mouse ev a)"
  "editor_ok a \<Longrightarrow> editor_ok (tick_toast now a)"
  by (erule editor_ok_view [rotated];
      simp add: editor_view_def handle_sidebar_key_def handle_results_key_def handle_export_key_def next_format_def
        set_toast_def request_export_def handle_mouse_def tick_toast_def Let_def
      split: key_code.split mouse_event.split option.split prod.split)+

lemma handle_key_ok:
  assumes ok: "editor_ok a" and k: "ascii_key k"
  shows "key_fine (handle_key w now m k a)"
proof -
  have same: "editor_ok (a\<lparr>ap_popup := p\<rparr>)" "editor_ok (a\<lparr>ap_focus := f\<rparr>)"
    "editor_ok (a\<lparr>ap_results := r, ap_selected := None\<rparr>)" for p f r
    by (rule editor_ok_view [OF _ ok]; simp add: editor_view_def)+
  have "key_fine (handle_query_key m k a)" using query_key_ok [OF ok k] .
  then show ?thesis
    using ok same other_keys_ok [OF ok] tab_complete_ok [OF ok]
    by (auto simp: handle_key_def split: focus.split)
qed

lemma drawing_keeps:
  assumes "terminal_draw D sz a = Some b"
  shows "editor_view b = editor_view a" "ap_focus b = ap_focus a" "ap_popup b = ap_popup a"
  using assms by (auto simp: terminal_draw_def draw_def place_def editor_view_def Let_def)

lemma draw_input_place [simp]: "draw_input (place L frame a) = draw_input a"
proof -
  have "ap_lines (place L frame a) = ap_lines a" "ap_focus (place L frame a) = ap_focus a"
    by (simp_all add: place_def Let_def)
  then show ?thesis by (simp only: draw_input_def)
qed

lemma draw_panics: "terminal_draw D sz a = None \<longleftrightarrow> draw_input a = None"
  by (simp add: terminal_draw_def draw_def draw_query_input_def Let_def)

lemma answers_ok:
  "editor_ok a \<Longrightarrow> editor_ok ((show_result F started now e r a)\<lparr>ap_h_scroll := 0\<rparr>)"
  "editor_ok a \<Longrightarrow> editor_ok (toggle_timing now a)"
  "editor_ok a \<Longrightarrow> editor_ok (set_meta_results headers rows elapsed a)"
  "editor_ok a \<Longrightarrow> editor_ok (a\<lparr>ap_status := status, ap_spinner := spinner\<rparr>)"
  by (erule editor_ok_view [rotated];
      simp add: editor_view_def show_result_def set_toast_def toggle_timing_def set_meta_results_def Let_def
      split: sum.split query_result.split)+

text \<open>What happens to the interface: keys, the mouse, frames, and the engine's answers.\<close>

inductive ui_step :: "(string \<Rightarrow> string \<Rightarrow> (string, unit) result) \<Rightarrow> app \<Rightarrow> app \<Rightarrow> bool"
  for w where
  pressed: "ascii_key k \<Longrightarrow> handle_key w now m k a = Some (act, b) \<Longrightarrow> ui_step w a b"
| moused: "ui_step w a (handle_mouse ev a)"
| ticked: "ui_step w a (tick_toast now (a\<lparr>ap_visible_height := height\<rparr>))"
| drawn: "terminal_draw D sz a = Some b \<Longrightarrow> ui_step w a b"
| answered: "ui_step w a ((show_result F started now e r a)\<lparr>ap_h_scroll := 0\<rparr>)"
| tables_listed: "list_all ascii ts \<Longrightarrow> ui_step w a (show_tables ts a)"
| columns_listed: "list_all (\<lambda>c. ascii (fst c)) cols \<Longrightarrow>
    ui_step w a (a\<lparr>ap_schema_cache := hm_insert tbl cols (ap_schema_cache a)\<rparr>)"
| timing_toggled: "ui_step w a (toggle_timing now a)"
| meta_listed: "ui_step w a (set_meta_results headers rows elapsed a)"
| running: "ui_step w a (a\<lparr>ap_status := status, ap_spinner := spinner\<rparr>)"

lemma hm_values_insert: "set (hm_values (hm_insert k v m)) \<subseteq> insert v (set (hm_values m))"
  using set_hm_insert [of k v m] by (force simp: hm_values_def)

lemma ui_step_ok: "ui_step w a b \<Longrightarrow> editor_ok a \<Longrightarrow> editor_ok b"
proof (induction rule: ui_step.induct)
  case (pressed k now m a act b)
  then show ?case using handle_key_ok [of a k w now m] by simp
next
  case (ticked a now height)
  have "editor_ok (a\<lparr>ap_visible_height := height\<rparr>)"
    using ticked by (rule editor_ok_view [rotated]) (simp add: editor_view_def)
  then show ?case by (rule other_keys_ok)
next
  case (drawn D sz a b)
  then show ?case by (auto intro: editor_ok_view simp: drawing_keeps)
next
  case (tables_listed ts a)
  then show ?case
    by (auto simp: show_tables_def editor_ok_def input_ok_def memory_ok_def completion_ok_def list_all_iff)
next
  case (columns_listed cols a tbl)
  let ?m = "hm_insert tbl cols (ap_schema_cache a)"
  have "\<forall>cs \<in> set (hm_values ?m). \<forall>c \<in> set cs. ascii (fst c)"
    using columns_listed hm_values_insert [of tbl cols "ap_schema_cache a"]
    unfolding editor_ok_def memory_ok_def list_all_iff by blast
  then show ?case
    using columns_listed by (simp add: editor_ok_def input_ok_def memory_ok_def completion_ok_def)
qed (simp_all add: other_keys_ok answers_ok)

lemma set_replace: "set (replace_matches p r s) \<subseteq> set r \<union> set s"
proof (induction p r s rule: replace_matches.induct)
  case (1 p r s)
  consider "s = [] \<or> p = []" | "s \<noteq> []" "p \<noteq> []" "starts_with p s" | "s \<noteq> []" "p \<noteq> []" "\<not> starts_with p s" by blast
  then show ?case
  proof cases
    case 1
    then show ?thesis by (auto simp: replace_matches.simps)
  next
    case 2
    then show ?thesis
      using "1.IH"(1) set_drop_subset [of "length p" s] by (auto simp: replace_matches.simps [of p r s])
  next
    case 3
    then have "set (tl s) \<subseteq> set s" "hd s \<in> set s" by (auto dest: list.set_sel(2))
    then show ?thesis
      using 3 "1.IH"(2) by (auto simp: replace_matches.simps [of p r s])
  qed
qed

lemma new_app_ok: "(\<forall>h. history = Some h \<longrightarrow> ascii h) \<Longrightarrow> editor_ok (new_app history)"
proof -
  assume h: "\<forall>h. history = Some h \<longrightarrow> ascii h"
  have "ascii l" if "ascii t" "l \<in> set (read_history t)" for t l
  proof -
    have "\<exists>p \<in> set (split_char newline t). x = p \<or> x = strip_cr p" if "x \<in> set (str_lines t)" for x
      using that last_in_set [of "split_char newline t"]
      by (auto simp: str_lines_def Let_def dest: in_set_butlastD split: if_splits)
    with that(2) obtain p where p: "p \<in> set (split_char newline t)" "l = replace_str backslash_n [newline] p \<or>
        l = replace_str backslash_n [newline] (strip_cr p)"
      by (auto simp: read_history_def)
    have "set (strip_cr p) \<subseteq> set p" by (auto simp: strip_cr_def dest: in_set_butlastD)
    then have "set l \<subseteq> {newline} \<union> set p"
      using p(2) set_replace [of backslash_n "[newline]"] by (auto simp: replace_str_def backslash_n_def dest!: subsetD)
    then show ?thesis using ascii_split [OF that(1) p(1)] by (auto simp: ascii_def)
  qed
  then show ?thesis
    using h by (cases history)
      (auto simp: new_app_def editor_ok_def input_ok_def memory_ok_def completion_ok_def hm_values_def)
qed

lemma reached_ok:
  "rtranclp (ui_step w) (new_app history) a \<Longrightarrow> \<forall>h. history = Some h \<longrightarrow> ascii h \<Longrightarrow> editor_ok a"
  by (induction rule: rtranclp_induct) (simp_all add: new_app_ok ui_step_ok)

text \<open>
  C13. While the keys, the history file and the names of the database are ASCII, the terminal
  interface cannot panic: whatever happened to it since it started, it can be drawn at every size and
  no ASCII key makes a handler index or slice out of range.
\<close>
theorem ascii_input_never_panics:
  assumes "rtranclp (ui_step w) (new_app history) a" and "\<forall>h. history = Some h \<longrightarrow> ascii h"
  shows "(\<forall>D sz. terminal_draw D sz a \<noteq> None) \<and> (\<forall>now m k. ascii_key k \<longrightarrow> handle_key w now m k a \<noteq> None)"
proof -
  have ok: "editor_ok a" using reached_ok assms .
  then have "draw_input a \<noteq> None" by (intro draw_ascii) (simp add: editor_ok_def input_ok_def)
  then have "terminal_draw D sz a \<noteq> None" for D sz unfolding draw_panics .
  moreover have "handle_key w now m k a \<noteq> None" if "ascii_key k" for now m k
    using handle_key_ok [OF ok that, of w now m] by (auto simp: key_fine_def)
  ultimately show ?thesis by blast
qed

definition typed_app :: app where
  "typed_app = (case handle_key (\<lambda>_ _. Inr ()) 0 NoMods (KChar ''s'') (new_app (Some ''a'')) of
     Some (_, a) \<Rightarrow> a | None \<Rightarrow> new_app None)"

theorem ascii_input_never_panics_witness: "(\<forall>D sz. terminal_draw D sz typed_app \<noteq> None) \<and> ap_lines typed_app = [''s'']"
proof -
  have "\<exists>act. handle_key (\<lambda>_ _. Inr ()) 0 NoMods (KChar ''s'') (new_app (Some ''a'')) = Some (act, typed_app)"
    by (simp add: typed_app_def handle_key_def new_app_def handle_query_key_def silently_def edit_def current_line_def
        type_char_def replace_range_def set_line_def is_char_boundary_def)
  then obtain act where "handle_key (\<lambda>_ _. Inr ()) 0 NoMods (KChar ''s'') (new_app (Some ''a'')) = Some (act, typed_app)"
    by blast
  from ui_step.pressed [OF _ this]
  have "ui_step (\<lambda>_ _. Inr ()) (new_app (Some ''a'')) typed_app" by simp
  then have "rtranclp (ui_step (\<lambda>_ _. Inr ())) (new_app (Some ''a'')) typed_app" by (rule r_into_rtranclp)
  from ascii_input_never_panics [OF this] have "\<forall>D sz. terminal_draw D sz typed_app \<noteq> None" by (simp del: not_None_eq)
  moreover have "ap_lines typed_app = [''s'']"
    by (simp add: typed_app_def handle_key_def new_app_def handle_query_key_def silently_def edit_def current_line_def
        type_char_def replace_range_def set_line_def is_char_boundary_def)
  ultimately show ?thesis ..
qed

section \<open>A panic\<close>

lemma no_toast_fields [simp]:
  "ap_lines (tick_toast now a) = ap_lines a" "ap_row (tick_toast now a) = ap_row a" "ap_col (tick_toast now a) = ap_col a"
  "ap_focus (tick_toast now a) = ap_focus a" "ap_popup (tick_toast now a) = ap_popup a"
  by (auto simp: tick_toast_def split: option.split)

lemma split_character:
  assumes "128 \<le> code c" and "continuation d"
  shows "highlight_sql_line (c # d # r) = None"
proof -
  have "c \<noteq> quote" "c \<noteq> CHR ''-''" using assms(1) by auto
  then have "next_span c (d # r) = (OtherStyle, 0)"
    using assms(1) by (auto simp: next_span_def is_ascii_ws_def is_digit_def word_byte_def is_alnum_def is_upper_def is_lower_def)
  then show ?thesis
    using assms(2) spans_from.simps [of "c # d # r" 0]
    by (simp add: highlight_sql_line_def str_slice_def is_char_boundary_def)
qed

text \<open>
  One character outside ASCII is enough: typed into the empty input, it makes the drawing of
  the next frame slice inside of it, which ends the interface in a panic.
\<close>
theorem other_characters_panic:
  assumes "ch = c # d # r" and "128 \<le> code c" and "continuation d"
    and "ap_popup a = NoPopup" and "ap_focus a = QueryInput"
    and "ap_lines a = [[]]" and "ap_row a = 0" and "ap_col a = 0"
  shows "tui_loop W F D depth w [(sz1, KeyPress NoMods (KChar ch)), (sz2, ev)] a e s = Some (Inl panic, e, s)"
proof -
  let ?t = "tick_toast (w_clock W s) (a\<lparr>ap_visible_height := snd sz1 - 7\<rparr>)"
  have "draw_input ?t \<noteq> None" using assms by (simp add: draw_input_def)
  then obtain b where drawn: "terminal_draw D sz1 ?t = Some b" using draw_panics [of D sz1 ?t] by (cases "terminal_draw D sz1 ?t") auto
  let ?b = "b\<lparr>ap_completion := None, ap_lines := [ch], ap_col := 1\<rparr>"
  have b: "ap_lines b = [[]]" "ap_row b = 0" "ap_col b = 0" "ap_focus b = QueryInput" "ap_popup b = NoPopup"
    using assms drawing_keeps [OF drawn] by (simp_all add: editor_view_def)
  have "handle_key w (w_clock W s) NoMods (KChar ch) b = Some (NoAction, ?b)"
    using b assms(1) by (simp add: handle_key_def handle_query_key_def silently_def edit_def current_line_def type_char_def
        replace_range_def is_char_boundary_def set_line_def)
  then have "tui_turn W F D depth w sz1 (KeyPress NoMods (KChar ch)) a e s = Some (Inr (True, ?b), e, s)"
    using drawn by (simp add: tui_turn_def draw_then_def run_action_def runs_def ok_def)
  moreover have "draw_input (tick_toast (w_clock W s) (?b\<lparr>ap_visible_height := snd sz2 - 7\<rparr>)) = None"
    using assms(1) split_character [OF assms(2,3)] by (simp add: draw_input_def)
  then have "tui_turn W F D depth w sz2 ev ?b e s = Some (Inl panic, e, s)"
    unfolding draw_panics [of D sz2, symmetric] by (simp add: tui_turn_def draw_then_def runs_def fail_def)
  ultimately show ?thesis by (simp add: andRun_def)
qed

definition sample_drawing :: drawing where
  "sample_drawing = \<lparr>dw_theme = Potato, dw_url = ''/d'',
     dw_layout = \<lparr>ly_vertical = (\<lambda>_ area _. area), ly_horizontal = (\<lambda>_ area _. area)\<rparr>\<rparr>"

theorem other_characters_panic_witness:
  "tui_loop idle_world sample_format sample_drawing 0 (\<lambda>_ _. Inr ())
     [((80, 20), KeyPress NoMods (KChar [CHR 0xC3, CHR 0xA9])), ((80, 20), NoEvent)] (new_app None) bare_engine () =
     Some (Inl panic, bare_engine, ())"
  by (rule other_characters_panic [OF refl]) (simp_all add: new_app_def continuation_def)


section \<open>The history file\<close>

lemma replace_char: "replace_str [x] r s = concat (map (\<lambda>c. if c = x then r else [c]) s)"
proof -
  have "replace_matches [x] r s = concat (map (\<lambda>c. if c = x then r else [c]) s)"
  proof (induction s)
    case (Cons c s)
    then show ?case by (subst replace_matches.simps) (simp add: starts_with_def)
  qed (subst replace_matches.simps, simp)
  then show ?thesis by (simp add: replace_str_def)
qed

text \<open>No backslash with an \<open>n\<close> behind it, which is what a line break of an entry is saved as.\<close>

fun no_escape :: "string \<Rightarrow> bool" where
  "no_escape [] \<longleftrightarrow> True"
| "no_escape (c # s) \<longleftrightarrow> (c = CHR 0x5C \<longrightarrow> s = [] \<or> hd s \<noteq> CHR ''n'') \<and> no_escape s"

abbreviation escaped :: "string \<Rightarrow> string" where
  "escaped s \<equiv> concat (map (\<lambda>c. if c = newline then backslash_n else [c]) s)"

lemma escape_ahead: "s = [] \<or> hd s \<noteq> CHR ''n'' \<Longrightarrow> escaped s = [] \<or> hd (escaped s) \<noteq> CHR ''n''"
  by (cases s) (auto simp: backslash_n_def)

lemma starts_escape: "starts_with backslash_n (c # t) \<longleftrightarrow> c = CHR 0x5C \<and> t \<noteq> [] \<and> hd t = CHR ''n''"
  by (cases t) (auto simp: starts_with_def backslash_n_def)

lemma unescape_escaped:
  "replace_matches backslash_n [newline] (escaped s) = replace_matches backslash_n [newline] s"
proof (induction "length s" arbitrary: s rule: less_induct)
  case less
  show ?case
  proof (cases s)
    case (Cons c t)
    have t: "replace_matches backslash_n [newline] (escaped t) = replace_matches backslash_n [newline] t"
      using less Cons by simp
    consider "c = newline" | "c = CHR 0x5C" "t \<noteq> [] \<and> hd t = CHR ''n''"
      | "c \<noteq> newline" "c = CHR 0x5C \<longrightarrow> t = [] \<or> hd t \<noteq> CHR ''n''" by blast
    then show ?thesis
    proof cases
      case 1
      then show ?thesis
        using t Cons by (simp add: replace_matches.simps [of _ _ "_ # _"] starts_with_def backslash_n_def)
    next
      case 2
      then obtain u where u: "t = CHR ''n'' # u" by (cases t) auto
      then have "replace_matches backslash_n [newline] (escaped u) = replace_matches backslash_n [newline] u"
        using less Cons by simp
      then show ?thesis
        using Cons u 2(1) by (simp add: replace_matches.simps [of _ _ "_ # _ # _"] starts_with_def backslash_n_def)
    next
      case 3
      then have "\<not> starts_with backslash_n (c # escaped t)" "\<not> starts_with backslash_n (c # t)"
        using escape_ahead [of t] unfolding starts_escape by auto
      then have "replace_matches backslash_n [newline] (c # escaped t) = c # replace_matches backslash_n [newline] (escaped t)"
        "replace_matches backslash_n [newline] (c # t) = c # replace_matches backslash_n [newline] t"
        by (subst replace_matches.simps, simp add: backslash_n_def)+
      then show ?thesis using t Cons 3(1) by simp
    qed
  qed simp
qed

lemma nothing_to_unescape: "no_escape s \<Longrightarrow> replace_matches backslash_n [newline] s = s"
proof (induction s)
  case (Cons c s)
  then have "\<not> starts_with backslash_n (c # s)" unfolding starts_escape by auto
  then show ?case using Cons by (subst replace_matches.simps) (simp add: backslash_n_def)
qed (simp add: replace_matches.simps)

lemma escaped_one_line: "newline \<notin> set (escaped s)"
  by (auto simp: backslash_n_def)

lemma escaped_end: "strip_cr (escaped s) = escaped (strip_cr s)"
  by (cases s rule: rev_cases) (auto simp: strip_cr_def backslash_n_def)

text \<open>What becomes of an entry in the file: a literal escape is a line break, a carriage return at its end is gone.\<close>

definition reloaded :: "string \<Rightarrow> string" where
  "reloaded s = replace_str backslash_n [newline] (strip_cr s)"

lemma reloaded_same: "no_escape s \<Longrightarrow> s = [] \<or> last s \<noteq> CHR 13 \<Longrightarrow> reloaded s = s"
  by (auto simp: reloaded_def strip_cr_def replace_str_def backslash_n_def nothing_to_unescape [unfolded backslash_n_def])

lemma history_roundtrip: "read_history (history_text h) = map reloaded h"
proof -
  have "split_char newline (history_text h) = map escaped h @ [[]]"
    using split_lines [of "map escaped h"] escaped_one_line
    by (simp add: history_text_def replace_char o_def)
  then have "str_lines (history_text h) = map (\<lambda>en. escaped (strip_cr en)) h" by (simp add: str_lines_def escaped_end)
  moreover have "replace_str backslash_n [newline] (escaped s) = replace_str backslash_n [newline] s" for s
    using unescape_escaped [of s] by (simp add: replace_str_def backslash_n_def)
  ultimately show ?thesis by (simp add: read_history_def reloaded_def)
qed

text \<open>
  C33. What is entered is there at the next start: after a statement is saved to the history file, its
  trimmed text is the last entry, and an interface started on that file has the same entries in the same
  order. Each is as it was, line breaks included, unless it ends in a carriage return or has a
  backslash with an \<open>n\<close> behind it, which comes back as a line break.
\<close>
theorem history_survives_a_restart:
  assumes "trim sql \<noteq> []" and "ap_history_file a \<noteq> None"
  shows "(\<exists>before. ap_history (save_history_entry sql a) = before @ [trim sql])
    \<and> ap_history (new_app (ap_history_file (save_history_entry sql a))) = map reloaded (ap_history (save_history_entry sql a))
    \<and> (\<forall>en. no_escape en \<and> (en = [] \<or> last en \<noteq> CHR 13) \<longrightarrow> reloaded en = en)"
proof -
  let ?h = "ap_history (save_history_entry sql a)"
  have "ap_history_file (save_history_entry sql a) = Some (history_text ?h)"
    using assms by (auto simp: save_history_entry_def Let_def)
  moreover have "?h \<noteq> [] \<and> last ?h = trim sql"
    using assms(1)
    by (cases "ap_history a = []") (auto simp: save_history_entry_def Let_def history_max_def last_drop not_le
        simp flip: length_greater_0_conv)
  then have "?h = butlast ?h @ [trim sql]" by (metis append_butlast_last_id)
  ultimately show ?thesis
    using reloaded_same by (auto simp: new_app_def history_roundtrip)
qed

theorem history_survives_a_restart_witness:
  "ap_history (new_app (ap_history_file (save_history_entry ''SELECT 1;'' (new_app (Some []))))) = [''SELECT 1;'']"
proof -
  have "trim ''SELECT 1;'' = ''SELECT 1;''" by (rule trim_by_id) (simp_all add: is_ws_def)
  moreover have "ap_history (new_app (Some [])) = []" by (simp add: new_app_def read_history_def str_lines_def)
  ultimately have "ap_history (save_history_entry ''SELECT 1;'' (new_app (Some []))) = [''SELECT 1;'']"
    by (simp add: save_history_entry_def Let_def history_max_def)
  then show ?thesis
    using history_survives_a_restart [of "''SELECT 1;''" "new_app (Some [])"] \<open>trim _ = _\<close> by (simp add: new_app_def)
qed

section \<open>Exported tables\<close>

text \<open>A reader of comma separated values, whose records end with a line break.\<close>

fun csv_quoted :: "string \<Rightarrow> string \<times> string" where
  "csv_quoted [] = ([], [])"
| "csv_quoted (c # s) =
     (if c = dquote
      then if s \<noteq> [] \<and> hd s = dquote then (dquote # fst (csv_quoted (tl s)), snd (csv_quoted (tl s))) else ([], s)
      else (c # fst (csv_quoted s), snd (csv_quoted s)))"

abbreviation csv_inner :: "char \<Rightarrow> bool" where
  "csv_inner c \<equiv> c \<noteq> CHR '','' \<and> c \<noteq> newline"

definition csv_read_field :: "string \<Rightarrow> string \<times> string" where
  "csv_read_field s =
     (if s \<noteq> [] \<and> hd s = dquote then csv_quoted (tl s) else (takeWhile csv_inner s, dropWhile csv_inner s))"

lemma csv_quoted_length: "length (snd (csv_quoted s)) \<le> length s"
proof (induction s rule: csv_quoted.induct)
  case (2 c s)
  then show ?case by (cases "s \<noteq> [] \<and> hd s = dquote") force+
qed simp

lemma csv_rest: "snd (csv_read_field s) = c # t \<Longrightarrow> length t < length s"
proof -
  assume r: "snd (csv_read_field s) = c # t"
  have "length (snd (csv_read_field s)) \<le> length s"
  proof (cases "s \<noteq> [] \<and> hd s = dquote")
    case True
    then show ?thesis using csv_quoted_length [of "tl s"] by (simp add: csv_read_field_def)
  next
    case False
    then have "csv_read_field s = (takeWhile csv_inner s, dropWhile csv_inner s)" by (auto simp: csv_read_field_def)
    then show ?thesis using length_dropWhile_le [of csv_inner s] by simp
  qed
  then show ?thesis by (simp add: r)
qed

function csv_record :: "string \<Rightarrow> string list \<times> string" where
  "csv_record s =
     (case snd (csv_read_field s) of
        [] \<Rightarrow> ([fst (csv_read_field s)], [])
      | c # t \<Rightarrow> if c = CHR '','' then (fst (csv_read_field s) # fst (csv_record t), snd (csv_record t))
               else ([fst (csv_read_field s)], t))"
  by pat_completeness auto
termination
  by (relation "measure length") (auto dest: csv_rest)

declare csv_record.simps [simp del]

lemma csv_record_length: "s \<noteq> [] \<Longrightarrow> length (snd (csv_record s)) < length s"
proof (induction s rule: csv_record.induct)
  case (1 s)
  show ?case
  proof (cases "snd (csv_read_field s)")
    case Nil
    then show ?thesis using 1 by (subst csv_record.simps) simp
  next
    case (Cons c t)
    then have "length t < length s" by (rule csv_rest)
    moreover have "length (snd (csv_record t)) \<le> length t" if "c = CHR '',''"
      using 1(1) [OF Cons that] by (cases "t = []") (auto simp: csv_record.simps [of "[]"] csv_read_field_def)
    ultimately show ?thesis using Cons by (subst csv_record.simps) auto
  qed
qed

function csv_table :: "string \<Rightarrow> string list list" where
  "csv_table s = (if s = [] then [] else fst (csv_record s) # csv_table (snd (csv_record s)))"
  by pat_completeness auto
termination
  by (relation "measure length") (simp_all add: csv_record_length)

declare csv_table.simps [simp del]


lemma csv_quoted_back:
  "t = [] \<or> hd t \<noteq> dquote \<Longrightarrow>
     csv_quoted (concat (map (\<lambda>c. if c = dquote then [dquote, dquote] else [c]) f) @ dquote # t) = (f, t)"
  by (induction f) auto

lemma csv_plain_back:
  "\<forall>c \<in> set f. csv_inner c \<Longrightarrow> f = [] \<or> hd f \<noteq> dquote \<Longrightarrow> \<not> csv_inner d \<Longrightarrow> csv_read_field (f @ d # t) = (f, d # t)"
  by (cases f) (auto simp: csv_read_field_def takeWhile_append2 dropWhile_append2)

lemma csv_field_back:
  assumes "\<not> csv_inner d"
  shows "csv_read_field (csv_field f @ d # t) = (f, d # t)"
proof (cases "CHR '','' \<in> set f \<or> dquote \<in> set f \<or> newline \<in> set f")
  case True
  then show ?thesis
    using assms csv_quoted_back [of "d # t" f]
    by (auto simp: csv_field_def csv_read_field_def replace_char)
next
  case False
  then have "\<forall>c \<in> set f. csv_inner c" "f = [] \<or> hd f \<noteq> dquote" by (auto dest: hd_in_set)
  then show ?thesis using csv_plain_back [OF _ _ assms, of f t] False by (simp add: csv_field_def)
qed

text \<open>A row of texts that are each read back.\<close>

lemma csv_record_back:
  assumes "fs \<noteq> []" and "\<And>f d s. f \<in> set fs \<Longrightarrow> \<not> csv_inner d \<Longrightarrow> csv_read_field (w f @ d # s) = (f, d # s)"
  shows "csv_record (join '','' (map w fs) @ newline # t) = (fs, t)"
  using assms
proof (induction fs rule: induct_list012)
  case (2 f)
  then show ?case by (subst csv_record.simps) simp
next
  case (3 f g fs)
  then show ?case by (subst csv_record.simps) simp
qed simp

text \<open>Column names are written as they are; the parts between their commas are what is read.\<close>

abbreviation name_parts :: "string list \<Rightarrow> string list" where
  "name_parts hs \<equiv> concat (map (split_char (CHR '','')) hs)"

lemma join_longer [simp]: "join sep ((a # x) # xs) = a # join sep (x # xs)"
  by (cases xs) simp_all

lemma join_parts: "join '','' (split_char (CHR '','') h) = h"
  by (induction h) (auto simp: neq_Nil_conv split: list.split dest: arg_cong [of _ _ hd])

lemma join_append: "a \<noteq> [] \<Longrightarrow> b \<noteq> [] \<Longrightarrow> join sep (a @ b) = join sep a @ sep @ join sep b"
proof (induction a rule: induct_list012)
  case (2 x)
  then show ?case by (cases b) auto
next
  case (3 x y zs)
  then show ?case by simp
qed simp

lemma join_name_parts: "join '','' (name_parts hs) = join '','' hs"
proof (induction hs rule: induct_list012)
  case (2 h)
  then show ?case by (simp add: join_parts)
next
  case (3 h g hs)
  then show ?case by (simp add: join_append join_parts del: join.simps(3)) simp
qed simp

lemma part_characters: "p \<in> set (split_char c s) \<Longrightarrow> x \<in> set p \<Longrightarrow> x \<noteq> c \<and> x \<in> set s"
proof (induction s arbitrary: p)
  case (Cons a s)
  show ?case
  proof (cases "a = c \<or> split_char c s = []")
    case True
    with Cons show ?thesis by (auto split: if_splits)
  next
    case False
    then obtain q qs where q: "split_char c s = q # qs" by (meson neq_Nil_conv)
    with Cons.prems False consider "p = a # q" | "p \<in> set qs" by auto
    then show ?thesis using Cons.IH [of q] Cons.IH [of p] Cons.prems(2) q False by cases auto
  qed
qed simp

text \<open>
  C26. A CSV export is read back as the table on the screen, whatever commas, quotes and line
  breaks are in its cells: a reader of comma separated values gets one record of names and then the rows.
  Names are not quoted: one that has commas is read as several names, the parts between its commas, so the first
  record is the headers when no name has a comma. A line break in a name, or a quote where one of
  its parts begins, is excluded.
\<close>
theorem csv_export_reads_back:
  assumes "qr_headers r \<noteq> []" and "\<forall>h \<in> set (qr_headers r). newline \<notin> set h"
    and "\<forall>p \<in> set (name_parts (qr_headers r)). p = [] \<or> hd p \<noteq> dquote"
    and "\<forall>row \<in> set (qr_rows r). row \<noteq> []"
  shows "csv_table (export_csv r) = name_parts (qr_headers r) # qr_rows r
    \<and> ((\<forall>h \<in> set (qr_headers r). CHR '','' \<notin> set h) \<longrightarrow> csv_table (export_csv r) = qr_headers r # qr_rows r)"
proof -
  have rows: "csv_table (concat (map (\<lambda>row. join '','' (map csv_field row) @ [newline]) rows)) = rows"
    if "\<forall>row \<in> set rows. row \<noteq> []" for rows
    using that
  proof (induction rows)
    case (Cons row rows)
    then show ?case
      using csv_record_back [of row csv_field] csv_field_back by (subst csv_table.simps) simp
  qed (simp add: csv_table.simps)
  have "csv_inner c" if "p \<in> set (name_parts (qr_headers r))" "c \<in> set p" for p c
    using assms(2) that by (auto dest: part_characters)
  moreover have "name_parts (qr_headers r) \<noteq> []" using assms(1) by (cases "qr_headers r") auto
  ultimately have "csv_record (join '','' (map (\<lambda>h. h) (name_parts (qr_headers r))) @ newline # t) =
      (name_parts (qr_headers r), t)" for t
    using assms(3) by (intro csv_record_back csv_plain_back) blast+
  then have "csv_table (export_csv r) = name_parts (qr_headers r) # qr_rows r"
    using rows [OF assms(4)] by (subst csv_table.simps) (simp add: export_csv_def join_name_parts)
  moreover have "name_parts hs = hs" if "\<forall>h \<in> set hs. CHR '','' \<notin> set h" for hs
    using that by (induction hs) (auto simp: split_line)
  ultimately show ?thesis by auto
qed

theorem csv_export_reads_back_witness:
  "csv_table (export_csv \<lparr>qr_headers = [''id'', ''coalesce(a,b)''], qr_rows = [[''1'', ''a,b''], [''2'', [dquote, newline]]],
     qr_widths = [], qr_message = None\<rparr>) = [[''id'', ''coalesce(a'', ''b)''], [''1'', ''a,b''], [''2'', [dquote, newline]]]"
  by (subst csv_export_reads_back [THEN conjunct1]) simp_all

end
