(* ===== verification/Tui_Draw_Props.thy ===== *)
theory Tui_Draw_Props
  imports Tui_Props
begin

text \<open>
  What a frame of the terminal interface shows: where its popups are, which completion is marked,
  where the cursor is, and that the bars fill their lines.
\<close>

section \<open>Popups inside the frame\<close>

definition inside :: "rect \<Rightarrow> rect \<Rightarrow> bool" where
  "inside r f \<longleftrightarrow>
     rc_x f \<le> rc_x r \<and> rc_x r + rc_width r \<le> rc_x f + rc_width f \<and>
     rc_y f \<le> rc_y r \<and> rc_y r + rc_height r \<le> rc_y f + rc_height f"

lemma inside_rect_new:
  "rc_x f \<le> x \<Longrightarrow> x + w \<le> rc_x f + rc_width f \<Longrightarrow> rc_y f \<le> y \<Longrightarrow> y + h \<le> rc_y f + rc_height f \<Longrightarrow>
   inside (rect_new x y w h) f"
  by (auto simp: inside_def rect_new_def min_def)

lemma centered_fits: "a + (s - w) div 2 + min w s \<le> a + (s::nat)"
  by (cases "w \<le> s") auto

lemma centered_rect_inside:
  assumes "rc_x f + rc_width f \<le> 65535" and "rc_y f + rc_height f \<le> 65535"
  shows "inside (centered_rect w h f) f"
proof -
  have "(rc_width f - w) div 2 \<le> rc_width f" "(rc_height f - h) div 2 \<le> rc_height f"
    by (auto intro: order_trans [OF div_le_dividend])
  then have "rc_x f + (rc_width f - w) div 2 < 65536" "rc_y f + (rc_height f - h) div 2 < 65536"
    using assms by linarith+
  then show ?thesis
    using centered_fits [of "rc_x f" "rc_width f" w] centered_fits [of "rc_y f" "rc_height f" h]
    unfolding centered_rect_def by (intro inside_rect_new) (simp_all add: as_u16_def)
qed

lemma completion_area_inside:
  assumes "rc_y q \<le> snd sz"
  shows "inside (completion_area c q (frame_of sz)) (frame_of sz)"
  using assms unfolding completion_area_def Let_def
  by (intro inside_rect_new) (auto simp: frame_of_def)

section \<open>The marked completion\<close>

lemma shown_window:
  assumes "cm_index c < length (cm_candidates c)"
  shows "first_shown c \<le> cm_index c" and "cm_index c - first_shown c < length (shown_candidates c)"
    and "shown_candidates c ! (cm_index c - first_shown c) = cm_candidates c ! cm_index c"
  using assms by (auto simp: first_shown_def shown_candidates_def max_shown_def)

definition marked :: "look" where
  "marked = (bold_in Crust)\<lparr>lk_bg := Some Accent2\<rparr>"

lemma marked_items:
  assumes "i < length (shown_candidates c)"
  shows "map snd (completion_items c ! i) = [marked] \<longleftrightarrow> first_shown c + i = cm_index c"
  using assms by (simp add: completion_items_def candidate_line_def marked_def in_color_def plain_look_def bold_in_def)

text \<open>
  C25. Whenever the popup with the completions is drawn it lies inside the frame, and of the at most
  eight candidates it shows exactly the one that is put into the input is marked.
\<close>

theorem completion_popup_marks_choice:
  assumes "rtranclp (ui_step w) (new_app history) a" and "\<forall>h. history = Some h \<longrightarrow> ascii h"
    and "ap_completion a = Some c" and "rc_y (ap_query_area a) \<le> snd sz"
  shows "inside (completion_area c (ap_query_area a) (frame_of sz)) (frame_of sz) \<and>
    length (completion_items c) \<le> 8 \<and>
    (\<exists>k < length (completion_items c). shown_candidates c ! k = cm_candidates c ! cm_index c \<and>
       (\<forall>i < length (completion_items c). map snd (completion_items c ! i) = [marked] \<longleftrightarrow> i = k))"
proof -
  have "cm_index c < length (cm_candidates c)"
    using reached_ok [OF assms(1,2)] assms(3) by (simp add: editor_ok_def completion_ok_def)
  note window = shown_window [OF this]
  have n: "length (completion_items c) = length (shown_candidates c)" by (simp add: completion_items_def)
  have "map snd (completion_items c ! i) = [marked] \<longleftrightarrow> i = cm_index c - first_shown c"
    if "i < length (completion_items c)" for i
    using marked_items [of i c] that n window(1) by auto
  moreover have "length (shown_candidates c) \<le> 8" by (simp add: shown_candidates_def max_shown_def)
  ultimately show ?thesis using window(2,3) n completion_area_inside [OF assms(4)] by auto
qed

text \<open>An entry of the history, recalled and completed.\<close>

definition after_key :: "key_code \<Rightarrow> app \<Rightarrow> app" where
  "after_key k a = (case handle_key (\<lambda>_ _. Inr ()) 0 NoMods k a of Some (act, b) \<Rightarrow> b | None \<Rightarrow> a)"

definition recalled_app :: app where
  "recalled_app = after_key KTab (after_key KUp (new_app (Some ''row_n'')))"

lemma after_key_step:
  "editor_ok a \<Longrightarrow> ascii_key k \<Longrightarrow> ui_step (\<lambda>_ _. Inr ()) a (after_key k a)"
  using handle_key_ok [of a k "\<lambda>_ _. Inr ()" 0 NoMods]
  by (auto simp: key_fine_def after_key_def intro: ui_step.pressed)

lemma recalled_app_reached: "rtranclp (ui_step (\<lambda>_ _. Inr ())) (new_app (Some ''row_n'')) recalled_app"
proof -
  have ok: "editor_ok (new_app (Some ''row_n''))" by (rule new_app_ok) simp
  have one: "ui_step (\<lambda>_ _. Inr ()) (new_app (Some ''row_n'')) (after_key KUp (new_app (Some ''row_n'')))"
    by (rule after_key_step [OF ok]) simp
  have "ui_step (\<lambda>_ _. Inr ()) (after_key KUp (new_app (Some ''row_n''))) recalled_app"
    unfolding recalled_app_def by (rule after_key_step [OF ui_step_ok [OF one ok]]) simp
  with one show ?thesis by (meson converse_rtranclp_into_rtranclp rtranclp.rtrancl_refl)
qed

lemma recalled_app_fields:
  "ap_completion recalled_app = Some \<lparr>cm_start = 0, cm_candidates = [''row_number''], cm_index = 0\<rparr>"
  "ap_lines recalled_app = [''row_number'']" "ap_row recalled_app = 0" "rc_y (ap_query_area recalled_app) = 0"
  by code_simp+

theorem completion_popup_marks_choice_witness:
  "inside (completion_area \<lparr>cm_start = 0, cm_candidates = [''row_number''], cm_index = 0\<rparr>
     (ap_query_area recalled_app) (frame_of (80, 24))) (frame_of (80, 24))"
  using completion_popup_marks_choice [OF recalled_app_reached _ recalled_app_fields(1), of "(80, 24)"]
    recalled_app_fields(4) by simp

section \<open>The cursor\<close>

text \<open>
  The input's box grows to six lines and does not scroll: the cursor is on one of its lines
  exactly while it is in the first six lines of the input, and on or below the border afterwards.
\<close>

theorem cursor_stays_in_six_lines:
  assumes "ap_row a < length (ap_lines a)" and "length (ap_lines a) < 65530"
    and "rc_height area = input_height a" and "rc_y area + 1 + ap_row a < 65536"
  shows "snd (input_cursor a area) < rc_y area + rc_height area - 1 \<longleftrightarrow> ap_row a < 6"
  using assms by (auto simp: input_cursor_def input_height_def as_u16_def)

theorem cursor_stays_in_six_lines_witness:
  "snd (input_cursor recalled_app (rect_new 0 20 80 3)) < 22"
  using cursor_stays_in_six_lines [of recalled_app "rect_new 0 20 80 3"] recalled_app_fields(2,3)
  by (simp add: rect_new_def input_height_def as_u16_def)

section \<open>The bars\<close>

definition line_length :: "span list \<Rightarrow> nat" where
  "line_length spans = sum_list (map (length \<circ> fst) spans)"

lemma status_bar_fills_line:
  assumes "length (status_left a) + length status_right + 2 \<le> rc_width area"
  shows "\<exists>spans. draw_status_bar a area = Render (BarLine spans Mantle) area \<and> line_length spans = rc_width area"
  using assms by (simp add: draw_status_bar_def line_length_def pad_span_def spaces_def Let_def)

lemma title_bar_fits:
  "\<exists>spans. draw_title_bar th url area = Render (BarLine spans Mantle) area \<and>
     (20 + length url + length (theme_name th) \<le> rc_width area \<longrightarrow> line_length spans + 1 = rc_width area)"
  by (simp add: draw_title_bar_def line_length_def pad_span_def spaces_def Let_def) linarith

end
