(* ===== verification/C_Binding.thy ===== *)
theory C_Binding
  imports Backup Settings Display Utf8
begin

text \<open>
  \<^verbatim>\<open>crates/ffi/src/lib.rs\<close>: the C interface. A pointer is an option (\<open>None\<close> is NULL), a C string
  is its bytes without the terminator, and a handle is the structure behind it; that callers
  keep to the lifetimes of handles is their contract. Every function that takes the database
  clears its error and sets it when it fails.
\<close>

section \<open>Strings and handles\<close>

text \<open>\<^verbatim>\<open>CString::new\<close>: a text with a NUL inside has no C string.\<close>

definition cstring :: "string \<Rightarrow> string option" where
  "cstring s = (if CHR 0x00 \<in> set s then None else Some s)"

definition cstr_to_str :: "string option \<Rightarrow> string option" where
  "cstr_to_str p = (case p of None \<Rightarrow> None | Some s \<Rightarrow> if valid_utf8 s then Some s else None)"

definition cstrings :: "string list \<Rightarrow> string list" where
  "cstrings ss = List.map_filter cstring ss"

record potato_db =
  db_engine :: engine
  db_error :: "string option"

definition set_error :: "string \<Rightarrow> potato_db \<Rightarrow> potato_db" where
  "set_error msg d = d\<lparr>db_error := cstring msg\<rparr>"

datatype result_kind = RecordsKind | MessageKind

record potato_result =
  re_kind :: result_kind
  re_batches :: "record_batch list"
  re_message :: "string option"
  re_row_count :: nat
  re_column_names :: "string list"
  re_display :: "string option"

definition collect_column_names :: "record_batch list \<Rightarrow> string list" where
  "collect_column_names bs = (case bs of [] \<Rightarrow> [] | b # _ \<Rightarrow> cstrings (rb_fields b))"

fun query_result_to_handle :: "query_result \<Rightarrow> potato_result" where
  "query_result_to_handle (Records bs) =
     \<lparr>re_kind = RecordsKind, re_batches = bs, re_message = None, re_row_count = row_count bs,
      re_column_names = collect_column_names bs, re_display = None\<rparr>"
| "query_result_to_handle (Message msg) =
     \<lparr>re_kind = MessageKind, re_batches = [], re_message = cstring msg, re_row_count = 0,
      re_column_names = [], re_display = None\<rparr>"

fun resolve_from :: "nat \<Rightarrow> record_batch list \<Rightarrow> nat \<Rightarrow> (record_batch \<times> nat) option" where
  "resolve_from offset [] row = None"
| "resolve_from offset (b # bs) row =
     (if row < offset + num_rows b then Some (b, row - offset) else resolve_from (offset + num_rows b) bs row)"

definition resolve_row :: "record_batch list \<Rightarrow> nat \<Rightarrow> (record_batch \<times> nat) option" where
  "resolve_row bs row = resolve_from 0 bs row"

section \<open>Opening and closing\<close>

definition s3_config_for :: "string \<Rightarrow> string option \<Rightarrow> string option \<Rightarrow> bool \<Rightarrow> string option \<Rightarrow> s3_config option" where
  "s3_config_for path endpoint region allow_http wal_dir =
     (if starts_with ''s3://'' path
      then Some \<lparr>s3_endpoint = endpoint, s3_region = region, s3_allow_http = allow_http, s3_wal_dir = wal_dir\<rparr>
      else None)"

definition potato_open ::
  "'s world \<Rightarrow> nat \<Rightarrow> surroundings \<Rightarrow> string option \<Rightarrow> string option \<Rightarrow> string option \<Rightarrow> bool \<Rightarrow> string option \<Rightarrow> 's
     \<Rightarrow> (potato_db option \<times> 's) option"
where
  "potato_open W depth S data_dir endpoint region allow_http wal_dir s =
     (case cstr_to_str data_dir of
        None \<Rightarrow> Some (None, s)
      | Some path \<Rightarrow>
          map_option (\<lambda>(r, s1). (case r of Inl _ \<Rightarrow> None | Inr e \<Rightarrow> Some \<lparr>db_engine = e, db_error = None\<rparr>, s1))
            (new_database W depth S path
              (s3_config_for path (cstr_to_str endpoint) (cstr_to_str region) allow_http (cstr_to_str wal_dir)) s))"

definition potato_open_local ::
  "'s world \<Rightarrow> nat \<Rightarrow> surroundings \<Rightarrow> string option \<Rightarrow> 's \<Rightarrow> (potato_db option \<times> 's) option"
where
  "potato_open_local W depth S data_dir = potato_open W depth S data_dir None None False None"

text \<open>What closing does to the log; the handle is gone.\<close>

definition potato_close :: "potato_db option \<Rightarrow> engine option" where
  "potato_close db = map_option (\<lambda>d. close_database (db_engine d)) db"

definition potato_last_error :: "potato_db option \<Rightarrow> string option" where
  "potato_last_error db = Option.bind db db_error"

section \<open>Calls on the database\<close>

text \<open>
  A call on an open handle: the argument is checked, the operation runs, its error is kept in
  the handle. The result is \<open>None\<close> for NULL (or -1), and the outer option is that of runs.
\<close>

type_synonym ('a, 's) c_call = "potato_db \<Rightarrow> 's \<Rightarrow> ('a option \<times> potato_db \<times> 's) option"

definition c_fail :: "string \<Rightarrow> ('a, 's) c_call" where
  "c_fail msg d s = Some (None, set_error msg (d\<lparr>db_error := None\<rparr>), s)"

definition c_run :: "('a, 's) run \<Rightarrow> ('a, 's) c_call" where
  "c_run m d s =
     (case m (db_engine d) s of
        None \<Rightarrow> None
      | Some (r, e1, s1) \<Rightarrow>
          let d1 = \<lparr>db_engine = e1, db_error = None\<rparr> in
          Some (case r of Inl err \<Rightarrow> (None, set_error err d1, s1) | Inr a \<Rightarrow> (Some a, d1, s1)))"

definition with_arg :: "string \<Rightarrow> string option \<Rightarrow> (string \<Rightarrow> ('a, 's) c_call) \<Rightarrow> ('a, 's) c_call" where
  "with_arg what p f =
     (case cstr_to_str p of None \<Rightarrow> c_fail (''NULL '' @ what @ '' pointer'') | Some x \<Rightarrow> f x)"

definition c_handle :: "(query_result, 's) run \<Rightarrow> (potato_result, 's) c_call" where
  "c_handle m d s = map_option (\<lambda>(r, d1, s1). (map_option query_result_to_handle r, d1, s1)) (c_run m d s)"

definition potato_execute :: "'s world \<Rightarrow> nat \<Rightarrow> string option \<Rightarrow> (potato_result, 's) c_call" where
  "potato_execute W depth sql = with_arg ''sql'' sql (\<lambda>x. c_handle (execute W depth x))"

definition potato_execute_readonly :: "'s world \<Rightarrow> string option \<Rightarrow> (potato_result, 's) c_call" where
  "potato_execute_readonly W sql = with_arg ''sql'' sql (\<lambda>x. c_handle (runs (execute_readonly W x)))"

record result_entry =
  en_sql :: string
  en_result :: "potato_result option"
  en_fault :: "string option"

definition result_entry_of :: "string \<times> (string, query_result) result \<Rightarrow> result_entry" where
  "result_entry_of = (\<lambda>(sql, r).
     \<lparr>en_sql = (case cstring sql of Some c \<Rightarrow> c | None \<Rightarrow> []),
      en_result = (case r of Inr q \<Rightarrow> Some (query_result_to_handle q) | Inl _ \<Rightarrow> None),
      en_fault = (case r of Inr _ \<Rightarrow> None | Inl err \<Rightarrow> cstring err)\<rparr>)"

definition potato_execute_file ::
  "'s world \<Rightarrow> nat \<Rightarrow> string option \<Rightarrow> bool \<Rightarrow> (result_entry list, 's) c_call"
where
  "potato_execute_file W depth path continue_on_error =
     with_arg ''path'' path (\<lambda>x.
       c_run (andRun (execute_file W depth x continue_on_error) (\<lambda>rs. runs (ok (map result_entry_of rs)))))"

definition potato_recent_cdc :: "'s world \<Rightarrow> nat \<Rightarrow> (potato_result, 's) c_call" where
  "potato_recent_cdc W depth = c_handle (execute W depth ''SELECT * FROM potatodb_cdc'')"

definition potato_backup :: "'s world \<Rightarrow> string option \<Rightarrow> (unit, 's) c_call" where
  "potato_backup W archive = with_arg ''archive_path'' archive (\<lambda>x. c_run (runs (backup W x)))"

definition potato_restore :: "'s world \<Rightarrow> string option \<Rightarrow> (unit, 's) c_call" where
  "potato_restore W archive = with_arg ''archive_path'' archive (\<lambda>x. c_run (runs (restore W x)))"

definition no_result :: "(query_result, 's) run \<Rightarrow> (unit, 's) run" where
  "no_result m = andRun m (\<lambda>_. runs (ok ()))"

definition potato_flush :: "'s world \<Rightarrow> nat \<Rightarrow> (unit, 's) c_call" where
  "potato_flush W depth = c_run (no_result (execute W depth ''FLUSH;''))"

text \<open>A table's name, trimmed; quotes in it are doubled in the statement.\<close>

definition with_table :: "string option \<Rightarrow> (string \<Rightarrow> ('a, 's) c_call) \<Rightarrow> ('a, 's) c_call" where
  "with_table p f =
     with_arg ''table_name'' p (\<lambda>x. if trim x = [] then c_fail ''empty table_name'' else f (trim x))"

definition flush_table_text :: "string \<Rightarrow> string" where
  "flush_table_text tbl = ''FLUSH TABLE '' @ dquote # replace_str [dquote] [dquote, dquote] tbl @ dquote # '';''"

definition potato_flush_table :: "'s world \<Rightarrow> nat \<Rightarrow> string option \<Rightarrow> (unit, 's) c_call" where
  "potato_flush_table W depth tbl =
     with_table tbl (\<lambda>nm. c_run (no_result (execute W depth (flush_table_text nm))))"

definition c_number :: "string \<Rightarrow> (nat, 's) action \<Rightarrow> (int, 's) c_call" where
  "c_number overflow m =
     c_run (runs (andThen m (\<lambda>n. if int n \<le> i64_max then ok (int n) else fail overflow)))"

definition potato_table_parquet_file_count :: "'s world \<Rightarrow> string option \<Rightarrow> (int, 's) c_call" where
  "potato_table_parquet_file_count W tbl =
     with_table tbl (\<lambda>nm. c_number ''parquet file count overflowed i64'' (parquet_file_count W nm))"

definition potato_table_total_bytes :: "'s world \<Rightarrow> string option \<Rightarrow> (int, 's) c_call" where
  "potato_table_total_bytes W tbl =
     with_table tbl (\<lambda>nm. c_number ''table total bytes overflowed i64'' (table_total_bytes W nm))"

definition potato_table_oldest_file_age_secs :: "'s world \<Rightarrow> string option \<Rightarrow> (int, 's) c_call" where
  "potato_table_oldest_file_age_secs W tbl =
     with_table tbl (\<lambda>nm. c_number ''oldest file age overflowed i64'' (table_oldest_file_age_secs W nm))"

definition potato_prepare :: "'s world \<Rightarrow> nat \<Rightarrow> string option \<Rightarrow> string option \<Rightarrow> (unit, 's) c_call" where
  "potato_prepare W depth nm sql =
     with_arg ''name'' nm (\<lambda>n. with_arg ''sql'' sql (\<lambda>x.
       c_run (no_result (execute W depth (''PREPARE '' @ n @ '' AS '' @ x)))))"

text \<open>The parameters are SQL texts; the first that is NULL is reported by its index.\<close>

fun c_params :: "nat \<Rightarrow> string option list \<Rightarrow> (string, string list) result" where
  "c_params i [] = Inr []"
| "c_params i (p # ps) =
     (case cstr_to_str p of
        None \<Rightarrow> Inl (''NULL parameter at index '' @ show_nat i)
      | Some x \<Rightarrow> map_sum id (\<lambda>xs. x # xs) (c_params (i + 1) ps))"

definition potato_execute_prepared ::
  "'s world \<Rightarrow> nat \<Rightarrow> string option \<Rightarrow> string option list option \<Rightarrow> nat \<Rightarrow> (potato_result, 's) c_call"
where
  "potato_execute_prepared W depth nm params param_count =
     with_arg ''name'' nm (\<lambda>n.
       if 0 < param_count \<and> params = None then c_fail ''NULL params pointer''
       else case c_params 0 (case params of None \<Rightarrow> [] | Some ps \<Rightarrow> take param_count ps) of
              Inl msg \<Rightarrow> c_fail msg
            | Inr xs \<Rightarrow> c_handle (execute W depth (''EXECUTE '' @ n @ ''('' @ join '', '' xs @ '')'')))"

section \<open>Lists\<close>

definition potato_table_names :: "potato_db \<Rightarrow> string list" where
  "potato_table_names d = cstrings (table_names (db_engine d))"

definition potato_table_columns :: "potato_db \<Rightarrow> string option \<Rightarrow> string list option" where
  "potato_table_columns d tbl =
     map_option (\<lambda>nm. cstrings (table_columns nm (db_engine d))) (cstr_to_str tbl)"

definition potato_view_names :: "potato_db \<Rightarrow> string list" where
  "potato_view_names d = cstrings (view_names (db_engine d))"

definition potato_function_names :: "potato_db \<Rightarrow> string list" where
  "potato_function_names d = cstrings (function_names (db_engine d))"

definition potato_indexes :: "potato_db \<Rightarrow> (string \<times> string) list" where
  "potato_indexes d = filter (\<lambda>(n, t). cstring n \<noteq> None \<and> cstring t \<noteq> None) (index_list (db_engine d))"

definition potato_data_url :: "potato_db \<Rightarrow> string option" where
  "potato_data_url d = cstring (en_data_url (db_engine d))"

definition potato_in_transaction :: "potato_db \<Rightarrow> bool" where
  "potato_in_transaction d = in_txn (db_engine d)"

record c_log_entry =
  cl_sql :: string
  cl_duration_ms :: nat
  cl_rows :: nat

definition potato_recent_queries :: "potato_db \<Rightarrow> c_log_entry list" where
  "potato_recent_queries d =
     map (\<lambda>q. \<lparr>cl_sql = (case cstring (ql_sql q) of Some c \<Rightarrow> c | None \<Rightarrow> []),
               cl_duration_ms = ql_duration q div 1000000 mod 2 ^ 64, cl_rows = ql_rows q\<rparr>)
       (recent_queries (db_engine d))"

text \<open>The accessors of all lists: NULL or the default out of range.\<close>

definition list_get :: "'a \<Rightarrow> ('b \<Rightarrow> 'a) \<Rightarrow> 'b list option \<Rightarrow> nat \<Rightarrow> 'a" where
  "list_get dflt f l i = (case l of None \<Rightarrow> dflt | Some xs \<Rightarrow> if i < length xs then f (xs ! i) else dflt)"

definition potato_string_list_count :: "string list option \<Rightarrow> nat" where
  "potato_string_list_count l = (case l of None \<Rightarrow> 0 | Some xs \<Rightarrow> length xs)"

definition potato_string_list_get :: "string list option \<Rightarrow> nat \<Rightarrow> string option" where
  "potato_string_list_get = list_get None Some"

definition potato_index_list_count :: "(string \<times> string) list option \<Rightarrow> nat" where
  "potato_index_list_count l = (case l of None \<Rightarrow> 0 | Some xs \<Rightarrow> length xs)"

definition potato_index_list_name :: "(string \<times> string) list option \<Rightarrow> nat \<Rightarrow> string option" where
  "potato_index_list_name = list_get None (\<lambda>p. Some (fst p))"

definition potato_index_list_table :: "(string \<times> string) list option \<Rightarrow> nat \<Rightarrow> string option" where
  "potato_index_list_table = list_get None (\<lambda>p. Some (snd p))"

definition potato_result_list_count :: "result_entry list option \<Rightarrow> nat" where
  "potato_result_list_count l = (case l of None \<Rightarrow> 0 | Some xs \<Rightarrow> length xs)"

definition potato_result_list_sql :: "result_entry list option \<Rightarrow> nat \<Rightarrow> string option" where
  "potato_result_list_sql = list_get None (\<lambda>en. Some (en_sql en))"

definition potato_result_list_result :: "result_entry list option \<Rightarrow> nat \<Rightarrow> potato_result option" where
  "potato_result_list_result = list_get None en_result"

definition potato_result_list_error :: "result_entry list option \<Rightarrow> nat \<Rightarrow> string option" where
  "potato_result_list_error = list_get None en_fault"

definition potato_query_log_count :: "c_log_entry list option \<Rightarrow> nat" where
  "potato_query_log_count l = (case l of None \<Rightarrow> 0 | Some xs \<Rightarrow> length xs)"

definition potato_query_log_sql :: "c_log_entry list option \<Rightarrow> nat \<Rightarrow> string option" where
  "potato_query_log_sql = list_get None (\<lambda>en. Some (cl_sql en))"

definition potato_query_log_duration_ms :: "c_log_entry list option \<Rightarrow> nat \<Rightarrow> nat" where
  "potato_query_log_duration_ms = list_get 0 cl_duration_ms"

definition potato_query_log_rows :: "c_log_entry list option \<Rightarrow> nat \<Rightarrow> nat" where
  "potato_query_log_rows = list_get 0 cl_rows"

section \<open>Results\<close>

definition potato_result_get_kind :: "potato_result option \<Rightarrow> result_kind" where
  "potato_result_get_kind r = (case r of None \<Rightarrow> MessageKind | Some x \<Rightarrow> re_kind x)"

definition potato_result_message :: "potato_result option \<Rightarrow> string option" where
  "potato_result_message r = (case r of None \<Rightarrow> None | Some x \<Rightarrow> re_message x)"

definition potato_result_row_count :: "potato_result option \<Rightarrow> nat" where
  "potato_result_row_count r = (case r of None \<Rightarrow> 0 | Some x \<Rightarrow> re_row_count x)"

definition potato_result_column_count :: "potato_result option \<Rightarrow> nat" where
  "potato_result_column_count r =
     (case r of None \<Rightarrow> 0 | Some x \<Rightarrow> (case re_batches x of [] \<Rightarrow> 0 | b # _ \<Rightarrow> length (rb_fields b)))"

definition potato_result_column_name :: "potato_result option \<Rightarrow> nat \<Rightarrow> string option" where
  "potato_result_column_name r i = list_get None Some (map_option re_column_names r) i"

text \<open>
  What the accessors read of Arrow's arrays besides the cells: the types, whether a field is
  declared JSON, the integer behind a date or a timestamp, the text of
  a value in Arrow's formatting.
\<close>

record c_arrays =
  ca_types :: "record_batch \<Rightarrow> arrow_type list"
  ca_json :: "record_batch \<Rightarrow> nat \<Rightarrow> bool"
  ca_fixed_list :: "record_batch \<Rightarrow> nat \<Rightarrow> bool"
  ca_raw :: "record_batch \<Rightarrow> nat \<Rightarrow> nat \<Rightarrow> int"
  ca_format :: "record_batch \<Rightarrow> nat \<Rightarrow> nat \<Rightarrow> string option"

datatype column_type =
    TypeNull | TypeBool | TypeInt32 | TypeInt64 | TypeFloat | TypeDouble | TypeString | TypeDate
  | TypeTimestamp | TypeDecimal | TypeBinary | TypeUuid | TypeInterval | TypeArray | TypeJson | TypeOther

fun column_type_of :: "bool \<Rightarrow> arrow_type \<Rightarrow> column_type" where
  "column_type_of fl ABoolean = TypeBool"
| "column_type_of fl AInt8 = TypeInt32"
| "column_type_of fl AInt16 = TypeInt32"
| "column_type_of fl AInt32 = TypeInt32"
| "column_type_of fl AUInt8 = TypeInt32"
| "column_type_of fl AUInt16 = TypeInt32"
| "column_type_of fl AUInt32 = TypeInt32"
| "column_type_of fl AInt64 = TypeInt64"
| "column_type_of fl AUInt64 = TypeInt64"
| "column_type_of fl AFloat16 = TypeFloat"
| "column_type_of fl AFloat32 = TypeFloat"
| "column_type_of fl AFloat64 = TypeDouble"
| "column_type_of fl AUtf8 = TypeString"
| "column_type_of fl ALargeUtf8 = TypeString"
| "column_type_of fl ADate32 = TypeDate"
| "column_type_of fl ADate64 = TypeDate"
| "column_type_of fl (ATimestamp u tz) = TypeTimestamp"
| "column_type_of fl (ADecimal128 p s) = TypeDecimal"
| "column_type_of fl (ADecimal256 p s) = TypeDecimal"
| "column_type_of fl (ADuration u) = TypeInterval"
| "column_type_of fl (AList t) = TypeArray"
| "column_type_of fl (ALargeList t) = TypeArray"
| "column_type_of fl (AFixedSizeBinary n) = (if n = 16 then TypeUuid else TypeBinary)"
| "column_type_of fl ABinary = TypeBinary"
| "column_type_of fl ALargeBinary = TypeBinary"
| "column_type_of fl ATime = TypeOther"
| "column_type_of fl ANull = TypeOther"
| "column_type_of fl AOtherType = (if fl then TypeArray else TypeOther)"

definition potato_result_get_column_type :: "c_arrays \<Rightarrow> potato_result option \<Rightarrow> nat \<Rightarrow> column_type" where
  "potato_result_get_column_type A r i =
     (case r of
        None \<Rightarrow> TypeNull
      | Some x \<Rightarrow>
          (case re_batches x of
             [] \<Rightarrow> TypeNull
           | b # _ \<Rightarrow>
               if length (rb_fields b) \<le> i then TypeNull
               else if ca_json A b i then TypeJson
               else column_type_of (ca_fixed_list A b i) (ca_types A b ! i)))"

text \<open>The text is computed once and kept in the handle.\<close>

definition potato_result_display ::
  "array_format \<Rightarrow> potato_result \<Rightarrow> string option \<times> potato_result"
where
  "potato_result_display F r =
     (if re_batches r = [] then (None, r)
      else let r1 = (if re_display r = None then r\<lparr>re_display := cstring (format_batches F (re_batches r))\<rparr> else r)
           in (re_display r1, r1))"

section \<open>Cells\<close>

text \<open>What the accessors share: the batch, the row in it and its cell, unless NULL or out of range.\<close>

definition c_cell :: "potato_result option \<Rightarrow> nat \<Rightarrow> nat \<Rightarrow> (record_batch \<times> nat \<times> cell) option" where
  "c_cell r row col =
     (case r of
        None \<Rightarrow> None
      | Some x \<Rightarrow>
          (case resolve_row (re_batches x) row of
             None \<Rightarrow> None
           | Some (b, i) \<Rightarrow>
               if length (rb_fields b) \<le> col then None
               else let c = cell_at (rb_rows b ! i) col in if c = CNull then None else Some (b, i, c)))"

definition potato_result_is_null :: "potato_result option \<Rightarrow> nat \<Rightarrow> nat \<Rightarrow> bool" where
  "potato_result_is_null r row col = (c_cell r row col = None)"

definition wrap_i64 :: "int \<Rightarrow> int" where
  "wrap_i64 i = (i + 2 ^ 63) mod 2 ^ 64 - 2 ^ 63"

definition int_types :: "arrow_type set" where
  "int_types = {AInt8, AInt16, AInt32, AInt64, AUInt8, AUInt16, AUInt32, AUInt64}"

definition potato_result_get_int :: "c_arrays \<Rightarrow> potato_result option \<Rightarrow> nat \<Rightarrow> nat \<Rightarrow> int" where
  "potato_result_get_int A r row col =
     (case c_cell r row col of
        Some (b, i, CInt n) \<Rightarrow> if ca_types A b ! col \<in> int_types then wrap_i64 n else 0
      | _ \<Rightarrow> 0)"

text \<open>A floating-point number by its text.\<close>

definition potato_result_get_double :: "c_arrays \<Rightarrow> potato_result option \<Rightarrow> nat \<Rightarrow> nat \<Rightarrow> string option" where
  "potato_result_get_double A r row col =
     (case c_cell r row col of
        Some (b, i, CFloat t) \<Rightarrow> if ca_types A b ! col \<in> {AFloat32, AFloat64} then Some t else None
      | _ \<Rightarrow> None)"

definition potato_result_get_bool :: "potato_result option \<Rightarrow> nat \<Rightarrow> nat \<Rightarrow> bool" where
  "potato_result_get_bool r row col = (case c_cell r row col of Some (b, i, CBool v) \<Rightarrow> v | _ \<Rightarrow> False)"

definition potato_result_get_date :: "c_arrays \<Rightarrow> potato_result option \<Rightarrow> nat \<Rightarrow> nat \<Rightarrow> int" where
  "potato_result_get_date A r row col =
     (case c_cell r row col of
        Some (b, i, c) \<Rightarrow> if ca_types A b ! col \<in> {ADate32, ADate64} then ca_raw A b i col else 0
      | None \<Rightarrow> 0)"

definition i64_saturating_mul :: "int \<Rightarrow> int \<Rightarrow> int" where
  "i64_saturating_mul a b = max i64_min (min i64_max (a * b))"

text \<open>Microseconds; the division of nanoseconds rounds toward zero.\<close>

fun timestamp_micros :: "time_unit \<Rightarrow> int \<Rightarrow> int" where
  "timestamp_micros Microsecond n = n"
| "timestamp_micros Millisecond n = i64_saturating_mul n 1000"
| "timestamp_micros Second n = i64_saturating_mul n 1000000"
| "timestamp_micros Nanosecond n = (if n < 0 then - ((- n) div 1000) else n div 1000)"

definition potato_result_get_timestamp :: "c_arrays \<Rightarrow> potato_result option \<Rightarrow> nat \<Rightarrow> nat \<Rightarrow> int" where
  "potato_result_get_timestamp A r row col =
     (case c_cell r row col of
        Some (b, i, c) \<Rightarrow>
          (case ca_types A b ! col of ATimestamp u tz \<Rightarrow> timestamp_micros u (ca_raw A b i col) | _ \<Rightarrow> 0)
      | None \<Rightarrow> 0)"

definition potato_result_get_string :: "c_arrays \<Rightarrow> potato_result option \<Rightarrow> nat \<Rightarrow> nat \<Rightarrow> string option" where
  "potato_result_get_string A r row col =
     (case c_cell r row col of
        None \<Rightarrow> None
      | Some (b, i, CText t) \<Rightarrow> cstring t
      | Some (b, i, c) \<Rightarrow> (case ca_format A b i col of None \<Rightarrow> None | Some t \<Rightarrow> cstring t))"

section \<open>Streams\<close>

text \<open>A stream by what it still yields: batches and an error that ends it, or a message.\<close>

datatype c_stream = StreamOf "record_batch list" bool | StreamMessage "string option" | Exhausted

text \<open>An error of the stream looks like its end.\<close>

fun potato_stream_next :: "c_stream \<Rightarrow> potato_result option \<times> c_stream" where
  "potato_stream_next (StreamOf (b # bs) fails) = (Some (query_result_to_handle (Records [b])), StreamOf bs fails)"
| "potato_stream_next (StreamOf [] fails) = (None, Exhausted)"
| "potato_stream_next (StreamMessage m) = (None, StreamMessage m)"
| "potato_stream_next Exhausted = (None, Exhausted)"

definition potato_stream_is_message :: "c_stream option \<Rightarrow> bool" where
  "potato_stream_is_message st = (case st of Some (StreamMessage m) \<Rightarrow> True | _ \<Rightarrow> False)"

definition potato_stream_message :: "c_stream option \<Rightarrow> string option" where
  "potato_stream_message st = (case st of Some (StreamMessage m) \<Rightarrow> m | _ \<Rightarrow> None)"

fun stream_of :: "query_result \<Rightarrow> c_stream" where
  "stream_of (Records bs) = StreamOf bs False"
| "stream_of (Message m) = StreamMessage (cstring m)"

definition potato_execute_stream :: "'s world \<Rightarrow> nat \<Rightarrow> string option \<Rightarrow> (c_stream, 's) c_call" where
  "potato_execute_stream W depth sql =
     with_arg ''sql'' sql (\<lambda>x. c_run (andRun (execute_stream W depth x) (\<lambda>q. runs (ok (stream_of q)))))"

end
