(* ===== verification/Python_Binding.thy ===== *)
theory Python_Binding
  imports C_Binding
begin

text \<open>
  \<^verbatim>\<open>crates/python/src/lib.rs\<close>: the Python classes, with a closed database as \<open>None\<close> and every
  error as a \<^verbatim>\<open>RuntimeError\<close> with its message. A dictionary keeps the first position and the
  last value of a key.
\<close>

datatype py_value =
    PyNone | PyInt int | PyFloat string | PyBool bool | PyStr string | PyBytes string
  | PyList "py_value list" | PyDict "(string \<times> py_value) list"

text \<open>\<^verbatim>\<open>dict[k] = v\<close>.\<close>

definition set_item :: "string \<Rightarrow> py_value \<Rightarrow> (string \<times> py_value) list \<Rightarrow> (string \<times> py_value) list" where
  "set_item k v d = (if k \<in> fst ` set d then map (\<lambda>(k', v'). (k', if k' = k then v else v')) d else d @ [(k, v)])"

text \<open>
  A value of an Arrow array by the array types the binding tells apart; \<open>AvOther\<close> carries the
  debug text of the others. Timestamps become microseconds, with the arithmetic of \<^verbatim>\<open>i64\<close>.
\<close>

datatype array_value =
    AvNull | AvInt int | AvFloat string | AvBool bool | AvText string | AvBytes string | AvDuration int | AvDate int
  | AvMicros int | AvMillis int | AvSeconds int | AvNanos int | AvDecimal string | AvFixed string
  | AvList "array_value list" | AvOther string

definition i64_saturating_mul :: "int \<Rightarrow> int \<Rightarrow> int" where
  "i64_saturating_mul a b = max i64_min (min i64_max (a * b))"

definition i64_quotient :: "int \<Rightarrow> int \<Rightarrow> int" where
  "i64_quotient a b = (if a < 0 then - ((- a) div b) else a div b)"

fun value_to_py :: "array_value \<Rightarrow> py_value" where
  "value_to_py AvNull = PyNone"
| "value_to_py (AvInt i) = PyInt i"
| "value_to_py (AvFloat t) = PyFloat t"
| "value_to_py (AvBool b) = PyBool b"
| "value_to_py (AvText s) = PyStr s"
| "value_to_py (AvBytes b) = PyBytes b"
| "value_to_py (AvDuration i) = PyInt i"
| "value_to_py (AvDate i) = PyInt i"
| "value_to_py (AvMicros i) = PyInt i"
| "value_to_py (AvMillis i) = PyInt (i64_saturating_mul i 1000)"
| "value_to_py (AvSeconds i) = PyInt (i64_saturating_mul i 1000000)"
| "value_to_py (AvNanos i) = PyInt (i64_quotient i 1000)"
| "value_to_py (AvDecimal t) = PyStr t"
| "value_to_py (AvFixed b) = (if length b = 16 then PyStr (uuid_text b) else PyBytes b)"
| "value_to_py (AvList vs) = PyList (map value_to_py vs)"
| "value_to_py (AvOther dbg) = PyStr dbg"

text \<open>The units of a timestamp agree while the microseconds fit into 64 bits.\<close>

lemma timestamp_units_agree:
  "is_i64 (1000000 * i) \<Longrightarrow> value_to_py (AvSeconds i) = value_to_py (AvMicros (1000000 * i))"
  "is_i64 (1000 * i) \<Longrightarrow> value_to_py (AvMillis i) = value_to_py (AvMicros (1000 * i))"
  "value_to_py (AvNanos (1000 * i)) = value_to_py (AvMicros i)"
  by (auto simp: is_i64_def i64_saturating_mul_def i64_quotient_def)

text \<open>What Arrow's array has in a cell, where the batch of the model does not tell.\<close>

type_synonym py_arrays = "record_batch \<Rightarrow> nat \<Rightarrow> nat \<Rightarrow> array_value option"

fun plain_py_value :: "cell \<Rightarrow> py_value" where
  "plain_py_value CNull = PyNone"
| "plain_py_value (CInt i) = PyInt i"
| "plain_py_value (CFloat t) = PyFloat t"
| "plain_py_value (CBool b) = PyBool b"
| "plain_py_value (CText s) = PyStr s"
| "plain_py_value (CUuid b) = PyStr (uuid_text b)"
| "plain_py_value (COther dbg) = PyStr dbg"

definition array_value_to_py :: "py_arrays \<Rightarrow> record_batch \<Rightarrow> nat \<Rightarrow> nat \<Rightarrow> py_value" where
  "array_value_to_py A b row col =
     (let c = cell_at (rb_rows b ! row) col in
      if c = CNull then PyNone else case A b row col of Some v \<Rightarrow> value_to_py v | None \<Rightarrow> plain_py_value c)"

definition row_to_py :: "py_arrays \<Rightarrow> record_batch \<Rightarrow> nat \<Rightarrow> py_value" where
  "row_to_py A b row =
     PyDict (fold (\<lambda>col. set_item (rb_fields b ! col) (array_value_to_py A b row col)) [0 ..< length (rb_fields b)] [])"

definition batches_to_python :: "py_arrays \<Rightarrow> record_batch list \<Rightarrow> py_value" where
  "batches_to_python A bs = PyList (concat (map (\<lambda>b. map (row_to_py A b) [0 ..< num_rows b]) bs))"

fun query_result_to_python :: "py_arrays \<Rightarrow> query_result \<Rightarrow> py_value" where
  "query_result_to_python A (Message msg) = PyStr msg"
| "query_result_to_python A (Records bs) = batches_to_python A bs"

section \<open>Methods\<close>

type_synonym ('a, 's) py_method = "engine option \<Rightarrow> 's \<Rightarrow> ((string, 'a) result \<times> engine option \<times> 's) option"

definition py_open ::
  "'s world \<Rightarrow> nat \<Rightarrow> surroundings \<Rightarrow> string \<Rightarrow> string option \<Rightarrow> string option \<Rightarrow> bool \<Rightarrow> string option \<Rightarrow> 's
     \<Rightarrow> ((string, engine option) result \<times> 's) option"
where
  "py_open W depth S path endpoint region allow_http wal_dir s =
     map_option (\<lambda>(r, s1). (map_sum id Some r, s1))
       (new_database W depth S path (s3_config_for path endpoint region allow_http wal_dir) s)"

definition on_open :: "('a, 's) run \<Rightarrow> ('a, 's) py_method" where
  "on_open m db s =
     (case db of
        None \<Rightarrow> Some (Inl ''database is closed'', None, s)
      | Some e \<Rightarrow> map_option (\<lambda>(r, e1, s1). (r, Some e1, s1)) (m e s))"

definition as_python :: "py_arrays \<Rightarrow> (query_result, 's) run \<Rightarrow> (py_value, 's) run" where
  "as_python A m = andRun m (\<lambda>q. runs (ok (query_result_to_python A q)))"

definition py_execute :: "'s world \<Rightarrow> nat \<Rightarrow> py_arrays \<Rightarrow> string \<Rightarrow> (py_value, 's) py_method" where
  "py_execute W depth A sql = on_open (as_python A (execute W depth sql))"

definition py_execute_readonly :: "'s world \<Rightarrow> py_arrays \<Rightarrow> string \<Rightarrow> (py_value, 's) py_method" where
  "py_execute_readonly W A sql = on_open (as_python A (runs (execute_readonly W sql)))"

definition file_item :: "py_arrays \<Rightarrow> string \<times> (string, query_result) result \<Rightarrow> py_value" where
  "file_item A = (\<lambda>(sql, r). PyDict (case r of
       Inr q \<Rightarrow> [(''sql'', PyStr sql), (''result'', query_result_to_python A q), (''error'', PyNone)]
     | Inl err \<Rightarrow> [(''sql'', PyStr sql), (''result'', PyNone), (''error'', PyStr err)]))"

definition py_execute_file :: "'s world \<Rightarrow> nat \<Rightarrow> py_arrays \<Rightarrow> string \<Rightarrow> bool \<Rightarrow> (py_value, 's) py_method" where
  "py_execute_file W depth A path continue_on_error =
     on_open (andRun (execute_file W depth path continue_on_error) (\<lambda>rs. runs (ok (PyList (map (file_item A) rs)))))"

definition py_prepare :: "'s world \<Rightarrow> nat \<Rightarrow> string \<Rightarrow> string \<Rightarrow> (bool, 's) py_method" where
  "py_prepare W depth nm sql =
     on_open (andRun (execute W depth (''PREPARE '' @ nm @ '' AS '' @ sql)) (\<lambda>_. runs (ok True)))"

definition py_execute_prepared ::
  "'s world \<Rightarrow> nat \<Rightarrow> py_arrays \<Rightarrow> string \<Rightarrow> string list \<Rightarrow> (py_value, 's) py_method"
where
  "py_execute_prepared W depth A nm params =
     on_open (as_python A (execute W depth (''EXECUTE '' @ nm @ ''('' @ join '', '' params @ '')'')))"

definition py_backup :: "'s world \<Rightarrow> string \<Rightarrow> (bool, 's) py_method" where
  "py_backup W archive = on_open (andRun (runs (backup W archive)) (\<lambda>_. runs (ok True)))"

definition py_restore :: "'s world \<Rightarrow> string \<Rightarrow> (bool, 's) py_method" where
  "py_restore W archive = on_open (andRun (runs (restore W archive)) (\<lambda>_. runs (ok True)))"

definition py_flush :: "'s world \<Rightarrow> nat \<Rightarrow> py_arrays \<Rightarrow> (py_value, 's) py_method" where
  "py_flush W depth A = on_open (as_python A (execute W depth ''FLUSH;''))"

definition py_flush_table :: "'s world \<Rightarrow> nat \<Rightarrow> py_arrays \<Rightarrow> string \<Rightarrow> (py_value, 's) py_method" where
  "py_flush_table W depth A tbl =
     on_open (as_python A (execute W depth
       (''FLUSH TABLE '' @ dquote # replace_str [dquote] [dquote, dquote] tbl @ dquote # '';'')))"

definition py_recent_cdc :: "'s world \<Rightarrow> nat \<Rightarrow> py_arrays \<Rightarrow> (py_value, 's) py_method" where
  "py_recent_cdc W depth A = on_open (as_python A (execute W depth ''SELECT * FROM potatodb_cdc''))"

text \<open>The methods that only read the engine.\<close>

definition py_reads :: "(engine \<Rightarrow> 'a) \<Rightarrow> engine option \<Rightarrow> (string, 'a) result" where
  "py_reads f db = (case db of None \<Rightarrow> Inl ''database is closed'' | Some e \<Rightarrow> Inr (f e))"

definition py_in_transaction :: "engine option \<Rightarrow> (string, bool) result" where
  "py_in_transaction = py_reads in_txn"

definition py_data_url :: "engine option \<Rightarrow> (string, string) result" where
  "py_data_url = py_reads en_data_url"

definition py_table_names :: "engine option \<Rightarrow> (string, string list) result" where
  "py_table_names = py_reads table_names"

definition py_table_columns :: "string \<Rightarrow> engine option \<Rightarrow> (string, string list) result" where
  "py_table_columns tbl = py_reads (table_columns tbl)"

definition py_view_names :: "engine option \<Rightarrow> (string, string list) result" where
  "py_view_names = py_reads view_names"

definition py_function_names :: "engine option \<Rightarrow> (string, string list) result" where
  "py_function_names = py_reads function_names"

definition py_indexes :: "engine option \<Rightarrow> (string, py_value) result" where
  "py_indexes = py_reads (\<lambda>e. PyList (map (\<lambda>(nm, tbl). PyDict [(''name'', PyStr nm), (''table'', PyStr tbl)]) (index_list e)))"

definition py_recent_queries :: "engine option \<Rightarrow> (string, py_value) result" where
  "py_recent_queries = py_reads (\<lambda>e. PyList (map (\<lambda>q.
     PyDict [(''sql'', PyStr (ql_sql q)), (''duration_ms'', PyInt (int (ql_duration q div 1000000))),
             (''rows'', PyInt (int (ql_rows q)))]) (recent_queries e)))"

definition py_table_parquet_file_count :: "'s world \<Rightarrow> string \<Rightarrow> (nat, 's) py_method" where
  "py_table_parquet_file_count W tbl = on_open (runs (parquet_file_count W tbl))"

definition py_table_total_bytes :: "'s world \<Rightarrow> string \<Rightarrow> (nat, 's) py_method" where
  "py_table_total_bytes W tbl = on_open (runs (table_total_bytes W tbl))"

definition py_table_oldest_file_age_secs :: "'s world \<Rightarrow> string \<Rightarrow> (nat, 's) py_method" where
  "py_table_oldest_file_age_secs W tbl = on_open (runs (table_oldest_file_age_secs W tbl))"

definition py_close :: "engine option \<Rightarrow> engine option" where
  "py_close db = None"

section \<open>Streams\<close>

text \<open>A stream by what it still yields: batches and the error that ends it, if any, or a message.\<close>

datatype py_stream = PyStream "record_batch list" "string option" | PyMessage string | PyEnd

definition py_is_message :: "py_stream \<Rightarrow> bool" where
  "py_is_message st = (case st of PyMessage m \<Rightarrow> True | _ \<Rightarrow> False)"

definition py_message :: "py_stream \<Rightarrow> string option" where
  "py_message st = (case st of PyMessage m \<Rightarrow> Some m | _ \<Rightarrow> None)"

text \<open>The engine's stream is modelled by its whole result, so it is never ended by an error here.\<close>

fun py_stream_of :: "query_result \<Rightarrow> py_stream" where
  "py_stream_of (Records bs) = PyStream bs None"
| "py_stream_of (Message m) = PyMessage m"

definition py_execute_stream :: "'s world \<Rightarrow> nat \<Rightarrow> string \<Rightarrow> (py_stream, 's) py_method" where
  "py_execute_stream W depth sql = on_open (andRun (execute_stream W depth sql) (\<lambda>q. runs (ok (py_stream_of q))))"

fun next_batch :: "py_arrays \<Rightarrow> py_stream \<Rightarrow> (string, py_value option) result \<times> py_stream" where
  "next_batch A (PyStream (b # bs) err) = (Inr (Some (batches_to_python A [b])), PyStream bs err)"
| "next_batch A (PyStream [] (Some err)) = (Inl err, PyStream [] None)"
| "next_batch A (PyStream [] None) = (Inr None, PyEnd)"
| "next_batch A (PyMessage m) = (Inr None, PyMessage m)"
| "next_batch A PyEnd = (Inr None, PyEnd)"

text \<open>The iteration over a stream: each batch once, and then nothing for ever.\<close>

fun read_stream :: "py_arrays \<Rightarrow> nat \<Rightarrow> py_stream \<Rightarrow> (string, py_value option) result list" where
  "read_stream A 0 st = []"
| "read_stream A (Suc n) st = fst (next_batch A st) # read_stream A n (snd (next_batch A st))"

lemma read_stream_end: "read_stream A n PyEnd = replicate n (Inr None)"
  by (induction n) simp_all

lemma read_stream_yields_batches:
  "read_stream A (length bs + n) (PyStream bs None) =
     map (\<lambda>b. Inr (Some (batches_to_python A [b]))) bs @ replicate n (Inr None)"
  by (induction bs) (cases n; simp add: read_stream_end)+

end
