(* ===== verification/Binding_Props.thy ===== *)
theory Binding_Props
  imports C_Binding Python_Binding Display_Props
begin

text \<open>
  The two bindings agree on what a result is: the C accessors address the rows of all batches
  under consecutive numbers, and Python gets one dictionary for each of them.
\<close>

section \<open>Rows by number\<close>

lemma resolve_from_rows:
  "resolve_from offset bs (offset + k) = Some (b, i) \<Longrightarrow>
     b \<in> set bs \<and> i < num_rows b \<and> k < row_count bs \<and> rb_rows b ! i = all_rows bs ! k"
proof (induction bs arbitrary: offset k)
  case (Cons a bs)
  show ?case
  proof (cases "k < num_rows a")
    case True
    then show ?thesis using Cons.prems by (auto simp: row_count_def num_rows_def nth_append)
  next
    case False
    then obtain j where j: "k = num_rows a + j" using le_Suc_ex not_less by blast
    have "resolve_from (offset + num_rows a) bs (offset + num_rows a + j) = Some (b, i)"
      using Cons.prems by (simp add: j ac_simps)
    from Cons.IH [OF this] show ?thesis by (auto simp: j row_count_def num_rows_def nth_append)
  qed
qed simp

lemma resolve_from_total: "k < row_count bs \<longleftrightarrow> resolve_from offset bs (offset + k) \<noteq> None"
proof (induction bs arbitrary: offset k)
  case (Cons a bs)
  show ?case
  proof (cases "k < num_rows a")
    case True
    then show ?thesis by (simp add: row_count_def)
  next
    case False
    then obtain j where j: "k = num_rows a + j" using le_Suc_ex not_less by blast
    show ?thesis using Cons.IH [of j "offset + num_rows a"] by (simp add: j ac_simps row_count_def)
  qed
qed (simp add: row_count_def)

text \<open>
  C31. A C caller reaches every row of a result by its number, whatever the batches it came in:
  below \<open>potato_result_row_count\<close> the accessors read the cell of that row in the sequence of all
  rows, and from there on every cell is NULL.
\<close>
theorem result_rows_are_addressable:
  assumes "r = query_result_to_handle (Records bs)" and "\<forall>b \<in> set bs. length (rb_fields b) = n"
  shows "map_option (\<lambda>(b, i, c). c) (c_cell (Some r) row col) =
    (if row < potato_result_row_count (Some r) \<and> col < n \<and> cell_at (all_rows bs ! row) col \<noteq> CNull
     then Some (cell_at (all_rows bs ! row) col) else None)"
proof (cases "resolve_row bs row")
  case None
  then have "\<not> row < row_count bs"
    using resolve_from_total [of row bs 0] by (simp add: resolve_row_def)
  then show ?thesis using None assms(1) by (simp add: c_cell_def potato_result_row_count_def)
next
  case (Some p)
  then obtain b i where p: "resolve_row bs row = Some (b, i)" by (cases p) auto
  from resolve_from_rows [of 0 bs row b i] p
  have "b \<in> set bs" "row < row_count bs" "rb_rows b ! i = all_rows bs ! row" by (simp_all add: resolve_row_def)
  then show ?thesis
    using p assms by (auto simp: c_cell_def potato_result_row_count_def Let_def)
qed

theorem result_rows_are_addressable_witness:
  "map_option (\<lambda>(b, i, c). c) (c_cell (Some (query_result_to_handle (Records
      [\<lparr>rb_fields = [''id''], rb_rows = [[CInt 1]]\<rparr>, \<lparr>rb_fields = [''id''], rb_rows = [[CInt 2], [CInt 3]]\<rparr>]))) 2 0) =
     Some (CInt 3)"
  by (subst result_rows_are_addressable [OF refl, where n = 1])
    (simp_all add: potato_result_row_count_def row_count_def num_rows_def cell_at_def)

section \<open>Rows as dictionaries\<close>

text \<open>A dictionary of a row has for each name the value of the last column of that name.\<close>

lemma set_item_get: "map_of (set_item k v d) k' = (if k' = k then Some v else map_of d k')"
proof (cases "k \<in> fst ` set d")
  case True
  have "map_of (map (\<lambda>(x, y). (x, if x = k then v else y)) d) k' =
      map_option (\<lambda>y. if k' = k then v else y) (map_of d k')"
    by (induction d) auto
  moreover have "map_of d k \<noteq> None" using True by (simp add: map_of_eq_None_iff)
  ultimately show ?thesis using True by (auto simp: set_item_def option.map_ident)
next
  case False
  then have "map_of d k = None" by (simp add: map_of_eq_None_iff)
  then show ?thesis using False by (auto simp: set_item_def map_add_def split: option.split)
qed

lemma later_column_wins:
  assumes "rb_fields b = fs @ [k]"
  shows "\<exists>d. row_to_py A b row = PyDict d \<and> map_of d k = Some (array_value_to_py A b row (length fs))"
  using assms by (simp add: row_to_py_def set_item_get)

lemma set_item_keys: "set (map fst (set_item k v d)) = insert k (set (map fst d))"
  by (force simp: set_item_def)

text \<open>A name that occurs twice is one entry, so the first of the two columns cannot be seen.\<close>

lemma duplicate_columns_collapse:
  "rb_fields b = [k, k] \<Longrightarrow> row_to_py A b row = PyDict [(k, array_value_to_py A b row 1)]"
  by (simp add: row_to_py_def set_item_def upt_rec)

end
