(* ===== verification/Command_Line.thy ===== *)
theory Command_Line
  imports Repl Settings
begin

text \<open>
  \<^verbatim>\<open>crates/potatodb/src/main.rs\<close>: the program around the front ends. Parsing the arguments
  (\<^verbatim>\<open>clap\<close>) is outside; the model begins with their values.
\<close>

record cli =
  cl_data_dir :: string
  cl_s3_endpoint :: "string option"
  cl_s3_region :: string
  cl_s3_allow_http :: bool
  cl_wal_dir :: "string option"
  cl_repl :: bool
  cl_files :: "string list"
  cl_timing :: bool
  cl_http_addr :: "string option"

definition s3_config_of :: "cli \<Rightarrow> s3_config option" where
  "s3_config_of c =
     (if starts_with ''s3://'' (cl_data_dir c)
      then Some \<lparr>s3_endpoint = cl_s3_endpoint c, s3_region = Some (cl_s3_region c),
                 s3_allow_http = cl_s3_allow_http c, s3_wal_dir = cl_wal_dir c\<rparr>
      else None)"

text \<open>A file: its output, and whether one of its statements or reading it failed. The first error ends a file.\<close>

definition run_file ::
  "'s world \<Rightarrow> array_format \<Rightarrow> nat \<Rightarrow> bool \<Rightarrow> string \<Rightarrow> engine \<Rightarrow> 's
     \<Rightarrow> ((string, printed list \<times> bool) result \<times> engine \<times> 's) option"
where
  "run_file W F depth timing path e s =
     (let started = Stdout (''Executing: '' @ path) in
      case execute_file W depth path False e s of
        None \<Rightarrow> None
      | Some (Inl err, e1, s1) \<Rightarrow> Some (Inr ([started, Stderr (''ERROR: '' @ err)], True), e1, s1)
      | Some (Inr results, e1, s1) \<Rightarrow>
          Some (map_sum id (\<lambda>ps. (started # ps
             @ (if timing then [Stdout (''Total file execution: '' @ elapsed_ms (w_clock W s) (w_clock W s1) @ '' ms'')] else []),
             list_ex (\<lambda>(st, r). isl r) results)) (file_lines F results), e1, s1))"

fun run_files ::
  "'s world \<Rightarrow> array_format \<Rightarrow> nat \<Rightarrow> bool \<Rightarrow> string list \<Rightarrow> (printed list \<times> bool, 's) run"
where
  "run_files W F depth timing [] = runs (ok ([], False))"
| "run_files W F depth timing (p # ps) =
     andRun (run_file W F depth timing p) (\<lambda>(out, failed).
     andRun (run_files W F depth timing ps) (\<lambda>(more, failed').
     runs (ok (out @ more, failed \<or> failed'))))"

text \<open>With files the program executes them and exits; else it starts the HTTP server, the REPL or the TUI.\<close>

datatype front_end = ExitWith int | HttpServer string | LineRepl | TerminalUi

definition exit_code :: "bool \<Rightarrow> int" where
  "exit_code had_error = (if had_error then 1 else 0)"

definition main_program ::
  "'s world \<Rightarrow> array_format \<Rightarrow> nat \<Rightarrow> cli \<Rightarrow> (printed list \<times> front_end, 's) run"
where
  "main_program W F depth c =
     (if cl_files c \<noteq> []
      then andRun (run_files W F depth (cl_timing c) (cl_files c)) (\<lambda>(out, had_error).
           runs (ok (out, ExitWith (exit_code had_error))))
      else case cl_http_addr c of
             Some a \<Rightarrow> runs (ok ([Stdout (''Starting HTTP API on '' @ a)], HttpServer a))
           | None \<Rightarrow> runs (ok ([], if cl_repl c then LineRepl else TerminalUi)))"

text \<open>The whole program: an error of opening the database ends it.\<close>

definition potatodb_main ::
  "'s world \<Rightarrow> array_format \<Rightarrow> nat \<Rightarrow> surroundings \<Rightarrow> cli \<Rightarrow> 's
     \<Rightarrow> ((string, (printed list \<times> front_end) \<times> engine) result \<times> 's) option"
where
  "potatodb_main W F depth S c s =
     (case new_database W depth S (cl_data_dir c) (s3_config_of c) s of
        None \<Rightarrow> None
      | Some (Inl err, s1) \<Rightarrow> Some (Inl err, s1)
      | Some (Inr e, s1) \<Rightarrow>
          map_option (\<lambda>(r, e1, s2). (map_sum id (\<lambda>out. (out, e1)) r, s2)) (main_program W F depth c e s1))"

end
