(* ===== verification/Sql_Types.thy ===== *)
theory Sql_Types
  imports Ddl
begin

text \<open>
  How the engine reads SQL types as Arrow types, and the statistics it hands to DataFusion
  (\<^verbatim>\<open>crates/engine/src/lib.rs\<close>). \<^verbatim>\<open>sqlparser\<close> is a parameter: of a type it gives the variant and the
  text that \<^verbatim>\<open>to_string\<close> makes of it.
\<close>

section \<open>Types\<close>

datatype number_info = PrecisionAndScale nat int | Precision nat | NoNumberInfo

datatype sql_type =
    TyBoolean | TyTinyInt | TySmallInt | TyInt | TyInteger | TyBigInt | TyReal | TyFloat | TyDouble
  | TyDoublePrecision | TyVarchar | TyText | TyChar | TyCharVarying | TyString | TyDate | TyTimestamp bool
  | TyNumeric number_info | TyDecimal number_info | TyDec number_info | TyBytea | TyBlob | TyOther

type_synonym type_parser = "string \<Rightarrow> (string, (sql_type \<times> string) option) result"

text \<open>\<^verbatim>\<open>as u8\<close> and \<^verbatim>\<open>as i8\<close>.\<close>

definition as_u8 :: "nat \<Rightarrow> nat" where "as_u8 n = n mod 256"

definition as_i8 :: "int \<Rightarrow> int" where "as_i8 i = (i + 128) mod 256 - 128"

fun decimal_size :: "number_info \<Rightarrow> nat \<times> int" where
  "decimal_size (PrecisionAndScale p s) = (as_u8 p, as_i8 s)"
| "decimal_size (Precision p) = (as_u8 p, 0)"
| "decimal_size NoNumberInfo = (38, 10)"

fun plain_arrow_type :: "sql_type \<Rightarrow> arrow_type option" where
  "plain_arrow_type TyBoolean = Some ABoolean"
| "plain_arrow_type TyTinyInt = Some AInt8"
| "plain_arrow_type TySmallInt = Some AInt16"
| "plain_arrow_type TyInt = Some AInt32"
| "plain_arrow_type TyInteger = Some AInt32"
| "plain_arrow_type TyBigInt = Some AInt64"
| "plain_arrow_type TyReal = Some AFloat32"
| "plain_arrow_type TyFloat = Some AFloat64"
| "plain_arrow_type TyDouble = Some AFloat64"
| "plain_arrow_type TyDoublePrecision = Some AFloat64"
| "plain_arrow_type TyVarchar = Some AUtf8"
| "plain_arrow_type TyText = Some AUtf8"
| "plain_arrow_type TyChar = Some AUtf8"
| "plain_arrow_type TyCharVarying = Some AUtf8"
| "plain_arrow_type TyString = Some AUtf8"
| "plain_arrow_type TyDate = Some ADate32"
| "plain_arrow_type (TyTimestamp tz) =
     Some (ATimestamp Microsecond (if tz then Some ''UTC'' else None))"
| "plain_arrow_type (TyNumeric i) = Some (case decimal_size i of (p, s) \<Rightarrow> ADecimal128 p s)"
| "plain_arrow_type (TyDecimal i) = Some (case decimal_size i of (p, s) \<Rightarrow> ADecimal128 p s)"
| "plain_arrow_type (TyDec i) = Some (case decimal_size i of (p, s) \<Rightarrow> ADecimal128 p s)"
| "plain_arrow_type TyBytea = Some ABinary"
| "plain_arrow_type TyBlob = Some ABinary"
| "plain_arrow_type TyOther = None"

text \<open>
  Lists are told from the text, and the type inside is parsed again: \<open>inner\<close> reads it. The outer
  option of a result is the depth of this recursion.
\<close>

type_synonym type_reader = "string \<Rightarrow> (string, arrow_type) result option"

definition list_type :: "type_reader \<Rightarrow> string \<Rightarrow> (string, arrow_type) result option" where
  "list_type inner t = map_option (map_sum id AList) (inner t)"

definition sqlparser_type_to_arrow :: "type_reader \<Rightarrow> sql_type \<times> string \<Rightarrow> (string, arrow_type) result option" where
  "sqlparser_type_to_arrow inner = (\<lambda>(ty, txt).
     let upper = to_uppercase txt;
         elements = (case strip_suffix ''[]'' upper of Some x \<Rightarrow> trim x | None \<Rightarrow> [])
     in if upper = ''UUID'' then Some (Inr (AFixedSizeBinary 16))
        else if starts_with ''INTERVAL'' upper then Some (Inr (ADuration Microsecond))
        else if upper = ''JSON'' \<or> upper = ''JSONB'' then Some (Inr AUtf8)
        else if elements \<noteq> [] then list_type inner elements
        else case Option.bind (strip_prefix ''ARRAY<'' upper) (strip_suffix ''>'') of
               Some x \<Rightarrow> list_type inner (trim x)
             | None \<Rightarrow> Some (case plain_arrow_type ty of
                               Some a \<Rightarrow> Inr a
                             | None \<Rightarrow> Inl (''Unsupported SQL type: '' @ txt)))"

definition dummy_table :: "string \<Rightarrow> string" where
  "dummy_table t = ''CREATE TABLE _t (_c '' @ t @ '')''"

fun sql_string_to_arrow :: "type_parser \<Rightarrow> nat \<Rightarrow> type_reader" where
  "sql_string_to_arrow P 0 t = None"
| "sql_string_to_arrow P (Suc n) t =
     (case P (dummy_table t) of
        Inl err \<Rightarrow> Some (Inl err)
      | Inr None \<Rightarrow> Some (Inl (''Cannot parse SQL type: '' @ t))
      | Inr (Some c) \<Rightarrow> sqlparser_type_to_arrow (sql_string_to_arrow P n) c)"

text \<open>The schema of a table from its catalog columns.\<close>

fun table_schema :: "type_parser \<Rightarrow> nat \<Rightarrow> column_def list \<Rightarrow> (string, schema_field list) result option" where
  "table_schema P depth [] = Some (Inr [])"
| "table_schema P depth (c # cs) =
     (case sql_string_to_arrow P depth (cd_type c) of
        None \<Rightarrow> None
      | Some (Inl err) \<Rightarrow> Some (Inl err)
      | Some (Inr a) \<Rightarrow>
          map_option (map_sum id (\<lambda>fs. \<lparr>sf_name = cd_name c, sf_type = a, sf_nullable = cd_nullable c\<rparr> # fs))
            (table_schema P depth cs))"

section \<open>Statistics\<close>

datatype 'a precision = Exact 'a | Absent

text \<open>A floating-point number is its text, a date the days since 1970.\<close>

datatype scalar = ScInt arrow_type int | ScFloat arrow_type string | ScText string | ScBool bool | ScDate int

record scalar_parsers =
  sp_float :: "string \<Rightarrow> string option"
  sp_date :: "string \<Rightarrow> int option"

definition parse_signed :: "nat \<Rightarrow> string \<Rightarrow> int option" where
  "parse_signed w s =
     (case parse_i64 s of None \<Rightarrow> None | Some v \<Rightarrow> if - (2 ^ (w - 1)) \<le> v \<and> v < 2 ^ (w - 1) then Some v else None)"

definition parse_bool :: "string \<Rightarrow> bool option" where
  "parse_bool s = (if s = ''true'' then Some True else if s = ''false'' then Some False else None)"

fun parse_scalar_value :: "scalar_parsers \<Rightarrow> string \<Rightarrow> arrow_type \<Rightarrow> scalar option" where
  "parse_scalar_value P s AInt8 = map_option (ScInt AInt8) (parse_signed 8 s)"
| "parse_scalar_value P s AInt16 = map_option (ScInt AInt16) (parse_signed 16 s)"
| "parse_scalar_value P s AInt32 = map_option (ScInt AInt32) (parse_signed 32 s)"
| "parse_scalar_value P s AInt64 = map_option (ScInt AInt64) (parse_i64 s)"
| "parse_scalar_value P s AUInt8 = map_option (\<lambda>n. ScInt AUInt8 (int n)) (parse_unsigned (2 ^ 8 - 1) s)"
| "parse_scalar_value P s AUInt16 = map_option (\<lambda>n. ScInt AUInt16 (int n)) (parse_unsigned (2 ^ 16 - 1) s)"
| "parse_scalar_value P s AUInt32 = map_option (\<lambda>n. ScInt AUInt32 (int n)) (parse_unsigned (2 ^ 32 - 1) s)"
| "parse_scalar_value P s AUInt64 = map_option (\<lambda>n. ScInt AUInt64 (int n)) (parse_u64 s)"
| "parse_scalar_value P s AFloat32 = map_option (ScFloat AFloat32) (sp_float P s)"
| "parse_scalar_value P s AFloat64 = map_option (ScFloat AFloat64) (sp_float P s)"
| "parse_scalar_value P s AUtf8 = Some (ScText s)"
| "parse_scalar_value P s ALargeUtf8 = Some (ScText s)"
| "parse_scalar_value P s ABoolean = map_option ScBool (parse_bool s)"
| "parse_scalar_value P s ADate32 = map_option ScDate (sp_date P s)"
| "parse_scalar_value P s _ = None"

record df_column =
  dc_nulls :: "nat precision"
  dc_min :: "scalar precision"
  dc_max :: "scalar precision"
  dc_distinct :: "nat precision"

record df_statistics =
  df_rows :: "nat precision"
  df_bytes :: "nat precision"
  df_columns :: "df_column list"

definition unknown_column :: df_column where
  "unknown_column = \<lparr>dc_nulls = Absent, dc_min = Absent, dc_max = Absent, dc_distinct = Absent\<rparr>"

definition exact_or_absent :: "'a option \<Rightarrow> 'a precision" where
  "exact_or_absent x = (case x of Some v \<Rightarrow> Exact v | None \<Rightarrow> Absent)"

definition column_to_df :: "scalar_parsers \<Rightarrow> table_statistics \<Rightarrow> schema_field \<Rightarrow> df_column" where
  "column_to_df P st f =
     (case hm_get (ts_columns st) (sf_name f) of
        None \<Rightarrow> unknown_column
      | Some c \<Rightarrow>
          let bound = (\<lambda>v. exact_or_absent (Option.bind v (\<lambda>t. parse_scalar_value P t (sf_type f)))) in
          \<lparr>dc_nulls = Exact (cs_null_count c), dc_min = bound (cs_min_value c), dc_max = bound (cs_max_value c),
           dc_distinct = exact_or_absent (cs_distinct_count c)\<rparr>)"

definition catalog_stats_to_df :: "scalar_parsers \<Rightarrow> table_statistics \<Rightarrow> schema_field list \<Rightarrow> df_statistics" where
  "catalog_stats_to_df P st schema =
     \<lparr>df_rows = Exact (ts_row_count st), df_bytes = Absent, df_columns = map (column_to_df P st) schema\<rparr>"

definition file_stats_to_df :: "file_stats list \<Rightarrow> schema_field list \<Rightarrow> df_statistics option" where
  "file_stats_to_df fs schema =
     (if fs = [] then None
      else let counted = List.map_filter fs_row_count fs in
           Some \<lparr>df_rows = (if counted = [] then Absent else Exact (foldl u64_saturating_add 0 counted)),
                 df_bytes = Exact (foldl u64_saturating_add 0 (map fs_size_bytes fs)),
                 df_columns = replicate (length schema) unknown_column\<rparr>)"

text \<open>What the table provider tells DataFusion: the catalog's statistics before the listing's own.\<close>

definition provider_statistics :: "df_statistics option \<Rightarrow> df_statistics option \<Rightarrow> df_statistics option" where
  "provider_statistics stats inner = (case stats of Some st \<Rightarrow> Some st | None \<Rightarrow> inner)"

definition table_provider_statistics ::
  "scalar_parsers \<Rightarrow> table_meta option \<Rightarrow> schema_field list \<Rightarrow> df_statistics option \<Rightarrow> df_statistics option"
where
  "table_provider_statistics P m schema inner =
     provider_statistics
       (Option.bind m (\<lambda>m. case tm_statistics m of
          Some st \<Rightarrow> Some (catalog_stats_to_df P st schema)
        | None \<Rightarrow> file_stats_to_df (tm_file_stats m) schema)) inner"

end
