(* ===== verification/Type_Props.thy ===== *)
theory Type_Props
  imports Sql_Types Frames
begin

text \<open>
  The types of a table that a query created: what the catalog stores of an Arrow type is read back
  as the type of the stored column, which is not always the query's type.
\<close>

section \<open>The texts of types\<close>

fun sql_variant :: "arrow_type \<Rightarrow> sql_type" where
  "sql_variant ABoolean = TyBoolean"
| "sql_variant AInt8 = TyTinyInt" | "sql_variant AUInt8 = TyTinyInt"
| "sql_variant AInt16 = TySmallInt" | "sql_variant AUInt16 = TySmallInt"
| "sql_variant AInt32 = TyInt" | "sql_variant AUInt32 = TyInt"
| "sql_variant AInt64 = TyBigInt" | "sql_variant AUInt64 = TyBigInt"
| "sql_variant AFloat16 = TyReal" | "sql_variant AFloat32 = TyReal"
| "sql_variant AFloat64 = TyDouble"
| "sql_variant ADate32 = TyDate" | "sql_variant ADate64 = TyDate"
| "sql_variant (ATimestamp u tz) = TyTimestamp (tz \<noteq> None)"
| "sql_variant (ADecimal128 p s) = TyDecimal (PrecisionAndScale p s)"
| "sql_variant (AFixedSizeBinary n) = (if n = 16 then TyOther else TyVarchar)"
| "sql_variant (ADuration u) = TyOther"
| "sql_variant (AList t) = TyOther"
| "sql_variant (ALargeList t) = TyOther"
| "sql_variant ABinary = TyBytea"
| "sql_variant ALargeBinary = TyBytea"
| "sql_variant _ = TyVarchar"

fun element_type :: "arrow_type \<Rightarrow> arrow_type" where
  "element_type (AList t) = element_type t"
| "element_type (ALargeList t) = element_type t"
| "element_type t = t"

fun list_depth :: "arrow_type \<Rightarrow> nat" where
  "list_depth (AList t) = Suc (list_depth t)"
| "list_depth (ALargeList t) = Suc (list_depth t)"
| "list_depth t = 0"

text \<open>The types whose texts are read: the type itself and the elements of lists.\<close>

fun type_parts :: "arrow_type \<Rightarrow> arrow_type set" where
  "type_parts (AList t) = insert (AList t) (type_parts t)"
| "type_parts (ALargeList t) = insert (ALargeList t) (type_parts t)"
| "type_parts t = {t}"

text \<open>
  What the parser does with these texts: it accepts them as columns, with their variants, and
  prints them as they were.
\<close>

definition reads_types :: "type_parser \<Rightarrow> arrow_type set \<Rightarrow> bool" where
  "reads_types P ts \<longleftrightarrow>
     (\<forall>t \<in> ts. P (dummy_table (arrow_type_to_sql_string t)) = Inr (Some (sql_variant t, arrow_type_to_sql_string t)))"

fun is_duration :: "arrow_type \<Rightarrow> bool" where
  "is_duration (ADuration u) = True"
| "is_duration _ = False"

text \<open>The types that the stored column has again, and what becomes of every type.\<close>

fun kept_type :: "arrow_type \<Rightarrow> bool" where
  "kept_type (ATimestamp u tz) = (u = Microsecond \<and> tz \<in> {None, Some ''UTC''})"
| "kept_type (ADuration u) = (u = Microsecond)"
| "kept_type (AFixedSizeBinary n) = (n = 16)"
| "kept_type (AList t) = (kept_type t \<and> \<not> is_duration (element_type t))"
| "kept_type (ADecimal128 p sc) = (p < 256 \<and> - 128 \<le> sc \<and> sc < 128)"
| "kept_type t = (t \<in> {ABoolean, AInt8, AInt16, AInt32, AInt64, AFloat32, AFloat64, ADate32, ABinary, AUtf8})"

fun stored_type :: "arrow_type \<Rightarrow> arrow_type" where
  "stored_type AUInt8 = AInt8"
| "stored_type AUInt16 = AInt16"
| "stored_type AUInt32 = AInt32"
| "stored_type AUInt64 = AInt64"
| "stored_type AFloat16 = AFloat32"
| "stored_type ADate64 = ADate32"
| "stored_type (ATimestamp u tz) = ATimestamp Microsecond (map_option (\<lambda>_. ''UTC'') tz)"
| "stored_type (ADuration u) = ADuration Microsecond"
| "stored_type (AFixedSizeBinary n) = (if n = 16 then AFixedSizeBinary 16 else AUtf8)"
| "stored_type (AList t) = (if is_duration (element_type t) then ADuration Microsecond else AList (stored_type t))"
| "stored_type (ALargeList t) = (if is_duration (element_type t) then ADuration Microsecond else AList (stored_type t))"
| "stored_type (ADecimal128 p s) = ADecimal128 (as_u8 p) (as_i8 s)"
| "stored_type ALargeBinary = ABinary"
| "stored_type t = (if kept_type t then t else AUtf8)"

lemma stored_duration: "\<not> is_duration (element_type t) \<Longrightarrow> \<not> is_duration (element_type (stored_type t))"
  by (induction t) auto

lemma stored_kept: "kept_type (stored_type t)"
  by (induction t) (auto simp: as_u8_def as_i8_def stored_duration pos_mod_bound split: option.split)

lemma kept_stored: "kept_type t \<Longrightarrow> stored_type t = t"
  by (induction t) (auto simp: as_u8_def as_i8_def)

lemma digits_upper: "list_all is_digit s \<Longrightarrow> to_uppercase s = s"
  by (induction s) (auto simp: to_uppercase_def up_def is_digit_def is_lower_def)

lemma show_upper [simp]: "to_uppercase (show_nat n) = show_nat n" "to_uppercase (show_int i) = show_int i"
  using digits_upper show_nat_digits by (simp_all add: show_int_def to_uppercase_def up_def is_lower_def)

lemma show_up [simp]: "map up (show_nat n) = show_nat n" "map up (show_int i) = show_int i"
  using show_upper by (simp_all add: to_uppercase_def)

lemma type_text_upper: "to_uppercase (arrow_type_to_sql_string t) = arrow_type_to_sql_string t"
  by (induction t) (simp_all add: to_uppercase_def [of "_ # _"] to_uppercase_def [of "[]"] up_def is_lower_def)

lemma type_text_ends:
  "arrow_type_to_sql_string t \<noteq> []" "\<not> is_ws (hd (arrow_type_to_sql_string t))"
  "\<not> is_ws (last (arrow_type_to_sql_string t))"
  by (induction t) (simp_all add: is_ws_def hd_append)

lemma type_text_trim: "trim (arrow_type_to_sql_string t) = arrow_type_to_sql_string t"
  using type_text_ends by (rule trim_by_id)

lemma type_text_length: "3 \<le> length (arrow_type_to_sql_string t)"
  by (induction t) simp_all

lemma take_append_brackets: "3 \<le> length x \<Longrightarrow> take 4 (x @ ''[]'') = ''INTE'' \<longleftrightarrow> take 4 x = ''INTE''"
proof -
  assume "3 \<le> length x"
  then obtain a b c r where x: "x = a # b # c # r"
    by (metis (no_types) Suc_le_length_iff numeral_3_eq_3)
  show ?thesis by (cases r) (simp_all add: x numeral_eq_Suc)
qed

lemma other_text: "\<not> is_duration (element_type t) \<Longrightarrow> take 4 (arrow_type_to_sql_string t) \<noteq> ''INTE''"
proof (induction t)
  case (AList t)
  then show ?case using take_append_brackets [OF type_text_length [of t]] by simp
next
  case (ALargeList t)
  then show ?case using take_append_brackets [OF type_text_length [of t]] by simp
qed (simp_all add: numeral_eq_Suc)

lemma interval_text: "is_duration (element_type t) \<Longrightarrow> \<exists>r. arrow_type_to_sql_string t = ''INTERVAL'' @ r"
  by (induction t) auto

lemma element_interval: "starts_with ''INTERVAL'' (arrow_type_to_sql_string t) \<longleftrightarrow> is_duration (element_type t)"
proof
  assume "starts_with ''INTERVAL'' (arrow_type_to_sql_string t)"
  then obtain r where "arrow_type_to_sql_string t = ''INTERVAL'' @ r" by (auto simp: starts_with_iff)
  then show "is_duration (element_type t)" using other_text [of t] by auto
next
  assume "is_duration (element_type t)"
  then show "starts_with ''INTERVAL'' (arrow_type_to_sql_string t)"
    using interval_text by (auto simp: starts_with_iff)
qed

lemma base_text:
  assumes "list_depth t = 0"
  shows "strip_suffix ''[]'' (arrow_type_to_sql_string t) = None" "\<not> starts_with ''ARRAY<'' (arrow_type_to_sql_string t)"
    "arrow_type_to_sql_string t = ''UUID'' \<longleftrightarrow> t = AFixedSizeBinary 16" "arrow_type_to_sql_string t \<notin> {''JSON'', ''JSONB''}"
proof -
  have e: "last (arrow_type_to_sql_string t) \<noteq> CHR '']''" using assms by (cases t) simp_all
  show "strip_suffix ''[]'' (arrow_type_to_sql_string t) = None"
  proof (rule ccontr)
    assume "strip_suffix ''[]'' (arrow_type_to_sql_string t) \<noteq> None"
    then obtain x where "arrow_type_to_sql_string t = x @ ''[]''"
      by (metis append_take_drop_id option.distinct(1) strip_suffix_def)
    then show False using e by simp
  qed
  show "\<not> starts_with ''ARRAY<'' (arrow_type_to_sql_string t)"
    "arrow_type_to_sql_string t = ''UUID'' \<longleftrightarrow> t = AFixedSizeBinary 16" "arrow_type_to_sql_string t \<notin> {''JSON'', ''JSONB''}"
    using assms by (cases t; simp add: starts_with_def)+
qed

lemma strip_brackets [simp]: "strip_suffix ''[]'' (x @ ''[]'') = Some x"
  by (simp add: strip_suffix_def)

lemma read_back:
  assumes "reads_types P (type_parts t)" and "list_depth t < n"
  shows "sql_string_to_arrow P n (arrow_type_to_sql_string t) = Some (Inr (stored_type t))"
  using assms
proof (induction n arbitrary: t)
  case (Suc n)
  have P: "P (dummy_table (arrow_type_to_sql_string t)) = Inr (Some (sql_variant t, arrow_type_to_sql_string t))"
    using Suc.prems(1) by (cases t) (auto simp: reads_types_def)
  have lists: ?case if t: "arrow_type_to_sql_string t = arrow_type_to_sql_string u @ ''[]''" "list_depth u < n"
      "reads_types P (type_parts u)" "element_type t = element_type u"
      "stored_type t = (if is_duration (element_type u) then ADuration Microsecond else AList (stored_type u))" for u
    using P type_text_upper [of t] element_interval [of t] type_text_trim [of u] type_text_ends(1) [of u]
      type_text_length [of u] Suc.IH [of u] t
    by (auto simp: sqlparser_type_to_arrow_def list_type_def Let_def)
  show ?case
  proof (cases "list_depth t = 0")
    case True
    then have "element_type t = t" by (cases t) simp_all
    then show ?thesis
      using P type_text_upper [of t] element_interval [of t] base_text [OF True] True
      by (cases t) (auto simp: sqlparser_type_to_arrow_def Let_def strip_prefix_def)
  next
    case False
    then obtain u where "t = AList u \<or> t = ALargeList u" by (cases t) auto
    then show ?thesis using Suc.prems by (intro lists [of u]) (auto simp: reads_types_def)
  qed
qed simp

text \<open>The schema that the columns of the created table are read as.\<close>

definition stored_field :: "schema_field \<Rightarrow> schema_field" where
  "stored_field f = f\<lparr>sf_type := stored_type (sf_type f)\<rparr>"

lemma schema_back:
  assumes "\<forall>f \<in> set fs. reads_types P (type_parts (sf_type f)) \<and> list_depth (sf_type f) < n"
  shows "table_schema P n (map field_column fs) = Some (Inr (map stored_field fs))"
  using assms by (induction fs) (simp_all add: field_column_def read_back stored_field_def)

lemma stats_keep_columns:
  assumes "refresh_table_file_stats W tbl e s = (r, e', s')" and "hm_get (cat_tables (en_catalog e)) nm = Some m"
  shows "\<exists>m'. hm_get (cat_tables (en_catalog e')) nm = Some m' \<and> tm_columns m' = tm_columns m"
proof -
  have "keeps txn_state (refresh_table_file_stats W tbl)"
    unfolding refresh_table_file_stats_def by (intro keeps_intros) (simp add: keeps_def)
  from keepsD [OF this assms(1)] have "shape e' = shape e" by (simp add: txn_state_def)
  then have "cat_tables (shape e') = cat_tables (shape e)" by simp
  then have "map_option (\<lambda>m. m\<lparr>tm_file_stats := []\<rparr>) (hm_get (cat_tables (en_catalog e')) nm) =
      map_option (\<lambda>m. m\<lparr>tm_file_stats := []\<rparr>) (hm_get (cat_tables (en_catalog e)) nm)"
    by (simp add: shape_def catalog_shape_def catalog_snapshot_def flip: hm_get_map_values)
  with assms(2) obtain m' where "hm_get (cat_tables (en_catalog e')) nm = Some m'"
    "m'\<lparr>tm_file_stats := []\<rparr> = m\<lparr>tm_file_stats := []\<rparr>" by auto
  then show ?thesis by (metis table_meta.select_convs(2) table_meta.surjective table_meta.update_convs(8))
qed


definition list_parser :: type_parser where
  "list_parser s =
     (if s = dummy_table ''BIGINT'' then Inr (Some (TyBigInt, ''BIGINT''))
      else if s = dummy_table ''BIGINT[]'' then Inr (Some (TyOther, ''BIGINT[]'')) else Inr None)"

definition ctas_world :: "unit world" where
  "ctas_world = idle_world\<lparr>w_schema := (\<lambda>_ _. Inr [\<lparr>sf_name = ''xs'', sf_type = AList AUInt64, sf_nullable = True\<rparr>])\<rparr>"

definition type_engine :: engine where
  "type_engine = engine_new (\<lambda>_. None) 0 InMemory [] [] None None (with_data empty_data ''c'')"


end
