(* ===== verification/Change_Log_Props.thy ===== *)
theory Change_Log_Props
  imports Change_Log
begin

text \<open>
  The change log across restarts: the events in memory are always those that reading the file
  again would give.
\<close>

section \<open>Events and their lines\<close>

text \<open>An event whose time and count fit into 64 bits.\<close>

definition event_ok :: "cdc_event \<Rightarrow> bool" where
  "event_ok ev \<longleftrightarrow> is_i64 (ev_timestamp_ms ev) \<and> ev_rows ev \<le> u64_max"

lemma json_event_json: "event_ok ev \<Longrightarrow> json_event (event_json ev) = ev"
  by (cases ev)
    (simp add: event_ok_def json_event_def event_json_def json_member_def json_str_def json_i64_def
      json_u64_def unwrap_or_def)

text \<open>
  What is documented of the outside: the object of an event is printed on one line that is read as
  the same object, and a file that was appended to has the new text at its end.
\<close>

definition line_of_event :: "'s world \<Rightarrow> cdc_event \<Rightarrow> bool" where
  "line_of_event W ev \<longleftrightarrow>
     (let v = event_json ev; l = w_json_text W v in
      w_json_value W l = Some v \<and> newline \<notin> set l \<and> (l \<noteq> [] \<longrightarrow> last l \<noteq> CHR 13))"

definition file_text :: "'s world \<Rightarrow> string \<Rightarrow> 's \<Rightarrow> string" where
  "file_text W path s = unwrap_or (w_text_file W path s) []"

definition appends :: "'s world \<Rightarrow> bool" where
  "appends W \<longleftrightarrow> (\<forall>path t s. w_text_file W path (w_append W path t s) = Some (file_text W path s @ t))"

text \<open>The event of a change at the time of the outside, and that it can be logged at all times.\<close>

definition event_at :: "'s world \<Rightarrow> string \<Rightarrow> string \<Rightarrow> nat \<Rightarrow> 's \<Rightarrow> cdc_event" where
  "event_at W tbl op n s = \<lparr>ev_table = tbl, ev_op = op, ev_timestamp_ms = w_utc_ms W s, ev_rows = n\<rparr>"

definition loggable :: "'s world \<Rightarrow> string \<times> string \<times> nat \<Rightarrow> bool" where
  "loggable W = (\<lambda>(tbl, op, n). \<forall>s. event_ok (event_at W tbl op n s) \<and> line_of_event W (event_at W tbl op n s))"

lemma map_filter_snoc: "List.map_filter f (xs @ [x]) = List.map_filter f xs @ (case f x of None \<Rightarrow> [] | Some y \<Rightarrow> [y])"
  by (induction xs) (auto simp: map_filter_simps split: option.splits)

lemma file_events_append:
  assumes "s = [] \<or> last s = newline" and "event_ok ev" and "line_of_event W ev"
  shows "file_events W (s @ w_json_text W (event_json ev) @ [newline]) = file_events W s @ [ev]"
  using assms by (simp add: file_events_def line_of_event_def Let_def str_lines_append map_filter_snoc
      json_event_json)

lemma newest_push: "push_bounded cap x (drop (length xs - cap) xs) = drop (length (xs @ [x]) - cap) (xs @ [x])"
  by (cases "cap \<le> length xs") (auto simp: push_bounded_def Suc_diff_le)

section \<open>The file and the memory agree\<close>

text \<open>The file consists of whole lines, and its newest events are those in memory.\<close>

definition newest_events :: "nat \<Rightarrow> 'a list \<Rightarrow> 'a list" where
  "newest_events cap xs = drop (length xs - cap) xs"

definition log_in_file :: "'s world \<Rightarrow> string \<Rightarrow> engine \<Rightarrow> 's \<Rightarrow> bool" where
  "log_in_file W path e s \<longleftrightarrow>
     (file_text W path s = [] \<or> last (file_text W path s) = newline) \<and>
     en_cdc_log e = newest_events (en_cdc_capacity e) (file_events W (file_text W path s))"

lemma file_events_Nil [simp]: "file_events W [] = []"
  by (simp add: file_events_def str_lines_def map_filter_simps)

lemma cdc_log_path_update [simp]: "cdc_log_path (e\<lparr>en_cdc_log := l\<rparr>) = cdc_log_path e"
  by (simp add: cdc_log_path_def)

lemma load_cdc_log_newest:
  "cdc_log_path e = Some path \<Longrightarrow>
   load_cdc_log W (e\<lparr>en_cdc_log := []\<rparr>) s =
     (Inr (), e\<lparr>en_cdc_log := newest_events (en_cdc_capacity e) (file_events W (file_text W path s))\<rparr>, s)"
  by (cases "w_text_file W path s")
    (simp_all add: load_cdc_log_def file_text_def unwrap_or_def newest_events_def Let_def)

lemma load_log_in_file:
  assumes "cdc_log_path e = Some path" and "log_in_file W path e s"
  shows "load_cdc_log W (e\<lparr>en_cdc_log := []\<rparr>) s = (Inr (), e, s)"
  using assms(2) by (simp add: load_cdc_log_newest [OF assms(1)] log_in_file_def)

lemma record_keeps_log_in_file:
  assumes "appends W" and "cdc_log_path e = Some path" and "log_in_file W path e s" and "loggable W (tbl, op, n)"
    and "record_cdc W tbl op n e s = (r, e', s')"
  shows "log_in_file W path e' s'" and "cdc_log_path e' = Some path" and "r = Inr ()"
proof -
  let ?ev = "event_at W tbl op n s"
  have ev: "event_ok ?ev" "line_of_event W ?ev" using assms(4) by (simp_all add: loggable_def)
  have s': "s' = w_append W path (w_json_text W (event_json ?ev) @ [newline]) s"
    and e': "e' = record_cdc_event tbl op n (w_utc_ms W s) e" and "r = Inr ()"
    using assms(2,5) by (simp_all add: record_cdc_def append_cdc_line_def event_at_def Let_def)
  have "file_text W path s' = file_text W path s @ w_json_text W (event_json ?ev) @ [newline]"
    using assms(1) by (simp add: s' file_text_def unwrap_or_def appends_def)
  then show "log_in_file W path e' s'"
    using assms(3) ev newest_push
    by (simp add: log_in_file_def file_events_append e' record_cdc_event_def newest_events_def event_at_def)
  show "cdc_log_path e' = Some path" using assms(2) by (simp add: e' record_cdc_event_def)
  show "r = Inr ()" by fact
qed

text \<open>The events of the statements of a session.\<close>

definition record_all :: "'s world \<Rightarrow> (string \<times> string \<times> nat) list \<Rightarrow> (unit, 's) action" where
  "record_all W = each (\<lambda>(tbl, op, n). record_cdc W tbl op n)"

text \<open>
  C19. Whatever a session records after the log was read, the next start reads exactly the change log
  that the session had, oldest events dropped alike; provided that the file can be written and that
  JSON is read as it was printed.
\<close>

theorem change_log_survives_restart:
  assumes "appends W" and "\<forall>ev \<in> set evs. loggable W ev" and "cdc_log_path e = Some path"
    and "load_cdc_log W (e\<lparr>en_cdc_log := []\<rparr>) s = (Inr (), e, s)"
    and "file_text W path s = [] \<or> last (file_text W path s) = newline"
    and "record_all W evs e s = (r, e', s')"
  shows "load_cdc_log W (e'\<lparr>en_cdc_log := []\<rparr>) s' = (Inr (), e', s')"
proof -
  have "en_cdc_log (fst (snd (load_cdc_log W (e\<lparr>en_cdc_log := []\<rparr>) s))) =
      newest_events (en_cdc_capacity e) (file_events W (file_text W path s))"
    by (simp add: load_cdc_log_newest [OF assms(3)])
  then have "en_cdc_log e = newest_events (en_cdc_capacity e) (file_events W (file_text W path s))"
    by (simp add: assms(4))
  then have "log_in_file W path e s" using assms(5) by (simp add: log_in_file_def)
  with assms(2,3,6) have "log_in_file W path e' s' \<and> cdc_log_path e' = Some path"
  proof (induction evs arbitrary: e s)
    case Nil
    then show ?case by (simp add: record_all_def)
  next
    case (Cons x evs)
    obtain tbl op n where x: "x = (tbl, op, n)" by (cases x)
    obtain r1 e1 s1 where step: "record_cdc W tbl op n e s = (r1, e1, s1)" by (metis surj_pair)
    note kept = record_keeps_log_in_file [OF assms(1) Cons.prems(2,4) _ step]
    have "r1 = Inr ()" using kept(3) Cons.prems(1) x by simp
    then have "record_all W evs e1 s1 = (r, e', s')" using Cons.prems(3) step by (simp add: record_all_def x)
    then show ?case using Cons.IH [of e1 s1] kept(1,2) Cons.prems(1) x by simp
  qed
  then show ?thesis by (simp add: load_log_in_file)
qed

text \<open>An outside with one file and a clock that stands still.\<close>

definition one_event :: cdc_event where
  "one_event = \<lparr>ev_table = ''t'', ev_op = ''INSERT'', ev_timestamp_ms = 0, ev_rows = 2\<rparr>"

definition file_world :: "string option world" where
  "file_world = idle_world\<lparr>w_json_text := (\<lambda>_. ''event''),
     w_json_value := (\<lambda>l. if l = ''event'' then Some (event_json one_event) else None),
     w_text_file := (\<lambda>_ s. s), w_append := (\<lambda>_ t s. Some (unwrap_or s [] @ t))\<rparr>"

definition disk_engine :: engine where
  "disk_engine = (engine_new (\<lambda>_. None) 0 LocalDisk ''/d'' [] None None (with_data empty_data ''catalog.json''))\<lparr>en_cdc_capacity := 1\<rparr>"

lemma disk_engine_fields:
  "cdc_log_path disk_engine = Some ''/d/_cdc_log.jsonl''" "en_cdc_capacity disk_engine = 1" "en_cdc_log disk_engine = []"
  by (simp_all add: disk_engine_def engine_new_def cdc_log_path_def Let_def)

lemma file_world_laws: "appends file_world" "loggable file_world (''t'', ''INSERT'', 2)"
  by (simp_all add: appends_def file_world_def file_text_def loggable_def event_ok_def event_at_def
      line_of_event_def one_event_def Let_def idle_world_def is_i64_def i64_min_def i64_max_def u64_max_def)

lemma two_events:
  "\<exists>e' s'. record_all file_world [(''t'', ''INSERT'', 2), (''t'', ''INSERT'', 2)] disk_engine None = (Inr (), e', s') \<and>
     en_cdc_log e' = [one_event] \<and> s' = Some (''event'' @ [newline] @ ''event'' @ [newline])"
  by (simp add: record_all_def record_cdc_def record_cdc_event_def append_cdc_line_def disk_engine_fields
      file_world_def idle_world_def unwrap_or_def push_bounded_def one_event_def andThen_def ok_def Let_def)

theorem change_log_survives_restart_witness:
  "\<exists>e' s'. record_all file_world [(''t'', ''INSERT'', 2), (''t'', ''INSERT'', 2)] disk_engine None = (Inr (), e', s') \<and>
     en_cdc_log e' = [one_event] \<and>
     load_cdc_log file_world (e'\<lparr>en_cdc_log := []\<rparr>) s' = (Inr (), e', s')"
proof -
  from two_events obtain e' s' where
    run: "record_all file_world [(''t'', ''INSERT'', 2), (''t'', ''INSERT'', 2)] disk_engine None = (Inr (), e', s')"
      "en_cdc_log e' = [one_event]" by blast
  have "load_cdc_log file_world (disk_engine\<lparr>en_cdc_log := []\<rparr>) None = (Inr (), disk_engine, None)"
    by (simp add: load_cdc_log_newest [OF disk_engine_fields(1)] file_text_def unwrap_or_def file_world_def newest_events_def)
      (simp add: disk_engine_def engine_new_def Let_def)
  then show ?thesis
    using change_log_survives_restart [OF file_world_laws(1) _ disk_engine_fields(1) _ _ run(1)] file_world_laws(2) run
    by (simp add: file_text_def unwrap_or_def file_world_def)
qed

end
