(* ===== verification/Plan_Rules.thy ===== *)
theory Plan_Rules
  imports Rust_Text
begin

text \<open>
  The optimizer rule that the engine adds to DataFusion (\<^verbatim>\<open>SplitScalarSubqueries\<close> in
  \<^verbatim>\<open>crates/engine/src/lib.rs\<close>). DataFusion's plans are not under \<^verbatim>\<open>src/\<close>: the model has the
  expressions as far as the rule tells them apart, projections, and all other plans by their
  columns. What a plan and an expression evaluate to is stated for the rule's correctness.
\<close>

section \<open>Expressions and plans\<close>

text \<open>A column is its table, when it has one, and its name.\<close>

type_synonym column = "string option \<times> string"

text \<open>
  An alias is the table it is qualified with, when it is (\<^verbatim>\<open>Alias::relation\<close>), the expression, and
  the name. A scalar subquery with the outer columns it refers to; \<open>PNode\<close> stands for every other expression, with the expressions below it.
\<close>

datatype plan_expr =
    PColumn column
  | PAlias "string option" plan_expr string
  | PSubquery string "column list"
  | PNode string "plan_expr list"

datatype plan = Projection "plan_expr list" plan | OtherPlan string "column list"

text \<open>\<^verbatim>\<open>e.exists(matches!(inner, Expr::ScalarSubquery(_)))\<close>.\<close>

fun has_subquery :: "plan_expr \<Rightarrow> bool" where
  "has_subquery (PColumn c) = False"
| "has_subquery (PAlias rel e nm) = has_subquery e"
| "has_subquery (PSubquery q outer) = True"
| "has_subquery (PNode f es) = list_ex has_subquery es"

text \<open>The column that an expression becomes; the name of a bare expression is a parameter.\<close>

definition field_of :: "(plan_expr \<Rightarrow> string) \<Rightarrow> plan_expr \<Rightarrow> column" where
  "field_of name e = (case e of PColumn c \<Rightarrow> c | PAlias rel e' nm \<Rightarrow> (rel, nm) | _ \<Rightarrow> (None, name e))"

definition plan_columns :: "(plan_expr \<Rightarrow> string) \<Rightarrow> plan \<Rightarrow> column list" where
  "plan_columns name p = (case p of Projection es inp \<Rightarrow> map (field_of name) es | OtherPlan txt cs \<Rightarrow> cs)"

section \<open>The rule\<close>

definition subquery_indices :: "plan_expr list \<Rightarrow> nat list" where
  "subquery_indices es = filter (\<lambda>i. has_subquery (es ! i)) [0 ..< length es]"

definition subquery_alias :: "nat \<Rightarrow> string" where
  "subquery_alias i = ''__potato_sq_'' @ show_nat i"

text \<open>The expression without its alias, and the alias's name; its qualifier is dropped.\<close>

definition base_and_alias :: "plan_expr \<Rightarrow> plan_expr \<times> string option" where
  "base_and_alias e = (case e of PAlias rel e' nm \<Rightarrow> (e', Some nm) | _ \<Rightarrow> (e, None))"

definition outer_reference :: "string \<Rightarrow> string option \<Rightarrow> plan_expr" where
  "outer_reference sq nm =
     (case nm of None \<Rightarrow> PColumn (None, sq) | Some a \<Rightarrow> PAlias None (PColumn (None, sq)) a)"

text \<open>
  \<open>build\<close> is DataFusion's construction of a projection with its checks; \<open>Inr None\<close> is
  \<^verbatim>\<open>Transformed::no\<close>.
\<close>

definition split_scalar_subqueries ::
  "(plan_expr list \<Rightarrow> plan \<Rightarrow> (string, plan) result) \<Rightarrow> (plan_expr \<Rightarrow> string) \<Rightarrow> plan
     \<Rightarrow> (string, plan option) result"
where
  "split_scalar_subqueries build name p =
     (case p of
        OtherPlan txt cs \<Rightarrow> Inr None
      | Projection es inp \<Rightarrow>
          (case subquery_indices es of
             i # _ # _ \<Rightarrow>
               let sq = subquery_alias i; (base, nm) = base_and_alias (es ! i) in
               (case build (map PColumn (plan_columns name inp) @ [PAlias None base sq]) inp of
                  Inl err \<Rightarrow> Inl err
                | Inr inner \<Rightarrow>
                    map_sum id Some (build (es[i := outer_reference sq nm]) inner))
           | _ \<Rightarrow> Inr None))"

section \<open>What plans evaluate to\<close>

text \<open>
  A row gives each column a value; of a repeated column the first one counts. How nodes and
  subqueries are computed and which rows the other plans have is arbitrary.
\<close>

record 'v meaning =
  node_value :: "string \<Rightarrow> 'v list \<Rightarrow> 'v"
  subquery_value :: "string \<Rightarrow> 'v list \<Rightarrow> 'v"
  base_rows :: "string \<Rightarrow> 'v list list"

definition value_in :: "column list \<Rightarrow> 'v list \<Rightarrow> column \<Rightarrow> 'v" where
  "value_in cs row c = the (map_of (zip cs row) c)"

fun eval :: "'v meaning \<Rightarrow> (column \<Rightarrow> 'v) \<Rightarrow> plan_expr \<Rightarrow> 'v" where
  "eval I env (PColumn c) = env c"
| "eval I env (PAlias rel e nm) = eval I env e"
| "eval I env (PSubquery q outer) = subquery_value I q (map env outer)"
| "eval I env (PNode f es) = node_value I f (map (eval I env) es)"

fun plan_rows :: "'v meaning \<Rightarrow> (plan_expr \<Rightarrow> string) \<Rightarrow> plan \<Rightarrow> 'v list list" where
  "plan_rows I name (OtherPlan txt cs) = base_rows I txt"
| "plan_rows I name (Projection es inp) =
     map (\<lambda>row. map (eval I (value_in (plan_columns name inp) row)) es) (plan_rows I name inp)"

fun columns_in :: "plan_expr \<Rightarrow> column set" where
  "columns_in (PColumn c) = {c}"
| "columns_in (PAlias rel e nm) = columns_in e"
| "columns_in (PSubquery q outer) = set outer"
| "columns_in (PNode f es) = (\<Union>e \<in> set es. columns_in e)"

lemma eval_cong: "(\<And>c. c \<in> columns_in e \<Longrightarrow> env c = env' c) \<Longrightarrow> eval I env e = eval I env' e"
proof (induction e)
  case (PNode f es)
  then have "map (eval I env) es = map (eval I env') es" by (intro map_cong) auto
  then show ?case by (simp only: eval.simps)
qed (auto intro!: arg_cong [of _ _ "subquery_value _ _"])

lemma eval_base: "base_and_alias e = (base, nm) \<Longrightarrow> eval I env base = eval I env e"
  and columns_base: "base_and_alias e = (base, nm) \<Longrightarrow> columns_in base = columns_in e"
  by (auto simp: base_and_alias_def split: plan_expr.splits)

lemma eval_outer_reference [simp]: "eval I env (outer_reference sq nm) = env (None, sq)"
  by (simp add: outer_reference_def split: option.split)

lemma has_subquery_outer_reference [simp]: "\<not> has_subquery (outer_reference sq nm)"
  by (simp add: outer_reference_def split: option.split)

text \<open>The row of the inner projection: the input's columns and the subquery's value.\<close>

lemma value_in_inner:
  assumes "(None, sq) \<notin> set cs"
  shows "value_in (cs @ [(None, sq)]) (map (value_in cs row) cs @ [v]) (None, sq) = v"
    and "c \<in> set cs \<Longrightarrow> value_in (cs @ [(None, sq)]) (map (value_in cs row) cs @ [v]) c = value_in cs row c"
  using assms by (auto simp: value_in_def map_of_zip_map map_add_def)

section \<open>One application\<close>

text \<open>Expressions that only use columns of their input, none of which has the new name.\<close>

definition splittable :: "(plan_expr \<Rightarrow> string) \<Rightarrow> nat \<Rightarrow> plan_expr list \<Rightarrow> plan \<Rightarrow> bool" where
  "splittable name i es inp \<longleftrightarrow>
     (\<forall>e \<in> set es. columns_in e \<subseteq> set (plan_columns name inp)) \<and>
     (\<forall>k \<ge> i. (None, subquery_alias k) \<notin> set (plan_columns name inp))"

definition builds :: "(plan_expr list \<Rightarrow> plan \<Rightarrow> (string, plan) result) \<Rightarrow> bool" where
  "builds build \<longleftrightarrow> (\<forall>es inp p. build es inp = Inr p \<longrightarrow> p = Projection es inp)"

lemma split_result:
  assumes "split_scalar_subqueries build name (Projection es inp) = Inr (Some p)" and "builds build"
  obtains i j js base nm where "subquery_indices es = i # j # js" and "base_and_alias (es ! i) = (base, nm)"
    and "p = Projection (es[i := outer_reference (subquery_alias i) nm])
           (Projection (map PColumn (plan_columns name inp) @ [PAlias None base (subquery_alias i)]) inp)"
proof -
  obtain i j js where inds: "subquery_indices es = i # j # js"
    using assms(1) by (auto simp: split_scalar_subqueries_def split: list.splits)
  obtain base nm where bn: "base_and_alias (es ! i) = (base, nm)" by fastforce
  let ?inner = "map PColumn (plan_columns name inp) @ [PAlias None base (subquery_alias i)]"
  obtain q where q: "build ?inner inp = Inr q"
      "map_sum id Some (build (es[i := outer_reference (subquery_alias i) nm]) q) = Inr (Some p)"
    using assms(1) by (auto simp: split_scalar_subqueries_def inds bn Let_def split: sum.splits)
  then have "build (es[i := outer_reference (subquery_alias i) nm]) q = Inr p"
    by (cases "build (es[i := outer_reference (subquery_alias i) nm]) q") auto
  then have "p = Projection (es[i := outer_reference (subquery_alias i) nm]) q"
    using assms(2) by (simp add: builds_def)
  moreover have "q = Projection ?inner inp" using assms(2) q(1) by (simp add: builds_def)
  ultimately show thesis using that [OF inds bn] by simp
qed

lemma inner_columns:
  "plan_columns name (Projection (map PColumn cs @ [PAlias None base sq]) inp) = cs @ [(None, sq)]"
  by (simp add: plan_columns_def field_of_def o_def)

lemma split_keeps_row:
  assumes "\<forall>e \<in> set es. columns_in e \<subseteq> set cs" and "(None, sq) \<notin> set cs" and "i < length es"
    and "base_and_alias (es ! i) = (base, nm)"
  shows "map (eval I (value_in (cs @ [(None, sq)])
             (map (eval I (value_in cs row)) (map PColumn cs @ [PAlias None base sq])))) (es[i := outer_reference sq nm]) =
         map (eval I (value_in cs row)) es"
proof -
  let ?env = "value_in (cs @ [(None, sq)]) (map (value_in cs row) cs @ [eval I (value_in cs row) base])"
  have same: "eval I ?env e = eval I (value_in cs row) e" if "e \<in> set es" for e
    using assms(1,2) that by (intro eval_cong value_in_inner(2)) auto
  have "map (eval I ?env) (es[i := outer_reference sq nm]) =
      (map (eval I ?env) es)[i := eval I (value_in cs row) base]"
    by (simp add: map_update value_in_inner(1) [OF assms(2)])
  also have "\<dots> = (map (eval I (value_in cs row)) es)[i := eval I (value_in cs row) (es ! i)]"
    using same eval_base [OF assms(4), of I "value_in cs row"] by (simp cong: map_cong)
  also have "\<dots> = map (eval I (value_in cs row)) es" using assms(3) by (metis list_update_id nth_map)
  finally show ?thesis by (simp add: o_def)
qed

text \<open>The first expression with a subquery leaves the list; the others keep their places.\<close>

lemma subquery_indices_update:
  assumes "subquery_indices es = i # js" and "\<not> has_subquery e"
  shows "subquery_indices (es[i := e]) = js"
proof -
  have "i \<in> set (subquery_indices es)" using assms(1) by simp
  then have i: "i < length es" by (auto simp: subquery_indices_def)
  have "subquery_indices (es[i := e]) = filter (\<lambda>k. k \<noteq> i) (subquery_indices es)"
    using i assms(2) by (auto simp: subquery_indices_def nth_list_update intro!: filter_cong)
  moreover have "i \<notin> set js"
    using assms(1) distinct_filter [of "[0 ..< length es]" "\<lambda>i. has_subquery (es ! i)"]
    by (auto simp: subquery_indices_def)
  ultimately show ?thesis using assms(1) by (simp add: filter_id_conv) (metis filter_True)
qed

lemma subquery_indices_bounds:
  assumes "subquery_indices es = i # js"
  shows "i < length es" and "has_subquery (es ! i)" and "\<forall>j \<in> set js. i < j"
proof -
  have "i \<in> set (subquery_indices es)" using assms by simp
  then show "i < length es" "has_subquery (es ! i)" by (auto simp: subquery_indices_def)
  have "sorted_wrt (<) (subquery_indices es)"
    unfolding subquery_indices_def by (rule sorted_wrt_filter) (simp add: strict_sorted_iff)
  then show "\<forall>j \<in> set js. i < j" using assms by simp
qed

lemma subquery_alias_inject [simp]: "subquery_alias i = subquery_alias j \<longleftrightarrow> i = j"
  by (auto simp: subquery_alias_def dest: arg_cong [of _ _ digits_val])

text \<open>The projections of a plan, each with at most one subquery.\<close>

fun at_most_one :: "plan \<Rightarrow> bool" where
  "at_most_one (OtherPlan txt cs) = True"
| "at_most_one (Projection es inp) \<longleftrightarrow> length (subquery_indices es) \<le> 1 \<and> at_most_one inp"

lemma inner_has_one: "length (subquery_indices (map PColumn cs @ [e])) \<le> 1"
proof -
  have "subquery_indices (map PColumn cs @ [e]) = filter (\<lambda>i. has_subquery (if i = length cs then e else PColumn (cs ! i))) [0 ..< Suc (length cs)]"
    unfolding subquery_indices_def by (rule filter_cong) (auto simp: nth_append)
  also have "\<dots> = filter (\<lambda>i. has_subquery e) [length cs ..< Suc (length cs)]"
    by simp
  finally show ?thesis by simp
qed

text \<open>
  The columns of a plan after the rule: an expression that is moved, which all but the last with
  a subquery are, keeps the name of its alias but not its qualifier, and has the rule's own name
  when it has no alias.
\<close>

definition moved_field :: "nat \<Rightarrow> plan_expr \<Rightarrow> column" where
  "moved_field i e = (None, case e of PAlias rel e' nm \<Rightarrow> nm | _ \<Rightarrow> subquery_alias i)"

definition columns_after :: "(plan_expr \<Rightarrow> string) \<Rightarrow> plan_expr list \<Rightarrow> column list" where
  "columns_after name es =
     map (\<lambda>i. if i \<in> set (butlast (subquery_indices es)) then moved_field i (es ! i) else field_of name (es ! i))
       [0 ..< length es]"

lemma columns_after_one: "length (subquery_indices es) \<le> 1 \<Longrightarrow> columns_after name es = map (field_of name) es"
  by (cases "subquery_indices es") (auto simp: columns_after_def intro!: nth_equalityI)

lemma columns_after_step:
  assumes "subquery_indices es = i # j # js" and "base_and_alias (es ! i) = (base, nm)"
  shows "columns_after name (es[i := outer_reference (subquery_alias i) nm]) = columns_after name es"
proof -
  let ?o = "outer_reference (subquery_alias i) nm"
  have rest: "subquery_indices (es[i := ?o]) = j # js" by (rule subquery_indices_update [OF assms(1)]) simp
  have "field_of name ?o = moved_field i (es ! i)"
    using assms(2) by (auto simp: base_and_alias_def outer_reference_def field_of_def moved_field_def split: plan_expr.splits)
  moreover have "i \<notin> set (j # js)" using subquery_indices_bounds(3) [OF assms(1)] by auto
  then have "i \<notin> set (butlast (j # js))" by (meson in_set_butlastD)
  ultimately show ?thesis
    using subquery_indices_bounds(1) [OF assms(1)]
    unfolding columns_after_def rest assms(1) by (auto simp: nth_list_update)
qed

text \<open>What one application does.\<close>

lemma split_step:
  assumes inds: "subquery_indices es = i # j # js" and ok: "splittable name i es inp"
    and p: "p = Projection (es[i := outer_reference (subquery_alias i) nm])
           (Projection (map PColumn (plan_columns name inp) @ [PAlias None base (subquery_alias i)]) inp)"
    and bn: "base_and_alias (es ! i) = (base, nm)"
  shows "plan_rows I name p = plan_rows I name (Projection es inp)"
    and "splittable name j (es[i := outer_reference (subquery_alias i) nm])
           (Projection (map PColumn (plan_columns name inp) @ [PAlias None base (subquery_alias i)]) inp)"
proof -
  let ?cs = "plan_columns name inp"
  note i = subquery_indices_bounds [OF inds]
  have fresh: "(None, subquery_alias i) \<notin> set ?cs" and used: "\<forall>e \<in> set es. columns_in e \<subseteq> set ?cs"
    using ok by (auto simp: splittable_def)
  show "plan_rows I name p = plan_rows I name (Projection es inp)"
    unfolding p plan_rows.simps inner_columns using split_keeps_row [OF used fresh i(1) bn, of I]
    by (simp add: o_def)
  have "columns_in (outer_reference (subquery_alias i) nm) = {(None, subquery_alias i)}"
    by (simp add: outer_reference_def split: option.split)
  moreover have "i < j" using i(3) by simp
  ultimately show "splittable name j (es[i := outer_reference (subquery_alias i) nm])
           (Projection (map PColumn ?cs @ [PAlias None base (subquery_alias i)]) inp)"
    using ok used by (auto simp: splittable_def inner_columns dest!: set_update_subset_insert [THEN subsetD])
qed

section \<open>As often as the optimizer likes\<close>

fun split_passes ::
  "(plan_expr list \<Rightarrow> plan \<Rightarrow> (string, plan) result) \<Rightarrow> (plan_expr \<Rightarrow> string) \<Rightarrow> nat \<Rightarrow> plan \<Rightarrow> (string, plan) result"
where
  "split_passes build name 0 p = Inr p"
| "split_passes build name (Suc n) p =
     (case split_scalar_subqueries build name p of
        Inl err \<Rightarrow> Inl err
      | Inr None \<Rightarrow> Inr p
      | Inr (Some p') \<Rightarrow> split_passes build name n p')"

text \<open>A plan after some passes, against the plan before.\<close>

definition split_of :: "'v meaning \<Rightarrow> (plan_expr \<Rightarrow> string) \<Rightarrow> plan_expr list \<Rightarrow> plan \<Rightarrow> plan \<Rightarrow> bool" where
  "split_of I name es inp p' \<longleftrightarrow>
     at_most_one p' \<and> plan_rows I name p' = plan_rows I name (Projection es inp) \<and>
     plan_columns name p' = columns_after name es"

lemma map_sum_iff:
  "map_sum f g x = Inr y \<longleftrightarrow> (\<exists>z. x = Inr z \<and> y = g z)" "map_sum f g x = Inl err \<longleftrightarrow> (\<exists>z. x = Inl z \<and> err = f z)"
  by (cases x; auto)+

lemma split_passes_end:
  assumes build: "builds build"
  shows "length (subquery_indices es) \<le> Suc n \<Longrightarrow>
    \<forall>i js. subquery_indices es = i # js \<longrightarrow> splittable name i es inp \<Longrightarrow> at_most_one inp \<Longrightarrow>
    case split_passes build name n (Projection es inp) of
      Inl err \<Rightarrow> \<exists>es' inp'. build es' inp' = Inl err
    | Inr p' \<Rightarrow> split_of I name es inp p'"
proof (induction n arbitrary: es inp)
  case 0
  then show ?case by (simp add: split_of_def plan_columns_def columns_after_one)
next
  case (Suc n)
  show ?case
  proof (cases "length (subquery_indices es) \<le> 1")
    case True
    then have "split_scalar_subqueries build name (Projection es inp) = Inr None"
      by (auto simp: split_scalar_subqueries_def split: list.splits)
    then show ?thesis using True Suc.prems(3) by (simp add: split_of_def plan_columns_def columns_after_one)
  next
    case False
    then obtain i j js where inds: "subquery_indices es = i # j # js"
      by (cases "subquery_indices es" rule: remdups_adj.cases) auto
    obtain base nm where bn: "base_and_alias (es ! i) = (base, nm)" by fastforce
    define es' where "es' = es[i := outer_reference (subquery_alias i) nm]"
    define inner where "inner = Projection (map PColumn (plan_columns name inp) @ [PAlias None base (subquery_alias i)]) inp"
    show ?thesis
    proof (cases "split_scalar_subqueries build name (Projection es inp)")
      case (Inl err)
      then show ?thesis
        by (auto simp: split_scalar_subqueries_def inds bn Let_def map_sum_iff split: sum.splits)
    next
      case (Inr q)
      then obtain p where "q = Some p"
        by (auto simp: split_scalar_subqueries_def inds bn Let_def map_sum_iff split: sum.splits)
      then have step: "split_scalar_subqueries build name (Projection es inp) = Inr (Some p)" using Inr by simp
      from split_result [OF step build] obtain i' j' js' base' nm' where "subquery_indices es = i' # j' # js'"
        "base_and_alias (es ! i') = (base', nm')"
        "p = Projection (es[i' := outer_reference (subquery_alias i') nm'])
           (Projection (map PColumn (plan_columns name inp) @ [PAlias None base' (subquery_alias i')]) inp)" .
      with inds bn have p: "p = Projection es' inner" by (simp add: es'_def inner_def)
      have inds': "subquery_indices es' = j # js" unfolding es'_def by (rule subquery_indices_update [OF inds]) simp
      have ok: "splittable name i es inp" using Suc.prems(2) inds by blast
      note did = split_step [OF inds ok _ bn, of "Projection es' inner", folded es'_def inner_def, OF refl]
      have "at_most_one inner" using Suc.prems(3) inner_has_one by (simp add: inner_def)
      moreover have "columns_after name es' = columns_after name es"
        unfolding es'_def by (rule columns_after_step [OF inds bn])
      ultimately show ?thesis
        using Suc.IH [of es' inner] Suc.prems(1) inds inds' did step p
        by (auto simp: split_of_def split: sum.splits)
    qed
  qed
qed

text \<open>
  C18. Applied as often as a projection has expressions, the rule either ends with an error of
  DataFusion's construction of a projection, or leaves at most one expression with scalar
  subqueries in every projection and all rows as they were. Of the columns, those of moved
  expressions keep the names of their aliases, but not the tables these are qualified with,
  and without an alias they get the rule's own names; all others are as before. The expressions
  use columns of their input, and no column is called like the rule's own.
\<close>

theorem subqueries_are_split:
  assumes "builds build"
    and "\<forall>e \<in> set es. columns_in e \<subseteq> set (plan_columns name inp)"
    and "\<forall>k. (None, subquery_alias k) \<notin> set (plan_columns name inp)"
    and "at_most_one inp"
  shows "case split_passes build name (length es) (Projection es inp) of
      Inl err \<Rightarrow> \<exists>es' inp'. build es' inp' = Inl err
    | Inr p' \<Rightarrow> at_most_one p' \<and> plan_rows I name p' = plan_rows I name (Projection es inp) \<and>
        plan_columns name p' = columns_after name es"
proof -
  have "length (subquery_indices es) \<le> length es"
    by (metis length_filter_le length_upt minus_nat.diff_0 subquery_indices_def)
  moreover have "splittable name i es inp" for i using assms(2,3) by (simp add: splittable_def)
  ultimately show ?thesis
    using split_passes_end [OF assms(1), of es "length es" name inp I] assms(4)
    by (simp add: split_of_def split: sum.splits)
qed

definition three_subqueries :: "plan_expr list" where
  "three_subqueries =
     [PAlias None (PSubquery ''p'' []) ''x'', PColumn (Some ''t'', ''a''), PAlias None (PSubquery ''q'' [(Some ''t'', ''a'')]) ''y'',
      PAlias None (PNode ''+'' [PSubquery ''r'' [], PColumn (Some ''t'', ''a'')]) ''z'']"

theorem subqueries_are_split_witness:
  "\<exists>p'. split_passes (\<lambda>es inp. Inr (Projection es inp)) (\<lambda>_. []) 4
       (Projection three_subqueries (OtherPlan ''t'' [(Some ''t'', ''a'')])) = Inr p' \<and> at_most_one p' \<and>
     plan_columns (\<lambda>_. []) p' = [(None, ''x''), (Some ''t'', ''a''), (None, ''y''), (None, ''z'')]"
proof -
  let ?build = "\<lambda>es inp. Inr (Projection es inp) :: (string, plan) result"
  let ?inp = "OtherPlan ''t'' [(Some ''t'', ''a'')]"
  have four: "length three_subqueries = 4" by (simp add: three_subqueries_def)
  have columns: "columns_after (\<lambda>_. []) three_subqueries = [(None, ''x''), (Some ''t'', ''a''), (None, ''y''), (None, ''z'')]"
    "\<forall>e \<in> set three_subqueries. columns_in e \<subseteq> set (plan_columns (\<lambda>_. []) ?inp)"
    "\<forall>k. (None, subquery_alias k) \<notin> set (plan_columns (\<lambda>_. []) ?inp)"
    by (simp_all add: three_subqueries_def plan_columns_def columns_after_def subquery_indices_def moved_field_def
        field_of_def upt_rec)
  have "builds ?build" by (simp add: builds_def)
  from subqueries_are_split [OF this columns(2,3), of undefined, unfolded four columns(1)]
  show ?thesis by (auto split: sum.splits)
qed

section \<open>Where the rule stops\<close>

text \<open>
  Several subqueries in one expression stay together, a subquery without alias gets another name,
  and one with a qualified alias loses the qualifier.
\<close>

lemma one_expression_is_not_split:
  "has_subquery e \<Longrightarrow> split_scalar_subqueries build name (Projection [e] inp) = Inr None"
  by (simp add: split_scalar_subqueries_def subquery_indices_def)

lemma subquery_without_alias_is_renamed:
  "split_scalar_subqueries (\<lambda>es inp. Inr (Projection es inp)) name
     (Projection [PSubquery p [], PSubquery q []] (OtherPlan txt cs)) = Inr (Some r) \<Longrightarrow>
   plan_columns name r = [(None, subquery_alias 0), (None, name (PSubquery q []))]"
  by (auto simp: split_scalar_subqueries_def subquery_indices_def base_and_alias_def outer_reference_def
      plan_columns_def field_of_def Let_def)

lemma qualified_alias_loses_its_table:
  "split_scalar_subqueries (\<lambda>es inp. Inr (Projection es inp)) name
     (Projection [PAlias (Some t) (PSubquery p []) a, PSubquery q []] (OtherPlan txt cs)) = Inr (Some r) \<Longrightarrow>
   plan_columns name r = [(None, a), (None, name (PSubquery q []))]"
  by (auto simp: split_scalar_subqueries_def subquery_indices_def base_and_alias_def outer_reference_def
      plan_columns_def field_of_def Let_def)

end
