(* ===== verification/Spec2Isabelle.thy ===== *)
theory Spec2Isabelle
  imports Catalog_Props Wal_Props Sql_Props Constraint_Props Access_Props Arrow_Props Txn_Props
    Run_Props Dispatch_Props Fulltext_Props Statement_Props Display_Props Repl_Props Server_Props Server_Start Http
    Tui_Draw_Props Binding_Props Command_Line Type_Props Change_Log_Props Plan_Rules
begin

text \<open>
  PotatoDB is an embedded SQL database in Rust. The crate \<^verbatim>\<open>engine\<close> takes the text of a
  statement, recognises many statements by that text, hands the rest to the sqlparser crate and
  then to its own handlers or to DataFusion, and keeps tables as Parquet files in an object
  store. The crate \<^verbatim>\<open>catalog\<close> keeps what exists (tables, indexes, sequences, users, views ...) and
  saves it as JSON; the crate \<^verbatim>\<open>wal\<close> has the log of statements and the log of inserted batches
  from which a database that was not closed is recovered. Around the engine are a terminal
  interface (\<^verbatim>\<open>tui\<close>), a line interface (\<^verbatim>\<open>repl\<close>), servers (\<^verbatim>\<open>server\<close> for the PostgreSQL protocol,
  \<^verbatim>\<open>http\<close>), bindings for C and Python (\<^verbatim>\<open>ffi\<close>, \<^verbatim>\<open>python\<close>), the rendering of results (\<^verbatim>\<open>display\<close>)
  and the program that starts one of them (\<^verbatim>\<open>potatodb\<close>).

  \<^bold>\<open>How the program is modelled.\<close> A structure of the source is a record with its fields, an
  enumeration a datatype with its constructors. A function of the source is a definition of the
  same name, with all its branches; a \<^verbatim>\<open>Result\<close> is \<open>string + 'a\<close> with the error's text on the
  left. \<^verbatim>\<open>u64\<close> counters are \<open>nat\<close>, \<^verbatim>\<open>i64\<close> values \<open>int\<close>, with the checks, saturation or wrap-around of
  the source written out; bytes are words. A \<^verbatim>\<open>HashMap\<close> is a list of pairs with distinct keys,
  whose order stands for the unspecified order of iteration (\<open>Hash_Map\<close>). An asynchronous method of
  \<^verbatim>\<open>PotatoDB\<close> is an action (\<open>Effects\<close>): from the engine and the state of the outside to a result, the
  engine and that state. An action stops at the first error, as \<^verbatim>\<open>?\<close> does, and keeps what it has
  changed until then, so partial effects are visible. A statement that executes statements
  (procedures, triggers, DO, EXECUTE, migrations) is a run, which also may not return.

  \<^bold>\<open>What is outside.\<close> Code that is not under \<^verbatim>\<open>src/\<close> is a parameter. The record \<open>world\<close> has the
  operations of DataFusion, sqlparser, the object store, the file system, serde_json and the clock
  that the engine calls, over a state of the outside that no definition looks into;
  \<open>surroundings\<close> has those that opening a database needs. Smaller parameters are the checksum of the
  log (\<open>crc\<close>), the Arrow codec (\<open>ipc\<close>), the stored form of the catalog (\<open>json_codec\<close>, \<open>object_store\<close>),
  the parsers of types and numbers (\<open>type_parser\<close>, \<open>scalar_parsers\<close>), the checks of compression levels
  (\<open>level_checks\<close>), Arrow's formatting and arrays (\<open>array_format\<close>, \<open>py_arrays\<close>, \<open>pg_arrays\<close>, \<open>c_arrays\<close>),
  the division of the screen (\<open>layout\<close>), the reading of certificates (\<open>tls_files\<close>) and DataFusion's
  plan builder. A property that needs a law of one of them has it as a hypothesis (that the codec
  reads what it wrote, that the store returns what was put, that a line of JSON has no line break),
  and its witness gives a concrete function that has the law.

  \<^bold>\<open>The theories.\<close> Shared: \<open>Prelude\<close> (results, 64-bit arithmetic, lists), \<open>Hash_Map\<close>, \<open>Rust_Text\<close> (strings
  of the standard library), \<open>Rust_Float\<close>, \<open>Utf8\<close>, \<open>Json\<close>.
  \<^item> \<open>Catalog\<close>: \<^verbatim>\<open>crates/catalog/src/lib.rs\<close>. \<open>Catalog_Props\<close>: every sequence of operations keeps the
    catalog well-formed, a clean catalog is the stored one, an open transaction stores nothing, and a
    restored snapshot is what a reload finds.
  \<^item> \<open>Wal\<close>, \<open>Arrow_Wal\<close>, \<open>Journal\<close>: \<^verbatim>\<open>crates/wal/src/lib.rs\<close> down to the bytes,
    \<^verbatim>\<open>crates/wal/src/arrow_wal.rs\<close>, and the engine's use of both with \<^verbatim>\<open>checkpoint_policy.rs\<close>.
    \<open>Wal_Props\<close>: what recovery returns from an intact file, one cut at any byte and a damaged one, and
    what a crash keeps of a transaction. \<open>Arrow_Props\<close>: the directory of batch files refines a map from
    tables to the batches appended since the last checkpoint.
  \<^item> \<open>Sql_Text\<close>, \<open>Sql_Scan\<close>, \<open>Sql_Functions\<close>, \<open>Sql_Types\<close>: \<^verbatim>\<open>sql_helpers.rs\<close> and the functions on
    statement texts of the engine. \<open>Query_Trees\<close>, \<open>Plan_Rules\<close>: the walks over sqlparser's trees and the
    optimizer rule. \<open>Sql_Props\<close>: scripts are split into their statements whatever their literals and
    comments hold. \<open>Type_Props\<close>: the columns that CREATE TABLE AS leaves in the catalog, and their types.
  \<^item> \<open>Constraints\<close>, \<open>Access\<close>, \<open>Fulltext\<close>, \<open>Change_Log\<close>: the four subsystems of the engine that can be
    read alone, with \<open>Constraint_Props\<close> (keys stay unique, the cache of keys is exact),
    \<open>Access_Props\<close> (what GRANT changes in the check, and that rights on tables change nothing), \<open>Fulltext_Props\<close>
    (searching an index that inserts kept up is scanning the texts)
    and \<open>Change_Log_Props\<close> (a restart reads the same log).
  \<^item> \<open>Arrow_Values\<close>, \<open>Engine\<close>, \<open>Effects\<close>, \<open>Storage\<close>, \<open>Write_Buffer\<close>, \<open>Txn_Control\<close>, \<open>Session_Objects\<close>,
    \<open>Ddl\<close>, \<open>Schema_Objects\<close>, \<open>Maintenance\<close>, \<open>Backup\<close>, \<open>Statements\<close>, \<open>Dml\<close>, \<open>Dml_Bulk\<close>, \<open>Dispatch\<close>, \<open>Settings\<close>:
    \<^verbatim>\<open>crates/engine/src/lib.rs\<close> in the order in which its parts use each other; \<open>execute\<close> in \<open>Dispatch\<close>
    composes them. \<open>Frames\<close> and \<open>Row_Frames\<close> say once what operations leave alone.
    \<open>Write_Buffer_Props\<close>: the buffer is what recovery from the Arrow log returns, and where rows are
    lost or come back. \<open>Txn_Props\<close>: which catalog ROLLBACK restores, and a COMMIT that fails.
    \<open>Schema_Props\<close>, \<open>Index_Props\<close>: after any script that \<open>execute\<close> runs, every index is sound and the session
    agrees with its catalog on the open transaction; the two concerns are one invariant with a parameter.
    \<open>Run_Props\<close>: when execution ends. \<open>Dispatch_Props\<close>: what the access check guards in \<open>execute\<close>, and what a
    denied statement leaves behind.
    \<open>Statement_Props\<close>: the counts of an upsert, and that MIGRATE ends.
  \<^item> \<open>Display\<close>, \<open>Repl\<close>, \<open>Tui_Text\<close>, \<open>Tui_App\<close>, \<open>Tui_Draw\<close>, \<open>Tui_Session\<close>, \<open>Server\<close>, \<open>Server_Start\<close>, \<open>Http\<close>,
    \<open>C_Binding\<close>, \<open>Python_Binding\<close>, \<open>Command_Line\<close>: the crates around the engine, with
    \<open>Display_Props\<close>, \<open>Repl_Props\<close>, \<open>Tui_Props\<close> (the keys as a state machine that does not panic on
    ASCII, exports and history that are read back), \<open>Tui_Draw_Props\<close> (popups, cursor and bars of a
    frame), \<open>Server_Props\<close> (bound parameters, and queries that pass no access check) and
    \<open>Binding_Props\<close>.

  \<^bold>\<open>Interfaces.\<close> Where a component relies on another, what it relies on is a locale, interpreted on the
  model's own definitions where they are.
  \<^item> \<open>hash_map\<close> and \<open>hash_map_iter\<close> are the laws of maps, given by \<open>Hash_Map\<close> and used by the catalog.
  \<^item> \<open>snapshot_store\<close> is what a transaction needs of the catalog: a snapshot restored after any
    operations.
  \<^item> \<open>journal\<close> is a log with an abstraction, interpreted for the synced and the unsynced append.
  \<^item> \<open>storage_frame\<close>, \<open>txn_frame\<close> and \<open>row_frame\<close>, each extending the one before, are the parts of the engine
    that files and caches, flushing, and the change of rows leave alone; their interpretations
    are the write path, the state of transactions, access rights, the statement log, the indexes,
    and the objects that hold statements.
  \<^item> \<open>growing_executor\<close> and \<open>sound_executor\<close> are what the handlers that execute statements may assume of
    the executor; \<open>execute\<close> at any depth is an interpretation of both.

  \<^bold>\<open>Bounds and fuel.\<close>
  \<^item> \<open>execute\<close> has a depth for statements inside statements, and a run that needs more does not return.
    The depth is of the model; that it decides only whether a statement returns, never what, is a lemma
    (\<open>deeper_execution_agrees\<close>). A statement in an engine without
    stored statements returns at depth one; and a procedure that calls itself returns at none, as
    the source recurses without an end.
  \<^item> The names of batch files have six digits and are sorted as texts, so the order of recovery is
    proved below a million appends.
  \<^item> A type text is parsed with a depth for nested lists, one for each level of nesting.
  \<^item> The optimizer rule is applied as often as a projection has expressions, which is enough for it to
    end.
  \<^item> All scanners and loops else are recursive on their input and total.

  \<^bold>\<open>Panics.\<close> A panic of the engine is the error value \<open>panic\<close>, with the state reached until
  then; one of the terminal interface, which ends the program, is \<open>None\<close>. Coordinates of the
  screen are 16-bit values that wrap, as in a release build.

  \<^bold>\<open>Not modelled.\<close>
  \<^item> What other crates do: the execution of queries and the methods of the table provider that only
    call the inner provider (DataFusion), parsing and printing SQL (sqlparser), dividing and painting the
    screen (ratatui), the line editor (rustyline), the wire protocol, TLS and sockets (pgwire, tokio),
    routing and responses (axum), and the arguments of the command line (clap).
  \<^item> Failures of the files under the two logs, and settings that concern only DataFusion or S3 once they
    are read.
  \<^item> Concurrency inside one engine: the front ends hold a lock around a statement, so a history is a
    sequence of statements. Work that a statement starts in parallel is taken in order. A stream of
    batches is modelled by its whole result.
  \<^item> Freeing memory in the C interface, the Node.js crate (a stub), the examples, which measure the
    engine, and the tests.
\<close>

end
